(* ===== verification/Prelude.thy ===== *)
theory Prelude
  imports Main "HOL-Library.Word" "HOL-Library.Sublist"
begin

text \<open>
  Shared vocabulary of the development.

  \<^item> State-and-error actions: a Go method that reads and writes the database and may
    return an error is a function \<open>'s \<Rightarrow> ('e + 'a) \<times> 's\<close>; \<open>andThen\<close> is the
    \<open>if err != nil { return err }\<close> idiom, \<open>on_err\<close> an error-translating return.
    The collection \<open>ok_iff\<close> turns "this composite action returned a value" into the
    facts about its parts; \<open>run_simps\<close> evaluates actions.
  \<^item> Byte strings: the parts of Go's package strings the program calls, on their ASCII
    behaviour (Unicode case mapping and Unicode white space are not modelled).
  \<^item> Half-open intervals, and lists of rows in which no two rows conflict: the common
    shape of every PostgreSQL exclusion and uniqueness constraint of the schema.
\<close>

named_theorems ok_iff "an action returned a value iff its parts did"
named_theorems run_simps "evaluation of actions"

section \<open>Actions: state passing with errors as values\<close>

type_synonym ('s, 'e, 'a) action = "'s \<Rightarrow> ('e + 'a) \<times> 's"

definition ret :: "'a \<Rightarrow> ('s, 'e, 'a) action" where
  "ret x s = (Inr x, s)"

definition throw :: "'e \<Rightarrow> ('s, 'e, 'a) action" where
  "throw e s = (Inl e, s)"

definition andThen :: "('s, 'e, 'a) action \<Rightarrow> ('a \<Rightarrow> ('s, 'e, 'b) action) \<Rightarrow> ('s, 'e, 'b) action" where
  "andThen m k s = (case m s of (Inl e, s') \<Rightarrow> (Inl e, s') | (Inr x, s') \<Rightarrow> k x s')"

definition on_err :: "('e \<Rightarrow> 'e) \<Rightarrow> ('s, 'e, 'a) action \<Rightarrow> ('s, 'e, 'a) action" where
  "on_err h m s = (case m s of (Inl e, s') \<Rightarrow> (Inl (h e), s') | (Inr x, s') \<Rightarrow> (Inr x, s'))"

definition lift_res :: "('e + 'a) \<Rightarrow> ('s, 'e, 'a) action" where
  "lift_res r s = (r, s)"

definition query :: "('s \<Rightarrow> 'a) \<Rightarrow> ('s, 'e, 'a) action" where
  "query f s = (Inr (f s), s)"

definition query_res :: "('s \<Rightarrow> 'e + 'a) \<Rightarrow> ('s, 'e, 'a) action" where
  "query_res f s = (f s, s)"

definition ensure :: "bool \<Rightarrow> 'e \<Rightarrow> ('s, 'e, unit) action" where
  "ensure b e s = (if b then Inr () else Inl e, s)"

definition exec :: "('s \<Rightarrow> 'e + 's) \<Rightarrow> ('s, 'e, unit) action" where
  "exec f s = (case f s of Inl e \<Rightarrow> (Inl e, s) | Inr s' \<Rightarrow> (Inr (), s'))"

lemma ret_run [run_simps, simp]: "ret x s = (Inr x, s)"
  by (simp add: ret_def)

lemma throw_run [run_simps, simp]: "throw e s = (Inl e, s)"
  by (simp add: throw_def)

lemma lift_res_run [run_simps, simp]: "lift_res r s = (r, s)"
  by (simp add: lift_res_def)

lemma query_run [run_simps, simp]: "query f s = (Inr (f s), s)"
  by (simp add: query_def)

lemma query_res_run [run_simps, simp]: "query_res f s = (f s, s)"
  by (simp add: query_res_def)

lemma ensure_run [run_simps, simp]: "ensure b e s = (if b then Inr () else Inl e, s)"
  by (simp add: ensure_def)

lemma andThen_ok [ok_iff]:
  "andThen m k s = (Inr y, s') \<longleftrightarrow> (\<exists>x s1. m s = (Inr x, s1) \<and> k x s1 = (Inr y, s'))"
  by (auto simp: andThen_def split: prod.splits sum.splits)

lemma andThen_err:
  "andThen m k s = (Inl e, s') \<longleftrightarrow>
     m s = (Inl e, s') \<or> (\<exists>x s1. m s = (Inr x, s1) \<and> k x s1 = (Inl e, s'))"
  by (auto simp: andThen_def split: prod.splits sum.splits)

lemma on_err_ok [ok_iff]: "on_err h m s = (Inr y, s') \<longleftrightarrow> m s = (Inr y, s')"
  by (auto simp: on_err_def split: prod.splits sum.splits)

lemma on_err_err: "on_err h m s = (Inl e, s') \<longleftrightarrow> (\<exists>e'. m s = (Inl e', s') \<and> e = h e')"
  by (auto simp: on_err_def split: prod.splits sum.splits)

lemma exec_ok [ok_iff]: "exec f s = (Inr u, s') \<longleftrightarrow> f s = Inr s'"
  by (auto simp: exec_def split: sum.splits)

lemma exec_err: "exec f s = (Inl e, s') \<longleftrightarrow> f s = Inl e \<and> s' = s"
  by (auto simp: exec_def split: sum.splits)

lemma ensure_ok [ok_iff]: "ensure b e s = (Inr u, s') \<longleftrightarrow> b \<and> s' = s"
  by auto

lemma andThen_run_Inr [run_simps]: "m s = (Inr x, s1) \<Longrightarrow> andThen m k s = k x s1"
  by (simp add: andThen_def)

lemma andThen_run_Inl [run_simps]: "m s = (Inl e, s1) \<Longrightarrow> andThen m k s = (Inl e, s1)"
  by (simp add: andThen_def)

text \<open>An action that never changes the state it reads.\<close>

definition readonly :: "('s, 'e, 'a) action \<Rightarrow> bool" where
  "readonly m \<longleftrightarrow> (\<forall>s. snd (m s) = s)"

lemma readonlyI [intro]: "(\<And>s. snd (m s) = s) \<Longrightarrow> readonly m"
  by (simp add: readonly_def)

lemma readonlyD: "readonly m \<Longrightarrow> m s = (r, s') \<Longrightarrow> s' = s"
  unfolding readonly_def by (metis snd_conv)

lemma readonly_andThen [intro]:
  assumes "readonly m" and "\<And>x. readonly (k x)"
  shows "readonly (andThen m k)"
proof
  fix s
  obtain r s1 where m: "m s = (r, s1)" by force
  then have "s1 = s" using assms(1) by (rule readonlyD [rotated])
  then show "snd (andThen m k s) = s"
    using m assms(2) unfolding andThen_def readonly_def by (cases r) auto
qed

lemma readonly_on_err [intro]: "readonly m \<Longrightarrow> readonly (on_err h m)"
  unfolding readonly_def on_err_def by (auto split: prod.splits sum.splits) (metis snd_conv)+

lemma readonly_query [simp]: "readonly (query f)"
  by auto

lemma readonly_query_res [simp]: "readonly (query_res f)"
  by auto

lemma readonly_ensure [simp]: "readonly (ensure b e)"
  by auto

lemma readonly_lift_res [simp]: "readonly (lift_res r)"
  by auto

lemma readonly_ret [simp]: "readonly (ret x)"
  by auto

lemma readonly_throw [simp]: "readonly (throw e)"
  by auto

text \<open>An action that keeps a property of the state, whatever it returns.\<close>

definition preserves :: "('s \<Rightarrow> bool) \<Rightarrow> ('s, 'e, 'a) action \<Rightarrow> bool" where
  "preserves I m \<longleftrightarrow> (\<forall>s. I s \<longrightarrow> I (snd (m s)))"

lemma preservesI: "(\<And>s r s'. I s \<Longrightarrow> m s = (r, s') \<Longrightarrow> I s') \<Longrightarrow> preserves I m"
  unfolding preserves_def by (metis prod.collapse)

lemma preservesD: "preserves I m \<Longrightarrow> m s = (r, s') \<Longrightarrow> I s \<Longrightarrow> I s'"
  unfolding preserves_def by (metis snd_conv)

lemma preserves_readonly: "readonly m \<Longrightarrow> preserves I m"
  by (rule preservesI) (auto dest: readonlyD)

lemma preserves_andThen:
  assumes "preserves I m" and "\<And>x. preserves I (k x)"
  shows "preserves I (andThen m k)"
proof (rule preservesI)
  fix s r s'
  assume I: "I s" and run: "andThen m k s = (r, s')"
  obtain r1 s1 where m: "m s = (r1, s1)" by (rule prod.exhaust)
  have "I s1" using preservesD [OF assms(1) m I] .
  then show "I s'"
    using run m preservesD [OF assms(2)] by (cases r1) (auto simp: andThen_def)
qed

lemma preserves_on_err: "preserves I m \<Longrightarrow> preserves I (on_err h m)"
  unfolding preserves_def on_err_def by (auto split: prod.splits sum.splits)

lemma preserves_if: "preserves I m \<Longrightarrow> preserves I n \<Longrightarrow> preserves I (if b then m else n)"
  by simp

lemmas preserves_intros = preserves_andThen preserves_on_err preserves_if

text \<open>An action that always returns an error and changes nothing.\<close>

definition refuses :: "('s, 'e, 'a) action \<Rightarrow> bool" where
  "refuses m \<longleftrightarrow> (\<forall>s. \<exists>e. m s = (Inl e, s))"

lemma refuses_throw [simp]: "refuses (throw e)"
  by (simp add: refuses_def)

lemma refuses_query_res: "(\<And>s. \<exists>e. f s = Inl e) \<Longrightarrow> refuses (query_res f)"
  by (simp add: refuses_def)

lemma refuses_andThen:
  assumes "refuses m"
  shows "refuses (andThen m k)"
  unfolding refuses_def
proof
  fix s
  obtain e where "m s = (Inl e, s)" using assms by (auto simp: refuses_def)
  then show "\<exists>e. andThen m k s = (Inl e, s)" by (simp add: andThen_def)
qed

lemma refuses_later:
  assumes "readonly m" and "\<And>x. refuses (k x)"
  shows "refuses (andThen m k)"
  unfolding refuses_def
proof
  fix s
  obtain r s1 where m: "m s = (r, s1)" by (rule prod.exhaust)
  then have "s1 = s" using assms(1) by (rule readonlyD [rotated])
  then show "\<exists>e. andThen m k s = (Inl e, s)"
    using m assms(2) by (cases r) (auto simp: andThen_def refuses_def)
qed

section \<open>Results without a state\<close>

definition rbind :: "('e + 'a) \<Rightarrow> ('a \<Rightarrow> 'e + 'b) \<Rightarrow> 'e + 'b" where
  "rbind r k = (case r of Inl e \<Rightarrow> Inl e | Inr x \<Rightarrow> k x)"

definition rguard :: "bool \<Rightarrow> 'e \<Rightarrow> 'e + unit" where
  "rguard b e = (if b then Inr () else Inl e)"

definition rerr :: "('e \<Rightarrow> 'e) \<Rightarrow> ('e + 'a) \<Rightarrow> 'e + 'a" where
  "rerr h r = (case r of Inl e \<Rightarrow> Inl (h e) | Inr x \<Rightarrow> Inr x)"

lemma rbind_ok [ok_iff]: "rbind r k = Inr y \<longleftrightarrow> (\<exists>x. r = Inr x \<and> k x = Inr y)"
  by (auto simp: rbind_def split: sum.splits)

lemma rguard_ok [ok_iff]: "rguard b e = Inr u \<longleftrightarrow> b"
  by (simp add: rguard_def)

lemma rerr_ok [ok_iff]: "rerr h r = Inr y \<longleftrightarrow> r = Inr y"
  by (auto simp: rerr_def split: sum.splits)

lemma rbind_simps [simp]: "rbind (Inl e) k = Inl e" "rbind (Inr x) k = k x"
  by (simp_all add: rbind_def)

lemma rerr_simps [simp]: "rerr h (Inl e) = Inl (h e)" "rerr h (Inr x) = Inr x"
  by (simp_all add: rerr_def)

lemma rguard_simps [simp]: "rguard True e = Inr ()" "rguard False e = Inl e"
  by (simp_all add: rguard_def)

lemma rbind_err:
  "rbind r k = Inl e \<longleftrightarrow> r = Inl e \<or> (\<exists>x. r = Inr x \<and> k x = Inl e)"
  by (auto simp: rbind_def split: sum.splits)

lemma rerr_err: "rerr h r = Inl e \<longleftrightarrow> (\<exists>e'. r = Inl e' \<and> e = h e')"
  by (auto simp: rerr_def split: sum.splits)

lemma rguard_err: "rguard b e = Inl e' \<longleftrightarrow> \<not> b \<and> e' = e"
  by (auto simp: rguard_def)

section \<open>Byte strings\<close>

text \<open>The white space of \<open>strings.TrimSpace\<close> below \<open>U+0080\<close>.\<close>

definition is_space :: "char \<Rightarrow> bool" where
  "is_space c \<longleftrightarrow> (of_char c :: nat) \<in> {9, 10, 11, 12, 13, 32}"

definition TrimSpace :: "string \<Rightarrow> string" where
  "TrimSpace s = rev (dropWhile is_space (rev (dropWhile is_space s)))"

definition upper_char :: "char \<Rightarrow> char" where
  "upper_char c = (if 97 \<le> (of_char c :: nat) \<and> (of_char c :: nat) \<le> 122
                   then char_of ((of_char c :: nat) - 32) else c)"

definition lower_char :: "char \<Rightarrow> char" where
  "lower_char c = (if 65 \<le> (of_char c :: nat) \<and> (of_char c :: nat) \<le> 90
                   then char_of ((of_char c :: nat) + 32) else c)"

definition ToUpper :: "string \<Rightarrow> string" where
  "ToUpper s = map upper_char s"

definition ToLower :: "string \<Rightarrow> string" where
  "ToLower s = map lower_char s"

definition is_digit :: "char \<Rightarrow> bool" where
  "is_digit c \<longleftrightarrow> 48 \<le> (of_char c :: nat) \<and> (of_char c :: nat) \<le> 57"

lemma dropWhile_id: "xs = [] \<or> \<not> P (hd xs) \<Longrightarrow> dropWhile P xs = xs"
  by (cases xs) auto

lemma dropWhile_hd: "dropWhile P xs = [] \<or> \<not> P (hd (dropWhile P xs))"
  using hd_dropWhile [of P xs] by blast

lemma dropWhile_snoc_keep:
  "xs = [] \<or> \<not> P (hd xs) \<Longrightarrow>
   rev (dropWhile Q (rev xs)) = [] \<or> \<not> P (hd (rev (dropWhile Q (rev xs))))"
proof (induction xs rule: rev_induct)
  case (snoc x xs)
  then show ?case by (cases xs) auto
qed simp

lemma TrimSpace_idem [simp]: "TrimSpace (TrimSpace s) = TrimSpace s"
proof -
  let ?d = "dropWhile is_space"
  let ?u = "?d s"
  have "?d (rev (?d (rev ?u))) = rev (?d (rev ?u))"
    by (rule dropWhile_id, rule dropWhile_snoc_keep, rule dropWhile_hd)
  moreover have "?d (?d (rev ?u)) = ?d (rev ?u)"
    by (rule dropWhile_id, rule dropWhile_hd)
  ultimately show ?thesis by (simp add: TrimSpace_def)
qed

lemma TrimSpace_Nil [simp]: "TrimSpace [] = []"
  by (simp add: TrimSpace_def)

lemma length_TrimSpace: "length (TrimSpace s) \<le> length s"
  unfolding TrimSpace_def
  by (metis (no_types) length_dropWhile_le length_rev order_trans)

lemma length_ToUpper [simp]: "length (ToUpper s) = length s"
  by (simp add: ToUpper_def)

lemma ToUpper_Nil_iff [simp]: "ToUpper s = [] \<longleftrightarrow> s = []"
  by (simp add: ToUpper_def)

lemma ToLower_Nil_iff [simp]: "ToLower s = [] \<longleftrightarrow> s = []"
  by (simp add: ToLower_def)

lemma of_char_lt: "(of_char c :: nat) < 256"
  by (metis char_of_nat nat_of_char_less_256)

lemma is_space_upper [simp]: "is_space (upper_char c) = is_space c"
proof -
  have "(of_char (char_of (of_char c - 32 :: nat)) :: nat) = of_char c - 32"
    by (simp add: of_char_of) (meson less_imp_diff_less mod_less of_char_lt)
  then show ?thesis by (auto simp: is_space_def upper_char_def)
qed

lemma is_space_lower [simp]: "is_space (lower_char c) = is_space c"
proof -
  have "(of_char c :: nat) \<le> 90 \<Longrightarrow> (of_char (char_of (of_char c + 32 :: nat)) :: nat) = of_char c + 32"
    by (simp add: of_char_of take_bit_nat_eq_self)
  then show ?thesis by (auto simp: is_space_def lower_char_def)
qed

lemma TrimSpace_map:
  assumes "\<And>c. is_space (f c) = is_space c"
  shows "TrimSpace (map f s) = map f (TrimSpace s)"
proof -
  have "is_space \<circ> f = is_space" using assms by auto
  then show ?thesis by (simp add: TrimSpace_def dropWhile_map rev_map)
qed

lemma TrimSpace_ToUpper [simp]: "TrimSpace (ToUpper s) = ToUpper (TrimSpace s)"
  by (simp add: ToUpper_def TrimSpace_map)

lemma TrimSpace_ToLower [simp]: "TrimSpace (ToLower s) = ToLower (TrimSpace s)"
  by (simp add: ToLower_def TrimSpace_map)

lemma upper_char_idem [simp]: "upper_char (upper_char c) = upper_char c"
proof -
  have "(of_char (char_of (of_char c - 32 :: nat)) :: nat) = of_char c - 32"
    by (simp add: of_char_of) (meson less_imp_diff_less mod_less of_char_lt)
  then show ?thesis by (auto simp: upper_char_def)
qed

lemma lower_char_idem [simp]: "lower_char (lower_char c) = lower_char c"
proof -
  have "(of_char c :: nat) \<le> 90 \<Longrightarrow> (of_char (char_of (of_char c + 32 :: nat)) :: nat) = of_char c + 32"
    by (simp add: of_char_of take_bit_nat_eq_self)
  then show ?thesis by (auto simp: lower_char_def)
qed

lemma ToUpper_idem [simp]: "ToUpper (ToUpper s) = ToUpper s"
  by (simp add: ToUpper_def)

lemma ToLower_idem [simp]: "ToLower (ToLower s) = ToLower s"
  by (simp add: ToLower_def)

section \<open>Intervals and conflict-free tables\<close>

text \<open>\<open>[a, b)\<close> and \<open>[c, d)\<close> share an instant (PostgreSQL's \<open>&&\<close> on non-empty
  \<open>'[)'\<close> ranges; every table that uses it checks that its ranges are not empty).\<close>

definition overlaps :: "int \<Rightarrow> int \<Rightarrow> int \<Rightarrow> int \<Rightarrow> bool" where
  "overlaps a b c d \<longleftrightarrow> a < d \<and> c < b"

lemma overlaps_sym: "overlaps a b c d \<longleftrightarrow> overlaps c d a b"
  by (auto simp: overlaps_def)

lemma overlaps_instant:
  assumes "a < b" and "c < d"
  shows "overlaps a b c d \<longleftrightarrow> (\<exists>t. a \<le> t \<and> t < b \<and> c \<le> t \<and> t < d)"
proof
  assume "overlaps a b c d"
  with assms have "a \<le> max a c \<and> max a c < b \<and> c \<le> max a c \<and> max a c < d"
    by (auto simp: overlaps_def)
  then show "\<exists>t. a \<le> t \<and> t < b \<and> c \<le> t \<and> t < d" by blast
qed (auto simp: overlaps_def)

text \<open>A table satisfies a uniqueness or exclusion constraint when no two of its rows
  conflict.\<close>

definition conflict_free :: "('r \<Rightarrow> 'r \<Rightarrow> bool) \<Rightarrow> 'r list \<Rightarrow> bool" where
  "conflict_free c rows \<longleftrightarrow> sorted_wrt (\<lambda>x y. \<not> c x y) rows"

lemma conflict_free_Nil [simp]: "conflict_free c []"
  by (simp add: conflict_free_def)

lemma conflict_free_Cons:
  "conflict_free c (x # xs) \<longleftrightarrow> (\<forall>y\<in>set xs. \<not> c x y) \<and> conflict_free c xs"
  by (simp add: conflict_free_def)

text \<open>\<open>UPDATE t SET ... WHERE p\<close>.\<close>

definition update_where :: "('r \<Rightarrow> bool) \<Rightarrow> ('r \<Rightarrow> 'r) \<Rightarrow> 'r list \<Rightarrow> 'r list" where
  "update_where p f rows = map (\<lambda>r. if p r then f r else r) rows"

definition count_where :: "('r \<Rightarrow> bool) \<Rightarrow> 'r list \<Rightarrow> nat" where
  "count_where p rows = length (filter p rows)"

lemma count_where_0: "count_where p rows = 0 \<longleftrightarrow> (\<forall>r\<in>set rows. \<not> p r)"
  by (simp add: count_where_def filter_empty_conv)

lemma set_update_where:
  "set (update_where p f rows) = (\<lambda>r. if p r then f r else r) ` set rows"
  by (simp add: update_where_def)

lemma update_where_id: "(\<And>r. r \<in> set rows \<Longrightarrow> \<not> p r) \<Longrightarrow> update_where p f rows = rows"
  by (simp add: update_where_def map_idI)

lemma length_update_where [simp]: "length (update_where p f rows) = length rows"
  by (simp add: update_where_def)

lemma map_update_where: "(\<And>r. k (f r) = k r) \<Longrightarrow> map k (update_where p f rows) = map k rows"
  by (simp add: update_where_def)

text \<open>The contract shared by every constraint of the schema: what keeps a table
  conflict-free, and what a conflict-free table promises.\<close>

locale exclusion =
  fixes conflict :: "'r \<Rightarrow> 'r \<Rightarrow> bool"
  assumes conflict_sym: "conflict x y \<Longrightarrow> conflict y x"
begin

lemma insert_keeps:
  "conflict_free conflict rows \<Longrightarrow> \<not> list_ex (conflict x) rows \<Longrightarrow>
   conflict_free conflict (rows @ [x])"
  using conflict_sym by (auto simp: conflict_free_def sorted_wrt_append list_ex_iff)

lemma insert_iff:
  "conflict_free conflict (rows @ [x]) \<longleftrightarrow>
   conflict_free conflict rows \<and> \<not> list_ex (conflict x) rows"
  using conflict_sym by (auto simp: conflict_free_def sorted_wrt_append list_ex_iff)

lemma insert_two_iff:
  "conflict_free conflict (rows @ [x, y]) \<longleftrightarrow>
   conflict_free conflict rows \<and> \<not> list_ex (conflict x) rows
     \<and> \<not> list_ex (conflict y) rows \<and> \<not> conflict y x"
  using insert_iff [of "rows @ [x]" y] insert_iff [of rows x] by simp

lemma no_two:
  assumes "conflict_free conflict rows" and "i < length rows" and "j < length rows" and "i \<noteq> j"
  shows "\<not> conflict (rows ! i) (rows ! j)"
proof (cases "i < j")
  case True
  then show ?thesis using assms by (auto simp: conflict_free_def sorted_wrt_iff_nth_less)
next
  case False
  then have "j < i" using assms by simp
  then have "\<not> conflict (rows ! j) (rows ! i)"
    using assms by (auto simp: conflict_free_def sorted_wrt_iff_nth_less)
  then show ?thesis using conflict_sym by blast
qed

lemma no_two_rows:
  "conflict_free conflict rows \<Longrightarrow> x \<in> set rows \<Longrightarrow> y \<in> set rows \<Longrightarrow> x \<noteq> y \<Longrightarrow>
   \<not> conflict x y"
  by (metis in_set_conv_nth no_two)

lemma update_keeps:
  assumes ok: "conflict_free conflict rows"
    and mono: "\<And>x y. conflict (if p x then f x else x) (if p y then f y else y) \<Longrightarrow> conflict x y"
  shows "conflict_free conflict (update_where p f rows)"
proof -
  have "sorted_wrt (\<lambda>x y. \<not> conflict (if p x then f x else x) (if p y then f y else y)) rows"
    by (rule sorted_wrt_mono_rel [OF _ ok [unfolded conflict_free_def]]) (use mono in blast)
  then show ?thesis
    by (simp add: conflict_free_def update_where_def sorted_wrt_map)
qed

lemma filter_keeps:
  "conflict_free conflict rows \<Longrightarrow> conflict_free conflict (filter p rows)"
  by (simp add: conflict_free_def sorted_wrt_filter)

end

text \<open>Uniqueness of a key (a primary key, or a unique column) as a conflict.\<close>

definition same_key :: "('r \<Rightarrow> 'k) \<Rightarrow> 'r \<Rightarrow> 'r \<Rightarrow> bool" where
  "same_key k x y \<longleftrightarrow> k x = k y"

interpretation unique_key: exclusion "same_key k" for k
  by unfold_locales (simp add: same_key_def)

lemma conflict_free_same_key: "conflict_free (same_key k) rows \<longleftrightarrow> distinct (map k rows)"
  by (induction rows) (auto simp: conflict_free_Cons same_key_def)

text \<open>\<open>SELECT ... WHERE p\<close> with \<open>:one\<close>: the first row, as pgx's \<open>QueryRow\<close> returns it.\<close>

definition find_row :: "('r \<Rightarrow> bool) \<Rightarrow> 'r list \<Rightarrow> 'r option" where
  "find_row p rows = find p rows"

lemma find_row_Some: "find_row p rows = Some r \<Longrightarrow> r \<in> set rows \<and> p r"
  unfolding find_row_def by (auto simp: find_Some_iff)

lemma find_row_None: "find_row p rows = None \<longleftrightarrow> (\<forall>r\<in>set rows. \<not> p r)"
  unfolding find_row_def by (auto simp: find_None_iff)

lemma find_row_snoc: "find_row p (xs @ [x]) = (case find_row p xs of None \<Rightarrow> if p x then Some x else None | Some y \<Rightarrow> Some y)"
  unfolding find_row_def by (induction xs) auto

lemma find_row_unique:
  assumes "distinct (map k rows)" and "r \<in> set rows" and "p r"
    and "\<And>x. p x \<Longrightarrow> k x = k r"
  shows "find_row p rows = Some r"
proof (cases "find_row p rows")
  case None
  then show ?thesis using assms by (auto simp: find_row_None)
next
  case (Some x)
  then have "x \<in> set rows" "p x" by (auto dest: find_row_Some)
  then have "k x = k r" using assms(4) by simp
  then have "x = r" using assms(1,2) \<open>x \<in> set rows\<close> by (auto simp: distinct_map dest: inj_onD)
  then show ?thesis using Some by simp
qed

text \<open>Ordering of a result set: \<open>ORDER BY\<close> is a stable insertion sort on a key
  comparison.\<close>

definition order_by :: "('r \<Rightarrow> ('k::linorder)) \<Rightarrow> 'r list \<Rightarrow> 'r list" where
  "order_by k rows = sort_key k rows"

definition limit_offset :: "nat \<Rightarrow> nat \<Rightarrow> 'r list \<Rightarrow> 'r list" where
  "limit_offset l off rows = take l (drop off rows)"

lemma set_order_by [simp]: "set (order_by k rows) = set rows"
  by (simp add: order_by_def)

lemma sorted_order_by: "sorted (map k (order_by k rows))"
  by (simp add: order_by_def)

end
