(* ===== verification/Runtime.thy ===== *)
theory Runtime
  imports Prelude
begin

text \<open>
  The parts of Go's runtime library and of the driver's value types that the program's
  data is made of.

  \<^item> \<open>uuid.UUID\<close> is a 128-bit word, \<open>uuid.Nil\<close> is zero.
  \<^item> \<open>time.Time\<close> is an instant (nanoseconds since 1970, unbounded) and a location; the
    zero value and \<open>UTC\<close>, \<open>Before\<close>, \<open>After\<close> are the library's.
  \<^item> \<open>time.Duration\<close>, \<open>int\<close>, \<open>int32\<close> and \<open>int16\<close> are integers, wrapped to their width
    where the code's arithmetic or conversion can leave it.
  \<^item> PostgreSQL's \<open>timestamptz\<close> counts microseconds: writing a Go time drops the
    nanoseconds below one microsecond, reading it back gives a time in the local zone.
\<close>

type_synonym uuid = "128 word"

definition uuid_Nil :: uuid where
  "uuid_Nil = 0"

section \<open>Fixed-width integers\<close>

definition to_int64 :: "int \<Rightarrow> int" where
  "to_int64 n = signed_take_bit 63 n"

definition to_int32 :: "int \<Rightarrow> int" where
  "to_int32 n = signed_take_bit 31 n"

definition to_int16 :: "int \<Rightarrow> int" where
  "to_int16 n = signed_take_bit 15 n"

lemma signed_take_bit_small: "- (2 ^ n) \<le> k \<Longrightarrow> k < 2 ^ n \<Longrightarrow> signed_take_bit n k = (k::int)"
  by (simp add: signed_take_bit_int_eq_self_iff)

lemma to_int64_id: "- 9223372036854775808 \<le> n \<Longrightarrow> n < 9223372036854775808 \<Longrightarrow> to_int64 n = n"
  unfolding to_int64_def by (rule signed_take_bit_small) simp_all

lemma to_int32_id: "- 2147483648 \<le> n \<Longrightarrow> n < 2147483648 \<Longrightarrow> to_int32 n = n"
  unfolding to_int32_def by (rule signed_take_bit_small) simp_all

lemma to_int16_id: "- 32768 \<le> n \<Longrightarrow> n < 32768 \<Longrightarrow> to_int16 n = n"
  unfolding to_int16_def by (rule signed_take_bit_small) simp_all

section \<open>Instants\<close>

datatype location = Loc_UTC | Loc_Local | Loc_Named string

record gotime =
  instant :: int
  loc :: location

definition time_UTC :: "gotime \<Rightarrow> gotime" where
  "time_UTC t = t\<lparr>loc := Loc_UTC\<rparr>"

definition time_After :: "gotime \<Rightarrow> gotime \<Rightarrow> bool" where
  "time_After t u \<longleftrightarrow> instant u < instant t"

definition time_Before :: "gotime \<Rightarrow> gotime \<Rightarrow> bool" where
  "time_Before t u \<longleftrightarrow> instant t < instant u"

text \<open>\<open>time.Time{}\<close> is midnight of 1 January of the year 1, UTC.\<close>

definition time_zero :: gotime where
  "time_zero = \<lparr>instant = - 62135596800000000000, loc = Loc_UTC\<rparr>"

definition time_IsZero :: "gotime \<Rightarrow> bool" where
  "time_IsZero t \<longleftrightarrow> instant t = - 62135596800000000000"

definition time_Add :: "gotime \<Rightarrow> int \<Rightarrow> gotime" where
  "time_Add t d = t\<lparr>instant := instant t + d\<rparr>"

lemma instant_time_UTC [simp]: "instant (time_UTC t) = instant t"
  by (simp add: time_UTC_def)

lemma loc_time_UTC [simp]: "loc (time_UTC t) = Loc_UTC"
  by (simp add: time_UTC_def)

lemma time_UTC_idem [simp]: "time_UTC (time_UTC t) = time_UTC t"
  by (simp add: time_UTC_def)

lemma time_UTC_of_UTC: "loc t = Loc_UTC \<Longrightarrow> time_UTC t = t"
  by (simp add: time_UTC_def)

lemma instant_time_Add [simp]: "instant (time_Add t d) = instant t + d"
  by (simp add: time_Add_def)

lemma loc_time_Add [simp]: "loc (time_Add t d) = loc t"
  by (simp add: time_Add_def)

lemma time_UTC_eq_iff: "time_UTC t = time_UTC u \<longleftrightarrow> instant t = instant u"
  by (cases t; cases u) (auto simp: time_UTC_def)

section \<open>Durations\<close>

definition Minute :: int where
  "Minute = 60000000000"

definition Hour :: int where
  "Hour = 3600000000000"

text \<open>\<open>time.Duration(n) * time.Minute\<close>, in 64-bit arithmetic.\<close>

definition minutes :: "int \<Rightarrow> int" where
  "minutes n = to_int64 (n * Minute)"

lemma minutes_exact: "0 \<le> n \<Longrightarrow> n \<le> 153722867 \<Longrightarrow> minutes n = n * 60000000000"
  unfolding minutes_def Minute_def by (rule to_int64_id) auto

section \<open>The driver's timestamps\<close>

type_synonym pgtime = int

definition to_pg :: "gotime \<Rightarrow> pgtime" where
  "to_pg t = instant t div 1000"

definition from_pg :: "pgtime \<Rightarrow> gotime" where
  "from_pg p = \<lparr>instant = p * 1000, loc = Loc_Local\<rparr>"

lemma to_pg_UTC [simp]: "to_pg (time_UTC t) = to_pg t"
  by (simp add: to_pg_def)

lemma to_pg_from_pg [simp]: "to_pg (from_pg p) = p"
  by (simp add: to_pg_def from_pg_def)

lemma instant_from_pg [simp]: "instant (from_pg p) = p * 1000"
  by (simp add: from_pg_def)

lemma to_pg_mono: "instant t \<le> instant u \<Longrightarrow> to_pg t \<le> to_pg u"
  by (simp add: to_pg_def zdiv_mono1)

lemma to_pg_add: "to_pg (time_Add t (n * 60000000000)) = to_pg t + n * 60000000"
proof -
  have "(instant t + n * 60000000000) div 1000 = (instant t + (n * 60000000) * 1000) div 1000"
    by simp
  also have "\<dots> = n * 60000000 + instant t div 1000"
    by (rule div_mult_self1) simp
  finally show ?thesis by (simp add: to_pg_def)
qed

lemma from_pg_le: "from_pg (to_pg t) = u \<Longrightarrow> instant u \<le> instant t"
  by (auto simp: to_pg_def from_pg_def)

text \<open>\<open>t AT TIME ZONE z\<close> gives local microseconds; the zone database is a parameter
  \<open>zone :: string \<Rightarrow> int \<Rightarrow> int\<close> of every definition that uses it. The parts of a local
  timestamp the queries use: its date, its time of day and its ISO weekday
  (1970-01-01 was a Thursday).\<close>

type_synonym zone_db = "string \<Rightarrow> pgtime \<Rightarrow> int"

definition day_us :: int where
  "day_us = 86400000000"

definition local_date :: "int \<Rightarrow> int" where
  "local_date l = l div day_us"

definition local_time :: "int \<Rightarrow> int" where
  "local_time l = l mod day_us"

definition isodow :: "int \<Rightarrow> int" where
  "isodow l = (local_date l + 3) mod 7 + 1"

lemma isodow_range: "1 \<le> isodow l \<and> isodow l \<le> 7"
  using pos_mod_bound [of 7 "local_date l + 3"] pos_mod_sign [of 7 "local_date l + 3"]
  by (simp add: isodow_def)

lemma local_time_range: "0 \<le> local_time l \<and> local_time l < day_us"
  by (simp add: local_time_def day_us_def)

text \<open>\<open>pgtype.Time\<close> counts the microseconds of a \<open>time.Duration\<close> since midnight.\<close>

definition toPGTime :: "int \<Rightarrow> int" where
  "toPGTime d = (if 0 \<le> d then d div 1000 else - ((- d) div 1000))"

definition fromPGTime :: "int \<Rightarrow> int" where
  "fromPGTime us = to_int64 (us * 1000)"

lemma fromPGTime_toPGTime:
  "0 \<le> d \<Longrightarrow> d < 86400000000000 \<Longrightarrow> fromPGTime (toPGTime d) = d div 1000 * 1000"
  unfolding fromPGTime_def toPGTime_def
  by (simp, rule to_int64_id) simp_all

section \<open>Decimal text\<close>

text \<open>The \<open>%d\<close> verb of package fmt.\<close>

fun nat_text :: "nat \<Rightarrow> string" where
  "nat_text n = (if n < 10 then [char_of (48 + n)] else nat_text (n div 10) @ [char_of (48 + n mod 10)])"

declare nat_text.simps [simp del]

definition int_text :: "int \<Rightarrow> string" where
  "int_text i = (if i < 0 then CHR ''-'' # nat_text (nat (- i)) else nat_text (nat i))"

end
