(* ===== verification/Errors.thy ===== *)
theory Errors
  imports Runtime
begin

text \<open>
  The errors of the program as values.

  The sentinel errors of the packages domain, app (appointment scheduler) and auth are
  enumerations; \<open>errors.New\<close> values without a name are \<open>ErrorString\<close>; \<open>common.Error\<close>
  carries an HTTP code, a public message, a slug, an internal cause and details; a
  \<open>pgconn.PgError\<close> carries its SQLSTATE, its constraint and its message; \<open>fmt.Errorf\<close>
  with \<open>%w\<close> and \<open>errors.Join\<close> wrap other errors. \<open>errors_is\<close> and \<open>as_pg\<close>, \<open>as_common\<close> are
  \<open>errors.Is\<close> and \<open>errors.As\<close>.
\<close>

section \<open>Sentinels\<close>

text \<open>Package domain: appointment lifecycle (appointment.go).\<close>

datatype appointment_error =
    ErrAppointmentIDRequired
  | ErrAppointmentInterval
  | ErrInvalidStatusTransition
  | ErrCompletionOutsidePlanned
  | ErrCancellationReason

primrec appointment_error_text :: "appointment_error \<Rightarrow> string" where
    "appointment_error_text ErrAppointmentIDRequired = ''appointment ID is required''"
  | "appointment_error_text ErrAppointmentInterval = ''appointment end must be after start''"
  | "appointment_error_text ErrInvalidStatusTransition = ''invalid appointment status transition''"
  | "appointment_error_text ErrCompletionOutsidePlanned = ''completion time must be within the checked-in planned interval''"
  | "appointment_error_text ErrCancellationReason = ''cancellation reason is required''"

text \<open>Package domain: dealerships, service types, service bays and their associations.\<close>

datatype catalog_error =
    ErrNameRequired
  | ErrCodeRequired
  | ErrAddressRequired
  | ErrTimezoneRequired
  | ErrInvalidTimezone
  | ErrServiceTypeIDRequired
  | ErrServiceTypeNameRequired
  | ErrDurationMustBePositive
  | ErrDurationRangeInvalid
  | ErrServiceTypeRequiredSkillIDRequired
  | ErrSkillIDRequired
  | ErrServiceTypeRequiredBayCapabilityIDRequired
  | ErrBayCapabilityIDRequired
  | ErrServiceBayIDRequired
  | ErrServiceBayCodeRequired
  | ErrServiceBayNameRequired
  | ErrServiceBayCapabilityIDRequired

primrec catalog_error_text :: "catalog_error \<Rightarrow> string" where
    "catalog_error_text ErrNameRequired = ''dealership name is required''"
  | "catalog_error_text ErrCodeRequired = ''dealership code is required''"
  | "catalog_error_text ErrAddressRequired = ''dealership address is required''"
  | "catalog_error_text ErrTimezoneRequired = ''dealership timezone is required''"
  | "catalog_error_text ErrInvalidTimezone = ''dealership timezone must be a valid IANA timezone''"
  | "catalog_error_text ErrServiceTypeIDRequired = ''service type ID is required''"
  | "catalog_error_text ErrServiceTypeNameRequired = ''service type name is required''"
  | "catalog_error_text ErrDurationMustBePositive = ''service type durations must be positive''"
  | "catalog_error_text ErrDurationRangeInvalid = ''minimum, default, and maximum durations must be ordered''"
  | "catalog_error_text ErrServiceTypeRequiredSkillIDRequired = ''service type required skill ID is required''"
  | "catalog_error_text ErrSkillIDRequired = ''skill ID is required''"
  | "catalog_error_text ErrServiceTypeRequiredBayCapabilityIDRequired = ''service type required bay capability ID is required''"
  | "catalog_error_text ErrBayCapabilityIDRequired = ''bay capability ID is required''"
  | "catalog_error_text ErrServiceBayIDRequired = ''service bay ID is required''"
  | "catalog_error_text ErrServiceBayCodeRequired = ''service bay code is required''"
  | "catalog_error_text ErrServiceBayNameRequired = ''service bay name is required''"
  | "catalog_error_text ErrServiceBayCapabilityIDRequired = ''service bay capability ID is required''"

text \<open>Package domain: dealership admins and users, customers, vehicles, technicians.\<close>

datatype people_error =
    ErrAuthUserIDRequired
  | ErrDealershipIDRequired
  | ErrAdminNameRequired
  | ErrInvalidAdminPhone
  | ErrInvalidAdminEmail
  | ErrUserNameRequired
  | ErrUserEmailRequired
  | ErrInvalidUserEmail
  | ErrInvalidUserRole
  | ErrCustomerNameRequired
  | ErrVehicleMakeRequired
  | ErrVehicleModelRequired
  | ErrVehicleIdentity
  | ErrVehicleModelYear
  | ErrTechnicianIDRequired
  | ErrTechnicianUserIDRequired
  | ErrTechnicianNameRequired
  | ErrTechnicianPhoneInvalid
  | ErrTechnicianEmailInvalid
  | ErrTechnicianSkillIDRequired

primrec people_error_text :: "people_error \<Rightarrow> string" where
    "people_error_text ErrAuthUserIDRequired = ''auth user ID is required''"
  | "people_error_text ErrDealershipIDRequired = ''dealership ID is required''"
  | "people_error_text ErrAdminNameRequired = ''dealership admin name is required''"
  | "people_error_text ErrInvalidAdminPhone = ''phone must be a valid E.164 number''"
  | "people_error_text ErrInvalidAdminEmail = ''email must be a valid email address''"
  | "people_error_text ErrUserNameRequired = ''dealership user name is required''"
  | "people_error_text ErrUserEmailRequired = ''dealership user email is required''"
  | "people_error_text ErrInvalidUserEmail = ''email must be a valid email address''"
  | "people_error_text ErrInvalidUserRole = ''role must be admin, dealer, staff, or technician''"
  | "people_error_text ErrCustomerNameRequired = ''customer name is required''"
  | "people_error_text ErrVehicleMakeRequired = ''vehicle make is required''"
  | "people_error_text ErrVehicleModelRequired = ''vehicle model is required''"
  | "people_error_text ErrVehicleIdentity = ''vehicle VIN or registration plate is required''"
  | "people_error_text ErrVehicleModelYear = ''vehicle model year is invalid''"
  | "people_error_text ErrTechnicianIDRequired = ''technician ID is required''"
  | "people_error_text ErrTechnicianUserIDRequired = ''technician user ID is required''"
  | "people_error_text ErrTechnicianNameRequired = ''technician name is required''"
  | "people_error_text ErrTechnicianPhoneInvalid = ''technician phone must use E.164 format''"
  | "people_error_text ErrTechnicianEmailInvalid = ''technician email is invalid''"
  | "people_error_text ErrTechnicianSkillIDRequired = ''technician skill ID is required''"

text \<open>Package domain: operation times, shifts, time off.\<close>

datatype schedule_error =
    ErrOperationTimeIDRequired
  | ErrInvalidOperationWeekday
  | ErrInvalidOperationClock
  | ErrInvalidOperationHours
  | ErrTechnicianShiftIDRequired
  | ErrInvalidShiftWeekday
  | ErrInvalidShiftClock
  | ErrInvalidShiftHours
  | ErrTechnicianTimeOffIDRequired
  | ErrInvalidTimeOffInterval

primrec schedule_error_text :: "schedule_error \<Rightarrow> string" where
    "schedule_error_text ErrOperationTimeIDRequired = ''operation time ID is required''"
  | "schedule_error_text ErrInvalidOperationWeekday = ''day of week must be between 1 and 7''"
  | "schedule_error_text ErrInvalidOperationClock = ''operation times must be local HH:MM values''"
  | "schedule_error_text ErrInvalidOperationHours = ''opens at must be earlier than closes at''"
  | "schedule_error_text ErrTechnicianShiftIDRequired = ''technician shift ID is required''"
  | "schedule_error_text ErrInvalidShiftWeekday = ''day of week must be between 1 and 7''"
  | "schedule_error_text ErrInvalidShiftClock = ''shift times must be local HH:MM values''"
  | "schedule_error_text ErrInvalidShiftHours = ''starts at must be earlier than ends at''"
  | "schedule_error_text ErrTechnicianTimeOffIDRequired = ''technician time off ID is required''"
  | "schedule_error_text ErrInvalidTimeOffInterval = ''ends at must be after starts at''"

text \<open>Package app: dealerships and catalog (service.go).\<close>

datatype app_catalog_error =
    ErrDealershipCodeTaken
  | ErrAuthUserAlreadyAssigned
  | ErrDealershipNotFound
  | ErrServiceTypeNameTaken
  | ErrServiceTypeNotFound
  | ErrServiceTypeInUse
  | ErrServiceBayCodeTaken
  | ErrServiceBayNotFound
  | ErrServiceBayInUse
  | ErrServiceTypeRequiredSkillNotFound
  | ErrServiceTypeRequiredSkillTaken
  | ErrSkillNotFound
  | ErrServiceTypeRequiredBayCapabilityNotFound
  | ErrServiceTypeRequiredBayCapabilityTaken
  | ErrBayCapabilityNotFound
  | ErrServiceBayCapabilityNotFound
  | ErrServiceBayCapabilityTaken

primrec app_catalog_error_text :: "app_catalog_error \<Rightarrow> string" where
    "app_catalog_error_text ErrDealershipCodeTaken = ''dealership code already exists''"
  | "app_catalog_error_text ErrAuthUserAlreadyAssigned = ''auth user already assigned''"
  | "app_catalog_error_text ErrDealershipNotFound = ''dealership not found''"
  | "app_catalog_error_text ErrServiceTypeNameTaken = ''service type name already exists''"
  | "app_catalog_error_text ErrServiceTypeNotFound = ''service type not found''"
  | "app_catalog_error_text ErrServiceTypeInUse = ''service type is referenced by an appointment''"
  | "app_catalog_error_text ErrServiceBayCodeTaken = ''service bay code already exists''"
  | "app_catalog_error_text ErrServiceBayNotFound = ''service bay not found''"
  | "app_catalog_error_text ErrServiceBayInUse = ''service bay is referenced by an appointment''"
  | "app_catalog_error_text ErrServiceTypeRequiredSkillNotFound = ''service type required skill not found''"
  | "app_catalog_error_text ErrServiceTypeRequiredSkillTaken = ''service type already requires this skill''"
  | "app_catalog_error_text ErrSkillNotFound = ''skill not found''"
  | "app_catalog_error_text ErrServiceTypeRequiredBayCapabilityNotFound = ''service type required bay capability not found''"
  | "app_catalog_error_text ErrServiceTypeRequiredBayCapabilityTaken = ''service type already requires this bay capability''"
  | "app_catalog_error_text ErrBayCapabilityNotFound = ''bay capability not found''"
  | "app_catalog_error_text ErrServiceBayCapabilityNotFound = ''service bay capability not found''"
  | "app_catalog_error_text ErrServiceBayCapabilityTaken = ''service bay already has this capability''"

text \<open>Package app: customers, vehicles, technicians and schedules (service.go).\<close>

datatype app_people_error =
    ErrCustomerNotFound
  | ErrCustomerPhoneTaken
  | ErrCustomerEmailTaken
  | ErrVehicleNotFound
  | ErrVehicleVINTaken
  | ErrVehicleCustomerForbidden
  | ErrTechnicianNotFound
  | ErrTechnicianPhoneTaken
  | ErrTechnicianEmailTaken
  | ErrTechnicianHasFutureAppointments
  | ErrTechnicianSkillNotFound
  | ErrTechnicianSkillTaken
  | ErrTechnicianShiftNotFound
  | ErrTechnicianShiftOverlaps
  | ErrTechnicianTimeOffNotFound
  | ErrTechnicianTimeOffOverlaps
  | ErrTechnicianTimeOffAppointmentConflict
  | ErrDealershipOperationTimeNotFound
  | ErrDealershipOperationTimeOverlaps

primrec app_people_error_text :: "app_people_error \<Rightarrow> string" where
    "app_people_error_text ErrCustomerNotFound = ''customer not found''"
  | "app_people_error_text ErrCustomerPhoneTaken = ''customer phone already exists''"
  | "app_people_error_text ErrCustomerEmailTaken = ''customer email already exists''"
  | "app_people_error_text ErrVehicleNotFound = ''vehicle not found''"
  | "app_people_error_text ErrVehicleVINTaken = ''vehicle VIN already exists''"
  | "app_people_error_text ErrVehicleCustomerForbidden = ''vehicle customer belongs to another dealership''"
  | "app_people_error_text ErrTechnicianNotFound = ''technician not found''"
  | "app_people_error_text ErrTechnicianPhoneTaken = ''technician phone already exists''"
  | "app_people_error_text ErrTechnicianEmailTaken = ''technician email already exists''"
  | "app_people_error_text ErrTechnicianHasFutureAppointments = ''technician has future active appointments''"
  | "app_people_error_text ErrTechnicianSkillNotFound = ''technician skill not found''"
  | "app_people_error_text ErrTechnicianSkillTaken = ''technician already has this skill''"
  | "app_people_error_text ErrTechnicianShiftNotFound = ''technician shift not found''"
  | "app_people_error_text ErrTechnicianShiftOverlaps = ''technician shift overlaps an existing shift''"
  | "app_people_error_text ErrTechnicianTimeOffNotFound = ''technician time off not found''"
  | "app_people_error_text ErrTechnicianTimeOffOverlaps = ''technician time off overlaps an existing interval''"
  | "app_people_error_text ErrTechnicianTimeOffAppointmentConflict = ''technician time off overlaps an active appointment''"
  | "app_people_error_text ErrDealershipOperationTimeNotFound = ''dealership operation time not found''"
  | "app_people_error_text ErrDealershipOperationTimeOverlaps = ''dealership operation time overlaps an existing interval''"

text \<open>Package app: appointments and queries.\<close>

datatype app_appointment_error =
    ErrAppointmentNotFound
  | ErrAppointmentUnavailable
  | ErrAppointmentForbidden
  | ErrDealershipAppointmentsDealershipNotFound
  | ErrTechnicianScheduleDealershipNotFound

primrec app_appointment_error_text :: "app_appointment_error \<Rightarrow> string" where
    "app_appointment_error_text ErrAppointmentNotFound = ''appointment not found''"
  | "app_appointment_error_text ErrAppointmentUnavailable = ''appointment resources are unavailable''"
  | "app_appointment_error_text ErrAppointmentForbidden = ''appointment access is forbidden''"
  | "app_appointment_error_text ErrDealershipAppointmentsDealershipNotFound = ''dealership appointments dealership not found''"
  | "app_appointment_error_text ErrTechnicianScheduleDealershipNotFound = ''technician schedule dealership not found''"

text \<open>Package auth/domain and auth/app.\<close>

datatype auth_error =
    ErrInvalidEmail
  | ErrInvalidPassword
  | ErrPasswordPattern
  | ErrInvalidFullName
  | ErrPasswordReused
  | ErrInvalidUserStatus
  | ErrUserNotActive
  | ErrInvalidRole
  | ErrEmailTaken
  | ErrInvalidCredentials
  | ErrForbidden
  | ErrNotFound
  | ErrAccountExists

primrec auth_error_text :: "auth_error \<Rightarrow> string" where
    "auth_error_text ErrInvalidEmail = ''a valid email is required''"
  | "auth_error_text ErrInvalidPassword = ''password is required''"
  | "auth_error_text ErrPasswordPattern = ''password length greater than 7 and less than 32, atleast one uppercase/lowercase/number/specialcase ('' @ [CHR 0x27] @ ''@'' @ [CHR 0x27] @ '', '' @ [CHR 0x27] @ ''#'' @ [CHR 0x27] @ '', '' @ [CHR 0x27] @ ''$'' @ [CHR 0x27] @ '', '' @ [CHR 0x27] @ ''*'' @ [CHR 0x27] @ '', '' @ [CHR 0x27] @ ''-'' @ [CHR 0x27] @ '', '' @ [CHR 0x27] @ ''_'' @ [CHR 0x27] @ '') letter.''"
  | "auth_error_text ErrInvalidFullName = ''full name is required''"
  | "auth_error_text ErrPasswordReused = ''new password must differ from the previous three passwords''"
  | "auth_error_text ErrInvalidUserStatus = ''user status must be active, disabled, or deleted''"
  | "auth_error_text ErrUserNotActive = ''user is not active''"
  | "auth_error_text ErrInvalidRole = ''role must be superadmin, admin, or user''"
  | "auth_error_text ErrEmailTaken = ''email already exists''"
  | "auth_error_text ErrInvalidCredentials = ''invalid credentials''"
  | "auth_error_text ErrForbidden = ''forbidden''"
  | "auth_error_text ErrNotFound = ''user not found''"
  | "auth_error_text ErrAccountExists = ''an account already exists''"

section \<open>Error values\<close>

text \<open>\<open>common.ErrorDetails\<close>.\<close>

record error_details =
  EntityType :: string
  EntityID :: string
  DetailSlug :: string
  DetailMessage :: string

datatype go_error =
    AppointmentErr appointment_error
  | CatalogErr catalog_error
  | PeopleErr people_error
  | ScheduleErr schedule_error
  | AppCatalogErr app_catalog_error
  | AppPeopleErr app_people_error
  | AppAppointmentErr app_appointment_error
  | AuthErr auth_error
  | ErrorString string
  | CommonError (HttpErrorCode: int) (PublicError: string) (ErrorSlug: string)
      (InternalError: "go_error option") (ErrDetails: "error_details list")
  | PgError (pg_code: string) (pg_constraint: string) (pg_message: string)
  | ErrNoRows
  | DeadlineExceeded
  | Wrapped string go_error
  | Joined go_error go_error

type_synonym 'a result = "go_error + 'a"

fun errors_is :: "go_error \<Rightarrow> go_error \<Rightarrow> bool" where
  "errors_is (Wrapped p e) t = (Wrapped p e = t \<or> errors_is e t)"
| "errors_is (Joined e1 e2) t = (Joined e1 e2 = t \<or> errors_is e1 t \<or> errors_is e2 t)"
| "errors_is e t = (e = t)"

fun as_pg :: "go_error \<Rightarrow> (string \<times> string) option" where
  "as_pg (PgError c k m) = Some (c, k)"
| "as_pg (Wrapped p e) = as_pg e"
| "as_pg (Joined e1 e2) = (case as_pg e1 of Some x \<Rightarrow> Some x | None \<Rightarrow> as_pg e2)"
| "as_pg e = None"

fun as_common :: "go_error \<Rightarrow> (int \<times> string \<times> string) option" where
  "as_common (CommonError c m s i d) = Some (c, m, s)"
| "as_common (Wrapped p e) = as_common e"
| "as_common (Joined e1 e2) = (case as_common e1 of Some x \<Rightarrow> Some x | None \<Rightarrow> as_common e2)"
| "as_common e = None"

text \<open>The constructors of common/errors.go (messages already formatted).\<close>

definition newError :: "int \<Rightarrow> string \<Rightarrow> string \<Rightarrow> go_error" where
  "newError code slug message = CommonError code message slug None []"

definition NewNotFoundError :: "string \<Rightarrow> string \<Rightarrow> go_error" where
  "NewNotFoundError slug message = newError 404 slug message"

definition NewInvalidInputError :: "string \<Rightarrow> string \<Rightarrow> go_error" where
  "NewInvalidInputError slug message = newError 400 slug message"

definition NewConflictError :: "string \<Rightarrow> string \<Rightarrow> go_error" where
  "NewConflictError slug message = newError 409 slug message"

definition NewUnauthorizedError :: "string \<Rightarrow> string \<Rightarrow> go_error" where
  "NewUnauthorizedError slug message = newError 401 slug message"

definition NewForbiddenError :: "string \<Rightarrow> string \<Rightarrow> go_error" where
  "NewForbiddenError slug message = newError 403 slug message"

definition NewExpiredError :: "string \<Rightarrow> string \<Rightarrow> go_error" where
  "NewExpiredError slug message = newError 410 slug message"

definition unprocessable :: "string \<Rightarrow> string \<Rightarrow> go_error" where
  "unprocessable slug message = CommonError 422 message slug None []"

lemmas common_errors = newError_def NewNotFoundError_def NewInvalidInputError_def
  NewConflictError_def NewUnauthorizedError_def NewForbiddenError_def NewExpiredError_def
  unprocessable_def

text \<open>\<open>WithDetails\<close> and \<open>WithInternalError\<close>.\<close>

fun WithDetails :: "go_error \<Rightarrow> error_details list \<Rightarrow> go_error" where
  "WithDetails (CommonError c m s i d) ds = CommonError c m s i (d @ ds)"
| "WithDetails e ds = e"

fun WithInternalError :: "go_error \<Rightarrow> go_error \<Rightarrow> go_error" where
  "WithInternalError (CommonError c m s i d) e = CommonError c m s (Some e) d"
| "WithInternalError e' e = e'"

text \<open>\<open>err.Error()\<close>. The severity a \<open>PgError\<close> prints is always ERROR for a failed statement;
  the \<open>%v\<close> rendering of details is the struct's fields between braces.\<close>

definition details_text :: "error_details list \<Rightarrow> string" where
  "details_text ds =
     ''['' @ concat (map (\<lambda>d. ''{'' @ EntityType d @ '' '' @ EntityID d @ '' '' @ DetailSlug d
       @ '' '' @ DetailMessage d @ ''}'') (take 1 ds))
     @ concat (map (\<lambda>d. '' {'' @ EntityType d @ '' '' @ EntityID d @ '' '' @ DetailSlug d
       @ '' '' @ DetailMessage d @ ''}'') (drop 1 ds)) @ '']''"

fun error_text :: "go_error \<Rightarrow> string" where
  "error_text (AppointmentErr e) = appointment_error_text e"
| "error_text (CatalogErr e) = catalog_error_text e"
| "error_text (PeopleErr e) = people_error_text e"
| "error_text (ScheduleErr e) = schedule_error_text e"
| "error_text (AppCatalogErr e) = app_catalog_error_text e"
| "error_text (AppPeopleErr e) = app_people_error_text e"
| "error_text (AppAppointmentErr e) = app_appointment_error_text e"
| "error_text (AuthErr e) = auth_error_text e"
| "error_text (ErrorString s) = s"
| "error_text (CommonError c m s i ds) =
     m @ '', Slug: '' @ s
     @ (case i of None \<Rightarrow> [] | Some e \<Rightarrow> '', InternalError: '' @ error_text e)
     @ (if ds = [] then [] else '', DocumentData: '' @ details_text ds)"
| "error_text (PgError c k m) = ''ERROR: '' @ m @ '' (SQLSTATE '' @ c @ '')''"
| "error_text ErrNoRows = ''no rows in result set''"
| "error_text DeadlineExceeded = ''context deadline exceeded''"
| "error_text (Wrapped p e) = p @ error_text e"
| "error_text (Joined e1 e2) = error_text e1 @ [CHR 0x0A] @ error_text e2"

text \<open>\<open>strings.Contains\<close>.\<close>

fun contains :: "string \<Rightarrow> string \<Rightarrow> bool" where
  "contains [] t = (t = [])"
| "contains (c # s) t = (prefix t (c # s) \<or> contains s t)"

lemma contains_iff: "contains s t \<longleftrightarrow> sublist t s"
  by (induction s t rule: contains.induct) (auto simp: sublist_Cons_right)

lemma contains_append: "contains s t \<Longrightarrow> contains (p @ s @ q) t"
  unfolding contains_iff sublist_def by (metis append.assoc)

text \<open>The PostgreSQL errors the schema can raise.\<close>

definition unique_violation :: "string \<Rightarrow> go_error" where
  "unique_violation k = PgError ''23505'' k ''duplicate key value violates unique constraint''"

definition exclusion_violation :: "string \<Rightarrow> go_error" where
  "exclusion_violation k = PgError ''23P01'' k ''conflicting key value violates exclusion constraint''"

definition foreign_key_violation :: "string \<Rightarrow> go_error" where
  "foreign_key_violation k = PgError ''23503'' k ''violates foreign key constraint''"

definition check_violation :: "string \<Rightarrow> go_error" where
  "check_violation k = PgError ''23514'' k ''violates check constraint''"

definition not_null_violation :: "string \<Rightarrow> go_error" where
  "not_null_violation k = PgError ''23502'' k ''null value violates not-null constraint''"

definition too_long :: go_error where
  "too_long = PgError ''22001'' [] ''value too long for type character varying''"

definition out_of_range :: go_error where
  "out_of_range = PgError ''22003'' [] ''value out of range''"

definition undefined_column :: go_error where
  "undefined_column = PgError ''42703'' [] ''column does not exist''"

definition raised :: "string \<Rightarrow> string \<Rightarrow> string \<Rightarrow> go_error" where
  "raised code k m = PgError code k m"

lemmas pg_errors = unique_violation_def exclusion_violation_def foreign_key_violation_def
  check_violation_def not_null_violation_def too_long_def out_of_range_def undefined_column_def
  raised_def

text \<open>\<open>IsUniqueViolationError\<close> of common/db.go, on the error of a failed statement.\<close>

definition IsUniqueViolationError :: "go_error option \<Rightarrow> string \<Rightarrow> bool" where
  "IsUniqueViolationError err constr =
     (case err of None \<Rightarrow> False
      | Some e \<Rightarrow> (case as_pg e of None \<Rightarrow> False | Some (c, k) \<Rightarrow> c = ''23505'' \<and> k = constr))"

lemma IsUniqueViolationError_unique [simp]:
  "IsUniqueViolationError (Some (unique_violation k)) constr \<longleftrightarrow> k = constr"
  by (simp add: IsUniqueViolationError_def unique_violation_def)

text \<open>A row a query found, or the error it stands for.\<close>

definition row_as :: "go_error \<Rightarrow> 'r option \<Rightarrow> 'r result" where
  "row_as e r = (case r of None \<Rightarrow> Inl e | Some x \<Rightarrow> Inr x)"

end
