(* ===== verification/Domain_Appointment.thy ===== *)
theory Domain_Appointment
  imports Errors "HOL-Library.Char_ord" "HOL-Library.List_Lexorder"
begin

text \<open>
  The appointment aggregate (appointment\_scheduler/domain/appointment.go): the status
  enumeration, the aggregate's record, its constructor and its four transitions.

  The lifecycle is requested, checked\_in, in\_progress, completed, with cancelled reachable
  from the first three. \<open>appointment_wf\<close> is the invariant of the aggregate: every operation
  keeps it, and every value reachable from \<open>NewAppointment\<close> has it. \<open>AppointmentStatus\<close> is
  linearly ordered so that every transition goes strictly up, which bounds a lifecycle.
\<close>

section \<open>Status\<close>

text \<open>A Go string type: any other string is \<open>OtherStatus\<close>; the empty string, which the
  service reads as "from any state", is \<open>OtherStatus ''''\<close>.\<close>

datatype AppointmentStatus =
    AppointmentRequested
  | AppointmentCheckedIn
  | AppointmentInProgress
  | AppointmentCompleted
  | AppointmentCancelled
  | OtherStatus string

definition NoStatus :: AppointmentStatus where
  "NoStatus = OtherStatus []"

fun status_string :: "AppointmentStatus \<Rightarrow> string" where
  "status_string AppointmentRequested = ''requested''"
| "status_string AppointmentCheckedIn = ''checked_in''"
| "status_string AppointmentInProgress = ''in_progress''"
| "status_string AppointmentCompleted = ''completed''"
| "status_string AppointmentCancelled = ''cancelled''"
| "status_string (OtherStatus s) = s"

text \<open>\<open>AppointmentStatus(s)\<close>.\<close>

definition status_of_string :: "string \<Rightarrow> AppointmentStatus" where
  "status_of_string s =
     (if s = ''requested'' then AppointmentRequested
      else if s = ''checked_in'' then AppointmentCheckedIn
      else if s = ''in_progress'' then AppointmentInProgress
      else if s = ''completed'' then AppointmentCompleted
      else if s = ''cancelled'' then AppointmentCancelled
      else OtherStatus s)"

lemma status_string_of_string [simp]: "status_string (status_of_string s) = s"
  by (simp add: status_of_string_def)

fun known_status :: "AppointmentStatus \<Rightarrow> bool" where
  "known_status (OtherStatus s) = False"
| "known_status s = True"

lemma status_of_string_status [simp]: "known_status s \<Longrightarrow> status_of_string (status_string s) = s"
  by (cases s) (simp_all add: status_of_string_def)

text \<open>The states that occupy a technician and a bay.\<close>

fun active_status :: "AppointmentStatus \<Rightarrow> bool" where
  "active_status AppointmentRequested = True"
| "active_status AppointmentCheckedIn = True"
| "active_status AppointmentInProgress = True"
| "active_status s = False"

lemma active_known: "active_status s \<Longrightarrow> known_status s"
  by (cases s) auto

lemma active_cases:
  "active_status s \<longleftrightarrow>
     s = AppointmentRequested \<or> s = AppointmentCheckedIn \<or> s = AppointmentInProgress"
  by (cases s) auto

text \<open>The order of the lifecycle.\<close>

fun status_rank :: "AppointmentStatus \<Rightarrow> nat" where
  "status_rank AppointmentRequested = 0"
| "status_rank AppointmentCheckedIn = 1"
| "status_rank AppointmentInProgress = 2"
| "status_rank AppointmentCompleted = 3"
| "status_rank AppointmentCancelled = 4"
| "status_rank (OtherStatus s) = 5"

definition status_key :: "AppointmentStatus \<Rightarrow> nat \<times> string" where
  "status_key s = (status_rank s, status_string s)"

lemma status_key_inj: "status_key s = status_key t \<Longrightarrow> s = t"
  by (cases s; cases t) (auto simp: status_key_def)

instantiation AppointmentStatus :: linorder
begin

definition less_eq_AppointmentStatus :: "AppointmentStatus \<Rightarrow> AppointmentStatus \<Rightarrow> bool" where
  "s \<le> t \<longleftrightarrow> status_rank s < status_rank t
     \<or> (status_rank s = status_rank t \<and> status_string s \<le> status_string t)"

definition less_AppointmentStatus :: "AppointmentStatus \<Rightarrow> AppointmentStatus \<Rightarrow> bool" where
  "s < t \<longleftrightarrow> status_rank s < status_rank t
     \<or> (status_rank s = status_rank t \<and> status_string s < status_string t)"

instance
proof
  fix s t u :: AppointmentStatus
  show "s < t \<longleftrightarrow> s \<le> t \<and> \<not> t \<le> s"
    by (auto simp: less_eq_AppointmentStatus_def less_AppointmentStatus_def)
  show "s \<le> s" by (simp add: less_eq_AppointmentStatus_def)
  show "s \<le> t \<Longrightarrow> t \<le> u \<Longrightarrow> s \<le> u"
    by (auto simp: less_eq_AppointmentStatus_def)
  show "s \<le> t \<Longrightarrow> t \<le> s \<Longrightarrow> s = t"
    by (rule status_key_inj) (auto simp: less_eq_AppointmentStatus_def status_key_def)
  show "s \<le> t \<or> t \<le> s"
    by (auto simp: less_eq_AppointmentStatus_def)
qed

end

section \<open>The aggregate\<close>

record Appointment =
  a_id :: uuid
  a_status :: AppointmentStatus
  a_startsAt :: gotime
  a_endsAt :: gotime
  a_checkedInAt :: "gotime option"
  a_inProgressAt :: "gotime option"
  a_completedAt :: "gotime option"
  a_actualEndsAt :: "gotime option"
  a_cancelledAt :: "gotime option"
  a_cancellationReason :: "string option"

definition NewAppointment :: "uuid \<Rightarrow> gotime \<Rightarrow> gotime \<Rightarrow> Appointment result" where
  "NewAppointment id' startsAt endsAt =
     (if id' = uuid_Nil then Inl (AppointmentErr ErrAppointmentIDRequired)
      else
        let startsAt = time_UTC startsAt; endsAt = time_UTC endsAt in
        if \<not> time_After endsAt startsAt then Inl (AppointmentErr ErrAppointmentInterval)
        else Inr \<lparr>a_id = id', a_status = AppointmentRequested, a_startsAt = startsAt,
                  a_endsAt = endsAt, a_checkedInAt = None, a_inProgressAt = None,
                  a_completedAt = None, a_actualEndsAt = None, a_cancelledAt = None,
                  a_cancellationReason = None\<rparr>)"

definition CheckIn :: "gotime \<Rightarrow> Appointment \<Rightarrow> Appointment result" where
  "CheckIn now a =
     (if a_status a \<noteq> AppointmentRequested
      then Inl (AppointmentErr ErrInvalidStatusTransition)
      else Inr (a\<lparr>a_status := AppointmentCheckedIn, a_checkedInAt := Some (time_UTC now)\<rparr>))"

definition Start :: "gotime \<Rightarrow> Appointment \<Rightarrow> Appointment result" where
  "Start now a =
     (if a_status a \<noteq> AppointmentCheckedIn
      then Inl (AppointmentErr ErrInvalidStatusTransition)
      else Inr (a\<lparr>a_status := AppointmentInProgress, a_inProgressAt := Some (time_UTC now)\<rparr>))"

definition Complete :: "gotime \<Rightarrow> Appointment \<Rightarrow> Appointment result" where
  "Complete actualEndsAt a =
     (case (a_status a = AppointmentInProgress, a_checkedInAt a) of
        (True, Some checkedInAt) \<Rightarrow>
          (let actualEndsAt = time_UTC actualEndsAt in
           if time_Before actualEndsAt checkedInAt \<or> time_After actualEndsAt (a_endsAt a)
           then Inl (AppointmentErr ErrCompletionOutsidePlanned)
           else Inr (a\<lparr>a_status := AppointmentCompleted, a_completedAt := Some actualEndsAt,
                       a_actualEndsAt := Some actualEndsAt\<rparr>))
      | _ \<Rightarrow> Inl (AppointmentErr ErrInvalidStatusTransition))"

definition Cancel :: "string \<Rightarrow> gotime \<Rightarrow> Appointment \<Rightarrow> Appointment result" where
  "Cancel reason now a =
     (if a_status a \<noteq> AppointmentRequested \<and> a_status a \<noteq> AppointmentCheckedIn
         \<and> a_status a \<noteq> AppointmentInProgress
      then Inl (AppointmentErr ErrInvalidStatusTransition)
      else if reason = [] then Inl (AppointmentErr ErrCancellationReason)
      else Inr (a\<lparr>a_status := AppointmentCancelled, a_cancelledAt := Some (time_UTC now),
                  a_cancellationReason := Some reason\<rparr>))"

section \<open>The lifecycle as a transition system\<close>

datatype appointment_event =
    EvCheckIn gotime
  | EvStart gotime
  | EvComplete gotime
  | EvCancel string gotime

fun apply_event :: "appointment_event \<Rightarrow> Appointment \<Rightarrow> Appointment result" where
  "apply_event (EvCheckIn t) a = CheckIn t a"
| "apply_event (EvStart t) a = Start t a"
| "apply_event (EvComplete t) a = Complete t a"
| "apply_event (EvCancel r t) a = Cancel r t a"

fun event_target :: "appointment_event \<Rightarrow> AppointmentStatus" where
  "event_target (EvCheckIn t) = AppointmentCheckedIn"
| "event_target (EvStart t) = AppointmentInProgress"
| "event_target (EvComplete t) = AppointmentCompleted"
| "event_target (EvCancel r t) = AppointmentCancelled"

text \<open>The transitions the program allows.\<close>

definition lifecycle_edge :: "AppointmentStatus \<Rightarrow> AppointmentStatus \<Rightarrow> bool" where
  "lifecycle_edge s t \<longleftrightarrow>
     (s, t) \<in> {(AppointmentRequested, AppointmentCheckedIn),
               (AppointmentCheckedIn, AppointmentInProgress),
               (AppointmentInProgress, AppointmentCompleted),
               (AppointmentRequested, AppointmentCancelled),
               (AppointmentCheckedIn, AppointmentCancelled),
               (AppointmentInProgress, AppointmentCancelled)}"

lemma lifecycle_edge_less: "lifecycle_edge s t \<Longrightarrow> s < t"
  by (auto simp: lifecycle_edge_def less_AppointmentStatus_def)

lemma lifecycle_edge_active: "lifecycle_edge s t \<Longrightarrow> active_status s"
  by (auto simp: lifecycle_edge_def)

lemma lifecycle_edge_known: "lifecycle_edge s t \<Longrightarrow> known_status t"
  by (auto simp: lifecycle_edge_def)

lemma lifecycle_edge_rank: "lifecycle_edge s t \<Longrightarrow> status_rank s < status_rank t"
  by (auto simp: lifecycle_edge_def)

text \<open>The invariant of the aggregate: which timestamps a status goes with.\<close>

definition timestamps_ok :: "Appointment \<Rightarrow> bool" where
  "timestamps_ok a =
     (case a_status a of
        AppointmentRequested \<Rightarrow> a_checkedInAt a = None \<and> a_inProgressAt a = None
          \<and> a_actualEndsAt a = None \<and> a_cancelledAt a = None \<and> a_cancellationReason a = None
      | AppointmentCheckedIn \<Rightarrow> a_checkedInAt a \<noteq> None \<and> a_inProgressAt a = None
          \<and> a_actualEndsAt a = None \<and> a_cancelledAt a = None \<and> a_cancellationReason a = None
      | AppointmentInProgress \<Rightarrow> a_checkedInAt a \<noteq> None \<and> a_inProgressAt a \<noteq> None
          \<and> a_actualEndsAt a = None \<and> a_cancelledAt a = None \<and> a_cancellationReason a = None
      | AppointmentCompleted \<Rightarrow> a_inProgressAt a \<noteq> None
          \<and> (case (a_checkedInAt a, a_actualEndsAt a) of
               (Some c, Some e) \<Rightarrow> instant c \<le> instant e \<and> instant e \<le> instant (a_endsAt a)
             | _ \<Rightarrow> False)
          \<and> a_cancelledAt a = None \<and> a_cancellationReason a = None
      | AppointmentCancelled \<Rightarrow> a_actualEndsAt a = None \<and> a_cancelledAt a \<noteq> None
          \<and> (case a_cancellationReason a of Some r \<Rightarrow> r \<noteq> [] | None \<Rightarrow> False)
      | OtherStatus s \<Rightarrow> False)"

definition appointment_wf :: "Appointment \<Rightarrow> bool" where
  "appointment_wf a \<longleftrightarrow>
     a_id a \<noteq> uuid_Nil
     \<and> loc (a_startsAt a) = Loc_UTC \<and> loc (a_endsAt a) = Loc_UTC
     \<and> time_Before (a_startsAt a) (a_endsAt a)
     \<and> a_completedAt a = a_actualEndsAt a
     \<and> timestamps_ok a"

lemma NewAppointment_wf: "NewAppointment i s e = Inr a \<Longrightarrow> appointment_wf a"
  by (auto simp: NewAppointment_def appointment_wf_def timestamps_ok_def Let_def time_After_def
      time_Before_def split: if_splits)

lemma CheckIn_ok: "CheckIn t a = Inr b \<longleftrightarrow> a_status a = AppointmentRequested \<and>
    b = a\<lparr>a_status := AppointmentCheckedIn, a_checkedInAt := Some (time_UTC t)\<rparr>"
  by (auto simp: CheckIn_def)

lemma Start_ok: "Start t a = Inr b \<longleftrightarrow> a_status a = AppointmentCheckedIn \<and>
    b = a\<lparr>a_status := AppointmentInProgress, a_inProgressAt := Some (time_UTC t)\<rparr>"
  by (auto simp: Start_def)

lemma Complete_ok: "Complete t a = Inr b \<longleftrightarrow>
    a_status a = AppointmentInProgress \<and>
    (\<exists>c. a_checkedInAt a = Some c \<and> instant c \<le> instant t \<and> instant t \<le> instant (a_endsAt a)) \<and>
    b = a\<lparr>a_status := AppointmentCompleted, a_completedAt := Some (time_UTC t),
          a_actualEndsAt := Some (time_UTC t)\<rparr>"
  by (auto simp: Complete_def Let_def time_Before_def time_After_def not_less
      split: bool.splits option.splits if_splits)

lemma Cancel_ok: "Cancel r t a = Inr b \<longleftrightarrow>
    active_status (a_status a) \<and> r \<noteq> [] \<and>
    b = a\<lparr>a_status := AppointmentCancelled, a_cancelledAt := Some (time_UTC t),
          a_cancellationReason := Some r\<rparr>"
  by (auto simp: Cancel_def active_cases)

lemmas event_ok = CheckIn_ok Start_ok Complete_ok Cancel_ok

lemma apply_event_edge:
  "apply_event e a = Inr b \<Longrightarrow> lifecycle_edge (a_status a) (a_status b) \<and> a_status b = event_target e"
  by (cases e) (auto simp: event_ok lifecycle_edge_def active_cases)

lemma apply_event_frame:
  "apply_event e a = Inr b \<Longrightarrow>
   a_id b = a_id a \<and> a_startsAt b = a_startsAt a \<and> a_endsAt b = a_endsAt a"
  by (cases e) (auto simp: event_ok)

lemma apply_event_wf:
  assumes "appointment_wf a" and "apply_event e a = Inr b"
  shows "appointment_wf b"
  using assms by (cases e) (auto simp: event_ok appointment_wf_def timestamps_ok_def active_cases)

inductive lifecycle :: "Appointment \<Rightarrow> appointment_event list \<Rightarrow> Appointment \<Rightarrow> bool" where
  lifecycle_refl: "lifecycle a [] a"
| lifecycle_step: "lifecycle a es b \<Longrightarrow> apply_event e b = Inr c \<Longrightarrow> lifecycle a (es @ [e]) c"

inductive_cases lifecycle_snocE: "lifecycle a (es @ [e]) c"

inductive_simps lifecycle_nil_iff: "lifecycle a [] b"

lemma lifecycle_wf: "lifecycle a es b \<Longrightarrow> appointment_wf a \<Longrightarrow> appointment_wf b"
  by (induction rule: lifecycle.induct) (auto intro: apply_event_wf)

lemma lifecycle_rank:
  "lifecycle a es b \<Longrightarrow> status_rank (a_status a) + length es \<le> status_rank (a_status b)"
proof (induction rule: lifecycle.induct)
  case (lifecycle_step a es b e c)
  then show ?case
    using apply_event_edge [of e b c] lifecycle_edge_rank [of "a_status b" "a_status c"] by auto
qed simp

lemma lifecycle_cons:
  assumes "lifecycle b es c" and "apply_event e a = Inr b"
  shows "lifecycle a (e # es) c"
  using assms
proof (induction rule: lifecycle.induct)
  case (lifecycle_refl b)
  then show ?case using lifecycle.lifecycle_step [OF lifecycle.lifecycle_refl, of e a b] by simp
next
  case (lifecycle_step b es c e' d)
  then show ?case
    using lifecycle.lifecycle_step [of a "e # es" c e' d] by simp
qed

text \<open>Running a list of events, as the code would call them.\<close>

fun run_events :: "appointment_event list \<Rightarrow> Appointment \<Rightarrow> Appointment result" where
  "run_events [] a = Inr a"
| "run_events (e # es) a = (case apply_event e a of Inl err \<Rightarrow> Inl err | Inr b \<Rightarrow> run_events es b)"

lemma run_events_lifecycle: "run_events es a = Inr b \<Longrightarrow> lifecycle a es b"
  by (induction es arbitrary: a) (auto intro: lifecycle_cons lifecycle.intros split: sum.splits)

lemma lifecycle_run_events: "lifecycle a es b \<Longrightarrow> run_events es a = Inr b"
proof (induction rule: lifecycle.induct)
  case (lifecycle_step a es b e c)
  have "run_events (es @ [e]) a = (case run_events es a of Inl x \<Rightarrow> Inl x | Inr b \<Rightarrow> apply_event e b)"
    for es a
    by (induction es arbitrary: a) (auto split: sum.splits)
  with lifecycle_step show ?case by simp
qed simp

end
