(* ===== verification/Schema.thy ===== *)
theory Schema
  imports Domain_Appointment
begin

text \<open>
  The rows of the appointment\_scheduler schema (adapters/db/dbmodels/models.go,
  adapters/db/migrations/0001\_init\_tables.up.sql), one record per table, and the database
  as a record of tables. A table is the list of its rows in insertion order. Timestamps are
  microseconds, times of day microseconds since midnight, absent values \<open>None\<close>.
  An audit payload is the JSON object the repository marshals.
\<close>

datatype resource_type = ResTechnician | ResServiceBay

datatype json_value = JNull | JString string | JTime gotime

type_synonym json = "(string \<times> json_value) list"

record dealership_row =
  dl_id :: uuid
  dl_name :: string
  dl_code :: string
  dl_address :: string
  dl_timezone :: string
  dl_is_active :: bool
  dl_created_at :: pgtime
  dl_deleted_at :: "pgtime option"
  dl_updated_at :: pgtime

record operation_time_row =
  op_id :: uuid
  op_dealership_id :: uuid
  op_day_of_week :: int
  op_opens_at :: int
  op_closes_at :: int
  op_created_at :: pgtime
  op_updated_at :: pgtime

record user_row =
  us_id :: uuid
  us_auth_user_id :: uuid
  us_name :: string
  us_phone :: "string option"
  us_email :: "string option"
  us_dealership_id :: uuid
  us_is_active :: bool
  us_created_at :: pgtime
  us_deleted_at :: "pgtime option"
  us_updated_at :: pgtime

record role_row =
  ro_id :: uuid
  ro_code :: string
  ro_deleted_at :: "pgtime option"

record user_role_row =
  ur_id :: uuid
  ur_user_id :: uuid
  ur_role_id :: uuid
  ur_created_at :: pgtime
  ur_deleted_at :: "pgtime option"

record customer_row =
  cu_id :: uuid
  cu_name :: string
  cu_phone :: string
  cu_email :: "string option"
  cu_created_at :: pgtime
  cu_updated_at :: pgtime

record customer_dealership_row =
  cd_customer_id :: uuid
  cd_dealership_id :: uuid
  cd_created_at :: pgtime

record vehicle_row =
  ve_id :: uuid
  ve_customer_id :: uuid
  ve_vin :: "string option"
  ve_registration_plate :: "string option"
  ve_make :: string
  ve_model :: string
  ve_model_year :: "int option"
  ve_created_at :: pgtime
  ve_deleted_at :: "pgtime option"
  ve_updated_at :: pgtime

record service_type_row =
  sty_id :: uuid
  sty_dealership_id :: uuid
  sty_name :: string
  sty_default_duration_minutes :: int
  sty_min_duration_minutes :: int
  sty_max_duration_minutes :: int
  sty_is_active :: bool
  sty_created_at :: pgtime
  sty_deleted_at :: "pgtime option"
  sty_updated_at :: pgtime

record skill_row =
  sk_id :: uuid
  sk_code :: string
  sk_name :: string
  sk_is_active :: bool

record required_skill_row =
  rsk_id :: uuid
  rsk_service_type_id :: uuid
  rsk_skill_id :: uuid
  rsk_created_at :: pgtime
  rsk_updated_at :: pgtime

record capability_row =
  cap_id :: uuid
  cap_code :: string
  cap_name :: string

record required_capability_row =
  rcap_id :: uuid
  rcap_service_type_id :: uuid
  rcap_bay_capability_id :: uuid
  rcap_created_at :: pgtime
  rcap_updated_at :: pgtime

record service_bay_row =
  bay_id :: uuid
  bay_dealership_id :: uuid
  bay_code :: string
  bay_name :: string
  bay_is_active :: bool
  bay_created_at :: pgtime
  bay_deleted_at :: "pgtime option"
  bay_updated_at :: pgtime

record bay_capability_row =
  bcap_id :: uuid
  bcap_service_bay_id :: uuid
  bcap_bay_capability_id :: uuid
  bcap_created_at :: pgtime
  bcap_updated_at :: pgtime

record technician_row =
  te_id :: uuid
  te_user_id :: uuid
  te_is_active :: bool
  te_created_at :: pgtime
  te_deleted_at :: "pgtime option"
  te_updated_at :: pgtime

record technician_skill_row =
  tsk_id :: uuid
  tsk_technician_id :: uuid
  tsk_skill_id :: uuid
  tsk_created_at :: pgtime
  tsk_updated_at :: pgtime

record shift_row =
  shf_id :: uuid
  shf_technician_id :: uuid
  shf_day_of_week :: int
  shf_starts_at :: int
  shf_ends_at :: int
  shf_created_at :: pgtime
  shf_deleted_at :: "pgtime option"
  shf_updated_at :: pgtime

record time_off_row =
  off_id :: uuid
  off_technician_id :: uuid
  off_starts_at :: pgtime
  off_ends_at :: pgtime
  off_reason :: "string option"
  off_created_by_user_id :: uuid
  off_created_at :: pgtime
  off_deleted_at :: "pgtime option"
  off_updated_at :: pgtime

record appointment_row =
  ap_id :: uuid
  ap_reference_code :: string
  ap_customer_id :: uuid
  ap_vehicle_id :: uuid
  ap_dealership_id :: uuid
  ap_service_type_id :: uuid
  ap_technician_id :: uuid
  ap_service_bay_id :: uuid
  ap_starts_at :: pgtime
  ap_ends_at :: pgtime
  ap_status :: AppointmentStatus
  ap_notes :: "string option"
  ap_created_by_user_id :: uuid
  ap_cancelled_by_user_id :: "uuid option"
  ap_cancellation_reason :: "string option"
  ap_created_at :: pgtime
  ap_deleted_at :: "pgtime option"
  ap_updated_at :: pgtime
  ap_cancelled_at :: "pgtime option"
  ap_checked_in_at :: "pgtime option"
  ap_in_progress_at :: "pgtime option"
  ap_started_at :: "pgtime option"
  ap_completed_at :: "pgtime option"
  ap_actual_ends_at :: "pgtime option"
  ap_planned_duration_minutes :: "int option"

record audit_row =
  au_id :: uuid
  au_appointment_id :: uuid
  au_actor_user_id :: "uuid option"
  au_event_type :: string
  au_before_data :: "json option"
  au_after_data :: "json option"
  au_occurred_at :: pgtime

record reservation_row =
  rv_id :: uuid
  rv_appointment_id :: uuid
  rv_resource_type :: resource_type
  rv_resource_id :: uuid
  rv_reserved_starts_at :: pgtime
  rv_reserved_ends_at :: pgtime
  rv_status :: AppointmentStatus
  rv_assigned_at :: pgtime
  rv_released_at :: "pgtime option"
  rv_assigned_by_user_id :: uuid
  rv_reason :: "string option"

text \<open>The database.\<close>

record db =
  dealerships :: "dealership_row list"
  operation_times :: "operation_time_row list"
  users :: "user_row list"
  roles :: "role_row list"
  user_roles :: "user_role_row list"
  customers :: "customer_row list"
  customer_dealerships :: "customer_dealership_row list"
  vehicles :: "vehicle_row list"
  service_types :: "service_type_row list"
  skills :: "skill_row list"
  required_skills :: "required_skill_row list"
  capabilities :: "capability_row list"
  required_capabilities :: "required_capability_row list"
  service_bays :: "service_bay_row list"
  bay_capabilities :: "bay_capability_row list"
  technicians :: "technician_row list"
  technician_skills :: "technician_skill_row list"
  shifts :: "shift_row list"
  time_offs :: "time_off_row list"
  appointments :: "appointment_row list"
  audits :: "audit_row list"
  reservations :: "reservation_row list"

text \<open>A freshly migrated database: the four roles the migration seeds.\<close>

definition seed_roles :: "role_row list" where
  "seed_roles =
     [\<lparr>ro_id = 0x00000000000040008000000000000001, ro_code = ''admin'', ro_deleted_at = None\<rparr>,
      \<lparr>ro_id = 0x00000000000040008000000000000002, ro_code = ''staff'', ro_deleted_at = None\<rparr>,
      \<lparr>ro_id = 0x00000000000040008000000000000003, ro_code = ''dealer'', ro_deleted_at = None\<rparr>,
      \<lparr>ro_id = 0x00000000000040008000000000000004, ro_code = ''technician'', ro_deleted_at = None\<rparr>]"

definition empty_db :: db where
  "empty_db = \<lparr>dealerships = [], operation_times = [], users = [],
      roles = seed_roles, user_roles = [], customers = [], customer_dealerships = [],
      vehicles = [], service_types = [], skills = [], required_skills = [],
      capabilities = [], required_capabilities = [], service_bays = [],
      bay_capabilities = [], technicians = [], technician_skills = [], shifts = [],
      time_offs = [], appointments = [], audits = [], reservations = []\<rparr>"

end
