(* ===== verification/Store.thy ===== *)
theory Store
  imports Schema
begin

text \<open>
  The write statements of the scheduling tables with the constraints of
  adapters/db/migrations/0001\_init\_tables.up.sql: what PostgreSQL checks, in the order it
  checks it (length of the values, BEFORE triggers, CHECK constraints, unique and exclusion
  indexes, foreign keys), and the table afterwards. A statement that violates a constraint
  is an error and changes nothing.

  Every exclusion constraint is an \<open>exclusion\<close> of the prelude: its conflict relation is
  interpreted there, so each table stays conflict-free (\<open>tables_ok\<close>).
\<close>

definition first_error :: "(bool \<times> go_error) list \<Rightarrow> go_error option" where
  "first_error checks = map_option snd (find fst checks)"

lemma first_error_Nil [simp]: "first_error [] = None"
  by (simp add: first_error_def)

lemma first_error_Cons [simp]:
  "first_error ((b, e) # cs) = (if b then Some e else first_error cs)"
  by (simp add: first_error_def)

lemma first_error_append:
  "first_error (xs @ ys) = (case first_error xs of None \<Rightarrow> first_error ys | Some e \<Rightarrow> Some e)"
  by (induction xs) (auto split: option.split)

lemma first_error_None: "first_error cs = None \<longleftrightarrow> (\<forall>c\<in>set cs. \<not> fst c)"
proof (induction cs)
  case (Cons c cs)
  then show ?case by (cases c) simp
qed simp

lemma first_error_mem: "first_error cs = Some e \<Longrightarrow> e \<in> snd ` set cs"
proof (induction cs)
  case (Cons c cs)
  then show ?case by (cases c) (auto split: if_splits)
qed simp

text \<open>A statement: the first violated check, or the new database.\<close>

definition checked :: "(bool \<times> go_error) list \<Rightarrow> 's \<Rightarrow> go_error + 's" where
  "checked cs d' = (case first_error cs of Some e \<Rightarrow> Inl e | None \<Rightarrow> Inr d')"

lemma checked_ok: "checked cs d = Inr d' \<longleftrightarrow> (\<forall>c\<in>set cs. \<not> fst c) \<and> d' = d"
  unfolding checked_def first_error_None [symmetric] by (auto split: option.split)

lemma checked_err: "checked cs d = Inl e \<Longrightarrow> e \<in> snd ` set cs"
  unfolding checked_def by (auto split: option.splits dest: first_error_mem)

lemma ball_concat_checks:
  "(\<forall>c\<in>set (concat (map g (map f (filter p xs)))). \<not> fst c) \<longleftrightarrow>
     (\<forall>x\<in>set xs. p x \<longrightarrow> (\<forall>c\<in>set (g (f x)). \<not> fst c))"
  by auto

definition missing :: "('r \<Rightarrow> uuid) \<Rightarrow> 'r list \<Rightarrow> uuid \<Rightarrow> bool" where
  "missing k rows i \<longleftrightarrow> \<not> list_ex (\<lambda>r. k r = i) rows"

definition longer :: "nat \<Rightarrow> string \<Rightarrow> bool" where
  "longer n s \<longleftrightarrow> n < length s"

definition longer_opt :: "nat \<Rightarrow> string option \<Rightarrow> bool" where
  "longer_opt n s \<longleftrightarrow> (case s of None \<Rightarrow> False | Some s \<Rightarrow> n < length s)"

definition missing_opt :: "('r \<Rightarrow> uuid) \<Rightarrow> 'r list \<Rightarrow> uuid option \<Rightarrow> bool" where
  "missing_opt k rows i \<longleftrightarrow> (case i of None \<Rightarrow> False | Some i \<Rightarrow> missing k rows i)"

section \<open>Appointments\<close>

definition ap_active :: "appointment_row \<Rightarrow> bool" where
  "ap_active a \<longleftrightarrow> active_status (ap_status a)"

text \<open>The exclusion constraints \<open>appointments_no_technician_overlap\<close> and
  \<open>appointments_no_service_bay_overlap\<close>.\<close>

definition technician_clash :: "appointment_row \<Rightarrow> appointment_row \<Rightarrow> bool" where
  "technician_clash x y \<longleftrightarrow> ap_active x \<and> ap_active y
     \<and> ap_technician_id x = ap_technician_id y
     \<and> overlaps (ap_starts_at x) (ap_ends_at x) (ap_starts_at y) (ap_ends_at y)"

definition service_bay_clash :: "appointment_row \<Rightarrow> appointment_row \<Rightarrow> bool" where
  "service_bay_clash x y \<longleftrightarrow> ap_active x \<and> ap_active y
     \<and> ap_service_bay_id x = ap_service_bay_id y
     \<and> overlaps (ap_starts_at x) (ap_ends_at x) (ap_starts_at y) (ap_ends_at y)"

interpretation ap_technician: exclusion technician_clash
  by unfold_locales (auto simp: technician_clash_def overlaps_sym)

interpretation ap_bay: exclusion service_bay_clash
  by unfold_locales (auto simp: service_bay_clash_def overlaps_sym)

text \<open>The trigger \<open>reject_appointment_during_time_off\<close>.\<close>

definition off_during :: "time_off_row \<Rightarrow> uuid \<Rightarrow> pgtime \<Rightarrow> pgtime \<Rightarrow> bool" where
  "off_during t technician starts_at ends_at \<longleftrightarrow>
     off_technician_id t = technician \<and> off_deleted_at t = None
     \<and> off_starts_at t < ends_at \<and> off_ends_at t > starts_at"

definition reject_appointment_during_time_off :: "db \<Rightarrow> appointment_row \<Rightarrow> bool" where
  "reject_appointment_during_time_off d a \<longleftrightarrow>
     ap_deleted_at a = None \<and> ap_active a
     \<and> list_ex (\<lambda>t. off_during t (ap_technician_id a) (ap_starts_at a) (ap_ends_at a)) (time_offs d)"

definition appointment_row_checks :: "db \<Rightarrow> appointment_row \<Rightarrow> (bool \<times> go_error) list" where
  "appointment_row_checks d a =
     [(longer 50 (ap_reference_code a), too_long),
      (longer 32 (status_string (ap_status a)), too_long),
      (reject_appointment_during_time_off d a,
         raised ''23P01'' ''appointments_no_technician_time_off'' ''appointment overlaps technician time off''),
      (ap_status a = AppointmentCancelled \<and> ap_cancellation_reason a = None,
         check_violation ''appointments_cancel_reason_check''),
      ((case ap_planned_duration_minutes a of None \<Rightarrow> False | Some n \<Rightarrow> n \<le> 0),
         check_violation ''appointments_planned_duration_positive''),
      (\<not> known_status (ap_status a), check_violation ''appointments_status_check''),
      (\<not> ap_ends_at a > ap_starts_at a, check_violation ''appointments_time_range_check'')]"

definition appointment_fk_checks :: "db \<Rightarrow> appointment_row \<Rightarrow> (bool \<times> go_error) list" where
  "appointment_fk_checks d a =
     [(missing cu_id (customers d) (ap_customer_id a), foreign_key_violation ''appointments_customer_id_fkey''),
      (missing ve_id (vehicles d) (ap_vehicle_id a), foreign_key_violation ''appointments_vehicle_id_fkey''),
      (missing dl_id (dealerships d) (ap_dealership_id a), foreign_key_violation ''appointments_dealership_id_fkey''),
      (missing sty_id (service_types d) (ap_service_type_id a), foreign_key_violation ''appointments_service_type_id_fkey''),
      (missing te_id (technicians d) (ap_technician_id a), foreign_key_violation ''appointments_technician_id_fkey''),
      (missing bay_id (service_bays d) (ap_service_bay_id a), foreign_key_violation ''appointments_service_bay_id_fkey''),
      (missing us_id (users d) (ap_created_by_user_id a), foreign_key_violation ''appointments_created_by_user_id_fkey''),
      (missing_opt us_id (users d) (ap_cancelled_by_user_id a), foreign_key_violation ''appointments_cancelled_by_user_id_fkey'')]"

definition insert_appointment :: "appointment_row \<Rightarrow> db \<Rightarrow> go_error + db" where
  "insert_appointment a d =
     (checked
        (appointment_row_checks d a
         @ [(list_ex (same_key ap_id a) (appointments d), unique_violation ''appointments_pkey''),
            (list_ex (same_key ap_reference_code a) (appointments d),
               unique_violation ''appointments_reference_code_key''),
            (list_ex (technician_clash a) (appointments d),
               exclusion_violation ''appointments_no_technician_overlap''),
            (list_ex (service_bay_clash a) (appointments d),
               exclusion_violation ''appointments_no_service_bay_overlap'')]
         @ appointment_fk_checks d a)
        (d\<lparr>appointments := appointments d @ [a]\<rparr>))"

definition update_appointments ::
  "(appointment_row \<Rightarrow> bool) \<Rightarrow> (appointment_row \<Rightarrow> appointment_row) \<Rightarrow> db \<Rightarrow> go_error + db" where
  "update_appointments p f d =
     (let rows = update_where p f (appointments d); new = map f (filter p (appointments d)) in
      checked
        (concat (map (appointment_row_checks d) new)
         @ [(\<not> conflict_free (same_key ap_id) rows, unique_violation ''appointments_pkey''),
            (\<not> conflict_free (same_key ap_reference_code) rows,
               unique_violation ''appointments_reference_code_key''),
            (\<not> conflict_free technician_clash rows,
               exclusion_violation ''appointments_no_technician_overlap''),
            (\<not> conflict_free service_bay_clash rows,
               exclusion_violation ''appointments_no_service_bay_overlap'')]
         @ concat (map (appointment_fk_checks d) new))
        (d\<lparr>appointments := rows\<rparr>))"

section \<open>Resource reservations\<close>

definition rv_held :: "reservation_row \<Rightarrow> bool" where
  "rv_held r \<longleftrightarrow> rv_released_at r = None \<and> active_status (rv_status r)"

text \<open>The exclusion constraint \<open>appointment_resource_reservations_no_overlap\<close>.\<close>

definition reservation_clash :: "reservation_row \<Rightarrow> reservation_row \<Rightarrow> bool" where
  "reservation_clash x y \<longleftrightarrow> rv_held x \<and> rv_held y
     \<and> rv_resource_type x = rv_resource_type y \<and> rv_resource_id x = rv_resource_id y
     \<and> overlaps (rv_reserved_starts_at x) (rv_reserved_ends_at x)
         (rv_reserved_starts_at y) (rv_reserved_ends_at y)"

interpretation reservation: exclusion reservation_clash
  by unfold_locales (auto simp: reservation_clash_def overlaps_sym)

definition reservation_row_checks :: "reservation_row \<Rightarrow> (bool \<times> go_error) list" where
  "reservation_row_checks r =
     [(longer 32 (status_string (rv_status r)), too_long),
      (\<not> rv_reserved_ends_at r > rv_reserved_starts_at r,
         check_violation ''appointment_resource_reservations_interval_check''),
      (\<not> known_status (rv_status r),
         check_violation ''appointment_resource_reservations_status_check'')]"

definition insert_reservation :: "reservation_row \<Rightarrow> db \<Rightarrow> go_error + db" where
  "insert_reservation r d =
     (checked
        (reservation_row_checks r
         @ [(list_ex (same_key rv_id r) (reservations d),
               unique_violation ''appointment_resource_reservations_pkey''),
            (list_ex (reservation_clash r) (reservations d),
               exclusion_violation ''appointment_resource_reservations_no_overlap''),
            (missing ap_id (appointments d) (rv_appointment_id r),
               foreign_key_violation ''appointment_resource_reservations_appointment_id_fkey''),
            (missing us_id (users d) (rv_assigned_by_user_id r),
               foreign_key_violation ''appointment_resource_reservations_assigned_by_user_id_fkey'')])
        (d\<lparr>reservations := reservations d @ [r]\<rparr>))"

definition update_reservations ::
  "(reservation_row \<Rightarrow> bool) \<Rightarrow> (reservation_row \<Rightarrow> reservation_row) \<Rightarrow> db \<Rightarrow> go_error + db" where
  "update_reservations p f d =
     (let rows = update_where p f (reservations d) in
      checked
        (concat (map reservation_row_checks (map f (filter p (reservations d))))
         @ [(\<not> conflict_free (same_key rv_id) rows,
               unique_violation ''appointment_resource_reservations_pkey''),
            (\<not> conflict_free reservation_clash rows,
               exclusion_violation ''appointment_resource_reservations_no_overlap'')])
        (d\<lparr>reservations := rows\<rparr>))"

section \<open>Audit events\<close>

text \<open>The table is append-only (trigger \<open>prevent_appointment_audit_mutation\<close>): there is an
  insert and no other statement.\<close>

definition insert_audit :: "audit_row \<Rightarrow> db \<Rightarrow> go_error + db" where
  "insert_audit a d =
     (checked
        [(longer 64 (au_event_type a), too_long),
         (list_ex (same_key au_id a) (audits d), unique_violation ''appointment_audit_events_pkey''),
         (missing ap_id (appointments d) (au_appointment_id a),
            foreign_key_violation ''appointment_audit_events_appointment_id_fkey''),
         (missing_opt us_id (users d) (au_actor_user_id a),
            foreign_key_violation ''appointment_audit_events_actor_user_id_fkey'')]
        (d\<lparr>audits := audits d @ [a]\<rparr>))"

section \<open>Technician time off\<close>

definition time_off_clash :: "time_off_row \<Rightarrow> time_off_row \<Rightarrow> bool" where
  "time_off_clash x y \<longleftrightarrow> off_deleted_at x = None \<and> off_deleted_at y = None
     \<and> off_technician_id x = off_technician_id y
     \<and> overlaps (off_starts_at x) (off_ends_at x) (off_starts_at y) (off_ends_at y)"

interpretation time_off_table: exclusion time_off_clash
  by unfold_locales (auto simp: time_off_clash_def overlaps_sym)

definition time_off_row_checks :: "time_off_row \<Rightarrow> (bool \<times> go_error) list" where
  "time_off_row_checks t =
     [(\<not> off_ends_at t > off_starts_at t, check_violation ''technician_time_off_range_check'')]"

definition insert_time_off :: "time_off_row \<Rightarrow> db \<Rightarrow> go_error + db" where
  "insert_time_off t d =
     (checked
        (time_off_row_checks t
         @ [(list_ex (same_key off_id t) (time_offs d), unique_violation ''technician_time_off_pkey''),
            (list_ex (time_off_clash t) (time_offs d),
               exclusion_violation ''technician_time_off_no_overlap''),
            (missing te_id (technicians d) (off_technician_id t),
               foreign_key_violation ''technician_time_off_technician_id_fkey''),
            (missing us_id (users d) (off_created_by_user_id t),
               foreign_key_violation ''technician_time_off_created_by_user_id_fkey'')])
        (d\<lparr>time_offs := time_offs d @ [t]\<rparr>))"

definition update_time_offs ::
  "(time_off_row \<Rightarrow> bool) \<Rightarrow> (time_off_row \<Rightarrow> time_off_row) \<Rightarrow> db \<Rightarrow> go_error + db" where
  "update_time_offs p f d =
     (let rows = update_where p f (time_offs d) in
      checked
        (concat (map time_off_row_checks (map f (filter p (time_offs d))))
         @ [(\<not> conflict_free (same_key off_id) rows, unique_violation ''technician_time_off_pkey''),
            (\<not> conflict_free time_off_clash rows,
               exclusion_violation ''technician_time_off_no_overlap'')])
        (d\<lparr>time_offs := rows\<rparr>))"

section \<open>Technician shifts\<close>

definition shift_clash :: "shift_row \<Rightarrow> shift_row \<Rightarrow> bool" where
  "shift_clash x y \<longleftrightarrow> shf_deleted_at x = None \<and> shf_deleted_at y = None
     \<and> shf_technician_id x = shf_technician_id y \<and> shf_day_of_week x = shf_day_of_week y
     \<and> overlaps (shf_starts_at x) (shf_ends_at x) (shf_starts_at y) (shf_ends_at y)"

interpretation shift_table: exclusion shift_clash
  by unfold_locales (auto simp: shift_clash_def overlaps_sym)

definition shift_row_checks :: "shift_row \<Rightarrow> (bool \<times> go_error) list" where
  "shift_row_checks s =
     [(\<not> (1 \<le> shf_day_of_week s \<and> shf_day_of_week s \<le> 7),
         check_violation ''technician_shifts_day_check''),
      (\<not> shf_ends_at s > shf_starts_at s, check_violation ''technician_shifts_hours_check'')]"

definition insert_shift :: "shift_row \<Rightarrow> db \<Rightarrow> go_error + db" where
  "insert_shift s d =
     (checked
        (shift_row_checks s
         @ [(list_ex (same_key shf_id s) (shifts d), unique_violation ''technician_shifts_pkey''),
            (list_ex (shift_clash s) (shifts d), exclusion_violation ''technician_shifts_no_overlap''),
            (missing te_id (technicians d) (shf_technician_id s),
               foreign_key_violation ''technician_shifts_technician_id_fkey'')])
        (d\<lparr>shifts := shifts d @ [s]\<rparr>))"

definition update_shifts ::
  "(shift_row \<Rightarrow> bool) \<Rightarrow> (shift_row \<Rightarrow> shift_row) \<Rightarrow> db \<Rightarrow> go_error + db" where
  "update_shifts p f d =
     (let rows = update_where p f (shifts d) in
      checked
        (concat (map shift_row_checks (map f (filter p (shifts d))))
         @ [(\<not> conflict_free (same_key shf_id) rows, unique_violation ''technician_shifts_pkey''),
            (\<not> conflict_free shift_clash rows, exclusion_violation ''technician_shifts_no_overlap'')])
        (d\<lparr>shifts := rows\<rparr>))"

section \<open>Operation times\<close>

definition operation_time_clash :: "operation_time_row \<Rightarrow> operation_time_row \<Rightarrow> bool" where
  "operation_time_clash x y \<longleftrightarrow>
     op_dealership_id x = op_dealership_id y \<and> op_day_of_week x = op_day_of_week y
     \<and> overlaps (op_opens_at x) (op_closes_at x) (op_opens_at y) (op_closes_at y)"

interpretation operation_time_table: exclusion operation_time_clash
  by unfold_locales (auto simp: operation_time_clash_def overlaps_sym)

definition operation_time_row_checks :: "operation_time_row \<Rightarrow> (bool \<times> go_error) list" where
  "operation_time_row_checks o' =
     [(\<not> (1 \<le> op_day_of_week o' \<and> op_day_of_week o' \<le> 7),
         check_violation ''dealership_operation_time_day_check''),
      (\<not> op_closes_at o' > op_opens_at o', check_violation ''dealership_operation_time_hours_check'')]"

definition insert_operation_time :: "operation_time_row \<Rightarrow> db \<Rightarrow> go_error + db" where
  "insert_operation_time o' d =
     (checked
        (operation_time_row_checks o'
         @ [(list_ex (same_key op_id o') (operation_times d),
               unique_violation ''dealership_operation_time_pkey''),
            (list_ex (operation_time_clash o') (operation_times d),
               exclusion_violation ''dealership_operation_time_no_overlap''),
            (missing dl_id (dealerships d) (op_dealership_id o'),
               foreign_key_violation ''dealership_operation_time_dealership_id_fkey'')])
        (d\<lparr>operation_times := operation_times d @ [o']\<rparr>))"

definition update_operation_times ::
  "(operation_time_row \<Rightarrow> bool) \<Rightarrow> (operation_time_row \<Rightarrow> operation_time_row) \<Rightarrow> db \<Rightarrow> go_error + db" where
  "update_operation_times p f d =
     (let rows = update_where p f (operation_times d) in
      checked
        (concat (map operation_time_row_checks (map f (filter p (operation_times d))))
         @ [(\<not> conflict_free (same_key op_id) rows, unique_violation ''dealership_operation_time_pkey''),
            (\<not> conflict_free operation_time_clash rows,
               exclusion_violation ''dealership_operation_time_no_overlap'')])
        (d\<lparr>operation_times := rows\<rparr>))"

section \<open>What a statement that succeeds has checked\<close>

lemma insert_appointment_ok:
  "insert_appointment a d = Inr d' \<longleftrightarrow>
     (\<forall>c\<in>set (appointment_row_checks d a). \<not> fst c) \<and> (\<forall>c\<in>set (appointment_fk_checks d a). \<not> fst c)
     \<and> \<not> list_ex (same_key ap_id a) (appointments d)
     \<and> \<not> list_ex (same_key ap_reference_code a) (appointments d)
     \<and> \<not> list_ex (technician_clash a) (appointments d)
     \<and> \<not> list_ex (service_bay_clash a) (appointments d)
     \<and> d' = d\<lparr>appointments := appointments d @ [a]\<rparr>"
  unfolding insert_appointment_def checked_ok set_append ball_Un ball_concat_checks
  by (simp, argo)

lemma update_appointments_ok:
  "update_appointments p f d = Inr d' \<longleftrightarrow>
     (\<forall>a\<in>set (appointments d). p a \<longrightarrow>
        (\<forall>c\<in>set (appointment_row_checks d (f a)). \<not> fst c)
        \<and> (\<forall>c\<in>set (appointment_fk_checks d (f a)). \<not> fst c))
     \<and> conflict_free (same_key ap_id) (update_where p f (appointments d))
     \<and> conflict_free (same_key ap_reference_code) (update_where p f (appointments d))
     \<and> conflict_free technician_clash (update_where p f (appointments d))
     \<and> conflict_free service_bay_clash (update_where p f (appointments d))
     \<and> d' = d\<lparr>appointments := update_where p f (appointments d)\<rparr>"
  unfolding update_appointments_def Let_def checked_ok set_append ball_Un ball_concat_checks
  by (simp, blast)

lemma insert_reservation_ok:
  "insert_reservation r d = Inr d' \<longleftrightarrow>
     (\<forall>c\<in>set (reservation_row_checks r). \<not> fst c)
     \<and> \<not> list_ex (same_key rv_id r) (reservations d)
     \<and> \<not> list_ex (reservation_clash r) (reservations d)
     \<and> \<not> missing ap_id (appointments d) (rv_appointment_id r)
     \<and> \<not> missing us_id (users d) (rv_assigned_by_user_id r)
     \<and> d' = d\<lparr>reservations := reservations d @ [r]\<rparr>"
  unfolding insert_reservation_def checked_ok set_append ball_Un ball_concat_checks
  by simp

lemma update_reservations_ok:
  "update_reservations p f d = Inr d' \<longleftrightarrow>
     (\<forall>r\<in>set (reservations d). p r \<longrightarrow> (\<forall>c\<in>set (reservation_row_checks (f r)). \<not> fst c))
     \<and> conflict_free (same_key rv_id) (update_where p f (reservations d))
     \<and> conflict_free reservation_clash (update_where p f (reservations d))
     \<and> d' = d\<lparr>reservations := update_where p f (reservations d)\<rparr>"
  unfolding update_reservations_def Let_def checked_ok set_append ball_Un ball_concat_checks
  by simp

lemma insert_audit_ok:
  "insert_audit a d = Inr d' \<longleftrightarrow>
     \<not> longer 64 (au_event_type a) \<and> \<not> list_ex (same_key au_id a) (audits d)
     \<and> \<not> missing ap_id (appointments d) (au_appointment_id a)
     \<and> \<not> missing_opt us_id (users d) (au_actor_user_id a)
     \<and> d' = d\<lparr>audits := audits d @ [a]\<rparr>"
  unfolding insert_audit_def checked_ok set_append ball_Un ball_concat_checks
  by simp

lemma insert_time_off_ok:
  "insert_time_off t d = Inr d' \<longleftrightarrow>
     off_starts_at t < off_ends_at t
     \<and> \<not> list_ex (same_key off_id t) (time_offs d)
     \<and> \<not> list_ex (time_off_clash t) (time_offs d)
     \<and> \<not> missing te_id (technicians d) (off_technician_id t)
     \<and> \<not> missing us_id (users d) (off_created_by_user_id t)
     \<and> d' = d\<lparr>time_offs := time_offs d @ [t]\<rparr>"
  unfolding insert_time_off_def time_off_row_checks_def checked_ok set_append ball_Un ball_concat_checks
  by simp

lemma update_time_offs_ok:
  "update_time_offs p f d = Inr d' \<longleftrightarrow>
     (\<forall>t\<in>set (time_offs d). p t \<longrightarrow> off_starts_at (f t) < off_ends_at (f t))
     \<and> conflict_free (same_key off_id) (update_where p f (time_offs d))
     \<and> conflict_free time_off_clash (update_where p f (time_offs d))
     \<and> d' = d\<lparr>time_offs := update_where p f (time_offs d)\<rparr>"
  unfolding update_time_offs_def Let_def time_off_row_checks_def checked_ok set_append ball_Un ball_concat_checks
  by simp

lemma insert_shift_ok:
  "insert_shift s d = Inr d' \<longleftrightarrow>
     1 \<le> shf_day_of_week s \<and> shf_day_of_week s \<le> 7 \<and> shf_starts_at s < shf_ends_at s
     \<and> \<not> list_ex (same_key shf_id s) (shifts d)
     \<and> \<not> list_ex (shift_clash s) (shifts d)
     \<and> \<not> missing te_id (technicians d) (shf_technician_id s)
     \<and> d' = d\<lparr>shifts := shifts d @ [s]\<rparr>"
  unfolding insert_shift_def shift_row_checks_def checked_ok set_append ball_Un ball_concat_checks
  by simp

lemma update_shifts_ok:
  "update_shifts p f d = Inr d' \<longleftrightarrow>
     (\<forall>s\<in>set (shifts d). p s \<longrightarrow> 1 \<le> shf_day_of_week (f s) \<and> shf_day_of_week (f s) \<le> 7
        \<and> shf_starts_at (f s) < shf_ends_at (f s))
     \<and> conflict_free (same_key shf_id) (update_where p f (shifts d))
     \<and> conflict_free shift_clash (update_where p f (shifts d))
     \<and> d' = d\<lparr>shifts := update_where p f (shifts d)\<rparr>"
  unfolding update_shifts_def Let_def shift_row_checks_def checked_ok set_append ball_Un ball_concat_checks
  by simp

lemma insert_operation_time_ok:
  "insert_operation_time o' d = Inr d' \<longleftrightarrow>
     1 \<le> op_day_of_week o' \<and> op_day_of_week o' \<le> 7 \<and> op_opens_at o' < op_closes_at o'
     \<and> \<not> list_ex (same_key op_id o') (operation_times d)
     \<and> \<not> list_ex (operation_time_clash o') (operation_times d)
     \<and> \<not> missing dl_id (dealerships d) (op_dealership_id o')
     \<and> d' = d\<lparr>operation_times := operation_times d @ [o']\<rparr>"
  unfolding insert_operation_time_def operation_time_row_checks_def checked_ok set_append ball_Un ball_concat_checks
  by simp

lemma update_operation_times_ok:
  "update_operation_times p f d = Inr d' \<longleftrightarrow>
     (\<forall>o'\<in>set (operation_times d). p o' \<longrightarrow> 1 \<le> op_day_of_week (f o') \<and> op_day_of_week (f o') \<le> 7
        \<and> op_opens_at (f o') < op_closes_at (f o'))
     \<and> conflict_free (same_key op_id) (update_where p f (operation_times d))
     \<and> conflict_free operation_time_clash (update_where p f (operation_times d))
     \<and> d' = d\<lparr>operation_times := update_where p f (operation_times d)\<rparr>"
  unfolding update_operation_times_def Let_def operation_time_row_checks_def checked_ok set_append ball_Un ball_concat_checks
  by simp

lemmas statement_ok = insert_appointment_ok update_appointments_ok insert_reservation_ok
  update_reservations_ok insert_audit_ok insert_time_off_ok update_time_offs_ok
  insert_shift_ok update_shifts_ok insert_operation_time_ok update_operation_times_ok

end
