(* ===== verification/Tx.thy ===== *)
theory Tx
  imports Errors
begin

text \<open>
  Transactions with retry (common/db.go).

  A transaction body is an action on a pair: the variables the Go closure captures (they
  survive a rollback) and the database. \<open>updateInTx\<close> begins, runs the body, commits or rolls
  back; \<open>updateInTxWithIsolation\<close> retries it while the error says "could not serialize
  access", at most ten times.

  What is outside the program is a parameter, gathered in a \<open>world\<close>: the retry loop of the
  backoff package (its documented behaviour is \<open>backoff_contract\<close>), the failures of the
  driver in each attempt, and what other sessions commit before each attempt. \<open>calm\<close> is the
  world without failures and without other sessions.

  The locale \<open>tx_runner\<close> is the promise the repositories rely on (all or nothing); it is
  interpreted on the program's own \<open>updateInTxWithIsolation\<close>.
\<close>

section \<open>The world around a transaction\<close>

text \<open>A commit can succeed, fail, or succeed with the answer lost on the way.\<close>

datatype commit_outcome = Committed | CommitFailed go_error | CommitLost go_error

text \<open>A driver failure can hit the first or the last statement of a body.\<close>

datatype statement_fault = NoFault | FaultFirst go_error | FaultLast go_error

record tx_faults =
  begin_error :: "go_error option"
  statement_fault :: statement_fault
  rollback_error :: "go_error option"
  commit_outcome :: commit_outcome

text \<open>What one call of the retried operation reports to the backoff package.\<close>

datatype attempt = Done | Retryable go_error | Permanent go_error

type_synonym ('c, 's) tx_body = "nat \<Rightarrow> ('c \<times> 's, go_error, unit) action"

type_synonym ('c, 's) retry_loop =
  "nat \<Rightarrow> (nat \<Rightarrow> 'c \<times> 's \<Rightarrow> attempt \<times> ('c \<times> 's)) \<Rightarrow> 'c \<times> 's \<Rightarrow> go_error option \<times> ('c \<times> 's)"

record ('c, 's) world =
  w_retry :: "('c, 's) retry_loop"
  w_faults :: "nat \<Rightarrow> tx_faults"
  w_others :: "nat \<Rightarrow> 's \<Rightarrow> 's"

section \<open>The code\<close>

definition couldNotSerializeAccessErrMsg :: string where
  "couldNotSerializeAccessErrMsg = ''could not serialize access''"

definition retryable_error :: "go_error \<Rightarrow> bool" where
  "retryable_error e \<longleftrightarrow> contains (error_text e) couldNotSerializeAccessErrMsg"

definition run_body ::
  "statement_fault \<Rightarrow> ('c \<times> 's, go_error, unit) action \<Rightarrow> ('c \<times> 's, go_error, unit) action" where
  "run_body f fn cs =
     (case f of
        NoFault \<Rightarrow> fn cs
      | FaultFirst e \<Rightarrow> (Inl e, cs)
      | FaultLast e \<Rightarrow> (case fn cs of (Inl e', cs') \<Rightarrow> (Inl e', cs') | (Inr _, cs') \<Rightarrow> (Inl e, cs')))"

definition updateInTx ::
  "tx_faults \<Rightarrow> ('c \<times> 's, go_error, unit) action \<Rightarrow> ('c \<times> 's, go_error, unit) action" where
  "updateInTx env fn cs =
     (case begin_error env of
        Some err \<Rightarrow>
          (if errors_is err DeadlineExceeded
           then (Inl (Wrapped ''could not begin transaction (possible pool exhaustion, context deadline exceeded): '' err), cs)
           else (Inl (Wrapped ''could not begin transaction: '' err), cs))
      | None \<Rightarrow>
          (case run_body (statement_fault env) fn cs of
             (Inl err, (c, _)) \<Rightarrow>
               (case rollback_error env of
                  Some rollbackErr \<Rightarrow> (Inl (Joined err rollbackErr), (c, snd cs))
                | None \<Rightarrow> (Inl err, (c, snd cs)))
           | (Inr _, (c, s)) \<Rightarrow>
               (case commit_outcome env of
                  Committed \<Rightarrow> (Inr (), (c, s))
                | CommitFailed err \<Rightarrow> (Inl err, (c, snd cs))
                | CommitLost err \<Rightarrow> (Inl err, (c, s)))))"

text \<open>The operation given to \<open>backoff.Retry\<close>; before each attempt other sessions have
  committed what they commit.\<close>

definition retried_operation ::
  "('c, 's) world \<Rightarrow> ('c, 's) tx_body \<Rightarrow> nat \<Rightarrow> 'c \<times> 's \<Rightarrow> attempt \<times> ('c \<times> 's)" where
  "retried_operation w fn i cs =
     (case updateInTx (w_faults w i) (fn i) (fst cs, w_others w i (snd cs)) of
        (Inr _, cs') \<Rightarrow> (Done, cs')
      | (Inl err, cs') \<Rightarrow>
          (if retryable_error err then (Retryable err, cs') else (Permanent err, cs')))"

definition updateInTxWithIsolation ::
  "('c, 's) world \<Rightarrow> ('c, 's) tx_body \<Rightarrow> ('c \<times> 's, go_error, unit) action" where
  "updateInTxWithIsolation w fn cs =
     (case w_retry w 10 (retried_operation w fn) cs of
        (None, cs') \<Rightarrow> (Inr (), cs')
      | (Some err, cs') \<Rightarrow> (Inl err, cs'))"

text \<open>The three isolation levels run the same code; what a level promises about other
  sessions is the world's.\<close>

definition UpdateInTx ::
  "('c, 's) world \<Rightarrow> ('c, 's) tx_body \<Rightarrow> ('c \<times> 's, go_error, unit) action" where
  "UpdateInTx = updateInTxWithIsolation"

definition UpdateInSerializableTx ::
  "('c, 's) world \<Rightarrow> ('c, 's) tx_body \<Rightarrow> ('c \<times> 's, go_error, unit) action" where
  "UpdateInSerializableTx = updateInTxWithIsolation"

definition UpdateInReadCommittedTx ::
  "('c, 's) world \<Rightarrow> ('c, 's) tx_body \<Rightarrow> ('c \<times> 's, go_error, unit) action" where
  "UpdateInReadCommittedTx = updateInTxWithIsolation"

section \<open>The retry loop\<close>

text \<open>The state after the first \<open>n\<close> attempts.\<close>

fun after_attempts ::
  "(nat \<Rightarrow> 'st \<Rightarrow> attempt \<times> 'st) \<Rightarrow> nat \<Rightarrow> 'st \<Rightarrow> 'st" where
  "after_attempts op 0 st = st"
| "after_attempts op (Suc n) st = snd (op n (after_attempts op n st))"

text \<open>The documented behaviour of \<open>backoff.Retry\<close> with \<open>WithMaxTries(tries)\<close>: it calls the
  operation again only after a retryable error, at most \<open>tries\<close> times in all, returns nil after
  a success and the cause of a permanent error as it is; after a last retryable error (or
  when the context ends while it waits) it returns an error.\<close>

definition retry_outcome ::
  "(nat \<Rightarrow> 'st \<Rightarrow> attempt \<times> 'st) \<Rightarrow> 'st \<Rightarrow> nat \<Rightarrow> go_error option \<times> 'st \<Rightarrow> bool" where
  "retry_outcome op st k res \<longleftrightarrow>
     (\<forall>i<k. \<exists>e. fst (op i (after_attempts op i st)) = Retryable e)
     \<and> snd res = after_attempts op (Suc k) st
     \<and> (case fst (op k (after_attempts op k st)) of
          Done \<Rightarrow> fst res = None
        | Permanent e \<Rightarrow> fst res = Some e
        | Retryable e \<Rightarrow> \<exists>e'. fst res = Some e')"

definition backoff_contract :: "('c, 's) retry_loop \<Rightarrow> bool" where
  "backoff_contract retry \<longleftrightarrow>
     (\<forall>tries op st. 0 < tries \<longrightarrow> (\<exists>k<tries. retry_outcome op st k (retry tries op st)))"

lemma backoff_contractE:
  assumes "backoff_contract retry" and "0 < tries" and "retry tries op st = (r, st')"
  obtains k where "k < tries"
    and "\<And>i. i < k \<Longrightarrow> \<exists>e. fst (op i (after_attempts op i st)) = Retryable e"
    and "st' = after_attempts op (Suc k) st"
    and "case fst (op k (after_attempts op k st)) of Done \<Rightarrow> r = None | Permanent e \<Rightarrow> r = Some e
         | Retryable e \<Rightarrow> \<exists>e'. r = Some e'"
  using assms unfolding backoff_contract_def retry_outcome_def by (metis fst_conv snd_conv)

text \<open>A loop that keeps the contract: try until something else than a retryable error.\<close>

fun retry_from ::
  "nat \<Rightarrow> nat \<Rightarrow> (nat \<Rightarrow> 'st \<Rightarrow> attempt \<times> 'st) \<Rightarrow> 'st \<Rightarrow> go_error option \<times> 'st" where
  "retry_from i 0 op st = (Some (ErrorString ''no tries''), st)"
| "retry_from i (Suc n) op st =
     (case op i st of
        (Done, st') \<Rightarrow> (None, st')
      | (Permanent e, st') \<Rightarrow> (Some e, st')
      | (Retryable e, st') \<Rightarrow> (if n = 0 then (Some e, st') else retry_from (Suc i) n op st'))"

definition plain_retry :: "('c, 's) retry_loop" where
  "plain_retry tries op st = retry_from 0 tries op st"

lemma retry_from_spec:
  assumes "0 < n" and "\<And>j. j < i \<Longrightarrow> \<exists>e. fst (op j (after_attempts op j st)) = Retryable e"
  shows "\<exists>k<i + n. retry_outcome op st k (retry_from i n op (after_attempts op i st))"
  using assms
proof (induction n arbitrary: i)
  case (Suc n)
  obtain a st' where a: "op i (after_attempts op i st) = (a, st')" by force
  show ?case
  proof (cases "(\<exists>e. a = Retryable e) \<and> n \<noteq> 0")
    case True
    then obtain e where e: "a = Retryable e" and n: "0 < n" by auto
    have "\<And>j. j < Suc i \<Longrightarrow> \<exists>e. fst (op j (after_attempts op j st)) = Retryable e"
      using Suc.prems(2) a e by (auto simp: less_Suc_eq)
    moreover have "retry_from i (Suc n) op (after_attempts op i st) =
        retry_from (Suc i) n op (after_attempts op (Suc i) st)"
      using a e n by simp
    ultimately show ?thesis using Suc.IH [OF n, of "Suc i"] by simp
  next
    case False
    then have "retry_outcome op st i (retry_from i (Suc n) op (after_attempts op i st))"
      using Suc.prems(2) a by (auto simp: retry_outcome_def split: attempt.split)
    then show ?thesis by (intro exI [of _ i]) simp
  qed
qed simp

lemma plain_retry_contract: "backoff_contract plain_retry"
  unfolding backoff_contract_def plain_retry_def
proof (intro allI impI)
  fix tries :: nat and op :: "nat \<Rightarrow> 'a \<times> 'b \<Rightarrow> attempt \<times> 'a \<times> 'b" and st
  assume "0 < tries"
  then show "\<exists>k<tries. retry_outcome op st k (retry_from 0 tries op st)"
    using retry_from_spec [of tries 0 op st] by simp
qed

section \<open>All or nothing\<close>

lemma updateInTx_cases:
  assumes "updateInTx f fn (c, s) = (r, (c', s'))"
  shows "(s' = s \<and> (\<exists>e. r = Inl e)) \<or> fn (c, s) = (Inr (), (c', s'))"
  using assms
  by (auto simp: updateInTx_def run_body_def
      split: option.splits prod.splits sum.splits commit_outcome.splits statement_fault.splits if_splits)

lemma updateInTx_success:
  assumes "updateInTx f fn (c, s) = (Inr u, (c', s'))"
  shows "fn (c, s) = (Inr (), (c', s'))"
  using updateInTx_cases [OF assms] by auto

text \<open>The databases a call may see: what other sessions made of the one it started from.\<close>

inductive seen :: "('c, 's) world \<Rightarrow> 's \<Rightarrow> nat \<Rightarrow> 's \<Rightarrow> bool" for w s where
  seen_0: "seen w s 0 (w_others w 0 s)"
| seen_Suc: "seen w s n t \<Longrightarrow> seen w s (Suc n) (w_others w (Suc n) t)"

lemma after_attempts_db:
  fixes w :: "('c, 's) world"
  assumes "\<And>i. i < n \<Longrightarrow> \<exists>e. fst (retried_operation w fn i
             (after_attempts (retried_operation w fn) i (c, s))) = Retryable e"
    and "\<And>i e. i < n \<Longrightarrow> commit_outcome (w_faults w i) = CommitLost e \<Longrightarrow> \<not> retryable_error e"
  shows "seen w s n (w_others w n (snd (after_attempts (retried_operation w fn) n (c, s))))"
  using assms
proof (induction n)
  case 0
  then show ?case by (simp add: seen_0)
next
  case (Suc n)
  let ?op = "retried_operation w fn"
  obtain cn sn where st: "after_attempts ?op n (c, s) = (cn, sn)" by force
  obtain r c' s' where up: "updateInTx (w_faults w n) (fn n) (cn, w_others w n sn) = (r, (c', s'))"
    by (metis prod_cases3)
  have opn: "?op n (cn, sn) = (case r of Inr u \<Rightarrow> (Done, (c', s'))
      | Inl e \<Rightarrow> (if retryable_error e then Retryable e else Permanent e, (c', s')))"
    by (simp add: retried_operation_def up split: sum.split)
  have "\<exists>e. fst (?op n (cn, sn)) = Retryable e"
    using Suc.prems(1) [of n] unfolding st by simp
  then obtain e where "r = Inl e" "retryable_error e"
    unfolding opn by (auto split: sum.splits if_splits)
  then have "s' = w_others w n sn"
    using up Suc.prems(2) [of n]
    by (auto simp: updateInTx_def run_body_def
        split: option.splits prod.splits sum.splits commit_outcome.splits statement_fault.splits if_splits)
  moreover have "snd (after_attempts ?op (Suc n) (c, s)) = s'"
    unfolding after_attempts.simps st opn by (simp split: sum.split)
  moreover have "seen w s n (w_others w n (snd (after_attempts ?op n (c, s))))"
    by (rule Suc.IH) (use Suc.prems less_SucI in blast)+
  ultimately show ?case using seen_Suc [of w s n] by (simp only: st snd_conv)
qed

text \<open>What a caller of a transaction may rely on: whenever it reports success, one run of the
  body, on a database it saw, produced the final database; when it reports an error the
  database is one it saw, or (a lost commit answer) the result of one run.\<close>

locale tx_runner =
  fixes run :: "('c, 's) tx_body \<Rightarrow> ('c \<times> 's, go_error, unit) action"
    and sees :: "'s \<Rightarrow> 's \<Rightarrow> bool"
  assumes run_success: "run fn (c, s) = (Inr u, (c', s')) \<Longrightarrow>
      \<exists>i c0 s0. sees s s0 \<and> fn i (c0, s0) = (Inr (), (c', s'))"
    and run_failure: "run fn (c, s) = (Inl e, (c', s')) \<Longrightarrow>
      sees s s' \<or> (\<exists>i c0 s0. sees s s0 \<and> fn i (c0, s0) = (Inr (), (c', s')))"
begin

lemma run_invariant:
  assumes "run fn (c, s) = (r, (c', s'))" and "I s"
    and "\<And>t t'. sees t t' \<Longrightarrow> I t \<Longrightarrow> I t'"
    and "\<And>i c0 s0 c1 s1. I s0 \<Longrightarrow> fn i (c0, s0) = (Inr (), (c1, s1)) \<Longrightarrow> I s1"
  shows "I s'"
proof (cases r)
  case (Inl e)
  then show ?thesis using assms run_failure [of fn c s e c' s'] by blast
next
  case (Inr u)
  then show ?thesis using assms run_success [of fn c s u c' s'] by blast
qed

end

text \<open>A world whose lost commit answers are not mistaken for serialization failures.\<close>

definition sound_world :: "('c, 's) world \<Rightarrow> bool" where
  "sound_world w \<longleftrightarrow> backoff_contract (w_retry w)
     \<and> (\<forall>i e. commit_outcome (w_faults w i) = CommitLost e \<longrightarrow> \<not> retryable_error e)"

lemma updateInTxWithIsolation_attempt:
  assumes "sound_world w" and "updateInTxWithIsolation w fn (c, s) = (r, (c', s'))"
  obtains k ck sk rk where "k < 10" and "seen w s k sk"
    and "updateInTx (w_faults w k) (fn k) (ck, sk) = (rk, (c', s'))"
    and "r = Inr () \<longleftrightarrow> rk = Inr ()"
    and "\<And>e. rk = Inl e \<Longrightarrow> \<not> retryable_error e \<Longrightarrow> r = Inl e"
    and "ck = fst (after_attempts (retried_operation w fn) k (c, s))"
proof -
  let ?op = "retried_operation w fn"
  obtain res where res: "w_retry w 10 ?op (c, s) = (res, (c', s'))"
      and r: "r = (case res of None \<Rightarrow> Inr () | Some e \<Rightarrow> Inl e)"
    using assms(2) by (auto simp: updateInTxWithIsolation_def split: prod.splits option.splits)
  from assms(1) have "backoff_contract (w_retry w)" by (simp add: sound_world_def)
  from backoff_contractE [OF this _ res] obtain k where k: "k < 10"
    and before: "\<And>i. i < k \<Longrightarrow> \<exists>e. fst (?op i (after_attempts ?op i (c, s))) = Retryable e"
    and fin: "(c', s') = after_attempts ?op (Suc k) (c, s)"
    and out: "case fst (?op k (after_attempts ?op k (c, s))) of Done \<Rightarrow> res = None
       | Permanent e \<Rightarrow> res = Some e | Retryable e \<Rightarrow> \<exists>e'. res = Some e'"
    by auto
  obtain ck tk where st: "after_attempts ?op k (c, s) = (ck, tk)" by force
  have seen: "seen w s k (w_others w k tk)"
    using after_attempts_db [of k w fn c s] before assms(1)
    by (simp only: sound_world_def st snd_conv) blast
  obtain rk cs' where up: "updateInTx (w_faults w k) (fn k) (ck, w_others w k tk) = (rk, cs')"
    by (rule prod.exhaust)
  have "cs' = (c', s')"
    using fin by (auto simp: st retried_operation_def up split: sum.splits)
  moreover have "r = Inr () \<longleftrightarrow> rk = Inr ()" and "\<And>e. rk = Inl e \<Longrightarrow> \<not> retryable_error e \<Longrightarrow> r = Inl e"
    using out r by (auto simp: st retried_operation_def up split: sum.splits if_splits)
  ultimately show thesis using that [OF k seen] up st by (metis fst_conv)
qed

text \<open>The captured variables: what every run of the body keeps of them, whatever its outcome,
  holds when an attempt starts.\<close>

lemma updateInTx_captured:
  assumes "updateInTx f fn (c, s) = (r, (c', s'))" and "C c"
    and "\<And>r c1 s1. fn (c, s) = (r, (c1, s1)) \<Longrightarrow> C c1"
  shows "C c'"
  using assms
  by (auto simp: updateInTx_def run_body_def
      split: option.splits prod.splits sum.splits commit_outcome.splits statement_fault.splits if_splits)

lemma after_attempts_captured:
  assumes "C c" and "\<And>i c s r c1 s1. C c \<Longrightarrow> fn i (c, s) = (r, (c1, s1)) \<Longrightarrow> C c1"
  shows "C (fst (after_attempts (retried_operation w fn) n (c, s)))"
proof (induction n)
  case (Suc n)
  obtain cn sn where st: "after_attempts (retried_operation w fn) n (c, s) = (cn, sn)" by force
  obtain r c' s' where up: "updateInTx (w_faults w n) (fn n) (cn, w_others w n sn) = (r, (c', s'))"
    by (metis prod_cases3)
  have "C c'" using updateInTx_captured [OF up, of C] Suc st assms(2) by auto
  moreover have "fst (snd (retried_operation w fn n (cn, sn))) = c'"
    by (simp add: retried_operation_def up split: sum.split)
  ultimately show ?case by (simp add: st)
qed (simp add: assms(1))

locale tx_world =
  fixes w :: "('c, 's) world"
  assumes sound: "sound_world w"
begin

definition sees :: "'s \<Rightarrow> 's \<Rightarrow> bool" where
  "sees s t \<longleftrightarrow> (\<exists>k<10. seen w s k t)"

end

sublocale tx_world \<subseteq> runner: tx_runner "updateInTxWithIsolation w" sees
proof unfold_locales
  fix fn c s u c' s'
  assume run: "updateInTxWithIsolation w fn (c, s) = (Inr u, (c', s'))"
  show "\<exists>i c0 s0. sees s s0 \<and> fn i (c0, s0) = (Inr (), (c', s'))"
    by (rule updateInTxWithIsolation_attempt [OF sound run])
      (auto simp: sees_def dest: updateInTx_success)
next
  fix fn c s e c' s'
  assume run: "updateInTxWithIsolation w fn (c, s) = (Inl e, (c', s'))"
  show "sees s s' \<or> (\<exists>i c0 s0. sees s s0 \<and> fn i (c0, s0) = (Inr (), (c', s')))"
    by (rule updateInTxWithIsolation_attempt [OF sound run])
      (drule updateInTx_cases, unfold sees_def, blast)
qed

section \<open>The calm world\<close>

definition no_faults :: tx_faults where
  "no_faults = \<lparr>begin_error = None, statement_fault = NoFault, rollback_error = None,
     commit_outcome = Committed\<rparr>"

definition calm :: "('c, 's) retry_loop \<Rightarrow> ('c, 's) world" where
  "calm retry = \<lparr>w_retry = retry, w_faults = (\<lambda>i. no_faults), w_others = (\<lambda>i s. s)\<rparr>"

lemma calm_sound: "backoff_contract retry \<Longrightarrow> sound_world (calm retry)"
  by (simp add: sound_world_def calm_def no_faults_def)

lemma calm_seen: "seen (calm retry) s k t \<Longrightarrow> t = s"
  by (induction rule: seen.induct) (simp_all add: calm_def)

lemma updateInTx_no_faults:
  "updateInTx no_faults fn (c, s) =
     (case fn (c, s) of (Inl e, (c', _)) \<Rightarrow> (Inl e, (c', s)) | (Inr u, cs') \<Rightarrow> (Inr (), cs'))"
  by (auto simp: updateInTx_def no_faults_def run_body_def split: prod.split sum.split)

lemma calm_run:
  assumes "backoff_contract retry"
  shows "fn 0 (c, s) = (Inr u, (c', s')) \<Longrightarrow>
           updateInTxWithIsolation (calm retry) fn (c, s) = (Inr (), (c', s'))"
    and "fn 0 (c, s) = (Inl e, (c', s')) \<Longrightarrow> \<not> retryable_error e \<Longrightarrow>
           updateInTxWithIsolation (calm retry) fn (c, s) = (Inl e, (c', s))"
proof -
  let ?op = "retried_operation (calm retry) fn"
  obtain res cs' where res: "retry 10 ?op (c, s) = (res, cs')" by (rule prod.exhaust)
  obtain k where k: "\<And>i. i < k \<Longrightarrow> \<exists>e. fst (?op i (after_attempts ?op i (c, s))) = Retryable e"
    and fin: "cs' = after_attempts ?op (Suc k) (c, s)"
    and out: "case fst (?op k (after_attempts ?op k (c, s))) of Done \<Rightarrow> res = None
       | Permanent e \<Rightarrow> res = Some e | Retryable e \<Rightarrow> \<exists>e'. res = Some e'"
    using backoff_contractE [OF assms _ res] by auto
  have op0: "?op 0 (c, s) = (case fn 0 (c, s) of
      (Inr _, cs') \<Rightarrow> (Done, cs')
    | (Inl e, (c', _)) \<Rightarrow> (if retryable_error e then Retryable e else Permanent e, (c', s)))"
    by (auto simp: retried_operation_def calm_def updateInTx_no_faults split: prod.split sum.split)
  have k0: "k = 0" if "\<And>e. fst (?op 0 (c, s)) \<noteq> Retryable e"
    using k [of 0] that by (cases k) auto
  have run: "updateInTxWithIsolation (calm retry) fn (c, s) =
      (case res of None \<Rightarrow> Inr () | Some e \<Rightarrow> Inl e, cs')"
    using res by (simp add: updateInTxWithIsolation_def calm_def split: option.split)
  show "updateInTxWithIsolation (calm retry) fn (c, s) = (Inr (), (c', s'))"
    if "fn 0 (c, s) = (Inr u, (c', s'))"
    using k0 that fin out run op0 by simp
  show "updateInTxWithIsolation (calm retry) fn (c, s) = (Inl e, (c', s))"
    if "fn 0 (c, s) = (Inl e, (c', s'))" and "\<not> retryable_error e"
    using k0 that fin out run op0 by simp
qed

lemma calm_failure:
  assumes "backoff_contract retry"
    and "updateInTxWithIsolation (calm retry) fn (c, s) = (Inl e, (c', s'))"
  shows "s' = s"
proof (rule updateInTxWithIsolation_attempt [OF calm_sound [OF assms(1)] assms(2)])
  fix k ck sk rk
  assume "seen (calm retry) s k sk"
    and up: "updateInTx (w_faults (calm retry) k) (fn k) (ck, sk) = (rk, (c', s'))"
    and "(Inl e :: go_error + unit) = Inr () \<longleftrightarrow> rk = Inr ()"
  then show "s' = s" using calm_seen [of retry s k sk]
    by (auto simp: calm_def updateInTx_no_faults split: prod.splits sum.splits)
qed

lemma calm_success:
  assumes "backoff_contract retry"
    and "updateInTxWithIsolation (calm retry) fn (c, s) = (Inr u, (c', s'))"
  obtains k where "k < 10"
    and "fn k (fst (after_attempts (retried_operation (calm retry) fn) k (c, s)), s) = (Inr (), (c', s'))"
proof (rule updateInTxWithIsolation_attempt [OF calm_sound [OF assms(1)] assms(2)])
  fix k ck sk rk
  assume k: "k < 10" and "seen (calm retry) s k sk"
    and up: "updateInTx (w_faults (calm retry) k) (fn k) (ck, sk) = (rk, (c', s'))"
    and "(Inr u :: go_error + unit) = Inr () \<longleftrightarrow> rk = Inr ()"
    and "ck = fst (after_attempts (retried_operation (calm retry) fn) k (c, s))"
  then show thesis
    using that [OF k] calm_seen [of retry s k sk] updateInTx_success [of _ _ ck sk "()" c' s'] by simp
qed

text \<open>The locale on the program's transactions: with a retry loop that keeps the contract and
  nothing failing around it.\<close>

interpretation calm_world: tx_world "calm plain_retry"
  by unfold_locales (rule calm_sound, rule plain_retry_contract)

lemma seen_keeps:
  "seen w s k t \<Longrightarrow> (\<And>i x. I x \<Longrightarrow> I (w_others w i x)) \<Longrightarrow> I s \<Longrightarrow> I t"
  by (induction rule: seen.induct) auto

text \<open>An invariant every body and every other session keeps is kept by a transaction,
  whatever fails.\<close>

context tx_world
begin

lemma tx_keeps:
  assumes run: "updateInTxWithIsolation w fn (c, s) = (r, (c', s'))" and I: "I s"
    and others: "\<And>i t. I t \<Longrightarrow> I (w_others w i t)"
    and body: "\<And>i c0 s0 c1 s1. I s0 \<Longrightarrow> fn i (c0, s0) = (Inr (), (c1, s1)) \<Longrightarrow> I s1"
  shows "I s'"
  using run I
proof (rule runner.run_invariant)
  fix t t'
  assume "sees t t'" and "I t"
  then obtain k where "seen w t k t'" by (auto simp: sees_def)
  then show "I t'" using others \<open>I t\<close> by (rule seen_keeps)
qed (rule body)

end

lemmas tx_invariant = tx_world.tx_keeps [OF tx_world.intro]

text \<open>The same with a property of the captured variables.\<close>

lemma tx_invariant_captured:
  assumes "sound_world w" and run: "updateInTxWithIsolation w fn (c, s) = (r, (c', s'))"
    and I: "I s" and C: "C c"
    and others: "\<And>i t. I t \<Longrightarrow> I (w_others w i t)"
    and captured: "\<And>i c s r c1 s1. C c \<Longrightarrow> fn i (c, s) = (r, (c1, s1)) \<Longrightarrow> C c1"
    and body: "\<And>i c0 s0 c1 s1. C c0 \<Longrightarrow> I s0 \<Longrightarrow> fn i (c0, s0) = (Inr (), (c1, s1)) \<Longrightarrow> I s1"
  shows "I s'"
proof (rule updateInTxWithIsolation_attempt [OF assms(1) run])
  fix k ck sk rk
  assume seen: "seen w s k sk" and up: "updateInTx (w_faults w k) (fn k) (ck, sk) = (rk, (c', s'))"
    and ck: "ck = fst (after_attempts (retried_operation w fn) k (c, s))"
  have "I sk" using seen others I by (rule seen_keeps)
  moreover have "C ck" unfolding ck by (rule after_attempts_captured [where C = C, OF C]) (rule captured)
  ultimately show "I s'" using updateInTx_cases [OF up] body by blast
qed

section \<open>Bodies without captured variables\<close>

text \<open>A method that runs its body in \<open>common.UpdateInTx\<close>.\<close>

definition in_tx :: "(unit, 's) world \<Rightarrow> (nat \<Rightarrow> ('s, go_error, unit) action) \<Rightarrow> ('s, go_error, unit) action" where
  "in_tx w body d =
     (case UpdateInTx w (\<lambda>i (u, s). case body i s of (r, s') \<Rightarrow> (r, (u, s'))) ((), d) of
        (r, (_, d')) \<Rightarrow> (r, d'))"

lemma in_tx_calm:
  assumes "backoff_contract retry"
  shows "body 0 d = (Inr u, d') \<Longrightarrow> in_tx (calm retry) body d = (Inr (), d')"
    and "body 0 d = (Inl e, d') \<Longrightarrow> \<not> retryable_error e \<Longrightarrow> in_tx (calm retry) body d = (Inl e, d)"
  unfolding in_tx_def UpdateInTx_def
  using calm_run [OF assms, where c = "()" and s = d and c' = "()" and s' = d'
      and fn = "\<lambda>i (u, s). case body i s of (r, s') \<Rightarrow> (r, (u, s'))"]
  by simp_all

lemma in_tx_calm_ok:
  assumes "backoff_contract retry" and "\<And>i. body i = body 0" and "in_tx (calm retry) body d = (Inr u, d')"
  shows "body 0 d = (Inr (), d')"
proof -
  let ?fn = "\<lambda>i (u, s). case body i s of (r, s') \<Rightarrow> (r, (u, s'))"
  obtain v where "updateInTxWithIsolation (calm retry) ?fn ((), d) = (Inr u, (v, d'))"
    using assms(3) by (auto simp: in_tx_def UpdateInTx_def split: prod.splits)
  then obtain k where "?fn k (fst (after_attempts (retried_operation (calm retry) ?fn) k ((), d)), d) = (Inr (), (v, d'))"
    by (rule calm_success [OF assms(1)])
  then show ?thesis using assms(2) [of k] by (auto split: prod.splits)
qed

end
