(* ===== verification/Appointment_Repository.thy ===== *)
theory Appointment_Repository
  imports Store Tx
begin

text \<open>
  The appointment repository (adapters/db/appointment\_repository.go) and the queries it runs
  (adapters/db/dbmodels/appointments.sql.go, appointment\_resource\_reservations.sql.go,
  appointment\_audit\_events.sql.go): scheduling an appointment, one lifecycle transition.

  \<open>ScheduleAppointment_tx\<close> and \<open>TransitionAppointment_tx\<close> are the transaction bodies; the
  repository methods run them with \<open>UpdateInSerializableTx\<close>. The ids a body draws with
  \<open>uuid.New\<close> are a parameter per attempt. The zone database of PostgreSQL is the parameter
  \<open>zone\<close>.
\<close>

section \<open>Records of the application layer\<close>

record ScheduleAppointmentRecord =
  sar_AppointmentID :: uuid
  sar_CustomerID :: uuid
  sar_VehicleID :: uuid
  sar_DealershipID :: uuid
  sar_ServiceTypeID :: uuid
  sar_TechnicianID :: uuid
  sar_ServiceBayID :: uuid
  sar_CreatedByUserID :: uuid
  sar_ReferenceCode :: string
  sar_StartsAt :: gotime
  sar_EndsAt :: gotime
  sar_CreatedAt :: gotime
  sar_UpdatedAt :: gotime
  sar_PlannedDurationMinutes :: int
  sar_Notes :: "string option"

record AppointmentTransition =
  tr_AppointmentID :: uuid
  tr_DealershipID :: uuid
  tr_ActorUserID :: uuid
  tr_From :: AppointmentStatus
  tr_To :: AppointmentStatus
  tr_OccurredAt :: gotime
  tr_ActualEndsAt :: "gotime option"
  tr_CancellationReason :: "string option"
  tr_Note :: "string option"

section \<open>Queries\<close>

definition GetActiveDealershipTimezone :: "db \<Rightarrow> uuid \<Rightarrow> string result" where
  "GetActiveDealershipTimezone d dealershipID =
     (case find_row (\<lambda>r. dl_id r = dealershipID \<and> dl_is_active r \<and> dl_deleted_at r = None)
             (dealerships d) of
        None \<Rightarrow> Inl ErrNoRows
      | Some r \<Rightarrow> Inr (dl_timezone r))"

definition GetActiveServiceTypeDuration :: "db \<Rightarrow> uuid \<Rightarrow> uuid \<Rightarrow> (int \<times> int) result" where
  "GetActiveServiceTypeDuration d serviceTypeID dealershipID =
     (case find_row (\<lambda>r. sty_id r = serviceTypeID \<and> sty_dealership_id r = dealershipID
              \<and> sty_is_active r \<and> sty_deleted_at r = None) (service_types d) of
        None \<Rightarrow> Inl ErrNoRows
      | Some r \<Rightarrow> Inr (sty_min_duration_minutes r, sty_max_duration_minutes r))"

definition CustomerVehicleBelongsToDealership :: "db \<Rightarrow> uuid \<Rightarrow> uuid \<Rightarrow> uuid \<Rightarrow> bool" where
  "CustomerVehicleBelongsToDealership d vehicleID customerID dealershipID \<longleftrightarrow>
     list_ex (\<lambda>cd. list_ex (\<lambda>v. ve_customer_id v = cd_customer_id cd \<and> ve_id v = vehicleID
                  \<and> ve_deleted_at v = None) (vehicles d)
                \<and> cd_customer_id cd = customerID \<and> cd_dealership_id cd = dealershipID)
       (customer_dealerships d)"

definition IsWithinDealershipOperatingHours ::
  "zone_db \<Rightarrow> db \<Rightarrow> uuid \<Rightarrow> string \<Rightarrow> pgtime \<Rightarrow> pgtime \<Rightarrow> bool" where
  "IsWithinDealershipOperatingHours zone d dealershipID timezone startsAt endsAt \<longleftrightarrow>
     list_ex (\<lambda>ot. op_dealership_id ot = dealershipID
         \<and> op_day_of_week ot = isodow (zone timezone startsAt)
         \<and> local_date (zone timezone startsAt) = local_date (zone timezone endsAt)
         \<and> local_time (zone timezone startsAt) \<ge> op_opens_at ot
         \<and> local_time (zone timezone endsAt) \<le> op_closes_at ot) (operation_times d)"

definition IsCompatibleTechnician :: "db \<Rightarrow> uuid \<Rightarrow> uuid \<Rightarrow> uuid \<Rightarrow> bool" where
  "IsCompatibleTechnician d technicianID dealershipID serviceTypeID \<longleftrightarrow>
     list_ex (\<lambda>t. list_ex (\<lambda>u. us_id u = te_user_id t
           \<and> te_id t = technicianID \<and> us_dealership_id u = dealershipID
           \<and> te_is_active t \<and> te_deleted_at t = None \<and> us_deleted_at u = None
           \<and> \<not> list_ex (\<lambda>required. rsk_service_type_id required = serviceTypeID
                 \<and> \<not> list_ex (\<lambda>skill. tsk_technician_id skill = te_id t
                       \<and> tsk_skill_id skill = rsk_skill_id required) (technician_skills d))
               (required_skills d)) (users d)) (technicians d)"

definition IsCompatibleServiceBay :: "db \<Rightarrow> uuid \<Rightarrow> uuid \<Rightarrow> uuid \<Rightarrow> bool" where
  "IsCompatibleServiceBay d serviceBayID dealershipID serviceTypeID \<longleftrightarrow>
     list_ex (\<lambda>b. bay_id b = serviceBayID \<and> bay_dealership_id b = dealershipID
         \<and> bay_is_active b \<and> bay_deleted_at b = None
         \<and> \<not> list_ex (\<lambda>required. rcap_service_type_id required = serviceTypeID
               \<and> \<not> list_ex (\<lambda>capability. bcap_service_bay_id capability = bay_id b
                     \<and> bcap_bay_capability_id capability = rcap_bay_capability_id required)
                   (bay_capabilities d))
             (required_capabilities d)) (service_bays d)"

definition IsTechnicianAvailableForAppointment ::
  "zone_db \<Rightarrow> db \<Rightarrow> uuid \<Rightarrow> string \<Rightarrow> pgtime \<Rightarrow> pgtime \<Rightarrow> bool option" where
  "IsTechnicianAvailableForAppointment zone d technicianID timezone startsAt endsAt =
     Some (list_ex (\<lambda>s. shf_technician_id s = technicianID \<and> shf_deleted_at s = None
             \<and> shf_day_of_week s = isodow (zone timezone startsAt)
             \<and> local_date (zone timezone startsAt) = local_date (zone timezone endsAt)
             \<and> local_time (zone timezone startsAt) \<ge> shf_starts_at s
             \<and> local_time (zone timezone endsAt) \<le> shf_ends_at s) (shifts d)
           \<and> \<not> list_ex (\<lambda>t. off_during t technicianID startsAt endsAt) (time_offs d))"

text \<open>The rows the statements insert.\<close>

definition scheduled_row :: "ScheduleAppointmentRecord \<Rightarrow> appointment_row" where
  "scheduled_row r =
     \<lparr>ap_id = sar_AppointmentID r, ap_reference_code = sar_ReferenceCode r,
      ap_customer_id = sar_CustomerID r, ap_vehicle_id = sar_VehicleID r,
      ap_dealership_id = sar_DealershipID r, ap_service_type_id = sar_ServiceTypeID r,
      ap_technician_id = sar_TechnicianID r, ap_service_bay_id = sar_ServiceBayID r,
      ap_starts_at = to_pg (sar_StartsAt r), ap_ends_at = to_pg (sar_EndsAt r),
      ap_status = AppointmentRequested, ap_notes = sar_Notes r,
      ap_created_by_user_id = sar_CreatedByUserID r, ap_cancelled_by_user_id = None,
      ap_cancellation_reason = None, ap_created_at = to_pg (sar_CreatedAt r),
      ap_deleted_at = None, ap_updated_at = to_pg (sar_UpdatedAt r), ap_cancelled_at = None,
      ap_checked_in_at = None, ap_in_progress_at = None, ap_started_at = None,
      ap_completed_at = None, ap_actual_ends_at = None,
      ap_planned_duration_minutes = Some (to_int32 (sar_PlannedDurationMinutes r))\<rparr>"

definition reservation_of ::
  "ScheduleAppointmentRecord \<Rightarrow> resource_type \<Rightarrow> uuid \<Rightarrow> uuid \<Rightarrow> reservation_row" where
  "reservation_of r kind resource id' =
     \<lparr>rv_id = id', rv_appointment_id = sar_AppointmentID r, rv_resource_type = kind,
      rv_resource_id = resource, rv_reserved_starts_at = to_pg (sar_StartsAt r),
      rv_reserved_ends_at = to_pg (sar_EndsAt r), rv_status = AppointmentRequested,
      rv_assigned_at = to_pg (sar_CreatedAt r), rv_released_at = None,
      rv_assigned_by_user_id = sar_CreatedByUserID r, rv_reason = None\<rparr>"

definition CreateScheduledAppointment :: "ScheduleAppointmentRecord \<Rightarrow> db \<Rightarrow> go_error + db" where
  "CreateScheduledAppointment r = insert_appointment (scheduled_row r)"

definition CreateAppointmentResourceReservation ::
  "ScheduleAppointmentRecord \<Rightarrow> resource_type \<Rightarrow> uuid \<Rightarrow> uuid \<Rightarrow> db \<Rightarrow> go_error + db" where
  "CreateAppointmentResourceReservation r kind resource id' =
     insert_reservation (reservation_of r kind resource id')"

definition audit_of ::
  "uuid \<Rightarrow> uuid \<Rightarrow> uuid \<Rightarrow> string \<Rightarrow> json option \<Rightarrow> json option \<Rightarrow> pgtime \<Rightarrow> audit_row" where
  "audit_of id' appointmentID actorUserID eventType beforeData afterData occurredAt =
     \<lparr>au_id = id', au_appointment_id = appointmentID, au_actor_user_id = Some actorUserID,
      au_event_type = eventType, au_before_data = beforeData, au_after_data = afterData,
      au_occurred_at = occurredAt\<rparr>"

definition CreateAppointmentAuditEvents :: "audit_row \<Rightarrow> db \<Rightarrow> go_error + db" where
  "CreateAppointmentAuditEvents = insert_audit"

text \<open>\<open>json.Marshal\<close> of a map (keys sorted): it fails on a time outside the years 0 to 9999.\<close>

fun json_time_ok :: "json_value \<Rightarrow> bool" where
  "json_time_ok (JTime t) =
     (- 62167219200000000000 \<le> instant t \<and> instant t < 253402300800000000000)"
| "json_time_ok v = True"

definition json_marshal :: "json \<Rightarrow> json result" where
  "json_marshal j = (if list_all (\<lambda>kv. json_time_ok (snd kv)) j then Inr j
     else Inl (ErrorString ''json: error calling MarshalJSON for type time.Time: Time.MarshalJSON: year outside of range [0,9999]''))"

definition json_string_opt :: "string option \<Rightarrow> json_value" where
  "json_string_opt s = (case s of None \<Rightarrow> JNull | Some s \<Rightarrow> JString s)"

definition json_time_opt :: "gotime option \<Rightarrow> json_value" where
  "json_time_opt t = (case t of None \<Rightarrow> JNull | Some t \<Rightarrow> JTime t)"

lemma json_marshal_ok [ok_iff]:
  "json_marshal j = Inr j' \<longleftrightarrow> j' = j \<and> list_all (\<lambda>kv. json_time_ok (snd kv)) j"
  by (auto simp: json_marshal_def)

section \<open>Scheduling\<close>

definition appointmentWriteError :: "go_error \<Rightarrow> go_error" where
  "appointmentWriteError err =
     (case as_pg err of
        Some (code, constr) \<Rightarrow>
          (if code = ''23P01'' \<or> constr = ''appointment_resource_reservations_no_overlap''
           then AppAppointmentErr ErrAppointmentUnavailable else err)
      | None \<Rightarrow> err)"

text \<open>The eligibility checks, in the order of the transaction.\<close>

definition schedule_checks ::
  "zone_db \<Rightarrow> string \<Rightarrow> ScheduleAppointmentRecord \<Rightarrow> db \<Rightarrow> unit result" where
  "schedule_checks zone timezone record d =
     rbind (rguard (CustomerVehicleBelongsToDealership d (sar_VehicleID record)
              (sar_CustomerID record) (sar_DealershipID record))
        (unprocessable ''invalid_customer_vehicle''
           ''vehicle does not belong to the customer in this dealership'')) (\<lambda>_.
     rbind (rguard (IsWithinDealershipOperatingHours zone d (sar_DealershipID record) timezone
              (to_pg (sar_StartsAt record)) (to_pg (sar_EndsAt record)))
        (unprocessable ''operating_hours_violation''
           ''appointment is outside dealership operating hours'')) (\<lambda>_.
     rbind (rguard (IsCompatibleTechnician d (sar_TechnicianID record) (sar_DealershipID record)
              (sar_ServiceTypeID record))
        (unprocessable ''incompatible_technician''
           ''technician is inactive or lacks required skills'')) (\<lambda>_.
     rbind (rguard (IsCompatibleServiceBay d (sar_ServiceBayID record) (sar_DealershipID record)
              (sar_ServiceTypeID record))
        (unprocessable ''incompatible_service_bay''
           ''service bay is inactive or incompatible'')) (\<lambda>_.
     rguard (case IsTechnicianAvailableForAppointment zone d (sar_TechnicianID record) timezone
               (to_pg (sar_StartsAt record)) (to_pg (sar_EndsAt record)) of
               None \<Rightarrow> False | Some available \<Rightarrow> available)
       (unprocessable ''technician_schedule_violation''
          ''technician shift or time off prevents this appointment'')))))"

text \<open>The writes: the appointment, one reservation per resource, the audit event.\<close>

fun create_reservations ::
  "ScheduleAppointmentRecord \<Rightarrow> (resource_type \<times> uuid \<times> uuid) list \<Rightarrow> db \<Rightarrow> go_error + db" where
  "create_reservations record [] d = Inr d"
| "create_reservations record ((kind, resource, id') # rs) d =
     rbind (rerr appointmentWriteError
        (CreateAppointmentResourceReservation record kind resource id' d))
       (create_reservations record rs)"

definition schedule_writes ::
  "uuid \<times> uuid \<times> uuid \<Rightarrow> ScheduleAppointmentRecord \<Rightarrow> db \<Rightarrow> go_error + db" where
  "schedule_writes ids record d =
     (case ids of (technicianReservation, bayReservation, auditEvent) \<Rightarrow>
      rbind (rerr appointmentWriteError (CreateScheduledAppointment record d)) (\<lambda>d.
      rbind (create_reservations record
               [(ResTechnician, sar_TechnicianID record, technicianReservation),
                (ResServiceBay, sar_ServiceBayID record, bayReservation)] d) (\<lambda>d.
      rbind (rerr (Wrapped ''marshal appointment audit event: '')
               (json_marshal [(''ends_at'', JTime (sar_EndsAt record)),
                  (''starts_at'', JTime (sar_StartsAt record)), (''status'', JString ''requested'')]))
        (\<lambda>after.
      CreateAppointmentAuditEvents
        (audit_of auditEvent (sar_AppointmentID record) (sar_CreatedByUserID record)
           ''created'' None (Some after) (to_pg (sar_CreatedAt record))) d))))"

text \<open>The body of the transaction. The closure assigns the duration and the end of the
  record it captured.\<close>

definition ScheduleAppointment_tx ::
  "zone_db \<Rightarrow> uuid \<times> uuid \<times> uuid \<Rightarrow> (ScheduleAppointmentRecord \<times> db, go_error, unit) action" where
  "ScheduleAppointment_tx zone ids rd =
     (let record = fst rd; d = snd rd in
      case GetActiveDealershipTimezone d (sar_DealershipID record) of
        Inl err \<Rightarrow> (Inl (if errors_is err ErrNoRows
                       then NewNotFoundError ''not_found'' ''dealership not found'' else err), (record, d))
      | Inr timezone \<Rightarrow>
      case GetActiveServiceTypeDuration d (sar_ServiceTypeID record) (sar_DealershipID record) of
        Inl err \<Rightarrow> (Inl (if errors_is err ErrNoRows
                       then NewNotFoundError ''not_found'' ''service type not found'' else err), (record, d))
      | Inr (minDuration, maxDuration) \<Rightarrow>
      let record = (if sar_PlannedDurationMinutes record = 0
                    then record\<lparr>sar_PlannedDurationMinutes := maxDuration\<rparr> else record) in
      if sar_PlannedDurationMinutes record < minDuration \<or> sar_PlannedDurationMinutes record > maxDuration
      then (Inl (NewInvalidInputError ''validation_error''
              (''planned duration must be between '' @ int_text minDuration @ '' and ''
               @ int_text maxDuration @ '' minutes'')), (record, d))
      else
      let record = record\<lparr>sar_EndsAt :=
             time_Add (sar_StartsAt record) (minutes (sar_PlannedDurationMinutes record))\<rparr> in
      case rbind (schedule_checks zone timezone record d) (\<lambda>_. schedule_writes ids record d) of
        Inl err \<Rightarrow> (Inl err, (record, d))
      | Inr d' \<Rightarrow> (Inr (), (record, d')))"

definition ScheduleAppointment_repo ::
  "(ScheduleAppointmentRecord, db) world \<Rightarrow> zone_db \<Rightarrow> (nat \<Rightarrow> uuid \<times> uuid \<times> uuid)
     \<Rightarrow> ScheduleAppointmentRecord \<Rightarrow> (db, go_error, unit) action" where
  "ScheduleAppointment_repo w zone ids record d =
     (case UpdateInSerializableTx w (\<lambda>i. ScheduleAppointment_tx zone (ids i)) (record, d) of
        (r, (_, d')) \<Rightarrow> (r, d'))"

section \<open>Transitions\<close>

text \<open>The row \<open>GetAppointmentForTransition\<close> returns: status, start, end, notes.\<close>

definition GetAppointmentForTransition ::
  "db \<Rightarrow> uuid \<Rightarrow> uuid \<Rightarrow> (AppointmentStatus \<times> gotime \<times> gotime \<times> string option) result" where
  "GetAppointmentForTransition d appointmentID dealershipID =
     (case find_row (\<lambda>a. ap_id a = appointmentID \<and> ap_dealership_id a = dealershipID
              \<and> ap_deleted_at a = None) (appointments d) of
        None \<Rightarrow> Inl ErrNoRows
      | Some a \<Rightarrow> Inr (ap_status a, from_pg (ap_starts_at a), from_pg (ap_ends_at a), ap_notes a))"

definition GetAppointmentCheckedInAt :: "db \<Rightarrow> uuid \<Rightarrow> gotime option result" where
  "GetAppointmentCheckedInAt d appointmentID =
     (case find_row (\<lambda>a. ap_id a = appointmentID) (appointments d) of
        None \<Rightarrow> Inl ErrNoRows
      | Some a \<Rightarrow> Inr (map_option from_pg (ap_checked_in_at a)))"

definition CheckInAppointment_sql :: "gotime \<Rightarrow> string option \<Rightarrow> uuid \<Rightarrow> db \<Rightarrow> go_error + db" where
  "CheckInAppointment_sql occurredAt notes appointmentID =
     update_appointments (\<lambda>a. ap_id a = appointmentID)
       (\<lambda>a. a\<lparr>ap_status := AppointmentCheckedIn, ap_checked_in_at := Some (to_pg occurredAt),
             ap_notes := notes, ap_updated_at := to_pg occurredAt\<rparr>)"

definition StartAppointment_sql :: "gotime \<Rightarrow> string option \<Rightarrow> uuid \<Rightarrow> db \<Rightarrow> go_error + db" where
  "StartAppointment_sql occurredAt notes appointmentID =
     update_appointments (\<lambda>a. ap_id a = appointmentID)
       (\<lambda>a. a\<lparr>ap_status := AppointmentInProgress, ap_in_progress_at := Some (to_pg occurredAt),
             ap_started_at := Some (to_pg occurredAt), ap_notes := notes,
             ap_updated_at := to_pg occurredAt\<rparr>)"

definition CompleteAppointment_sql ::
  "gotime \<Rightarrow> gotime \<Rightarrow> string option \<Rightarrow> uuid \<Rightarrow> db \<Rightarrow> go_error + db" where
  "CompleteAppointment_sql occurredAt actualEndsAt notes appointmentID =
     update_appointments (\<lambda>a. ap_id a = appointmentID)
       (\<lambda>a. a\<lparr>ap_status := AppointmentCompleted, ap_completed_at := Some (to_pg occurredAt),
             ap_actual_ends_at := Some (to_pg actualEndsAt), ap_notes := notes,
             ap_updated_at := to_pg occurredAt\<rparr>)"

definition CancelAppointment_sql ::
  "gotime \<Rightarrow> uuid \<Rightarrow> string option \<Rightarrow> string option \<Rightarrow> uuid \<Rightarrow> db \<Rightarrow> go_error + db" where
  "CancelAppointment_sql occurredAt actorUserID cancellationReason notes appointmentID =
     update_appointments (\<lambda>a. ap_id a = appointmentID)
       (\<lambda>a. a\<lparr>ap_status := AppointmentCancelled, ap_cancelled_at := Some (to_pg occurredAt),
             ap_cancelled_by_user_id := Some actorUserID,
             ap_cancellation_reason := cancellationReason, ap_notes := notes,
             ap_updated_at := to_pg occurredAt\<rparr>)"

definition ReleaseAppointmentResourceReservations ::
  "gotime \<Rightarrow> AppointmentStatus \<Rightarrow> uuid \<Rightarrow> db \<Rightarrow> go_error + db" where
  "ReleaseAppointmentResourceReservations releasedAt status appointmentID =
     update_reservations (\<lambda>r. rv_appointment_id r = appointmentID \<and> rv_released_at r = None)
       (\<lambda>r. r\<lparr>rv_released_at := Some (to_pg releasedAt), rv_status := status\<rparr>)"

text \<open>The statement of the transition's target state.\<close>

definition transition_update :: "AppointmentTransition \<Rightarrow> gotime option \<Rightarrow> string option \<Rightarrow> db \<Rightarrow> go_error + db" where
  "transition_update transition actualEndsAt updatedNotes d =
     (let occurred = tr_OccurredAt transition; id' = tr_AppointmentID transition in
      case tr_To transition of
        AppointmentCheckedIn \<Rightarrow> CheckInAppointment_sql occurred updatedNotes id' d
      | AppointmentInProgress \<Rightarrow> StartAppointment_sql occurred updatedNotes id' d
      | AppointmentCompleted \<Rightarrow>
          CompleteAppointment_sql occurred (the actualEndsAt) updatedNotes id' d
      | AppointmentCancelled \<Rightarrow>
          CancelAppointment_sql occurred (tr_ActorUserID transition)
            (tr_CancellationReason transition) updatedNotes id' d
      | _ \<Rightarrow> Inl (NewConflictError ''invalid_state_transition'' ''unsupported appointment state''))"

text \<open>The end of the work: for a completion the given or the current time, within the
  check-in and the planned end; otherwise what the caller sent.\<close>

definition transition_actual_end :: "AppointmentTransition \<Rightarrow> gotime \<Rightarrow> db \<Rightarrow> gotime option result" where
  "transition_actual_end transition endsAt d =
     (if tr_To transition = AppointmentCompleted then
        (let actualEndsAt = (case tr_ActualEndsAt transition of
               None \<Rightarrow> tr_OccurredAt transition | Some t \<Rightarrow> t) in
         rbind (GetAppointmentCheckedInAt d (tr_AppointmentID transition)) (\<lambda>checkedInAt.
         rbind (rguard (case checkedInAt of None \<Rightarrow> False
                  | Some c \<Rightarrow> \<not> time_Before actualEndsAt c \<and> \<not> time_After actualEndsAt endsAt)
            (NewInvalidInputError ''validation_error''
               ''actual_ends_at must be between check-in and the planned end'')) (\<lambda>_.
         Inr (Some actualEndsAt))))
      else Inr (tr_ActualEndsAt transition))"

definition transition_body ::
  "uuid \<Rightarrow> AppointmentTransition \<Rightarrow> db \<Rightarrow> go_error + db" where
  "transition_body auditEvent transition d =
     rbind (rerr (\<lambda>err. if errors_is err ErrNoRows
                        then NewNotFoundError ''not_found'' ''appointment not found'' else err)
       (GetAppointmentForTransition d (tr_AppointmentID transition) (tr_DealershipID transition)))
       (\<lambda>(status, startsAt, endsAt, notes).
     rbind (rguard (\<not> (tr_From transition \<noteq> NoStatus \<and> status \<noteq> tr_From transition))
       (NewConflictError ''invalid_state_transition'' ''the appointment is no longer in the expected state''))
       (\<lambda>_.
     rbind (rguard (\<not> (tr_To transition = AppointmentCancelled \<and> status \<noteq> AppointmentRequested
                \<and> status \<noteq> AppointmentCheckedIn \<and> status \<noteq> AppointmentInProgress))
       (NewConflictError ''invalid_state_transition''
          ''the appointment cannot be cancelled from its current state'')) (\<lambda>_.
     rbind (rerr (Wrapped ''marshal appointment audit before state: '')
       (json_marshal [(''notes'', json_string_opt notes), (''status'', JString (status_string status))]))
       (\<lambda>before.
     let updatedNotes = (case tr_Note transition of None \<Rightarrow> notes | Some n \<Rightarrow> Some n) in
     rbind (transition_actual_end transition endsAt d) (\<lambda>actualEndsAt.
     rbind (transition_update transition actualEndsAt updatedNotes d) (\<lambda>d.
     rbind (if tr_To transition = AppointmentCompleted \<or> tr_To transition = AppointmentCancelled
            then ReleaseAppointmentResourceReservations (tr_OccurredAt transition) (tr_To transition)
                   (tr_AppointmentID transition) d
            else Inr d) (\<lambda>d.
     rbind (rerr (Wrapped ''marshal appointment audit after state: '')
       (json_marshal [(''actual_ends_at'', json_time_opt actualEndsAt),
          (''cancellation_reason'', json_string_opt (tr_CancellationReason transition)),
          (''notes'', json_string_opt updatedNotes),
          (''status'', JString (status_string (tr_To transition)))])) (\<lambda>after.
     CreateAppointmentAuditEvents
       (audit_of auditEvent (tr_AppointmentID transition) (tr_ActorUserID transition)
          ''status_changed'' (Some before) (Some after) (to_pg (tr_OccurredAt transition))) d))))))))"

definition TransitionAppointment_tx ::
  "uuid \<Rightarrow> AppointmentTransition \<Rightarrow> (unit \<times> db, go_error, unit) action" where
  "TransitionAppointment_tx auditEvent transition cd =
     (case transition_body auditEvent transition (snd cd) of
        Inl err \<Rightarrow> (Inl err, cd)
      | Inr d' \<Rightarrow> (Inr (), ((), d')))"

definition TransitionAppointment ::
  "(unit, db) world \<Rightarrow> (nat \<Rightarrow> uuid) \<Rightarrow> AppointmentTransition \<Rightarrow> (db, go_error, unit) action" where
  "TransitionAppointment w auditEvents transition d =
     (case UpdateInSerializableTx w (\<lambda>i. TransitionAppointment_tx (auditEvents i) transition) ((), d) of
        (r, (_, d')) \<Rightarrow> (r, d'))"

section \<open>What a committed schedule did\<close>

definition created_audit :: "ScheduleAppointmentRecord \<Rightarrow> uuid \<Rightarrow> audit_row" where
  "created_audit r id' =
     audit_of id' (sar_AppointmentID r) (sar_CreatedByUserID r) ''created'' None
       (Some [(''ends_at'', JTime (sar_EndsAt r)), (''starts_at'', JTime (sar_StartsAt r)),
              (''status'', JString ''requested'')])
       (to_pg (sar_CreatedAt r))"

lemma schedule_writes_ok:
  "schedule_writes (i1, i2, i3) r d = Inr d' \<longleftrightarrow>
     (\<exists>d1 d2 d3. insert_appointment (scheduled_row r) d = Inr d1
        \<and> insert_reservation (reservation_of r ResTechnician (sar_TechnicianID r) i1) d1 = Inr d2
        \<and> insert_reservation (reservation_of r ResServiceBay (sar_ServiceBayID r) i2) d2 = Inr d3
        \<and> json_time_ok (JTime (sar_EndsAt r)) \<and> json_time_ok (JTime (sar_StartsAt r))
        \<and> insert_audit (created_audit r i3) d3 = Inr d')"
  by (auto simp: schedule_writes_def CreateScheduledAppointment_def created_audit_def
      CreateAppointmentResourceReservation_def CreateAppointmentAuditEvents_def ok_iff)

text \<open>The database after the writes.\<close>

definition booked :: "ScheduleAppointmentRecord \<Rightarrow> uuid \<times> uuid \<times> uuid \<Rightarrow> db \<Rightarrow> db" where
  "booked r ids d = (case ids of (i1, i2, i3) \<Rightarrow>
     d\<lparr>appointments := appointments d @ [scheduled_row r],
       reservations := reservations d
         @ [reservation_of r ResTechnician (sar_TechnicianID r) i1,
            reservation_of r ResServiceBay (sar_ServiceBayID r) i2],
       audits := audits d @ [created_audit r i3]\<rparr>)"

lemma schedule_writes_booked:
  assumes "schedule_writes ids r d = Inr d'"
  shows "d' = booked r ids d"
    and "\<exists>d1. insert_appointment (scheduled_row r) d = Inr d1"
    and "distinct (map rv_id (reservations d)) \<Longrightarrow> distinct (map rv_id (reservations d'))"
    and "conflict_free reservation_clash (reservations d) \<Longrightarrow>
      conflict_free reservation_clash (reservations d')"
proof -
  obtain i1 i2 i3 where ids: "ids = (i1, i2, i3)" by (cases ids)
  let ?a = "scheduled_row r"
  let ?r1 = "reservation_of r ResTechnician (sar_TechnicianID r) i1"
  let ?r2 = "reservation_of r ResServiceBay (sar_ServiceBayID r) i2"
  from assms obtain d1 d2 d3 where
      1: "insert_appointment ?a d = Inr d1" and 2: "insert_reservation ?r1 d1 = Inr d2"
      and 3: "insert_reservation ?r2 d2 = Inr d3" and 4: "insert_audit (created_audit r i3) d3 = Inr d'"
    unfolding ids schedule_writes_ok by blast
  show "\<exists>d1. insert_appointment ?a d = Inr d1" using 1 by blast
  have d1: "d1 = d\<lparr>appointments := appointments d @ [?a]\<rparr>"
    using 1 by (simp add: insert_appointment_ok)
  have d2: "d2 = d1\<lparr>reservations := reservations d1 @ [?r1]\<rparr>"
      and r1: "\<not> list_ex (same_key rv_id ?r1) (reservations d1)" "\<not> list_ex (reservation_clash ?r1) (reservations d1)"
    using 2 by (simp_all add: insert_reservation_ok)
  have d3: "d3 = d2\<lparr>reservations := reservations d2 @ [?r2]\<rparr>"
      and r2: "\<not> list_ex (same_key rv_id ?r2) (reservations d2)" "\<not> list_ex (reservation_clash ?r2) (reservations d2)"
    using 3 by (simp_all add: insert_reservation_ok)
  have d': "d' = d3\<lparr>audits := audits d3 @ [created_audit r i3]\<rparr>"
    using 4 by (simp add: insert_audit_ok)
  show "d' = booked r ids d" by (simp add: booked_def ids d' d3 d2 d1)
  have res: "reservations d1 = reservations d" "reservations d' = reservations d3"
    by (simp_all add: d1 d')
  show "distinct (map rv_id (reservations d'))" if "distinct (map rv_id (reservations d))"
    using that r1(1) r2(1) unfolding conflict_free_same_key [symmetric]
    by (simp add: res d3 d2 unique_key.insert_two_iff)
  show "conflict_free reservation_clash (reservations d')"
    if "conflict_free reservation_clash (reservations d)"
    using that r1(2) r2(2) by (simp add: res d3 d2 reservation.insert_two_iff)
qed

text \<open>The record after the closure's assignments.\<close>

definition resolved :: "int \<Rightarrow> ScheduleAppointmentRecord \<Rightarrow> ScheduleAppointmentRecord" where
  "resolved maxDuration r =
     (let n = (if sar_PlannedDurationMinutes r = 0 then maxDuration else sar_PlannedDurationMinutes r) in
      r\<lparr>sar_PlannedDurationMinutes := n, sar_EndsAt := time_Add (sar_StartsAt r) (minutes n)\<rparr>)"

lemma ScheduleAppointment_tx_ok:
  "ScheduleAppointment_tx zone ids (r, d) = (Inr (), (r', d')) \<longleftrightarrow>
     (\<exists>tz mn mx. GetActiveDealershipTimezone d (sar_DealershipID r) = Inr tz
        \<and> GetActiveServiceTypeDuration d (sar_ServiceTypeID r) (sar_DealershipID r) = Inr (mn, mx)
        \<and> r' = resolved mx r
        \<and> mn \<le> sar_PlannedDurationMinutes r' \<and> sar_PlannedDurationMinutes r' \<le> mx
        \<and> schedule_checks zone tz r' d = Inr ()
        \<and> schedule_writes ids r' d = Inr d')"
proof (cases "GetActiveDealershipTimezone d (sar_DealershipID r)")
  case (Inl e)
  then show ?thesis by (simp add: ScheduleAppointment_tx_def)
next
  case tz: (Inr tz)
  show ?thesis
  proof (cases "GetActiveServiceTypeDuration d (sar_ServiceTypeID r) (sar_DealershipID r)")
    case (Inl e)
    then show ?thesis using tz by (simp add: ScheduleAppointment_tx_def)
  next
    case (Inr b)
    obtain mn mx where b: "b = (mn, mx)" by force
    define q where "q = rbind (schedule_checks zone tz (resolved mx r) d) (\<lambda>_. schedule_writes ids (resolved mx r) d)"
    let ?n = "sar_PlannedDurationMinutes (resolved mx r)"
    have run: "ScheduleAppointment_tx zone ids (r, d) =
      (if ?n < mn \<or> ?n > mx
       then (Inl (NewInvalidInputError ''validation_error''
              (''planned duration must be between '' @ int_text mn @ '' and ''
               @ int_text mx @ '' minutes'')),
             (if sar_PlannedDurationMinutes r = 0 then r\<lparr>sar_PlannedDurationMinutes := mx\<rparr> else r, d))
       else case q of Inl err \<Rightarrow> (Inl err, (resolved mx r, d)) | Inr d' \<Rightarrow> (Inr (), (resolved mx r, d')))"
      unfolding ScheduleAppointment_tx_def Let_def fst_conv snd_conv tz Inr b sum.case prod.case
        q_def resolved_def
      by (cases "sar_PlannedDurationMinutes r = 0") (simp_all split: sum.split)
    have "q = Inr x \<longleftrightarrow> schedule_checks zone tz (resolved mx r) d = Inr ()
        \<and> schedule_writes ids (resolved mx r) d = Inr x" for x
      unfolding q_def by (auto simp: ok_iff)
    then show ?thesis unfolding run tz Inr b by (cases q) auto
  qed
qed

lemma resolved_fields [simp]:
  "sar_AppointmentID (resolved mx r) = sar_AppointmentID r"
  "sar_CustomerID (resolved mx r) = sar_CustomerID r"
  "sar_VehicleID (resolved mx r) = sar_VehicleID r"
  "sar_DealershipID (resolved mx r) = sar_DealershipID r"
  "sar_ServiceTypeID (resolved mx r) = sar_ServiceTypeID r"
  "sar_TechnicianID (resolved mx r) = sar_TechnicianID r"
  "sar_ServiceBayID (resolved mx r) = sar_ServiceBayID r"
  "sar_CreatedByUserID (resolved mx r) = sar_CreatedByUserID r"
  "sar_StartsAt (resolved mx r) = sar_StartsAt r"
  "sar_ReferenceCode (resolved mx r) = sar_ReferenceCode r"
  "sar_EndsAt (resolved mx r) = time_Add (sar_StartsAt r) (minutes (sar_PlannedDurationMinutes (resolved mx r)))"
  by (simp_all add: resolved_def Let_def)

lemma ScheduleAppointment_tx_failure:
  "ScheduleAppointment_tx zone ids (r, d) = (Inl e, (r', d')) \<Longrightarrow> d' = d"
  by (auto simp: ScheduleAppointment_tx_def Let_def split: sum.splits prod.splits if_splits)

text \<open>The closure assigns the planned duration and the end of the captured record; both
  assignments survive a failed attempt.\<close>

definition same_request :: "ScheduleAppointmentRecord \<Rightarrow> ScheduleAppointmentRecord \<Rightarrow> bool" where
  "same_request r r' \<longleftrightarrow>
     r'\<lparr>sar_PlannedDurationMinutes := 0, sar_EndsAt := time_zero\<rparr>
       = r\<lparr>sar_PlannedDurationMinutes := 0, sar_EndsAt := time_zero\<rparr>"

lemma same_request_refl [simp]: "same_request r r"
  by (simp add: same_request_def)

lemma same_request_fields:
  "same_request r r' \<Longrightarrow> sar_AppointmentID r' = sar_AppointmentID r
     \<and> sar_CustomerID r' = sar_CustomerID r \<and> sar_VehicleID r' = sar_VehicleID r
     \<and> sar_DealershipID r' = sar_DealershipID r \<and> sar_ServiceTypeID r' = sar_ServiceTypeID r
     \<and> sar_TechnicianID r' = sar_TechnicianID r \<and> sar_ServiceBayID r' = sar_ServiceBayID r
     \<and> sar_StartsAt r' = sar_StartsAt r \<and> sar_CreatedByUserID r' = sar_CreatedByUserID r"
  unfolding same_request_def by (cases r; cases r') simp

lemma ScheduleAppointment_tx_record:
  assumes "ScheduleAppointment_tx zone ids (r', d) = (res, (r'', d'))" and "same_request r r'"
  shows "same_request r r''"
proof -
  have "same_request r' r''"
    using assms(1)
    by (auto simp: ScheduleAppointment_tx_def same_request_def Let_def
        split: sum.splits prod.splits if_splits)
  then show ?thesis using assms(2) by (simp add: same_request_def)
qed

lemma schedule_checks_ok:
  "schedule_checks zone tz r d = Inr () \<longleftrightarrow>
     CustomerVehicleBelongsToDealership d (sar_VehicleID r) (sar_CustomerID r) (sar_DealershipID r)
     \<and> IsWithinDealershipOperatingHours zone d (sar_DealershipID r) tz
         (to_pg (sar_StartsAt r)) (to_pg (sar_EndsAt r))
     \<and> IsCompatibleTechnician d (sar_TechnicianID r) (sar_DealershipID r) (sar_ServiceTypeID r)
     \<and> IsCompatibleServiceBay d (sar_ServiceBayID r) (sar_DealershipID r) (sar_ServiceTypeID r)
     \<and> IsTechnicianAvailableForAppointment zone d (sar_TechnicianID r) tz
         (to_pg (sar_StartsAt r)) (to_pg (sar_EndsAt r)) = Some True"
  by (auto simp: schedule_checks_def ok_iff IsTechnicianAvailableForAppointment_def)

section \<open>What a committed transition did\<close>

text \<open>The updated row.\<close>

definition transitioned ::
  "AppointmentTransition \<Rightarrow> gotime option \<Rightarrow> string option \<Rightarrow> appointment_row \<Rightarrow> appointment_row" where
  "transitioned tr actualEndsAt notes a =
     (let t = to_pg (tr_OccurredAt tr) in
      case tr_To tr of
        AppointmentCheckedIn \<Rightarrow> a\<lparr>ap_status := AppointmentCheckedIn, ap_checked_in_at := Some t,
          ap_notes := notes, ap_updated_at := t\<rparr>
      | AppointmentInProgress \<Rightarrow> a\<lparr>ap_status := AppointmentInProgress, ap_in_progress_at := Some t,
          ap_started_at := Some t, ap_notes := notes, ap_updated_at := t\<rparr>
      | AppointmentCompleted \<Rightarrow> a\<lparr>ap_status := AppointmentCompleted, ap_completed_at := Some t,
          ap_actual_ends_at := Some (to_pg (the actualEndsAt)), ap_notes := notes, ap_updated_at := t\<rparr>
      | AppointmentCancelled \<Rightarrow> a\<lparr>ap_status := AppointmentCancelled, ap_cancelled_at := Some t,
          ap_cancelled_by_user_id := Some (tr_ActorUserID tr),
          ap_cancellation_reason := tr_CancellationReason tr, ap_notes := notes, ap_updated_at := t\<rparr>
      | _ \<Rightarrow> a)"

definition released :: "AppointmentTransition \<Rightarrow> reservation_row list \<Rightarrow> reservation_row list" where
  "released tr rs =
     (if tr_To tr = AppointmentCompleted \<or> tr_To tr = AppointmentCancelled
      then update_where (\<lambda>r. rv_appointment_id r = tr_AppointmentID tr \<and> rv_released_at r = None)
             (\<lambda>r. r\<lparr>rv_released_at := Some (to_pg (tr_OccurredAt tr)), rv_status := tr_To tr\<rparr>) rs
      else rs)"

definition changed_audit ::
  "AppointmentTransition \<Rightarrow> gotime option \<Rightarrow> string option \<Rightarrow> appointment_row \<Rightarrow> uuid \<Rightarrow> audit_row" where
  "changed_audit tr actualEndsAt notes a id' =
     audit_of id' (tr_AppointmentID tr) (tr_ActorUserID tr) ''status_changed''
       (Some [(''notes'', json_string_opt (ap_notes a)), (''status'', JString (status_string (ap_status a)))])
       (Some [(''actual_ends_at'', json_time_opt actualEndsAt),
          (''cancellation_reason'', json_string_opt (tr_CancellationReason tr)),
          (''notes'', json_string_opt notes), (''status'', JString (status_string (tr_To tr)))])
       (to_pg (tr_OccurredAt tr))"

fun transition_target :: "AppointmentStatus \<Rightarrow> bool" where
  "transition_target AppointmentCheckedIn = True"
| "transition_target AppointmentInProgress = True"
| "transition_target AppointmentCompleted = True"
| "transition_target AppointmentCancelled = True"
| "transition_target s = False"

lemma transition_update_ok:
  "transition_update tr actual notes d = Inr d' \<longleftrightarrow>
     transition_target (tr_To tr) \<and>
     update_appointments (\<lambda>a. ap_id a = tr_AppointmentID tr) (transitioned tr actual notes) d = Inr d'"
  by (cases "tr_To tr")
    (simp_all add: transition_update_def transitioned_def [abs_def] Let_def CheckInAppointment_sql_def
      StartAppointment_sql_def CompleteAppointment_sql_def CancelAppointment_sql_def)

lemma GetAppointmentForTransition_ok:
  "GetAppointmentForTransition d i dl = Inr x \<longleftrightarrow>
     (\<exists>a. find_row (\<lambda>a. ap_id a = i \<and> ap_dealership_id a = dl \<and> ap_deleted_at a = None)
            (appointments d) = Some a
        \<and> x = (ap_status a, from_pg (ap_starts_at a), from_pg (ap_ends_at a), ap_notes a))"
  by (auto simp: GetAppointmentForTransition_def split: option.splits)

text \<open>A committed transition, spelled out.\<close>

definition transition_effect ::
  "uuid \<Rightarrow> AppointmentTransition \<Rightarrow> db \<Rightarrow> db \<Rightarrow> appointment_row \<Rightarrow> gotime option \<Rightarrow> string option \<Rightarrow> bool" where
  "transition_effect auditEvent tr d d' a actualEndsAt notes \<longleftrightarrow>
     find_row (\<lambda>a. ap_id a = tr_AppointmentID tr \<and> ap_dealership_id a = tr_DealershipID tr
         \<and> ap_deleted_at a = None) (appointments d) = Some a
     \<and> (tr_From tr = NoStatus \<or> ap_status a = tr_From tr)
     \<and> transition_target (tr_To tr)
     \<and> (tr_To tr \<noteq> AppointmentCancelled \<or> active_status (ap_status a))
     \<and> notes = (case tr_Note tr of None \<Rightarrow> ap_notes a | Some n \<Rightarrow> Some n)
     \<and> transition_actual_end tr (from_pg (ap_ends_at a)) d = Inr actualEndsAt
     \<and> update_appointments (\<lambda>a. ap_id a = tr_AppointmentID tr) (transitioned tr actualEndsAt notes) d
         = Inr (d\<lparr>appointments := update_where (\<lambda>a. ap_id a = tr_AppointmentID tr)
                   (transitioned tr actualEndsAt notes) (appointments d)\<rparr>)
     \<and> (\<forall>t. actualEndsAt = Some t \<longrightarrow> json_time_ok (JTime t))
     \<and> (distinct (map rv_id (reservations d)) \<longrightarrow> distinct (map rv_id (released tr (reservations d))))
     \<and> d' = d\<lparr>appointments := update_where (\<lambda>a. ap_id a = tr_AppointmentID tr)
                 (transitioned tr actualEndsAt notes) (appointments d),
              reservations := released tr (reservations d),
              audits := audits d @ [changed_audit tr actualEndsAt notes a auditEvent]\<rparr>"

lemma release_step_ok:
  "(if tr_To tr = AppointmentCompleted \<or> tr_To tr = AppointmentCancelled
      then ReleaseAppointmentResourceReservations (tr_OccurredAt tr) (tr_To tr) (tr_AppointmentID tr) d
      else Inr d) = Inr d' \<Longrightarrow> d' = d\<lparr>reservations := released tr (reservations d)\<rparr>"
  by (auto simp: ReleaseAppointmentResourceReservations_def update_reservations_ok released_def
      split: if_splits)

lemma transition_body_effect:
  assumes "transition_body auditEvent tr d = Inr d'"
  shows "\<exists>a actualEndsAt notes. transition_effect auditEvent tr d d' a actualEndsAt notes"
proof -
  from assms obtain a where
    row: "find_row (\<lambda>a. ap_id a = tr_AppointmentID tr \<and> ap_dealership_id a = tr_DealershipID tr
         \<and> ap_deleted_at a = None) (appointments d) = Some a"
    and rest: "tr_From tr = NoStatus \<or> ap_status a = tr_From tr"
      "tr_To tr \<noteq> AppointmentCancelled \<or> active_status (ap_status a)"
    and "\<exists>actual d1 d2 before after.
      transition_actual_end tr (from_pg (ap_ends_at a)) d = Inr actual
      \<and> transition_update tr actual (case tr_Note tr of None \<Rightarrow> ap_notes a | Some n \<Rightarrow> Some n) d = Inr d1
      \<and> (if tr_To tr = AppointmentCompleted \<or> tr_To tr = AppointmentCancelled
           then ReleaseAppointmentResourceReservations (tr_OccurredAt tr) (tr_To tr) (tr_AppointmentID tr) d1
           else Inr d1) = Inr d2
      \<and> before = [(''notes'', json_string_opt (ap_notes a)), (''status'', JString (status_string (ap_status a)))]
      \<and> json_marshal [(''actual_ends_at'', json_time_opt actual),
          (''cancellation_reason'', json_string_opt (tr_CancellationReason tr)),
          (''notes'', json_string_opt (case tr_Note tr of None \<Rightarrow> ap_notes a | Some n \<Rightarrow> Some n)),
          (''status'', JString (status_string (tr_To tr)))] = Inr after
      \<and> insert_audit (audit_of auditEvent (tr_AppointmentID tr) (tr_ActorUserID tr)
          ''status_changed'' (Some before) (Some after) (to_pg (tr_OccurredAt tr))) d2 = Inr d'"
    unfolding transition_body_def Let_def CreateAppointmentAuditEvents_def
    by (simp only: ok_iff GetAppointmentForTransition_ok active_cases split_paired_Ex prod.case) blast
  then obtain actual d1 d2 before after where
    actual: "transition_actual_end tr (from_pg (ap_ends_at a)) d = Inr actual"
    and upd: "transition_update tr actual (case tr_Note tr of None \<Rightarrow> ap_notes a | Some n \<Rightarrow> Some n) d = Inr d1"
    and rel: "(if tr_To tr = AppointmentCompleted \<or> tr_To tr = AppointmentCancelled
           then ReleaseAppointmentResourceReservations (tr_OccurredAt tr) (tr_To tr) (tr_AppointmentID tr) d1
           else Inr d1) = Inr d2"
    and before: "before = [(''notes'', json_string_opt (ap_notes a)), (''status'', JString (status_string (ap_status a)))]"
    and after: "json_marshal [(''actual_ends_at'', json_time_opt actual),
          (''cancellation_reason'', json_string_opt (tr_CancellationReason tr)),
          (''notes'', json_string_opt (case tr_Note tr of None \<Rightarrow> ap_notes a | Some n \<Rightarrow> Some n)),
          (''status'', JString (status_string (tr_To tr)))] = Inr after"
    and ins: "insert_audit (audit_of auditEvent (tr_AppointmentID tr) (tr_ActorUserID tr)
          ''status_changed'' (Some before) (Some after) (to_pg (tr_OccurredAt tr))) d2 = Inr d'"
    by blast
  let ?notes = "case tr_Note tr of None \<Rightarrow> ap_notes a | Some n \<Rightarrow> Some n"
  have d1: "d1 = d\<lparr>appointments := update_where (\<lambda>a. ap_id a = tr_AppointmentID tr)
      (transitioned tr actual ?notes) (appointments d)\<rparr>"
    and upd': "update_appointments (\<lambda>a. ap_id a = tr_AppointmentID tr) (transitioned tr actual ?notes) d = Inr d1"
    and target: "transition_target (tr_To tr)"
    using upd unfolding transition_update_ok update_appointments_ok by simp_all
  have d2: "d2 = d1\<lparr>reservations := released tr (reservations d1)\<rparr>" using rel by (rule release_step_ok)
  have d': "d' = d2\<lparr>audits := audits d2 @ [changed_audit tr actual ?notes a auditEvent]\<rparr>"
    using ins after before by (simp add: insert_audit_ok changed_audit_def json_marshal_ok)
  have "map rv_id (released tr rs) = map rv_id rs" for rs
    by (simp add: released_def map_update_where)
  then have dist: "distinct (map rv_id (released tr (reservations d)))"
    if "distinct (map rv_id (reservations d))" using that by simp
  have json: "actual = Some t \<Longrightarrow> json_time_ok (JTime t)" for t
    using after by (simp add: json_marshal_ok json_time_opt_def)
  show ?thesis
    unfolding transition_effect_def
    using row rest target actual upd' dist json by (simp add: d' d2 d1)
qed

lemma TransitionAppointment_tx_ok:
  "TransitionAppointment_tx auditEvent tr (u, d) = (Inr (), (u', d')) \<longleftrightarrow>
     transition_body auditEvent tr d = Inr d'"
  by (auto simp: TransitionAppointment_tx_def split: sum.splits)

lemma TransitionAppointment_tx_failure:
  "TransitionAppointment_tx auditEvent tr (u, d) = (Inl e, (u', d')) \<longleftrightarrow>
     transition_body auditEvent tr d = Inl e \<and> d' = d"
  by (auto simp: TransitionAppointment_tx_def split: sum.splits)

end
