(* ===== verification/Aggregates.thy ===== *)
theory Aggregates
  imports Errors
begin

text \<open>
  The contract every aggregate of the domain package follows, as two locales.

  \<open>aggregate\<close>: a constructor (\<open>NewX\<close>) that validates and normalises its arguments and stamps
  both timestamps with the UTC instant it is given, and a \<open>RehydrateX\<close> that validates stored
  values with the same constructor and then restores the update timestamp. The lemmas say
  that a constructed value survives a round trip through its stored fields.

  \<open>updatable\<close>: an \<open>Update\<close> method that is the same as rehydrating the merged fields; its
  lemmas say that an update keeps the identity and creation time and validates what the
  constructor validates.
\<close>

locale aggregate =
  fixes make :: "'x \<Rightarrow> gotime \<Rightarrow> 'a result"
    and rehydrate :: "'x \<Rightarrow> gotime \<Rightarrow> gotime \<Rightarrow> 'a result"
    and fields :: "'a \<Rightarrow> 'x"
    and created :: "'a \<Rightarrow> gotime"
    and updated :: "'a \<Rightarrow> gotime"
    and stamp :: "gotime \<Rightarrow> gotime \<Rightarrow> 'a \<Rightarrow> 'a"
  assumes make_norm: "make x t = Inr a \<Longrightarrow> make (fields a) t' = Inr (stamp (time_UTC t') (time_UTC t') a)"
    and make_times: "make x t = Inr a \<Longrightarrow> created a = time_UTC t \<and> updated a = time_UTC t"
    and rehydrate_eq: "rehydrate x c u =
      (case make x c of Inl e \<Rightarrow> Inl e | Inr a \<Rightarrow> Inr (stamp (created a) (time_UTC u) a))"
    and stamp_self: "stamp (created a) (updated a) a = a"
    and stamp_stamp: "stamp c u (stamp c' u' a) = stamp c u a"
    and created_stamp: "created (stamp c u a) = c"
    and updated_stamp: "updated (stamp c u a) = u"
    and fields_stamp: "fields (stamp c u a) = fields a"
begin

text \<open>The values the package can produce.\<close>

definition valid :: "'a \<Rightarrow> bool" where
  "valid a \<longleftrightarrow> make (fields a) (created a) = Inr (stamp (created a) (created a) a)
     \<and> time_UTC (created a) = created a \<and> time_UTC (updated a) = updated a"

lemma make_valid: "make x t = Inr a \<Longrightarrow> valid a"
  using make_norm [of x t a "created a"] make_times [of x t a]
  by (simp add: valid_def)

lemma rehydrate_valid:
  assumes "rehydrate x c u = Inr a"
  shows "valid a"
proof -
  from assms obtain b where b: "make x c = Inr b" and a: "a = stamp (created b) (time_UTC u) b"
    by (auto simp: rehydrate_eq split: sum.splits)
  have "created b = time_UTC c" using make_times [OF b] by simp
  then show ?thesis
    using make_norm [OF b, of "time_UTC c"]
    by (simp add: valid_def a fields_stamp created_stamp updated_stamp stamp_stamp)
qed

lemma rehydrate_fields_norm:
  assumes "valid a"
  shows "rehydrate (fields a) (created a) u = Inr (stamp (created a) (time_UTC u) a)"
  using assms unfolding rehydrate_eq valid_def
  by (simp add: stamp_stamp created_stamp)

lemma round_trip: "valid a \<Longrightarrow> rehydrate (fields a) (created a) (updated a) = Inr a"
  using rehydrate_fields_norm [of a "updated a"] by (simp add: valid_def stamp_self)

lemma stored_round_trip: "make x t = Inr a \<Longrightarrow> rehydrate (fields a) (created a) (updated a) = Inr a"
  by (rule round_trip, rule make_valid)

lemma rehydrate_error: "rehydrate x c u = Inl e \<longleftrightarrow> make x c = Inl e"
  by (simp add: rehydrate_eq split: sum.splits)

end

locale updatable = aggregate make rehydrate fields created updated stamp
  for make :: "'x \<Rightarrow> gotime \<Rightarrow> 'a result"
    and rehydrate :: "'x \<Rightarrow> gotime \<Rightarrow> gotime \<Rightarrow> 'a result"
    and fields :: "'a \<Rightarrow> 'x"
    and created :: "'a \<Rightarrow> gotime"
    and updated :: "'a \<Rightarrow> gotime"
    and stamp :: "gotime \<Rightarrow> gotime \<Rightarrow> 'a \<Rightarrow> 'a" +
  fixes update :: "'y \<Rightarrow> gotime \<Rightarrow> 'a \<Rightarrow> 'a result"
    and merge :: "'x \<Rightarrow> 'y \<Rightarrow> 'x"
  assumes update_eq: "make x t = Inr a0 \<Longrightarrow> a = stamp c u a0 \<Longrightarrow> time_UTC c = c \<Longrightarrow>
      update y now a = rehydrate (merge (fields a) y) c now"
begin

lemma update_rehydrates:
  assumes "valid a"
  shows "update y now a = rehydrate (merge (fields a) y) (created a) now"
proof -
  have m: "make (fields a) (created a) = Inr (stamp (created a) (created a) a)"
    and "time_UTC (created a) = created a" using assms by (simp_all add: valid_def)
  moreover have "a = stamp (created a) (updated a) (stamp (created a) (created a) a)"
    by (simp add: stamp_stamp stamp_self)
  ultimately show ?thesis by (intro update_eq)
qed

lemma update_valid: "valid a \<Longrightarrow> update y now a = Inr b \<Longrightarrow> valid b"
  by (simp add: update_rehydrates) (rule rehydrate_valid)

lemma update_times:
  assumes "valid a" and "update y now a = Inr b"
  shows "created b = created a \<and> updated b = time_UTC now"
proof -
  from assms obtain m where "make (merge (fields a) y) (created a) = Inr m"
      and b: "b = stamp (created m) (time_UTC now) m"
    by (auto simp: update_rehydrates rehydrate_eq split: sum.splits)
  then show ?thesis
    using make_times assms(1) by (fastforce simp: created_stamp updated_stamp valid_def)
qed

end

end
