(* ===== verification/Domain_Schedule.thy ===== *)
theory Domain_Schedule
  imports Aggregates
begin

text \<open>
  Working hours (appointment\_scheduler/domain: dealership\_operation\_time.go,
  technician\_shift.go, technician\_time\_off.go): weekly local wall-clock intervals of a
  dealership and of a technician, and UTC intervals in which a technician is off. All three
  are interpreted as \<open>updatable\<close> aggregates.
\<close>

section \<open>Operation times\<close>

record DealershipOperationTime =
  ot_id :: uuid
  ot_dealershipID :: uuid
  ot_dayOfWeek :: int
  ot_opensAt :: int
  ot_closesAt :: int
  ot_createdAt :: gotime
  ot_updatedAt :: gotime

definition NewDealershipOperationTime ::
  "uuid \<Rightarrow> uuid \<Rightarrow> int \<Rightarrow> int \<Rightarrow> int \<Rightarrow> gotime \<Rightarrow> DealershipOperationTime result" where
  "NewDealershipOperationTime id' dealershipID dayOfWeek opensAt closesAt now =
     (if id' = uuid_Nil then Inl (ScheduleErr ErrOperationTimeIDRequired)
      else if dealershipID = uuid_Nil then Inl (PeopleErr ErrDealershipIDRequired)
      else if dayOfWeek < 1 \<or> dayOfWeek > 7 then Inl (ScheduleErr ErrInvalidOperationWeekday)
      else if opensAt < 0 \<or> opensAt \<ge> 24 * Hour \<or> closesAt < 0 \<or> closesAt \<ge> 24 * Hour
        then Inl (ScheduleErr ErrInvalidOperationClock)
      else if opensAt \<ge> closesAt then Inl (ScheduleErr ErrInvalidOperationHours)
      else Inr \<lparr>ot_id = id', ot_dealershipID = dealershipID, ot_dayOfWeek = dayOfWeek,
                ot_opensAt = opensAt, ot_closesAt = closesAt, ot_createdAt = time_UTC now,
                ot_updatedAt = time_UTC now\<rparr>)"

definition RehydrateDealershipOperationTime ::
  "uuid \<Rightarrow> uuid \<Rightarrow> int \<Rightarrow> int \<Rightarrow> int \<Rightarrow> gotime \<Rightarrow> gotime \<Rightarrow> DealershipOperationTime result" where
  "RehydrateDealershipOperationTime id' dealershipID dayOfWeek opensAt closesAt createdAt updatedAt =
     (case NewDealershipOperationTime id' dealershipID dayOfWeek opensAt closesAt createdAt of
        Inl err \<Rightarrow> Inl err
      | Inr o' \<Rightarrow> Inr (o'\<lparr>ot_updatedAt := time_UTC updatedAt\<rparr>))"

definition OperationTime_Update ::
  "int \<Rightarrow> int \<Rightarrow> int \<Rightarrow> gotime \<Rightarrow> DealershipOperationTime \<Rightarrow> DealershipOperationTime result" where
  "OperationTime_Update dayOfWeek opensAt closesAt now o' =
     (case NewDealershipOperationTime (ot_id o') (ot_dealershipID o') dayOfWeek opensAt closesAt
             (ot_createdAt o') of
        Inl err \<Rightarrow> Inl err
      | Inr updated \<Rightarrow> Inr (updated\<lparr>ot_updatedAt := time_UTC now\<rparr>))"

section \<open>Technician shifts\<close>

record TechnicianShift =
  sh_id :: uuid
  sh_technicianID :: uuid
  sh_dayOfWeek :: int
  sh_startsAt :: int
  sh_endsAt :: int
  sh_createdAt :: gotime
  sh_updatedAt :: gotime

definition NewTechnicianShift ::
  "uuid \<Rightarrow> uuid \<Rightarrow> int \<Rightarrow> int \<Rightarrow> int \<Rightarrow> gotime \<Rightarrow> TechnicianShift result" where
  "NewTechnicianShift id' technicianID dayOfWeek startsAt endsAt now =
     (if id' = uuid_Nil then Inl (ScheduleErr ErrTechnicianShiftIDRequired)
      else if technicianID = uuid_Nil then Inl (PeopleErr ErrTechnicianIDRequired)
      else if dayOfWeek < 1 \<or> dayOfWeek > 7 then Inl (ScheduleErr ErrInvalidShiftWeekday)
      else if startsAt < 0 \<or> startsAt \<ge> 24 * Hour \<or> endsAt < 0 \<or> endsAt \<ge> 24 * Hour
        then Inl (ScheduleErr ErrInvalidShiftClock)
      else if startsAt \<ge> endsAt then Inl (ScheduleErr ErrInvalidShiftHours)
      else Inr \<lparr>sh_id = id', sh_technicianID = technicianID, sh_dayOfWeek = dayOfWeek,
                sh_startsAt = startsAt, sh_endsAt = endsAt, sh_createdAt = time_UTC now,
                sh_updatedAt = time_UTC now\<rparr>)"

definition RehydrateTechnicianShift ::
  "uuid \<Rightarrow> uuid \<Rightarrow> int \<Rightarrow> int \<Rightarrow> int \<Rightarrow> gotime \<Rightarrow> gotime \<Rightarrow> TechnicianShift result" where
  "RehydrateTechnicianShift id' technicianID dayOfWeek startsAt endsAt createdAt updatedAt =
     (case NewTechnicianShift id' technicianID dayOfWeek startsAt endsAt createdAt of
        Inl err \<Rightarrow> Inl err
      | Inr s \<Rightarrow> Inr (s\<lparr>sh_updatedAt := time_UTC updatedAt\<rparr>))"

definition Shift_Update ::
  "int \<Rightarrow> int \<Rightarrow> int \<Rightarrow> gotime \<Rightarrow> TechnicianShift \<Rightarrow> TechnicianShift result" where
  "Shift_Update dayOfWeek startsAt endsAt now s =
     (case NewTechnicianShift (sh_id s) (sh_technicianID s) dayOfWeek startsAt endsAt
             (sh_createdAt s) of
        Inl err \<Rightarrow> Inl err
      | Inr updated \<Rightarrow> Inr (updated\<lparr>sh_updatedAt := time_UTC now\<rparr>))"

section \<open>Technician time off\<close>

record TechnicianTimeOff =
  to_id :: uuid
  to_technicianID :: uuid
  to_createdByUserID :: uuid
  to_startsAt :: gotime
  to_endsAt :: gotime
  to_reason :: "string option"
  to_createdAt :: gotime
  to_updatedAt :: gotime

definition NewTechnicianTimeOff ::
  "uuid \<Rightarrow> uuid \<Rightarrow> uuid \<Rightarrow> gotime \<Rightarrow> gotime \<Rightarrow> string option \<Rightarrow> gotime \<Rightarrow> TechnicianTimeOff result" where
  "NewTechnicianTimeOff id' technicianID createdByUserID startsAt endsAt reason now =
     (if id' = uuid_Nil then Inl (ScheduleErr ErrTechnicianTimeOffIDRequired)
      else if technicianID = uuid_Nil then Inl (PeopleErr ErrTechnicianIDRequired)
      else if createdByUserID = uuid_Nil then Inl (ErrorString ''created by user ID is required'')
      else let startsAt = time_UTC startsAt; endsAt = time_UTC endsAt in
      if \<not> time_After endsAt startsAt then Inl (ScheduleErr ErrInvalidTimeOffInterval)
      else Inr \<lparr>to_id = id', to_technicianID = technicianID, to_createdByUserID = createdByUserID,
                to_startsAt = startsAt, to_endsAt = endsAt, to_reason = reason,
                to_createdAt = time_UTC now, to_updatedAt = time_UTC now\<rparr>)"

definition RehydrateTechnicianTimeOff ::
  "uuid \<Rightarrow> uuid \<Rightarrow> uuid \<Rightarrow> gotime \<Rightarrow> gotime \<Rightarrow> string option \<Rightarrow> gotime \<Rightarrow> gotime
     \<Rightarrow> TechnicianTimeOff result" where
  "RehydrateTechnicianTimeOff id' technicianID createdByUserID startsAt endsAt reason createdAt updatedAt =
     (case NewTechnicianTimeOff id' technicianID createdByUserID startsAt endsAt reason createdAt of
        Inl err \<Rightarrow> Inl err
      | Inr item \<Rightarrow> Inr (item\<lparr>to_updatedAt := time_UTC updatedAt\<rparr>))"

definition TimeOff_Update ::
  "gotime \<Rightarrow> gotime \<Rightarrow> string option \<Rightarrow> gotime \<Rightarrow> TechnicianTimeOff \<Rightarrow> TechnicianTimeOff result" where
  "TimeOff_Update startsAt endsAt reason now t =
     (case NewTechnicianTimeOff (to_id t) (to_technicianID t) (to_createdByUserID t) startsAt endsAt
             reason (to_createdAt t) of
        Inl err \<Rightarrow> Inl err
      | Inr updated \<Rightarrow> Inr (updated\<lparr>to_updatedAt := time_UTC now\<rparr>))"

section \<open>What the constructors accept\<close>

lemma NewDealershipOperationTime_ok:
  "NewDealershipOperationTime i d w op cl t = Inr x \<longleftrightarrow>
     i \<noteq> uuid_Nil \<and> d \<noteq> uuid_Nil \<and> 1 \<le> w \<and> w \<le> 7 \<and> 0 \<le> op \<and> op < cl \<and> cl < 24 * Hour
     \<and> x = \<lparr>ot_id = i, ot_dealershipID = d, ot_dayOfWeek = w, ot_opensAt = op, ot_closesAt = cl,
            ot_createdAt = time_UTC t, ot_updatedAt = time_UTC t\<rparr>"
  by (auto simp: NewDealershipOperationTime_def)

lemma NewTechnicianShift_ok:
  "NewTechnicianShift i d w st en t = Inr x \<longleftrightarrow>
     i \<noteq> uuid_Nil \<and> d \<noteq> uuid_Nil \<and> 1 \<le> w \<and> w \<le> 7 \<and> 0 \<le> st \<and> st < en \<and> en < 24 * Hour
     \<and> x = \<lparr>sh_id = i, sh_technicianID = d, sh_dayOfWeek = w, sh_startsAt = st, sh_endsAt = en,
            sh_createdAt = time_UTC t, sh_updatedAt = time_UTC t\<rparr>"
  by (auto simp: NewTechnicianShift_def)

lemma NewTechnicianTimeOff_ok:
  "NewTechnicianTimeOff i d u s e r t = Inr x \<longleftrightarrow>
     i \<noteq> uuid_Nil \<and> d \<noteq> uuid_Nil \<and> u \<noteq> uuid_Nil \<and> instant s < instant e
     \<and> x = \<lparr>to_id = i, to_technicianID = d, to_createdByUserID = u, to_startsAt = time_UTC s,
            to_endsAt = time_UTC e, to_reason = r, to_createdAt = time_UTC t,
            to_updatedAt = time_UTC t\<rparr>"
  by (auto simp: NewTechnicianTimeOff_def Let_def time_After_def)

section \<open>Instances of the contract\<close>

type_synonym weekly_fields = "uuid \<times> uuid \<times> int \<times> int \<times> int"

fun make_operation_time :: "weekly_fields \<Rightarrow> gotime \<Rightarrow> DealershipOperationTime result" where
  "make_operation_time (i, d, w, op, cl) t = NewDealershipOperationTime i d w op cl t"

fun rehydrate_operation_time ::
  "weekly_fields \<Rightarrow> gotime \<Rightarrow> gotime \<Rightarrow> DealershipOperationTime result" where
  "rehydrate_operation_time (i, d, w, op, cl) t u = RehydrateDealershipOperationTime i d w op cl t u"

fun update_operation_time ::
  "int \<times> int \<times> int \<Rightarrow> gotime \<Rightarrow> DealershipOperationTime \<Rightarrow> DealershipOperationTime result" where
  "update_operation_time (w, op, cl) t x = OperationTime_Update w op cl t x"

fun merge_weekly :: "weekly_fields \<Rightarrow> int \<times> int \<times> int \<Rightarrow> weekly_fields" where
  "merge_weekly (i, d, _) y = (i, d, y)"

definition operation_time_fields :: "DealershipOperationTime \<Rightarrow> weekly_fields" where
  "operation_time_fields x = (ot_id x, ot_dealershipID x, ot_dayOfWeek x, ot_opensAt x, ot_closesAt x)"

definition operation_time_stamp ::
  "gotime \<Rightarrow> gotime \<Rightarrow> DealershipOperationTime \<Rightarrow> DealershipOperationTime" where
  "operation_time_stamp c u x = x\<lparr>ot_createdAt := c, ot_updatedAt := u\<rparr>"

interpretation operation_time: updatable make_operation_time rehydrate_operation_time
  operation_time_fields ot_createdAt ot_updatedAt operation_time_stamp
  update_operation_time merge_weekly
proof unfold_locales
  fix x t t' a
  assume "make_operation_time x t = Inr a"
  then show "make_operation_time (operation_time_fields a) t' =
      Inr (operation_time_stamp (time_UTC t') (time_UTC t') a)"
    by (cases x) (auto simp: NewDealershipOperationTime_ok operation_time_fields_def
        operation_time_stamp_def)
next
  fix x t a
  assume "make_operation_time x t = Inr a"
  then show "ot_createdAt a = time_UTC t \<and> ot_updatedAt a = time_UTC t"
    by (cases x) (auto simp: NewDealershipOperationTime_ok)
next
  fix x c u
  show "rehydrate_operation_time x c u = (case make_operation_time x c of Inl e \<Rightarrow> Inl e
      | Inr a \<Rightarrow> Inr (operation_time_stamp (ot_createdAt a) (time_UTC u) a))"
    by (cases x) (auto simp: RehydrateDealershipOperationTime_def operation_time_stamp_def
        split: sum.splits)
next
  fix x t a0 a c u y now
  assume "make_operation_time x t = Inr a0" and "a = operation_time_stamp c u a0" and "time_UTC c = c"
  then show "update_operation_time y now a =
      rehydrate_operation_time (merge_weekly (operation_time_fields a) y) c now"
    by (cases x; cases y)
      (auto simp: RehydrateDealershipOperationTime_def OperationTime_Update_def
        operation_time_fields_def operation_time_stamp_def split: sum.splits)
qed (simp_all add: operation_time_stamp_def operation_time_fields_def)

fun make_shift :: "weekly_fields \<Rightarrow> gotime \<Rightarrow> TechnicianShift result" where
  "make_shift (i, d, w, st, en) t = NewTechnicianShift i d w st en t"

fun rehydrate_shift :: "weekly_fields \<Rightarrow> gotime \<Rightarrow> gotime \<Rightarrow> TechnicianShift result" where
  "rehydrate_shift (i, d, w, st, en) t u = RehydrateTechnicianShift i d w st en t u"

fun update_shift :: "int \<times> int \<times> int \<Rightarrow> gotime \<Rightarrow> TechnicianShift \<Rightarrow> TechnicianShift result" where
  "update_shift (w, st, en) t x = Shift_Update w st en t x"

definition shift_fields :: "TechnicianShift \<Rightarrow> weekly_fields" where
  "shift_fields x = (sh_id x, sh_technicianID x, sh_dayOfWeek x, sh_startsAt x, sh_endsAt x)"

definition shift_stamp :: "gotime \<Rightarrow> gotime \<Rightarrow> TechnicianShift \<Rightarrow> TechnicianShift" where
  "shift_stamp c u x = x\<lparr>sh_createdAt := c, sh_updatedAt := u\<rparr>"

interpretation shift: updatable make_shift rehydrate_shift
  shift_fields sh_createdAt sh_updatedAt shift_stamp update_shift merge_weekly
proof unfold_locales
  fix x t t' a
  assume "make_shift x t = Inr a"
  then show "make_shift (shift_fields a) t' = Inr (shift_stamp (time_UTC t') (time_UTC t') a)"
    by (cases x) (auto simp: NewTechnicianShift_ok shift_fields_def shift_stamp_def)
next
  fix x t a
  assume "make_shift x t = Inr a"
  then show "sh_createdAt a = time_UTC t \<and> sh_updatedAt a = time_UTC t"
    by (cases x) (auto simp: NewTechnicianShift_ok)
next
  fix x c u
  show "rehydrate_shift x c u = (case make_shift x c of Inl e \<Rightarrow> Inl e
      | Inr a \<Rightarrow> Inr (shift_stamp (sh_createdAt a) (time_UTC u) a))"
    by (cases x) (auto simp: RehydrateTechnicianShift_def shift_stamp_def split: sum.splits)
next
  fix x t a0 a c u y now
  assume "make_shift x t = Inr a0" and "a = shift_stamp c u a0" and "time_UTC c = c"
  then show "update_shift y now a = rehydrate_shift (merge_weekly (shift_fields a) y) c now"
    by (cases x; cases y)
      (auto simp: RehydrateTechnicianShift_def Shift_Update_def shift_fields_def shift_stamp_def
        split: sum.splits)
qed (simp_all add: shift_stamp_def shift_fields_def)

type_synonym time_off_fields = "uuid \<times> uuid \<times> uuid \<times> gotime \<times> gotime \<times> string option"

fun make_time_off :: "time_off_fields \<Rightarrow> gotime \<Rightarrow> TechnicianTimeOff result" where
  "make_time_off (i, d, b, s, e, r) t = NewTechnicianTimeOff i d b s e r t"

fun rehydrate_time_off :: "time_off_fields \<Rightarrow> gotime \<Rightarrow> gotime \<Rightarrow> TechnicianTimeOff result" where
  "rehydrate_time_off (i, d, b, s, e, r) t u = RehydrateTechnicianTimeOff i d b s e r t u"

fun update_time_off ::
  "gotime \<times> gotime \<times> string option \<Rightarrow> gotime \<Rightarrow> TechnicianTimeOff \<Rightarrow> TechnicianTimeOff result" where
  "update_time_off (s, e, r) t x = TimeOff_Update s e r t x"

fun merge_time_off :: "time_off_fields \<Rightarrow> gotime \<times> gotime \<times> string option \<Rightarrow> time_off_fields" where
  "merge_time_off (i, d, b, _) y = (i, d, b, y)"

definition time_off_fields :: "TechnicianTimeOff \<Rightarrow> time_off_fields" where
  "time_off_fields x =
     (to_id x, to_technicianID x, to_createdByUserID x, to_startsAt x, to_endsAt x, to_reason x)"

definition time_off_stamp :: "gotime \<Rightarrow> gotime \<Rightarrow> TechnicianTimeOff \<Rightarrow> TechnicianTimeOff" where
  "time_off_stamp c u x = x\<lparr>to_createdAt := c, to_updatedAt := u\<rparr>"

interpretation time_off: updatable make_time_off rehydrate_time_off
  time_off_fields to_createdAt to_updatedAt time_off_stamp update_time_off merge_time_off
proof unfold_locales
  fix x t t' a
  assume "make_time_off x t = Inr a"
  then show "make_time_off (time_off_fields a) t' =
      Inr (time_off_stamp (time_UTC t') (time_UTC t') a)"
    by (cases x) (auto simp: NewTechnicianTimeOff_ok time_off_fields_def time_off_stamp_def)
next
  fix x t a
  assume "make_time_off x t = Inr a"
  then show "to_createdAt a = time_UTC t \<and> to_updatedAt a = time_UTC t"
    by (cases x) (auto simp: NewTechnicianTimeOff_ok)
next
  fix x c u
  show "rehydrate_time_off x c u = (case make_time_off x c of Inl e \<Rightarrow> Inl e
      | Inr a \<Rightarrow> Inr (time_off_stamp (to_createdAt a) (time_UTC u) a))"
    by (cases x) (auto simp: RehydrateTechnicianTimeOff_def time_off_stamp_def split: sum.splits)
next
  fix x t a0 a c u y now
  assume "make_time_off x t = Inr a0" and "a = time_off_stamp c u a0" and "time_UTC c = c"
  then show "update_time_off y now a = rehydrate_time_off (merge_time_off (time_off_fields a) y) c now"
    by (cases x; cases y)
      (auto simp: RehydrateTechnicianTimeOff_def TimeOff_Update_def time_off_fields_def
        time_off_stamp_def split: sum.splits)
qed (simp_all add: time_off_stamp_def time_off_fields_def)

end
