(* ===== verification/Domain_People.thy ===== *)
theory Domain_People
  imports Aggregates
begin

text \<open>
  People and their vehicles (appointment\_scheduler/domain: dealership\_admin.go,
  dealership\_user.go, customer.go, vehicle.go, technician.go, technician\_skill.go).
  \<open>mail.ParseAddress\<close> is the parameter \<open>parse_address\<close>: the address part of a parsed string,
  \<open>None\<close> when parsing fails. \<open>Technician\<close> and \<open>TechnicianSkill\<close> are \<open>updatable\<close> aggregates;
  \<open>Customer\<close> and \<open>Vehicle\<close> are restored without validation, so their invariants are stated
  directly.
\<close>

section \<open>Dealership admins\<close>

record DealershipAdmin =
  da_id :: uuid
  da_authUserID :: uuid
  da_dealershipID :: uuid
  da_name :: string
  da_phone :: "string option"
  da_email :: "string option"
  da_createdAt :: gotime
  da_updatedAt :: gotime

text \<open>The pattern \<open>^\+[1-9][0-9]{1,14}$\<close>.\<close>

fun e164Phone :: "string \<Rightarrow> bool" where
  "e164Phone (p # d # ds) =
     (p = CHR 0x2B \<and> is_digit d \<and> d \<noteq> CHR ''0'' \<and> list_all is_digit ds
      \<and> 1 \<le> length ds \<and> length ds \<le> 14)"
| "e164Phone _ = False"

definition normalizeAdminPhone :: "string option \<Rightarrow> string option result" where
  "normalizeAdminPhone value =
     (case value of
        None \<Rightarrow> Inr None
      | Some v \<Rightarrow>
          if TrimSpace v = [] then Inr None
          else if \<not> e164Phone (TrimSpace v) then Inl (PeopleErr ErrInvalidAdminPhone)
          else Inr (Some (TrimSpace v)))"

definition normalizeAdminEmail :: "(string \<Rightarrow> string option) \<Rightarrow> string option \<Rightarrow> string option result" where
  "normalizeAdminEmail parse_address value =
     (case value of
        None \<Rightarrow> Inr None
      | Some v \<Rightarrow>
          if TrimSpace v = [] then Inr None
          else let normalized = ToLower (TrimSpace v) in
            if parse_address normalized \<noteq> Some normalized then Inl (PeopleErr ErrInvalidAdminEmail)
            else Inr (Some normalized))"

definition NewDealershipAdmin ::
  "(string \<Rightarrow> string option) \<Rightarrow> uuid \<Rightarrow> uuid \<Rightarrow> uuid \<Rightarrow> string \<Rightarrow> string option \<Rightarrow> string option
     \<Rightarrow> gotime \<Rightarrow> DealershipAdmin result" where
  "NewDealershipAdmin parse_address id' authUserID dealershipID name phone email now =
     (if id' = uuid_Nil then Inl (ErrorString ''dealership admin ID is required'')
      else if authUserID = uuid_Nil then Inl (PeopleErr ErrAuthUserIDRequired)
      else if dealershipID = uuid_Nil then Inl (PeopleErr ErrDealershipIDRequired)
      else let name = TrimSpace name in
      if name = [] then Inl (PeopleErr ErrAdminNameRequired)
      else case normalizeAdminPhone phone of Inl err \<Rightarrow> Inl err | Inr normalizedPhone \<Rightarrow>
      case normalizeAdminEmail parse_address email of Inl err \<Rightarrow> Inl err | Inr normalizedEmail \<Rightarrow>
      Inr \<lparr>da_id = id', da_authUserID = authUserID, da_dealershipID = dealershipID, da_name = name,
           da_phone = normalizedPhone, da_email = normalizedEmail, da_createdAt = time_UTC now,
           da_updatedAt = time_UTC now\<rparr>)"

section \<open>Dealership users\<close>

record DealershipUser =
  du_id :: uuid
  du_authUserID :: uuid
  du_dealershipID :: uuid
  du_name :: string
  du_email :: string
  du_role :: string
  du_createdAt :: gotime
  du_updatedAt :: gotime

definition known_role :: "string \<Rightarrow> bool" where
  "known_role role \<longleftrightarrow>
     \<not> (role \<noteq> ''admin'' \<and> role \<noteq> ''dealer'' \<and> role \<noteq> ''staff'' \<and> role \<noteq> ''technician'')"

definition NewDealershipUser ::
  "(string \<Rightarrow> string option) \<Rightarrow> uuid \<Rightarrow> uuid \<Rightarrow> uuid \<Rightarrow> string \<Rightarrow> string \<Rightarrow> string \<Rightarrow> gotime
     \<Rightarrow> DealershipUser result" where
  "NewDealershipUser parse_address id' authUserID dealershipID name email role now =
     (if id' = uuid_Nil then Inl (ErrorString ''dealership user ID is required'')
      else if authUserID = uuid_Nil then Inl (PeopleErr ErrAuthUserIDRequired)
      else if dealershipID = uuid_Nil then Inl (PeopleErr ErrDealershipIDRequired)
      else let name = TrimSpace name in
      if name = [] then Inl (PeopleErr ErrUserNameRequired)
      else let email = ToLower (TrimSpace email) in
      if email = [] then Inl (PeopleErr ErrUserEmailRequired)
      else if parse_address email \<noteq> Some email then Inl (PeopleErr ErrInvalidUserEmail)
      else if \<not> known_role role then Inl (PeopleErr ErrInvalidUserRole)
      else Inr \<lparr>du_id = id', du_authUserID = authUserID, du_dealershipID = dealershipID,
                du_name = name, du_email = email, du_role = role, du_createdAt = time_UTC now,
                du_updatedAt = time_UTC now\<rparr>)"

section \<open>Customers\<close>

record Customer =
  c_id :: uuid
  c_name :: string
  c_phone :: string
  c_email :: "string option"
  c_createdAt :: gotime
  c_updatedAt :: gotime

definition NewCustomer ::
  "uuid \<Rightarrow> string \<Rightarrow> string \<Rightarrow> string option \<Rightarrow> gotime \<Rightarrow> Customer result" where
  "NewCustomer id' name phone email now =
     (if id' = uuid_Nil then Inl (ErrorString ''customer ID is required'')
      else if name = [] then Inl (PeopleErr ErrCustomerNameRequired)
      else Inr \<lparr>c_id = id', c_name = name, c_phone = phone, c_email = email,
                c_createdAt = now, c_updatedAt = now\<rparr>)"

definition RestoreCustomer ::
  "uuid \<Rightarrow> string \<Rightarrow> string \<Rightarrow> string option \<Rightarrow> gotime \<Rightarrow> gotime \<Rightarrow> Customer" where
  "RestoreCustomer id' name phone email createdAt updatedAt =
     \<lparr>c_id = id', c_name = name, c_phone = phone, c_email = email,
      c_createdAt = createdAt, c_updatedAt = updatedAt\<rparr>"

definition Customer_Update ::
  "string \<Rightarrow> string \<Rightarrow> string option \<Rightarrow> gotime \<Rightarrow> Customer \<Rightarrow> Customer result" where
  "Customer_Update name phone email now c =
     (if name = [] then Inl (PeopleErr ErrCustomerNameRequired)
      else Inr (c\<lparr>c_name := name, c_phone := phone, c_email := email, c_updatedAt := now\<rparr>))"

section \<open>Vehicles\<close>

record Vehicle =
  v_id :: uuid
  v_customerID :: uuid
  v_vin :: "string option"
  v_registrationPlate :: "string option"
  v_make :: string
  v_model :: string
  v_modelYear :: "int option"
  v_createdAt :: gotime
  v_updatedAt :: gotime

definition normalizeVehicleIdentifier :: "string option \<Rightarrow> string option" where
  "normalizeVehicleIdentifier value =
     (case value of
        None \<Rightarrow> None
      | Some v \<Rightarrow> let normalized = ToUpper (TrimSpace v) in
          if normalized = [] then None else Some normalized)"

text \<open>\<open>validate\<close> returns the error it finds, \<open>None\<close> for nil.\<close>

definition Vehicle_validate :: "Vehicle \<Rightarrow> go_error option" where
  "Vehicle_validate v =
     (if v_make v = [] then Some (PeopleErr ErrVehicleMakeRequired)
      else if v_model v = [] then Some (PeopleErr ErrVehicleModelRequired)
      else if v_vin v = None \<and> v_registrationPlate v = None then Some (PeopleErr ErrVehicleIdentity)
      else if (case v_vin v of Some s \<Rightarrow> length s > 17 | None \<Rightarrow> False)
        then Some (PeopleErr ErrVehicleIdentity)
      else if (case v_registrationPlate v of Some s \<Rightarrow> length s > 32 | None \<Rightarrow> False)
        then Some (PeopleErr ErrVehicleIdentity)
      else if (case v_modelYear v of Some y \<Rightarrow> y < 1886 \<or> y > 2100 | None \<Rightarrow> False)
        then Some (PeopleErr ErrVehicleModelYear)
      else None)"

definition NewVehicle ::
  "uuid \<Rightarrow> uuid \<Rightarrow> string option \<Rightarrow> string option \<Rightarrow> string \<Rightarrow> string \<Rightarrow> int option \<Rightarrow> gotime
     \<Rightarrow> Vehicle result" where
  "NewVehicle id' customerID vin registrationPlate mk model modelYear now =
     (if id' = uuid_Nil \<or> customerID = uuid_Nil
      then Inl (ErrorString ''vehicle and customer IDs are required'')
      else let vehicle = \<lparr>v_id = id', v_customerID = customerID,
             v_vin = normalizeVehicleIdentifier vin,
             v_registrationPlate = normalizeVehicleIdentifier registrationPlate,
             v_make = TrimSpace mk, v_model = TrimSpace model, v_modelYear = modelYear,
             v_createdAt = now, v_updatedAt = now\<rparr> in
        case Vehicle_validate vehicle of Some err \<Rightarrow> Inl err | None \<Rightarrow> Inr vehicle)"

definition RestoreVehicle ::
  "uuid \<Rightarrow> uuid \<Rightarrow> string option \<Rightarrow> string option \<Rightarrow> string \<Rightarrow> string \<Rightarrow> int option
     \<Rightarrow> gotime \<Rightarrow> gotime \<Rightarrow> Vehicle" where
  "RestoreVehicle id' customerID vin registrationPlate mk model modelYear createdAt updatedAt =
     \<lparr>v_id = id', v_customerID = customerID, v_vin = vin, v_registrationPlate = registrationPlate,
      v_make = mk, v_model = model, v_modelYear = modelYear,
      v_createdAt = createdAt, v_updatedAt = updatedAt\<rparr>"

definition Vehicle_Update ::
  "string option \<Rightarrow> string option \<Rightarrow> string \<Rightarrow> string \<Rightarrow> int option \<Rightarrow> gotime \<Rightarrow> Vehicle \<Rightarrow> Vehicle result" where
  "Vehicle_Update vin registrationPlate mk model modelYear now v =
     (let v' = v\<lparr>v_vin := normalizeVehicleIdentifier vin,
                v_registrationPlate := normalizeVehicleIdentifier registrationPlate,
                v_make := TrimSpace mk, v_model := TrimSpace model, v_modelYear := modelYear\<rparr> in
      case Vehicle_validate v' of Some err \<Rightarrow> Inl err | None \<Rightarrow> Inr (v'\<lparr>v_updatedAt := now\<rparr>))"

section \<open>Technicians\<close>

record Technician =
  t_id :: uuid
  t_userID :: uuid
  t_name :: string
  t_phone :: string
  t_email :: "string option"
  t_isActive :: bool
  t_createdAt :: gotime
  t_updatedAt :: gotime

definition normalizePhone :: "string \<Rightarrow> string" where
  "normalizePhone value =
     (let value = TrimSpace value;
          value = filter (\<lambda>c. c \<notin> set '' -().'') value in
      if prefix ''00'' value then CHR 0x2B # drop 2 value else value)"

fun isE164 :: "string \<Rightarrow> bool" where
  "isE164 (p # d # ds) =
     (9 \<le> length (p # d # ds) \<and> length (p # d # ds) \<le> 16 \<and> p = CHR 0x2B \<and> d \<noteq> CHR ''0''
      \<and> list_all is_digit (d # ds))"
| "isE164 _ = False"

definition validateTechnicianDetails ::
  "(string \<Rightarrow> string option) \<Rightarrow> string \<Rightarrow> string \<Rightarrow> string option
     \<Rightarrow> (string \<times> string \<times> string option) result" where
  "validateTechnicianDetails parse_address name phone email =
     (let name = TrimSpace name in
      if name = [] then Inl (PeopleErr ErrTechnicianNameRequired)
      else let phone = normalizePhone phone in
      if \<not> isE164 phone then Inl (PeopleErr ErrTechnicianPhoneInvalid)
      else case email of None \<Rightarrow> Inr (name, phone, None)
      | Some e \<Rightarrow>
          let normalizedEmail = ToLower (TrimSpace e) in
          if normalizedEmail = [] then Inl (PeopleErr ErrTechnicianEmailInvalid)
          else if parse_address normalizedEmail \<noteq> Some normalizedEmail
            then Inl (PeopleErr ErrTechnicianEmailInvalid)
          else Inr (name, phone, Some normalizedEmail))"

definition NewTechnician ::
  "(string \<Rightarrow> string option) \<Rightarrow> uuid \<Rightarrow> uuid \<Rightarrow> string \<Rightarrow> string \<Rightarrow> string option \<Rightarrow> bool \<Rightarrow> gotime
     \<Rightarrow> Technician result" where
  "NewTechnician parse_address id' userID name phone email isActive now =
     (if id' = uuid_Nil then Inl (PeopleErr ErrTechnicianIDRequired)
      else if userID = uuid_Nil then Inl (PeopleErr ErrTechnicianUserIDRequired)
      else case validateTechnicianDetails parse_address name phone email of
        Inl err \<Rightarrow> Inl err
      | Inr (name, phone, email) \<Rightarrow> Inr \<lparr>t_id = id', t_userID = userID, t_name = name,
          t_phone = phone, t_email = email, t_isActive = isActive, t_createdAt = time_UTC now,
          t_updatedAt = time_UTC now\<rparr>)"

definition RehydrateTechnician ::
  "(string \<Rightarrow> string option) \<Rightarrow> uuid \<Rightarrow> uuid \<Rightarrow> string \<Rightarrow> string \<Rightarrow> string option \<Rightarrow> bool
     \<Rightarrow> gotime \<Rightarrow> gotime \<Rightarrow> Technician result" where
  "RehydrateTechnician parse_address id' userID name phone email isActive createdAt updatedAt =
     (case NewTechnician parse_address id' userID name phone email isActive createdAt of
        Inl err \<Rightarrow> Inl err
      | Inr t \<Rightarrow> Inr (t\<lparr>t_updatedAt := time_UTC updatedAt\<rparr>))"

definition Technician_Update ::
  "(string \<Rightarrow> string option) \<Rightarrow> string \<Rightarrow> string \<Rightarrow> string option \<Rightarrow> bool \<Rightarrow> gotime \<Rightarrow> Technician
     \<Rightarrow> Technician result" where
  "Technician_Update parse_address name phone email isActive now t =
     (case validateTechnicianDetails parse_address name phone email of
        Inl err \<Rightarrow> Inl err
      | Inr (name, phone, email) \<Rightarrow> Inr (t\<lparr>t_name := name, t_phone := phone, t_email := email,
          t_isActive := isActive, t_updatedAt := time_UTC now\<rparr>))"

section \<open>Technician skills\<close>

record TechnicianSkill =
  ts_id :: uuid
  ts_technicianID :: uuid
  ts_skillID :: uuid
  ts_createdAt :: gotime
  ts_updatedAt :: gotime

definition NewTechnicianSkill :: "uuid \<Rightarrow> uuid \<Rightarrow> uuid \<Rightarrow> gotime \<Rightarrow> TechnicianSkill result" where
  "NewTechnicianSkill id' technicianID skillID now =
     (if id' = uuid_Nil then Inl (PeopleErr ErrTechnicianSkillIDRequired)
      else if technicianID = uuid_Nil then Inl (PeopleErr ErrTechnicianIDRequired)
      else if skillID = uuid_Nil then Inl (CatalogErr ErrSkillIDRequired)
      else Inr \<lparr>ts_id = id', ts_technicianID = technicianID, ts_skillID = skillID,
                ts_createdAt = time_UTC now, ts_updatedAt = time_UTC now\<rparr>)"

definition RehydrateTechnicianSkill ::
  "uuid \<Rightarrow> uuid \<Rightarrow> uuid \<Rightarrow> gotime \<Rightarrow> gotime \<Rightarrow> TechnicianSkill result" where
  "RehydrateTechnicianSkill id' technicianID skillID createdAt updatedAt =
     (case NewTechnicianSkill id' technicianID skillID createdAt of
        Inl err \<Rightarrow> Inl err
      | Inr s \<Rightarrow> Inr (s\<lparr>ts_updatedAt := time_UTC updatedAt\<rparr>))"

definition TechnicianSkill_WithSkill ::
  "uuid \<Rightarrow> gotime \<Rightarrow> TechnicianSkill \<Rightarrow> TechnicianSkill result" where
  "TechnicianSkill_WithSkill skillID now s =
     (if skillID = uuid_Nil then Inl (CatalogErr ErrSkillIDRequired)
      else Inr (s\<lparr>ts_skillID := skillID, ts_updatedAt := time_UTC now\<rparr>))"


section \<open>Invariants\<close>

lemma NewCustomer_ok:
  "NewCustomer i n p e t = Inr c \<longleftrightarrow> i \<noteq> uuid_Nil \<and> n \<noteq> [] \<and>
     c = \<lparr>c_id = i, c_name = n, c_phone = p, c_email = e, c_createdAt = t, c_updatedAt = t\<rparr>"
  by (auto simp: NewCustomer_def)

lemma Customer_Update_ok:
  "Customer_Update n p e t c = Inr c' \<longleftrightarrow> n \<noteq> [] \<and>
     c' = c\<lparr>c_name := n, c_phone := p, c_email := e, c_updatedAt := t\<rparr>"
  by (auto simp: Customer_Update_def)

text \<open>An identifier as the package normalises it: upper case, no outer space, not empty.\<close>

definition normal_identifier :: "nat \<Rightarrow> string option \<Rightarrow> bool" where
  "normal_identifier bound v =
     (case v of None \<Rightarrow> True
      | Some s \<Rightarrow> s \<noteq> [] \<and> TrimSpace s = s \<and> ToUpper s = s \<and> length s \<le> bound)"

lemma normalizeVehicleIdentifier_idem [simp]:
  "normalizeVehicleIdentifier (normalizeVehicleIdentifier v) = normalizeVehicleIdentifier v"
  by (auto simp: normalizeVehicleIdentifier_def Let_def split: option.split)

definition vehicle_wf :: "Vehicle \<Rightarrow> bool" where
  "vehicle_wf v \<longleftrightarrow>
     v_id v \<noteq> uuid_Nil \<and> v_customerID v \<noteq> uuid_Nil
     \<and> v_make v \<noteq> [] \<and> TrimSpace (v_make v) = v_make v
     \<and> v_model v \<noteq> [] \<and> TrimSpace (v_model v) = v_model v
     \<and> (v_vin v \<noteq> None \<or> v_registrationPlate v \<noteq> None)
     \<and> normal_identifier 17 (v_vin v) \<and> normal_identifier 32 (v_registrationPlate v)
     \<and> (case v_modelYear v of None \<Rightarrow> True | Some y \<Rightarrow> 1886 \<le> y \<and> y \<le> 2100)"

lemma normal_identifier_normalize:
  "(case normalizeVehicleIdentifier v of Some s \<Rightarrow> \<not> n < length s | None \<Rightarrow> True) \<Longrightarrow>
   normal_identifier n (normalizeVehicleIdentifier v)"
  by (auto simp: normal_identifier_def normalizeVehicleIdentifier_def Let_def split: option.splits)

lemma Vehicle_validate_None:
  "Vehicle_validate v = None \<longleftrightarrow>
     v_make v \<noteq> [] \<and> v_model v \<noteq> [] \<and> (v_vin v \<noteq> None \<or> v_registrationPlate v \<noteq> None)
     \<and> (case v_vin v of Some s \<Rightarrow> \<not> 17 < length s | None \<Rightarrow> True)
     \<and> (case v_registrationPlate v of Some s \<Rightarrow> \<not> 32 < length s | None \<Rightarrow> True)
     \<and> (case v_modelYear v of None \<Rightarrow> True | Some y \<Rightarrow> 1886 \<le> y \<and> y \<le> 2100)"
  by (cases "v_vin v"; cases "v_registrationPlate v"; cases "v_modelYear v")
    (simp_all add: Vehicle_validate_def not_less)

lemma NewVehicle_wf: "NewVehicle i c vin plate mk md y t = Inr v \<Longrightarrow> vehicle_wf v"
proof -
  let ?v = "\<lparr>v_id = i, v_customerID = c, v_vin = normalizeVehicleIdentifier vin,
    v_registrationPlate = normalizeVehicleIdentifier plate, v_make = TrimSpace mk,
    v_model = TrimSpace md, v_modelYear = y, v_createdAt = t, v_updatedAt = t\<rparr>"
  assume "NewVehicle i c vin plate mk md y t = Inr v"
  then have "i \<noteq> uuid_Nil" "c \<noteq> uuid_Nil" "Vehicle_validate ?v = None" "v = ?v"
    by (auto simp: NewVehicle_def Let_def split: if_splits option.splits)
  then show ?thesis
    by (simp add: vehicle_wf_def Vehicle_validate_None normal_identifier_normalize)
qed

lemma Vehicle_Update_wf:
  assumes "vehicle_wf v" and "Vehicle_Update vin plate mk md y t v = Inr v'"
  shows "vehicle_wf v' \<and> v_id v' = v_id v \<and> v_customerID v' = v_customerID v
    \<and> v_createdAt v' = v_createdAt v \<and> v_updatedAt v' = t"
proof -
  let ?v = "v\<lparr>v_vin := normalizeVehicleIdentifier vin,
    v_registrationPlate := normalizeVehicleIdentifier plate,
    v_make := TrimSpace mk, v_model := TrimSpace md, v_modelYear := y\<rparr>"
  from assms(2) have "Vehicle_validate ?v = None" and "v' = ?v\<lparr>v_updatedAt := t\<rparr>"
    by (auto simp: Vehicle_Update_def Let_def split: option.splits)
  then show ?thesis
    using assms(1)
    by (simp add: vehicle_wf_def Vehicle_validate_None normal_identifier_normalize)
qed

lemma NewDealershipUser_ok:
  "NewDealershipUser pa i a d n e r t = Inr u \<longleftrightarrow>
     i \<noteq> uuid_Nil \<and> a \<noteq> uuid_Nil \<and> d \<noteq> uuid_Nil \<and> TrimSpace n \<noteq> [] \<and> TrimSpace e \<noteq> []
     \<and> pa (ToLower (TrimSpace e)) = Some (ToLower (TrimSpace e))
     \<and> known_role r
     \<and> u = \<lparr>du_id = i, du_authUserID = a, du_dealershipID = d, du_name = TrimSpace n,
            du_email = ToLower (TrimSpace e), du_role = r, du_createdAt = time_UTC t,
            du_updatedAt = time_UTC t\<rparr>"
  by (auto simp: NewDealershipUser_def Let_def)

section \<open>Phone numbers\<close>

lemma TrimSpace_id:
  assumes "s = [] \<or> (\<not> is_space (hd s) \<and> \<not> is_space (last s))"
  shows "TrimSpace s = s"
proof (cases "s = []")
  case False
  then have "\<not> is_space (hd s)" "\<not> is_space (hd (rev s))" using assms by (auto simp: hd_rev)
  then show ?thesis by (simp add: TrimSpace_def dropWhile_id)
qed simp

lemma digit_facts:
  "is_digit c \<Longrightarrow> \<not> is_space c \<and> c \<notin> set '' -().'' \<and> c \<noteq> CHR 0x2B"
  by (auto simp: is_digit_def is_space_def)

lemma isE164_shape:
  "isE164 s \<longleftrightarrow> (\<exists>d ds. s = CHR 0x2B # d # ds \<and> is_digit d \<and> d \<noteq> CHR ''0''
      \<and> list_all is_digit ds \<and> 7 \<le> length ds \<and> length ds \<le> 14)"
  by (cases s rule: isE164.cases) auto

lemma normalizePhone_E164:
  assumes "isE164 s"
  shows "normalizePhone s = s"
proof -
  from assms obtain d ds where s: "s = CHR 0x2B # d # ds" and d: "is_digit d" "list_all is_digit ds"
    by (auto simp: isE164_shape)
  have "\<not> is_space (last s)"
    using d digit_facts by (cases ds rule: rev_cases) (auto simp: s)
  then have "TrimSpace s = s" by (intro TrimSpace_id) (simp add: s is_space_def)
  moreover have "filter (\<lambda>c. c \<notin> set '' -().'') s = s"
    using d digit_facts by (intro filter_True) (auto simp: s list_all_iff)
  ultimately show ?thesis
    by (simp add: normalizePhone_def Let_def) (simp add: s)
qed

lemma isE164_admin_phone: "isE164 s \<Longrightarrow> e164Phone s"
  by (auto simp: isE164_shape)

section \<open>Instances of the contract\<close>

lemma validateTechnicianDetails_ok:
  "validateTechnicianDetails pa n p e = Inr (n', p', e') \<longleftrightarrow>
     n' = TrimSpace n \<and> n' \<noteq> [] \<and> p' = normalizePhone p \<and> isE164 p'
     \<and> (case e of None \<Rightarrow> e' = None
        | Some m \<Rightarrow> TrimSpace m \<noteq> [] \<and> e' = Some (ToLower (TrimSpace m))
            \<and> pa (ToLower (TrimSpace m)) = Some (ToLower (TrimSpace m)))"
  by (auto simp: validateTechnicianDetails_def Let_def split: option.split)

lemma validateTechnicianDetails_idem:
  assumes "validateTechnicianDetails pa n p e = Inr (n', p', e')"
  shows "validateTechnicianDetails pa n' p' e' = Inr (n', p', e')"
  using assms unfolding validateTechnicianDetails_ok
  by (cases e) (auto simp: normalizePhone_E164)

type_synonym technician_fields = "uuid \<times> uuid \<times> string \<times> string \<times> string option \<times> bool"

fun make_technician ::
  "(string \<Rightarrow> string option) \<Rightarrow> technician_fields \<Rightarrow> gotime \<Rightarrow> Technician result" where
  "make_technician pa (i, u, n, p, e, act) t = NewTechnician pa i u n p e act t"

fun rehydrate_technician ::
  "(string \<Rightarrow> string option) \<Rightarrow> technician_fields \<Rightarrow> gotime \<Rightarrow> gotime \<Rightarrow> Technician result" where
  "rehydrate_technician pa (i, u, n, p, e, act) c t = RehydrateTechnician pa i u n p e act c t"

fun update_technician ::
  "(string \<Rightarrow> string option) \<Rightarrow> string \<times> string \<times> string option \<times> bool \<Rightarrow> gotime \<Rightarrow> Technician
     \<Rightarrow> Technician result" where
  "update_technician pa (n, p, e, act) t x = Technician_Update pa n p e act t x"

fun merge_technician ::
  "technician_fields \<Rightarrow> string \<times> string \<times> string option \<times> bool \<Rightarrow> technician_fields" where
  "merge_technician (i, u, _) y = (i, u, y)"

definition technician_fields :: "Technician \<Rightarrow> technician_fields" where
  "technician_fields x = (t_id x, t_userID x, t_name x, t_phone x, t_email x, t_isActive x)"

definition technician_stamp :: "gotime \<Rightarrow> gotime \<Rightarrow> Technician \<Rightarrow> Technician" where
  "technician_stamp c u x = x\<lparr>t_createdAt := c, t_updatedAt := u\<rparr>"

lemma NewTechnician_ok:
  "NewTechnician pa i u n p e act t = Inr x \<longleftrightarrow>
     i \<noteq> uuid_Nil \<and> u \<noteq> uuid_Nil \<and>
     (\<exists>n' p' e'. validateTechnicianDetails pa n p e = Inr (n', p', e') \<and>
       x = \<lparr>t_id = i, t_userID = u, t_name = n', t_phone = p', t_email = e', t_isActive = act,
            t_createdAt = time_UTC t, t_updatedAt = time_UTC t\<rparr>)"
  by (auto simp: NewTechnician_def split: sum.splits if_splits)

lemma RehydrateTechnician_validates:
  "i \<noteq> uuid_Nil \<Longrightarrow> u \<noteq> uuid_Nil \<Longrightarrow>
   RehydrateTechnician pa i u n p e act c t =
     (case validateTechnicianDetails pa n p e of Inl err \<Rightarrow> Inl err
      | Inr (n', p', e') \<Rightarrow> Inr \<lparr>t_id = i, t_userID = u, t_name = n', t_phone = p', t_email = e',
          t_isActive = act, t_createdAt = time_UTC c, t_updatedAt = time_UTC t\<rparr>)"
  by (simp add: RehydrateTechnician_def NewTechnician_def split: sum.split)

interpretation technician: updatable "make_technician pa" "rehydrate_technician pa"
  technician_fields t_createdAt t_updatedAt technician_stamp "update_technician pa"
  merge_technician for pa
proof unfold_locales
  fix x t t' a
  assume "make_technician pa x t = Inr a"
  then show "make_technician pa (technician_fields a) t' =
      Inr (technician_stamp (time_UTC t') (time_UTC t') a)"
    by (cases x)
      (auto simp: NewTechnician_ok technician_fields_def technician_stamp_def
        dest: validateTechnicianDetails_idem)
next
  fix x t a
  assume "make_technician pa x t = Inr a"
  then show "t_createdAt a = time_UTC t \<and> t_updatedAt a = time_UTC t"
    by (cases x) (auto simp: NewTechnician_ok)
next
  fix x c u
  show "rehydrate_technician pa x c u = (case make_technician pa x c of Inl e \<Rightarrow> Inl e
      | Inr a \<Rightarrow> Inr (technician_stamp (t_createdAt a) (time_UTC u) a))"
    by (cases x) (auto simp: RehydrateTechnician_def technician_stamp_def split: sum.splits)
next
  fix x t a0 a c u y now
  assume "make_technician pa x t = Inr a0" and "a = technician_stamp c u a0" and "time_UTC c = c"
  then show "update_technician pa y now a =
      rehydrate_technician pa (merge_technician (technician_fields a) y) c now"
    by (cases x; cases y)
      (auto simp: NewTechnician_ok RehydrateTechnician_validates Technician_Update_def
        technician_fields_def technician_stamp_def split: sum.splits)
qed (simp_all add: technician_stamp_def technician_fields_def)

type_synonym technician_skill_fields = "uuid \<times> uuid \<times> uuid"

fun make_technician_skill :: "technician_skill_fields \<Rightarrow> gotime \<Rightarrow> TechnicianSkill result" where
  "make_technician_skill (i, te, sk) t = NewTechnicianSkill i te sk t"

fun rehydrate_technician_skill ::
  "technician_skill_fields \<Rightarrow> gotime \<Rightarrow> gotime \<Rightarrow> TechnicianSkill result" where
  "rehydrate_technician_skill (i, te, sk) c u = RehydrateTechnicianSkill i te sk c u"

fun merge_technician_skill :: "technician_skill_fields \<Rightarrow> uuid \<Rightarrow> technician_skill_fields" where
  "merge_technician_skill (i, te, _) sk = (i, te, sk)"

definition technician_skill_fields :: "TechnicianSkill \<Rightarrow> technician_skill_fields" where
  "technician_skill_fields x = (ts_id x, ts_technicianID x, ts_skillID x)"

definition technician_skill_stamp :: "gotime \<Rightarrow> gotime \<Rightarrow> TechnicianSkill \<Rightarrow> TechnicianSkill" where
  "technician_skill_stamp c u x = x\<lparr>ts_createdAt := c, ts_updatedAt := u\<rparr>"

lemma NewTechnicianSkill_ok:
  "NewTechnicianSkill i te sk t = Inr x \<longleftrightarrow> i \<noteq> uuid_Nil \<and> te \<noteq> uuid_Nil \<and> sk \<noteq> uuid_Nil
     \<and> x = \<lparr>ts_id = i, ts_technicianID = te, ts_skillID = sk, ts_createdAt = time_UTC t,
            ts_updatedAt = time_UTC t\<rparr>"
  by (auto simp: NewTechnicianSkill_def)

interpretation technician_skill: updatable make_technician_skill rehydrate_technician_skill
  technician_skill_fields ts_createdAt ts_updatedAt technician_skill_stamp
  TechnicianSkill_WithSkill merge_technician_skill
proof unfold_locales
  fix x t t' a
  assume "make_technician_skill x t = Inr a"
  then show "make_technician_skill (technician_skill_fields a) t' =
      Inr (technician_skill_stamp (time_UTC t') (time_UTC t') a)"
    by (cases x) (auto simp: NewTechnicianSkill_ok technician_skill_fields_def
        technician_skill_stamp_def)
next
  fix x t a
  assume "make_technician_skill x t = Inr a"
  then show "ts_createdAt a = time_UTC t \<and> ts_updatedAt a = time_UTC t"
    by (cases x) (auto simp: NewTechnicianSkill_ok)
next
  fix x c u
  show "rehydrate_technician_skill x c u = (case make_technician_skill x c of Inl e \<Rightarrow> Inl e
      | Inr a \<Rightarrow> Inr (technician_skill_stamp (ts_createdAt a) (time_UTC u) a))"
    by (cases x) (auto simp: RehydrateTechnicianSkill_def technician_skill_stamp_def
        split: sum.splits)
next
  fix x t a0 a c u y now
  assume "make_technician_skill x t = Inr a0" and "a = technician_skill_stamp c u a0"
    and "time_UTC c = c"
  then show "TechnicianSkill_WithSkill y now a =
      rehydrate_technician_skill (merge_technician_skill (technician_skill_fields a) y) c now"
    by (cases x)
      (auto simp: NewTechnicianSkill_ok RehydrateTechnicianSkill_def NewTechnicianSkill_def
        TechnicianSkill_WithSkill_def technician_skill_fields_def technician_skill_stamp_def
        split: sum.splits if_splits)
qed (simp_all add: technician_skill_stamp_def technician_skill_fields_def)

end
