(* ===== verification/Schedule_Repository.thy ===== *)
theory Schedule_Repository
  imports Store Tx Domain_Schedule Domain_People
begin

text \<open>
  Employees and technician schedules in the database (adapters/db/technician\_repository.go
  with the queries of dbmodels/technicians.sql.go, technician\_time\_off.sql.go and
  technician\_shifts.sql.go): who the actor is, time off (written under a per-technician
  advisory lock, after a check for overlapping active appointments), shifts.
\<close>

section \<open>Who the actor is\<close>

definition GetActiveSchedulerEmployeeDealership :: "db \<Rightarrow> uuid \<Rightarrow> uuid result" where
  "GetActiveSchedulerEmployeeDealership d authUserID =
     (case find_row (\<lambda>u. us_auth_user_id u = authUserID \<and> us_is_active u \<and> us_deleted_at u = None)
             (users d) of
        None \<Rightarrow> Inl ErrNoRows
      | Some u \<Rightarrow> Inr (us_dealership_id u))"

definition GetActiveSchedulerEmployeeID :: "db \<Rightarrow> uuid \<Rightarrow> uuid result" where
  "GetActiveSchedulerEmployeeID d authUserID =
     (case find_row (\<lambda>u. us_auth_user_id u = authUserID \<and> us_is_active u \<and> us_deleted_at u = None)
             (users d) of
        None \<Rightarrow> Inl ErrNoRows
      | Some u \<Rightarrow> Inr (us_id u))"

definition no_rows_as :: "go_error \<Rightarrow> go_error \<Rightarrow> go_error" where
  "no_rows_as e err = (if errors_is err ErrNoRows then e else err)"

definition GetEmployeeDealership :: "db \<Rightarrow> uuid \<Rightarrow> uuid result" where
  "GetEmployeeDealership d authUserID =
     rerr (no_rows_as (AppPeopleErr ErrTechnicianNotFound))
       (GetActiveSchedulerEmployeeDealership d authUserID)"

definition GetSchedulerUserID :: "db \<Rightarrow> uuid \<Rightarrow> uuid result" where
  "GetSchedulerUserID d authUserID =
     rerr (no_rows_as (AppPeopleErr ErrTechnicianNotFound))
       (GetActiveSchedulerEmployeeID d authUserID)"

text \<open>The rows of \<open>users JOIN user_roles JOIN roles\<close> with the given role codes.\<close>

definition has_role :: "db \<Rightarrow> user_row \<Rightarrow> string list \<Rightarrow> bool" where
  "has_role d u codes \<longleftrightarrow>
     list_ex (\<lambda>ur. ur_user_id ur = us_id u \<and> ur_deleted_at ur = None
       \<and> list_ex (\<lambda>ro. ro_id ro = ur_role_id ur \<and> ro_deleted_at ro = None \<and> ro_code ro \<in> set codes)
           (roles d)) (user_roles d)"

definition GetGlobalAdminDealership_sql :: "db \<Rightarrow> uuid \<Rightarrow> uuid result" where
  "GetGlobalAdminDealership_sql d authUserID =
     (case find_row (\<lambda>u. us_auth_user_id u = authUserID \<and> us_is_active u \<and> us_deleted_at u = None
              \<and> has_role d u [''admin'']) (users d) of
        None \<Rightarrow> Inl ErrNoRows
      | Some u \<Rightarrow> Inr (us_dealership_id u))"

definition GetGlobalAdminDealership :: "db \<Rightarrow> uuid \<Rightarrow> uuid result" where
  "GetGlobalAdminDealership d authUserID =
     rerr (no_rows_as (AppPeopleErr ErrTechnicianNotFound)) (GetGlobalAdminDealership_sql d authUserID)"

definition IsActiveSchedulerAdmin :: "db \<Rightarrow> uuid \<Rightarrow> bool" where
  "IsActiveSchedulerAdmin d authUserID \<longleftrightarrow>
     list_ex (\<lambda>u. us_auth_user_id u = authUserID \<and> us_is_active u \<and> us_deleted_at u = None
       \<and> has_role d u [''admin'']) (users d)"

definition IsActiveSchedulerAdminForDealership :: "db \<Rightarrow> uuid \<Rightarrow> uuid \<Rightarrow> bool" where
  "IsActiveSchedulerAdminForDealership d authUserID dealershipID \<longleftrightarrow>
     list_ex (\<lambda>u. us_auth_user_id u = authUserID \<and> us_dealership_id u = dealershipID
       \<and> us_is_active u \<and> us_deleted_at u = None \<and> has_role d u [''admin'']) (users d)"

definition IsActiveCustomerEmployee :: "db \<Rightarrow> uuid \<Rightarrow> bool" where
  "IsActiveCustomerEmployee d authUserID \<longleftrightarrow>
     list_ex (\<lambda>u. us_auth_user_id u = authUserID \<and> us_is_active u \<and> us_deleted_at u = None
       \<and> has_role d u [''admin'', ''dealer'', ''staff'', ''technician'']) (users d)"

section \<open>Technicians\<close>

text \<open>\<open>GetTechnicianForDealership\<close> joined with its user, and \<open>technicianFromRow\<close>.\<close>

definition GetTechnicianForDealership ::
  "db \<Rightarrow> uuid \<Rightarrow> uuid \<Rightarrow> (technician_row \<times> user_row) result" where
  "GetTechnicianForDealership d technicianID dealershipID =
     (case find_row (\<lambda>(t, u). us_id u = te_user_id t \<and> te_id t = technicianID
              \<and> us_dealership_id u = dealershipID \<and> te_deleted_at t = None \<and> us_deleted_at u = None)
             (List.product (technicians d) (users d)) of
        None \<Rightarrow> Inl ErrNoRows
      | Some tu \<Rightarrow> Inr tu)"

definition technicianFromRow ::
  "(string \<Rightarrow> string option) \<Rightarrow> (technician_row \<times> user_row) result \<Rightarrow> Technician result" where
  "technicianFromRow parse_address row =
     (case row of
        Inl err \<Rightarrow>
          (if errors_is err ErrNoRows then Inl (AppPeopleErr ErrTechnicianNotFound)
           else if IsUniqueViolationError (Some err) ''technicians_dealership_phone_unique''
             then Inl (AppPeopleErr ErrTechnicianPhoneTaken)
           else if IsUniqueViolationError (Some err) ''technicians_dealership_email_unique''
             then Inl (AppPeopleErr ErrTechnicianEmailTaken)
           else Inl err)
      | Inr (t, u) \<Rightarrow>
          (case us_phone u of
             None \<Rightarrow> Inl (ErrorString ''technician phone is unexpectedly null'')
           | Some phone \<Rightarrow>
               RehydrateTechnician parse_address (te_id t) (te_user_id t) (us_name u) phone (us_email u)
                 (te_is_active t) (from_pg (te_created_at t)) (from_pg (te_updated_at t))))"

definition GetTechnician ::
  "(string \<Rightarrow> string option) \<Rightarrow> db \<Rightarrow> uuid \<Rightarrow> uuid \<Rightarrow> Technician result" where
  "GetTechnician parse_address d dealershipID technicianID =
     technicianFromRow parse_address (GetTechnicianForDealership d technicianID dealershipID)"

definition HasFutureActiveTechnicianAppointments :: "db \<Rightarrow> uuid \<Rightarrow> gotime \<Rightarrow> bool" where
  "HasFutureActiveTechnicianAppointments d technicianID now \<longleftrightarrow>
     list_ex (\<lambda>a. ap_technician_id a = technicianID \<and> ap_deleted_at a = None \<and> ap_active a
       \<and> ap_ends_at a > to_pg now) (appointments d)"

text \<open>A technician belongs to a dealership through its user.\<close>

definition technician_in_dealership :: "db \<Rightarrow> uuid \<Rightarrow> uuid \<Rightarrow> bool" where
  "technician_in_dealership d technicianID dealershipID \<longleftrightarrow>
     list_ex (\<lambda>t. te_id t = technicianID \<and> te_deleted_at t = None
       \<and> list_ex (\<lambda>u. us_id u = te_user_id t \<and> us_dealership_id u = dealershipID
           \<and> us_deleted_at u = None) (users d)) (technicians d)"

section \<open>Time off\<close>

definition HasActiveAppointmentOverlap :: "db \<Rightarrow> uuid \<Rightarrow> pgtime \<Rightarrow> pgtime \<Rightarrow> bool" where
  "HasActiveAppointmentOverlap d technicianID startsAt endsAt \<longleftrightarrow>
     list_ex (\<lambda>a. ap_technician_id a = technicianID \<and> ap_deleted_at a = None \<and> ap_active a
       \<and> ap_starts_at a < endsAt \<and> ap_ends_at a > startsAt) (appointments d)"

text \<open>The lock serialises the sections it protects; the body runs in a transaction that is
  committed once, without retry, and rolled back on an error. The faults of the driver are a
  parameter.\<close>

definition withTechnicianScheduleLock ::
  "tx_faults \<Rightarrow> (db, go_error, unit) action \<Rightarrow> (db, go_error, unit) action" where
  "withTechnicianScheduleLock env write d =
     (case begin_error env of
        Some err \<Rightarrow> (Inl err, d)
      | None \<Rightarrow>
        (case statement_fault env of
           FaultFirst err \<Rightarrow> (Inl err, d)
         | fault \<Rightarrow>
           (case write d of
              (Inl err, _) \<Rightarrow> (Inl err, d)
            | (Inr _, d') \<Rightarrow>
                (case fault of
                   FaultLast err \<Rightarrow> (Inl err, d)
                 | _ \<Rightarrow>
                   (case commit_outcome env of
                      Committed \<Rightarrow> (Inr (), d')
                    | CommitFailed err \<Rightarrow> (Inl err, d)
                    | CommitLost err \<Rightarrow> (Inl err, d'))))))"

definition time_off_row_of :: "TechnicianTimeOff \<Rightarrow> time_off_row" where
  "time_off_row_of item =
     \<lparr>off_id = to_id item, off_technician_id = to_technicianID item,
      off_starts_at = to_pg (to_startsAt item), off_ends_at = to_pg (to_endsAt item),
      off_reason = to_reason item, off_created_by_user_id = to_createdByUserID item,
      off_created_at = to_pg (to_createdAt item), off_deleted_at = None,
      off_updated_at = to_pg (to_updatedAt item)\<rparr>"

definition CreateTechnicianTimeOff_sql :: "TechnicianTimeOff \<Rightarrow> db \<Rightarrow> go_error + db" where
  "CreateTechnicianTimeOff_sql item = insert_time_off (time_off_row_of item)"

definition time_off_key :: "uuid \<Rightarrow> uuid \<Rightarrow> time_off_row \<Rightarrow> bool" where
  "time_off_key timeOffID technicianID t \<longleftrightarrow>
     off_id t = timeOffID \<and> off_technician_id t = technicianID \<and> off_deleted_at t = None"

definition UpdateTechnicianTimeOff_sql :: "TechnicianTimeOff \<Rightarrow> db \<Rightarrow> (nat \<times> db) result" where
  "UpdateTechnicianTimeOff_sql item d =
     rbind (update_time_offs (time_off_key (to_id item) (to_technicianID item))
        (\<lambda>t. t\<lparr>off_starts_at := to_pg (to_startsAt item), off_ends_at := to_pg (to_endsAt item),
              off_reason := to_reason item, off_updated_at := to_pg (to_updatedAt item)\<rparr>) d)
       (\<lambda>d'. Inr (count_where (time_off_key (to_id item) (to_technicianID item)) (time_offs d), d'))"

definition DeleteTechnicianTimeOff_sql :: "gotime \<Rightarrow> uuid \<Rightarrow> uuid \<Rightarrow> db \<Rightarrow> (nat \<times> db) result" where
  "DeleteTechnicianTimeOff_sql now timeOffID technicianID d =
     rbind (update_time_offs (time_off_key timeOffID technicianID)
        (\<lambda>t. t\<lparr>off_deleted_at := Some (to_pg now)\<rparr>) d)
       (\<lambda>d'. Inr (count_where (time_off_key timeOffID technicianID) (time_offs d), d'))"

definition technicianTimeOffWriteError :: "go_error \<Rightarrow> go_error" where
  "technicianTimeOffWriteError err =
     (if as_pg err = Some (''23P01'', ''technician_time_off_no_overlap'')
      then AppPeopleErr ErrTechnicianTimeOffOverlaps else err)"

definition create_time_off_write :: "TechnicianTimeOff \<Rightarrow> (db, go_error, unit) action" where
  "create_time_off_write item d =
     (if HasActiveAppointmentOverlap d (to_technicianID item)
           (to_pg (to_startsAt item)) (to_pg (to_endsAt item))
      then (Inl (AppPeopleErr ErrTechnicianTimeOffAppointmentConflict), d)
      else on_err technicianTimeOffWriteError (exec (CreateTechnicianTimeOff_sql item)) d)"

definition CreateTechnicianTimeOff_repo ::
  "tx_faults \<Rightarrow> TechnicianTimeOff \<Rightarrow> (db, go_error, unit) action" where
  "CreateTechnicianTimeOff_repo env item = withTechnicianScheduleLock env (create_time_off_write item)"

definition update_time_off_write :: "TechnicianTimeOff \<Rightarrow> (db, go_error, unit) action" where
  "update_time_off_write item d =
     (if HasActiveAppointmentOverlap d (to_technicianID item)
           (to_pg (to_startsAt item)) (to_pg (to_endsAt item))
      then (Inl (AppPeopleErr ErrTechnicianTimeOffAppointmentConflict), d)
      else case UpdateTechnicianTimeOff_sql item d of
        Inl err \<Rightarrow> (Inl (technicianTimeOffWriteError err), d)
      | Inr (rows, d') \<Rightarrow>
          if rows = 0 then (Inl (AppPeopleErr ErrTechnicianTimeOffNotFound), d') else (Inr (), d'))"

definition UpdateTechnicianTimeOff_repo ::
  "tx_faults \<Rightarrow> TechnicianTimeOff \<Rightarrow> (db, go_error, unit) action" where
  "UpdateTechnicianTimeOff_repo env item = withTechnicianScheduleLock env (update_time_off_write item)"

definition DeleteTechnicianTimeOff_repo ::
  "uuid \<Rightarrow> uuid \<Rightarrow> gotime \<Rightarrow> (db, go_error, unit) action" where
  "DeleteTechnicianTimeOff_repo technicianID timeOffID now d =
     (case DeleteTechnicianTimeOff_sql now timeOffID technicianID d of
        Inl err \<Rightarrow> (Inl err, d)
      | Inr (rows, d') \<Rightarrow>
          if rows = 0 then (Inl (AppPeopleErr ErrTechnicianTimeOffNotFound), d') else (Inr (), d'))"

definition technicianTimeOffFromValues :: "time_off_row option \<Rightarrow> TechnicianTimeOff result" where
  "technicianTimeOffFromValues row =
     (case row of
        None \<Rightarrow> Inl (AppPeopleErr ErrTechnicianTimeOffNotFound)
      | Some t \<Rightarrow> RehydrateTechnicianTimeOff (off_id t) (off_technician_id t)
          (off_created_by_user_id t) (from_pg (off_starts_at t)) (from_pg (off_ends_at t))
          (off_reason t) (from_pg (off_created_at t)) (from_pg (off_updated_at t)))"

definition GetTechnicianTimeOff_repo :: "db \<Rightarrow> uuid \<Rightarrow> uuid \<Rightarrow> TechnicianTimeOff result" where
  "GetTechnicianTimeOff_repo d technicianID timeOffID =
     technicianTimeOffFromValues (find_row (time_off_key timeOffID technicianID) (time_offs d))"

section \<open>Shifts\<close>

definition shift_row_of :: "TechnicianShift \<Rightarrow> shift_row" where
  "shift_row_of s =
     \<lparr>shf_id = sh_id s, shf_technician_id = sh_technicianID s,
      shf_day_of_week = to_int16 (sh_dayOfWeek s), shf_starts_at = toPGTime (sh_startsAt s),
      shf_ends_at = toPGTime (sh_endsAt s), shf_created_at = to_pg (sh_createdAt s),
      shf_deleted_at = None, shf_updated_at = to_pg (sh_updatedAt s)\<rparr>"

definition technicianShiftWriteError :: "go_error \<Rightarrow> go_error" where
  "technicianShiftWriteError err =
     (if as_pg err = Some (''23P01'', ''technician_shifts_no_overlap'')
      then AppPeopleErr ErrTechnicianShiftOverlaps else err)"

definition CreateTechnicianShift_repo :: "TechnicianShift \<Rightarrow> (db, go_error, unit) action" where
  "CreateTechnicianShift_repo s = on_err technicianShiftWriteError (exec (insert_shift (shift_row_of s)))"

definition shift_key :: "db \<Rightarrow> uuid \<Rightarrow> uuid \<Rightarrow> uuid \<Rightarrow> shift_row \<Rightarrow> bool" where
  "shift_key d shiftID technicianID dealershipID s \<longleftrightarrow>
     shf_id s = shiftID \<and> shf_technician_id s = technicianID \<and> shf_deleted_at s = None
     \<and> technician_in_dealership d (shf_technician_id s) dealershipID"

definition technicianShiftFromRow :: "shift_row option \<Rightarrow> TechnicianShift result" where
  "technicianShiftFromRow row =
     (case row of
        None \<Rightarrow> Inl (AppPeopleErr ErrTechnicianShiftNotFound)
      | Some s \<Rightarrow> RehydrateTechnicianShift (shf_id s) (shf_technician_id s) (shf_day_of_week s)
          (fromPGTime (shf_starts_at s)) (fromPGTime (shf_ends_at s))
          (from_pg (shf_created_at s)) (from_pg (shf_updated_at s)))"

definition GetTechnicianShift_repo :: "db \<Rightarrow> uuid \<Rightarrow> uuid \<Rightarrow> uuid \<Rightarrow> TechnicianShift result" where
  "GetTechnicianShift_repo d dealershipID technicianID shiftID =
     technicianShiftFromRow (find_row (shift_key d shiftID technicianID dealershipID) (shifts d))"

definition UpdateTechnicianShift_repo ::
  "uuid \<Rightarrow> TechnicianShift \<Rightarrow> (db, go_error, unit) action" where
  "UpdateTechnicianShift_repo dealershipID s d =
     (let key = shift_key d (sh_id s) (sh_technicianID s) dealershipID in
      case update_shifts key
        (\<lambda>r. r\<lparr>shf_day_of_week := to_int16 (sh_dayOfWeek s), shf_starts_at := toPGTime (sh_startsAt s),
              shf_ends_at := toPGTime (sh_endsAt s), shf_updated_at := to_pg (sh_updatedAt s)\<rparr>) d of
        Inl err \<Rightarrow> (Inl (technicianShiftWriteError err), d)
      | Inr d' \<Rightarrow>
          if count_where key (shifts d) = 0
          then (Inl (AppPeopleErr ErrTechnicianShiftNotFound), d') else (Inr (), d'))"

definition DeleteTechnicianShift_repo ::
  "uuid \<Rightarrow> uuid \<Rightarrow> uuid \<Rightarrow> gotime \<Rightarrow> (db, go_error, unit) action" where
  "DeleteTechnicianShift_repo dealershipID technicianID shiftID now d =
     (let key = shift_key d shiftID technicianID dealershipID in
      case update_shifts key
        (\<lambda>r. r\<lparr>shf_deleted_at := Some (to_pg now), shf_updated_at := to_pg now\<rparr>) d of
        Inl err \<Rightarrow> (Inl err, d)
      | Inr d' \<Rightarrow>
          if count_where key (shifts d) = 0
          then (Inl (AppPeopleErr ErrTechnicianShiftNotFound), d') else (Inr (), d'))"

text \<open>Whether \<open>[s, e)\<close> lies in the weekly interval \<open>day\<close>, \<open>from\<close> to \<open>to\<close> of the zone.\<close>

definition within_weekly :: "zone_db \<Rightarrow> string \<Rightarrow> pgtime \<Rightarrow> pgtime \<Rightarrow> int \<Rightarrow> int \<Rightarrow> int \<Rightarrow> bool" where
  "within_weekly zone tz s e day from_us to_us \<longleftrightarrow>
     day = isodow (zone tz s) \<and> local_time (zone tz s) \<ge> from_us
     \<and> local_time (zone tz e) \<le> to_us \<and> local_date (zone tz s) = local_date (zone tz e)"

text \<open>The rows \<open>HasFutureAppointmentsOutsideTechnicianShift\<close> asks for, given what the column
  \<open>users.timezone\<close> would hold.\<close>

definition outside_shift_rows ::
  "zone_db \<Rightarrow> (user_row \<Rightarrow> string) \<Rightarrow> db \<Rightarrow> uuid \<Rightarrow> gotime \<Rightarrow> uuid \<Rightarrow> TechnicianShift \<Rightarrow> bool" where
  "outside_shift_rows zone timezone d technicianID now excludedShiftID candidate \<longleftrightarrow>
     list_ex (\<lambda>a. list_ex (\<lambda>t. list_ex (\<lambda>u.
         te_id t = ap_technician_id a \<and> us_id u = te_user_id t
         \<and> ap_technician_id a = technicianID \<and> ap_deleted_at a = None \<and> ap_active a
         \<and> ap_ends_at a > to_pg now
         \<and> \<not> (list_ex (\<lambda>s. shf_technician_id s = ap_technician_id a \<and> shf_deleted_at s = None
                  \<and> shf_id s \<noteq> excludedShiftID
                  \<and> within_weekly zone (timezone u) (ap_starts_at a) (ap_ends_at a)
                      (shf_day_of_week s) (shf_starts_at s) (shf_ends_at s)) (shifts d)
              \<or> within_weekly zone (timezone u) (ap_starts_at a) (ap_ends_at a)
                  (to_int16 (sh_dayOfWeek candidate)) (toPGTime (sh_startsAt candidate))
                  (toPGTime (sh_endsAt candidate))))
       (users d)) (technicians d)) (appointments d)"

text \<open>The columns of the table users, and those the statement reads. No migration creates
  \<open>users.timezone\<close> (the time zone is a column of dealerships), so PostgreSQL rejects the
  statement when it analyses it, whatever the tables hold.\<close>

definition users_columns :: "string list" where
  "users_columns = [''user_id'', ''auth_user_id'', ''name'', ''phone'', ''email'', ''dealership_id'',
     ''is_active'', ''created_at'', ''deleted_at'', ''updated_at'']"

definition outside_shift_users_columns :: "string list" where
  "outside_shift_users_columns = [''user_id'', ''timezone'']"

definition HasFutureAppointmentsOutsideTechnicianShift ::
  "zone_db \<Rightarrow> (user_row \<Rightarrow> string) \<Rightarrow> db \<Rightarrow> uuid \<Rightarrow> TechnicianShift \<Rightarrow> uuid \<Rightarrow> gotime \<Rightarrow> bool result" where
  "HasFutureAppointmentsOutsideTechnicianShift zone timezone d technicianID candidate excludedShiftID now =
     (if set outside_shift_users_columns \<subseteq> set users_columns
      then Inr (outside_shift_rows zone timezone d technicianID now excludedShiftID candidate)
      else Inl undefined_column)"

lemma outside_shift_fails:
  "HasFutureAppointmentsOutsideTechnicianShift zone tz d t c e now = Inl undefined_column"
  by (simp add: HasFutureAppointmentsOutsideTechnicianShift_def outside_shift_users_columns_def
      users_columns_def)

section \<open>What the writes did\<close>

lemma withTechnicianScheduleLock_cases:
  "withTechnicianScheduleLock env write d = (r, d') \<Longrightarrow>
     (d' = d \<and> (\<exists>e. r = Inl e)) \<or> (\<exists>u. write d = (Inr u, d'))"
  by (auto simp: withTechnicianScheduleLock_def
      split: option.splits statement_fault.splits prod.splits sum.splits commit_outcome.splits)

lemma withTechnicianScheduleLock_no_faults:
  "withTechnicianScheduleLock no_faults write d =
     (case write d of (Inl e, _) \<Rightarrow> (Inl e, d) | (Inr _, d') \<Rightarrow> (Inr (), d'))"
  by (simp add: withTechnicianScheduleLock_def no_faults_def split: prod.split sum.split)

lemma create_time_off_write_ok:
  "create_time_off_write item d = (Inr u, d') \<longleftrightarrow>
     \<not> HasActiveAppointmentOverlap d (to_technicianID item)
         (to_pg (to_startsAt item)) (to_pg (to_endsAt item))
     \<and> insert_time_off (time_off_row_of item) d = Inr d'"
  by (simp add: create_time_off_write_def ok_iff CreateTechnicianTimeOff_sql_def)

lemma update_time_off_write_ok:
  "update_time_off_write item d = (Inr u, d') \<longleftrightarrow>
     \<not> HasActiveAppointmentOverlap d (to_technicianID item)
         (to_pg (to_startsAt item)) (to_pg (to_endsAt item))
     \<and> count_where (time_off_key (to_id item) (to_technicianID item)) (time_offs d) \<noteq> 0
     \<and> update_time_offs (time_off_key (to_id item) (to_technicianID item))
        (\<lambda>t. t\<lparr>off_starts_at := to_pg (to_startsAt item), off_ends_at := to_pg (to_endsAt item),
              off_reason := to_reason item, off_updated_at := to_pg (to_updatedAt item)\<rparr>) d = Inr d'"
  by (auto simp: update_time_off_write_def UpdateTechnicianTimeOff_sql_def rbind_def
      split: sum.splits if_splits)

lemma DeleteTechnicianTimeOff_repo_cases:
  "DeleteTechnicianTimeOff_repo technicianID timeOffID now d = (r, d') \<Longrightarrow>
     d' = d \<or> update_time_offs (time_off_key timeOffID technicianID)
        (\<lambda>t. t\<lparr>off_deleted_at := Some (to_pg now)\<rparr>) d = Inr d'"
  by (auto simp: DeleteTechnicianTimeOff_repo_def DeleteTechnicianTimeOff_sql_def rbind_def
      split: sum.splits if_splits)

end
