(* ===== verification/Booking.thy ===== *)
theory Booking
  imports Appointment_Repository Schedule_Repository
begin

text \<open>
  The booking system as a transition system on the database, and its invariants.

  A step is one committed statement or transaction: a schedule, a transition a request
  handler asks for, a write of time off, or anything that leaves the four booking tables
  alone. The invariants: no resource is booked twice, the reservation ledger holds exactly
  the resources of the active appointments, no active appointment falls into time off, every
  row is a well-formed aggregate, and the audit trail of an appointment is a run of its
  lifecycle that ends in its current status.

  Each invariant is proved kept by each kind of step (\<open>*_keeps_*\<close>); \<open>booking_reachable\<close> collects
  them by rule induction.
\<close>

section \<open>Abstraction to the aggregate\<close>

definition utc :: "pgtime \<Rightarrow> gotime" where
  "utc p = time_UTC (from_pg p)"

lemma instant_utc [simp]: "instant (utc p) = p * 1000"
  by (simp add: utc_def)

lemma loc_utc [simp]: "loc (utc p) = Loc_UTC"
  by (simp add: utc_def)

text \<open>The aggregate a row stands for. The domain stamps \<open>completedAt\<close> with the end of the work,
  the statement with the time of the request: the aggregate's value is taken from
  \<open>actual_ends_at\<close>.\<close>

definition abs_appointment :: "appointment_row \<Rightarrow> Appointment" where
  "abs_appointment a =
     \<lparr>a_id = ap_id a, a_status = ap_status a, a_startsAt = utc (ap_starts_at a),
      a_endsAt = utc (ap_ends_at a), a_checkedInAt = map_option utc (ap_checked_in_at a),
      a_inProgressAt = map_option utc (ap_in_progress_at a),
      a_completedAt = map_option utc (ap_actual_ends_at a),
      a_actualEndsAt = map_option utc (ap_actual_ends_at a),
      a_cancelledAt = map_option utc (ap_cancelled_at a),
      a_cancellationReason = ap_cancellation_reason a\<rparr>"

text \<open>The domain event a transition of the repository stands for.\<close>

definition event_of :: "AppointmentTransition \<Rightarrow> gotime option \<Rightarrow> appointment_event" where
  "event_of tr actualEndsAt =
     (let now = utc (to_pg (tr_OccurredAt tr)) in
      case tr_To tr of
        AppointmentCheckedIn \<Rightarrow> EvCheckIn now
      | AppointmentInProgress \<Rightarrow> EvStart now
      | AppointmentCompleted \<Rightarrow> EvComplete (utc (to_pg (the actualEndsAt)))
      | _ \<Rightarrow> EvCancel (case tr_CancellationReason tr of None \<Rightarrow> [] | Some r \<Rightarrow> r) now)"

text \<open>The transitions the four request handlers ask for, after the service's checks.\<close>

definition issued_transition :: "AppointmentTransition \<Rightarrow> bool" where
  "issued_transition tr \<longleftrightarrow>
     (tr_From tr, tr_To tr) \<in> {(AppointmentRequested, AppointmentCheckedIn),
        (AppointmentCheckedIn, AppointmentInProgress), (AppointmentInProgress, AppointmentCompleted),
        (NoStatus, AppointmentCancelled)}
     \<and> (tr_To tr = AppointmentCancelled \<longrightarrow>
          tr_CancellationReason tr \<noteq> None \<and> tr_CancellationReason tr \<noteq> Some [])"

lemma effect_row:
  "transition_effect e tr d d' a actual notes \<Longrightarrow>
   a \<in> set (appointments d) \<and> ap_id a = tr_AppointmentID tr \<and> ap_dealership_id a = tr_DealershipID tr
     \<and> ap_deleted_at a = None"
  unfolding transition_effect_def by (auto dest: find_row_Some)

lemma effect_facts:
  "transition_effect e tr d d' a actual notes \<Longrightarrow>
   (tr_From tr = NoStatus \<or> ap_status a = tr_From tr) \<and> transition_target (tr_To tr)
     \<and> (tr_To tr \<noteq> AppointmentCancelled \<or> active_status (ap_status a))"
  unfolding transition_effect_def by (elim conjE, intro conjI)

lemma issued_edge:
  "issued_transition tr \<Longrightarrow> tr_From tr = NoStatus \<or> s = tr_From tr \<Longrightarrow>
   tr_To tr \<noteq> AppointmentCancelled \<or> active_status s \<Longrightarrow> lifecycle_edge s (tr_To tr)"
  by (auto simp: issued_transition_def lifecycle_edge_def NoStatus_def active_cases)

lemma effect_edge:
  "issued_transition tr \<Longrightarrow> transition_effect e tr d d' a actual notes \<Longrightarrow>
   lifecycle_edge (ap_status a) (tr_To tr)"
  using effect_facts issued_edge by blast

lemma transitioned_frame [simp]:
  "ap_id (transitioned tr x n a) = ap_id a"
  "ap_reference_code (transitioned tr x n a) = ap_reference_code a"
  "ap_technician_id (transitioned tr x n a) = ap_technician_id a"
  "ap_service_bay_id (transitioned tr x n a) = ap_service_bay_id a"
  "ap_dealership_id (transitioned tr x n a) = ap_dealership_id a"
  "ap_starts_at (transitioned tr x n a) = ap_starts_at a"
  "ap_ends_at (transitioned tr x n a) = ap_ends_at a"
  "ap_deleted_at (transitioned tr x n a) = ap_deleted_at a"
  by (simp_all add: transitioned_def Let_def split: AppointmentStatus.split)

lemma transitioned_status: "transition_target (tr_To tr) \<Longrightarrow> ap_status (transitioned tr x n a) = tr_To tr"
  by (cases "tr_To tr") (simp_all add: transitioned_def Let_def)

lemma effect_status:
  "transition_effect e tr d d' a actual notes \<Longrightarrow> ap_status (transitioned tr actual notes a) = tr_To tr"
  unfolding transition_effect_def by (simp add: transitioned_status)

section \<open>The invariants\<close>

text \<open>No technician and no bay is booked twice.\<close>

definition booking_ok :: "db \<Rightarrow> bool" where
  "booking_ok d \<longleftrightarrow>
     distinct (map ap_id (appointments d))
     \<and> conflict_free technician_clash (appointments d)
     \<and> conflict_free service_bay_clash (appointments d)
     \<and> list_all (\<lambda>a. ap_deleted_at a = None) (appointments d)"

text \<open>What a reservation holds, and what an appointment should hold.\<close>

definition holding :: "reservation_row \<Rightarrow> resource_type \<times> uuid \<times> pgtime \<times> pgtime" where
  "holding r = (rv_resource_type r, rv_resource_id r, rv_reserved_starts_at r, rv_reserved_ends_at r)"

definition held :: "db \<Rightarrow> uuid \<Rightarrow> (resource_type \<times> uuid \<times> pgtime \<times> pgtime) list" where
  "held d i = map holding
     (filter (\<lambda>r. rv_appointment_id r = i \<and> rv_released_at r = None) (reservations d))"

definition claims :: "appointment_row \<Rightarrow> (resource_type \<times> uuid \<times> pgtime \<times> pgtime) list" where
  "claims a = (if ap_active a
     then [(ResTechnician, ap_technician_id a, ap_starts_at a, ap_ends_at a),
           (ResServiceBay, ap_service_bay_id a, ap_starts_at a, ap_ends_at a)]
     else [])"

definition ledger_ok :: "db \<Rightarrow> bool" where
  "ledger_ok d \<longleftrightarrow>
     list_all (\<lambda>a. held d (ap_id a) = claims a) (appointments d)
     \<and> list_all (\<lambda>r. rv_appointment_id r \<in> set (map ap_id (appointments d))) (reservations d)"

definition off_ok :: "db \<Rightarrow> bool" where
  "off_ok d \<longleftrightarrow>
     list_all (\<lambda>a. ap_active a \<longrightarrow>
        list_all (\<lambda>t. \<not> off_during t (ap_technician_id a) (ap_starts_at a) (ap_ends_at a)) (time_offs d))
       (appointments d)"

definition rows_ok :: "db \<Rightarrow> bool" where
  "rows_ok d \<longleftrightarrow> list_all (\<lambda>a. appointment_wf (abs_appointment a)) (appointments d)"

text \<open>The status an audit payload records, and the events of one appointment.\<close>

definition json_status :: "json option \<Rightarrow> AppointmentStatus option" where
  "json_status j = (case j of None \<Rightarrow> None
     | Some kvs \<Rightarrow> (case map_of kvs ''status'' of
         Some (JString s) \<Rightarrow> Some (status_of_string s) | _ \<Rightarrow> None))"

definition trail :: "db \<Rightarrow> uuid \<Rightarrow> audit_row list" where
  "trail d i = filter (\<lambda>e. au_appointment_id e = i) (audits d)"

text \<open>The events replay a lifecycle from \<open>s\<close> to \<open>t\<close>.\<close>

fun replays :: "AppointmentStatus \<Rightarrow> audit_row list \<Rightarrow> AppointmentStatus \<Rightarrow> bool" where
  "replays s [] t = (s = t)"
| "replays s (e # es) t =
     (au_event_type e = ''status_changed'' \<and> json_status (au_before_data e) = Some s
      \<and> (case json_status (au_after_data e) of None \<Rightarrow> False
         | Some u \<Rightarrow> lifecycle_edge s u \<and> replays u es t))"

definition trail_ok :: "audit_row list \<Rightarrow> AppointmentStatus \<Rightarrow> bool" where
  "trail_ok es t = (case es of [] \<Rightarrow> False
     | e # es \<Rightarrow> au_event_type e = ''created'' \<and> json_status (au_after_data e) = Some AppointmentRequested
         \<and> replays AppointmentRequested es t)"

definition audit_ok :: "db \<Rightarrow> bool" where
  "audit_ok d \<longleftrightarrow>
     list_all (\<lambda>a. trail_ok (trail d (ap_id a)) (ap_status a)) (appointments d)
     \<and> list_all (\<lambda>e. au_appointment_id e \<in> set (map ap_id (appointments d))) (audits d)"

definition booking_inv :: "db \<Rightarrow> bool" where
  "booking_inv d \<longleftrightarrow> booking_ok d \<and> ledger_ok d \<and> off_ok d \<and> rows_ok d \<and> audit_ok d"

section \<open>Steps\<close>

definition same_bookings :: "db \<Rightarrow> db \<Rightarrow> bool" where
  "same_bookings d d' \<longleftrightarrow> appointments d' = appointments d \<and> reservations d' = reservations d
     \<and> audits d' = audits d \<and> time_offs d' = time_offs d"

inductive booking_step :: "zone_db \<Rightarrow> db \<Rightarrow> db \<Rightarrow> bool" for zone where
  step_schedule:
    "ScheduleAppointment_tx zone ids (r, d) = (Inr (), (r', d')) \<Longrightarrow>
     sar_AppointmentID r \<noteq> uuid_Nil \<Longrightarrow> booking_step zone d d'"
| step_transition:
    "transition_body auditEvent tr d = Inr d' \<Longrightarrow> issued_transition tr \<Longrightarrow> booking_step zone d d'"
| step_create_time_off:
    "create_time_off_write item d = (Inr (), d') \<Longrightarrow> booking_step zone d d'"
| step_update_time_off:
    "update_time_off_write item d = (Inr (), d') \<Longrightarrow> booking_step zone d d'"
| step_delete_time_off:
    "DeleteTechnicianTimeOff_repo technicianID timeOffID now d = (res, d') \<Longrightarrow> booking_step zone d d'"
| step_other:
    "same_bookings d d' \<Longrightarrow> booking_step zone d d'"

inductive_cases booking_stepE: "booking_step zone d d'"

definition fresh_db :: "db \<Rightarrow> bool" where
  "fresh_db d \<longleftrightarrow> appointments d = [] \<and> reservations d = [] \<and> audits d = []"

inductive booking_reachable :: "zone_db \<Rightarrow> db \<Rightarrow> bool" for zone where
  reachable_fresh: "fresh_db d \<Longrightarrow> booking_reachable zone d"
| reachable_step: "booking_reachable zone d \<Longrightarrow> booking_step zone d d' \<Longrightarrow> booking_reachable zone d'"

lemma fresh_inv: "fresh_db d \<Longrightarrow> booking_inv d"
  by (simp add: fresh_db_def booking_inv_def booking_ok_def ledger_ok_def off_ok_def rows_ok_def
      audit_ok_def)

section \<open>Scheduling keeps the invariants\<close>

lemma scheduled_row_fields [simp]:
  "ap_id (scheduled_row r) = sar_AppointmentID r"
  "ap_technician_id (scheduled_row r) = sar_TechnicianID r"
  "ap_service_bay_id (scheduled_row r) = sar_ServiceBayID r"
  "ap_dealership_id (scheduled_row r) = sar_DealershipID r"
  "ap_starts_at (scheduled_row r) = to_pg (sar_StartsAt r)"
  "ap_ends_at (scheduled_row r) = to_pg (sar_EndsAt r)"
  "ap_status (scheduled_row r) = AppointmentRequested"
  "ap_deleted_at (scheduled_row r) = None"
  by (simp_all add: scheduled_row_def)

lemma insert_appointment_new:
  assumes "insert_appointment a d = Inr d'"
  shows "ap_id a \<notin> set (map ap_id (appointments d))"
    and "\<not> list_ex (technician_clash a) (appointments d)"
    and "\<not> list_ex (service_bay_clash a) (appointments d)"
    and "\<not> reject_appointment_during_time_off d a"
    and "ap_starts_at a < ap_ends_at a"
  using assms unfolding insert_appointment_ok
  by (auto simp: appointment_row_checks_def list_ex_iff same_key_def)

lemma schedule_keeps_booking:
  assumes "booking_ok d" and "schedule_writes ids r d = Inr d'"
  shows "booking_ok d'"
proof -
  obtain d1 where new: "insert_appointment (scheduled_row r) d = Inr d1"
    using schedule_writes_booked(2) [OF assms(2)] by blast
  have "appointments d' = appointments d @ [scheduled_row r]"
    using schedule_writes_booked(1) [OF assms(2)] by (simp add: booked_def split: prod.split)
  then show ?thesis
    using assms(1) insert_appointment_new [OF new]
    by (simp add: booking_ok_def ap_technician.insert_iff ap_bay.insert_iff)
qed

lemma booked_tables:
  assumes "schedule_writes (i1, i2, i3) r d = Inr d'"
  shows "appointments d' = appointments d @ [scheduled_row r]"
    and "reservations d' = reservations d
         @ [reservation_of r ResTechnician (sar_TechnicianID r) i1,
            reservation_of r ResServiceBay (sar_ServiceBayID r) i2]"
    and "audits d' = audits d @ [created_audit r i3]"
    and "time_offs d' = time_offs d"
  using schedule_writes_booked(1) [OF assms] by (simp_all add: booked_def)

lemma schedule_keeps_ledger:
  assumes "ledger_ok d" and "schedule_writes (i1, i2, i3) r d = Inr d'"
  shows "ledger_ok d'"
proof -
  obtain d1 where new: "insert_appointment (scheduled_row r) d = Inr d1"
    using schedule_writes_booked(2) [OF assms(2)] by blast
  have fresh: "sar_AppointmentID r \<notin> set (map ap_id (appointments d))"
    using insert_appointment_new(1) [OF new] by simp
  then have none: "filter (\<lambda>x. rv_appointment_id x = sar_AppointmentID r \<and> rv_released_at x = None)
      (reservations d) = []"
    using assms(1) unfolding ledger_ok_def list_all_iff filter_empty_conv by metis
  have "held d' i = held d i" if "i \<noteq> sar_AppointmentID r" for i
    using that by (simp add: held_def booked_tables(2) [OF assms(2)] reservation_of_def)
  moreover have "held d' (sar_AppointmentID r) = claims (scheduled_row r)"
    using none by (simp add: held_def booked_tables(2) [OF assms(2)] reservation_of_def claims_def
        holding_def ap_active_def)
  moreover have "ap_id a \<noteq> sar_AppointmentID r" if "a \<in> set (appointments d)" for a
    using imageI [OF that, of ap_id] fresh by auto
  ultimately show ?thesis
    using assms(1)
    by (auto simp: ledger_ok_def booked_tables [OF assms(2)] list_all_iff reservation_of_def)
qed

lemma schedule_keeps_off:
  assumes "off_ok d" and "schedule_writes (i1, i2, i3) r d = Inr d'"
  shows "off_ok d'"
proof -
  obtain d1 where new: "insert_appointment (scheduled_row r) d = Inr d1"
    using schedule_writes_booked(2) [OF assms(2)] by blast
  show ?thesis
    using assms(1) insert_appointment_new(4) [OF new]
    by (simp add: off_ok_def booked_tables [OF assms(2)] reject_appointment_during_time_off_def
        ap_active_def list_all_iff list_ex_iff)
qed

lemma schedule_keeps_rows:
  assumes "rows_ok d" and "schedule_writes (i1, i2, i3) r d = Inr d'"
    and "sar_AppointmentID r \<noteq> uuid_Nil"
  shows "rows_ok d'"
proof -
  obtain d1 where new: "insert_appointment (scheduled_row r) d = Inr d1"
    using schedule_writes_booked(2) [OF assms(2)] by blast
  have "appointment_wf (abs_appointment (scheduled_row r))"
    using assms(3) insert_appointment_new(5) [OF new]
    by (simp add: appointment_wf_def abs_appointment_def timestamps_ok_def scheduled_row_def
        time_Before_def)
  then show ?thesis using assms(1) by (simp add: rows_ok_def booked_tables(1) [OF assms(2)])
qed

lemma schedule_keeps_audit:
  assumes "audit_ok d" and "schedule_writes (i1, i2, i3) r d = Inr d'"
  shows "audit_ok d'"
proof -
  obtain d1 where new: "insert_appointment (scheduled_row r) d = Inr d1"
    using schedule_writes_booked(2) [OF assms(2)] by blast
  have fresh: "sar_AppointmentID r \<notin> set (map ap_id (appointments d))"
    using insert_appointment_new(1) [OF new] by simp
  then have none: "trail d (sar_AppointmentID r) = []"
    using assms(1) unfolding audit_ok_def trail_def list_all_iff filter_empty_conv by metis
  have "trail d' i = trail d i" if "i \<noteq> sar_AppointmentID r" for i
    using that by (simp add: trail_def booked_tables(3) [OF assms(2)] created_audit_def audit_of_def)
  moreover have "trail_ok (trail d' (sar_AppointmentID r)) AppointmentRequested"
    using none by (simp add: trail_def booked_tables(3) [OF assms(2)] created_audit_def audit_of_def
        trail_ok_def json_status_def status_of_string_def)
  moreover have "ap_id a \<noteq> sar_AppointmentID r" if "a \<in> set (appointments d)" for a
    using imageI [OF that, of ap_id] fresh by auto
  ultimately show ?thesis
    using assms(1)
    by (auto simp: audit_ok_def booked_tables [OF assms(2)] list_all_iff created_audit_def audit_of_def)
qed

section \<open>Transitions keep the invariants\<close>

lemma effect_tables:
  assumes "transition_effect e tr d d' a actual notes"
  shows "appointments d' = update_where (\<lambda>a. ap_id a = tr_AppointmentID tr)
           (transitioned tr actual notes) (appointments d)"
    and "reservations d' = released tr (reservations d)"
    and "audits d' = audits d @ [changed_audit tr actual notes a e]"
    and "time_offs d' = time_offs d"
  using assms unfolding transition_effect_def by simp_all

lemma effect_unique:
  assumes "booking_ok d" and "transition_effect e tr d d' a actual notes"
    and "x \<in> set (appointments d)" and "ap_id x = tr_AppointmentID tr"
  shows "x = a"
proof -
  have "inj_on ap_id (set (appointments d))"
    using assms(1) by (simp add: booking_ok_def distinct_map)
  then show ?thesis using assms(3,4) effect_row [OF assms(2)] inj_onD by metis
qed

text \<open>A table after the transition: the other rows, and the new row of \<open>a\<close>.\<close>

lemma effect_all:
  assumes "booking_ok d" and "transition_effect e tr d d' a actual notes"
    and "\<And>x. x \<in> set (appointments d) \<Longrightarrow> ap_id x \<noteq> tr_AppointmentID tr \<Longrightarrow> P x"
    and "P (transitioned tr actual notes a)"
  shows "list_all P (appointments d')"
  using assms(3,4) effect_unique [OF assms(1,2)]
  by (auto simp: effect_tables(1) [OF assms(2)] set_update_where list_all_iff)

lemma effect_ids:
  "transition_effect e tr d d' a actual notes \<Longrightarrow>
   map ap_id (appointments d') = map ap_id (appointments d)"
  by (simp add: effect_tables(1) map_update_where)

lemma transition_keeps_booking:
  assumes "booking_ok d" and "transition_effect e tr d d' a actual notes"
  shows "booking_ok d'"
proof -
  have "update_appointments (\<lambda>a. ap_id a = tr_AppointmentID tr) (transitioned tr actual notes) d
      = Inr (d\<lparr>appointments := appointments d'\<rparr>)"
    using assms(2) unfolding effect_tables(1) [OF assms(2)] transition_effect_def by (elim conjE)
  then have "conflict_free technician_clash (appointments d')"
      "conflict_free service_bay_clash (appointments d')"
    unfolding update_appointments_ok effect_tables(1) [OF assms(2)] by simp_all
  moreover have "list_all (\<lambda>a. ap_deleted_at a = None) (appointments d')"
    using assms(1) effect_row [OF assms(2)]
    by (intro effect_all [OF assms]) (auto simp: booking_ok_def list_all_iff)
  ultimately show ?thesis
    using assms(1) by (simp add: booking_ok_def effect_ids [OF assms(2)])
qed

lemma filter_released:
  "filter (\<lambda>r. rv_appointment_id r = i \<and> rv_released_at r = None)
     (update_where (\<lambda>r. rv_appointment_id r = j \<and> rv_released_at r = None)
        (\<lambda>r. r\<lparr>rv_released_at := Some t, rv_status := s\<rparr>) rs)
   = (if i = j then [] else filter (\<lambda>r. rv_appointment_id r = i \<and> rv_released_at r = None) rs)"
  by (induction rs) (auto simp: update_where_def)

lemma held_released:
  assumes "reservations d' = released tr (reservations d)"
  shows "held d' i = (if i = tr_AppointmentID tr
      \<and> (tr_To tr = AppointmentCompleted \<or> tr_To tr = AppointmentCancelled) then [] else held d i)"
  unfolding held_def assms released_def by (simp add: filter_released)

lemma claims_transitioned:
  assumes "lifecycle_edge (ap_status a) (tr_To tr)"
    and "ap_status (transitioned tr actual notes a) = tr_To tr"
  shows "claims (transitioned tr actual notes a) =
    (if tr_To tr = AppointmentCompleted \<or> tr_To tr = AppointmentCancelled then [] else claims a)"
  using assms by (auto simp: claims_def ap_active_def lifecycle_edge_def)

lemma transition_keeps_ledger:
  assumes "booking_ok d" and "ledger_ok d" and "issued_transition tr"
    and eff: "transition_effect e tr d d' a actual notes"
  shows "ledger_ok d'"
proof -
  note held = held_released [OF effect_tables(2) [OF eff]]
  have "a \<in> set (appointments d)" "ap_id a = tr_AppointmentID tr"
    using effect_row [OF eff] by simp_all
  moreover from this have "held d (ap_id a) = claims a"
    using assms(2) unfolding ledger_ok_def list_all_iff by blast
  ultimately have "held d' (ap_id a) = claims (transitioned tr actual notes a)"
    using claims_transitioned [OF effect_edge [OF assms(3) eff] effect_status [OF eff]]
    by (simp add: held)
  then have "list_all (\<lambda>a. held d' (ap_id a) = claims a) (appointments d')"
    using assms(2) by (intro effect_all [OF assms(1) eff]) (auto simp: held ledger_ok_def list_all_iff)
  moreover have "map rv_appointment_id (released tr rs) = map rv_appointment_id rs" for rs
    by (simp add: released_def map_update_where)
  then have "list_all (\<lambda>r. rv_appointment_id r \<in> S) (released tr rs)
      = list_all (\<lambda>r. rv_appointment_id r \<in> S) rs" for S rs
    by (simp only: list.pred_map [of "\<lambda>i. i \<in> S" rv_appointment_id, unfolded comp_def, symmetric])
  ultimately show ?thesis
    using assms(2) by (simp add: ledger_ok_def effect_ids [OF eff] effect_tables(2) [OF eff])
qed

lemma transition_keeps_off:
  assumes "booking_ok d" and "off_ok d" and "issued_transition tr"
    and eff: "transition_effect e tr d d' a actual notes"
  shows "off_ok d'"
proof -
  have "ap_active a" using effect_edge [OF assms(3) eff] lifecycle_edge_active
    by (simp add: ap_active_def)
  then show ?thesis
    using assms(2) effect_row [OF eff] unfolding off_ok_def effect_tables(4) [OF eff]
    by (intro effect_all [OF assms(1) eff]) (auto simp: list_all_iff)
qed

text \<open>The statements implement the aggregate: the row after a transition is the aggregate
  after the domain's operation.\<close>

lemma transition_refines:
  assumes "booking_ok d" and "issued_transition tr"
    and eff: "transition_effect e tr d d' a actual notes"
  shows "apply_event (event_of tr actual) (abs_appointment a)
       = Inr (abs_appointment (transitioned tr actual notes a))"
proof -
  have facts: "tr_From tr = NoStatus \<or> ap_status a = tr_From tr"
      "tr_To tr \<noteq> AppointmentCancelled \<or> active_status (ap_status a)"
    using effect_facts [OF eff] by simp_all
  have actual: "transition_actual_end tr (from_pg (ap_ends_at a)) d = Inr actual"
    using eff unfolding transition_effect_def by (elim conjE)
  have found: "find_row (\<lambda>a. ap_id a = tr_AppointmentID tr) (appointments d) = Some a"
    using assms(1) effect_row [OF eff]
    by (intro find_row_unique [of ap_id]) (auto simp: booking_ok_def)
  consider "tr_From tr = AppointmentRequested" "tr_To tr = AppointmentCheckedIn"
    | "tr_From tr = AppointmentCheckedIn" "tr_To tr = AppointmentInProgress"
    | "tr_From tr = AppointmentInProgress" "tr_To tr = AppointmentCompleted"
    | r where "tr_To tr = AppointmentCancelled" "tr_CancellationReason tr = Some r" "r \<noteq> []"
    using assms(2) unfolding issued_transition_def by auto
  then show ?thesis
  proof cases
    case 3
    define t where "t = (case tr_ActualEndsAt tr of None \<Rightarrow> tr_OccurredAt tr | Some t \<Rightarrow> t)"
    have t: "actual = Some t" and "case map_option from_pg (ap_checked_in_at a) of None \<Rightarrow> False
        | Some c \<Rightarrow> \<not> time_Before t c \<and> \<not> time_After t (from_pg (ap_ends_at a))"
      using actual 3 unfolding t_def [symmetric] transition_actual_end_def GetAppointmentCheckedInAt_def
        found Let_def by (simp_all add: ok_iff)
    then obtain c where c: "ap_checked_in_at a = Some c"
      and range: "c * 1000 \<le> instant t" "instant t \<le> ap_ends_at a * 1000"
      by (auto simp: time_Before_def time_After_def not_less split: option.splits)
    have "c \<le> to_pg t" "to_pg t \<le> ap_ends_at a"
      using range by (simp_all add: to_pg_def)
    then show ?thesis
      using 3 facts(1) c t by (simp add: NoStatus_def event_of_def Let_def Complete_ok abs_appointment_def
          transitioned_def utc_def)
  next
    case 4
    then show ?thesis
      using facts(2) by (simp add: event_of_def Let_def Cancel_ok abs_appointment_def transitioned_def utc_def)
  qed (use facts(1) in \<open>simp_all add: NoStatus_def event_of_def Let_def CheckIn_ok Start_ok
        abs_appointment_def transitioned_def utc_def\<close>)
qed

lemma transition_keeps_rows:
  assumes "booking_ok d" and "rows_ok d" and "issued_transition tr"
    and eff: "transition_effect e tr d d' a actual notes"
  shows "rows_ok d'"
proof -
  have "appointment_wf (abs_appointment a)"
    using assms(2) effect_row [OF eff] by (simp add: rows_ok_def list_all_iff)
  then have "appointment_wf (abs_appointment (transitioned tr actual notes a))"
    using apply_event_wf transition_refines [OF assms(1,3) eff] by blast
  then show ?thesis
    using assms(2) unfolding rows_ok_def
    by (intro effect_all [OF assms(1) eff]) (auto simp: list_all_iff)
qed

lemma replays_snoc:
  "replays s (es @ [e]) t \<longleftrightarrow> (\<exists>u. replays s es u \<and> replays u [e] t)"
  by (induction es arbitrary: s) (auto split: option.split)

lemma trail_ok_snoc: "trail_ok es s \<Longrightarrow> replays s [e] t \<Longrightarrow> trail_ok (es @ [e]) t"
  by (cases es) (auto simp: trail_ok_def replays_snoc simp del: replays.simps)

lemma transition_keeps_audit:
  assumes "booking_ok d" and "audit_ok d" and "issued_transition tr"
    and eff: "transition_effect e tr d d' a actual notes"
  shows "audit_ok d'"
proof -
  have edge: "lifecycle_edge (ap_status a) (tr_To tr)" by (rule effect_edge [OF assms(3) eff])
  then have "known_status (ap_status a)" "known_status (tr_To tr)"
    by (auto simp: lifecycle_edge_def)
  then have "replays (ap_status a) [changed_audit tr actual notes a e] (tr_To tr)"
    using edge by (simp add: changed_audit_def audit_of_def json_status_def)
  moreover have "trail d' i = trail d i @ (if i = tr_AppointmentID tr
      then [changed_audit tr actual notes a e] else [])" for i
    by (simp add: trail_def effect_tables(3) [OF eff] changed_audit_def audit_of_def)
  moreover have "trail_ok (trail d (ap_id a)) (ap_status a)"
    using assms(2) effect_row [OF eff] unfolding audit_ok_def list_all_iff by blast
  ultimately have "list_all (\<lambda>a. trail_ok (trail d' (ap_id a)) (ap_status a)) (appointments d')"
    using assms(2) effect_row [OF eff] effect_status [OF eff]
    by (intro effect_all [OF assms(1) eff])
      (simp_all add: audit_ok_def list_all_iff trail_ok_snoc del: replays.simps)
  moreover have "tr_AppointmentID tr \<in> ap_id ` set (appointments d)"
    using effect_row [OF eff] by (metis image_eqI)
  ultimately show ?thesis
    using assms(2)
    by (auto simp: audit_ok_def effect_ids [OF eff] effect_tables(3) [OF eff] changed_audit_def audit_of_def)
qed

lemma transition_keeps:
  assumes "booking_inv d" and "issued_transition tr" and "transition_body e tr d = Inr d'"
  shows "booking_inv d'"
proof -
  obtain a x n where "transition_effect e tr d d' a x n"
    using transition_body_effect [OF assms(3)] by blast
  then show ?thesis
    using assms(1,2) unfolding booking_inv_def
    by (meson transition_keeps_booking transition_keeps_ledger transition_keeps_off
        transition_keeps_rows transition_keeps_audit)
qed

section \<open>Time off keeps the invariants\<close>

text \<open>A change of the time off alone: only \<open>off_ok\<close> is to be shown.\<close>

lemma time_offs_keeps:
  assumes "booking_inv d" and "d' = d\<lparr>time_offs := ts\<rparr>" and "off_ok d'"
  shows "booking_inv d'"
  using assms by (simp add: booking_inv_def booking_ok_def ledger_ok_def held_def rows_ok_def audit_ok_def
      trail_def)

lemma no_overlap_off:
  assumes "\<not> HasActiveAppointmentOverlap d i s e" and "booking_ok d" and "a \<in> set (appointments d)"
    and "ap_active a" and "off_technician_id t = i" and "off_starts_at t = s" and "off_ends_at t = e"
  shows "\<not> off_during t (ap_technician_id a) (ap_starts_at a) (ap_ends_at a)"
  using assms by (auto simp: HasActiveAppointmentOverlap_def off_during_def booking_ok_def
      list_ex_iff list_all_iff)

lemma off_okI:
  "(\<And>a t. a \<in> set (appointments d) \<Longrightarrow> ap_active a \<Longrightarrow> t \<in> set (time_offs d) \<Longrightarrow>
      \<not> off_during t (ap_technician_id a) (ap_starts_at a) (ap_ends_at a)) \<Longrightarrow> off_ok d"
  by (simp add: off_ok_def list_all_iff)

lemma off_okD:
  "off_ok d \<Longrightarrow> a \<in> set (appointments d) \<Longrightarrow> ap_active a \<Longrightarrow> t \<in> set (time_offs d) \<Longrightarrow>
   \<not> off_during t (ap_technician_id a) (ap_starts_at a) (ap_ends_at a)"
  by (simp add: off_ok_def list_all_iff)

lemma create_time_off_keeps:
  assumes inv: "booking_inv d" and "create_time_off_write item d = (Inr u, d')"
  shows "booking_inv d'"
proof -
  let ?t = "time_off_row_of item"
  have free: "\<not> HasActiveAppointmentOverlap d (to_technicianID item)
        (to_pg (to_startsAt item)) (to_pg (to_endsAt item))"
    and d': "d' = d\<lparr>time_offs := time_offs d @ [?t]\<rparr>"
    using assms(2) by (simp_all add: create_time_off_write_ok insert_time_off_ok)
  have "off_ok d'"
    using inv no_overlap_off [OF free, of _ ?t] off_okD [of d]
    by (intro off_okI) (auto simp: d' booking_inv_def time_off_row_of_def)
  then show ?thesis using time_offs_keeps [OF inv d'] by blast
qed

lemma update_time_off_keeps:
  assumes inv: "booking_inv d" and "update_time_off_write item d = (Inr u, d')"
  shows "booking_inv d'"
proof -
  let ?p = "time_off_key (to_id item) (to_technicianID item)"
  let ?f = "\<lambda>t. t\<lparr>off_starts_at := to_pg (to_startsAt item), off_ends_at := to_pg (to_endsAt item),
              off_reason := to_reason item, off_updated_at := to_pg (to_updatedAt item)\<rparr>"
  have free: "\<not> HasActiveAppointmentOverlap d (to_technicianID item)
        (to_pg (to_startsAt item)) (to_pg (to_endsAt item))"
    and d': "d' = d\<lparr>time_offs := update_where ?p ?f (time_offs d)\<rparr>"
    using assms(2) by (simp_all add: update_time_off_write_ok update_time_offs_ok)
  have "off_ok d'"
  proof (rule off_okI)
    fix a t
    assume a: "a \<in> set (appointments d')" "ap_active a" and "t \<in> set (time_offs d')"
    then obtain t' where t': "t' \<in> set (time_offs d)" "t = (if ?p t' then ?f t' else t')"
      by (auto simp: d' set_update_where)
    show "\<not> off_during t (ap_technician_id a) (ap_starts_at a) (ap_ends_at a)"
    proof (cases "?p t'")
      case True
      then show ?thesis
        using inv a t' no_overlap_off [OF free, of a t]
        by (simp add: d' booking_inv_def time_off_key_def)
    next
      case False
      then show ?thesis using inv a t' off_okD [of d a t'] by (simp add: d' booking_inv_def)
    qed
  qed
  then show ?thesis using time_offs_keeps [OF inv d'] by blast
qed

lemma delete_time_off_keeps:
  assumes inv: "booking_inv d" and "DeleteTechnicianTimeOff_repo i j now d = (res, d')"
  shows "booking_inv d'"
  using DeleteTechnicianTimeOff_repo_cases [OF assms(2)]
proof
  assume "d' = d"
  then show ?thesis using inv by simp
next
  assume "update_time_offs (time_off_key j i) (\<lambda>t. t\<lparr>off_deleted_at := Some (to_pg now)\<rparr>) d = Inr d'"
  then have d': "d' = d\<lparr>time_offs := update_where (time_off_key j i)
      (\<lambda>t. t\<lparr>off_deleted_at := Some (to_pg now)\<rparr>) (time_offs d)\<rparr>"
    by (simp add: update_time_offs_ok)
  have "off_ok d'"
    using inv off_okD [of d]
    by (intro off_okI) (auto simp: d' booking_inv_def set_update_where off_during_def)
  then show ?thesis using time_offs_keeps [OF inv d'] by blast
qed

section \<open>Reachable databases\<close>

lemma schedule_keeps:
  assumes "booking_inv d" and "ScheduleAppointment_tx zone ids (r, d) = (Inr (), (r', d'))"
    and "sar_AppointmentID r \<noteq> uuid_Nil"
  shows "booking_inv d'"
proof -
  obtain i1 i2 i3 where ids: "ids = (i1, i2, i3)" by (cases ids)
  obtain mx where r': "r' = resolved mx r" and w: "schedule_writes (i1, i2, i3) r' d = Inr d'"
    using assms(2) unfolding ids ScheduleAppointment_tx_ok by blast
  have "sar_AppointmentID r' \<noteq> uuid_Nil" using assms(3) by (simp add: r')
  then show ?thesis
    using assms(1) schedule_keeps_booking [OF _ w] schedule_keeps_ledger [OF _ w]
      schedule_keeps_off [OF _ w] schedule_keeps_rows [OF _ w] schedule_keeps_audit [OF _ w]
    by (simp add: booking_inv_def)
qed

lemma same_bookings_keeps: "booking_inv d \<Longrightarrow> same_bookings d d' \<Longrightarrow> booking_inv d'"
  by (simp add: same_bookings_def booking_inv_def booking_ok_def ledger_ok_def held_def off_ok_def
      rows_ok_def audit_ok_def trail_def)

lemma booking_step_keeps: "booking_step zone d d' \<Longrightarrow> booking_inv d \<Longrightarrow> booking_inv d'"
  by (erule booking_stepE)
    (blast intro: schedule_keeps transition_keeps create_time_off_keeps update_time_off_keeps
      delete_time_off_keeps same_bookings_keeps)+

lemma booking_reachable_inv: "booking_reachable zone d \<Longrightarrow> booking_inv d"
  by (induction rule: booking_reachable.induct) (auto intro: fresh_inv booking_step_keeps)

section \<open>Exactly the bookable requests are booked\<close>

text \<open>What the statements of a schedule need of the database besides the business rules: fresh
  ids, a short fresh reference code, existing referenced rows, times that can be stored and
  marshalled.\<close>

definition storable :: "uuid \<times> uuid \<times> uuid \<Rightarrow> ScheduleAppointmentRecord \<Rightarrow> db \<Rightarrow> bool" where
  "storable ids r d = (case ids of (i1, i2, i3) \<Rightarrow>
     sar_AppointmentID r \<notin> set (map ap_id (appointments d))
     \<and> sar_ReferenceCode r \<notin> set (map ap_reference_code (appointments d))
     \<and> length (sar_ReferenceCode r) \<le> 50
     \<and> to_pg (sar_StartsAt r) < to_pg (sar_EndsAt r) \<and> 0 < to_int32 (sar_PlannedDurationMinutes r)
     \<and> (\<forall>c\<in>set (appointment_fk_checks d (scheduled_row r)). \<not> fst c)
     \<and> i1 \<notin> set (map rv_id (reservations d)) \<and> i2 \<notin> set (map rv_id (reservations d)) \<and> i2 \<noteq> i1
     \<and> i3 \<notin> set (map au_id (audits d))
     \<and> json_time_ok (JTime (sar_EndsAt r)) \<and> json_time_ok (JTime (sar_StartsAt r)))"

text \<open>No active appointment of the technician or of the bay shares an instant.\<close>

definition slot_free :: "ScheduleAppointmentRecord \<Rightarrow> db \<Rightarrow> bool" where
  "slot_free r d \<longleftrightarrow>
     list_all (\<lambda>a. ap_active a \<and> (ap_technician_id a = sar_TechnicianID r \<or> ap_service_bay_id a = sar_ServiceBayID r)
        \<longrightarrow> \<not> overlaps (to_pg (sar_StartsAt r)) (to_pg (sar_EndsAt r)) (ap_starts_at a) (ap_ends_at a))
       (appointments d)"

lemma list_ex_same_key: "list_ex (same_key k x) ys \<longleftrightarrow> k x \<in> set (map k ys)"
  by (auto simp: list_ex_iff same_key_def)

lemma slot_free_iff:
  "slot_free r d \<longleftrightarrow> \<not> list_ex (technician_clash (scheduled_row r)) (appointments d)
     \<and> \<not> list_ex (service_bay_clash (scheduled_row r)) (appointments d)"
  unfolding slot_free_def list_all_iff list_ex_iff technician_clash_def service_bay_clash_def
  by (auto simp: ap_active_def)

text \<open>An open reservation is a claim of an active appointment, so a free slot is free in the
  ledger.\<close>

lemma ledger_claim:
  assumes "ledger_ok d" and "x \<in> set (reservations d)" and "rv_released_at x = None"
  obtains a where "a \<in> set (appointments d)" and "holding x \<in> set (claims a)"
proof -
  obtain a where a: "a \<in> set (appointments d)" "ap_id a = rv_appointment_id x"
    using assms(1,2) by (auto simp: ledger_ok_def list_all_iff)
  have "holding x \<in> set (held d (ap_id a))" using assms(2,3) a(2) by (auto simp: held_def)
  then show thesis using that a(1) assms(1) by (auto simp: ledger_ok_def list_all_iff)
qed

lemma slot_free_ledger:
  assumes "ledger_ok d" and "slot_free r d"
  shows "\<not> list_ex (reservation_clash (reservation_of r ResTechnician (sar_TechnicianID r) i)) (reservations d)"
    and "\<not> list_ex (reservation_clash (reservation_of r ResServiceBay (sar_ServiceBayID r) i)) (reservations d)"
proof -
  have "\<not> reservation_clash (reservation_of r k res i) x"
    if x: "x \<in> set (reservations d)"
      and k: "(k, res) \<in> {(ResTechnician, sar_TechnicianID r), (ResServiceBay, sar_ServiceBayID r)}"
    for x k res
  proof
    assume clash: "reservation_clash (reservation_of r k res i) x"
    then have "rv_released_at x = None" by (simp add: reservation_clash_def rv_held_def)
    from ledger_claim [OF assms(1) x this] obtain a
      where a: "a \<in> set (appointments d)" and h: "holding x \<in> set (claims a)" .
    have "ap_active a" using h by (auto simp: claims_def split: if_splits)
    moreover have "ap_technician_id a = sar_TechnicianID r \<or> ap_service_bay_id a = sar_ServiceBayID r"
      and "overlaps (to_pg (sar_StartsAt r)) (to_pg (sar_EndsAt r)) (ap_starts_at a) (ap_ends_at a)"
      using h clash k
      by (auto simp: claims_def holding_def reservation_clash_def reservation_of_def split: if_splits)
    ultimately show False using assms(2) a by (auto simp: slot_free_def list_all_iff)
  qed
  then show "\<not> list_ex (reservation_clash (reservation_of r ResTechnician (sar_TechnicianID r) i)) (reservations d)"
    and "\<not> list_ex (reservation_clash (reservation_of r ResServiceBay (sar_ServiceBayID r) i)) (reservations d)"
    by (auto simp: list_ex_iff)
qed

lemma insert_scheduled_iff:
  "insert_appointment (scheduled_row r) d = Inr d1 \<longleftrightarrow>
     sar_AppointmentID r \<notin> set (map ap_id (appointments d))
     \<and> sar_ReferenceCode r \<notin> set (map ap_reference_code (appointments d))
     \<and> length (sar_ReferenceCode r) \<le> 50
     \<and> to_pg (sar_StartsAt r) < to_pg (sar_EndsAt r) \<and> 0 < to_int32 (sar_PlannedDurationMinutes r)
     \<and> (\<forall>c\<in>set (appointment_fk_checks d (scheduled_row r)). \<not> fst c)
     \<and> slot_free r d \<and> \<not> reject_appointment_during_time_off d (scheduled_row r)
     \<and> d1 = d\<lparr>appointments := appointments d @ [scheduled_row r]\<rparr>"
proof -
  have rows: "(\<forall>c\<in>set (appointment_row_checks d (scheduled_row r)). \<not> fst c) \<longleftrightarrow>
      length (sar_ReferenceCode r) \<le> 50 \<and> \<not> reject_appointment_during_time_off d (scheduled_row r)
      \<and> 0 < to_int32 (sar_PlannedDurationMinutes r) \<and> to_pg (sar_StartsAt r) < to_pg (sar_EndsAt r)"
    by (auto simp: appointment_row_checks_def longer_def scheduled_row_def)
  have keys: "ap_id (scheduled_row r) = sar_AppointmentID r"
      "ap_reference_code (scheduled_row r) = sar_ReferenceCode r"
    by (simp_all add: scheduled_row_def)
  show ?thesis unfolding insert_appointment_ok list_ex_same_key slot_free_iff rows keys by argo
qed

lemma schedule_writes_iff:
  assumes "booking_inv d"
  shows "schedule_writes ids r d = Inr d' \<longleftrightarrow>
    slot_free r d \<and> \<not> reject_appointment_during_time_off d (scheduled_row r) \<and> storable ids r d
    \<and> d' = booked r ids d"
proof
  assume w: "schedule_writes ids r d = Inr d'"
  obtain i1 i2 i3 where ids: "ids = (i1, i2, i3)" by (cases ids)
  obtain d1 d2 d3 where 1: "insert_appointment (scheduled_row r) d = Inr d1"
    and 2: "insert_reservation (reservation_of r ResTechnician (sar_TechnicianID r) i1) d1 = Inr d2"
    and 3: "insert_reservation (reservation_of r ResServiceBay (sar_ServiceBayID r) i2) d2 = Inr d3"
    and 4: "json_time_ok (JTime (sar_EndsAt r))" "json_time_ok (JTime (sar_StartsAt r))"
    and 5: "insert_audit (created_audit r i3) d3 = Inr d'"
    using w unfolding ids schedule_writes_ok by blast
  have "i1 \<notin> set (map rv_id (reservations d))" "i2 \<notin> set (map rv_id (reservations d))" "i2 \<noteq> i1"
      "i3 \<notin> set (map au_id (audits d))"
    using 1 2 3 5 unfolding insert_appointment_ok insert_reservation_ok insert_audit_ok list_ex_same_key
    by (auto simp: reservation_of_def created_audit_def audit_of_def)
  then show "slot_free r d \<and> \<not> reject_appointment_during_time_off d (scheduled_row r) \<and> storable ids r d
    \<and> d' = booked r ids d"
    using 1 4 schedule_writes_booked(1) [OF w] unfolding insert_scheduled_iff
    by (simp add: storable_def ids)
next
  assume a: "slot_free r d \<and> \<not> reject_appointment_during_time_off d (scheduled_row r) \<and> storable ids r d
    \<and> d' = booked r ids d"
  obtain i1 i2 i3 where ids: "ids = (i1, i2, i3)" by (cases ids)
  let ?t = "reservation_of r ResTechnician (sar_TechnicianID r) i1"
  let ?b = "reservation_of r ResServiceBay (sar_ServiceBayID r) i2"
  define d1 where "d1 = d\<lparr>appointments := appointments d @ [scheduled_row r]\<rparr>"
  define d2 where "d2 = d1\<lparr>reservations := reservations d1 @ [?t]\<rparr>"
  define d3 where "d3 = d2\<lparr>reservations := reservations d2 @ [?b]\<rparr>"
  have st: "storable (i1, i2, i3) r d" and free: "slot_free r d" using a ids by simp_all
  have 1: "insert_appointment (scheduled_row r) d = Inr d1"
    unfolding insert_scheduled_iff using a st by (simp add: d1_def storable_def)
  have user: "\<not> missing us_id (users d) (sar_CreatedByUserID r)"
    using st by (simp add: storable_def appointment_fk_checks_def scheduled_row_def)
  have ledger: "ledger_ok d" using assms by (simp add: booking_inv_def)
  note clash = slot_free_ledger [OF ledger free]
  have here: "\<not> missing ap_id (appointments d1) (sar_AppointmentID r)"
    by (simp add: missing_def d1_def scheduled_row_def)
  have 2: "insert_reservation ?t d1 = Inr d2"
    using st clash(1) [of i1] here user unfolding insert_reservation_ok list_ex_same_key
    by (simp add: d1_def d2_def storable_def reservation_row_checks_def longer_def reservation_of_def)
  have "\<not> reservation_clash ?b ?t" by (simp add: reservation_clash_def reservation_of_def)
  then have 3: "insert_reservation ?b d2 = Inr d3"
    using st clash(2) [of i2] here user unfolding insert_reservation_ok list_ex_same_key
    by (simp add: d1_def d2_def d3_def storable_def reservation_row_checks_def longer_def reservation_of_def)
  have "insert_audit (created_audit r i3) d3 = Inr (booked r ids d)"
    using st here user unfolding insert_audit_ok list_ex_same_key
    by (simp add: d1_def d2_def d3_def storable_def created_audit_def audit_of_def longer_def booked_def ids
        missing_opt_def)
  then show "schedule_writes ids r d = Inr d'"
    using 1 2 3 st a unfolding ids schedule_writes_ok by (auto simp: storable_def)
qed

text \<open>The rules of a booking, as the business states them.\<close>

definition bookable :: "zone_db \<Rightarrow> uuid \<times> uuid \<times> uuid \<Rightarrow> ScheduleAppointmentRecord \<Rightarrow> db \<Rightarrow> int \<Rightarrow> bool" where
  "bookable zone ids r d maxDuration \<longleftrightarrow>
     (\<exists>tz minDuration. GetActiveDealershipTimezone d (sar_DealershipID r) = Inr tz
        \<and> GetActiveServiceTypeDuration d (sar_ServiceTypeID r) (sar_DealershipID r) = Inr (minDuration, maxDuration)
        \<and> (let r' = resolved maxDuration r; s = to_pg (sar_StartsAt r'); e = to_pg (sar_EndsAt r') in
           minDuration \<le> sar_PlannedDurationMinutes r' \<and> sar_PlannedDurationMinutes r' \<le> maxDuration
           \<and> CustomerVehicleBelongsToDealership d (sar_VehicleID r) (sar_CustomerID r) (sar_DealershipID r)
           \<and> IsWithinDealershipOperatingHours zone d (sar_DealershipID r) tz s e
           \<and> IsCompatibleTechnician d (sar_TechnicianID r) (sar_DealershipID r) (sar_ServiceTypeID r)
           \<and> IsCompatibleServiceBay d (sar_ServiceBayID r) (sar_DealershipID r) (sar_ServiceTypeID r)
           \<and> IsTechnicianAvailableForAppointment zone d (sar_TechnicianID r) tz s e = Some True
           \<and> slot_free r' d \<and> storable ids r' d))"

lemma available_no_time_off:
  "IsTechnicianAvailableForAppointment zone d (sar_TechnicianID r) tz (to_pg (sar_StartsAt r))
     (to_pg (sar_EndsAt r)) = Some True \<Longrightarrow> \<not> reject_appointment_during_time_off d (scheduled_row r)"
  by (simp add: IsTechnicianAvailableForAppointment_def reject_appointment_during_time_off_def)

lemma schedule_iff_bookable:
  assumes "booking_inv d"
  shows "ScheduleAppointment_tx zone ids (r, d) = (Inr (), (r', d')) \<longleftrightarrow>
    (\<exists>maxDuration. bookable zone ids r d maxDuration \<and> r' = resolved maxDuration r \<and> d' = booked r' ids d)"
  unfolding ScheduleAppointment_tx_ok schedule_checks_ok schedule_writes_iff [OF assms] bookable_def Let_def
    resolved_fields
  using available_no_time_off [of zone d r'] by (auto dest: available_no_time_off)

end
