(* ===== verification/Service_Env.thy ===== *)
theory Service_Env
  imports Schedule_Repository
begin

text \<open>
  What a method of app.Service works with besides the database: the clock and the id
  generator it was built with, the verified token claims of the request (app/authorization.go)
  and the auth module's \<open>GetUserInfo\<close> and \<open>GetUserInfoByEmail\<close>; and the role checks of app/service.go built on them.

  \<open>sv_now k\<close> and \<open>sv_newID k\<close> are what the \<open>k\<close>-th call of \<open>s.now()\<close> and \<open>s.newID()\<close> within the
  operation returns. A statement run outside a transaction either succeeds or returns the
  error of the statement; failures of the connection itself are modelled for transactions
  only (theory Tx).
\<close>

section \<open>Text of a uuid\<close>

definition hex_char :: "int \<Rightarrow> char" where
  "hex_char n = (if n < 10 then char_of (48 + nat n) else char_of (87 + nat n))"

fun hex_text :: "nat \<Rightarrow> int \<Rightarrow> string" where
  "hex_text 0 n = []"
| "hex_text (Suc k) n = hex_text k (n div 16) @ [hex_char (n mod 16)]"

definition uuid_String :: "uuid \<Rightarrow> string" where
  "uuid_String u =
     (let h = hex_text 32 (uint u) in
      take 8 h @ ''-'' @ take 4 (drop 8 h) @ ''-'' @ take 4 (drop 12 h) @ ''-''
        @ take 4 (drop 16 h) @ ''-'' @ drop 20 h)"

lemma length_hex_text [simp]: "length (hex_text k n) = k"
  by (induction k arbitrary: n) simp_all

lemma length_uuid_String [simp]: "length (uuid_String u) = 36"
  by (simp add: uuid_String_def Let_def)

lemma of_hex_char:
  "0 \<le> n \<Longrightarrow> n < 16 \<Longrightarrow> (of_char (hex_char n) :: nat) = (if n < 10 then 48 + nat n else 87 + nat n)"
  by (simp add: hex_char_def of_char_of take_bit_nat_eq_self)

lemma hex_char_inj:
  assumes "0 \<le> a" "a < 16" and "0 \<le> b" "b < 16" and "hex_char a = hex_char b"
  shows "a = b"
proof -
  have "(if a < 10 then 48 + nat a else 87 + nat a) = (if b < 10 then 48 + nat b else 87 + nat b)"
    using assms of_hex_char by metis
  then show ?thesis using assms(1-4) by (auto split: if_splits)
qed

lemma hex_text_inj: "hex_text k a = hex_text k b \<Longrightarrow> a mod 16 ^ k = b mod 16 ^ k"
proof (induction k arbitrary: a b)
  case (Suc k)
  have init: "hex_text k (a div 16) = hex_text k (b div 16)"
      and last: "hex_char (a mod 16) = hex_char (b mod 16)"
    using Suc.prems by simp_all
  have "a div 16 mod 16 ^ k = b div 16 mod 16 ^ k" by (rule Suc.IH [OF init])
  moreover have "a mod 16 = b mod 16" by (rule hex_char_inj [OF _ _ _ _ last]) simp_all
  moreover have "x mod (16 * 16 ^ k) = 16 * (x div 16 mod 16 ^ k) + x mod 16" for x :: int
    by (rule zmod_zmult2_eq) simp
  ultimately show ?case by (simp only: power_Suc)
qed simp

lemma uuid_String_inj:
  assumes "uuid_String u = uuid_String v"
  shows "u = v"
proof -
  let ?h = "hex_text 32 (uint u)" and ?k = "hex_text 32 (uint v)"
  have "take 8 ?h = take 8 ?k" and "take 4 (drop 8 ?h) = take 4 (drop 8 ?k)"
    and "take 4 (drop 12 ?h) = take 4 (drop 12 ?k)" and "take 4 (drop 16 ?h) = take 4 (drop 16 ?k)"
    and "drop 20 ?h = drop 20 ?k"
    using assms by (simp_all add: uuid_String_def Let_def)
  then have "take 8 ?h @ take 4 (drop 8 ?h) @ take 4 (drop 12 ?h) @ take 4 (drop 16 ?h) @ drop 20 ?h
      = take 8 ?k @ take 4 (drop 8 ?k) @ take 4 (drop 12 ?k) @ take 4 (drop 16 ?k) @ drop 20 ?k"
    by simp
  moreover have "take 8 xs @ take 4 (drop 8 xs) @ take 4 (drop 12 xs) @ take 4 (drop 16 xs) @ drop 20 xs
      = xs" for xs :: string
    using append_take_drop_id [of 8 xs] append_take_drop_id [of 4 "drop 8 xs"]
      append_take_drop_id [of 4 "drop 12 xs"] append_take_drop_id [of 4 "drop 16 xs"]
    by simp
  ultimately have "?h = ?k" by simp
  then have "uint u mod 16 ^ 32 = uint v mod 16 ^ 32" by (rule hex_text_inj)
  moreover have "0 \<le> uint w \<and> uint w < 16 ^ 32" for w :: uuid
    using unsigned_less [of w, where ?'a = int] by simp
  ultimately show ?thesis by (simp add: word_uint_eq_iff mod_pos_pos_trivial)
qed

section \<open>Clock, ids, claims and users\<close>

text \<open>\<open>client.UserInfo\<close> of the auth module.\<close>

record UserInfo =
  ui_UserID :: string
  ui_Email :: string
  ui_FullName :: string
  ui_Status :: string
  ui_Role :: string

record Authorization =
  au_UserID :: uuid
  au_Role :: string

record service_env =
  sv_newID :: "nat \<Rightarrow> uuid"
  sv_now :: "nat \<Rightarrow> gotime"
  sv_authorization :: "Authorization option"
  sv_GetUserInfo :: "uuid \<Rightarrow> UserInfo result"
  sv_GetUserInfoByEmail :: "string \<Rightarrow> UserInfo result"

definition AuthorizationFrom :: "service_env \<Rightarrow> Authorization option" where
  "AuthorizationFrom env =
     (case sv_authorization env of
        None \<Rightarrow> None
      | Some a \<Rightarrow> if au_UserID a = uuid_Nil \<or> au_Role a = [] then None else Some a)"

definition actorRole :: "service_env \<Rightarrow> uuid \<Rightarrow> string result" where
  "actorRole env actorID =
     (case AuthorizationFrom env of
        Some a \<Rightarrow>
          if au_UserID a = actorID then Inr (au_Role a)
          else (case sv_GetUserInfo env actorID of
                  Inl err \<Rightarrow> Inl (NewForbiddenError ''authorization_forbidden'' ''you are not authorized'')
                | Inr user \<Rightarrow>
                    if ui_UserID user \<noteq> uuid_String actorID \<or> ui_Status user \<noteq> ''active'' \<or> ui_Role user = []
                    then Inl (NewForbiddenError ''authorization_forbidden'' ''you are not authorized'')
                    else Inr (ui_Role user))
      | None \<Rightarrow>
          (case sv_GetUserInfo env actorID of
             Inl err \<Rightarrow> Inl (NewForbiddenError ''authorization_forbidden'' ''you are not authorized'')
           | Inr user \<Rightarrow>
               if ui_UserID user \<noteq> uuid_String actorID \<or> ui_Status user \<noteq> ''active'' \<or> ui_Role user = []
               then Inl (NewForbiddenError ''authorization_forbidden'' ''you are not authorized'')
               else Inr (ui_Role user)))"

text \<open>The role a request is entitled to: the one of its own token, or the one the auth
  module holds for an active account.\<close>

lemma actorRole_ok:
  "actorRole env actorID = Inr role \<longleftrightarrow>
     (if \<exists>a. AuthorizationFrom env = Some a \<and> au_UserID a = actorID
      then \<exists>a. sv_authorization env = Some a \<and> au_UserID a = actorID \<and> au_Role a = role
      else \<exists>user. sv_GetUserInfo env actorID = Inr user \<and> ui_UserID user = uuid_String actorID
             \<and> ui_Status user = ''active'' \<and> ui_Role user = role \<and> role \<noteq> [])"
  by (auto simp: actorRole_def AuthorizationFrom_def split: option.splits sum.splits if_splits)

lemma actorRole_nonempty: "actorRole env actorID = Inr role \<Longrightarrow> role \<noteq> []"
  by (auto simp: actorRole_def AuthorizationFrom_def split: option.splits sum.splits if_splits)

section \<open>Problems as HTTP errors\<close>

text \<open>\<open>operationTimeProblem\<close> of api/http/handler.go: the structured error, or a bare one whose
  code is 0.\<close>

definition operationTimeProblem :: "go_error \<Rightarrow> int \<times> string \<times> string" where
  "operationTimeProblem err =
     (case as_common err of
        Some p \<Rightarrow> p
      | None \<Rightarrow> (0, ''internal server error'', ''internal_server_error''))"

text \<open>A response writer that knows some codes and answers 500 otherwise.\<close>

definition respond :: "int list \<Rightarrow> go_error \<Rightarrow> int" where
  "respond codes err =
     (let code = fst (operationTimeProblem err) in if code \<in> set codes then code else 500)"

end
