(* ===== verification/Appointment_Service.thy ===== *)
theory Appointment_Service
  imports Appointment_Repository Service_Env
begin

text \<open>
  The appointment use cases (app/appointment.go) and their request handlers
  (api/http/handler.go): validation, who acts for which dealership, the call of the
  repository, and the status code of the answer.

  \<open>w\<close> is the world the repository's transaction runs in (theory Tx), \<open>ids\<close> and \<open>auditEvents\<close> the
  ids its body draws in each attempt. Telemetry does not change what a use case does and is
  not modelled; the repository is always configured.
\<close>

section \<open>Scheduling\<close>

record ScheduleAppointmentInput =
  in_CustomerID :: uuid
  in_VehicleID :: uuid
  in_ServiceTypeID :: uuid
  in_StartsAt :: gotime
  in_TechnicianID :: uuid
  in_ServiceBayID :: uuid
  in_PlannedDurationMinutes :: "int option"
  in_Notes :: "string option"

definition validate_schedule_input :: "ScheduleAppointmentInput \<Rightarrow> unit result" where
  "validate_schedule_input input =
     rbind (rguard (\<not> (in_CustomerID input = uuid_Nil \<or> in_VehicleID input = uuid_Nil
              \<or> in_ServiceTypeID input = uuid_Nil \<or> in_TechnicianID input = uuid_Nil
              \<or> in_ServiceBayID input = uuid_Nil))
       (NewInvalidInputError ''validation_error'' ''appointment resource IDs are required'')) (\<lambda>_.
     rbind (rguard (\<not> (time_IsZero (in_StartsAt input) \<or> loc (in_StartsAt input) \<noteq> Loc_UTC))
       (NewInvalidInputError ''validation_error'' ''starts_at must be a UTC timestamp'')) (\<lambda>_.
     rguard (\<not> (case in_PlannedDurationMinutes input of None \<Rightarrow> False | Some n \<Rightarrow> n \<le> 0))
       (NewInvalidInputError ''validation_error'' ''planned_duration_minutes must be positive'')))"

definition appointment_forbidden :: go_error where
  "appointment_forbidden = NewForbiddenError ''forbidden'' ''appointment access is not permitted''"

definition schedule_record ::
  "service_env \<Rightarrow> ScheduleAppointmentInput \<Rightarrow> uuid \<Rightarrow> uuid \<Rightarrow> ScheduleAppointmentRecord" where
  "schedule_record env input dealershipID actorUserID =
     (let now = time_UTC (sv_now env 0) in
      \<lparr>sar_AppointmentID = sv_newID env 0, sar_CustomerID = in_CustomerID input,
       sar_VehicleID = in_VehicleID input, sar_DealershipID = dealershipID,
       sar_ServiceTypeID = in_ServiceTypeID input, sar_TechnicianID = in_TechnicianID input,
       sar_ServiceBayID = in_ServiceBayID input, sar_CreatedByUserID = actorUserID,
       sar_ReferenceCode = ''APT-'' @ take 8 (uuid_String (sv_newID env 1)),
       sar_StartsAt = time_UTC (in_StartsAt input), sar_EndsAt = time_zero,
       sar_CreatedAt = now, sar_UpdatedAt = now,
       sar_PlannedDurationMinutes = (case in_PlannedDurationMinutes input of None \<Rightarrow> 0 | Some n \<Rightarrow> n),
       sar_Notes = in_Notes input\<rparr>)"

definition scheduleAppointmentError :: "go_error \<Rightarrow> go_error" where
  "scheduleAppointmentError err =
     (if errors_is err (AppAppointmentErr ErrAppointmentUnavailable)
      then NewConflictError ''availability_conflict'' ''the selected technician or service bay is unavailable''
      else err)"

definition ScheduleAppointment ::
  "service_env \<Rightarrow> (ScheduleAppointmentRecord, db) world \<Rightarrow> zone_db \<Rightarrow> (nat \<Rightarrow> uuid \<times> uuid \<times> uuid)
     \<Rightarrow> uuid \<Rightarrow> ScheduleAppointmentInput \<Rightarrow> (db, go_error, ScheduleAppointmentRecord) action" where
  "ScheduleAppointment env w zone ids actorID input =
     andThen (lift_res (validate_schedule_input input)) (\<lambda>_.
     andThen (on_err (\<lambda>_. appointment_forbidden) (query_res (\<lambda>d. GetEmployeeDealership d actorID)))
       (\<lambda>dealershipID.
     andThen (on_err (\<lambda>_. appointment_forbidden) (query_res (\<lambda>d. GetSchedulerUserID d actorID)))
       (\<lambda>actorUserID.
     let record = schedule_record env input dealershipID actorUserID in
     andThen (on_err scheduleAppointmentError (ScheduleAppointment_repo w zone ids record)) (\<lambda>_.
     ret record))))"

section \<open>Status changes\<close>

definition validAppointmentTransition :: "AppointmentStatus \<Rightarrow> AppointmentStatus \<Rightarrow> bool" where
  "validAppointmentTransition s t \<longleftrightarrow>
     (s = AppointmentRequested \<and> t = AppointmentCheckedIn)
     \<or> (s = AppointmentCheckedIn \<and> t = AppointmentInProgress)
     \<or> (s = AppointmentInProgress \<and> t = AppointmentCompleted)
     \<or> ((s = AppointmentRequested \<or> s = AppointmentCheckedIn \<or> s = AppointmentInProgress)
         \<and> t = AppointmentCancelled)"

definition status_transition ::
  "service_env \<Rightarrow> uuid \<Rightarrow> uuid \<Rightarrow> uuid \<Rightarrow> AppointmentStatus \<Rightarrow> AppointmentStatus
     \<Rightarrow> gotime option \<Rightarrow> string option \<Rightarrow> string option \<Rightarrow> AppointmentTransition" where
  "status_transition env appointmentID dealershipID actorUserID from_status to_status
       actualEndsAt cancellationReason note =
     \<lparr>tr_AppointmentID = appointmentID, tr_DealershipID = dealershipID, tr_ActorUserID = actorUserID,
      tr_From = from_status, tr_To = to_status, tr_OccurredAt = time_UTC (sv_now env 0),
      tr_ActualEndsAt = map_option time_UTC actualEndsAt,
      tr_CancellationReason = cancellationReason, tr_Note = note\<rparr>"

definition ChangeAppointmentStatus ::
  "service_env \<Rightarrow> (unit, db) world \<Rightarrow> (nat \<Rightarrow> uuid) \<Rightarrow> uuid \<Rightarrow> uuid \<Rightarrow> AppointmentStatus \<Rightarrow> AppointmentStatus
     \<Rightarrow> gotime option \<Rightarrow> string option \<Rightarrow> string option \<Rightarrow> (db, go_error, unit) action" where
  "ChangeAppointmentStatus env w auditEvents actorID appointmentID from_status to_status
       actualEndsAt cancellationReason note =
     andThen (ensure (\<not> (actorID = uuid_Nil \<or> appointmentID = uuid_Nil))
       (NewInvalidInputError ''validation_error'' ''appointment and actor IDs are required'')) (\<lambda>_.
     andThen (ensure (\<not> (from_status \<noteq> NoStatus \<and> \<not> validAppointmentTransition from_status to_status))
       (NewConflictError ''invalid_state_transition''
          (''the appointment cannot transition from '' @ status_string from_status @ '' to ''
           @ status_string to_status))) (\<lambda>_.
     andThen (ensure (\<not> (to_status = AppointmentCancelled
                \<and> (cancellationReason = None \<or> cancellationReason = Some [])))
       (NewInvalidInputError ''validation_error'' ''cancellation reason is required'')) (\<lambda>_.
     andThen (on_err (\<lambda>_. appointment_forbidden) (query_res (\<lambda>d. GetEmployeeDealership d actorID)))
       (\<lambda>dealershipID.
     andThen (on_err (\<lambda>_. appointment_forbidden) (query_res (\<lambda>d. GetSchedulerUserID d actorID)))
       (\<lambda>actorUserID.
     TransitionAppointment w auditEvents
       (status_transition env appointmentID dealershipID actorUserID from_status to_status
          actualEndsAt cancellationReason note))))))"

section \<open>Request handlers\<close>

text \<open>An answer: the created appointment, no content, or a problem with its status code.\<close>

datatype appointment_answer =
    Created201 ScheduleAppointmentRecord
  | NoContent204
  | Problem int go_error

definition ScheduleAppointment_handler ::
  "service_env \<Rightarrow> (ScheduleAppointmentRecord, db) world \<Rightarrow> zone_db \<Rightarrow> (nat \<Rightarrow> uuid \<times> uuid \<times> uuid)
     \<Rightarrow> uuid \<Rightarrow> ScheduleAppointmentInput option \<Rightarrow> db \<Rightarrow> appointment_answer \<times> db" where
  "ScheduleAppointment_handler env w zone ids actorID body d =
     (case body of
        None \<Rightarrow> (Problem 400 (NewInvalidInputError ''validation_error'' ''request body is required''), d)
      | Some input \<Rightarrow>
          (case ScheduleAppointment env w zone ids actorID input d of
             (Inl err, d') \<Rightarrow> (Problem (respond [400, 401, 403, 404, 409, 422] err) err, d')
           | (Inr record, d') \<Rightarrow> (Created201 record, d')))"

definition status_answer :: "go_error + unit \<Rightarrow> appointment_answer" where
  "status_answer r =
     (case r of Inr _ \<Rightarrow> NoContent204 | Inl err \<Rightarrow> Problem (respond [400, 403, 404, 409] err) err)"

definition CheckInAppointment_handler ::
  "service_env \<Rightarrow> (unit, db) world \<Rightarrow> (nat \<Rightarrow> uuid) \<Rightarrow> uuid \<Rightarrow> uuid \<Rightarrow> string option \<Rightarrow> db
     \<Rightarrow> appointment_answer \<times> db" where
  "CheckInAppointment_handler env w auditEvents actorID appointmentID note d =
     (case ChangeAppointmentStatus env w auditEvents actorID appointmentID
             AppointmentRequested AppointmentCheckedIn None None note d of
        (r, d') \<Rightarrow> (status_answer r, d'))"

definition StartAppointment_handler ::
  "service_env \<Rightarrow> (unit, db) world \<Rightarrow> (nat \<Rightarrow> uuid) \<Rightarrow> uuid \<Rightarrow> uuid \<Rightarrow> string option \<Rightarrow> db
     \<Rightarrow> appointment_answer \<times> db" where
  "StartAppointment_handler env w auditEvents actorID appointmentID note d =
     (case ChangeAppointmentStatus env w auditEvents actorID appointmentID
             AppointmentCheckedIn AppointmentInProgress None None note d of
        (r, d') \<Rightarrow> (status_answer r, d'))"

definition CompleteAppointment_handler ::
  "service_env \<Rightarrow> (unit, db) world \<Rightarrow> (nat \<Rightarrow> uuid) \<Rightarrow> uuid \<Rightarrow> uuid \<Rightarrow> gotime option \<Rightarrow> string option \<Rightarrow> db
     \<Rightarrow> appointment_answer \<times> db" where
  "CompleteAppointment_handler env w auditEvents actorID appointmentID actualEndsAt note d =
     (case ChangeAppointmentStatus env w auditEvents actorID appointmentID
             AppointmentInProgress AppointmentCompleted actualEndsAt None note d of
        (r, d') \<Rightarrow> (status_answer r, d'))"

definition CancelAppointment_handler ::
  "service_env \<Rightarrow> (unit, db) world \<Rightarrow> (nat \<Rightarrow> uuid) \<Rightarrow> uuid \<Rightarrow> uuid \<Rightarrow> (string \<times> string option) option \<Rightarrow> db
     \<Rightarrow> appointment_answer \<times> db" where
  "CancelAppointment_handler env w auditEvents actorID appointmentID body d =
     (case body of
        None \<Rightarrow> (Problem 400 (NewInvalidInputError ''validation_error'' ''request body is required''), d)
      | Some (reason, note) \<Rightarrow>
          (case ChangeAppointmentStatus env w auditEvents actorID appointmentID
                  NoStatus AppointmentCancelled None (Some reason) note d of
             (r, d') \<Rightarrow> (status_answer r, d')))"

section \<open>Cases of the use cases\<close>

lemma ScheduleAppointment_cases:
  assumes "ScheduleAppointment env w zone ids actorID input d = (res, d')"
  obtains (refused) e where "res = Inl e" and "d' = d"
  | (ran) dl us r0 where "validate_schedule_input input = Inr ()"
      and "GetEmployeeDealership d actorID = Inr dl" and "GetSchedulerUserID d actorID = Inr us"
      and "ScheduleAppointment_repo w zone ids (schedule_record env input dl us) d = (r0, d')"
      and "res = (case r0 of Inl e \<Rightarrow> Inl (scheduleAppointmentError e)
                  | Inr _ \<Rightarrow> Inr (schedule_record env input dl us))"
proof -
  show thesis
  proof (cases "validate_schedule_input input")
    case (Inl e)
    then show thesis using assms refused by (auto simp: ScheduleAppointment_def andThen_def)
  next
    case v: (Inr u)
    show thesis
    proof (cases "GetEmployeeDealership d actorID")
      case (Inl e)
      then show thesis using assms v refused by (auto simp: ScheduleAppointment_def andThen_def on_err_def)
    next
      case dl: (Inr dl)
      show thesis
      proof (cases "GetSchedulerUserID d actorID")
        case (Inl e)
        then show thesis
          using assms v dl refused by (auto simp: ScheduleAppointment_def andThen_def on_err_def)
      next
        case us: (Inr us)
        obtain r0 d1 where "ScheduleAppointment_repo w zone ids (schedule_record env input dl us) d = (r0, d1)"
          by (rule prod.exhaust)
        then show thesis
          using assms v dl us ran
          by (cases r0) (auto simp: ScheduleAppointment_def andThen_def on_err_def Let_def)
      qed
    qed
  qed
qed

lemma ChangeAppointmentStatus_cases:
  assumes "ChangeAppointmentStatus env w ev actorID i s t actual reason note d = (res, d')"
  obtains (refused) e where "res = Inl e" and "d' = d"
  | (ran) dl us where "actorID \<noteq> uuid_Nil" and "i \<noteq> uuid_Nil"
      and "s = NoStatus \<or> validAppointmentTransition s t"
      and "t = AppointmentCancelled \<Longrightarrow> reason \<noteq> None \<and> reason \<noteq> Some []"
      and "GetEmployeeDealership d actorID = Inr dl" and "GetSchedulerUserID d actorID = Inr us"
      and "TransitionAppointment w ev (status_transition env i dl us s t actual reason note) d = (res, d')"
  using assms unfolding ChangeAppointmentStatus_def andThen_def on_err_def query_res_run ensure_run
  by (cases "GetEmployeeDealership d actorID"; cases "GetSchedulerUserID d actorID")
    (auto split: if_splits)

end
