(* ===== verification/Workforce_Repository.thy ===== *)
theory Workforce_Repository
  imports Service_Env
begin

text \<open>
  Technicians, their users and their skills in the database (adapters/db/technician\_repository.go
  with dbmodels/technicians.sql.go, technician\_skills.sql.go), the listings of shifts and time
  off, and the constraints of the tables users, technicians and technician\_skills.
\<close>

section \<open>Constraints\<close>

definition user_row_checks :: "user_row \<Rightarrow> (bool \<times> go_error) list" where
  "user_row_checks u =
     [(longer 255 (us_name u), too_long), (longer_opt 50 (us_phone u), too_long),
      (longer_opt 255 (us_email u), too_long)]"

text \<open>The partial unique index \<open>users_auth_user_id_unique_when_present\<close>.\<close>

definition auth_user_clash :: "user_row \<Rightarrow> user_row \<Rightarrow> bool" where
  "auth_user_clash x y \<longleftrightarrow> us_auth_user_id x = us_auth_user_id y \<and> us_auth_user_id x \<noteq> uuid_Nil
     \<and> us_deleted_at x = None \<and> us_deleted_at y = None"

interpretation auth_user: exclusion auth_user_clash
  by unfold_locales (auto simp: auth_user_clash_def)

definition insert_user :: "user_row \<Rightarrow> db \<Rightarrow> go_error + db" where
  "insert_user u d =
     checked
       (user_row_checks u
        @ [(list_ex (same_key us_id u) (users d), unique_violation ''users_pkey''),
           (list_ex (auth_user_clash u) (users d),
              unique_violation ''users_auth_user_id_unique_when_present''),
           (missing dl_id (dealerships d) (us_dealership_id u),
              foreign_key_violation ''users_dealership_id_fkey'')])
       (d\<lparr>users := users d @ [u]\<rparr>)"

definition insert_technician :: "technician_row \<Rightarrow> db \<Rightarrow> go_error + db" where
  "insert_technician t d =
     checked
       [(list_ex (same_key te_id t) (technicians d), unique_violation ''technicians_pkey''),
        (list_ex (same_key te_user_id t) (technicians d), unique_violation ''technicians_user_id_key''),
        (missing us_id (users d) (te_user_id t), foreign_key_violation ''technicians_user_id_fkey'')]
       (d\<lparr>technicians := technicians d @ [t]\<rparr>)"

definition technician_skill_key :: "technician_skill_row \<Rightarrow> uuid \<times> uuid" where
  "technician_skill_key s = (tsk_technician_id s, tsk_skill_id s)"

definition insert_technician_skill :: "technician_skill_row \<Rightarrow> db \<Rightarrow> go_error + db" where
  "insert_technician_skill s d =
     checked
       [(list_ex (same_key tsk_id s) (technician_skills d), unique_violation ''technician_skills_pkey''),
        (list_ex (same_key technician_skill_key s) (technician_skills d),
           unique_violation ''technician_skills_technician_skill_unique''),
        (missing te_id (technicians d) (tsk_technician_id s),
           foreign_key_violation ''technician_skills_technician_id_fkey''),
        (missing sk_id (skills d) (tsk_skill_id s),
           foreign_key_violation ''technician_skills_skill_id_fkey'')]
       (d\<lparr>technician_skills := technician_skills d @ [s]\<rparr>)"

text \<open>\<open>LIMIT l OFFSET o\<close>: PostgreSQL refuses negative values.\<close>

definition page :: "int \<Rightarrow> int \<Rightarrow> 'r list \<Rightarrow> 'r list result" where
  "page l off rows =
     (if to_int32 l < 0 then Inl (PgError ''2201W'' [] ''LIMIT must not be negative'')
      else if to_int32 off < 0 then Inl (PgError ''2201X'' [] ''OFFSET must not be negative'')
      else Inr (limit_offset (nat (to_int32 l)) (nat (to_int32 off)) rows))"

text \<open>Converting every row, stopping at the first error.\<close>

fun convert_rows :: "('r \<Rightarrow> 'a result) \<Rightarrow> 'r list \<Rightarrow> 'a list result" where
  "convert_rows f [] = Inr []"
| "convert_rows f (r # rs) = rbind (f r) (\<lambda>x. rbind (convert_rows f rs) (\<lambda>xs. Inr (x # xs)))"

lemma convert_rows_ok:
  "convert_rows f rs = Inr xs \<longleftrightarrow> length xs = length rs \<and> (\<forall>i<length rs. f (rs ! i) = Inr (xs ! i))"
proof (induction rs arbitrary: xs)
  case (Cons r rs)
  show ?case
  proof (cases xs)
    case (Cons y ys)
    then show ?thesis using Cons.IH by (auto simp: ok_iff nth_Cons less_Suc_eq_0_disj split: nat.split)
  qed (auto simp: ok_iff)
qed auto

section \<open>Technicians\<close>

definition technician_user_row :: "uuid \<Rightarrow> Technician \<Rightarrow> user_row" where
  "technician_user_row dealershipID t =
     \<lparr>us_id = t_userID t, us_auth_user_id = uuid_Nil, us_name = t_name t, us_phone = Some (t_phone t),
      us_email = t_email t, us_dealership_id = dealershipID, us_is_active = t_isActive t,
      us_created_at = to_pg (t_createdAt t), us_deleted_at = None, us_updated_at = to_pg (t_updatedAt t)\<rparr>"

definition technician_row_of :: "Technician \<Rightarrow> technician_row" where
  "technician_row_of t =
     \<lparr>te_id = t_id t, te_user_id = t_userID t, te_is_active = t_isActive t,
      te_created_at = to_pg (t_createdAt t), te_deleted_at = None, te_updated_at = to_pg (t_updatedAt t)\<rparr>"

text \<open>One statement inserts the user and the technician.\<close>

definition CreateTechnician_sql :: "uuid \<Rightarrow> Technician \<Rightarrow> db \<Rightarrow> go_error + db" where
  "CreateTechnician_sql dealershipID t d =
     rbind (insert_user (technician_user_row dealershipID t) d) (insert_technician (technician_row_of t))"

definition CreateTechnician_repo ::
  "(string \<Rightarrow> string option) \<Rightarrow> uuid \<Rightarrow> Technician \<Rightarrow> (db, go_error, Technician) action" where
  "CreateTechnician_repo parse_address dealershipID t d =
     (case CreateTechnician_sql dealershipID t d of
        Inl err \<Rightarrow> (technicianFromRow parse_address (Inl err), d)
      | Inr d' \<Rightarrow> (technicianFromRow parse_address
          (Inr (technician_row_of t, technician_user_row dealershipID t)), d'))"

definition ListTechniciansForDealership ::
  "db \<Rightarrow> uuid \<Rightarrow> bool option \<Rightarrow> int \<Rightarrow> int \<Rightarrow> (technician_row \<times> user_row) list result" where
  "ListTechniciansForDealership d dealershipID isActive limit off =
     page limit off
       (order_by (\<lambda>(t, u). te_created_at t) (order_by (\<lambda>(t, u). te_id t)
         (filter (\<lambda>(t, u). us_id u = te_user_id t \<and> us_dealership_id u = dealershipID
             \<and> (isActive = None \<or> isActive = Some (te_is_active t))
             \<and> te_deleted_at t = None \<and> us_deleted_at u = None)
           (List.product (technicians d) (users d)))))"

definition ListTechnicians_repo ::
  "(string \<Rightarrow> string option) \<Rightarrow> db \<Rightarrow> uuid \<Rightarrow> bool option \<Rightarrow> int \<Rightarrow> int \<Rightarrow> Technician list result" where
  "ListTechnicians_repo parse_address d dealershipID isActive limit off =
     rbind (ListTechniciansForDealership d dealershipID isActive limit off)
       (convert_rows (\<lambda>tu. technicianFromRow parse_address (Inr tu)))"

text \<open>One statement updates the user of the technician, if it is one of the dealership, and
  the technician of the updated user.\<close>

definition technician_user_key :: "db \<Rightarrow> uuid \<Rightarrow> uuid \<Rightarrow> user_row \<Rightarrow> bool" where
  "technician_user_key d technicianID dealershipID u \<longleftrightarrow>
     list_ex (\<lambda>t. te_id t = technicianID \<and> te_deleted_at t = None \<and> te_user_id t = us_id u) (technicians d)
     \<and> us_dealership_id u = dealershipID \<and> us_deleted_at u = None"

definition UpdateTechnicianForDealership ::
  "Technician \<Rightarrow> uuid \<Rightarrow> db \<Rightarrow> ((technician_row \<times> user_row) \<times> db) result" where
  "UpdateTechnicianForDealership t dealershipID d =
     (let uk = technician_user_key d (t_id t) dealershipID;
          fu = (\<lambda>u. u\<lparr>us_name := t_name t, us_phone := Some (t_phone t), us_email := t_email t,
                     us_is_active := t_isActive t, us_updated_at := to_pg (t_updatedAt t)\<rparr>);
          tk = (\<lambda>r. te_id r = t_id t \<and> list_ex (\<lambda>u. uk u \<and> us_id u = te_user_id r) (users d));
          ft = (\<lambda>r. r\<lparr>te_is_active := t_isActive t, te_updated_at := to_pg (t_updatedAt t)\<rparr>) in
      rbind (checked (concat (map user_row_checks (map fu (filter uk (users d)))))
               (d\<lparr>users := update_where uk fu (users d),
                  technicians := update_where tk ft (technicians d)\<rparr>)) (\<lambda>d'.
      case find_row (\<lambda>(r, u). tk r \<and> uk u \<and> us_id u = te_user_id r)
             (List.product (technicians d) (users d)) of
        None \<Rightarrow> Inl ErrNoRows
      | Some (r, u) \<Rightarrow> Inr ((ft r, fu u), d')))"

definition UpdateTechnician_repo ::
  "(string \<Rightarrow> string option) \<Rightarrow> uuid \<Rightarrow> Technician \<Rightarrow> (db, go_error, Technician) action" where
  "UpdateTechnician_repo parse_address dealershipID t d =
     (case UpdateTechnicianForDealership t dealershipID d of
        Inl err \<Rightarrow> (technicianFromRow parse_address (Inl err), d)
      | Inr (row, d') \<Rightarrow> (technicianFromRow parse_address (Inr row), d'))"

definition DeactivateTechnician_repo :: "uuid \<Rightarrow> uuid \<Rightarrow> gotime \<Rightarrow> (db, go_error, unit) action" where
  "DeactivateTechnician_repo dealershipID technicianID now d =
     (let key = (\<lambda>t. te_id t = technicianID \<and> te_deleted_at t = None
            \<and> list_ex (\<lambda>u. us_id u = te_user_id t \<and> us_dealership_id u = dealershipID
                \<and> us_deleted_at u = None) (users d)) in
      if count_where key (technicians d) = 0 then (Inl (AppPeopleErr ErrTechnicianNotFound), d)
      else (Inr (), d\<lparr>technicians := update_where key
              (\<lambda>t. t\<lparr>te_is_active := False, te_updated_at := to_pg now\<rparr>) (technicians d)\<rparr>))"

section \<open>Listings of shifts and time off\<close>

definition ListTechnicianShifts_repo :: "db \<Rightarrow> uuid \<Rightarrow> uuid \<Rightarrow> TechnicianShift list result" where
  "ListTechnicianShifts_repo d dealershipID technicianID =
     convert_rows (\<lambda>s. technicianShiftFromRow (Some s))
       (order_by shf_day_of_week (order_by shf_starts_at
         (filter (\<lambda>s. shf_technician_id s = technicianID \<and> shf_deleted_at s = None
             \<and> technician_in_dealership d (shf_technician_id s) dealershipID) (shifts d))))"

text \<open>Without a lower bound the listing starts at the current time.\<close>

definition ListTechnicianTimeOff_repo ::
  "gotime \<Rightarrow> db \<Rightarrow> uuid \<Rightarrow> gotime option \<Rightarrow> gotime option \<Rightarrow> int \<Rightarrow> int \<Rightarrow> TechnicianTimeOff list result" where
  "ListTechnicianTimeOff_repo clock d technicianID from_time to_time limit off =
     (let fromAt = to_pg (case from_time of None \<Rightarrow> time_UTC clock | Some t \<Rightarrow> t) in
      rbind (page limit off
        (order_by off_starts_at (order_by off_id
          (filter (\<lambda>t. off_technician_id t = technicianID \<and> off_deleted_at t = None
              \<and> off_ends_at t > fromAt
              \<and> (case to_time of None \<Rightarrow> True | Some e \<Rightarrow> off_starts_at t < to_pg e)) (time_offs d)))))
        (convert_rows (\<lambda>t. technicianTimeOffFromValues (Some t))))"

section \<open>Technician skills\<close>

definition GetActiveTechnician :: "db \<Rightarrow> uuid \<Rightarrow> uuid result" where
  "GetActiveTechnician d technicianID =
     (case find_row (\<lambda>t. te_id t = technicianID \<and> te_is_active t \<and> te_deleted_at t = None) (technicians d) of
        None \<Rightarrow> Inl ErrNoRows
      | Some t \<Rightarrow> Inr (te_id t))"

definition ActiveSkillExists :: "db \<Rightarrow> uuid \<Rightarrow> bool" where
  "ActiveSkillExists d skillID \<longleftrightarrow> list_ex (\<lambda>s. sk_id s = skillID \<and> sk_is_active s) (skills d)"

definition ensureActiveTechnicianSkillTargets :: "uuid \<Rightarrow> uuid \<Rightarrow> db \<Rightarrow> unit result" where
  "ensureActiveTechnicianSkillTargets technicianID skillID d =
     rbind (rerr (no_rows_as (AppPeopleErr ErrTechnicianNotFound)) (GetActiveTechnician d technicianID)) (\<lambda>_.
     rguard (ActiveSkillExists d skillID) (AppCatalogErr ErrSkillNotFound))"

definition technicianSkillFromRow :: "technician_skill_row result \<Rightarrow> TechnicianSkill result" where
  "technicianSkillFromRow row =
     (case row of
        Inl err \<Rightarrow>
          (if IsUniqueViolationError (Some err) ''technician_skills_technician_skill_unique''
           then Inl (AppPeopleErr ErrTechnicianSkillTaken)
           else if errors_is err ErrNoRows then Inl (AppPeopleErr ErrTechnicianSkillNotFound)
           else Inl err)
      | Inr s \<Rightarrow> RehydrateTechnicianSkill (tsk_id s) (tsk_technician_id s) (tsk_skill_id s)
          (from_pg (tsk_created_at s)) (from_pg (tsk_updated_at s)))"

definition technician_skill_row_of :: "TechnicianSkill \<Rightarrow> technician_skill_row" where
  "technician_skill_row_of s =
     \<lparr>tsk_id = ts_id s, tsk_technician_id = ts_technicianID s, tsk_skill_id = ts_skillID s,
      tsk_created_at = to_pg (ts_createdAt s), tsk_updated_at = to_pg (ts_updatedAt s)\<rparr>"

definition active_pair :: "db \<Rightarrow> uuid \<Rightarrow> uuid \<Rightarrow> bool" where
  "active_pair d technicianID skillID \<longleftrightarrow>
     list_ex (\<lambda>t. te_id t = technicianID \<and> te_is_active t \<and> te_deleted_at t = None) (technicians d)
     \<and> ActiveSkillExists d skillID"

definition CreateTechnicianSkill_sql :: "TechnicianSkill \<Rightarrow> db \<Rightarrow> (technician_skill_row \<times> db) result" where
  "CreateTechnicianSkill_sql s d =
     (if active_pair d (ts_technicianID s) (ts_skillID s)
      then rbind (insert_technician_skill (technician_skill_row_of s) d)
             (\<lambda>d'. Inr (technician_skill_row_of s, d'))
      else Inl ErrNoRows)"

definition CreateTechnicianSkill_repo :: "TechnicianSkill \<Rightarrow> (db, go_error, TechnicianSkill) action" where
  "CreateTechnicianSkill_repo s d =
     (case ensureActiveTechnicianSkillTargets (ts_technicianID s) (ts_skillID s) d of
        Inl err \<Rightarrow> (Inl err, d)
      | Inr _ \<Rightarrow>
          (case CreateTechnicianSkill_sql s d of
             Inl err \<Rightarrow> (technicianSkillFromRow (Inl err), d)
           | Inr (row, d') \<Rightarrow> (technicianSkillFromRow (Inr row), d')))"

definition GetTechnicianSkill_repo :: "db \<Rightarrow> uuid \<Rightarrow> uuid \<Rightarrow> TechnicianSkill result" where
  "GetTechnicianSkill_repo d technicianID technicianSkillID =
     technicianSkillFromRow
       (case find_row (\<lambda>s. tsk_id s = technicianSkillID \<and> tsk_technician_id s = technicianID
                \<and> list_ex (\<lambda>t. te_id t = tsk_technician_id s \<and> te_is_active t \<and> te_deleted_at t = None)
                    (technicians d)) (technician_skills d) of
          None \<Rightarrow> Inl ErrNoRows
        | Some s \<Rightarrow> Inr s)"

definition ListTechnicianSkills_repo :: "db \<Rightarrow> uuid \<Rightarrow> TechnicianSkill list result" where
  "ListTechnicianSkills_repo d technicianID =
     rbind (rerr (no_rows_as (AppPeopleErr ErrTechnicianNotFound)) (GetActiveTechnician d technicianID)) (\<lambda>_.
     convert_rows (\<lambda>s. technicianSkillFromRow (Inr s))
       (order_by tsk_created_at (order_by tsk_id
         (filter (\<lambda>s. tsk_technician_id s = technicianID) (technician_skills d)))))"

definition UpdateTechnicianSkill_sql :: "TechnicianSkill \<Rightarrow> db \<Rightarrow> (technician_skill_row \<times> db) result" where
  "UpdateTechnicianSkill_sql s d =
     (let key = (\<lambda>r. tsk_id r = ts_id s \<and> tsk_technician_id r = ts_technicianID s
            \<and> active_pair d (tsk_technician_id r) (ts_skillID s));
          f = (\<lambda>r. r\<lparr>tsk_skill_id := ts_skillID s, tsk_updated_at := to_pg (ts_updatedAt s)\<rparr>);
          rows = update_where key f (technician_skills d) in
      rbind (checked
        [(\<not> conflict_free (same_key technician_skill_key) rows,
            unique_violation ''technician_skills_technician_skill_unique'')]
        (d\<lparr>technician_skills := rows\<rparr>)) (\<lambda>d'.
      case find_row key (technician_skills d) of None \<Rightarrow> Inl ErrNoRows | Some r \<Rightarrow> Inr (f r, d')))"

definition UpdateTechnicianSkill_repo :: "TechnicianSkill \<Rightarrow> (db, go_error, TechnicianSkill) action" where
  "UpdateTechnicianSkill_repo s d =
     (case ensureActiveTechnicianSkillTargets (ts_technicianID s) (ts_skillID s) d of
        Inl err \<Rightarrow> (Inl err, d)
      | Inr _ \<Rightarrow>
          (case UpdateTechnicianSkill_sql s d of
             Inl err \<Rightarrow> (technicianSkillFromRow (Inl err), d)
           | Inr (row, d') \<Rightarrow> (technicianSkillFromRow (Inr row), d')))"

definition DeleteTechnicianSkill_repo :: "uuid \<Rightarrow> uuid \<Rightarrow> (db, go_error, unit) action" where
  "DeleteTechnicianSkill_repo technicianID technicianSkillID d =
     (case GetActiveTechnician d technicianID of
        Inl err \<Rightarrow> (Inl (no_rows_as (AppPeopleErr ErrTechnicianNotFound) err), d)
      | Inr _ \<Rightarrow>
          (let key = (\<lambda>s. tsk_id s = technicianSkillID \<and> tsk_technician_id s = technicianID) in
           if count_where key (technician_skills d) = 0
           then (Inl (AppPeopleErr ErrTechnicianSkillNotFound), d)
           else (Inr (), d\<lparr>technician_skills := filter (\<lambda>s. \<not> key s) (technician_skills d)\<rparr>)))"

end
