(* ===== verification/Workforce_Service.thy ===== *)
theory Workforce_Service
  imports Workforce_Repository
begin

text \<open>
  The use cases on technicians, their shifts, time off and skills (app/service.go): who may do
  them for which dealership, what they check, what they write.

  \<open>parse_address\<close> is \<open>mail.ParseAddress\<close>; \<open>zone\<close> and \<open>timezone\<close> stand for what the query behind
  \<open>HasFutureAppointmentsOutsideTechnicianShift\<close> would read; \<open>faults\<close> are the driver failures of
  a locked transaction.
\<close>

definition valueOr :: "'a option \<Rightarrow> 'a \<Rightarrow> 'a" where
  "valueOr value fallback = (case value of None \<Rightarrow> fallback | Some v \<Rightarrow> v)"

section \<open>Technicians\<close>

definition authorizeTechnicians :: "service_env \<Rightarrow> uuid \<Rightarrow> (db, go_error, uuid) action" where
  "authorizeTechnicians env actorID =
     andThen (ensure (actorID \<noteq> uuid_Nil)
       (NewUnauthorizedError ''authentication_required'' ''authentication required'')) (\<lambda>_.
     let forbidden = NewForbiddenError ''technician_access_forbidden'' ''you are not allowed to manage technicians'' in
     andThen (ensure (actorRole env actorID = Inr ''admin'') forbidden) (\<lambda>_.
     on_err (\<lambda>err. if errors_is err (AppPeopleErr ErrTechnicianNotFound) then forbidden else err)
       (query_res (\<lambda>d. GetGlobalAdminDealership d actorID))))"

definition technicianError :: "go_error \<Rightarrow> go_error" where
  "technicianError err =
     (if errors_is err (AppPeopleErr ErrTechnicianNotFound)
        then NewNotFoundError ''technician_not_found'' ''technician was not found''
      else if errors_is err (AppPeopleErr ErrTechnicianPhoneTaken)
        then NewConflictError ''technician_phone_taken'' ''a technician with this phone already exists''
      else if errors_is err (AppPeopleErr ErrTechnicianEmailTaken)
        then NewConflictError ''technician_email_taken'' ''a technician with this email already exists''
      else err)"

definition invalidTechnicianInput :: "go_error \<Rightarrow> go_error" where
  "invalidTechnicianInput err =
     (if errors_is err (PeopleErr ErrTechnicianPhoneInvalid) \<or> errors_is err (PeopleErr ErrTechnicianEmailInvalid)
      then CommonError 422 (error_text err) ''invalid_technician_details'' None []
      else NewInvalidInputError ''invalid_technician_details'' (error_text err))"

record CreateTechnicianInput =
  ct_Name :: string
  ct_Phone :: string
  ct_Email :: "string option"
  ct_IsActive :: bool

definition CreateTechnician ::
  "(string \<Rightarrow> string option) \<Rightarrow> service_env \<Rightarrow> uuid \<Rightarrow> CreateTechnicianInput \<Rightarrow> (db, go_error, Technician) action" where
  "CreateTechnician parse_address env actorID input =
     andThen (authorizeTechnicians env actorID) (\<lambda>dealershipID.
     andThen (lift_res (rerr invalidTechnicianInput
        (NewTechnician parse_address (sv_newID env 0) (sv_newID env 1) (ct_Name input) (ct_Phone input)
           (ct_Email input) (ct_IsActive input) (sv_now env 0)))) (\<lambda>technician.
     on_err technicianError (CreateTechnician_repo parse_address dealershipID technician)))"

definition ListTechnicians ::
  "(string \<Rightarrow> string option) \<Rightarrow> service_env \<Rightarrow> uuid \<Rightarrow> bool option \<Rightarrow> int \<Rightarrow> int
     \<Rightarrow> (db, go_error, Technician list) action" where
  "ListTechnicians parse_address env actorID isActive limit off =
     andThen (authorizeTechnicians env actorID) (\<lambda>dealershipID.
     andThen (ensure (\<not> (limit < 1 \<or> limit > 100 \<or> off < 0))
       (NewInvalidInputError ''invalid_pagination''
          ''limit must be between 1 and 100 and offset cannot be negative'')) (\<lambda>_.
     query_res (\<lambda>d. ListTechnicians_repo parse_address d dealershipID isActive limit off)))"

definition GetTechnician_service ::
  "(string \<Rightarrow> string option) \<Rightarrow> service_env \<Rightarrow> uuid \<Rightarrow> uuid \<Rightarrow> (db, go_error, Technician) action" where
  "GetTechnician_service parse_address env actorID technicianID =
     andThen (authorizeTechnicians env actorID) (\<lambda>dealershipID.
     on_err technicianError (query_res (\<lambda>d. GetTechnician parse_address d dealershipID technicianID)))"

record UpdateTechnicianInput =
  ut_Name :: "string option"
  ut_Phone :: "string option"
  ut_Email :: "string option"
  ut_EmailPresent :: bool
  ut_IsActive :: "bool option"

definition UpdateTechnician ::
  "(string \<Rightarrow> string option) \<Rightarrow> service_env \<Rightarrow> uuid \<Rightarrow> uuid \<Rightarrow> UpdateTechnicianInput
     \<Rightarrow> (db, go_error, Technician) action" where
  "UpdateTechnician parse_address env actorID technicianID input =
     andThen (authorizeTechnicians env actorID) (\<lambda>dealershipID.
     andThen (on_err technicianError
        (query_res (\<lambda>d. GetTechnician parse_address d dealershipID technicianID))) (\<lambda>current.
     let email = (if ut_EmailPresent input then ut_Email input else t_email current) in
     andThen (lift_res (rerr invalidTechnicianInput
        (Technician_Update parse_address (valueOr (ut_Name input) (t_name current))
           (valueOr (ut_Phone input) (t_phone current)) email
           (valueOr (ut_IsActive input) (t_isActive current)) (sv_now env 0) current))) (\<lambda>updated.
     on_err technicianError (UpdateTechnician_repo parse_address dealershipID updated))))"

definition DeactivateTechnician ::
  "(string \<Rightarrow> string option) \<Rightarrow> service_env \<Rightarrow> uuid \<Rightarrow> uuid \<Rightarrow> (db, go_error, unit) action" where
  "DeactivateTechnician parse_address env actorID technicianID =
     andThen (authorizeTechnicians env actorID) (\<lambda>dealershipID.
     andThen (on_err technicianError
        (query_res (\<lambda>d. GetTechnician parse_address d dealershipID technicianID))) (\<lambda>technician.
     if \<not> t_isActive technician then ret ()
     else
     andThen (query (\<lambda>d. HasFutureActiveTechnicianAppointments d technicianID (sv_now env 0))) (\<lambda>hasAppointments.
     andThen (ensure (\<not> hasAppointments)
       (NewConflictError ''technician_future_active_appointments''
          ''future active appointments must be reassigned or cancelled before deactivating this technician'')) (\<lambda>_.
     on_err technicianError (DeactivateTechnician_repo dealershipID technicianID (sv_now env 1))))))"

section \<open>Shifts\<close>

definition authorizeTechnicianShifts :: "service_env \<Rightarrow> uuid \<Rightarrow> (db, go_error, uuid) action" where
  "authorizeTechnicianShifts env actorID =
     andThen (ensure (actorID \<noteq> uuid_Nil)
       (NewUnauthorizedError ''unauthenticated'' ''authentication required'')) (\<lambda>_.
     let forbidden = NewForbiddenError ''forbidden'' ''you are not allowed to manage technician shifts'' in
     andThen (ensure (actorRole env actorID = Inr ''admin'') forbidden) (\<lambda>_.
     on_err (\<lambda>err. if errors_is err (AppPeopleErr ErrTechnicianNotFound) then forbidden else err)
       (query_res (\<lambda>d. GetGlobalAdminDealership d actorID))))"

definition technicianShiftError :: "go_error \<Rightarrow> go_error" where
  "technicianShiftError err =
     (if errors_is err (AppPeopleErr ErrTechnicianNotFound)
        then NewNotFoundError ''technician_not_found'' ''technician was not found''
      else if errors_is err (AppPeopleErr ErrTechnicianShiftNotFound)
        then NewNotFoundError ''shift_not_found'' ''technician shift was not found''
      else if errors_is err (AppPeopleErr ErrTechnicianShiftOverlaps)
        then NewConflictError ''shift_overlap'' ''shift overlaps an existing shift''
      else err)"

definition invalidTechnicianShiftInput :: "go_error \<Rightarrow> go_error" where
  "invalidTechnicianShiftInput err = CommonError 422 (error_text err) ''validation_failed'' None []"

text \<open>The technician of the dealership, who has to be active.\<close>

definition active_technician ::
  "(string \<Rightarrow> string option) \<Rightarrow> uuid \<Rightarrow> uuid \<Rightarrow> (db, go_error, Technician) action" where
  "active_technician parse_address dealershipID technicianID =
     andThen (on_err technicianShiftError
        (query_res (\<lambda>d. GetTechnician parse_address d dealershipID technicianID))) (\<lambda>technician.
     andThen (ensure (t_isActive technician)
       (NewNotFoundError ''technician_not_found'' ''technician was not found'')) (\<lambda>_.
     ret technician))"

record CreateTechnicianShiftInput =
  cs_DayOfWeek :: int
  cs_StartsAt :: int
  cs_EndsAt :: int

definition CreateTechnicianShift ::
  "(string \<Rightarrow> string option) \<Rightarrow> service_env \<Rightarrow> uuid \<Rightarrow> uuid \<Rightarrow> CreateTechnicianShiftInput
     \<Rightarrow> (db, go_error, TechnicianShift) action" where
  "CreateTechnicianShift parse_address env actorID technicianID input =
     andThen (authorizeTechnicianShifts env actorID) (\<lambda>dealershipID.
     andThen (active_technician parse_address dealershipID technicianID) (\<lambda>_.
     andThen (lift_res (rerr invalidTechnicianShiftInput
        (NewTechnicianShift (sv_newID env 0) technicianID (cs_DayOfWeek input) (cs_StartsAt input)
           (cs_EndsAt input) (sv_now env 0)))) (\<lambda>shift.
     andThen (on_err technicianShiftError (CreateTechnicianShift_repo shift)) (\<lambda>_.
     ret shift))))"

definition ListTechnicianShifts ::
  "(string \<Rightarrow> string option) \<Rightarrow> service_env \<Rightarrow> uuid \<Rightarrow> uuid \<Rightarrow> (db, go_error, TechnicianShift list) action" where
  "ListTechnicianShifts parse_address env actorID technicianID =
     andThen (authorizeTechnicianShifts env actorID) (\<lambda>dealershipID.
     andThen (active_technician parse_address dealershipID technicianID) (\<lambda>_.
     query_res (\<lambda>d. ListTechnicianShifts_repo d dealershipID technicianID)))"

record UpdateTechnicianShiftInput =
  us_DayOfWeek :: "int option"
  us_StartsAt :: "int option"
  us_EndsAt :: "int option"

definition UpdateTechnicianShift ::
  "(string \<Rightarrow> string option) \<Rightarrow> zone_db \<Rightarrow> (user_row \<Rightarrow> string) \<Rightarrow> service_env \<Rightarrow> uuid \<Rightarrow> uuid \<Rightarrow> uuid
     \<Rightarrow> UpdateTechnicianShiftInput \<Rightarrow> (db, go_error, TechnicianShift) action" where
  "UpdateTechnicianShift parse_address zone timezone env actorID technicianID shiftID input =
     andThen (authorizeTechnicianShifts env actorID) (\<lambda>dealershipID.
     andThen (active_technician parse_address dealershipID technicianID) (\<lambda>_.
     andThen (on_err technicianShiftError
        (query_res (\<lambda>d. GetTechnicianShift_repo d dealershipID technicianID shiftID))) (\<lambda>current.
     andThen (lift_res (rerr invalidTechnicianShiftInput
        (Shift_Update (valueOr (us_DayOfWeek input) (sh_dayOfWeek current))
           (valueOr (us_StartsAt input) (sh_startsAt current))
           (valueOr (us_EndsAt input) (sh_endsAt current)) (sv_now env 0) current))) (\<lambda>updated.
     andThen (query_res (\<lambda>d. HasFutureAppointmentsOutsideTechnicianShift zone timezone d technicianID
        updated shiftID (sv_now env 1))) (\<lambda>invalid.
     andThen (ensure (\<not> invalid)
       (NewConflictError ''appointment_schedule_conflict''
          ''the shift change would invalidate future active appointments'')) (\<lambda>_.
     andThen (on_err technicianShiftError (UpdateTechnicianShift_repo dealershipID updated)) (\<lambda>_.
     ret updated)))))))"

text \<open>The zero value of the struct, which the deletion passes as its candidate.\<close>

definition zero_shift :: TechnicianShift where
  "zero_shift = \<lparr>sh_id = uuid_Nil, sh_technicianID = uuid_Nil, sh_dayOfWeek = 0, sh_startsAt = 0,
     sh_endsAt = 0, sh_createdAt = time_zero, sh_updatedAt = time_zero\<rparr>"

definition DeleteTechnicianShift ::
  "(string \<Rightarrow> string option) \<Rightarrow> zone_db \<Rightarrow> (user_row \<Rightarrow> string) \<Rightarrow> service_env \<Rightarrow> uuid \<Rightarrow> uuid \<Rightarrow> uuid
     \<Rightarrow> (db, go_error, unit) action" where
  "DeleteTechnicianShift parse_address zone timezone env actorID technicianID shiftID =
     andThen (authorizeTechnicianShifts env actorID) (\<lambda>dealershipID.
     andThen (active_technician parse_address dealershipID technicianID) (\<lambda>_.
     andThen (on_err technicianShiftError
        (query_res (\<lambda>d. GetTechnicianShift_repo d dealershipID technicianID shiftID))) (\<lambda>shift.
     andThen (query_res (\<lambda>d. HasFutureAppointmentsOutsideTechnicianShift zone timezone d technicianID
        zero_shift (sh_id shift) (sv_now env 0))) (\<lambda>invalid.
     andThen (ensure (\<not> invalid)
       (NewConflictError ''appointment_schedule_conflict''
          ''deleting the shift would invalidate future active appointments'')) (\<lambda>_.
     on_err technicianShiftError (DeleteTechnicianShift_repo dealershipID technicianID shiftID (sv_now env 1)))))))"

section \<open>Time off\<close>

definition time_off_forbidden :: go_error where
  "time_off_forbidden = NewForbiddenError ''forbidden'' ''you are not allowed to manage technician time off''"

definition authorizeTechnicianTimeOff :: "service_env \<Rightarrow> uuid \<Rightarrow> (db, go_error, uuid) action" where
  "authorizeTechnicianTimeOff env actorID =
     andThen (ensure (actorID \<noteq> uuid_Nil)
       (NewUnauthorizedError ''unauthenticated'' ''authentication required'')) (\<lambda>_.
     andThen (ensure (actorRole env actorID = Inr ''admin'' \<or> actorRole env actorID = Inr ''staff'')
       time_off_forbidden) (\<lambda>_.
     on_err (\<lambda>_. time_off_forbidden) (query_res (\<lambda>d. GetEmployeeDealership d actorID))))"

definition technicianTimeOffError :: "go_error \<Rightarrow> go_error" where
  "technicianTimeOffError err =
     (if errors_is err (AppPeopleErr ErrTechnicianNotFound)
        then NewNotFoundError ''technician_not_found'' ''technician was not found''
      else if errors_is err (AppPeopleErr ErrTechnicianTimeOffNotFound)
        then NewNotFoundError ''time_off_not_found'' ''technician time off was not found''
      else if errors_is err (AppPeopleErr ErrTechnicianTimeOffOverlaps)
        then NewConflictError ''time_off_overlap'' ''time off overlaps an existing interval''
      else if errors_is err (AppPeopleErr ErrTechnicianTimeOffAppointmentConflict)
        then NewConflictError ''appointment_schedule_conflict'' ''time off overlaps an active appointment''
      else err)"

definition invalidTechnicianTimeOffInput :: "go_error \<Rightarrow> go_error" where
  "invalidTechnicianTimeOffInput err =
     NewInvalidInputError ''invalid_time_off_interval'' ''endsAt must be after startsAt''"

record CreateTechnicianTimeOffInput =
  cto_StartsAt :: gotime
  cto_EndsAt :: gotime
  cto_Reason :: "string option"

definition CreateTechnicianTimeOff ::
  "(string \<Rightarrow> string option) \<Rightarrow> tx_faults \<Rightarrow> service_env \<Rightarrow> uuid \<Rightarrow> uuid \<Rightarrow> CreateTechnicianTimeOffInput
     \<Rightarrow> (db, go_error, TechnicianTimeOff) action" where
  "CreateTechnicianTimeOff parse_address faults env actorID technicianID input =
     andThen (authorizeTechnicianTimeOff env actorID) (\<lambda>dealershipID.
     andThen (on_err technicianTimeOffError
        (query_res (\<lambda>d. GetTechnician parse_address d dealershipID technicianID))) (\<lambda>_.
     andThen (on_err (\<lambda>_. time_off_forbidden) (query_res (\<lambda>d. GetSchedulerUserID d actorID))) (\<lambda>createdByUserID.
     andThen (lift_res (rerr invalidTechnicianTimeOffInput
        (NewTechnicianTimeOff (sv_newID env 0) technicianID createdByUserID (cto_StartsAt input)
           (cto_EndsAt input) (cto_Reason input) (sv_now env 0)))) (\<lambda>item.
     andThen (on_err technicianTimeOffError (CreateTechnicianTimeOff_repo faults item)) (\<lambda>_.
     ret item)))))"

definition ListTechnicianTimeOff ::
  "(string \<Rightarrow> string option) \<Rightarrow> gotime \<Rightarrow> service_env \<Rightarrow> uuid \<Rightarrow> uuid \<Rightarrow> gotime option \<Rightarrow> gotime option
     \<Rightarrow> int \<Rightarrow> int \<Rightarrow> (db, go_error, TechnicianTimeOff list) action" where
  "ListTechnicianTimeOff parse_address clock env actorID technicianID from_time to_time limit off =
     andThen (authorizeTechnicianTimeOff env actorID) (\<lambda>dealershipID.
     andThen (on_err technicianTimeOffError
        (query_res (\<lambda>d. GetTechnician parse_address d dealershipID technicianID))) (\<lambda>_.
     query_res (\<lambda>d. ListTechnicianTimeOff_repo clock d technicianID from_time to_time limit off)))"

definition GetTechnicianTimeOff ::
  "(string \<Rightarrow> string option) \<Rightarrow> service_env \<Rightarrow> uuid \<Rightarrow> uuid \<Rightarrow> uuid \<Rightarrow> (db, go_error, TechnicianTimeOff) action" where
  "GetTechnicianTimeOff parse_address env actorID technicianID timeOffID =
     andThen (authorizeTechnicianTimeOff env actorID) (\<lambda>dealershipID.
     andThen (on_err technicianTimeOffError
        (query_res (\<lambda>d. GetTechnician parse_address d dealershipID technicianID))) (\<lambda>_.
     on_err technicianTimeOffError (query_res (\<lambda>d. GetTechnicianTimeOff_repo d technicianID timeOffID))))"

record UpdateTechnicianTimeOffInput =
  uto_StartsAt :: "gotime option"
  uto_EndsAt :: "gotime option"
  uto_Reason :: "string option"
  uto_ReasonSet :: bool

definition UpdateTechnicianTimeOff ::
  "(string \<Rightarrow> string option) \<Rightarrow> tx_faults \<Rightarrow> service_env \<Rightarrow> uuid \<Rightarrow> uuid \<Rightarrow> uuid \<Rightarrow> UpdateTechnicianTimeOffInput
     \<Rightarrow> (db, go_error, TechnicianTimeOff) action" where
  "UpdateTechnicianTimeOff parse_address faults env actorID technicianID timeOffID input =
     andThen (GetTechnicianTimeOff parse_address env actorID technicianID timeOffID) (\<lambda>item.
     let reason = (if uto_ReasonSet input then uto_Reason input else to_reason item) in
     andThen (lift_res (rerr invalidTechnicianTimeOffInput
        (TimeOff_Update (valueOr (uto_StartsAt input) (to_startsAt item))
           (valueOr (uto_EndsAt input) (to_endsAt item)) reason (sv_now env 0) item))) (\<lambda>updated.
     andThen (on_err technicianTimeOffError (UpdateTechnicianTimeOff_repo faults updated)) (\<lambda>_.
     ret updated)))"

definition DeleteTechnicianTimeOff ::
  "(string \<Rightarrow> string option) \<Rightarrow> service_env \<Rightarrow> uuid \<Rightarrow> uuid \<Rightarrow> uuid \<Rightarrow> (db, go_error, unit) action" where
  "DeleteTechnicianTimeOff parse_address env actorID technicianID timeOffID =
     andThen (authorizeTechnicianTimeOff env actorID) (\<lambda>dealershipID.
     andThen (on_err technicianTimeOffError
        (query_res (\<lambda>d. GetTechnician parse_address d dealershipID technicianID))) (\<lambda>_.
     on_err technicianTimeOffError
       (DeleteTechnicianTimeOff_repo technicianID timeOffID (sv_now env 0))))"

section \<open>Skills\<close>

definition authorizeTechnicianSkills :: "uuid \<Rightarrow> (db, go_error, unit) action" where
  "authorizeTechnicianSkills actorID =
     andThen (ensure (actorID \<noteq> uuid_Nil)
       (NewUnauthorizedError ''authentication_required'' ''authentication required'')) (\<lambda>_.
     andThen (query (\<lambda>d. IsActiveSchedulerAdmin d actorID)) (\<lambda>isAdmin.
     ensure isAdmin (NewForbiddenError ''technician_skill_access_forbidden''
       ''you are not allowed to manage technician skills'')))"

definition technicianSkillError :: "go_error \<Rightarrow> go_error" where
  "technicianSkillError err =
     (if errors_is err (AppPeopleErr ErrTechnicianNotFound)
        then NewNotFoundError ''technician_not_found'' ''technician was not found''
      else if errors_is err (AppCatalogErr ErrSkillNotFound)
        then NewNotFoundError ''skill_not_found'' ''skill was not found''
      else if errors_is err (AppPeopleErr ErrTechnicianSkillNotFound)
        then NewNotFoundError ''technician_skill_not_found'' ''technician skill was not found''
      else if errors_is err (AppPeopleErr ErrTechnicianSkillTaken)
        then NewConflictError ''technician_skill_taken'' ''the technician already has this skill''
      else err)"

definition invalidTechnicianSkillInput :: "go_error \<Rightarrow> go_error" where
  "invalidTechnicianSkillInput err = NewInvalidInputError ''invalid_technician_skill'' (error_text err)"

definition CreateTechnicianSkill ::
  "service_env \<Rightarrow> uuid \<Rightarrow> uuid \<Rightarrow> uuid \<Rightarrow> (db, go_error, TechnicianSkill) action" where
  "CreateTechnicianSkill env actorID technicianID skillID =
     andThen (authorizeTechnicianSkills actorID) (\<lambda>_.
     andThen (lift_res (rerr invalidTechnicianSkillInput
        (NewTechnicianSkill (sv_newID env 0) technicianID skillID (sv_now env 0)))) (\<lambda>skill.
     on_err technicianSkillError (CreateTechnicianSkill_repo skill)))"

definition ListTechnicianSkills :: "uuid \<Rightarrow> uuid \<Rightarrow> (db, go_error, TechnicianSkill list) action" where
  "ListTechnicianSkills actorID technicianID =
     andThen (authorizeTechnicianSkills actorID) (\<lambda>_.
     on_err technicianSkillError (query_res (\<lambda>d. ListTechnicianSkills_repo d technicianID)))"

definition UpdateTechnicianSkill ::
  "service_env \<Rightarrow> uuid \<Rightarrow> uuid \<Rightarrow> uuid \<Rightarrow> uuid option \<Rightarrow> (db, go_error, TechnicianSkill) action" where
  "UpdateTechnicianSkill env actorID technicianID technicianSkillID skillID =
     (case skillID of
        None \<Rightarrow> throw (NewInvalidInputError ''request_body_required'' ''skill_id is required'')
      | Some skillID \<Rightarrow>
          andThen (authorizeTechnicianSkills actorID) (\<lambda>_.
          andThen (on_err technicianSkillError
             (query_res (\<lambda>d. GetTechnicianSkill_repo d technicianID technicianSkillID))) (\<lambda>current.
          andThen (lift_res (rerr invalidTechnicianSkillInput
             (TechnicianSkill_WithSkill skillID (sv_now env 0) current))) (\<lambda>updated.
          on_err technicianSkillError (UpdateTechnicianSkill_repo updated)))))"

definition DeleteTechnicianSkill :: "uuid \<Rightarrow> uuid \<Rightarrow> uuid \<Rightarrow> (db, go_error, unit) action" where
  "DeleteTechnicianSkill actorID technicianID technicianSkillID =
     andThen (authorizeTechnicianSkills actorID) (\<lambda>_.
     on_err technicianSkillError (DeleteTechnicianSkill_repo technicianID technicianSkillID))"

section \<open>Who may do what\<close>

lemma authorizeTechnicians_ok [ok_iff]:
  "authorizeTechnicians env actorID d = (Inr dl, d') \<longleftrightarrow>
     actorID \<noteq> uuid_Nil \<and> actorRole env actorID = Inr ''admin''
     \<and> GetGlobalAdminDealership d actorID = Inr dl \<and> d' = d"
  by (auto simp: authorizeTechnicians_def ok_iff Let_def)

lemma authorizeTechnicianShifts_ok [ok_iff]:
  "authorizeTechnicianShifts env actorID d = (Inr dl, d') \<longleftrightarrow>
     actorID \<noteq> uuid_Nil \<and> actorRole env actorID = Inr ''admin''
     \<and> GetGlobalAdminDealership d actorID = Inr dl \<and> d' = d"
  by (auto simp: authorizeTechnicianShifts_def ok_iff Let_def)

lemma authorizeTechnicianTimeOff_ok [ok_iff]:
  "authorizeTechnicianTimeOff env actorID d = (Inr dl, d') \<longleftrightarrow>
     actorID \<noteq> uuid_Nil \<and> (actorRole env actorID = Inr ''admin'' \<or> actorRole env actorID = Inr ''staff'')
     \<and> GetEmployeeDealership d actorID = Inr dl \<and> d' = d"
  by (auto simp: authorizeTechnicianTimeOff_def ok_iff)

lemma authorizeTechnicianSkills_ok [ok_iff]:
  "authorizeTechnicianSkills actorID d = (Inr u, d') \<longleftrightarrow>
     actorID \<noteq> uuid_Nil \<and> IsActiveSchedulerAdmin d actorID \<and> d' = d"
  by (auto simp: authorizeTechnicianSkills_def ok_iff)

lemma active_technician_ok [ok_iff]:
  "active_technician parse_address dealershipID technicianID d = (Inr t, d') \<longleftrightarrow>
     GetTechnician parse_address d dealershipID technicianID = Inr t \<and> t_isActive t \<and> d' = d"
  by (auto simp: active_technician_def ok_iff)

lemma technician_reads [simp]:
  "readonly (authorizeTechnicians env actorID)"
  "readonly (authorizeTechnicianShifts env actorID)"
  "readonly (authorizeTechnicianTimeOff env actorID)"
  "readonly (authorizeTechnicianSkills actorID)"
  "readonly (active_technician parse_address dealershipID technicianID)"
  unfolding authorizeTechnicians_def authorizeTechnicianShifts_def authorizeTechnicianTimeOff_def
    authorizeTechnicianSkills_def active_technician_def Let_def
  by (auto intro!: readonly_andThen readonly_on_err)

text \<open>A technician found for a dealership belongs to it.\<close>

lemma GetTechnician_in_dealership:
  assumes "GetTechnician parse_address d dealershipID technicianID = Inr t"
  shows "technician_in_dealership d technicianID dealershipID \<and> t_id t = technicianID"
proof -
  obtain r u where row: "GetTechnicianForDealership d technicianID dealershipID = Inr (r, u)"
    using assms by (auto simp: GetTechnician_def technicianFromRow_def split: sum.splits if_splits)
  then have "(r, u) \<in> set (List.product (technicians d) (users d)) \<and> us_id u = te_user_id r
      \<and> te_id r = technicianID \<and> us_dealership_id u = dealershipID \<and> te_deleted_at r = None
      \<and> us_deleted_at u = None"
    by (auto simp: GetTechnicianForDealership_def split: option.splits dest: find_row_Some)
  moreover have "t_id t = te_id r"
    using assms row
    by (auto simp: GetTechnician_def technicianFromRow_def RehydrateTechnician_def NewTechnician_def
        rbind_def split: option.splits if_splits sum.splits prod.splits)
  ultimately show ?thesis by (auto simp: technician_in_dealership_def list_ex_iff)
qed

section \<open>What the use cases do\<close>

text \<open>Shift changes and deletions never succeed: the query they depend on is rejected.\<close>

lemma outside_shift_refuses:
  "refuses (query_res (\<lambda>d. HasFutureAppointmentsOutsideTechnicianShift zone timezone d t c e now))"
  by (rule refuses_query_res) (simp add: outside_shift_fails)

lemmas shift_change_refuses = refuses_andThen [OF outside_shift_refuses]

lemma UpdateTechnicianShift_refuses:
  "refuses (UpdateTechnicianShift parse_address zone timezone env actorID technicianID shiftID input)"
  unfolding UpdateTechnicianShift_def
  by (intro refuses_later shift_change_refuses) auto

lemma DeleteTechnicianShift_refuses:
  "refuses (DeleteTechnicianShift parse_address zone timezone env actorID technicianID shiftID)"
  unfolding DeleteTechnicianShift_def
  by (intro refuses_later shift_change_refuses) auto

text \<open>A deactivation touches nothing but the technician, and only one without open work.\<close>

lemma DeactivateTechnician_repo_ok:
  assumes "DeactivateTechnician_repo dealershipID technicianID now d = (Inr u, d')"
  shows "technician_in_dealership d technicianID dealershipID"
    and "d' = d\<lparr>technicians := technicians d'\<rparr>"
    and "filter (\<lambda>t. te_id t \<noteq> technicianID) (technicians d') = filter (\<lambda>t. te_id t \<noteq> technicianID) (technicians d)"
proof -
  let ?key = "\<lambda>t. te_id t = technicianID \<and> te_deleted_at t = None
            \<and> list_ex (\<lambda>u. us_id u = te_user_id t \<and> us_dealership_id u = dealershipID
                \<and> us_deleted_at u = None) (users d)"
  let ?f = "\<lambda>t. t\<lparr>te_is_active := False, te_updated_at := to_pg now\<rparr>"
  have n: "count_where ?key (technicians d) \<noteq> 0"
    and d': "d' = d\<lparr>technicians := update_where ?key ?f (technicians d)\<rparr>"
    using assms by (auto simp: DeactivateTechnician_repo_def Let_def split: if_splits)
  show "technician_in_dealership d technicianID dealershipID"
    using n unfolding count_where_0 technician_in_dealership_def list_ex_iff by blast
  show "d' = d\<lparr>technicians := technicians d'\<rparr>" by (simp add: d')
  have "filter (\<lambda>t. te_id t \<noteq> technicianID) (update_where ?key ?f ts) = filter (\<lambda>t. te_id t \<noteq> technicianID) ts" for ts
    by (induction ts) (auto simp: update_where_def)
  then show "filter (\<lambda>t. te_id t \<noteq> technicianID) (technicians d') = filter (\<lambda>t. te_id t \<noteq> technicianID) (technicians d)"
    by (simp add: d')
qed

lemma DeactivateTechnician_ok:
  assumes "DeactivateTechnician parse_address env actorID technicianID d = (Inr u, d')"
  shows "\<exists>dl t. GetGlobalAdminDealership d actorID = Inr dl \<and> GetTechnician parse_address d dl technicianID = Inr t
     \<and> (if t_isActive t
        then \<not> HasFutureActiveTechnicianAppointments d technicianID (sv_now env 0)
          \<and> DeactivateTechnician_repo dl technicianID (sv_now env 1) d = (Inr (), d')
        else d' = d)"
  using assms unfolding DeactivateTechnician_def
  by (auto simp: ok_iff split: if_splits)

end
