(* ===== verification/Requests.thy ===== *)
theory Requests
  imports Booking Appointment_Service Workforce_Service
begin

text \<open>
  The appointment requests as a whole: what a handler's answer says about the database, in any
  world of the transaction (driver failures, lost commit answers, retries, other sessions).

  \<open>*_cases\<close> split a use case into "refused before the transaction" and "ran the
  repository's transaction". The locales \<open>appointment_invariant\<close> and \<open>workforce_invariant\<close> lift an
  invariant of the statements to the use cases and to sequences of requests; the interpretations
  \<open>bookings\<close> and \<open>workforce_bookings\<close> do so for the invariant of theory Booking.
\<close>

section \<open>From the repository to the transaction body\<close>

lemma issued_by_handlers:
  assumes "(s, t) \<in> {(AppointmentRequested, AppointmentCheckedIn),
        (AppointmentCheckedIn, AppointmentInProgress), (AppointmentInProgress, AppointmentCompleted),
        (NoStatus, AppointmentCancelled)}"
    and "t = AppointmentCancelled \<Longrightarrow> reason \<noteq> None \<and> reason \<noteq> Some []"
  shows "issued_transition (status_transition env i dl us s t actual reason note)"
  using assms by (simp add: issued_transition_def status_transition_def)

text \<open>An invariant both transaction bodies of the appointment endpoints keep; the lemmas lift it
  to the repository, the use cases and, below, to sequences of requests.\<close>

locale appointment_invariant =
  fixes I :: "db \<Rightarrow> bool"
  assumes schedule_body: "I d \<Longrightarrow> sar_AppointmentID r \<noteq> uuid_Nil \<Longrightarrow>
      ScheduleAppointment_tx zone ids (r, d) = (Inr (), (r', d')) \<Longrightarrow> I d'"
    and transition_step: "I d \<Longrightarrow> issued_transition tr \<Longrightarrow> transition_body e tr d = Inr d' \<Longrightarrow> I d'"
begin

lemma ScheduleAppointment_repo_keeps:
  assumes "sound_world w" and inv: "I d" and others: "\<And>i t. I t \<Longrightarrow> I (w_others w i t)"
    and id': "sar_AppointmentID r \<noteq> uuid_Nil"
    and run: "ScheduleAppointment_repo w zone ids r d = (res, d')"
  shows "I d'"
proof -
  obtain c' where tx: "updateInTxWithIsolation w (\<lambda>i. ScheduleAppointment_tx zone (ids i)) (r, d) = (res, (c', d'))"
    using run unfolding ScheduleAppointment_repo_def UpdateInSerializableTx_def
    by (auto split: prod.splits)
  show ?thesis
  proof (rule tx_invariant_captured [OF assms(1) tx, where I = I and C = "same_request r",
        OF inv same_request_refl])
    fix i c0 s0 c1 s1
    assume "same_request r c0" and "I s0"
      and "ScheduleAppointment_tx zone (ids i) (c0, s0) = (Inr (), (c1, s1))"
    moreover from this have "sar_AppointmentID c0 \<noteq> uuid_Nil"
      using id' same_request_fields [of r c0] by simp
    ultimately show "I s1" using schedule_body by blast
  qed (use others ScheduleAppointment_tx_record in \<open>blast+\<close>)
qed

lemma TransitionAppointment_keeps:
  assumes "sound_world w" and inv: "I d" and others: "\<And>i t. I t \<Longrightarrow> I (w_others w i t)"
    and issued: "issued_transition tr" and run: "TransitionAppointment w ev tr d = (res, d')"
  shows "I d'"
proof -
  obtain u where tx: "updateInTxWithIsolation w (\<lambda>i. TransitionAppointment_tx (ev i) tr) ((), d) = (res, (u, d'))"
    using run unfolding TransitionAppointment_def UpdateInSerializableTx_def
    by (auto split: prod.splits)
  show ?thesis
    by (rule tx_invariant [OF assms(1) tx, where I = I, OF inv others])
      (use issued transition_step in \<open>auto simp: TransitionAppointment_tx_ok\<close>)
qed

lemma ChangeAppointmentStatus_keeps:
  assumes "sound_world w" and inv: "I d" and others: "\<And>i t. I t \<Longrightarrow> I (w_others w i t)"
    and pair: "(s, t) \<in> {(AppointmentRequested, AppointmentCheckedIn),
        (AppointmentCheckedIn, AppointmentInProgress), (AppointmentInProgress, AppointmentCompleted),
        (NoStatus, AppointmentCancelled)}"
    and run: "ChangeAppointmentStatus env w ev actorID i s t actual reason note d = (res, d')"
  shows "I d'"
  using run
proof (cases rule: ChangeAppointmentStatus_cases)
  case refused
  then show ?thesis using inv by simp
next
  case (ran dl us)
  show ?thesis
    by (rule TransitionAppointment_keeps [OF assms(1) inv others issued_by_handlers [OF pair ran(4)] ran(7)])
qed

lemma ScheduleAppointment_keeps:
  assumes "sound_world w" and inv: "I d" and others: "\<And>i t. I t \<Longrightarrow> I (w_others w i t)"
    and "sv_newID env 0 \<noteq> uuid_Nil"
    and run: "ScheduleAppointment env w zone ids actorID input d = (res, d')"
  shows "I d'"
  using run
proof (cases rule: ScheduleAppointment_cases)
  case refused
  then show ?thesis using inv by simp
next
  case (ran dl us r0)
  have "sar_AppointmentID (schedule_record env input dl us) \<noteq> uuid_Nil"
    using assms(4) by (simp add: schedule_record_def Let_def)
  then show ?thesis using ScheduleAppointment_repo_keeps [OF assms(1) inv others _ ran(4)] by blast
qed

end

section \<open>Requests\<close>

text \<open>A request to the appointment endpoints, and its handling. The parts of the world a call
  depends on come with it.\<close>

datatype appointment_request =
    ReqSchedule "ScheduleAppointmentInput option"
  | ReqCheckIn uuid "string option"
  | ReqStart uuid "string option"
  | ReqComplete uuid "gotime option" "string option"
  | ReqCancel uuid "(string \<times> string option) option"

record call =
  c_env :: service_env
  c_schedule_world :: "(ScheduleAppointmentRecord, db) world"
  c_status_world :: "(unit, db) world"
  c_ids :: "nat \<Rightarrow> uuid \<times> uuid \<times> uuid"
  c_auditEvents :: "nat \<Rightarrow> uuid"
  c_actor :: uuid
  c_request :: appointment_request

definition handle :: "zone_db \<Rightarrow> call \<Rightarrow> db \<Rightarrow> appointment_answer \<times> db" where
  "handle zone c =
     (let env = c_env c; actor = c_actor c; w = c_status_world c; ev = c_auditEvents c in
      case c_request c of
        ReqSchedule body \<Rightarrow>
          ScheduleAppointment_handler env (c_schedule_world c) zone (c_ids c) actor body
      | ReqCheckIn i note \<Rightarrow> CheckInAppointment_handler env w ev actor i note
      | ReqStart i note \<Rightarrow> StartAppointment_handler env w ev actor i note
      | ReqComplete i actual note \<Rightarrow> CompleteAppointment_handler env w ev actor i actual note
      | ReqCancel i body \<Rightarrow> CancelAppointment_handler env w ev actor i body)"

fun serve :: "zone_db \<Rightarrow> call list \<Rightarrow> db \<Rightarrow> appointment_answer list \<times> db" where
  "serve zone [] d = ([], d)"
| "serve zone (c # cs) d =
     (case handle zone c d of (a, d') \<Rightarrow> case serve zone cs d' of (as, d'') \<Rightarrow> (a # as, d''))"

text \<open>What is assumed of the surroundings of a call: the retry loop keeps its contract, lost
  commit answers do not read like serialization failures, other sessions keep the invariant,
  and the id generator does not return the zero uuid.\<close>

definition call_within :: "(db \<Rightarrow> bool) \<Rightarrow> call \<Rightarrow> bool" where
  "call_within I c \<longleftrightarrow> sound_world (c_schedule_world c) \<and> sound_world (c_status_world c)
     \<and> (\<forall>i t. I t \<longrightarrow> I (w_others (c_schedule_world c) i t))
     \<and> (\<forall>i t. I t \<longrightarrow> I (w_others (c_status_world c) i t))
     \<and> sv_newID (c_env c) 0 \<noteq> uuid_Nil"

definition call_ok :: "call \<Rightarrow> bool" where
  "call_ok = call_within booking_inv"

lemmas handler_defs = ScheduleAppointment_handler_def CheckInAppointment_handler_def
  StartAppointment_handler_def CompleteAppointment_handler_def CancelAppointment_handler_def

context appointment_invariant
begin

lemma handle_keeps:
  assumes ok: "call_within I c" and inv: "I d" and run: "handle zone c d = (a, d')"
  shows "I d'"
proof -
  have sw: "sound_world (c_schedule_world c)" "sound_world (c_status_world c)"
    and so: "\<And>i t. I t \<Longrightarrow> I (w_others (c_schedule_world c) i t)"
    and wo: "\<And>i t. I t \<Longrightarrow> I (w_others (c_status_world c) i t)"
    and new: "sv_newID (c_env c) 0 \<noteq> uuid_Nil"
    using ok by (simp_all add: call_within_def)
  note change = ChangeAppointmentStatus_keeps [OF sw(2) inv wo]
  note schedule = ScheduleAppointment_keeps [OF sw(1) inv so new]
  show ?thesis
  proof (cases "c_request c")
    case (ReqSchedule body)
    then show ?thesis using run inv schedule
      by (auto simp: handle_def handler_defs split: option.splits prod.splits sum.splits)
  next
    case (ReqCancel i body)
    then show ?thesis using run inv change [of NoStatus AppointmentCancelled]
      by (auto simp: handle_def handler_defs split: option.splits prod.splits)
  next
    case (ReqCheckIn i n)
    then show ?thesis using run change [of AppointmentRequested AppointmentCheckedIn]
      by (auto simp: handle_def handler_defs split: prod.splits)
  next
    case (ReqStart i n)
    then show ?thesis using run change [of AppointmentCheckedIn AppointmentInProgress]
      by (auto simp: handle_def handler_defs split: prod.splits)
  next
    case (ReqComplete i actual n)
    then show ?thesis using run change [of AppointmentInProgress AppointmentCompleted]
      by (auto simp: handle_def handler_defs split: prod.splits)
  qed
qed

lemma serve_keeps:
  "list_all (call_within I) cs \<Longrightarrow> I d \<Longrightarrow> serve zone cs d = (as, d') \<Longrightarrow> I d'"
proof (induction cs arbitrary: d as)
  case (Cons c cs)
  obtain a d1 where 1: "handle zone c d = (a, d1)" by (rule prod.exhaust)
  then show ?case
    using Cons.prems Cons.IH [of d1] handle_keeps [of c d zone a d1] by (auto split: prod.splits)
qed simp

end

interpretation bookings: appointment_invariant booking_inv
  by unfold_locales (erule schedule_keeps transition_keeps; assumption)+

section \<open>What an answer says\<close>

text \<open>A call in a calm world: nothing fails around it and no other session commits during it.\<close>

definition calm_call :: "call \<Rightarrow> bool" where
  "calm_call c \<longleftrightarrow> (\<exists>retry retry'. backoff_contract retry \<and> backoff_contract retry'
     \<and> c_schedule_world c = calm retry \<and> c_status_world c = calm retry')"

lemma calm_schedule_ran:
  assumes "backoff_contract retry" and "ScheduleAppointment_repo (calm retry) zone ids r d = (res, d')"
  shows "case res of Inl e \<Rightarrow> d' = d
    | Inr _ \<Rightarrow> \<exists>k<10. \<exists>r0 r'. same_request r r0
        \<and> ScheduleAppointment_tx zone (ids k) (r0, d) = (Inr (), (r', d'))"
proof -
  obtain c' where tx: "updateInTxWithIsolation (calm retry) (\<lambda>i. ScheduleAppointment_tx zone (ids i)) (r, d) = (res, (c', d'))"
    using assms(2) unfolding ScheduleAppointment_repo_def UpdateInSerializableTx_def
    by (auto split: prod.splits)
  show ?thesis
  proof (cases res)
    case (Inl e)
    then show ?thesis using calm_failure [OF assms(1)] tx by simp
  next
    case (Inr u)
    let ?f = "\<lambda>i. ScheduleAppointment_tx zone (ids i)"
    obtain k where "k < 10" and "?f k (fst (after_attempts (retried_operation (calm retry) ?f) k (r, d)), d)
        = (Inr (), (c', d'))"
      by (rule calm_success [OF assms(1) tx [unfolded Inr]])
    moreover have "same_request r (fst (after_attempts (retried_operation (calm retry) ?f) k (r, d)))"
      by (rule after_attempts_captured [where C = "same_request r"])
        (use ScheduleAppointment_tx_record in \<open>auto\<close>)
    ultimately show ?thesis unfolding Inr by auto
  qed
qed

lemma calm_transition_ran:
  assumes "backoff_contract retry" and "TransitionAppointment (calm retry) ev tr d = (res, d')"
  shows "case res of Inl e \<Rightarrow> d' = d | Inr _ \<Rightarrow> \<exists>k<10. transition_body (ev k) tr d = Inr d'"
proof -
  obtain u where tx: "updateInTxWithIsolation (calm retry) (\<lambda>i. TransitionAppointment_tx (ev i) tr) ((), d) = (res, (u, d'))"
    using assms(2) unfolding TransitionAppointment_def UpdateInSerializableTx_def
    by (auto split: prod.splits)
  show ?thesis
  proof (cases res)
    case (Inl e)
    then show ?thesis using calm_failure [OF assms(1)] tx by simp
  next
    case (Inr v)
    show ?thesis
      by (rule calm_success [OF assms(1) tx [unfolded Inr]]) (auto simp: Inr TransitionAppointment_tx_ok)
  qed
qed

lemma calm_change:
  assumes "backoff_contract retry"
    and "ChangeAppointmentStatus env (calm retry) ev actorID i s t actual reason n d = (res, d')"
  shows "case res of Inl e \<Rightarrow> d' = d
    | Inr _ \<Rightarrow> \<exists>k<10. \<exists>dl us. GetEmployeeDealership d actorID = Inr dl \<and> GetSchedulerUserID d actorID = Inr us
        \<and> transition_body (ev k) (status_transition env i dl us s t actual reason n) d = Inr d'"
  using assms(2)
proof (cases rule: ChangeAppointmentStatus_cases)
  case (ran dl us)
  show ?thesis
    using calm_transition_ran [OF assms(1) ran(7)] ran(5,6) by (cases res) auto
qed simp

text \<open>A problem means nothing happened.\<close>

lemma calm_handle_problem:
  assumes "calm_call c" and run: "handle zone c d = (Problem code e, d')"
  shows "d' = d"
proof -
  obtain retry retry' where b: "backoff_contract retry" "backoff_contract retry'"
      and w: "c_schedule_world c = calm retry" "c_status_world c = calm retry'"
    using assms(1) by (auto simp: calm_call_def)
  have change: "d' = d"
    if "ChangeAppointmentStatus env (calm retry') ev actorID i s t actual reason n d = (r, d')"
      "status_answer r = Problem code e" for env ev actorID i s t actual reason n r
    using calm_change [OF b(2) that(1)] that(2) by (auto simp: status_answer_def split: sum.splits)
  have schedule: "d' = d"
    if "ScheduleAppointment env (calm retry) zone ids actorID input d = (Inl e', d')"
    for env ids actorID input e'
    using that
  proof (cases rule: ScheduleAppointment_cases)
    case (ran dl us r0)
    then show ?thesis using calm_schedule_ran [OF b(1) ran(4)] by (auto split: sum.splits)
  qed simp
  show ?thesis
    using run unfolding handle_def handler_defs Let_def w
    by (auto split: appointment_request.splits option.splits prod.splits sum.splits
        dest: change schedule)
qed

text \<open>An appointment that was created is in the database, with the interval the rules give it.\<close>

lemma calm_handle_created:
  assumes "calm_call c" and "handle zone c d = (Created201 r, d')"
  shows "\<exists>ids r0 r'. same_request r r0 \<and> ScheduleAppointment_tx zone ids (r0, d) = (Inr (), (r', d'))
     \<and> sar_EndsAt r = time_zero"
proof -
  obtain retry where b: "backoff_contract retry" and w: "c_schedule_world c = calm retry"
    using assms(1) by (auto simp: calm_call_def)
  obtain input where "c_request c = ReqSchedule (Some input)"
      and run: "ScheduleAppointment (c_env c) (calm retry) zone (c_ids c) (c_actor c) input d = (Inr r, d')"
    using assms(2) unfolding handle_def handler_defs Let_def w status_answer_def
    by (auto split: appointment_request.splits option.splits prod.splits sum.splits)
  from run show ?thesis
  proof (cases rule: ScheduleAppointment_cases)
    case (ran dl us r0)
    have r: "r = schedule_record (c_env c) input dl us" and "\<exists>u. r0 = Inr u"
      using ran(5) by (auto split: sum.splits)
    then obtain k r0' r' where "same_request r r0'"
        and "ScheduleAppointment_tx zone (c_ids c k) (r0', d) = (Inr (), (r', d'))"
      using calm_schedule_ran [OF b ran(4)] by auto
    moreover have "sar_EndsAt r = time_zero" by (simp add: r schedule_record_def Let_def)
    ultimately show ?thesis by blast
  qed simp
qed

text \<open>A bookable request is booked, at the first attempt.\<close>

lemma calm_bookable_created:
  assumes "calm_call c" and "booking_inv d" and "c_request c = ReqSchedule (Some input)"
    and "validate_schedule_input input = Inr ()"
    and "GetEmployeeDealership d (c_actor c) = Inr dl" and "GetSchedulerUserID d (c_actor c) = Inr us"
    and "bookable zone (c_ids c 0) (schedule_record (c_env c) input dl us) d maxDuration"
  shows "handle zone c d = (Created201 (schedule_record (c_env c) input dl us),
    booked (resolved maxDuration (schedule_record (c_env c) input dl us)) (c_ids c 0) d)"
proof -
  let ?r = "schedule_record (c_env c) input dl us"
  obtain retry where b: "backoff_contract retry" and w: "c_schedule_world c = calm retry"
    using assms(1) by (auto simp: calm_call_def)
  have "ScheduleAppointment_tx zone (c_ids c 0) (?r, d) = (Inr (), (resolved maxDuration ?r, booked (resolved maxDuration ?r) (c_ids c 0) d))"
    using schedule_iff_bookable [OF assms(2)] assms(7) by blast
  then have "updateInTxWithIsolation (calm retry) (\<lambda>i. ScheduleAppointment_tx zone (c_ids c i)) (?r, d)
      = (Inr (), (resolved maxDuration ?r, booked (resolved maxDuration ?r) (c_ids c 0) d))"
    by (rule calm_run(1) [OF b])
  then show ?thesis
    using assms(3-6) unfolding handle_def ScheduleAppointment_handler_def ScheduleAppointment_def w
      ScheduleAppointment_repo_def UpdateInSerializableTx_def Let_def
    by (simp add: andThen_def on_err_def)
qed

text \<open>What a status change can touch: one appointment of the actor's dealership, its open
  reservations, and one new audit event.\<close>

lemma transition_frame:
  assumes "booking_ok d" and "transition_body e tr d = Inr d'"
  shows "x \<in> set (appointments d) \<Longrightarrow> ap_dealership_id x \<noteq> tr_DealershipID tr \<Longrightarrow> x \<in> set (appointments d')"
    and "map ap_id (appointments d') = map ap_id (appointments d)"
    and "\<exists>ev. audits d' = audits d @ [ev] \<and> au_id ev = e \<and> au_appointment_id ev = tr_AppointmentID tr
           \<and> au_actor_user_id ev = Some (tr_ActorUserID tr)"
proof -
  obtain a actual n where eff: "transition_effect e tr d d' a actual n"
    using transition_body_effect [OF assms(2)] by blast
  show "map ap_id (appointments d') = map ap_id (appointments d)" by (rule effect_ids [OF eff])
  show "\<exists>ev. audits d' = audits d @ [ev] \<and> au_id ev = e \<and> au_appointment_id ev = tr_AppointmentID tr
      \<and> au_actor_user_id ev = Some (tr_ActorUserID tr)"
    by (simp add: effect_tables(3) [OF eff] changed_audit_def audit_of_def)
  assume x: "x \<in> set (appointments d)" "ap_dealership_id x \<noteq> tr_DealershipID tr"
  then have "ap_id x \<noteq> tr_AppointmentID tr"
    using effect_unique [OF assms(1) eff x(1)] effect_row [OF eff] by auto
  then show "x \<in> set (appointments d')"
    using x(1) by (auto simp: effect_tables(1) [OF eff] set_update_where intro!: image_eqI [of x _ x])
qed

lemma change_frame:
  assumes "backoff_contract retry" and "booking_ok d"
    and "ChangeAppointmentStatus env (calm retry) ev actorID i s t actual reason n d = (res, d')"
    and "x \<in> set (appointments d)" and "GetEmployeeDealership d actorID \<noteq> Inr (ap_dealership_id x)"
  shows "x \<in> set (appointments d')"
  using calm_change [OF assms(1,3)] assms(4,5)
  by (cases res) (auto simp: status_transition_def dest: transition_frame(1) [OF assms(2)])

lemma change_audited:
  assumes "backoff_contract retry" and "booking_ok d"
    and "ChangeAppointmentStatus env (calm retry) ev actorID i s t actual reason n d = (Inr u, d')"
  shows "\<exists>us e. GetSchedulerUserID d actorID = Inr us \<and> audits d' = audits d @ [e]
    \<and> au_appointment_id e = i \<and> au_actor_user_id e = Some us"
  using calm_change [OF assms(1,3)]
  by (auto simp: status_transition_def dest!: transition_frame(3) [OF assms(2)])

section \<open>Workforce requests\<close>

text \<open>The requests of the workforce, and their handling: what the use case returned, and the
  database.\<close>

datatype workforce_request =
    WfCreateTechnician CreateTechnicianInput
  | WfUpdateTechnician uuid UpdateTechnicianInput
  | WfDeactivateTechnician uuid
  | WfCreateShift uuid CreateTechnicianShiftInput
  | WfUpdateShift uuid uuid UpdateTechnicianShiftInput
  | WfDeleteShift uuid uuid
  | WfCreateTimeOff uuid CreateTechnicianTimeOffInput
  | WfUpdateTimeOff uuid uuid UpdateTechnicianTimeOffInput
  | WfDeleteTimeOff uuid uuid
  | WfCreateSkill uuid uuid
  | WfUpdateSkill uuid uuid "uuid option"
  | WfDeleteSkill uuid uuid

definition workforce_use_case ::
  "(string \<Rightarrow> string option) \<Rightarrow> zone_db \<Rightarrow> (user_row \<Rightarrow> string) \<Rightarrow> tx_faults \<Rightarrow> service_env \<Rightarrow> uuid
     \<Rightarrow> workforce_request \<Rightarrow> (db, go_error, unit) action" where
  "workforce_use_case pa zone tz faults env actor req =
     (case req of
        WfCreateTechnician input \<Rightarrow> andThen (CreateTechnician pa env actor input) (\<lambda>_. ret ())
      | WfUpdateTechnician i input \<Rightarrow> andThen (UpdateTechnician pa env actor i input) (\<lambda>_. ret ())
      | WfDeactivateTechnician i \<Rightarrow> DeactivateTechnician pa env actor i
      | WfCreateShift i input \<Rightarrow> andThen (CreateTechnicianShift pa env actor i input) (\<lambda>_. ret ())
      | WfUpdateShift i j input \<Rightarrow> andThen (UpdateTechnicianShift pa zone tz env actor i j input) (\<lambda>_. ret ())
      | WfDeleteShift i j \<Rightarrow> DeleteTechnicianShift pa zone tz env actor i j
      | WfCreateTimeOff i input \<Rightarrow> andThen (CreateTechnicianTimeOff pa faults env actor i input) (\<lambda>_. ret ())
      | WfUpdateTimeOff i j input \<Rightarrow> andThen (UpdateTechnicianTimeOff pa faults env actor i j input) (\<lambda>_. ret ())
      | WfDeleteTimeOff i j \<Rightarrow> DeleteTechnicianTimeOff pa env actor i j
      | WfCreateSkill i k \<Rightarrow> andThen (CreateTechnicianSkill env actor i k) (\<lambda>_. ret ())
      | WfUpdateSkill i j k \<Rightarrow> andThen (UpdateTechnicianSkill env actor i j k) (\<lambda>_. ret ())
      | WfDeleteSkill i j \<Rightarrow> DeleteTechnicianSkill actor i j)"

lemma refuses_preserves: "refuses m \<Longrightarrow> preserves I m"
  unfolding refuses_def preserves_def by (metis snd_conv)

lemmas workforce_reads = preserves_readonly [OF technician_reads(1)]
  preserves_readonly [OF technician_reads(2)] preserves_readonly [OF technician_reads(3)]
  preserves_readonly [OF technician_reads(4)] preserves_readonly [OF technician_reads(5)]
  preserves_readonly [OF readonly_query_res] preserves_readonly [OF readonly_query]
  preserves_readonly [OF readonly_lift_res] preserves_readonly [OF readonly_ensure]
  preserves_readonly [OF readonly_ret] preserves_readonly [OF readonly_throw]

text \<open>An invariant every write of the workforce keeps.\<close>

locale workforce_invariant =
  fixes I :: "db \<Rightarrow> bool"
  assumes technician_writes: "preserves I (CreateTechnician_repo parse_address dl t)"
      "preserves I (UpdateTechnician_repo parse_address dl t)" "preserves I (DeactivateTechnician_repo dl i now)"
    and shift_writes: "preserves I (CreateTechnicianShift_repo s)"
    and skill_writes: "preserves I (CreateTechnicianSkill_repo ts)" "preserves I (UpdateTechnicianSkill_repo ts)"
      "preserves I (DeleteTechnicianSkill_repo i j)"
    and time_off_writes: "preserves I (CreateTechnicianTimeOff_repo faults item)"
      "preserves I (UpdateTechnicianTimeOff_repo faults item)" "preserves I (DeleteTechnicianTimeOff_repo i j now)"
begin

lemma workforce_preserves:
  "preserves I (workforce_use_case pa zone tz faults env actor req)"
proof (cases req)
  case (WfUpdateSkill i j k)
  then show ?thesis
    by (cases k) (auto simp: workforce_use_case_def UpdateTechnicianSkill_def
        intro!: preserves_intros workforce_reads skill_writes)
qed (auto simp: workforce_use_case_def CreateTechnician_def UpdateTechnician_def DeactivateTechnician_def
      CreateTechnicianShift_def CreateTechnicianTimeOff_def UpdateTechnicianTimeOff_def GetTechnicianTimeOff_def
      DeleteTechnicianTimeOff_def CreateTechnicianSkill_def DeleteTechnicianSkill_def Let_def
    intro!: preserves_intros workforce_reads technician_writes shift_writes skill_writes time_off_writes
      refuses_preserves [OF UpdateTechnicianShift_refuses] refuses_preserves [OF DeleteTechnicianShift_refuses])

end

text \<open>What the writes touch: technicians, users, shifts, skills and time off, nothing else.\<close>

definition workforce_frame :: "db \<Rightarrow> db \<Rightarrow> bool" where
  "workforce_frame d d' \<longleftrightarrow>
     d' = d\<lparr>users := users d', technicians := technicians d', shifts := shifts d',
            technician_skills := technician_skills d', time_offs := time_offs d'\<rparr>"

lemma workforce_frame_refl [simp]: "workforce_frame d d"
  by (simp add: workforce_frame_def)

lemma plain_workforce_writes:
  "CreateTechnician_repo parse_address dl t d = (r1, d') \<Longrightarrow> workforce_frame d d' \<and> time_offs d' = time_offs d"
  "UpdateTechnician_repo parse_address dl t d = (r1, d') \<Longrightarrow> workforce_frame d d' \<and> time_offs d' = time_offs d"
  "DeactivateTechnician_repo dl i now d = (r2, d') \<Longrightarrow> workforce_frame d d' \<and> time_offs d' = time_offs d"
  "CreateTechnicianShift_repo s d = (r2, d') \<Longrightarrow> workforce_frame d d' \<and> time_offs d' = time_offs d"
  "CreateTechnicianSkill_repo ts d = (r3, d') \<Longrightarrow> workforce_frame d d' \<and> time_offs d' = time_offs d"
  "UpdateTechnicianSkill_repo ts d = (r3, d') \<Longrightarrow> workforce_frame d d' \<and> time_offs d' = time_offs d"
  "DeleteTechnicianSkill_repo i j d = (r2, d') \<Longrightarrow> workforce_frame d d' \<and> time_offs d' = time_offs d"
  by (auto simp: CreateTechnician_repo_def CreateTechnician_sql_def insert_user_def insert_technician_def
        UpdateTechnician_repo_def UpdateTechnicianForDealership_def DeactivateTechnician_repo_def
        CreateTechnicianShift_repo_def insert_shift_def CreateTechnicianSkill_repo_def
        CreateTechnicianSkill_sql_def insert_technician_skill_def UpdateTechnicianSkill_repo_def
        UpdateTechnicianSkill_sql_def DeleteTechnicianSkill_repo_def
        Let_def checked_ok rbind_def on_err_def exec_def workforce_frame_def
      split: sum.splits prod.splits option.splits if_splits)

lemma time_off_writes_frame:
  "CreateTechnicianTimeOff_repo faults item d = (r, d') \<Longrightarrow> workforce_frame d d'"
  "UpdateTechnicianTimeOff_repo faults item d = (r, d') \<Longrightarrow> workforce_frame d d'"
  "DeleteTechnicianTimeOff_repo i j now d = (r, d') \<Longrightarrow> workforce_frame d d'"
proof -
  show "CreateTechnicianTimeOff_repo faults item d = (r, d') \<Longrightarrow> workforce_frame d d'"
    unfolding CreateTechnicianTimeOff_repo_def by (drule withTechnicianScheduleLock_cases)
      (auto simp: create_time_off_write_ok insert_time_off_ok workforce_frame_def)
  show "UpdateTechnicianTimeOff_repo faults item d = (r, d') \<Longrightarrow> workforce_frame d d'"
    unfolding UpdateTechnicianTimeOff_repo_def by (drule withTechnicianScheduleLock_cases)
      (auto simp: update_time_off_write_ok update_time_offs_ok workforce_frame_def)
  show "DeleteTechnicianTimeOff_repo i j now d = (r, d') \<Longrightarrow> workforce_frame d d'"
    by (drule DeleteTechnicianTimeOff_repo_cases) (auto simp: update_time_offs_ok workforce_frame_def)
qed

lemmas workforce_writes_frame = plain_workforce_writes [THEN conjunct1] time_off_writes_frame

lemma workforce_invariant_frame:
  assumes "\<And>d d'. I d \<Longrightarrow> workforce_frame d d' \<Longrightarrow> I d'"
  shows "workforce_invariant I"
  by unfold_locales (rule preservesI, erule assms, erule workforce_writes_frame)+

lemma workforce_frame_bookings:
  "workforce_frame d d' \<and> time_offs d' = time_offs d \<Longrightarrow> same_bookings d d'"
  unfolding workforce_frame_def same_bookings_def by (metis db.select_convs db.surjective db.update_convs)

interpretation workforce_bookings: workforce_invariant booking_inv
proof
  note keep = preservesI [of booking_inv] same_bookings_keeps [OF _ workforce_frame_bookings]
  show "preserves booking_inv (CreateTechnician_repo parse_address dl t)"
    "preserves booking_inv (UpdateTechnician_repo parse_address dl t)"
    "preserves booking_inv (DeactivateTechnician_repo dl i now)"
    "preserves booking_inv (CreateTechnicianShift_repo s)"
    "preserves booking_inv (CreateTechnicianSkill_repo ts)"
    "preserves booking_inv (UpdateTechnicianSkill_repo ts)"
    "preserves booking_inv (DeleteTechnicianSkill_repo i j)" for parse_address dl t i now s ts j
    by (rule keep(1), erule keep(2), erule plain_workforce_writes)+
  show "preserves booking_inv (CreateTechnicianTimeOff_repo faults item)" for faults item
    unfolding CreateTechnicianTimeOff_repo_def
    by (rule preservesI) (drule withTechnicianScheduleLock_cases, use create_time_off_keeps in blast)
  show "preserves booking_inv (UpdateTechnicianTimeOff_repo faults item)" for faults item
    unfolding UpdateTechnicianTimeOff_repo_def
    by (rule preservesI) (drule withTechnicianScheduleLock_cases, use update_time_off_keeps in blast)
  show "preserves booking_inv (DeleteTechnicianTimeOff_repo i j now)" for i j now
    by (rule preservesI) (rule delete_time_off_keeps)
qed

end
