(* ===== verification/Scenario.thy ===== *)
theory Scenario
  imports Requests
begin

text \<open>
  A concrete day in one dealership, run by the model's own definitions: two appointments of
  one technician and one bay back to back, the first checked in, started and completed, the
  second cancelled, then time off. It shows that the hypotheses of the booking theorems are
  satisfiable and what they say there.
\<close>

definition utc_zone :: zone_db where
  "utc_zone tz t = t"

text \<open>\<open>n\<close> minutes after Monday 1970-01-05 00:00 UTC.\<close>

definition monday :: "int \<Rightarrow> gotime" where
  "monday n = \<lparr>instant = 345600000000000 + n * 60000000000, loc = Loc_UTC\<rparr>"

definition shop :: db where
  "shop = empty_db\<lparr>
     dealerships := [\<lparr>dl_id = 1, dl_name = ''North'', dl_code = ''N1'', dl_address = ''1 Main St'',
        dl_timezone = ''UTC'', dl_is_active = True, dl_created_at = 0, dl_deleted_at = None,
        dl_updated_at = 0\<rparr>],
     operation_times := [\<lparr>op_id = 2, op_dealership_id = 1, op_day_of_week = 1,
        op_opens_at = 28800000000, op_closes_at = 64800000000, op_created_at = 0, op_updated_at = 0\<rparr>],
     users := [\<lparr>us_id = 3, us_auth_user_id = 30, us_name = ''Ann'', us_phone = Some ''+15550001'',
        us_email = None, us_dealership_id = 1, us_is_active = True, us_created_at = 0,
        us_deleted_at = None, us_updated_at = 0\<rparr>],
     user_roles := [\<lparr>ur_id = 31, ur_user_id = 3, ur_role_id = 0x00000000000040008000000000000001,
        ur_created_at = 0, ur_deleted_at = None\<rparr>],
     customers := [\<lparr>cu_id = 4, cu_name = ''Bob'', cu_phone = ''+15550002'', cu_email = None,
        cu_created_at = 0, cu_updated_at = 0\<rparr>],
     customer_dealerships := [\<lparr>cd_customer_id = 4, cd_dealership_id = 1, cd_created_at = 0\<rparr>],
     vehicles := [\<lparr>ve_id = 5, ve_customer_id = 4, ve_vin = Some ''VIN1'', ve_registration_plate = None,
        ve_make = ''Kia'', ve_model = ''Rio'', ve_model_year = None, ve_created_at = 0,
        ve_deleted_at = None, ve_updated_at = 0\<rparr>],
     service_types := [\<lparr>sty_id = 6, sty_dealership_id = 1, sty_name = ''Oil change'',
        sty_default_duration_minutes = 60, sty_min_duration_minutes = 30,
        sty_max_duration_minutes = 60, sty_is_active = True, sty_created_at = 0,
        sty_deleted_at = None, sty_updated_at = 0\<rparr>],
     skills := [\<lparr>sk_id = 7, sk_code = ''OIL'', sk_name = ''Oil'', sk_is_active = True\<rparr>],
     required_skills := [\<lparr>rsk_id = 8, rsk_service_type_id = 6, rsk_skill_id = 7, rsk_created_at = 0,
        rsk_updated_at = 0\<rparr>],
     service_bays := [\<lparr>bay_id = 9, bay_dealership_id = 1, bay_code = ''B1'', bay_name = ''Bay 1'',
        bay_is_active = True, bay_created_at = 0, bay_deleted_at = None, bay_updated_at = 0\<rparr>],
     technicians := [\<lparr>te_id = 10, te_user_id = 3, te_is_active = True, te_created_at = 0,
        te_deleted_at = None, te_updated_at = 0\<rparr>],
     technician_skills := [\<lparr>tsk_id = 11, tsk_technician_id = 10, tsk_skill_id = 7, tsk_created_at = 0,
        tsk_updated_at = 0\<rparr>],
     shifts := [\<lparr>shf_id = 12, shf_technician_id = 10, shf_day_of_week = 1,
        shf_starts_at = 28800000000, shf_ends_at = 64800000000, shf_created_at = 0,
        shf_deleted_at = None, shf_updated_at = 0\<rparr>]\<rparr>"

definition booking_request :: "uuid \<Rightarrow> string \<Rightarrow> int \<Rightarrow> int \<Rightarrow> ScheduleAppointmentRecord" where
  "booking_request i code from_min minutes' =
     \<lparr>sar_AppointmentID = i, sar_CustomerID = 4, sar_VehicleID = 5, sar_DealershipID = 1,
      sar_ServiceTypeID = 6, sar_TechnicianID = 10, sar_ServiceBayID = 9, sar_CreatedByUserID = 3,
      sar_ReferenceCode = code, sar_StartsAt = monday from_min, sar_EndsAt = time_zero,
      sar_CreatedAt = monday 0, sar_UpdatedAt = monday 0,
      sar_PlannedDurationMinutes = minutes', sar_Notes = None\<rparr>"

definition ids1 :: "uuid \<times> uuid \<times> uuid" where "ids1 = (101, 102, 103)"
definition ids2 :: "uuid \<times> uuid \<times> uuid" where "ids2 = (201, 202, 203)"

definition shop1 :: db where
  "shop1 = snd (snd (ScheduleAppointment_tx utc_zone ids1 (booking_request 100 ''A-1'' 540 0, shop)))"

definition shop2 :: db where
  "shop2 = snd (snd (ScheduleAppointment_tx utc_zone ids2 (booking_request 200 ''A-2'' 600 30, shop1)))"

lemma shop1_run: "fst (ScheduleAppointment_tx utc_zone ids1 (booking_request 100 ''A-1'' 540 0, shop)) = Inr ()"
  by code_simp

lemma shop2_run: "fst (ScheduleAppointment_tx utc_zone ids2 (booking_request 200 ''A-2'' 600 30, shop1)) = Inr ()"
  by code_simp

definition desk_request ::
  "uuid \<Rightarrow> AppointmentStatus \<Rightarrow> AppointmentStatus \<Rightarrow> int \<Rightarrow> string option \<Rightarrow> AppointmentTransition" where
  "desk_request i from_status to_status t reason =
     \<lparr>tr_AppointmentID = i, tr_DealershipID = 1, tr_ActorUserID = 3, tr_From = from_status,
      tr_To = to_status, tr_OccurredAt = monday t, tr_ActualEndsAt = None,
      tr_CancellationReason = reason, tr_Note = None\<rparr>"

text \<open>The requests of the day, in order, and the databases they lead to.\<close>

definition check_in_1 :: AppointmentTransition where
  "check_in_1 = desk_request 100 AppointmentRequested AppointmentCheckedIn 545 None"
definition start_1 :: AppointmentTransition where
  "start_1 = desk_request 100 AppointmentCheckedIn AppointmentInProgress 550 None"
definition complete_1 :: AppointmentTransition where
  "complete_1 = desk_request 100 AppointmentInProgress AppointmentCompleted 595 None"
definition cancel_2 :: AppointmentTransition where
  "cancel_2 = desk_request 200 NoStatus AppointmentCancelled 596 (Some ''ill'')"

definition after_transition :: "uuid \<Rightarrow> AppointmentTransition \<Rightarrow> db \<Rightarrow> db" where
  "after_transition e tr d = (case transition_body e tr d of Inl _ \<Rightarrow> d | Inr d' \<Rightarrow> d')"

definition shop3 :: db where "shop3 = after_transition 301 check_in_1 shop2"
definition shop4 :: db where "shop4 = after_transition 302 start_1 shop3"
definition shop5 :: db where "shop5 = after_transition 303 complete_1 shop4"
definition shop6 :: db where "shop6 = after_transition 304 cancel_2 shop5"

definition afternoon_off :: TechnicianTimeOff where
  "afternoon_off = \<lparr>to_id = 400, to_technicianID = 10, to_createdByUserID = 3,
     to_startsAt = monday 600, to_endsAt = monday 1080, to_reason = None,
     to_createdAt = monday 597, to_updatedAt = monday 597\<rparr>"

definition shop7 :: db where "shop7 = snd (create_time_off_write afternoon_off shop6)"

lemma after_transition_run:
  "isl (transition_body e tr d) = False \<Longrightarrow> transition_body e tr d = Inr (after_transition e tr d)"
  by (cases "transition_body e tr d") (simp_all add: after_transition_def)

lemma shop3_run: "transition_body 301 check_in_1 shop2 = Inr shop3"
  unfolding shop3_def by (rule after_transition_run) code_simp

lemma shop4_run: "transition_body 302 start_1 shop3 = Inr shop4"
  unfolding shop4_def by (rule after_transition_run) code_simp

lemma shop5_run: "transition_body 303 complete_1 shop4 = Inr shop5"
  unfolding shop5_def by (rule after_transition_run) code_simp

lemma shop6_run: "transition_body 304 cancel_2 shop5 = Inr shop6"
  unfolding shop6_def by (rule after_transition_run) code_simp

lemma shop7_ok: "fst (create_time_off_write afternoon_off shop6) = Inr ()"
  by code_simp

lemma issued_requests:
  "issued_transition check_in_1" "issued_transition start_1" "issued_transition complete_1"
  "issued_transition cancel_2"
  by (simp_all add: issued_transition_def check_in_1_def start_1_def complete_1_def cancel_2_def
      desk_request_def)

lemma fst_Inr_run: "fst p = Inr () \<Longrightarrow> p = (Inr (), (fst (snd p), snd (snd p)))"
  by (cases p) auto

lemma shop1_reachable: "booking_reachable utc_zone shop1"
proof (rule reachable_step [OF reachable_fresh])
  show "fresh_db shop" by (simp add: fresh_db_def shop_def empty_db_def)
  show "booking_step utc_zone shop shop1"
    by (rule step_schedule [OF fst_Inr_run [OF shop1_run], folded shop1_def])
      (simp add: booking_request_def uuid_Nil_def)
qed

lemma shop2_reachable: "booking_reachable utc_zone shop2"
  by (rule reachable_step [OF shop1_reachable],
      rule step_schedule [OF fst_Inr_run [OF shop2_run], folded shop2_def])
    (simp add: booking_request_def uuid_Nil_def)

lemma shop5_reachable: "booking_reachable utc_zone shop5"
  by (meson shop2_reachable reachable_step step_transition issued_requests shop3_run shop4_run shop5_run)

lemma shop6_reachable: "booking_reachable utc_zone shop6"
  by (meson shop5_reachable reachable_step step_transition issued_requests shop6_run)

lemma shop7_run: "create_time_off_write afternoon_off shop6 = (Inr (), shop7)"
  using shop7_ok unfolding shop7_def by (metis prod.collapse)

lemma shop7_reachable: "booking_reachable utc_zone shop7"
  by (rule reachable_step [OF shop6_reachable step_create_time_off [OF shop7_run]])

text \<open>Time off in the evening, with both appointments still open.\<close>

definition evening_off :: TechnicianTimeOff where
  "evening_off = afternoon_off\<lparr>to_startsAt := monday 700, to_endsAt := monday 800\<rparr>"

definition shop8 :: db where "shop8 = snd (create_time_off_write evening_off shop2)"

lemma shop8_ok: "fst (create_time_off_write evening_off shop2) = Inr ()"
  by code_simp

lemma shop8_run: "create_time_off_write evening_off shop2 = (Inr (), shop8)"
  using shop8_ok unfolding shop8_def by (metis prod.collapse)

lemma shop8_reachable: "booking_reachable utc_zone shop8"
  by (rule reachable_step [OF shop2_reachable step_create_time_off [OF shop8_run]])

lemma shop8_tables: "appointments shop8 = appointments shop2" "time_offs shop8 = time_offs shop2 @ [time_off_row_of evening_off]"
proof -
  have eq: "shop8 = shop2\<lparr>time_offs := time_offs shop2 @ [time_off_row_of evening_off]\<rparr>"
    using shop8_run unfolding create_time_off_write_ok insert_time_off_ok by (elim conjE)
  show "appointments shop8 = appointments shop2" unfolding eq by simp
  show "time_offs shop8 = time_offs shop2 @ [time_off_row_of evening_off]" unfolding eq by simp
qed

section \<open>Facts about the day\<close>

lemma shop2_facts:
  "length (appointments shop2) = 2 \<and> ap_id (appointments shop2 ! 0) \<noteq> ap_id (appointments shop2 ! 1)
   \<and> ap_active (appointments shop2 ! 0) \<and> ap_active (appointments shop2 ! 1)
   \<and> ap_technician_id (appointments shop2 ! 0) = 10 \<and> ap_technician_id (appointments shop2 ! 1) = 10"
  by code_simp

lemma shop2_mem: "appointments shop2 ! 0 \<in> set (appointments shop2)" "appointments shop2 ! 1 \<in> set (appointments shop2)"
  using shop2_facts by (auto intro: nth_mem)

lemma shop6_length: "length (appointments shop6) = 2"
  by code_simp

lemma shop6_mem: "appointments shop6 ! 0 \<in> set (appointments shop6)" "appointments shop6 ! 1 \<in> set (appointments shop6)"
  using shop6_length by (auto intro: nth_mem)

section \<open>The same day over HTTP\<close>

definition desk_env :: "uuid \<Rightarrow> int \<Rightarrow> service_env" where
  "desk_env base t =
     \<lparr>sv_newID = (\<lambda>k. if k = 0 then base else base * 2 ^ 96), sv_now = (\<lambda>k. monday t),
      sv_authorization = Some \<lparr>au_UserID = 30, au_Role = ''admin''\<rparr>,
      sv_GetUserInfo = (\<lambda>i. Inl (AuthErr ErrNotFound)),
      sv_GetUserInfoByEmail = (\<lambda>m. Inl (AuthErr ErrNotFound))\<rparr>"

definition desk_call :: "uuid \<Rightarrow> int \<Rightarrow> appointment_request \<Rightarrow> call" where
  "desk_call base t req =
     \<lparr>c_env = desk_env base t, c_schedule_world = calm plain_retry, c_status_world = calm plain_retry,
      c_ids = (\<lambda>k. (base + 1000, base + 1001, base + 1002)), c_auditEvents = (\<lambda>k. base + 1003),
      c_actor = 30, c_request = req\<rparr>"

definition monday_input :: "int \<Rightarrow> int option \<Rightarrow> ScheduleAppointmentInput" where
  "monday_input from_min n =
     \<lparr>in_CustomerID = 4, in_VehicleID = 5, in_ServiceTypeID = 6, in_StartsAt = monday from_min,
      in_TechnicianID = 10, in_ServiceBayID = 9, in_PlannedDurationMinutes = n, in_Notes = None\<rparr>"

definition desk_calls :: "call list" where
  "desk_calls =
     [desk_call 50 0 (ReqSchedule (Some (monday_input 540 None))),
      desk_call 60 1 (ReqSchedule (Some (monday_input 570 None))),
      desk_call 70 545 (ReqCheckIn 50 None),
      desk_call 80 600 (ReqCancel 50 (Some (''no parts'', None)))]"

lemma desk_call_calm: "calm_call (desk_call base t req)"
  unfolding calm_call_def desk_call_def by (auto intro!: exI plain_retry_contract)

lemma desk_call_within: "base \<noteq> 0 \<Longrightarrow> call_within I (desk_call base t req)"
  by (simp add: call_within_def desk_call_def calm_sound plain_retry_contract desk_env_def uuid_Nil_def)
    (simp add: calm_def)

lemma desk_call_ok: "base \<noteq> 0 \<Longrightarrow> call_ok (desk_call base t req)"
  unfolding call_ok_def by (rule desk_call_within)

text \<open>The second booking overlaps the first and is refused; the others succeed.\<close>

definition answer_code :: "appointment_answer \<Rightarrow> int" where
  "answer_code a = (case a of Created201 r \<Rightarrow> 201 | NoContent204 \<Rightarrow> 204 | Problem code e \<Rightarrow> code)"

lemma desk_calls_answers: "map answer_code (fst (serve utc_zone desk_calls shop)) = [201, 409, 204, 204]"
  by code_simp

text \<open>A service type that allows very long appointments.\<close>

definition shop_long :: db where
  "shop_long = shop\<lparr>service_types := map (\<lambda>s. s\<lparr>sty_max_duration_minutes := 307445735\<rparr>) (service_types shop)\<rparr>"

text \<open>A second dealership with an admin of its own, and a skill nobody has yet.\<close>

definition two_shops :: db where
  "two_shops = shop\<lparr>
     dealerships := dealerships shop @ [\<lparr>dl_id = 20, dl_name = ''South'', dl_code = ''S1'', dl_address = ''2 Main St'',
        dl_timezone = ''UTC'', dl_is_active = True, dl_created_at = 0, dl_deleted_at = None,
        dl_updated_at = 0\<rparr>],
     users := users shop @ [\<lparr>us_id = 40, us_auth_user_id = 41, us_name = ''Cat'', us_phone = Some ''+15550003'',
        us_email = None, us_dealership_id = 20, us_is_active = True, us_created_at = 0,
        us_deleted_at = None, us_updated_at = 0\<rparr>],
     user_roles := user_roles shop @ [\<lparr>ur_id = 42, ur_user_id = 40,
        ur_role_id = 0x00000000000040008000000000000001, ur_created_at = 0, ur_deleted_at = None\<rparr>],
     skills := skills shop @ [\<lparr>sk_id = 77, sk_code = ''EV'', sk_name = ''EV'', sk_is_active = True\<rparr>]\<rparr>"

lemma shop_inv: "booking_inv shop"
  by (rule fresh_inv) (simp add: fresh_db_def shop_def empty_db_def)

end
