(* ===== verification/Catalog_Store.thy ===== *)
theory Catalog_Store
  imports Workforce_Repository
begin

text \<open>
  The write statements of the catalog tables: dealerships, customers, vehicles, service types,
  service bays, required skills and capabilities, user roles, with the constraints of
  adapters/db/migrations/0001\_init\_tables.up.sql.

  A table is described by a record: how to read and replace its rows in the database, its row
  checks, its unique indexes and its foreign keys. \<open>insert_row\<close> and \<open>update_rows\<close> are the statements
  on any table; the locale \<open>constrained_table\<close> shows once that they keep every unique index.
\<close>

section \<open>Tables\<close>

record 'r tab =
  tb_get :: "db \<Rightarrow> 'r list"
  tb_put :: "'r list \<Rightarrow> db \<Rightarrow> db"
  tb_checks :: "'r \<Rightarrow> (bool \<times> go_error) list"
  tb_unique :: "(('r \<Rightarrow> 'r \<Rightarrow> bool) \<times> go_error) list"
  tb_fks :: "db \<Rightarrow> 'r \<Rightarrow> (bool \<times> go_error) list"

definition insert_row :: "'r tab \<Rightarrow> 'r \<Rightarrow> db \<Rightarrow> go_error + db" where
  "insert_row t x d =
     checked
       (tb_checks t x @ map (\<lambda>(c, e). (list_ex (c x) (tb_get t d), e)) (tb_unique t) @ tb_fks t d x)
       (tb_put t (tb_get t d @ [x]) d)"

definition update_rows :: "'r tab \<Rightarrow> ('r \<Rightarrow> bool) \<Rightarrow> ('r \<Rightarrow> 'r) \<Rightarrow> db \<Rightarrow> go_error + db" where
  "update_rows t p f d =
     (let rows = update_where p f (tb_get t d) in
      checked
        (concat (map (tb_checks t) (map f (filter p (tb_get t d))))
         @ map (\<lambda>(c, e). (\<not> conflict_free c rows, e)) (tb_unique t)
         @ concat (map (tb_fks t d) (map f (filter p (tb_get t d)))))
        (tb_put t rows d))"

definition delete_rows :: "'r tab \<Rightarrow> ('r \<Rightarrow> bool) \<Rightarrow> db \<Rightarrow> db" where
  "delete_rows t p d = tb_put t (filter (\<lambda>r. \<not> p r) (tb_get t d)) d"

definition passes :: "(bool \<times> go_error) list \<Rightarrow> bool" where
  "passes cs \<longleftrightarrow> (\<forall>c\<in>set cs. \<not> fst c)"

lemma passes_append [simp]: "passes (cs @ cs') \<longleftrightarrow> passes cs \<and> passes cs'"
  by (auto simp: passes_def)

lemma passes_unique [simp]: "passes (map (\<lambda>(c, e). (P c, e)) us) \<longleftrightarrow> (\<forall>(c, e)\<in>set us. \<not> P c)"
  by (auto simp: passes_def)

lemma passes_rows [simp]:
  "passes (concat (map g (map f (filter p xs)))) \<longleftrightarrow> (\<forall>x\<in>set xs. p x \<longrightarrow> passes (g (f x)))"
  by (auto simp: passes_def)

lemma checked_passes: "checked cs d = Inr d' \<longleftrightarrow> passes cs \<and> d' = d"
  by (simp add: checked_ok passes_def)

lemma insert_row_ok:
  "insert_row t x d = Inr d' \<longleftrightarrow>
     passes (tb_checks t x) \<and> (\<forall>(c, e)\<in>set (tb_unique t). \<not> list_ex (c x) (tb_get t d))
     \<and> passes (tb_fks t d x) \<and> d' = tb_put t (tb_get t d @ [x]) d"
  by (simp add: insert_row_def checked_passes conj_assoc)

lemma update_rows_ok:
  "update_rows t p f d = Inr d' \<longleftrightarrow>
     (\<forall>x\<in>set (tb_get t d). p x \<longrightarrow> passes (tb_checks t (f x)) \<and> passes (tb_fks t d (f x)))
     \<and> (\<forall>(c, e)\<in>set (tb_unique t). conflict_free c (update_where p f (tb_get t d)))
     \<and> d' = tb_put t (update_where p f (tb_get t d)) d"
  unfolding update_rows_def Let_def checked_passes passes_append passes_unique passes_rows by auto

text \<open>Every unique index of a table holds of its rows.\<close>

definition indexes_ok :: "'r tab \<Rightarrow> db \<Rightarrow> bool" where
  "indexes_ok t d \<longleftrightarrow> (\<forall>(c, e)\<in>set (tb_unique t). conflict_free c (tb_get t d))"

locale constrained_table =
  fixes t :: "'r tab"
  assumes get_put [simp]: "tb_get t (tb_put t rows d) = rows"
    and unique_sym: "(c, e) \<in> set (tb_unique t) \<Longrightarrow> c x y \<Longrightarrow> c y x"
begin

lemma index_exclusion: "(c, e) \<in> set (tb_unique t) \<Longrightarrow> exclusion c"
  by unfold_locales (rule unique_sym)

lemma insert_keeps_indexes: "insert_row t x d = Inr d' \<Longrightarrow> indexes_ok t d \<Longrightarrow> indexes_ok t d'"
  unfolding insert_row_ok indexes_ok_def
  using exclusion.insert_keeps [OF index_exclusion] by fastforce

lemma update_keeps_indexes: "update_rows t p f d = Inr d' \<Longrightarrow> indexes_ok t d'"
  unfolding update_rows_ok indexes_ok_def by auto

lemma delete_keeps_indexes: "indexes_ok t d \<Longrightarrow> indexes_ok t (delete_rows t p d)"
  unfolding delete_rows_def indexes_ok_def
  using exclusion.filter_keeps [OF index_exclusion] by fastforce

lemma get_insert: "insert_row t x d = Inr d' \<Longrightarrow> tb_get t d' = tb_get t d @ [x]"
  by (simp add: insert_row_ok)

lemma get_update: "update_rows t p f d = Inr d' \<Longrightarrow> tb_get t d' = update_where p f (tb_get t d)"
  by (simp add: update_rows_ok)

end

text \<open>PostgreSQL cuts identifiers to 63 bytes, also those of constraints, and reports the cut
  name.\<close>

definition pg_identifier :: "string \<Rightarrow> string" where
  "pg_identifier s = take 63 s"

definition unique_index :: "string \<Rightarrow> go_error" where
  "unique_index name = unique_violation (pg_identifier name)"

section \<open>The catalog tables\<close>

definition dealership_table :: "dealership_row tab" where
  "dealership_table =
     \<lparr>tb_get = dealerships, tb_put = (\<lambda>rows d. d\<lparr>dealerships := rows\<rparr>),
      tb_checks = (\<lambda>r. [(longer 255 (dl_name r), too_long), (longer 50 (dl_code r), too_long),
        (longer 64 (dl_timezone r), too_long)]),
      tb_unique = [(same_key dl_id, unique_index ''dealerships_pkey''),
        (same_key dl_code, unique_index ''dealerships_code_key'')],
      tb_fks = (\<lambda>d r. [])\<rparr>"

text \<open>\<open>customers_email_unique_when_present\<close> compares lower-cased addresses.\<close>

definition email_clash :: "customer_row \<Rightarrow> customer_row \<Rightarrow> bool" where
  "email_clash x y \<longleftrightarrow> cu_email x \<noteq> None \<and> cu_email y \<noteq> None
     \<and> map_option ToLower (cu_email x) = map_option ToLower (cu_email y)"

definition customer_table :: "customer_row tab" where
  "customer_table =
     \<lparr>tb_get = customers, tb_put = (\<lambda>rows d. d\<lparr>customers := rows\<rparr>),
      tb_checks = (\<lambda>r. [(longer 255 (cu_name r), too_long), (longer 50 (cu_phone r), too_long),
        (longer_opt 255 (cu_email r), too_long)]),
      tb_unique = [(same_key cu_id, unique_index ''customers_pkey''),
        (same_key cu_phone, unique_index ''customers_phone_key''),
        (email_clash, unique_index ''customers_email_unique_when_present'')],
      tb_fks = (\<lambda>d r. [])\<rparr>"

definition customer_dealership_table :: "customer_dealership_row tab" where
  "customer_dealership_table =
     \<lparr>tb_get = customer_dealerships, tb_put = (\<lambda>rows d. d\<lparr>customer_dealerships := rows\<rparr>),
      tb_checks = (\<lambda>r. []),
      tb_unique = [(same_key cd_customer_id, unique_index ''customer_dealerships_pkey'')],
      tb_fks = (\<lambda>d r. [(missing cu_id (customers d) (cd_customer_id r),
          foreign_key_violation ''customer_dealerships_customer_id_fkey''),
        (missing dl_id (dealerships d) (cd_dealership_id r),
          foreign_key_violation ''customer_dealerships_dealership_id_fkey'')])\<rparr>"

text \<open>\<open>vehicles_vin_unique_when_present\<close> also sees deleted vehicles.\<close>

definition vin_clash :: "vehicle_row \<Rightarrow> vehicle_row \<Rightarrow> bool" where
  "vin_clash x y \<longleftrightarrow> ve_vin x \<noteq> None \<and> ve_vin y \<noteq> None \<and> ve_vin x = ve_vin y"

definition vehicle_table :: "vehicle_row tab" where
  "vehicle_table =
     \<lparr>tb_get = vehicles, tb_put = (\<lambda>rows d. d\<lparr>vehicles := rows\<rparr>),
      tb_checks = (\<lambda>r. [(longer_opt 17 (ve_vin r), too_long),
        (longer_opt 32 (ve_registration_plate r), too_long), (longer 100 (ve_make r), too_long),
        (longer 100 (ve_model r), too_long),
        (ve_vin r = None \<and> ve_registration_plate r = None, check_violation ''vehicles_identity_check'')]),
      tb_unique = [(same_key ve_id, unique_index ''vehicles_pkey''),
        (vin_clash, unique_index ''vehicles_vin_unique_when_present'')],
      tb_fks = (\<lambda>d r. [(missing cu_id (customers d) (ve_customer_id r),
          foreign_key_violation ''vehicles_customer_id_fkey'')])\<rparr>"

definition service_type_name_clash :: "service_type_row \<Rightarrow> service_type_row \<Rightarrow> bool" where
  "service_type_name_clash x y \<longleftrightarrow> sty_deleted_at x = None \<and> sty_deleted_at y = None
     \<and> sty_dealership_id x = sty_dealership_id y \<and> ToLower (sty_name x) = ToLower (sty_name y)"

definition service_type_table :: "service_type_row tab" where
  "service_type_table =
     \<lparr>tb_get = service_types, tb_put = (\<lambda>rows d. d\<lparr>service_types := rows\<rparr>),
      tb_checks = (\<lambda>r. [(longer 255 (sty_name r), too_long),
        (\<not> sty_default_duration_minutes r > 0, check_violation ''service_types_default_duration_positive''),
        (\<not> sty_max_duration_minutes r \<ge> sty_min_duration_minutes r,
           check_violation ''service_types_duration_range_check''),
        (\<not> sty_min_duration_minutes r > 0, check_violation ''service_types_min_duration_positive'')]),
      tb_unique = [(same_key sty_id, unique_index ''service_types_pkey''),
        (service_type_name_clash, unique_index ''service_types_dealership_name_unique'')],
      tb_fks = (\<lambda>d r. [(missing dl_id (dealerships d) (sty_dealership_id r),
          foreign_key_violation ''service_types_dealership_id_fkey'')])\<rparr>"

definition bay_code_clash :: "service_bay_row \<Rightarrow> service_bay_row \<Rightarrow> bool" where
  "bay_code_clash x y \<longleftrightarrow> bay_deleted_at x = None \<and> bay_deleted_at y = None
     \<and> bay_dealership_id x = bay_dealership_id y \<and> ToLower (bay_code x) = ToLower (bay_code y)"

definition service_bay_table :: "service_bay_row tab" where
  "service_bay_table =
     \<lparr>tb_get = service_bays, tb_put = (\<lambda>rows d. d\<lparr>service_bays := rows\<rparr>),
      tb_checks = (\<lambda>r. [(longer 50 (bay_code r), too_long), (longer 255 (bay_name r), too_long)]),
      tb_unique = [(same_key bay_id, unique_index ''service_bays_pkey''),
        (bay_code_clash, unique_index ''service_bays_dealership_code_lower_unique'')],
      tb_fks = (\<lambda>d r. [(missing dl_id (dealerships d) (bay_dealership_id r),
          foreign_key_violation ''service_bays_dealership_id_fkey'')])\<rparr>"

definition required_skill_table :: "required_skill_row tab" where
  "required_skill_table =
     \<lparr>tb_get = required_skills, tb_put = (\<lambda>rows d. d\<lparr>required_skills := rows\<rparr>),
      tb_checks = (\<lambda>r. []),
      tb_unique = [(same_key rsk_id, unique_index ''service_type_required_skills_pkey''),
        (same_key (\<lambda>r. (rsk_service_type_id r, rsk_skill_id r)),
           unique_index ''service_type_required_skills_service_type_skill_unique'')],
      tb_fks = (\<lambda>d r. [(missing sty_id (service_types d) (rsk_service_type_id r),
          foreign_key_violation ''service_type_required_skills_service_type_id_fkey''),
        (missing sk_id (skills d) (rsk_skill_id r),
          foreign_key_violation ''service_type_required_skills_skill_id_fkey'')])\<rparr>"

definition required_capability_table :: "required_capability_row tab" where
  "required_capability_table =
     \<lparr>tb_get = required_capabilities, tb_put = (\<lambda>rows d. d\<lparr>required_capabilities := rows\<rparr>),
      tb_checks = (\<lambda>r. []),
      tb_unique = [(same_key rcap_id, unique_index ''service_type_required_bay_capabilities_pkey''),
        (same_key (\<lambda>r. (rcap_service_type_id r, rcap_bay_capability_id r)),
           unique_index ''service_type_required_bay_capabilities_service_type_bay_capability_unique'')],
      tb_fks = (\<lambda>d r. [(missing sty_id (service_types d) (rcap_service_type_id r),
          foreign_key_violation ''service_type_required_bay_capabilities_service_type_id_fkey''),
        (missing cap_id (capabilities d) (rcap_bay_capability_id r),
          foreign_key_violation ''service_type_required_bay_capabilities_bay_capability_id_fkey'')])\<rparr>"

definition bay_capability_table :: "bay_capability_row tab" where
  "bay_capability_table =
     \<lparr>tb_get = bay_capabilities, tb_put = (\<lambda>rows d. d\<lparr>bay_capabilities := rows\<rparr>),
      tb_checks = (\<lambda>r. []),
      tb_unique = [(same_key bcap_id, unique_index ''service_bay_capabilities_pkey''),
        (same_key (\<lambda>r. (bcap_service_bay_id r, bcap_bay_capability_id r)),
           unique_index ''service_bay_capabilities_service_bay_bay_capability_unique'')],
      tb_fks = (\<lambda>d r. [(missing bay_id (service_bays d) (bcap_service_bay_id r),
          foreign_key_violation ''service_bay_capabilities_service_bay_id_fkey''),
        (missing cap_id (capabilities d) (bcap_bay_capability_id r),
          foreign_key_violation ''service_bay_capabilities_bay_capability_id_fkey'')])\<rparr>"

definition user_role_table :: "user_role_row tab" where
  "user_role_table =
     \<lparr>tb_get = user_roles, tb_put = (\<lambda>rows d. d\<lparr>user_roles := rows\<rparr>),
      tb_checks = (\<lambda>r. []),
      tb_unique = [(same_key ur_id, unique_index ''user_roles_pkey''),
        (same_key (\<lambda>r. (ur_user_id r, ur_role_id r)), unique_index ''user_roles_user_role_unique'')],
      tb_fks = (\<lambda>d r. [(missing us_id (users d) (ur_user_id r),
          foreign_key_violation ''user_roles_user_id_fkey''),
        (missing ro_id (roles d) (ur_role_id r), foreign_key_violation ''user_roles_role_id_fkey'')])\<rparr>"

lemmas table_defs = dealership_table_def customer_table_def customer_dealership_table_def
  vehicle_table_def service_type_table_def service_bay_table_def required_skill_table_def
  required_capability_table_def bay_capability_table_def user_role_table_def

lemmas clash_defs = same_key_def email_clash_def vin_clash_def service_type_name_clash_def
  bay_code_clash_def

interpretation dealership_tab: constrained_table dealership_table
  by unfold_locales (auto simp: table_defs clash_defs)

interpretation customer_tab: constrained_table customer_table
  by unfold_locales (auto simp: table_defs clash_defs)

interpretation customer_dealership_tab: constrained_table customer_dealership_table
  by unfold_locales (auto simp: table_defs clash_defs)

interpretation vehicle_tab: constrained_table vehicle_table
  by unfold_locales (auto simp: table_defs clash_defs)

interpretation service_type_tab: constrained_table service_type_table
  by unfold_locales (auto simp: table_defs clash_defs)

interpretation service_bay_tab: constrained_table service_bay_table
  by unfold_locales (auto simp: table_defs clash_defs)

interpretation required_skill_tab: constrained_table required_skill_table
  by unfold_locales (auto simp: table_defs clash_defs)

interpretation required_capability_tab: constrained_table required_capability_table
  by unfold_locales (auto simp: table_defs clash_defs)

interpretation bay_capability_tab: constrained_table bay_capability_table
  by unfold_locales (auto simp: table_defs clash_defs)

interpretation user_role_tab: constrained_table user_role_table
  by unfold_locales (auto simp: table_defs clash_defs)

end
