(* ===== verification/Domain_Catalog.thy ===== *)
theory Domain_Catalog
  imports Aggregates
begin

text \<open>
  Dealerships and their catalog (appointment\_scheduler/domain: dealership.go,
  service\_type.go, service\_type\_required\_skill.go,
  service\_type\_required\_bay\_capability.go, service\_bay.go, service\_bay\_capability.go):
  a record per aggregate, its constructor, rehydration and update.
  \<open>Dealership\<close>, \<open>ServiceType\<close> and \<open>ServiceBay\<close> are interpreted as \<open>aggregate\<close>s, the last two
  as \<open>updatable\<close> ones. \<open>time.LoadLocation\<close> is the parameter \<open>load_location\<close>: whether the
  zone database knows the name.
\<close>

section \<open>Dealership\<close>

record Dealership =
  d_id :: uuid
  d_name :: string
  d_code :: string
  d_address :: string
  d_timezone :: string
  d_isActive :: bool
  d_createdAt :: gotime
  d_updatedAt :: gotime

definition NewDealership ::
  "(string \<Rightarrow> bool) \<Rightarrow> uuid \<Rightarrow> string \<Rightarrow> string \<Rightarrow> string \<Rightarrow> string \<Rightarrow> gotime \<Rightarrow> Dealership result" where
  "NewDealership load_location id' name code address timezone now =
     (if id' = uuid_Nil then Inl (ErrorString ''dealership ID is required'')
      else let name = TrimSpace name in
      if name = [] then Inl (CatalogErr ErrNameRequired)
      else let code = ToUpper (TrimSpace code) in
      if code = [] then Inl (CatalogErr ErrCodeRequired)
      else let address = TrimSpace address in
      if address = [] then Inl (CatalogErr ErrAddressRequired)
      else let timezone = TrimSpace timezone in
      if timezone = [] then Inl (CatalogErr ErrTimezoneRequired)
      else if \<not> load_location timezone then Inl (CatalogErr ErrInvalidTimezone)
      else Inr \<lparr>d_id = id', d_name = name, d_code = code, d_address = address,
                d_timezone = timezone, d_isActive = True, d_createdAt = time_UTC now,
                d_updatedAt = time_UTC now\<rparr>)"

definition RehydrateDealership ::
  "(string \<Rightarrow> bool) \<Rightarrow> uuid \<Rightarrow> string \<Rightarrow> string \<Rightarrow> string \<Rightarrow> string \<Rightarrow> bool \<Rightarrow> gotime \<Rightarrow> gotime
     \<Rightarrow> Dealership result" where
  "RehydrateDealership load_location id' name code address timezone isActive createdAt updatedAt =
     (case NewDealership load_location id' name code address timezone createdAt of
        Inl err \<Rightarrow> Inl err
      | Inr d \<Rightarrow> Inr (d\<lparr>d_isActive := isActive, d_updatedAt := time_UTC updatedAt\<rparr>))"

section \<open>Service types\<close>

record ServiceType =
  st_id :: uuid
  st_dealershipID :: uuid
  st_name :: string
  st_defaultDurationMinutes :: int
  st_minDurationMinutes :: int
  st_maxDurationMinutes :: int
  st_isActive :: bool
  st_createdAt :: gotime
  st_updatedAt :: gotime

definition validateServiceType :: "string \<Rightarrow> int \<Rightarrow> int \<Rightarrow> int \<Rightarrow> string result" where
  "validateServiceType name dflt mn mx =
     (let name = TrimSpace name in
      if name = [] then Inl (CatalogErr ErrServiceTypeNameRequired)
      else if dflt \<le> 0 \<or> mn \<le> 0 \<or> mx \<le> 0 then Inl (CatalogErr ErrDurationMustBePositive)
      else if mn > dflt \<or> dflt > mx then Inl (CatalogErr ErrDurationRangeInvalid)
      else Inr name)"

definition NewServiceType ::
  "uuid \<Rightarrow> uuid \<Rightarrow> string \<Rightarrow> int \<Rightarrow> int \<Rightarrow> int \<Rightarrow> bool \<Rightarrow> gotime \<Rightarrow> ServiceType result" where
  "NewServiceType id' dealershipID name dflt mn mx isActive now =
     (if id' = uuid_Nil then Inl (CatalogErr ErrServiceTypeIDRequired)
      else if dealershipID = uuid_Nil then Inl (PeopleErr ErrDealershipIDRequired)
      else case validateServiceType name dflt mn mx of
        Inl err \<Rightarrow> Inl err
      | Inr name \<Rightarrow> Inr \<lparr>st_id = id', st_dealershipID = dealershipID, st_name = name,
          st_defaultDurationMinutes = dflt, st_minDurationMinutes = mn,
          st_maxDurationMinutes = mx, st_isActive = isActive,
          st_createdAt = time_UTC now, st_updatedAt = time_UTC now\<rparr>)"

definition RehydrateServiceType ::
  "uuid \<Rightarrow> uuid \<Rightarrow> string \<Rightarrow> int \<Rightarrow> int \<Rightarrow> int \<Rightarrow> bool \<Rightarrow> gotime \<Rightarrow> gotime \<Rightarrow> ServiceType result" where
  "RehydrateServiceType id' dealershipID name dflt mn mx isActive createdAt updatedAt =
     (case NewServiceType id' dealershipID name dflt mn mx isActive createdAt of
        Inl err \<Rightarrow> Inl err
      | Inr s \<Rightarrow> Inr (s\<lparr>st_updatedAt := time_UTC updatedAt\<rparr>))"

definition ServiceType_Update ::
  "string \<Rightarrow> int \<Rightarrow> int \<Rightarrow> int \<Rightarrow> bool \<Rightarrow> gotime \<Rightarrow> ServiceType \<Rightarrow> ServiceType result" where
  "ServiceType_Update name dflt mn mx isActive now s =
     (case validateServiceType name dflt mn mx of
        Inl err \<Rightarrow> Inl err
      | Inr name \<Rightarrow> Inr (s\<lparr>st_name := name, st_defaultDurationMinutes := dflt,
          st_minDurationMinutes := mn, st_maxDurationMinutes := mx, st_isActive := isActive,
          st_updatedAt := time_UTC now\<rparr>))"

section \<open>Service bays\<close>

record ServiceBay =
  sb_id :: uuid
  sb_dealershipID :: uuid
  sb_code :: string
  sb_name :: string
  sb_isActive :: bool
  sb_createdAt :: gotime
  sb_updatedAt :: gotime

definition validateServiceBay :: "string \<Rightarrow> string \<Rightarrow> (string \<times> string) result" where
  "validateServiceBay code name =
     (let code = TrimSpace code in
      if code = [] then Inl (CatalogErr ErrServiceBayCodeRequired)
      else let name = TrimSpace name in
      if name = [] then Inl (CatalogErr ErrServiceBayNameRequired)
      else Inr (code, name))"

definition NewServiceBay ::
  "uuid \<Rightarrow> uuid \<Rightarrow> string \<Rightarrow> string \<Rightarrow> bool \<Rightarrow> gotime \<Rightarrow> ServiceBay result" where
  "NewServiceBay id' dealershipID code name isActive now =
     (if id' = uuid_Nil then Inl (CatalogErr ErrServiceBayIDRequired)
      else if dealershipID = uuid_Nil then Inl (PeopleErr ErrDealershipIDRequired)
      else case validateServiceBay code name of
        Inl err \<Rightarrow> Inl err
      | Inr (code, name) \<Rightarrow> Inr \<lparr>sb_id = id', sb_dealershipID = dealershipID, sb_code = code,
          sb_name = name, sb_isActive = isActive, sb_createdAt = time_UTC now,
          sb_updatedAt = time_UTC now\<rparr>)"

definition RehydrateServiceBay ::
  "uuid \<Rightarrow> uuid \<Rightarrow> string \<Rightarrow> string \<Rightarrow> bool \<Rightarrow> gotime \<Rightarrow> gotime \<Rightarrow> ServiceBay result" where
  "RehydrateServiceBay id' dealershipID code name isActive createdAt updatedAt =
     (case NewServiceBay id' dealershipID code name isActive createdAt of
        Inl err \<Rightarrow> Inl err
      | Inr s \<Rightarrow> Inr (s\<lparr>sb_updatedAt := time_UTC updatedAt\<rparr>))"

definition ServiceBay_Update ::
  "string \<Rightarrow> string \<Rightarrow> bool \<Rightarrow> gotime \<Rightarrow> ServiceBay \<Rightarrow> ServiceBay result" where
  "ServiceBay_Update code name isActive now s =
     (case validateServiceBay code name of
        Inl err \<Rightarrow> Inl err
      | Inr (code, name) \<Rightarrow> Inr (s\<lparr>sb_code := code, sb_name := name, sb_isActive := isActive,
          sb_updatedAt := time_UTC now\<rparr>))"

section \<open>Associations\<close>

record ServiceTypeRequiredSkill =
  rs_id :: uuid
  rs_serviceTypeID :: uuid
  rs_skillID :: uuid
  rs_skillCode :: string
  rs_skillName :: string
  rs_createdAt :: gotime
  rs_updatedAt :: gotime

definition NewServiceTypeRequiredSkill ::
  "uuid \<Rightarrow> uuid \<Rightarrow> uuid \<Rightarrow> gotime \<Rightarrow> ServiceTypeRequiredSkill result" where
  "NewServiceTypeRequiredSkill id' serviceTypeID skillID now =
     (if id' = uuid_Nil then Inl (CatalogErr ErrServiceTypeRequiredSkillIDRequired)
      else if serviceTypeID = uuid_Nil then Inl (CatalogErr ErrServiceTypeIDRequired)
      else if skillID = uuid_Nil then Inl (CatalogErr ErrSkillIDRequired)
      else Inr \<lparr>rs_id = id', rs_serviceTypeID = serviceTypeID, rs_skillID = skillID,
                rs_skillCode = [], rs_skillName = [], rs_createdAt = time_UTC now,
                rs_updatedAt = time_UTC now\<rparr>)"

definition RehydrateServiceTypeRequiredSkill ::
  "uuid \<Rightarrow> uuid \<Rightarrow> uuid \<Rightarrow> string \<Rightarrow> string \<Rightarrow> gotime \<Rightarrow> gotime \<Rightarrow> ServiceTypeRequiredSkill result" where
  "RehydrateServiceTypeRequiredSkill id' serviceTypeID skillID skillCode skillName createdAt updatedAt =
     (case NewServiceTypeRequiredSkill id' serviceTypeID skillID createdAt of
        Inl err \<Rightarrow> Inl err
      | Inr s \<Rightarrow> Inr (s\<lparr>rs_skillCode := TrimSpace skillCode, rs_skillName := TrimSpace skillName,
          rs_updatedAt := time_UTC updatedAt\<rparr>))"

definition WithSkill ::
  "uuid \<Rightarrow> gotime \<Rightarrow> ServiceTypeRequiredSkill \<Rightarrow> ServiceTypeRequiredSkill result" where
  "WithSkill skillID now s =
     (if skillID = uuid_Nil then Inl (CatalogErr ErrSkillIDRequired)
      else Inr (s\<lparr>rs_skillID := skillID, rs_skillCode := [], rs_skillName := [],
                  rs_updatedAt := time_UTC now\<rparr>))"

record ServiceTypeRequiredBayCapability =
  rc_id :: uuid
  rc_serviceTypeID :: uuid
  rc_bayCapabilityID :: uuid
  rc_capabilityCode :: string
  rc_capabilityName :: string
  rc_createdAt :: gotime
  rc_updatedAt :: gotime

definition NewServiceTypeRequiredBayCapability ::
  "uuid \<Rightarrow> uuid \<Rightarrow> uuid \<Rightarrow> gotime \<Rightarrow> ServiceTypeRequiredBayCapability result" where
  "NewServiceTypeRequiredBayCapability id' serviceTypeID bayCapabilityID now =
     (if id' = uuid_Nil then Inl (CatalogErr ErrServiceTypeRequiredBayCapabilityIDRequired)
      else if serviceTypeID = uuid_Nil then Inl (CatalogErr ErrServiceTypeIDRequired)
      else if bayCapabilityID = uuid_Nil then Inl (CatalogErr ErrBayCapabilityIDRequired)
      else Inr \<lparr>rc_id = id', rc_serviceTypeID = serviceTypeID, rc_bayCapabilityID = bayCapabilityID,
                rc_capabilityCode = [], rc_capabilityName = [], rc_createdAt = time_UTC now,
                rc_updatedAt = time_UTC now\<rparr>)"

definition RehydrateServiceTypeRequiredBayCapability ::
  "uuid \<Rightarrow> uuid \<Rightarrow> uuid \<Rightarrow> string \<Rightarrow> string \<Rightarrow> gotime \<Rightarrow> gotime
     \<Rightarrow> ServiceTypeRequiredBayCapability result" where
  "RehydrateServiceTypeRequiredBayCapability id' serviceTypeID bayCapabilityID capabilityCode
       capabilityName createdAt updatedAt =
     (case NewServiceTypeRequiredBayCapability id' serviceTypeID bayCapabilityID createdAt of
        Inl err \<Rightarrow> Inl err
      | Inr s \<Rightarrow> Inr (s\<lparr>rc_capabilityCode := TrimSpace capabilityCode,
          rc_capabilityName := TrimSpace capabilityName, rc_updatedAt := time_UTC updatedAt\<rparr>))"

definition Required_WithBayCapability ::
  "uuid \<Rightarrow> gotime \<Rightarrow> ServiceTypeRequiredBayCapability \<Rightarrow> ServiceTypeRequiredBayCapability result" where
  "Required_WithBayCapability bayCapabilityID now s =
     (if bayCapabilityID = uuid_Nil then Inl (CatalogErr ErrBayCapabilityIDRequired)
      else Inr (s\<lparr>rc_bayCapabilityID := bayCapabilityID, rc_capabilityCode := [],
                  rc_capabilityName := [], rc_updatedAt := time_UTC now\<rparr>))"

record ServiceBayCapability =
  bc_id :: uuid
  bc_serviceBayID :: uuid
  bc_bayCapabilityID :: uuid
  bc_capabilityCode :: string
  bc_capabilityName :: string
  bc_createdAt :: gotime
  bc_updatedAt :: gotime

definition NewServiceBayCapability ::
  "uuid \<Rightarrow> uuid \<Rightarrow> uuid \<Rightarrow> gotime \<Rightarrow> ServiceBayCapability result" where
  "NewServiceBayCapability id' serviceBayID bayCapabilityID now =
     (if id' = uuid_Nil then Inl (CatalogErr ErrServiceBayCapabilityIDRequired)
      else if serviceBayID = uuid_Nil then Inl (CatalogErr ErrServiceBayIDRequired)
      else if bayCapabilityID = uuid_Nil then Inl (CatalogErr ErrBayCapabilityIDRequired)
      else Inr \<lparr>bc_id = id', bc_serviceBayID = serviceBayID, bc_bayCapabilityID = bayCapabilityID,
                bc_capabilityCode = [], bc_capabilityName = [], bc_createdAt = time_UTC now,
                bc_updatedAt = time_UTC now\<rparr>)"

definition RehydrateServiceBayCapability ::
  "uuid \<Rightarrow> uuid \<Rightarrow> uuid \<Rightarrow> string \<Rightarrow> string \<Rightarrow> gotime \<Rightarrow> gotime \<Rightarrow> ServiceBayCapability result" where
  "RehydrateServiceBayCapability id' serviceBayID bayCapabilityID capabilityCode capabilityName
       createdAt updatedAt =
     (case NewServiceBayCapability id' serviceBayID bayCapabilityID createdAt of
        Inl err \<Rightarrow> Inl err
      | Inr s \<Rightarrow> Inr (s\<lparr>bc_capabilityCode := TrimSpace capabilityCode,
          bc_capabilityName := TrimSpace capabilityName, bc_updatedAt := time_UTC updatedAt\<rparr>))"

definition Bay_WithBayCapability ::
  "uuid \<Rightarrow> gotime \<Rightarrow> ServiceBayCapability \<Rightarrow> ServiceBayCapability result" where
  "Bay_WithBayCapability bayCapabilityID now s =
     (if bayCapabilityID = uuid_Nil then Inl (CatalogErr ErrBayCapabilityIDRequired)
      else Inr (s\<lparr>bc_bayCapabilityID := bayCapabilityID, bc_capabilityCode := [],
                  bc_capabilityName := [], bc_updatedAt := time_UTC now\<rparr>))"


section \<open>The aggregates as instances of the contract\<close>

type_synonym dealership_fields = "uuid \<times> string \<times> string \<times> string \<times> string \<times> bool"

fun make_dealership ::
  "(string \<Rightarrow> bool) \<Rightarrow> dealership_fields \<Rightarrow> gotime \<Rightarrow> Dealership result" where
  "make_dealership ll (i, n, c, a, z, act) t = RehydrateDealership ll i n c a z act t t"

fun rehydrate_dealership ::
  "(string \<Rightarrow> bool) \<Rightarrow> dealership_fields \<Rightarrow> gotime \<Rightarrow> gotime \<Rightarrow> Dealership result" where
  "rehydrate_dealership ll (i, n, c, a, z, act) t u = RehydrateDealership ll i n c a z act t u"

definition dealership_fields :: "Dealership \<Rightarrow> dealership_fields" where
  "dealership_fields d = (d_id d, d_name d, d_code d, d_address d, d_timezone d, d_isActive d)"

definition dealership_stamp :: "gotime \<Rightarrow> gotime \<Rightarrow> Dealership \<Rightarrow> Dealership" where
  "dealership_stamp c u d = d\<lparr>d_createdAt := c, d_updatedAt := u\<rparr>"

lemma NewDealership_ok:
  "NewDealership ll i n c a z t = Inr d \<longleftrightarrow>
     i \<noteq> uuid_Nil \<and> TrimSpace n \<noteq> [] \<and> TrimSpace c \<noteq> [] \<and> TrimSpace a \<noteq> []
     \<and> TrimSpace z \<noteq> [] \<and> ll (TrimSpace z)
     \<and> d = \<lparr>d_id = i, d_name = TrimSpace n, d_code = ToUpper (TrimSpace c), d_address = TrimSpace a,
            d_timezone = TrimSpace z, d_isActive = True, d_createdAt = time_UTC t,
            d_updatedAt = time_UTC t\<rparr>"
  by (auto simp: NewDealership_def Let_def)

interpretation dealership: aggregate "make_dealership ll" "rehydrate_dealership ll"
  dealership_fields d_createdAt d_updatedAt dealership_stamp for ll
proof unfold_locales
  fix x t t' a
  assume "make_dealership ll x t = Inr a"
  then show "make_dealership ll (dealership_fields a) t' =
      Inr (dealership_stamp (time_UTC t') (time_UTC t') a)"
    by (cases x) (auto simp: RehydrateDealership_def NewDealership_def Let_def
        dealership_fields_def dealership_stamp_def split: sum.splits if_splits)
next
  fix x t a
  assume "make_dealership ll x t = Inr a"
  then show "d_createdAt a = time_UTC t \<and> d_updatedAt a = time_UTC t"
    by (cases x) (auto simp: RehydrateDealership_def NewDealership_ok split: sum.splits)
next
  fix x c u
  show "rehydrate_dealership ll x c u = (case make_dealership ll x c of Inl e \<Rightarrow> Inl e
      | Inr a \<Rightarrow> Inr (dealership_stamp (d_createdAt a) (time_UTC u) a))"
    by (cases x) (auto simp: RehydrateDealership_def dealership_stamp_def split: sum.splits)
qed (simp_all add: dealership_stamp_def dealership_fields_def)

type_synonym service_type_fields = "uuid \<times> uuid \<times> string \<times> int \<times> int \<times> int \<times> bool"

fun make_service_type :: "service_type_fields \<Rightarrow> gotime \<Rightarrow> ServiceType result" where
  "make_service_type (i, d, n, df, mn, mx, act) t = NewServiceType i d n df mn mx act t"

fun rehydrate_service_type :: "service_type_fields \<Rightarrow> gotime \<Rightarrow> gotime \<Rightarrow> ServiceType result" where
  "rehydrate_service_type (i, d, n, df, mn, mx, act) c u = RehydrateServiceType i d n df mn mx act c u"

fun update_service_type ::
  "string \<times> int \<times> int \<times> int \<times> bool \<Rightarrow> gotime \<Rightarrow> ServiceType \<Rightarrow> ServiceType result" where
  "update_service_type (n, df, mn, mx, act) t s = ServiceType_Update n df mn mx act t s"

fun merge_service_type ::
  "service_type_fields \<Rightarrow> string \<times> int \<times> int \<times> int \<times> bool \<Rightarrow> service_type_fields" where
  "merge_service_type (i, d, _) y = (i, d, y)"

definition service_type_fields :: "ServiceType \<Rightarrow> service_type_fields" where
  "service_type_fields s = (st_id s, st_dealershipID s, st_name s, st_defaultDurationMinutes s,
     st_minDurationMinutes s, st_maxDurationMinutes s, st_isActive s)"

definition service_type_stamp :: "gotime \<Rightarrow> gotime \<Rightarrow> ServiceType \<Rightarrow> ServiceType" where
  "service_type_stamp c u s = s\<lparr>st_createdAt := c, st_updatedAt := u\<rparr>"

lemma validateServiceType_ok:
  "validateServiceType n df mn mx = Inr m \<longleftrightarrow>
     m = TrimSpace n \<and> m \<noteq> [] \<and> 0 < mn \<and> mn \<le> df \<and> df \<le> mx"
  by (auto simp: validateServiceType_def Let_def)

lemma NewServiceType_ok:
  "NewServiceType i d n df mn mx act t = Inr s \<longleftrightarrow>
     i \<noteq> uuid_Nil \<and> d \<noteq> uuid_Nil \<and> TrimSpace n \<noteq> [] \<and> 0 < mn \<and> mn \<le> df \<and> df \<le> mx
     \<and> s = \<lparr>st_id = i, st_dealershipID = d, st_name = TrimSpace n, st_defaultDurationMinutes = df,
            st_minDurationMinutes = mn, st_maxDurationMinutes = mx, st_isActive = act,
            st_createdAt = time_UTC t, st_updatedAt = time_UTC t\<rparr>"
  by (auto simp: NewServiceType_def validateServiceType_def Let_def)

lemma RehydrateServiceType_validates:
  "i \<noteq> uuid_Nil \<Longrightarrow> d \<noteq> uuid_Nil \<Longrightarrow>
   RehydrateServiceType i d n df mn mx act t u =
     (case validateServiceType n df mn mx of Inl e \<Rightarrow> Inl e
      | Inr m \<Rightarrow> Inr \<lparr>st_id = i, st_dealershipID = d, st_name = m, st_defaultDurationMinutes = df,
          st_minDurationMinutes = mn, st_maxDurationMinutes = mx, st_isActive = act,
          st_createdAt = time_UTC t, st_updatedAt = time_UTC u\<rparr>)"
  by (simp add: RehydrateServiceType_def NewServiceType_def split: sum.split)

interpretation service_type: updatable make_service_type rehydrate_service_type
  service_type_fields st_createdAt st_updatedAt service_type_stamp
  update_service_type merge_service_type
proof unfold_locales
  fix x t t' a
  assume "make_service_type x t = Inr a"
  then show "make_service_type (service_type_fields a) t' =
      Inr (service_type_stamp (time_UTC t') (time_UTC t') a)"
    by (cases x) (auto simp: NewServiceType_ok service_type_fields_def service_type_stamp_def)
next
  fix x t a
  assume "make_service_type x t = Inr a"
  then show "st_createdAt a = time_UTC t \<and> st_updatedAt a = time_UTC t"
    by (cases x) (auto simp: NewServiceType_ok)
next
  fix x c u
  show "rehydrate_service_type x c u = (case make_service_type x c of Inl e \<Rightarrow> Inl e
      | Inr a \<Rightarrow> Inr (service_type_stamp (st_createdAt a) (time_UTC u) a))"
    by (cases x) (auto simp: RehydrateServiceType_def service_type_stamp_def split: sum.splits)
next
  fix x t a0 a c u y now
  assume "make_service_type x t = Inr a0" and "a = service_type_stamp c u a0" and "time_UTC c = c"
  then show "update_service_type y now a =
      rehydrate_service_type (merge_service_type (service_type_fields a) y) c now"
    by (cases x; cases y)
      (auto simp: NewServiceType_ok RehydrateServiceType_validates ServiceType_Update_def
        service_type_fields_def service_type_stamp_def split: sum.splits)
qed (simp_all add: service_type_stamp_def service_type_fields_def)

type_synonym service_bay_fields = "uuid \<times> uuid \<times> string \<times> string \<times> bool"

fun make_service_bay :: "service_bay_fields \<Rightarrow> gotime \<Rightarrow> ServiceBay result" where
  "make_service_bay (i, d, c, n, act) t = NewServiceBay i d c n act t"

fun rehydrate_service_bay :: "service_bay_fields \<Rightarrow> gotime \<Rightarrow> gotime \<Rightarrow> ServiceBay result" where
  "rehydrate_service_bay (i, d, c, n, act) t u = RehydrateServiceBay i d c n act t u"

fun update_service_bay :: "string \<times> string \<times> bool \<Rightarrow> gotime \<Rightarrow> ServiceBay \<Rightarrow> ServiceBay result" where
  "update_service_bay (c, n, act) t s = ServiceBay_Update c n act t s"

fun merge_service_bay :: "service_bay_fields \<Rightarrow> string \<times> string \<times> bool \<Rightarrow> service_bay_fields" where
  "merge_service_bay (i, d, _) y = (i, d, y)"

definition service_bay_fields :: "ServiceBay \<Rightarrow> service_bay_fields" where
  "service_bay_fields s = (sb_id s, sb_dealershipID s, sb_code s, sb_name s, sb_isActive s)"

definition service_bay_stamp :: "gotime \<Rightarrow> gotime \<Rightarrow> ServiceBay \<Rightarrow> ServiceBay" where
  "service_bay_stamp c u s = s\<lparr>sb_createdAt := c, sb_updatedAt := u\<rparr>"

lemma validateServiceBay_ok:
  "validateServiceBay c n = Inr m \<longleftrightarrow>
     m = (TrimSpace c, TrimSpace n) \<and> TrimSpace c \<noteq> [] \<and> TrimSpace n \<noteq> []"
  by (auto simp: validateServiceBay_def Let_def)

lemma NewServiceBay_ok:
  "NewServiceBay i d c n act t = Inr s \<longleftrightarrow>
     i \<noteq> uuid_Nil \<and> d \<noteq> uuid_Nil \<and> TrimSpace c \<noteq> [] \<and> TrimSpace n \<noteq> []
     \<and> s = \<lparr>sb_id = i, sb_dealershipID = d, sb_code = TrimSpace c, sb_name = TrimSpace n,
            sb_isActive = act, sb_createdAt = time_UTC t, sb_updatedAt = time_UTC t\<rparr>"
  by (auto simp: NewServiceBay_def validateServiceBay_def Let_def)

lemma RehydrateServiceBay_validates:
  "i \<noteq> uuid_Nil \<Longrightarrow> d \<noteq> uuid_Nil \<Longrightarrow>
   RehydrateServiceBay i d c n act t u =
     (case validateServiceBay c n of Inl e \<Rightarrow> Inl e
      | Inr (c', n') \<Rightarrow> Inr \<lparr>sb_id = i, sb_dealershipID = d, sb_code = c', sb_name = n',
          sb_isActive = act, sb_createdAt = time_UTC t, sb_updatedAt = time_UTC u\<rparr>)"
  by (simp add: RehydrateServiceBay_def NewServiceBay_def split: sum.split)

interpretation service_bay: updatable make_service_bay rehydrate_service_bay
  service_bay_fields sb_createdAt sb_updatedAt service_bay_stamp
  update_service_bay merge_service_bay
proof unfold_locales
  fix x t t' a
  assume "make_service_bay x t = Inr a"
  then show "make_service_bay (service_bay_fields a) t' =
      Inr (service_bay_stamp (time_UTC t') (time_UTC t') a)"
    by (cases x) (auto simp: NewServiceBay_ok service_bay_fields_def service_bay_stamp_def)
next
  fix x t a
  assume "make_service_bay x t = Inr a"
  then show "sb_createdAt a = time_UTC t \<and> sb_updatedAt a = time_UTC t"
    by (cases x) (auto simp: NewServiceBay_ok)
next
  fix x c u
  show "rehydrate_service_bay x c u = (case make_service_bay x c of Inl e \<Rightarrow> Inl e
      | Inr a \<Rightarrow> Inr (service_bay_stamp (sb_createdAt a) (time_UTC u) a))"
    by (cases x) (auto simp: RehydrateServiceBay_def service_bay_stamp_def split: sum.splits)
next
  fix x t a0 a c u y now
  assume "make_service_bay x t = Inr a0" and "a = service_bay_stamp c u a0" and "time_UTC c = c"
  then show "update_service_bay y now a =
      rehydrate_service_bay (merge_service_bay (service_bay_fields a) y) c now"
    by (cases x; cases y)
      (auto simp: NewServiceBay_ok RehydrateServiceBay_validates ServiceBay_Update_def
        service_bay_fields_def service_bay_stamp_def split: sum.splits)
qed (simp_all add: service_bay_stamp_def service_bay_fields_def)

end
