(* ===== verification/Catalog_Repository.thy ===== *)
theory Catalog_Repository
  imports Catalog_Store Domain_Catalog Domain_People Tx
begin

text \<open>
  The first half of adapters/db/dealership\_repository.go with its statements
  (dbmodels/dealerships.sql.go, dealership\_operation\_time.sql.go, customers.sql.go, vehicles.sql.go,
  users.sql.go, roles.sql.go); the other half is in theory Resource\_Repository.

  Reads are functions of the database; writes are actions on it; the methods that use
  \<open>common.UpdateInTx\<close> take the world of theory Tx. \<open>clock i\<close> is CURRENT\_TIMESTAMP and \<open>newID i\<close> the value
  of \<open>uuid.New\<close> in attempt \<open>i\<close>. \<open>collate\<close> is the sort key the collation of the database gives a text.
\<close>

section \<open>Statements that report a row count\<close>

text \<open>\<open>:execrows\<close> followed by the repository's \<open>if rows == 0\<close>.\<close>

definition execrows ::
  "(go_error \<Rightarrow> go_error) \<Rightarrow> go_error \<Rightarrow> (db \<Rightarrow> nat) \<Rightarrow> (db \<Rightarrow> go_error + db) \<Rightarrow> (db, go_error, unit) action" where
  "execrows h not_found affected stmt d =
     (case stmt d of
        Inl err \<Rightarrow> (Inl (h err), d)
      | Inr d' \<Rightarrow> if affected d = 0 then (Inl not_found, d') else (Inr (), d'))"

definition update_execrows ::
  "'r tab \<Rightarrow> (go_error \<Rightarrow> go_error) \<Rightarrow> go_error \<Rightarrow> ('r \<Rightarrow> bool) \<Rightarrow> ('r \<Rightarrow> 'r) \<Rightarrow> (db, go_error, unit) action" where
  "update_execrows t h not_found key f =
     execrows h not_found (\<lambda>d. count_where key (tb_get t d)) (update_rows t key f)"

definition delete_execrows ::
  "'r tab \<Rightarrow> go_error \<Rightarrow> (db \<Rightarrow> 'r \<Rightarrow> bool) \<Rightarrow> (db, go_error, unit) action" where
  "delete_execrows t not_found key d =
     execrows id not_found (\<lambda>d. count_where (key d) (tb_get t d)) (\<lambda>d. Inr (delete_rows t (key d) d)) d"

text \<open>\<open>UPDATE ... RETURNING\<close> that is expected to return one row.\<close>

definition update_returning ::
  "'r tab \<Rightarrow> (db \<Rightarrow> 'r \<Rightarrow> bool) \<Rightarrow> ('r \<Rightarrow> 'r) \<Rightarrow> (db, go_error, 'r) action" where
  "update_returning t key f d =
     (case update_rows t (key d) f d of
        Inl err \<Rightarrow> (Inl err, d)
      | Inr d' \<Rightarrow>
          (case find_row (key d) (tb_get t d) of
             None \<Rightarrow> (Inl ErrNoRows, d')
           | Some r \<Rightarrow> (Inr (f r), d')))"

section \<open>Dealerships\<close>

definition dealership_row_of :: "Dealership \<Rightarrow> dealership_row" where
  "dealership_row_of x =
     \<lparr>dl_id = d_id x, dl_name = d_name x, dl_code = d_code x, dl_address = d_address x,
      dl_timezone = d_timezone x, dl_is_active = d_isActive x, dl_created_at = to_pg (d_createdAt x),
      dl_deleted_at = None, dl_updated_at = to_pg (d_updatedAt x)\<rparr>"

definition isDuplicateDealershipCode :: "go_error \<Rightarrow> bool" where
  "isDuplicateDealershipCode err =
     (case as_pg err of None \<Rightarrow> False | Some (code, _) \<Rightarrow> code = ''23505'')"

definition CreateDealership_repo :: "Dealership \<Rightarrow> (db, go_error, unit) action" where
  "CreateDealership_repo x =
     on_err (\<lambda>err. if isDuplicateDealershipCode err then AppCatalogErr ErrDealershipCodeTaken else err)
       (exec (insert_row dealership_table (dealership_row_of x)))"

definition CanListDealerships :: "db \<Rightarrow> uuid \<Rightarrow> bool" where
  "CanListDealerships d authUserID \<longleftrightarrow>
     list_ex (\<lambda>u. us_auth_user_id u = authUserID \<and> us_is_active u \<and> us_deleted_at u = None
       \<and> has_role d u [''admin'', ''staff'', ''dealer'']) (users d)"

definition ListDealerships_repo ::
  "(string \<Rightarrow> bool) \<Rightarrow> (string \<Rightarrow> string) \<Rightarrow> db \<Rightarrow> Dealership list result" where
  "ListDealerships_repo load_location collate d =
     convert_rows (\<lambda>r. RehydrateDealership load_location (dl_id r) (dl_name r) (dl_code r) (dl_address r)
         (dl_timezone r) (dl_is_active r) (from_pg (dl_created_at r)) (from_pg (dl_updated_at r)))
       (order_by (\<lambda>r. collate (dl_name r)) (order_by dl_id
         (filter (\<lambda>r. dl_deleted_at r = None) (dealerships d))))"

definition GetActiveDealership :: "db \<Rightarrow> uuid \<Rightarrow> uuid result" where
  "GetActiveDealership d dealershipID =
     rbind (row_as ErrNoRows
        (find_row (\<lambda>r. dl_id r = dealershipID \<and> dl_is_active r \<and> dl_deleted_at r = None) (dealerships d)))
       (\<lambda>r. Inr (dl_id r))"

definition IsActiveDealership :: "db \<Rightarrow> uuid \<Rightarrow> bool" where
  "IsActiveDealership d dealershipID = (\<not> isl (GetActiveDealership d dealershipID))"

section \<open>Operation times\<close>

definition operation_time_row_of :: "DealershipOperationTime \<Rightarrow> operation_time_row" where
  "operation_time_row_of x =
     \<lparr>op_id = ot_id x, op_dealership_id = ot_dealershipID x, op_day_of_week = to_int16 (ot_dayOfWeek x),
      op_opens_at = toPGTime (ot_opensAt x), op_closes_at = toPGTime (ot_closesAt x),
      op_created_at = to_pg (ot_createdAt x), op_updated_at = to_pg (ot_updatedAt x)\<rparr>"

definition operationTimeFromRow :: "operation_time_row \<Rightarrow> DealershipOperationTime result" where
  "operationTimeFromRow r =
     RehydrateDealershipOperationTime (op_id r) (op_dealership_id r) (op_day_of_week r)
       (fromPGTime (op_opens_at r)) (fromPGTime (op_closes_at r))
       (from_pg (op_created_at r)) (from_pg (op_updated_at r))"

definition operationTimeWriteError :: "go_error \<Rightarrow> go_error" where
  "operationTimeWriteError err =
     (if IsUniqueViolationError (Some err) ''dealership_operation_time_no_overlap''
      then AppPeopleErr ErrDealershipOperationTimeOverlaps
      else if as_pg err = Some (''23P01'', ''dealership_operation_time_no_overlap'')
      then AppPeopleErr ErrDealershipOperationTimeOverlaps
      else err)"

definition CreateDealershipOperationTime_repo :: "DealershipOperationTime \<Rightarrow> (db, go_error, unit) action" where
  "CreateDealershipOperationTime_repo x =
     on_err operationTimeWriteError (exec (insert_operation_time (operation_time_row_of x)))"

definition operation_time_key :: "uuid \<Rightarrow> uuid \<Rightarrow> operation_time_row \<Rightarrow> bool" where
  "operation_time_key dealershipID operationTimeID r \<longleftrightarrow>
     op_dealership_id r = dealershipID \<and> op_id r = operationTimeID"

definition GetDealershipOperationTime_repo :: "db \<Rightarrow> uuid \<Rightarrow> uuid \<Rightarrow> DealershipOperationTime result" where
  "GetDealershipOperationTime_repo d dealershipID operationTimeID =
     rbind (row_as (AppPeopleErr ErrDealershipOperationTimeNotFound)
        (find_row (operation_time_key dealershipID operationTimeID) (operation_times d)))
       operationTimeFromRow"

definition ListDealershipOperationTimes_repo :: "db \<Rightarrow> uuid \<Rightarrow> DealershipOperationTime list result" where
  "ListDealershipOperationTimes_repo d dealershipID =
     convert_rows operationTimeFromRow
       (order_by op_day_of_week (order_by op_opens_at
         (filter (\<lambda>r. op_dealership_id r = dealershipID) (operation_times d))))"

definition UpdateDealershipOperationTime_repo :: "DealershipOperationTime \<Rightarrow> (db, go_error, unit) action" where
  "UpdateDealershipOperationTime_repo x =
     (let key = operation_time_key (ot_dealershipID x) (ot_id x) in
      execrows operationTimeWriteError (AppPeopleErr ErrDealershipOperationTimeNotFound)
        (\<lambda>d. count_where key (operation_times d))
        (update_operation_times key
          (\<lambda>r. r\<lparr>op_dealership_id := ot_dealershipID x, op_day_of_week := to_int16 (ot_dayOfWeek x),
                op_opens_at := toPGTime (ot_opensAt x), op_closes_at := toPGTime (ot_closesAt x),
                op_updated_at := to_pg (ot_updatedAt x)\<rparr>)))"

definition DeleteDealershipOperationTime_repo :: "uuid \<Rightarrow> uuid \<Rightarrow> (db, go_error, unit) action" where
  "DeleteDealershipOperationTime_repo dealershipID operationTimeID =
     (let key = operation_time_key dealershipID operationTimeID in
      execrows id (AppPeopleErr ErrDealershipOperationTimeNotFound)
        (\<lambda>d. count_where key (operation_times d))
        (\<lambda>d. Inr (d\<lparr>operation_times := filter (\<lambda>r. \<not> key r) (operation_times d)\<rparr>)))"

section \<open>Customers\<close>

definition customer_row_of :: "Customer \<Rightarrow> customer_row" where
  "customer_row_of x =
     \<lparr>cu_id = c_id x, cu_name = c_name x, cu_phone = c_phone x, cu_email = c_email x,
      cu_created_at = to_pg (c_createdAt x), cu_updated_at = to_pg (c_updatedAt x)\<rparr>"

definition customerFromRow :: "customer_row \<Rightarrow> Customer" where
  "customerFromRow r =
     RestoreCustomer (cu_id r) (cu_name r) (cu_phone r) (cu_email r) (from_pg (cu_created_at r))
       (from_pg (cu_updated_at r))"

definition customerFromQuery :: "customer_row result \<Rightarrow> Customer result" where
  "customerFromQuery q =
     rbind (rerr (no_rows_as (AppPeopleErr ErrCustomerNotFound)) q) (\<lambda>r. Inr (customerFromRow r))"

text \<open>The mapping of the two unique indexes, shared by create and update.\<close>

definition customerWriteError :: "go_error \<Rightarrow> go_error" where
  "customerWriteError err =
     (if IsUniqueViolationError (Some err) ''customers_phone_key'' then AppPeopleErr ErrCustomerPhoneTaken
      else if IsUniqueViolationError (Some err) ''customers_email_unique_when_present''
      then AppPeopleErr ErrCustomerEmailTaken
      else err)"

definition CreateCustomer_repo :: "Customer \<Rightarrow> (db, go_error, Customer) action" where
  "CreateCustomer_repo x =
     andThen (on_err customerWriteError (exec (insert_row customer_table (customer_row_of x))))
       (\<lambda>_. ret (customerFromRow (customer_row_of x)))"

definition GetCustomerByID :: "db \<Rightarrow> uuid \<Rightarrow> customer_row result" where
  "GetCustomerByID d customerID = row_as ErrNoRows (find_row (\<lambda>r. cu_id r = customerID) (customers d))"

definition GetCustomer_repo :: "db \<Rightarrow> uuid \<Rightarrow> Customer result" where
  "GetCustomer_repo d customerID = customerFromQuery (GetCustomerByID d customerID)"

definition UpdateCustomer_repo :: "Customer \<Rightarrow> (db, go_error, Customer) action" where
  "UpdateCustomer_repo x =
     andThen (on_err (\<lambda>err. no_rows_as (AppPeopleErr ErrCustomerNotFound) (customerWriteError err))
        (update_returning customer_table (\<lambda>d r. cu_id r = c_id x)
          (\<lambda>r. r\<lparr>cu_name := c_name x, cu_phone := c_phone x, cu_email := c_email x,
                cu_updated_at := to_pg (c_updatedAt x)\<rparr>)))
       (\<lambda>r. ret (customerFromRow r))"

definition GetCustomerByPhone_repo :: "db \<Rightarrow> string \<Rightarrow> Customer result" where
  "GetCustomerByPhone_repo d phone =
     customerFromQuery (row_as ErrNoRows (find_row (\<lambda>r. cu_phone r = phone) (customers d)))"

definition GetCustomerByEmail_repo :: "db \<Rightarrow> string \<Rightarrow> Customer result" where
  "GetCustomerByEmail_repo d email =
     customerFromQuery (row_as ErrNoRows
       (find_row (\<lambda>r. map_option ToLower (cu_email r) = Some email) (customers d)))"

section \<open>Vehicles\<close>

definition vehicle_row_of :: "Vehicle \<Rightarrow> vehicle_row" where
  "vehicle_row_of x =
     \<lparr>ve_id = v_id x, ve_customer_id = v_customerID x, ve_vin = v_vin x,
      ve_registration_plate = v_registrationPlate x, ve_make = v_make x, ve_model = v_model x,
      ve_model_year = map_option to_int16 (v_modelYear x), ve_created_at = to_pg (v_createdAt x),
      ve_deleted_at = None, ve_updated_at = to_pg (v_updatedAt x)\<rparr>"

definition vehicleFromRow :: "vehicle_row \<Rightarrow> Vehicle" where
  "vehicleFromRow r =
     RestoreVehicle (ve_id r) (ve_customer_id r) (ve_vin r) (ve_registration_plate r) (ve_make r)
       (ve_model r) (ve_model_year r) (from_pg (ve_created_at r)) (from_pg (ve_updated_at r))"

definition GetActiveVehicleManagerDealership :: "db \<Rightarrow> uuid \<Rightarrow> uuid result" where
  "GetActiveVehicleManagerDealership d authUserID =
     rbind (row_as (AppPeopleErr ErrVehicleCustomerForbidden)
        (find_row (\<lambda>u. us_auth_user_id u = authUserID \<and> us_is_active u \<and> us_deleted_at u = None
           \<and> has_role d u [''admin'', ''dealer'', ''staff'', ''technician'']) (users d)))
       (\<lambda>u. Inr (us_dealership_id u))"

text \<open>\<open>INSERT ... ON CONFLICT (customer_id) DO NOTHING\<close>.\<close>

definition ClaimCustomerDealership :: "pgtime \<Rightarrow> uuid \<Rightarrow> uuid \<Rightarrow> db \<Rightarrow> go_error + db" where
  "ClaimCustomerDealership now customerID dealershipID d =
     (if list_ex (\<lambda>r. cd_customer_id r = customerID) (customer_dealerships d) then Inr d
      else insert_row customer_dealership_table
        \<lparr>cd_customer_id = customerID, cd_dealership_id = dealershipID, cd_created_at = now\<rparr> d)"

definition GetCustomerDealership :: "db \<Rightarrow> uuid \<Rightarrow> uuid result" where
  "GetCustomerDealership d customerID =
     rbind (row_as ErrNoRows (find_row (\<lambda>r. cd_customer_id r = customerID) (customer_dealerships d)))
       (\<lambda>r. Inr (cd_dealership_id r))"

definition create_vehicle_body :: "pgtime \<Rightarrow> uuid \<Rightarrow> Vehicle \<Rightarrow> (db, go_error, unit) action" where
  "create_vehicle_body now dealershipID vehicle =
     andThen (on_err (no_rows_as (AppPeopleErr ErrCustomerNotFound))
        (query_res (\<lambda>d. GetCustomerByID d (v_customerID vehicle)))) (\<lambda>_.
     andThen (exec (ClaimCustomerDealership now (v_customerID vehicle) dealershipID)) (\<lambda>_.
     andThen (query_res (\<lambda>d. GetCustomerDealership d (v_customerID vehicle))) (\<lambda>owner.
     andThen (ensure (owner = dealershipID) (AppPeopleErr ErrVehicleCustomerForbidden)) (\<lambda>_.
     exec (insert_row vehicle_table (vehicle_row_of vehicle))))))"

definition vehicleWriteError :: "go_error \<Rightarrow> go_error" where
  "vehicleWriteError err =
     (if IsUniqueViolationError (Some err) ''vehicles_vin_unique_when_present''
      then AppPeopleErr ErrVehicleVINTaken else err)"

definition CreateVehicle_repo ::
  "(unit, db) world \<Rightarrow> (nat \<Rightarrow> pgtime) \<Rightarrow> uuid \<Rightarrow> Vehicle \<Rightarrow> (db, go_error, unit) action" where
  "CreateVehicle_repo w clock dealershipID vehicle =
     on_err vehicleWriteError (in_tx w (\<lambda>i. create_vehicle_body (clock i) dealershipID vehicle))"

definition vehicle_key :: "uuid \<Rightarrow> vehicle_row \<Rightarrow> bool" where
  "vehicle_key vehicleID r \<longleftrightarrow> ve_id r = vehicleID \<and> ve_deleted_at r = None"

definition GetVehicle_repo :: "db \<Rightarrow> uuid \<Rightarrow> Vehicle result" where
  "GetVehicle_repo d vehicleID =
     rbind (row_as (AppPeopleErr ErrVehicleNotFound) (find_row (vehicle_key vehicleID) (vehicles d)))
       (\<lambda>r. Inr (vehicleFromRow r))"

definition ListCustomerVehicles_repo :: "db \<Rightarrow> uuid \<Rightarrow> Vehicle list" where
  "ListCustomerVehicles_repo d customerID =
     map vehicleFromRow
       (order_by ve_created_at (order_by ve_id
         (filter (\<lambda>r. ve_customer_id r = customerID \<and> ve_deleted_at r = None) (vehicles d))))"

definition CustomerBelongsToDealership :: "db \<Rightarrow> uuid \<Rightarrow> uuid \<Rightarrow> bool" where
  "CustomerBelongsToDealership d customerID dealershipID = (GetCustomerDealership d customerID = Inr dealershipID)"

definition UpdateVehicle_repo :: "Vehicle \<Rightarrow> (db, go_error, unit) action" where
  "UpdateVehicle_repo x =
     update_execrows vehicle_table vehicleWriteError (AppPeopleErr ErrVehicleNotFound) (vehicle_key (v_id x))
       (\<lambda>r. r\<lparr>ve_vin := v_vin x, ve_registration_plate := v_registrationPlate x, ve_make := v_make x,
             ve_model := v_model x, ve_model_year := map_option to_int16 (v_modelYear x),
             ve_updated_at := to_pg (v_updatedAt x)\<rparr>)"

definition DeleteVehicle_repo :: "uuid \<Rightarrow> gotime \<Rightarrow> (db, go_error, unit) action" where
  "DeleteVehicle_repo vehicleID deletedAt =
     update_execrows vehicle_table id (AppPeopleErr ErrVehicleNotFound) (vehicle_key vehicleID)
       (\<lambda>r. r\<lparr>ve_deleted_at := Some (to_pg deletedAt)\<rparr>)"

section \<open>Scheduler users\<close>

definition GetSchedulerUserByAuthUserID :: "db \<Rightarrow> uuid \<Rightarrow> uuid result" where
  "GetSchedulerUserByAuthUserID d authUserID =
     rbind (row_as ErrNoRows
        (find_row (\<lambda>u. us_auth_user_id u = authUserID \<and> us_deleted_at u = None) (users d)))
       (\<lambda>u. Inr (us_id u))"

definition GetRoleByCode :: "db \<Rightarrow> string \<Rightarrow> uuid result" where
  "GetRoleByCode d code =
     rbind (row_as ErrNoRows (find_row (\<lambda>r. ro_code r = code \<and> ro_deleted_at r = None) (roles d)))
       (\<lambda>r. Inr (ro_id r))"

text \<open>\<open>CreateSchedulerUser\<close> and \<open>CreateSchedulerAdmin\<close>: the user and its role in one statement.\<close>

definition insert_user_with_role :: "user_row \<Rightarrow> uuid \<Rightarrow> uuid \<Rightarrow> db \<Rightarrow> go_error + db" where
  "insert_user_with_role u userRoleID roleID d =
     rbind (insert_user u d) (insert_row user_role_table
       \<lparr>ur_id = userRoleID, ur_user_id = us_id u, ur_role_id = roleID, ur_created_at = us_created_at u,
        ur_deleted_at = None\<rparr>)"

definition create_user_body ::
  "uuid \<Rightarrow> uuid \<Rightarrow> uuid \<Rightarrow> string \<Rightarrow> user_row \<Rightarrow> (db, go_error, unit) action" where
  "create_user_body userRoleID dealershipID authUserID role row =
     andThen (on_err (no_rows_as (AppCatalogErr ErrDealershipNotFound))
        (query_res (\<lambda>d. GetActiveDealership d dealershipID))) (\<lambda>_.
     andThen (query_res (\<lambda>d. case GetSchedulerUserByAuthUserID d authUserID of
          Inr _ \<Rightarrow> Inl (AppCatalogErr ErrAuthUserAlreadyAssigned)
        | Inl err \<Rightarrow> if errors_is err ErrNoRows then Inr () else Inl err)) (\<lambda>_.
     andThen (query_res (\<lambda>d. GetRoleByCode d role)) (\<lambda>roleID.
     exec (insert_user_with_role row userRoleID roleID))))"

definition scheduler_user_row :: "DealershipUser \<Rightarrow> user_row" where
  "scheduler_user_row x =
     \<lparr>us_id = du_id x, us_auth_user_id = du_authUserID x, us_name = du_name x, us_phone = None,
      us_email = Some (du_email x), us_dealership_id = du_dealershipID x, us_is_active = True,
      us_created_at = to_pg (du_createdAt x), us_deleted_at = None, us_updated_at = to_pg (du_updatedAt x)\<rparr>"

definition authUserWriteError :: "go_error \<Rightarrow> go_error" where
  "authUserWriteError err =
     (if IsUniqueViolationError (Some err) ''users_auth_user_id_unique_when_present''
      then AppCatalogErr ErrAuthUserAlreadyAssigned else err)"

definition CreateDealershipUser_repo ::
  "(unit, db) world \<Rightarrow> (nat \<Rightarrow> uuid) \<Rightarrow> DealershipUser \<Rightarrow> (db, go_error, unit) action" where
  "CreateDealershipUser_repo w newID x =
     on_err authUserWriteError (in_tx w (\<lambda>i. create_user_body (newID i) (du_dealershipID x) (du_authUserID x)
       (du_role x) (scheduler_user_row x)))"

definition scheduler_admin_row :: "DealershipAdmin \<Rightarrow> user_row" where
  "scheduler_admin_row x =
     \<lparr>us_id = da_id x, us_auth_user_id = da_authUserID x, us_name = da_name x, us_phone = da_phone x,
      us_email = da_email x, us_dealership_id = da_dealershipID x, us_is_active = True,
      us_created_at = to_pg (da_createdAt x), us_deleted_at = None, us_updated_at = to_pg (da_updatedAt x)\<rparr>"

definition CreateDealershipAdmin_repo ::
  "(unit, db) world \<Rightarrow> (nat \<Rightarrow> uuid) \<Rightarrow> DealershipAdmin \<Rightarrow> (db, go_error, unit) action" where
  "CreateDealershipAdmin_repo w newID x =
     on_err authUserWriteError (in_tx w (\<lambda>i. create_user_body (newID i) (da_dealershipID x) (da_authUserID x)
       ''admin'' (scheduler_admin_row x)))"

end
