(* ===== verification/Resource_Repository.thy ===== *)
theory Resource_Repository
  imports Catalog_Repository
begin

text \<open>
  The second half of adapters/db/dealership\_repository.go: service types, the skills and bay
  capabilities they require, service bays and their capabilities.
\<close>

section \<open>Service types\<close>

definition service_type_row_of :: "ServiceType \<Rightarrow> service_type_row" where
  "service_type_row_of x =
     \<lparr>sty_id = st_id x, sty_dealership_id = st_dealershipID x, sty_name = st_name x,
      sty_default_duration_minutes = to_int32 (st_defaultDurationMinutes x),
      sty_min_duration_minutes = to_int32 (st_minDurationMinutes x),
      sty_max_duration_minutes = to_int32 (st_maxDurationMinutes x), sty_is_active = st_isActive x,
      sty_created_at = to_pg (st_createdAt x), sty_deleted_at = None,
      sty_updated_at = to_pg (st_updatedAt x)\<rparr>"

definition serviceTypeFromRow :: "service_type_row \<Rightarrow> ServiceType result" where
  "serviceTypeFromRow r =
     RehydrateServiceType (sty_id r) (sty_dealership_id r) (sty_name r) (sty_default_duration_minutes r)
       (sty_min_duration_minutes r) (sty_max_duration_minutes r) (sty_is_active r)
       (from_pg (sty_created_at r)) (from_pg (sty_updated_at r))"

definition serviceTypeWriteError :: "go_error \<Rightarrow> go_error" where
  "serviceTypeWriteError err =
     (if IsUniqueViolationError (Some err) ''service_types_dealership_name_unique''
      then AppCatalogErr ErrServiceTypeNameTaken else err)"

definition CreateServiceType_repo :: "ServiceType \<Rightarrow> (db, go_error, unit) action" where
  "CreateServiceType_repo x =
     on_err serviceTypeWriteError (exec (insert_row service_type_table (service_type_row_of x)))"

definition service_type_key :: "uuid \<Rightarrow> uuid \<Rightarrow> service_type_row \<Rightarrow> bool" where
  "service_type_key dealershipID serviceTypeID r \<longleftrightarrow>
     sty_id r = serviceTypeID \<and> sty_dealership_id r = dealershipID \<and> sty_deleted_at r = None"

definition GetServiceType_sql :: "db \<Rightarrow> uuid \<Rightarrow> uuid \<Rightarrow> service_type_row result" where
  "GetServiceType_sql d dealershipID serviceTypeID =
     row_as ErrNoRows (find_row (service_type_key dealershipID serviceTypeID) (service_types d))"

definition GetServiceType_repo :: "db \<Rightarrow> uuid \<Rightarrow> uuid \<Rightarrow> ServiceType result" where
  "GetServiceType_repo d dealershipID serviceTypeID =
     rbind (rerr (no_rows_as (AppCatalogErr ErrServiceTypeNotFound)) (GetServiceType_sql d dealershipID serviceTypeID))
       serviceTypeFromRow"

definition ListServiceTypes_repo :: "(string \<Rightarrow> string) \<Rightarrow> db \<Rightarrow> uuid \<Rightarrow> ServiceType list result" where
  "ListServiceTypes_repo collate d dealershipID =
     convert_rows serviceTypeFromRow
       (order_by (\<lambda>r. collate (sty_name r)) (order_by sty_id
         (filter (\<lambda>r. sty_dealership_id r = dealershipID \<and> sty_deleted_at r = None) (service_types d))))"

definition UpdateServiceType_repo :: "ServiceType \<Rightarrow> (db, go_error, unit) action" where
  "UpdateServiceType_repo x =
     update_execrows service_type_table serviceTypeWriteError (AppCatalogErr ErrServiceTypeNotFound)
       (service_type_key (st_dealershipID x) (st_id x))
       (\<lambda>r. r\<lparr>sty_name := st_name x,
             sty_default_duration_minutes := to_int32 (st_defaultDurationMinutes x),
             sty_min_duration_minutes := to_int32 (st_minDurationMinutes x),
             sty_max_duration_minutes := to_int32 (st_maxDurationMinutes x),
             sty_is_active := st_isActive x, sty_updated_at := to_pg (st_updatedAt x)\<rparr>)"

definition HasAppointmentsForServiceType :: "db \<Rightarrow> uuid \<Rightarrow> bool" where
  "HasAppointmentsForServiceType d serviceTypeID \<longleftrightarrow>
     list_ex (\<lambda>a. ap_service_type_id a = serviceTypeID) (appointments d)"

definition delete_service_type_body :: "uuid \<Rightarrow> uuid \<Rightarrow> gotime \<Rightarrow> (db, go_error, unit) action" where
  "delete_service_type_body dealershipID serviceTypeID deletedAt =
     andThen (on_err (no_rows_as (AppCatalogErr ErrServiceTypeNotFound))
        (query_res (\<lambda>d. GetServiceType_sql d dealershipID serviceTypeID))) (\<lambda>_.
     andThen (query (\<lambda>d. HasAppointmentsForServiceType d serviceTypeID)) (\<lambda>inUse.
     andThen (ensure (\<not> inUse) (AppCatalogErr ErrServiceTypeInUse)) (\<lambda>_.
     update_execrows service_type_table id (AppCatalogErr ErrServiceTypeNotFound)
       (service_type_key dealershipID serviceTypeID) (\<lambda>r. r\<lparr>sty_deleted_at := Some (to_pg deletedAt)\<rparr>))))"

definition DeleteServiceType_repo ::
  "(unit, db) world \<Rightarrow> uuid \<Rightarrow> uuid \<Rightarrow> gotime \<Rightarrow> (db, go_error, unit) action" where
  "DeleteServiceType_repo w dealershipID serviceTypeID deletedAt =
     in_tx w (\<lambda>i. delete_service_type_body dealershipID serviceTypeID deletedAt)"

section \<open>Service bays\<close>

definition service_bay_row_of :: "ServiceBay \<Rightarrow> service_bay_row" where
  "service_bay_row_of x =
     \<lparr>bay_id = sb_id x, bay_dealership_id = sb_dealershipID x, bay_code = sb_code x, bay_name = sb_name x,
      bay_is_active = sb_isActive x, bay_created_at = to_pg (sb_createdAt x), bay_deleted_at = None,
      bay_updated_at = to_pg (sb_updatedAt x)\<rparr>"

definition serviceBayFromRow :: "service_bay_row \<Rightarrow> ServiceBay result" where
  "serviceBayFromRow r =
     RehydrateServiceBay (bay_id r) (bay_dealership_id r) (bay_code r) (bay_name r) (bay_is_active r)
       (from_pg (bay_created_at r)) (from_pg (bay_updated_at r))"

definition serviceBayWriteError :: "go_error \<Rightarrow> go_error" where
  "serviceBayWriteError err =
     (if IsUniqueViolationError (Some err) ''service_bays_dealership_code_lower_unique''
      then AppCatalogErr ErrServiceBayCodeTaken else err)"

definition CreateServiceBay_repo :: "ServiceBay \<Rightarrow> (db, go_error, unit) action" where
  "CreateServiceBay_repo x =
     on_err serviceBayWriteError (exec (insert_row service_bay_table (service_bay_row_of x)))"

definition service_bay_key :: "uuid \<Rightarrow> uuid \<Rightarrow> service_bay_row \<Rightarrow> bool" where
  "service_bay_key dealershipID serviceBayID r \<longleftrightarrow>
     bay_id r = serviceBayID \<and> bay_dealership_id r = dealershipID \<and> bay_deleted_at r = None"

definition GetServiceBay_sql :: "db \<Rightarrow> uuid \<Rightarrow> uuid \<Rightarrow> service_bay_row result" where
  "GetServiceBay_sql d dealershipID serviceBayID =
     row_as ErrNoRows (find_row (service_bay_key dealershipID serviceBayID) (service_bays d))"

definition GetServiceBay_repo :: "db \<Rightarrow> uuid \<Rightarrow> uuid \<Rightarrow> ServiceBay result" where
  "GetServiceBay_repo d dealershipID serviceBayID =
     rbind (rerr (no_rows_as (AppCatalogErr ErrServiceBayNotFound)) (GetServiceBay_sql d dealershipID serviceBayID))
       serviceBayFromRow"

definition ListServiceBays_repo ::
  "(string \<Rightarrow> string) \<Rightarrow> db \<Rightarrow> uuid \<Rightarrow> bool option \<Rightarrow> int \<Rightarrow> int \<Rightarrow> ServiceBay list result" where
  "ListServiceBays_repo collate d dealershipID isActive limit off =
     rbind (page limit off
       (order_by (\<lambda>r. collate (bay_code r)) (order_by bay_id
         (filter (\<lambda>r. bay_dealership_id r = dealershipID \<and> bay_deleted_at r = None
             \<and> (isActive = None \<or> isActive = Some (bay_is_active r))) (service_bays d)))))
       (convert_rows serviceBayFromRow)"

definition UpdateServiceBay_repo :: "ServiceBay \<Rightarrow> (db, go_error, unit) action" where
  "UpdateServiceBay_repo x =
     update_execrows service_bay_table serviceBayWriteError (AppCatalogErr ErrServiceBayNotFound)
       (service_bay_key (sb_dealershipID x) (sb_id x))
       (\<lambda>r. r\<lparr>bay_code := sb_code x, bay_name := sb_name x, bay_is_active := sb_isActive x,
             bay_updated_at := to_pg (sb_updatedAt x)\<rparr>)"

definition HasAppointmentsForServiceBay :: "db \<Rightarrow> uuid \<Rightarrow> bool" where
  "HasAppointmentsForServiceBay d serviceBayID \<longleftrightarrow>
     list_ex (\<lambda>a. ap_service_bay_id a = serviceBayID \<and> ap_deleted_at a = None) (appointments d)"

definition delete_service_bay_body :: "uuid \<Rightarrow> uuid \<Rightarrow> gotime \<Rightarrow> (db, go_error, unit) action" where
  "delete_service_bay_body dealershipID serviceBayID deletedAt =
     andThen (on_err (no_rows_as (AppCatalogErr ErrServiceBayNotFound))
        (query_res (\<lambda>d. GetServiceBay_sql d dealershipID serviceBayID))) (\<lambda>_.
     andThen (query (\<lambda>d. HasAppointmentsForServiceBay d serviceBayID)) (\<lambda>inUse.
     andThen (ensure (\<not> inUse) (AppCatalogErr ErrServiceBayInUse)) (\<lambda>_.
     update_execrows service_bay_table id (AppCatalogErr ErrServiceBayNotFound)
       (service_bay_key dealershipID serviceBayID) (\<lambda>r. r\<lparr>bay_deleted_at := Some (to_pg deletedAt)\<rparr>))))"

definition DeleteServiceBay_repo ::
  "(unit, db) world \<Rightarrow> uuid \<Rightarrow> uuid \<Rightarrow> gotime \<Rightarrow> (db, go_error, unit) action" where
  "DeleteServiceBay_repo w dealershipID serviceBayID deletedAt =
     in_tx w (\<lambda>i. delete_service_bay_body dealershipID serviceBayID deletedAt)"

section \<open>Associations\<close>

text \<open>The three association tables have statements of one shape: a row links a parent of the
  dealership that is not deleted (a service type or a bay) to a target (a skill or a
  capability). \<open>INSERT ... SELECT\<close> inserts nothing when either is absent.\<close>

definition insert_link ::
  "'r tab \<Rightarrow> (db \<Rightarrow> bool) \<Rightarrow> (db \<Rightarrow> bool) \<Rightarrow> 'r \<Rightarrow> (db, go_error, unit) action" where
  "insert_link t parent target row =
     andThen (query (\<lambda>d. parent d \<and> target d)) (\<lambda>present.
     andThen (ensure present ErrNoRows) (\<lambda>_. exec (insert_row t row)))"

definition service_type_of_dealership :: "uuid \<Rightarrow> uuid \<Rightarrow> db \<Rightarrow> bool" where
  "service_type_of_dealership dealershipID serviceTypeID d =
     list_ex (service_type_key dealershipID serviceTypeID) (service_types d)"

definition service_bay_of_dealership :: "uuid \<Rightarrow> uuid \<Rightarrow> db \<Rightarrow> bool" where
  "service_bay_of_dealership dealershipID serviceBayID d =
     list_ex (service_bay_key dealershipID serviceBayID) (service_bays d)"

definition SkillExists :: "db \<Rightarrow> uuid \<Rightarrow> bool" where
  "SkillExists d skillID = list_ex (\<lambda>s. sk_id s = skillID) (skills d)"

definition BayCapabilityExists :: "db \<Rightarrow> uuid \<Rightarrow> bool" where
  "BayCapabilityExists d bayCapabilityID = list_ex (\<lambda>c. cap_id c = bayCapabilityID) (capabilities d)"

subsection \<open>Skills a service type requires\<close>

definition required_skill_row_of :: "ServiceTypeRequiredSkill \<Rightarrow> required_skill_row" where
  "required_skill_row_of x =
     \<lparr>rsk_id = rs_id x, rsk_service_type_id = rs_serviceTypeID x, rsk_skill_id = rs_skillID x,
      rsk_created_at = to_pg (rs_createdAt x), rsk_updated_at = to_pg (rs_updatedAt x)\<rparr>"

definition requiredSkillFromRow :: "required_skill_row \<times> skill_row \<Rightarrow> ServiceTypeRequiredSkill result" where
  "requiredSkillFromRow rs =
     (case rs of (r, s) \<Rightarrow>
        RehydrateServiceTypeRequiredSkill (rsk_id r) (rsk_service_type_id r) (sk_id s) (sk_code s) (sk_name s)
          (from_pg (rsk_created_at r)) (from_pg (rsk_updated_at r)))"

definition required_skill_key :: "uuid \<Rightarrow> uuid \<Rightarrow> uuid \<Rightarrow> db \<Rightarrow> required_skill_row \<Rightarrow> bool" where
  "required_skill_key dealershipID serviceTypeID requiredSkillID d r \<longleftrightarrow>
     rsk_id r = requiredSkillID \<and> rsk_service_type_id r = serviceTypeID
     \<and> service_type_of_dealership dealershipID (rsk_service_type_id r) d"

definition GetServiceTypeRequiredSkill_repo ::
  "db \<Rightarrow> uuid \<Rightarrow> uuid \<Rightarrow> uuid \<Rightarrow> ServiceTypeRequiredSkill result" where
  "GetServiceTypeRequiredSkill_repo d dealershipID serviceTypeID requiredSkillID =
     rbind (row_as (AppCatalogErr ErrServiceTypeRequiredSkillNotFound)
        (find_row (\<lambda>(r, s). required_skill_key dealershipID serviceTypeID requiredSkillID d r \<and> sk_id s = rsk_skill_id r)
          (List.product (required_skills d) (skills d))))
       requiredSkillFromRow"

definition requiredSkillWriteError :: "go_error \<Rightarrow> go_error" where
  "requiredSkillWriteError err =
     (if IsUniqueViolationError (Some err) ''service_type_required_skills_service_type_skill_unique''
      then AppCatalogErr ErrServiceTypeRequiredSkillTaken else err)"

definition CreateServiceTypeRequiredSkill_repo ::
  "uuid \<Rightarrow> ServiceTypeRequiredSkill \<Rightarrow> (db, go_error, ServiceTypeRequiredSkill) action" where
  "CreateServiceTypeRequiredSkill_repo dealershipID x d =
     (case insert_link required_skill_table (service_type_of_dealership dealershipID (rs_serviceTypeID x))
             (\<lambda>d. SkillExists d (rs_skillID x)) (required_skill_row_of x) d of
        (Inr _, d') \<Rightarrow>
          (GetServiceTypeRequiredSkill_repo d' dealershipID (rs_serviceTypeID x) (rs_id x), d')
      | (Inl err, d') \<Rightarrow>
          (Inl (if IsUniqueViolationError (Some err) ''service_type_required_skills_service_type_skill_unique''
                then AppCatalogErr ErrServiceTypeRequiredSkillTaken
                else if errors_is err ErrNoRows
                then (case GetServiceType_repo d dealershipID (rs_serviceTypeID x) of
                        Inl e \<Rightarrow> e | Inr _ \<Rightarrow> AppCatalogErr ErrSkillNotFound)
                else err), d'))"

definition ListServiceTypeRequiredSkills_repo ::
  "(string \<Rightarrow> string) \<Rightarrow> db \<Rightarrow> uuid \<Rightarrow> uuid \<Rightarrow> ServiceTypeRequiredSkill list result" where
  "ListServiceTypeRequiredSkills_repo collate d dealershipID serviceTypeID =
     rbind (GetServiceType_repo d dealershipID serviceTypeID) (\<lambda>_.
     convert_rows requiredSkillFromRow
       (order_by (\<lambda>(r, s). collate (sk_name s)) (order_by (\<lambda>(r, s). sk_id s)
         (filter (\<lambda>(r, s). rsk_service_type_id r = serviceTypeID
             \<and> service_type_of_dealership dealershipID (rsk_service_type_id r) d \<and> sk_id s = rsk_skill_id r)
           (List.product (required_skills d) (skills d))))))"

definition UpdateServiceTypeRequiredSkill_repo ::
  "uuid \<Rightarrow> ServiceTypeRequiredSkill \<Rightarrow> (db, go_error, ServiceTypeRequiredSkill) action" where
  "UpdateServiceTypeRequiredSkill_repo dealershipID x =
     andThen (query (\<lambda>d. SkillExists d (rs_skillID x))) (\<lambda>skillExists.
     andThen (ensure skillExists (AppCatalogErr ErrSkillNotFound)) (\<lambda>_.
     andThen (on_err (\<lambda>err. no_rows_as (AppCatalogErr ErrServiceTypeRequiredSkillNotFound) (requiredSkillWriteError err))
        (update_returning required_skill_table
          (required_skill_key dealershipID (rs_serviceTypeID x) (rs_id x))
          (\<lambda>r. r\<lparr>rsk_skill_id := rs_skillID x, rsk_updated_at := to_pg (rs_updatedAt x)\<rparr>))) (\<lambda>_.
     query_res (\<lambda>d. GetServiceTypeRequiredSkill_repo d dealershipID (rs_serviceTypeID x) (rs_id x)))))"

definition DeleteServiceTypeRequiredSkill_repo :: "uuid \<Rightarrow> uuid \<Rightarrow> uuid \<Rightarrow> (db, go_error, unit) action" where
  "DeleteServiceTypeRequiredSkill_repo dealershipID serviceTypeID requiredSkillID =
     delete_execrows required_skill_table (AppCatalogErr ErrServiceTypeRequiredSkillNotFound)
       (required_skill_key dealershipID serviceTypeID requiredSkillID)"

subsection \<open>Bay capabilities a service type requires\<close>

definition required_capability_row_of :: "ServiceTypeRequiredBayCapability \<Rightarrow> required_capability_row" where
  "required_capability_row_of x =
     \<lparr>rcap_id = rc_id x, rcap_service_type_id = rc_serviceTypeID x,
      rcap_bay_capability_id = rc_bayCapabilityID x, rcap_created_at = to_pg (rc_createdAt x),
      rcap_updated_at = to_pg (rc_updatedAt x)\<rparr>"

definition requiredBayCapabilityFromRow ::
  "required_capability_row \<times> capability_row \<Rightarrow> ServiceTypeRequiredBayCapability result" where
  "requiredBayCapabilityFromRow rc =
     (case rc of (r, c) \<Rightarrow>
        RehydrateServiceTypeRequiredBayCapability (rcap_id r) (rcap_service_type_id r) (cap_id c) (cap_code c)
          (cap_name c) (from_pg (rcap_created_at r)) (from_pg (rcap_updated_at r)))"

definition required_capability_key :: "uuid \<Rightarrow> uuid \<Rightarrow> uuid \<Rightarrow> db \<Rightarrow> required_capability_row \<Rightarrow> bool" where
  "required_capability_key dealershipID serviceTypeID requiredCapabilityID d r \<longleftrightarrow>
     rcap_id r = requiredCapabilityID \<and> rcap_service_type_id r = serviceTypeID
     \<and> service_type_of_dealership dealershipID (rcap_service_type_id r) d"

definition GetServiceTypeRequiredBayCapability_repo ::
  "db \<Rightarrow> uuid \<Rightarrow> uuid \<Rightarrow> uuid \<Rightarrow> ServiceTypeRequiredBayCapability result" where
  "GetServiceTypeRequiredBayCapability_repo d dealershipID serviceTypeID requiredCapabilityID =
     rbind (row_as (AppCatalogErr ErrServiceTypeRequiredBayCapabilityNotFound)
        (find_row (\<lambda>(r, c). required_capability_key dealershipID serviceTypeID requiredCapabilityID d r
             \<and> cap_id c = rcap_bay_capability_id r)
          (List.product (required_capabilities d) (capabilities d))))
       requiredBayCapabilityFromRow"

text \<open>The constraint the code asks for by its full name of 73 characters.\<close>

definition requiredBayCapabilityWriteError :: "go_error \<Rightarrow> go_error" where
  "requiredBayCapabilityWriteError err =
     (if IsUniqueViolationError (Some err)
           ''service_type_required_bay_capabilities_service_type_bay_capability_unique''
      then AppCatalogErr ErrServiceTypeRequiredBayCapabilityTaken else err)"

definition CreateServiceTypeRequiredBayCapability_repo ::
  "uuid \<Rightarrow> ServiceTypeRequiredBayCapability \<Rightarrow> (db, go_error, ServiceTypeRequiredBayCapability) action" where
  "CreateServiceTypeRequiredBayCapability_repo dealershipID x d =
     (case insert_link required_capability_table (service_type_of_dealership dealershipID (rc_serviceTypeID x))
             (\<lambda>d. BayCapabilityExists d (rc_bayCapabilityID x)) (required_capability_row_of x) d of
        (Inr _, d') \<Rightarrow>
          (GetServiceTypeRequiredBayCapability_repo d' dealershipID (rc_serviceTypeID x) (rc_id x), d')
      | (Inl err, d') \<Rightarrow>
          (Inl (if IsUniqueViolationError (Some err) ''service_type_required_bay_capabilities_service_type_bay_capability_unique''
                then AppCatalogErr ErrServiceTypeRequiredBayCapabilityTaken
                else if errors_is err ErrNoRows
                then (case GetServiceType_repo d dealershipID (rc_serviceTypeID x) of
                        Inl e \<Rightarrow> e | Inr _ \<Rightarrow> AppCatalogErr ErrBayCapabilityNotFound)
                else err), d'))"

definition ListServiceTypeRequiredBayCapabilities_repo ::
  "(string \<Rightarrow> string) \<Rightarrow> db \<Rightarrow> uuid \<Rightarrow> uuid \<Rightarrow> ServiceTypeRequiredBayCapability list result" where
  "ListServiceTypeRequiredBayCapabilities_repo collate d dealershipID serviceTypeID =
     rbind (GetServiceType_repo d dealershipID serviceTypeID) (\<lambda>_.
     convert_rows requiredBayCapabilityFromRow
       (order_by (\<lambda>(r, c). collate (cap_name c)) (order_by (\<lambda>(r, c). cap_id c)
         (filter (\<lambda>(r, c). rcap_service_type_id r = serviceTypeID
             \<and> service_type_of_dealership dealershipID (rcap_service_type_id r) d
             \<and> cap_id c = rcap_bay_capability_id r)
           (List.product (required_capabilities d) (capabilities d))))))"

definition UpdateServiceTypeRequiredBayCapability_repo ::
  "uuid \<Rightarrow> ServiceTypeRequiredBayCapability \<Rightarrow> (db, go_error, ServiceTypeRequiredBayCapability) action" where
  "UpdateServiceTypeRequiredBayCapability_repo dealershipID x =
     andThen (query (\<lambda>d. BayCapabilityExists d (rc_bayCapabilityID x))) (\<lambda>present.
     andThen (ensure present (AppCatalogErr ErrBayCapabilityNotFound)) (\<lambda>_.
     andThen (on_err (\<lambda>err. no_rows_as (AppCatalogErr ErrServiceTypeRequiredBayCapabilityNotFound)
            (requiredBayCapabilityWriteError err))
        (update_returning required_capability_table
          (required_capability_key dealershipID (rc_serviceTypeID x) (rc_id x))
          (\<lambda>r. r\<lparr>rcap_bay_capability_id := rc_bayCapabilityID x, rcap_updated_at := to_pg (rc_updatedAt x)\<rparr>))) (\<lambda>_.
     query_res (\<lambda>d. GetServiceTypeRequiredBayCapability_repo d dealershipID (rc_serviceTypeID x) (rc_id x)))))"

definition DeleteServiceTypeRequiredBayCapability_repo ::
  "uuid \<Rightarrow> uuid \<Rightarrow> uuid \<Rightarrow> (db, go_error, unit) action" where
  "DeleteServiceTypeRequiredBayCapability_repo dealershipID serviceTypeID requiredCapabilityID =
     delete_execrows required_capability_table (AppCatalogErr ErrServiceTypeRequiredBayCapabilityNotFound)
       (required_capability_key dealershipID serviceTypeID requiredCapabilityID)"

subsection \<open>Capabilities of a bay\<close>

definition bay_capability_row_of :: "ServiceBayCapability \<Rightarrow> bay_capability_row" where
  "bay_capability_row_of x =
     \<lparr>bcap_id = bc_id x, bcap_service_bay_id = bc_serviceBayID x,
      bcap_bay_capability_id = bc_bayCapabilityID x, bcap_created_at = to_pg (bc_createdAt x),
      bcap_updated_at = to_pg (bc_updatedAt x)\<rparr>"

definition serviceBayCapabilityFromRow ::
  "bay_capability_row \<times> capability_row \<Rightarrow> ServiceBayCapability result" where
  "serviceBayCapabilityFromRow rc =
     (case rc of (r, c) \<Rightarrow>
        RehydrateServiceBayCapability (bcap_id r) (bcap_service_bay_id r) (cap_id c) (cap_code c) (cap_name c)
          (from_pg (bcap_created_at r)) (from_pg (bcap_updated_at r)))"

definition bay_capability_key :: "uuid \<Rightarrow> uuid \<Rightarrow> uuid \<Rightarrow> db \<Rightarrow> bay_capability_row \<Rightarrow> bool" where
  "bay_capability_key dealershipID serviceBayID serviceBayCapabilityID d r \<longleftrightarrow>
     bcap_id r = serviceBayCapabilityID \<and> bcap_service_bay_id r = serviceBayID
     \<and> service_bay_of_dealership dealershipID (bcap_service_bay_id r) d"

definition GetServiceBayCapability_repo :: "db \<Rightarrow> uuid \<Rightarrow> uuid \<Rightarrow> uuid \<Rightarrow> ServiceBayCapability result" where
  "GetServiceBayCapability_repo d dealershipID serviceBayID serviceBayCapabilityID =
     rbind (row_as (AppCatalogErr ErrServiceBayCapabilityNotFound)
        (find_row (\<lambda>(r, c). bay_capability_key dealershipID serviceBayID serviceBayCapabilityID d r
             \<and> cap_id c = bcap_bay_capability_id r)
          (List.product (bay_capabilities d) (capabilities d))))
       serviceBayCapabilityFromRow"

definition bayCapabilityWriteError :: "go_error \<Rightarrow> go_error" where
  "bayCapabilityWriteError err =
     (if IsUniqueViolationError (Some err) ''service_bay_capabilities_service_bay_bay_capability_unique''
      then AppCatalogErr ErrServiceBayCapabilityTaken else err)"

definition CreateServiceBayCapability_repo ::
  "uuid \<Rightarrow> ServiceBayCapability \<Rightarrow> (db, go_error, ServiceBayCapability) action" where
  "CreateServiceBayCapability_repo dealershipID x d =
     (case insert_link bay_capability_table (service_bay_of_dealership dealershipID (bc_serviceBayID x))
             (\<lambda>d. BayCapabilityExists d (bc_bayCapabilityID x)) (bay_capability_row_of x) d of
        (Inr _, d') \<Rightarrow> (GetServiceBayCapability_repo d' dealershipID (bc_serviceBayID x) (bc_id x), d')
      | (Inl err, d') \<Rightarrow>
          (Inl (if IsUniqueViolationError (Some err) ''service_bay_capabilities_service_bay_bay_capability_unique''
                then AppCatalogErr ErrServiceBayCapabilityTaken
                else if errors_is err ErrNoRows
                then (case GetServiceBay_repo d dealershipID (bc_serviceBayID x) of
                        Inl e \<Rightarrow> e | Inr _ \<Rightarrow> AppCatalogErr ErrBayCapabilityNotFound)
                else err), d'))"

definition ListServiceBayCapabilities_repo ::
  "(string \<Rightarrow> string) \<Rightarrow> db \<Rightarrow> uuid \<Rightarrow> uuid \<Rightarrow> ServiceBayCapability list result" where
  "ListServiceBayCapabilities_repo collate d dealershipID serviceBayID =
     rbind (GetServiceBay_repo d dealershipID serviceBayID) (\<lambda>_.
     convert_rows serviceBayCapabilityFromRow
       (order_by (\<lambda>(r, c). collate (cap_name c)) (order_by (\<lambda>(r, c). cap_id c)
         (filter (\<lambda>(r, c). bcap_service_bay_id r = serviceBayID
             \<and> service_bay_of_dealership dealershipID (bcap_service_bay_id r) d
             \<and> cap_id c = bcap_bay_capability_id r)
           (List.product (bay_capabilities d) (capabilities d))))))"

definition UpdateServiceBayCapability_repo ::
  "uuid \<Rightarrow> ServiceBayCapability \<Rightarrow> (db, go_error, ServiceBayCapability) action" where
  "UpdateServiceBayCapability_repo dealershipID x =
     andThen (query (\<lambda>d. BayCapabilityExists d (bc_bayCapabilityID x))) (\<lambda>present.
     andThen (ensure present (AppCatalogErr ErrBayCapabilityNotFound)) (\<lambda>_.
     andThen (on_err (\<lambda>err. no_rows_as (AppCatalogErr ErrServiceBayCapabilityNotFound) (bayCapabilityWriteError err))
        (update_returning bay_capability_table
          (bay_capability_key dealershipID (bc_serviceBayID x) (bc_id x))
          (\<lambda>r. r\<lparr>bcap_bay_capability_id := bc_bayCapabilityID x, bcap_updated_at := to_pg (bc_updatedAt x)\<rparr>))) (\<lambda>_.
     query_res (\<lambda>d. GetServiceBayCapability_repo d dealershipID (bc_serviceBayID x) (bc_id x)))))"

definition DeleteServiceBayCapability_repo :: "uuid \<Rightarrow> uuid \<Rightarrow> uuid \<Rightarrow> (db, go_error, unit) action" where
  "DeleteServiceBayCapability_repo dealershipID serviceBayID serviceBayCapabilityID =
     delete_execrows bay_capability_table (AppCatalogErr ErrServiceBayCapabilityNotFound)
       (bay_capability_key dealershipID serviceBayID serviceBayCapabilityID)"

end
