(* ===== verification/Catalog_Service.thy ===== *)
theory Catalog_Service
  imports Resource_Repository Workforce_Service
begin

text \<open>
  The catalog use cases of app/service.go: dealerships, scheduler users, service types, operation
  times, required skills and capabilities, service bays and their capabilities. (Customers and
  vehicles are in theory Customer\_Service.) Each authorises the actor, reads, applies the domain and
  writes; the mapping of repository errors to problems is per resource.

  Parameters besides the service's environment: \<open>load_location\<close> (time.LoadLocation succeeds),
  \<open>parse_address\<close> (the address mail.ParseAddress finds), \<open>parse_uuid\<close> (uuid.Parse), \<open>collate\<close>.
\<close>

section \<open>Authorisation\<close>

definition require_actor :: "uuid \<Rightarrow> (db, go_error, unit) action" where
  "require_actor actorID =
     ensure (actorID \<noteq> uuid_Nil) (NewUnauthorizedError ''authentication_required'' ''authentication required'')"

text \<open>The checks the resource endpoints of a dealership share: an actor, a dealership, and the
  actor an active admin of that dealership.\<close>

definition require_dealership_admin :: "string \<Rightarrow> string \<Rightarrow> uuid \<Rightarrow> uuid \<Rightarrow> (db, go_error, unit) action" where
  "require_dealership_admin slug message actorID dealershipID =
     andThen (require_actor actorID) (\<lambda>_.
     andThen (ensure (dealershipID \<noteq> uuid_Nil)
       (NewInvalidInputError ''invalid_dealership_id'' ''dealership ID is required'')) (\<lambda>_.
     andThen (query (\<lambda>d. IsActiveSchedulerAdminForDealership d actorID dealershipID)) (\<lambda>isAdmin.
     ensure isAdmin (NewForbiddenError slug message))))"

definition authorizeServiceTypes :: "uuid \<Rightarrow> uuid \<Rightarrow> (db, go_error, unit) action" where
  "authorizeServiceTypes = require_dealership_admin ''service_type_access_forbidden''
     ''you are not allowed to manage service types for this dealership''"

definition authorizeServiceBays :: "uuid \<Rightarrow> uuid \<Rightarrow> (db, go_error, unit) action" where
  "authorizeServiceBays = require_dealership_admin ''service_bay_access_forbidden''
     ''you are not allowed to manage service bays for this dealership''"

definition authorizeServiceTypeRequiredSkills :: "uuid \<Rightarrow> uuid \<Rightarrow> (db, go_error, unit) action" where
  "authorizeServiceTypeRequiredSkills = require_dealership_admin
     ''service_type_required_skill_access_forbidden''
     ''you are not allowed to manage required skills for this dealership''"

definition authorizeServiceTypeRequiredBayCapabilities :: "uuid \<Rightarrow> uuid \<Rightarrow> (db, go_error, unit) action" where
  "authorizeServiceTypeRequiredBayCapabilities = require_dealership_admin
     ''service_type_required_bay_capability_access_forbidden''
     ''you are not allowed to manage required bay capabilities for this dealership''"

definition authorizeServiceBayCapabilities :: "uuid \<Rightarrow> uuid \<Rightarrow> (db, go_error, unit) action" where
  "authorizeServiceBayCapabilities = require_dealership_admin ''service_bay_capability_access_forbidden''
     ''active dealership admin access is required''"

definition authorizeDealershipOperationTimes :: "uuid \<Rightarrow> uuid \<Rightarrow> (db, go_error, unit) action" where
  "authorizeDealershipOperationTimes actorID dealershipID =
     andThen (require_dealership_admin ''operation_time_access_forbidden''
       ''you are not allowed to manage operation times for this dealership'' actorID dealershipID) (\<lambda>_.
     andThen (query (\<lambda>d. IsActiveDealership d dealershipID)) (\<lambda>isActive.
     ensure isActive (NewNotFoundError ''dealership_not_found'' ''dealership was not found'')))"

definition authorizeCreate :: "service_env \<Rightarrow> uuid \<Rightarrow> unit result" where
  "authorizeCreate env actorID =
     rguard (actorRole env actorID = Inr ''superadmin'' \<or> actorRole env actorID = Inr ''admin'')
       (NewForbiddenError ''dealership_create_forbidden'' ''you are not allowed to create dealerships'')"

definition authorizeCreateAdmin :: "service_env \<Rightarrow> uuid \<Rightarrow> unit result" where
  "authorizeCreateAdmin env actorID =
     rguard (actorRole env actorID = Inr ''superadmin'' \<or> actorRole env actorID = Inr ''admin'')
       (NewForbiddenError ''dealership_admin_create_forbidden''
          ''you are not allowed to create dealership admins'')"

definition authorizeCreateDealershipUser :: "service_env \<Rightarrow> uuid \<Rightarrow> uuid \<Rightarrow> (db, go_error, unit) action" where
  "authorizeCreateDealershipUser env actorID dealershipID =
     (let forbidden = NewForbiddenError ''dealership_user_create_forbidden''
            ''you are not allowed to create dealership users'' in
      case actorRole env actorID of
        Inl err \<Rightarrow> throw forbidden
      | Inr role \<Rightarrow>
          if role = ''superadmin'' \<or> role = ''admin'' then ret ()
          else andThen (query (\<lambda>d. IsActiveSchedulerAdminForDealership d actorID dealershipID))
                 (\<lambda>isAdmin. ensure isAdmin forbidden))"

definition authorizeSearchAuthUser :: "service_env \<Rightarrow> uuid \<Rightarrow> (db, go_error, unit) action" where
  "authorizeSearchAuthUser env actorID =
     (let forbidden = NewForbiddenError ''auth_user_search_forbidden''
            ''you are not allowed to search auth users'' in
      case actorRole env actorID of
        Inl err \<Rightarrow> throw forbidden
      | Inr role \<Rightarrow>
          if role = ''superadmin'' \<or> role = ''admin'' then ret ()
          else andThen (query (\<lambda>d. IsActiveSchedulerAdmin d actorID)) (\<lambda>isAdmin. ensure isAdmin forbidden))"

definition authorizeCustomers :: "uuid \<Rightarrow> (db, go_error, unit) action" where
  "authorizeCustomers actorID =
     andThen (require_actor actorID) (\<lambda>_.
     andThen (query (\<lambda>d. IsActiveCustomerEmployee d actorID)) (\<lambda>allowed.
     ensure allowed (NewForbiddenError ''customer_access_forbidden'' ''you are not allowed to manage customers'')))"

definition authorizeVehicleManager :: "uuid \<Rightarrow> (db, go_error, uuid) action" where
  "authorizeVehicleManager actorID =
     andThen (require_actor actorID) (\<lambda>_.
     on_err (\<lambda>_. NewForbiddenError ''vehicle_access_forbidden'' ''you are not allowed to manage vehicles'')
       (query_res (\<lambda>d. GetActiveVehicleManagerDealership d actorID)))"

definition authorizeVehicleCustomer :: "uuid \<Rightarrow> uuid \<Rightarrow> (db, go_error, unit) action" where
  "authorizeVehicleCustomer dealershipID customerID =
     andThen (query (\<lambda>d. CustomerBelongsToDealership d customerID dealershipID)) (\<lambda>belongs.
     ensure belongs (NewForbiddenError ''vehicle_access_forbidden''
       ''you are not allowed to manage vehicles for this customer''))"

section \<open>Problems\<close>

text \<open>A \<open>switch\<close> over \<open>errors.Is\<close>: the problem of the first sentinel that matches, or the error itself.\<close>

fun as_problems :: "(go_error \<times> go_error) list \<Rightarrow> go_error \<Rightarrow> go_error" where
  "as_problems [] err = err"
| "as_problems ((sentinel, problem) # cases) err = (if errors_is err sentinel then problem else as_problems cases err)"

definition input_problem :: "string \<Rightarrow> string \<Rightarrow> string \<Rightarrow> string \<Rightarrow> go_error" where
  "input_problem slug message field detail =
     WithDetails (NewInvalidInputError slug message)
       [\<lparr>EntityType = ''input'', EntityID = field, DetailSlug = slug, DetailMessage = detail\<rparr>]"

definition invalidInputError :: "go_error \<Rightarrow> go_error" where
  "invalidInputError err =
     input_problem ''invalid_dealership'' ''invalid dealership''
       (if errors_is err (CatalogErr ErrNameRequired) then ''name''
        else if errors_is err (CatalogErr ErrCodeRequired) then ''code''
        else if errors_is err (CatalogErr ErrAddressRequired) then ''address''
        else if errors_is err (CatalogErr ErrTimezoneRequired) \<or> errors_is err (CatalogErr ErrInvalidTimezone)
        then ''timezone'' else ''dealership'')
       (error_text err)"

definition invalidAdminInputError :: "go_error \<Rightarrow> go_error" where
  "invalidAdminInputError err =
     input_problem ''invalid_dealership_admin'' ''invalid dealership admin''
       (if errors_is err (PeopleErr ErrAuthUserIDRequired) then ''authUserId''
        else if errors_is err (PeopleErr ErrDealershipIDRequired) then ''dealershipId''
        else if errors_is err (PeopleErr ErrAdminNameRequired) then ''name''
        else if errors_is err (PeopleErr ErrInvalidAdminPhone) then ''phone''
        else if errors_is err (PeopleErr ErrInvalidAdminEmail) then ''email''
        else ''dealershipAdmin'')
       (error_text err)"

definition invalidDealershipUserInput :: "string \<Rightarrow> string \<Rightarrow> go_error" where
  "invalidDealershipUserInput field message =
     input_problem ''invalid_dealership_user'' ''invalid dealership user'' field message"

definition invalidDealershipUserDomainInput :: "go_error \<Rightarrow> go_error" where
  "invalidDealershipUserDomainInput err =
     invalidDealershipUserInput
       (if errors_is err (PeopleErr ErrAuthUserIDRequired) then ''authUserId''
        else if errors_is err (PeopleErr ErrDealershipIDRequired) then ''dealershipId''
        else if errors_is err (PeopleErr ErrUserNameRequired) then ''name''
        else if errors_is err (PeopleErr ErrUserEmailRequired) \<or> errors_is err (PeopleErr ErrInvalidUserEmail)
        then ''email''
        else if errors_is err (PeopleErr ErrInvalidUserRole) then ''role''
        else ''dealershipUser'')
       (error_text err)"

definition invalidServiceTypeInput :: "go_error \<Rightarrow> go_error" where
  "invalidServiceTypeInput err =
     input_problem ''invalid_service_type'' ''invalid service type''
       (if errors_is err (CatalogErr ErrServiceTypeNameRequired) then ''name''
        else if errors_is err (CatalogErr ErrDurationMustBePositive) \<or> errors_is err (CatalogErr ErrDurationRangeInvalid)
        then ''durationMinutes'' else ''serviceType'')
       (error_text err)"

definition invalidServiceBayInput :: "go_error \<Rightarrow> go_error" where
  "invalidServiceBayInput err =
     input_problem ''invalid_service_bay'' ''invalid service bay''
       (if errors_is err (CatalogErr ErrServiceBayCodeRequired) then ''code''
        else if errors_is err (CatalogErr ErrServiceBayNameRequired) then ''name'' else ''serviceBay'')
       (error_text err)"

definition invalidOperationTimeInput :: "go_error \<Rightarrow> go_error" where
  "invalidOperationTimeInput err =
     (if errors_is err (ScheduleErr ErrInvalidOperationHours)
      then unprocessable ''invalid_operation_time'' ''opens at must be earlier than closes at''
      else NewInvalidInputError ''invalid_operation_time'' (error_text err))"

definition invalidServiceTypeRequiredSkillInput :: "go_error \<Rightarrow> go_error" where
  "invalidServiceTypeRequiredSkillInput err =
     NewInvalidInputError ''invalid_service_type_required_skill'' (error_text err)"

definition invalidServiceTypeRequiredBayCapabilityInput :: "go_error \<Rightarrow> go_error" where
  "invalidServiceTypeRequiredBayCapabilityInput err =
     NewInvalidInputError ''invalid_service_type_required_bay_capability'' (error_text err)"

definition invalidServiceBayCapabilityInput :: "go_error \<Rightarrow> go_error" where
  "invalidServiceBayCapabilityInput err =
     NewInvalidInputError ''invalid_service_bay_capability'' (error_text err)"

section \<open>Dealerships and their users\<close>

record CreateDealershipInput =
  cdi_Name :: string
  cdi_Code :: string
  cdi_Address :: string
  cdi_Timezone :: string

definition dealershipError :: "go_error \<Rightarrow> go_error" where
  "dealershipError err =
     (if errors_is err (AppCatalogErr ErrDealershipCodeTaken)
      then NewConflictError ''dealership_code_taken'' ''dealership code already exists'' else err)"

definition CreateDealership ::
  "(string \<Rightarrow> bool) \<Rightarrow> service_env \<Rightarrow> uuid \<Rightarrow> CreateDealershipInput \<Rightarrow> (db, go_error, Dealership) action" where
  "CreateDealership load_location env actorID input =
     andThen (require_actor actorID) (\<lambda>_.
     andThen (lift_res (authorizeCreate env actorID)) (\<lambda>_.
     andThen (lift_res (rerr invalidInputError
        (NewDealership load_location (sv_newID env 0) (cdi_Name input) (cdi_Code input) (cdi_Address input)
           (cdi_Timezone input) (sv_now env 0)))) (\<lambda>dealership.
     andThen (on_err dealershipError (CreateDealership_repo dealership)) (\<lambda>_. ret dealership))))"

record AuthUser =
  avu_ID :: uuid
  avu_Email :: string
  avu_FullName :: string
  avu_Status :: string
  avu_Role :: string

definition auth_user_not_found :: go_error where
  "auth_user_not_found = NewNotFoundError ''auth_user_not_found'' ''auth user was not found''"

definition SearchAuthUserByEmail ::
  "(string \<Rightarrow> uuid option) \<Rightarrow> service_env \<Rightarrow> uuid \<Rightarrow> string \<Rightarrow> (db, go_error, AuthUser) action" where
  "SearchAuthUserByEmail parse_uuid env actorID email =
     andThen (require_actor actorID) (\<lambda>_.
     andThen (authorizeSearchAuthUser env actorID) (\<lambda>_.
     let email = TrimSpace email in
     if email = [] then throw (NewInvalidInputError ''email_required'' ''email is required'')
     else case sv_GetUserInfoByEmail env email of
       Inl err \<Rightarrow> throw auth_user_not_found
     | Inr user \<Rightarrow>
         if ui_UserID user = [] then throw auth_user_not_found
         else case parse_uuid (ui_UserID user) of
           None \<Rightarrow> throw auth_user_not_found
         | Some userID \<Rightarrow> ret \<lparr>avu_ID = userID, avu_Email = ui_Email user, avu_FullName = ui_FullName user,
             avu_Status = ui_Status user, avu_Role = ui_Role user\<rparr>))"

definition requireActiveTargetAuthUser ::
  "(string \<Rightarrow> uuid option) \<Rightarrow> service_env \<Rightarrow> string \<Rightarrow> (uuid \<times> string \<times> string) result" where
  "requireActiveTargetAuthUser parse_uuid env email =
     (case sv_GetUserInfoByEmail env email of
        Inl err \<Rightarrow> Inl auth_user_not_found
      | Inr user \<Rightarrow>
          if ui_UserID user = [] then Inl auth_user_not_found
          else case parse_uuid (ui_UserID user) of
            None \<Rightarrow> Inl auth_user_not_found
          | Some authUserID \<Rightarrow>
              if ui_Status user \<noteq> ''active''
              then Inl (NewInvalidInputError ''auth_user_inactive'' ''auth user must be active'')
              else Inr (authUserID, ui_Email user, ui_FullName user))"

record CreateDealershipAdminInput =
  cai_DealershipID :: uuid
  cai_Name :: string
  cai_Phone :: "string option"
  cai_Email :: string

definition assignmentError :: "go_error \<Rightarrow> go_error" where
  "assignmentError err =
     (if errors_is err (AppCatalogErr ErrAuthUserAlreadyAssigned)
      then NewConflictError ''auth_user_already_assigned'' ''auth user is already assigned to a dealership user''
      else if errors_is err (AppCatalogErr ErrDealershipNotFound)
      then NewNotFoundError ''dealership_not_found'' ''dealership was not found''
      else err)"

definition CreateDealershipAdmin ::
  "(string \<Rightarrow> uuid option) \<Rightarrow> (string \<Rightarrow> string option) \<Rightarrow> (unit, db) world \<Rightarrow> (nat \<Rightarrow> uuid) \<Rightarrow> service_env
     \<Rightarrow> uuid \<Rightarrow> CreateDealershipAdminInput \<Rightarrow> (db, go_error, DealershipAdmin) action" where
  "CreateDealershipAdmin parse_uuid parse_address w roleIDs env actorID input =
     andThen (require_actor actorID) (\<lambda>_.
     andThen (lift_res (authorizeCreateAdmin env actorID)) (\<lambda>_.
     andThen (lift_res (requireActiveTargetAuthUser parse_uuid env (cai_Email input))) (\<lambda>(authID, email, fullName).
     andThen (lift_res (rerr invalidAdminInputError
        (NewDealershipAdmin parse_address (sv_newID env 0) authID (cai_DealershipID input) (cai_Name input)
           (cai_Phone input) (Some email) (sv_now env 0)))) (\<lambda>admin.
     andThen (on_err assignmentError (CreateDealershipAdmin_repo w roleIDs admin)) (\<lambda>_. ret admin)))))"

definition validEmail :: "(string \<Rightarrow> string option) \<Rightarrow> string \<Rightarrow> bool" where
  "validEmail parse_address value =
     (let normalized = ToLower (TrimSpace value) in parse_address normalized = Some normalized)"

record CreateDealershipUserInput =
  cui_DealershipID :: uuid
  cui_Email :: string
  cui_Role :: string

definition CreateDealershipUser ::
  "(string \<Rightarrow> uuid option) \<Rightarrow> (string \<Rightarrow> string option) \<Rightarrow> (unit, db) world \<Rightarrow> (nat \<Rightarrow> uuid) \<Rightarrow> service_env
     \<Rightarrow> uuid \<Rightarrow> CreateDealershipUserInput \<Rightarrow> (db, go_error, DealershipUser) action" where
  "CreateDealershipUser parse_uuid parse_address w roleIDs env actorID input =
     andThen (require_actor actorID) (\<lambda>_.
     andThen (ensure (cui_DealershipID input \<noteq> uuid_Nil)
       (invalidDealershipUserInput ''dealershipId'' ''dealership ID is required'')) (\<lambda>_.
     andThen (ensure (TrimSpace (cui_Email input) \<noteq> [])
       (invalidDealershipUserInput ''email'' ''email is required'')) (\<lambda>_.
     andThen (ensure (validEmail parse_address (cui_Email input))
       (invalidDealershipUserInput ''email'' ''email must be a valid email address'')) (\<lambda>_.
     andThen (ensure (cui_Role input \<in> set [''admin'', ''dealer'', ''staff'', ''technician''])
       (invalidDealershipUserInput ''role'' ''role must be admin, dealer, staff, or technician'')) (\<lambda>_.
     andThen (authorizeCreateDealershipUser env actorID (cui_DealershipID input)) (\<lambda>_.
     andThen (lift_res (requireActiveTargetAuthUser parse_uuid env (cui_Email input))) (\<lambda>(authID, email, fullName).
     andThen (lift_res (rerr invalidDealershipUserDomainInput
        (NewDealershipUser parse_address (sv_newID env 0) authID (cui_DealershipID input) fullName email
           (cui_Role input) (sv_now env 0)))) (\<lambda>user.
     andThen (on_err assignmentError (CreateDealershipUser_repo w roleIDs user)) (\<lambda>_. ret user)))))))))"

section \<open>Service types\<close>

definition service_type_name_taken :: "go_error \<times> go_error" where
  "service_type_name_taken = (AppCatalogErr ErrServiceTypeNameTaken,
     NewConflictError ''service_type_name_taken''
       ''a service type with this name already exists for the dealership'')"

definition service_type_not_found :: "go_error \<times> go_error" where
  "service_type_not_found = (AppCatalogErr ErrServiceTypeNotFound,
     NewNotFoundError ''service_type_not_found'' ''service type was not found'')"

definition service_type_in_use :: "go_error \<times> go_error" where
  "service_type_in_use = (AppCatalogErr ErrServiceTypeInUse,
     NewConflictError ''service_type_in_use''
       ''service type is referenced by an appointment; set is_active to false instead'')"

record CreateServiceTypeInput =
  cst_Name :: string
  cst_DefaultDurationMinutes :: int
  cst_MinDurationMinutes :: int
  cst_MaxDurationMinutes :: int
  cst_IsActive :: bool

definition CreateServiceType ::
  "service_env \<Rightarrow> uuid \<Rightarrow> uuid \<Rightarrow> CreateServiceTypeInput \<Rightarrow> (db, go_error, ServiceType) action" where
  "CreateServiceType env actorID dealershipID input =
     andThen (authorizeServiceTypes actorID dealershipID) (\<lambda>_.
     andThen (lift_res (rerr invalidServiceTypeInput
        (NewServiceType (sv_newID env 0) dealershipID (cst_Name input) (cst_DefaultDurationMinutes input)
           (cst_MinDurationMinutes input) (cst_MaxDurationMinutes input) (cst_IsActive input) (sv_now env 0)))) (\<lambda>x.
     andThen (on_err (as_problems [service_type_name_taken]) (CreateServiceType_repo x)) (\<lambda>_. ret x)))"

definition GetServiceType :: "uuid \<Rightarrow> uuid \<Rightarrow> uuid \<Rightarrow> (db, go_error, ServiceType) action" where
  "GetServiceType actorID dealershipID serviceTypeID =
     andThen (authorizeServiceTypes actorID dealershipID) (\<lambda>_.
     on_err (as_problems [service_type_not_found]) (query_res (\<lambda>d. GetServiceType_repo d dealershipID serviceTypeID)))"

definition ListServiceTypes ::
  "(string \<Rightarrow> string) \<Rightarrow> uuid \<Rightarrow> uuid \<Rightarrow> (db, go_error, ServiceType list) action" where
  "ListServiceTypes collate actorID dealershipID =
     andThen (authorizeServiceTypes actorID dealershipID) (\<lambda>_.
     query_res (\<lambda>d. ListServiceTypes_repo collate d dealershipID))"

record UpdateServiceTypeInput =
  ust_Name :: "string option"
  ust_DefaultDurationMinutes :: "int option"
  ust_MinDurationMinutes :: "int option"
  ust_MaxDurationMinutes :: "int option"
  ust_IsActive :: "bool option"

definition UpdateServiceType ::
  "service_env \<Rightarrow> uuid \<Rightarrow> uuid \<Rightarrow> uuid \<Rightarrow> UpdateServiceTypeInput \<Rightarrow> (db, go_error, ServiceType) action" where
  "UpdateServiceType env actorID dealershipID serviceTypeID input =
     andThen (authorizeServiceTypes actorID dealershipID) (\<lambda>_.
     andThen (on_err (as_problems [service_type_not_found]) (query_res (\<lambda>d. GetServiceType_repo d dealershipID serviceTypeID))) (\<lambda>current.
     andThen (lift_res (rerr invalidServiceTypeInput
        (ServiceType_Update (valueOr (ust_Name input) (st_name current))
           (valueOr (ust_DefaultDurationMinutes input) (st_defaultDurationMinutes current))
           (valueOr (ust_MinDurationMinutes input) (st_minDurationMinutes current))
           (valueOr (ust_MaxDurationMinutes input) (st_maxDurationMinutes current))
           (valueOr (ust_IsActive input) (st_isActive current)) (sv_now env 0) current))) (\<lambda>updated.
     andThen (on_err (as_problems [service_type_name_taken, service_type_not_found]) (UpdateServiceType_repo updated)) (\<lambda>_. ret updated))))"

definition DeleteServiceType ::
  "(unit, db) world \<Rightarrow> service_env \<Rightarrow> uuid \<Rightarrow> uuid \<Rightarrow> uuid \<Rightarrow> (db, go_error, unit) action" where
  "DeleteServiceType w env actorID dealershipID serviceTypeID =
     andThen (authorizeServiceTypes actorID dealershipID) (\<lambda>_.
     on_err (as_problems [service_type_not_found, service_type_in_use]) (DeleteServiceType_repo w dealershipID serviceTypeID (sv_now env 0)))"

section \<open>Operation times\<close>

definition operation_time_overlaps :: "go_error \<times> go_error" where
  "operation_time_overlaps = (AppPeopleErr ErrDealershipOperationTimeOverlaps,
     NewConflictError ''operation_time_overlaps'' ''operation time overlaps an existing interval'')"

definition operation_time_not_found :: "go_error \<times> go_error" where
  "operation_time_not_found = (AppPeopleErr ErrDealershipOperationTimeNotFound,
     NewNotFoundError ''operation_time_not_found'' ''operation time was not found'')"

definition CreateDealershipOperationTime ::
  "service_env \<Rightarrow> uuid \<Rightarrow> uuid \<Rightarrow> int \<Rightarrow> int \<Rightarrow> int \<Rightarrow> (db, go_error, DealershipOperationTime) action" where
  "CreateDealershipOperationTime env actorID dealershipID dayOfWeek opensAt closesAt =
     andThen (authorizeDealershipOperationTimes actorID dealershipID) (\<lambda>_.
     andThen (lift_res (rerr invalidOperationTimeInput
        (NewDealershipOperationTime (sv_newID env 0) dealershipID dayOfWeek opensAt closesAt (sv_now env 0)))) (\<lambda>x.
     andThen (on_err (as_problems [operation_time_overlaps]) (CreateDealershipOperationTime_repo x)) (\<lambda>_. ret x)))"

definition ListDealershipOperationTimes ::
  "uuid \<Rightarrow> uuid \<Rightarrow> (db, go_error, DealershipOperationTime list) action" where
  "ListDealershipOperationTimes actorID dealershipID =
     andThen (authorizeDealershipOperationTimes actorID dealershipID) (\<lambda>_.
     query_res (\<lambda>d. ListDealershipOperationTimes_repo d dealershipID))"

definition UpdateDealershipOperationTime ::
  "service_env \<Rightarrow> uuid \<Rightarrow> uuid \<Rightarrow> uuid \<Rightarrow> int option \<Rightarrow> int option \<Rightarrow> int option
     \<Rightarrow> (db, go_error, DealershipOperationTime) action" where
  "UpdateDealershipOperationTime env actorID dealershipID operationTimeID dayOfWeek opensAt closesAt =
     andThen (authorizeDealershipOperationTimes actorID dealershipID) (\<lambda>_.
     andThen (on_err (as_problems [operation_time_not_found])
        (query_res (\<lambda>d. GetDealershipOperationTime_repo d dealershipID operationTimeID))) (\<lambda>current.
     andThen (lift_res (rerr invalidOperationTimeInput
        (OperationTime_Update (valueOr dayOfWeek (ot_dayOfWeek current)) (valueOr opensAt (ot_opensAt current))
           (valueOr closesAt (ot_closesAt current)) (sv_now env 0) current))) (\<lambda>updated.
     andThen (on_err (as_problems [operation_time_overlaps, operation_time_not_found])
       (UpdateDealershipOperationTime_repo updated)) (\<lambda>_. ret updated))))"

definition DeleteDealershipOperationTime :: "uuid \<Rightarrow> uuid \<Rightarrow> uuid \<Rightarrow> (db, go_error, unit) action" where
  "DeleteDealershipOperationTime actorID dealershipID operationTimeID =
     andThen (authorizeDealershipOperationTimes actorID dealershipID) (\<lambda>_.
     on_err (as_problems [operation_time_not_found]) (DeleteDealershipOperationTime_repo dealershipID operationTimeID))"

section \<open>Required skills and capabilities\<close>

definition serviceTypeRequiredSkillError :: "go_error \<Rightarrow> go_error" where
  "serviceTypeRequiredSkillError err =
     (if errors_is err (AppCatalogErr ErrServiceTypeNotFound)
      then NewNotFoundError ''service_type_not_found'' ''service type was not found''
      else if errors_is err (AppCatalogErr ErrServiceTypeRequiredSkillNotFound)
      then NewNotFoundError ''service_type_required_skill_not_found'' ''required skill was not found''
      else if errors_is err (AppCatalogErr ErrSkillNotFound)
      then NewNotFoundError ''skill_not_found'' ''skill was not found''
      else if errors_is err (AppCatalogErr ErrServiceTypeRequiredSkillTaken)
      then NewConflictError ''service_type_required_skill_taken'' ''the service type already requires this skill''
      else err)"

definition CreateServiceTypeRequiredSkill ::
  "service_env \<Rightarrow> uuid \<Rightarrow> uuid \<Rightarrow> uuid \<Rightarrow> uuid \<Rightarrow> (db, go_error, ServiceTypeRequiredSkill) action" where
  "CreateServiceTypeRequiredSkill env actorID dealershipID serviceTypeID skillID =
     andThen (authorizeServiceTypeRequiredSkills actorID dealershipID) (\<lambda>_.
     andThen (lift_res (rerr invalidServiceTypeRequiredSkillInput
        (NewServiceTypeRequiredSkill (sv_newID env 0) serviceTypeID skillID (sv_now env 0)))) (\<lambda>x.
     on_err serviceTypeRequiredSkillError (CreateServiceTypeRequiredSkill_repo dealershipID x)))"

definition ListServiceTypeRequiredSkills ::
  "(string \<Rightarrow> string) \<Rightarrow> uuid \<Rightarrow> uuid \<Rightarrow> uuid \<Rightarrow> (db, go_error, ServiceTypeRequiredSkill list) action" where
  "ListServiceTypeRequiredSkills collate actorID dealershipID serviceTypeID =
     andThen (authorizeServiceTypeRequiredSkills actorID dealershipID) (\<lambda>_.
     on_err (as_problems [service_type_not_found])
       (query_res (\<lambda>d. ListServiceTypeRequiredSkills_repo collate d dealershipID serviceTypeID)))"

definition UpdateServiceTypeRequiredSkill ::
  "service_env \<Rightarrow> uuid \<Rightarrow> uuid \<Rightarrow> uuid \<Rightarrow> uuid \<Rightarrow> uuid option
     \<Rightarrow> (db, go_error, ServiceTypeRequiredSkill) action" where
  "UpdateServiceTypeRequiredSkill env actorID dealershipID serviceTypeID requiredSkillID skillID =
     (case skillID of
        None \<Rightarrow> throw (NewInvalidInputError ''request_body_required'' ''skillId is required'')
      | Some skillID \<Rightarrow>
          andThen (authorizeServiceTypeRequiredSkills actorID dealershipID) (\<lambda>_.
          andThen (on_err serviceTypeRequiredSkillError
            (query_res (\<lambda>d. GetServiceTypeRequiredSkill_repo d dealershipID serviceTypeID requiredSkillID))) (\<lambda>current.
          andThen (lift_res (rerr invalidServiceTypeRequiredSkillInput (WithSkill skillID (sv_now env 0) current))) (\<lambda>x.
          on_err serviceTypeRequiredSkillError (UpdateServiceTypeRequiredSkill_repo dealershipID x)))))"

definition DeleteServiceTypeRequiredSkill :: "uuid \<Rightarrow> uuid \<Rightarrow> uuid \<Rightarrow> uuid \<Rightarrow> (db, go_error, unit) action" where
  "DeleteServiceTypeRequiredSkill actorID dealershipID serviceTypeID requiredSkillID =
     andThen (authorizeServiceTypeRequiredSkills actorID dealershipID) (\<lambda>_.
     on_err serviceTypeRequiredSkillError (DeleteServiceTypeRequiredSkill_repo dealershipID serviceTypeID requiredSkillID))"

definition serviceTypeRequiredBayCapabilityError :: "go_error \<Rightarrow> go_error" where
  "serviceTypeRequiredBayCapabilityError err =
     (if errors_is err (AppCatalogErr ErrServiceTypeNotFound)
      then NewNotFoundError ''service_type_not_found'' ''service type was not found''
      else if errors_is err (AppCatalogErr ErrServiceTypeRequiredBayCapabilityNotFound)
      then NewNotFoundError ''service_type_required_bay_capability_not_found''
        ''required bay capability was not found''
      else if errors_is err (AppCatalogErr ErrBayCapabilityNotFound)
      then NewNotFoundError ''bay_capability_not_found'' ''bay capability was not found''
      else if errors_is err (AppCatalogErr ErrServiceTypeRequiredBayCapabilityTaken)
      then NewConflictError ''service_type_required_bay_capability_taken''
        ''the service type already requires this bay capability''
      else err)"

definition CreateServiceTypeRequiredBayCapability ::
  "service_env \<Rightarrow> uuid \<Rightarrow> uuid \<Rightarrow> uuid \<Rightarrow> uuid \<Rightarrow> (db, go_error, ServiceTypeRequiredBayCapability) action" where
  "CreateServiceTypeRequiredBayCapability env actorID dealershipID serviceTypeID bayCapabilityID =
     andThen (authorizeServiceTypeRequiredBayCapabilities actorID dealershipID) (\<lambda>_.
     andThen (lift_res (rerr invalidServiceTypeRequiredBayCapabilityInput
        (NewServiceTypeRequiredBayCapability (sv_newID env 0) serviceTypeID bayCapabilityID (sv_now env 0)))) (\<lambda>x.
     on_err serviceTypeRequiredBayCapabilityError (CreateServiceTypeRequiredBayCapability_repo dealershipID x)))"

definition ListServiceTypeRequiredBayCapabilities ::
  "(string \<Rightarrow> string) \<Rightarrow> uuid \<Rightarrow> uuid \<Rightarrow> uuid \<Rightarrow> (db, go_error, ServiceTypeRequiredBayCapability list) action" where
  "ListServiceTypeRequiredBayCapabilities collate actorID dealershipID serviceTypeID =
     andThen (authorizeServiceTypeRequiredBayCapabilities actorID dealershipID) (\<lambda>_.
     on_err serviceTypeRequiredBayCapabilityError
       (query_res (\<lambda>d. ListServiceTypeRequiredBayCapabilities_repo collate d dealershipID serviceTypeID)))"

definition UpdateServiceTypeRequiredBayCapability ::
  "service_env \<Rightarrow> uuid \<Rightarrow> uuid \<Rightarrow> uuid \<Rightarrow> uuid \<Rightarrow> uuid option
     \<Rightarrow> (db, go_error, ServiceTypeRequiredBayCapability) action" where
  "UpdateServiceTypeRequiredBayCapability env actorID dealershipID serviceTypeID requiredCapabilityID bayCapabilityID =
     (case bayCapabilityID of
        None \<Rightarrow> throw (NewInvalidInputError ''request_body_required'' ''bayCapabilityId is required'')
      | Some bayCapabilityID \<Rightarrow>
          andThen (authorizeServiceTypeRequiredBayCapabilities actorID dealershipID) (\<lambda>_.
          andThen (on_err serviceTypeRequiredBayCapabilityError
            (query_res (\<lambda>d. GetServiceTypeRequiredBayCapability_repo d dealershipID serviceTypeID requiredCapabilityID))) (\<lambda>current.
          andThen (lift_res (rerr invalidServiceTypeRequiredBayCapabilityInput
            (Required_WithBayCapability bayCapabilityID (sv_now env 0) current))) (\<lambda>x.
          on_err serviceTypeRequiredBayCapabilityError
            (UpdateServiceTypeRequiredBayCapability_repo dealershipID x)))))"

definition DeleteServiceTypeRequiredBayCapability ::
  "uuid \<Rightarrow> uuid \<Rightarrow> uuid \<Rightarrow> uuid \<Rightarrow> (db, go_error, unit) action" where
  "DeleteServiceTypeRequiredBayCapability actorID dealershipID serviceTypeID requiredCapabilityID =
     andThen (authorizeServiceTypeRequiredBayCapabilities actorID dealershipID) (\<lambda>_.
     on_err serviceTypeRequiredBayCapabilityError
       (DeleteServiceTypeRequiredBayCapability_repo dealershipID serviceTypeID requiredCapabilityID))"

section \<open>Service bays\<close>

definition service_bay_code_taken :: "go_error \<times> go_error" where
  "service_bay_code_taken = (AppCatalogErr ErrServiceBayCodeTaken,
     NewConflictError ''service_bay_code_taken''
       ''a service bay with this code already exists for the dealership'')"

definition service_bay_not_found :: "go_error \<times> go_error" where
  "service_bay_not_found = (AppCatalogErr ErrServiceBayNotFound,
     NewNotFoundError ''service_bay_not_found'' ''service bay was not found'')"

definition service_bay_in_use :: "go_error \<times> go_error" where
  "service_bay_in_use = (AppCatalogErr ErrServiceBayInUse,
     NewConflictError ''service_bay_in_use''
       ''service bay is referenced by an appointment; set is_active to false instead'')"

definition CreateServiceBay ::
  "service_env \<Rightarrow> uuid \<Rightarrow> uuid \<Rightarrow> string \<Rightarrow> string \<Rightarrow> bool \<Rightarrow> (db, go_error, ServiceBay) action" where
  "CreateServiceBay env actorID dealershipID code name isActive =
     andThen (authorizeServiceBays actorID dealershipID) (\<lambda>_.
     andThen (lift_res (rerr invalidServiceBayInput
        (NewServiceBay (sv_newID env 0) dealershipID code name isActive (sv_now env 0)))) (\<lambda>x.
     andThen (on_err (as_problems [service_bay_code_taken]) (CreateServiceBay_repo x)) (\<lambda>_. ret x)))"

definition GetServiceBay :: "uuid \<Rightarrow> uuid \<Rightarrow> uuid \<Rightarrow> (db, go_error, ServiceBay) action" where
  "GetServiceBay actorID dealershipID serviceBayID =
     andThen (authorizeServiceBays actorID dealershipID) (\<lambda>_.
     on_err (as_problems [service_bay_not_found]) (query_res (\<lambda>d. GetServiceBay_repo d dealershipID serviceBayID)))"

definition ListServiceBays ::
  "(string \<Rightarrow> string) \<Rightarrow> uuid \<Rightarrow> uuid \<Rightarrow> bool option \<Rightarrow> int \<Rightarrow> int \<Rightarrow> (db, go_error, ServiceBay list) action" where
  "ListServiceBays collate actorID dealershipID isActive limit off =
     andThen (authorizeServiceBays actorID dealershipID) (\<lambda>_.
     andThen (ensure (\<not> (limit \<le> 0 \<or> limit > 100 \<or> off < 0))
       (NewInvalidInputError ''invalid_pagination''
          ''limit must be between 1 and 100 and offset must not be negative'')) (\<lambda>_.
     query_res (\<lambda>d. ListServiceBays_repo collate d dealershipID isActive limit off)))"

definition UpdateServiceBay ::
  "service_env \<Rightarrow> uuid \<Rightarrow> uuid \<Rightarrow> uuid \<Rightarrow> string option \<Rightarrow> string option \<Rightarrow> bool option
     \<Rightarrow> (db, go_error, ServiceBay) action" where
  "UpdateServiceBay env actorID dealershipID serviceBayID code name isActive =
     andThen (authorizeServiceBays actorID dealershipID) (\<lambda>_.
     andThen (on_err (as_problems [service_bay_not_found]) (query_res (\<lambda>d. GetServiceBay_repo d dealershipID serviceBayID))) (\<lambda>current.
     andThen (lift_res (rerr invalidServiceBayInput
        (ServiceBay_Update (valueOr code (sb_code current)) (valueOr name (sb_name current))
           (valueOr isActive (sb_isActive current)) (sv_now env 0) current))) (\<lambda>updated.
     andThen (on_err (as_problems [service_bay_code_taken, service_bay_not_found]) (UpdateServiceBay_repo updated)) (\<lambda>_. ret updated))))"

definition DeleteServiceBay ::
  "(unit, db) world \<Rightarrow> service_env \<Rightarrow> uuid \<Rightarrow> uuid \<Rightarrow> uuid \<Rightarrow> (db, go_error, unit) action" where
  "DeleteServiceBay w env actorID dealershipID serviceBayID =
     andThen (authorizeServiceBays actorID dealershipID) (\<lambda>_.
     on_err (as_problems [service_bay_not_found, service_bay_in_use]) (DeleteServiceBay_repo w dealershipID serviceBayID (sv_now env 0)))"

definition serviceBayCapabilityError :: "go_error \<Rightarrow> go_error" where
  "serviceBayCapabilityError err =
     (if errors_is err (AppCatalogErr ErrServiceBayNotFound)
      then NewNotFoundError ''service_bay_not_found'' ''service bay was not found''
      else if errors_is err (AppCatalogErr ErrServiceBayCapabilityNotFound)
      then NewNotFoundError ''service_bay_capability_not_found'' ''service bay capability was not found''
      else if errors_is err (AppCatalogErr ErrBayCapabilityNotFound)
      then NewNotFoundError ''bay_capability_not_found'' ''bay capability was not found''
      else if errors_is err (AppCatalogErr ErrServiceBayCapabilityTaken)
      then NewConflictError ''service_bay_capability_taken'' ''the service bay already has this capability''
      else err)"

definition CreateServiceBayCapability ::
  "service_env \<Rightarrow> uuid \<Rightarrow> uuid \<Rightarrow> uuid \<Rightarrow> uuid \<Rightarrow> (db, go_error, ServiceBayCapability) action" where
  "CreateServiceBayCapability env actorID dealershipID serviceBayID bayCapabilityID =
     andThen (authorizeServiceBayCapabilities actorID dealershipID) (\<lambda>_.
     andThen (lift_res (rerr invalidServiceBayCapabilityInput
        (NewServiceBayCapability (sv_newID env 0) serviceBayID bayCapabilityID (sv_now env 0)))) (\<lambda>x.
     on_err serviceBayCapabilityError (CreateServiceBayCapability_repo dealershipID x)))"

definition ListServiceBayCapabilities ::
  "(string \<Rightarrow> string) \<Rightarrow> uuid \<Rightarrow> uuid \<Rightarrow> uuid \<Rightarrow> (db, go_error, ServiceBayCapability list) action" where
  "ListServiceBayCapabilities collate actorID dealershipID serviceBayID =
     andThen (authorizeServiceBayCapabilities actorID dealershipID) (\<lambda>_.
     on_err serviceBayCapabilityError
       (query_res (\<lambda>d. ListServiceBayCapabilities_repo collate d dealershipID serviceBayID)))"

definition UpdateServiceBayCapability ::
  "service_env \<Rightarrow> uuid \<Rightarrow> uuid \<Rightarrow> uuid \<Rightarrow> uuid \<Rightarrow> uuid option \<Rightarrow> (db, go_error, ServiceBayCapability) action" where
  "UpdateServiceBayCapability env actorID dealershipID serviceBayID serviceBayCapabilityID bayCapabilityID =
     (case bayCapabilityID of
        None \<Rightarrow> throw (NewInvalidInputError ''request_body_required'' ''bayCapabilityId is required'')
      | Some bayCapabilityID \<Rightarrow>
          andThen (authorizeServiceBayCapabilities actorID dealershipID) (\<lambda>_.
          andThen (on_err serviceBayCapabilityError
            (query_res (\<lambda>d. GetServiceBayCapability_repo d dealershipID serviceBayID serviceBayCapabilityID))) (\<lambda>current.
          andThen (lift_res (rerr invalidServiceBayCapabilityInput
            (Bay_WithBayCapability bayCapabilityID (sv_now env 0) current))) (\<lambda>x.
          on_err serviceBayCapabilityError (UpdateServiceBayCapability_repo dealershipID x)))))"

definition DeleteServiceBayCapability :: "uuid \<Rightarrow> uuid \<Rightarrow> uuid \<Rightarrow> uuid \<Rightarrow> (db, go_error, unit) action" where
  "DeleteServiceBayCapability actorID dealershipID serviceBayID serviceBayCapabilityID =
     andThen (authorizeServiceBayCapabilities actorID dealershipID) (\<lambda>_.
     on_err serviceBayCapabilityError
       (DeleteServiceBayCapability_repo dealershipID serviceBayID serviceBayCapabilityID))"

end
