(* ===== verification/Customer_Service.thy ===== *)
theory Customer_Service
  imports Catalog_Service
begin

text \<open>
  Customers and their vehicles in app/service.go: normalisation of phones and addresses, the
  customer use cases, and the vehicle use cases, which are scoped to the dealership that
  claimed the customer.
\<close>

section \<open>Normalisation\<close>

definition phone_problem :: go_error where
  "phone_problem = NewInvalidInputError ''invalid_request'' ''phone must be a valid E.164 number''"

definition normalizePhone_app :: "string \<Rightarrow> string result" where
  "normalizePhone_app value =
     (let value = filter (\<lambda>c. c \<notin> set '' -().'') (TrimSpace value) in
      if length value < 9 \<or> length value > 16 \<or> value ! 0 \<noteq> CHR 0x2B \<or> value ! 1 = CHR ''0''
      then Inl phone_problem
      else if list_all is_digit (drop 1 value) then Inr value else Inl phone_problem)"

definition normalizeEmail :: "(string \<Rightarrow> string option) \<Rightarrow> string \<Rightarrow> string result" where
  "normalizeEmail parse_address value =
     (let value = ToLower (TrimSpace value) in
      if parse_address value = Some value then Inr value
      else Inl (NewInvalidInputError ''invalid_request'' ''email must be a valid email address''))"

definition normalizeCustomerInput ::
  "(string \<Rightarrow> string option) \<Rightarrow> string \<Rightarrow> string \<Rightarrow> string option \<Rightarrow> (string \<times> string \<times> string option) result" where
  "normalizeCustomerInput parse_address name phone email =
     (let name = TrimSpace name in
      if name = [] then Inl (NewInvalidInputError ''invalid_request'' ''customer name is required'')
      else rbind (normalizePhone_app phone) (\<lambda>normalizedPhone.
      case email of
        None \<Rightarrow> Inr (name, normalizedPhone, None)
      | Some m \<Rightarrow> rbind (normalizeEmail parse_address m) (\<lambda>normalizedEmail.
          Inr (name, normalizedPhone, Some normalizedEmail))))"

section \<open>Customers\<close>

definition customerError :: "go_error \<Rightarrow> go_error" where
  "customerError = as_problems
     [(AppPeopleErr ErrCustomerNotFound, NewNotFoundError ''customer_not_found'' ''customer was not found''),
      (AppPeopleErr ErrCustomerPhoneTaken,
         NewConflictError ''customer_phone_already_exists'' ''a customer with this phone already exists''),
      (AppPeopleErr ErrCustomerEmailTaken,
         NewConflictError ''customer_email_already_exists'' ''a customer with this email already exists'')]"

definition customer_name_problem :: "go_error \<Rightarrow> go_error" where
  "customer_name_problem err = NewInvalidInputError ''invalid_request'' ''customer name is required''"

record CreateCustomerInput =
  cc_Name :: string
  cc_Phone :: string
  cc_Email :: "string option"

definition CreateCustomer ::
  "(string \<Rightarrow> string option) \<Rightarrow> service_env \<Rightarrow> uuid \<Rightarrow> CreateCustomerInput \<Rightarrow> (db, go_error, Customer) action" where
  "CreateCustomer parse_address env actorID input =
     andThen (authorizeCustomers actorID) (\<lambda>_.
     andThen (lift_res (normalizeCustomerInput parse_address (cc_Name input) (cc_Phone input) (cc_Email input))) (\<lambda>(name, phone, email).
     andThen (lift_res (rerr customer_name_problem
        (NewCustomer (sv_newID env 0) name phone email (sv_now env 0)))) (\<lambda>customer.
     on_err customerError (CreateCustomer_repo customer))))"

definition customer_id_problem :: go_error where
  "customer_id_problem = NewInvalidInputError ''invalid_request'' ''customer ID must be a valid UUID''"

definition GetCustomer :: "uuid \<Rightarrow> uuid \<Rightarrow> (db, go_error, Customer) action" where
  "GetCustomer actorID customerID =
     andThen (authorizeCustomers actorID) (\<lambda>_.
     andThen (ensure (customerID \<noteq> uuid_Nil) customer_id_problem) (\<lambda>_.
     on_err customerError (query_res (\<lambda>d. GetCustomer_repo d customerID))))"

record UpdateCustomerInput =
  uc_Name :: "string option"
  uc_Phone :: "string option"
  uc_Email :: "string option"
  uc_EmailPresent :: bool

definition UpdateCustomer ::
  "(string \<Rightarrow> string option) \<Rightarrow> service_env \<Rightarrow> uuid \<Rightarrow> uuid \<Rightarrow> UpdateCustomerInput
     \<Rightarrow> (db, go_error, Customer) action" where
  "UpdateCustomer parse_address env actorID customerID input =
     andThen (authorizeCustomers actorID) (\<lambda>_.
     andThen (ensure (customerID \<noteq> uuid_Nil) customer_id_problem) (\<lambda>_.
     andThen (ensure (\<not> (uc_Name input = None \<and> uc_Phone input = None \<and> \<not> uc_EmailPresent input))
       (NewInvalidInputError ''invalid_request'' ''at least one field is required'')) (\<lambda>_.
     andThen (on_err customerError (query_res (\<lambda>d. GetCustomer_repo d customerID))) (\<lambda>existing.
     let name = valueOr (uc_Name input) (c_name existing);
         phone = valueOr (uc_Phone input) (c_phone existing);
         email = (if uc_EmailPresent input then uc_Email input else c_email existing) in
     andThen (lift_res (normalizeCustomerInput parse_address name phone email)) (\<lambda>(name, phone, email).
     andThen (lift_res (rerr customer_name_problem
        (Customer_Update name phone email (sv_now env 0) existing))) (\<lambda>updated.
     on_err customerError (UpdateCustomer_repo updated)))))))"

definition found_customer :: "(db \<Rightarrow> Customer result) \<Rightarrow> (db, go_error, Customer list) action" where
  "found_customer look =
     query_res (\<lambda>d. case look d of
         Inr customer \<Rightarrow> Inr [customer]
       | Inl err \<Rightarrow> if errors_is err (AppPeopleErr ErrCustomerNotFound) then Inr [] else Inl (customerError err))"

definition SearchCustomers ::
  "(string \<Rightarrow> string option) \<Rightarrow> uuid \<Rightarrow> string option \<Rightarrow> string option \<Rightarrow> (db, go_error, Customer list) action" where
  "SearchCustomers parse_address actorID phone email =
     andThen (authorizeCustomers actorID) (\<lambda>_.
     case (phone, email) of
       (Some p, None) \<Rightarrow>
         andThen (lift_res (normalizePhone_app p)) (\<lambda>normalizedPhone.
         found_customer (\<lambda>d. GetCustomerByPhone_repo d normalizedPhone))
     | (None, Some m) \<Rightarrow>
         andThen (lift_res (normalizeEmail parse_address m)) (\<lambda>normalizedEmail.
         found_customer (\<lambda>d. GetCustomerByEmail_repo d normalizedEmail))
     | _ \<Rightarrow> throw (NewInvalidInputError ''invalid_request'' ''exactly one of phone or email is required''))"

section \<open>Vehicles\<close>

definition vehicleInputError :: "go_error \<Rightarrow> go_error" where
  "vehicleInputError err =
     (if errors_is err (PeopleErr ErrVehicleMakeRequired) \<or> errors_is err (PeopleErr ErrVehicleModelRequired)
         \<or> errors_is err (PeopleErr ErrVehicleIdentity) \<or> errors_is err (PeopleErr ErrVehicleModelYear)
      then NewInvalidInputError ''invalid_vehicle'' (error_text err) else err)"

definition vehicleError :: "go_error \<Rightarrow> go_error" where
  "vehicleError = as_problems
     [(AppPeopleErr ErrVehicleNotFound, NewNotFoundError ''vehicle_not_found'' ''vehicle was not found''),
      (AppPeopleErr ErrCustomerNotFound, NewNotFoundError ''customer_not_found'' ''customer was not found''),
      (AppPeopleErr ErrVehicleVINTaken,
         NewConflictError ''vehicle_vin_already_exists'' ''a vehicle with this VIN already exists''),
      (AppPeopleErr ErrVehicleCustomerForbidden,
         NewForbiddenError ''vehicle_access_forbidden'' ''you are not allowed to manage vehicles for this customer'')]"

record CreateVehicleInput =
  cv_VIN :: "string option"
  cv_RegistrationPlate :: "string option"
  cv_Make :: string
  cv_Model :: string
  cv_ModelYear :: "int option"

definition CreateVehicle ::
  "(unit, db) world \<Rightarrow> (nat \<Rightarrow> pgtime) \<Rightarrow> service_env \<Rightarrow> uuid \<Rightarrow> uuid \<Rightarrow> CreateVehicleInput
     \<Rightarrow> (db, go_error, Vehicle) action" where
  "CreateVehicle w clock env actorID customerID input =
     andThen (authorizeVehicleManager actorID) (\<lambda>dealershipID.
     andThen (lift_res (rerr vehicleInputError
        (NewVehicle (sv_newID env 0) customerID (cv_VIN input) (cv_RegistrationPlate input) (cv_Make input)
           (cv_Model input) (cv_ModelYear input) (sv_now env 0)))) (\<lambda>vehicle.
     andThen (on_err vehicleError (CreateVehicle_repo w clock dealershipID vehicle)) (\<lambda>_. ret vehicle)))"

text \<open>The vehicle of a request, if it belongs to a customer of the actor's dealership.\<close>

definition vehicle_of_dealership :: "uuid \<Rightarrow> uuid \<Rightarrow> (db, go_error, Vehicle) action" where
  "vehicle_of_dealership dealershipID vehicleID =
     andThen (on_err vehicleError (query_res (\<lambda>d. GetVehicle_repo d vehicleID))) (\<lambda>vehicle.
     andThen (authorizeVehicleCustomer dealershipID (v_customerID vehicle)) (\<lambda>_. ret vehicle))"

definition GetVehicle :: "uuid \<Rightarrow> uuid \<Rightarrow> (db, go_error, Vehicle) action" where
  "GetVehicle actorID vehicleID =
     andThen (authorizeVehicleManager actorID) (\<lambda>dealershipID. vehicle_of_dealership dealershipID vehicleID)"

definition ListCustomerVehicles :: "uuid \<Rightarrow> uuid \<Rightarrow> (db, go_error, Vehicle list) action" where
  "ListCustomerVehicles actorID customerID =
     andThen (authorizeVehicleManager actorID) (\<lambda>dealershipID.
     andThen (on_err vehicleError (query_res (\<lambda>d. GetCustomer_repo d customerID))) (\<lambda>_.
     andThen (authorizeVehicleCustomer dealershipID customerID) (\<lambda>_.
     query (\<lambda>d. ListCustomerVehicles_repo d customerID))))"

record UpdateVehicleInput =
  uv_VINPresent :: bool
  uv_VIN :: "string option"
  uv_RegistrationPlatePresent :: bool
  uv_RegistrationPlate :: "string option"
  uv_Make :: "string option"
  uv_Model :: "string option"
  uv_ModelYearPresent :: bool
  uv_ModelYear :: "int option"

definition UpdateVehicle ::
  "service_env \<Rightarrow> uuid \<Rightarrow> uuid \<Rightarrow> UpdateVehicleInput \<Rightarrow> (db, go_error, Vehicle) action" where
  "UpdateVehicle env actorID vehicleID input =
     andThen (authorizeVehicleManager actorID) (\<lambda>dealershipID.
     andThen (vehicle_of_dealership dealershipID vehicleID) (\<lambda>vehicle.
     andThen (lift_res (rerr vehicleInputError
        (Vehicle_Update (if uv_VINPresent input then uv_VIN input else v_vin vehicle)
           (if uv_RegistrationPlatePresent input then uv_RegistrationPlate input else v_registrationPlate vehicle)
           (valueOr (uv_Make input) (v_make vehicle)) (valueOr (uv_Model input) (v_model vehicle))
           (if uv_ModelYearPresent input then uv_ModelYear input else v_modelYear vehicle)
           (sv_now env 0) vehicle))) (\<lambda>updated.
     andThen (on_err vehicleError (UpdateVehicle_repo updated)) (\<lambda>_. ret updated))))"

definition DeleteVehicle :: "service_env \<Rightarrow> uuid \<Rightarrow> uuid \<Rightarrow> (db, go_error, unit) action" where
  "DeleteVehicle env actorID vehicleID =
     andThen (authorizeVehicleManager actorID) (\<lambda>dealershipID.
     andThen (vehicle_of_dealership dealershipID vehicleID) (\<lambda>vehicle.
     on_err vehicleError (DeleteVehicle_repo vehicleID (sv_now env 0))))"

section \<open>Facts about normalisation\<close>

lemma normalizePhone_app_ok:
  "normalizePhone_app s = Inr p \<longleftrightarrow>
     p = filter (\<lambda>c. c \<notin> set '' -().'') (TrimSpace s) \<and> isE164 p"
proof -
  define v where "v = filter (\<lambda>c. c \<notin> set '' -().'') (TrimSpace s)"
  have "isE164 v \<longleftrightarrow> \<not> (length v < 9 \<or> length v > 16 \<or> v ! 0 \<noteq> CHR 0x2B \<or> v ! 1 = CHR ''0'')
      \<and> list_all is_digit (drop 1 v)"
    by (cases v rule: isE164.cases) auto
  then have "normalizePhone_app s = (if isE164 v then Inr v else Inl phone_problem)"
    unfolding normalizePhone_app_def Let_def v_def [symmetric] by simp
  then show ?thesis unfolding v_def [symmetric] by auto
qed

text \<open>A phone that is already in E.164 form stays as it is.\<close>

lemma normalizePhone_app_E164: "isE164 s \<Longrightarrow> normalizePhone_app s = Inr s"
proof -
  assume s: "isE164 s"
  then obtain d ds where shape: "s = CHR 0x2B # d # ds" "is_digit d" "list_all is_digit ds"
    using isE164_shape by auto
  have keep: "\<not> is_space c \<and> c \<notin> set '' -().''" if "c \<in> set s" for c
    using that shape digit_facts [of c] by (auto simp: list_all_iff is_space_def)
  have "s \<noteq> []" using shape by simp
  then have "TrimSpace s = s"
    by (intro TrimSpace_id) (use keep in \<open>auto intro: hd_in_set last_in_set\<close>)
  moreover have "filter (\<lambda>c. c \<notin> set '' -().'') s = s" using keep by (simp add: filter_id_conv)
  ultimately show ?thesis using s by (simp add: normalizePhone_app_ok)
qed

lemma normalizePhone_app_idem: "normalizePhone_app s = Inr p \<Longrightarrow> normalizePhone_app p = Inr p"
  using normalizePhone_app_E164 normalizePhone_app_ok by blast

lemma normalizeEmail_idem: "normalizeEmail pa s = Inr m \<Longrightarrow> normalizeEmail pa m = Inr m"
  by (auto simp: normalizeEmail_def Let_def split: if_splits)

lemma normalizeCustomerInput_ok:
  "normalizeCustomerInput pa n p e = Inr (n', p', e') \<longleftrightarrow>
     n' = TrimSpace n \<and> n' \<noteq> [] \<and> normalizePhone_app p = Inr p'
     \<and> (case e of None \<Rightarrow> e' = None | Some m \<Rightarrow> \<exists>m'. normalizeEmail pa m = Inr m' \<and> e' = Some m')"
  by (auto simp: normalizeCustomerInput_def Let_def ok_iff split: option.splits)

end
