(* ===== verification/Catalog_Requests.thy ===== *)
theory Catalog_Requests
  imports Customer_Service Requests
begin

text \<open>
  The invariant of the catalog and its requests: every unique index of the catalog tables
  holds, and every appointment refers to a service type and a bay of its dealership that are
  not deleted. All catalog use cases, all workforce use cases and all appointment requests keep
  it, together with the booking invariant of theory Booking.
\<close>

section \<open>The invariant\<close>

definition unique_rows :: "'r tab \<Rightarrow> 'r list \<Rightarrow> bool" where
  "unique_rows t rows \<longleftrightarrow> (\<forall>(c, e)\<in>set (tb_unique t). conflict_free c rows)"

lemma indexes_ok_rows: "indexes_ok t d = unique_rows t (tb_get t d)"
  by (simp add: indexes_ok_def unique_rows_def)

lemma table_get [simp]:
  "tb_get dealership_table = dealerships" "tb_get customer_table = customers"
  "tb_get customer_dealership_table = customer_dealerships" "tb_get vehicle_table = vehicles"
  "tb_get service_type_table = service_types" "tb_get service_bay_table = service_bays"
  "tb_get required_skill_table = required_skills"
  "tb_get required_capability_table = required_capabilities"
  "tb_get bay_capability_table = bay_capabilities" "tb_get user_role_table = user_roles"
  by (simp_all add: table_defs)

lemma table_put [simp]:
  "tb_put dealership_table rows d = d\<lparr>dealerships := rows\<rparr>"
  "tb_put customer_table rows1 d = d\<lparr>customers := rows1\<rparr>"
  "tb_put customer_dealership_table rows2 d = d\<lparr>customer_dealerships := rows2\<rparr>"
  "tb_put vehicle_table rows3 d = d\<lparr>vehicles := rows3\<rparr>"
  "tb_put service_type_table rows4 d = d\<lparr>service_types := rows4\<rparr>"
  "tb_put service_bay_table rows5 d = d\<lparr>service_bays := rows5\<rparr>"
  "tb_put required_skill_table rows6 d = d\<lparr>required_skills := rows6\<rparr>"
  "tb_put required_capability_table rows7 d = d\<lparr>required_capabilities := rows7\<rparr>"
  "tb_put bay_capability_table rows8 d = d\<lparr>bay_capabilities := rows8\<rparr>"
  "tb_put user_role_table rows9 d = d\<lparr>user_roles := rows9\<rparr>"
  by (simp_all add: table_defs)

definition catalog_indexes :: "db \<Rightarrow> bool" where
  "catalog_indexes d \<longleftrightarrow>
     unique_rows dealership_table (dealerships d) \<and> unique_rows customer_table (customers d)
     \<and> unique_rows customer_dealership_table (customer_dealerships d)
     \<and> unique_rows vehicle_table (vehicles d) \<and> unique_rows service_type_table (service_types d)
     \<and> unique_rows service_bay_table (service_bays d)
     \<and> unique_rows required_skill_table (required_skills d)
     \<and> unique_rows required_capability_table (required_capabilities d)
     \<and> unique_rows bay_capability_table (bay_capabilities d)
     \<and> unique_rows user_role_table (user_roles d)"

text \<open>What an appointment refers to is there and not deleted, and neither is the appointment.\<close>

definition live_service_type :: "db \<Rightarrow> appointment_row \<Rightarrow> bool" where
  "live_service_type d a = service_type_of_dealership (ap_dealership_id a) (ap_service_type_id a) d"

definition live_service_bay :: "db \<Rightarrow> appointment_row \<Rightarrow> bool" where
  "live_service_bay d a \<longleftrightarrow> ap_deleted_at a = None
     \<and> service_bay_of_dealership (ap_dealership_id a) (ap_service_bay_id a) d"

definition references_ok :: "db \<Rightarrow> bool" where
  "references_ok d \<longleftrightarrow> list_all (\<lambda>a. live_service_type d a \<and> live_service_bay d a) (appointments d)"

definition system_inv :: "db \<Rightarrow> bool" where
  "system_inv d \<longleftrightarrow> booking_inv d \<and> catalog_indexes d \<and> references_ok d"

lemmas reference_defs = references_ok_def live_service_type_def live_service_bay_def
  service_type_of_dealership_def service_bay_of_dealership_def

section \<open>Statements\<close>

lemma unique_rows_insert:
  assumes "constrained_table t" and "insert_row t x d = Inr d'" and "unique_rows t (tb_get t d)"
  shows "unique_rows t (tb_get t d @ [x])"
  using constrained_table.insert_keeps_indexes [OF assms(1,2)] assms(3)
    constrained_table.get_insert [OF assms(1,2)] by (simp add: indexes_ok_rows)

lemma unique_rows_update:
  "update_rows t p f d = Inr d' \<Longrightarrow> unique_rows t (update_where p f (tb_get t d))"
  by (simp add: update_rows_ok unique_rows_def)

lemma unique_rows_delete:
  assumes "constrained_table t" and "unique_rows t rows"
  shows "unique_rows t (filter P rows)"
  unfolding unique_rows_def
proof (clarify)
  fix c e assume ce: "(c, e) \<in> set (tb_unique t)"
  then have "conflict_free c rows" using assms(2) by (auto simp: unique_rows_def)
  then show "conflict_free c (filter P rows)"
    by (rule exclusion.filter_keeps [OF constrained_table.index_exclusion [OF assms(1) ce]])
qed

lemma references_service_types:
  assumes "references_ok d"
    and "\<And>s. s \<in> set (service_types d) \<Longrightarrow> sty_deleted_at s = None \<Longrightarrow>
      HasAppointmentsForServiceType d (sty_id s) \<Longrightarrow>
      \<exists>s'\<in>set rows. sty_id s' = sty_id s \<and> sty_dealership_id s' = sty_dealership_id s \<and> sty_deleted_at s' = None"
  shows "references_ok (d\<lparr>service_types := rows\<rparr>)"
proof -
  have "live_service_type (d\<lparr>service_types := rows\<rparr>) a" if a: "a \<in> set (appointments d)" for a
  proof -
    obtain s where s: "s \<in> set (service_types d)" "service_type_key (ap_dealership_id a) (ap_service_type_id a) s"
      using assms(1) a by (auto simp: reference_defs list_all_iff list_ex_iff)
    then have "HasAppointmentsForServiceType d (sty_id s)"
      using a by (auto simp: HasAppointmentsForServiceType_def list_ex_iff service_type_key_def)
    then show ?thesis
      using assms(2) [OF s(1)] s(2)
      by (auto simp: live_service_type_def service_type_of_dealership_def list_ex_iff service_type_key_def)
  qed
  moreover have "live_service_bay (d\<lparr>service_types := rows\<rparr>) a" if "a \<in> set (appointments d)" for a
    using assms(1) that by (auto simp: reference_defs list_all_iff)
  ultimately show ?thesis by (simp add: references_ok_def list_all_iff)
qed

lemma references_service_bays:
  assumes "references_ok d"
    and "\<And>b. b \<in> set (service_bays d) \<Longrightarrow> bay_deleted_at b = None \<Longrightarrow>
      HasAppointmentsForServiceBay d (bay_id b) \<Longrightarrow>
      \<exists>b'\<in>set rows. bay_id b' = bay_id b \<and> bay_dealership_id b' = bay_dealership_id b \<and> bay_deleted_at b' = None"
  shows "references_ok (d\<lparr>service_bays := rows\<rparr>)"
proof -
  have "live_service_bay (d\<lparr>service_bays := rows\<rparr>) a" if a: "a \<in> set (appointments d)" for a
  proof -
    obtain b where b: "b \<in> set (service_bays d)" "service_bay_key (ap_dealership_id a) (ap_service_bay_id a) b"
        and here: "ap_deleted_at a = None"
      using assms(1) a by (auto simp: reference_defs list_all_iff list_ex_iff)
    then have "HasAppointmentsForServiceBay d (bay_id b)"
      using a by (auto simp: HasAppointmentsForServiceBay_def list_ex_iff service_bay_key_def)
    then show ?thesis
      using assms(2) [OF b(1)] b(2) here
      by (auto simp: live_service_bay_def service_bay_of_dealership_def list_ex_iff service_bay_key_def)
  qed
  moreover have "live_service_type (d\<lparr>service_bays := rows\<rparr>) a" if "a \<in> set (appointments d)" for a
    using assms(1) that by (auto simp: reference_defs list_all_iff)
  ultimately show ?thesis by (simp add: references_ok_def list_all_iff)
qed

lemma booking_inv_frame [simp]:
  "booking_inv (d\<lparr>dealerships := x0\<rparr>) = booking_inv d" "booking_inv (d\<lparr>customers := x1\<rparr>) = booking_inv d"
  "booking_inv (d\<lparr>customer_dealerships := x2\<rparr>) = booking_inv d" "booking_inv (d\<lparr>vehicles := x3\<rparr>) = booking_inv d"
  "booking_inv (d\<lparr>service_types := x4\<rparr>) = booking_inv d" "booking_inv (d\<lparr>service_bays := x5\<rparr>) = booking_inv d"
  "booking_inv (d\<lparr>required_skills := x6\<rparr>) = booking_inv d"
  "booking_inv (d\<lparr>required_capabilities := x7\<rparr>) = booking_inv d"
  "booking_inv (d\<lparr>bay_capabilities := x8\<rparr>) = booking_inv d" "booking_inv (d\<lparr>user_roles := x9\<rparr>) = booking_inv d"
  "booking_inv (d\<lparr>operation_times := x10\<rparr>) = booking_inv d" "booking_inv (d\<lparr>users := x11\<rparr>) = booking_inv d"
  by (auto elim: same_bookings_keeps simp: same_bookings_def)

lemma references_frame [simp]:
  "references_ok (d\<lparr>dealerships := x0\<rparr>) = references_ok d" "references_ok (d\<lparr>customers := x1\<rparr>) = references_ok d"
  "references_ok (d\<lparr>customer_dealerships := x2\<rparr>) = references_ok d" "references_ok (d\<lparr>vehicles := x3\<rparr>) = references_ok d"
  "references_ok (d\<lparr>required_skills := x6\<rparr>) = references_ok d"
  "references_ok (d\<lparr>required_capabilities := x7\<rparr>) = references_ok d"
  "references_ok (d\<lparr>bay_capabilities := x8\<rparr>) = references_ok d" "references_ok (d\<lparr>user_roles := x9\<rparr>) = references_ok d"
  "references_ok (d\<lparr>operation_times := x10\<rparr>) = references_ok d" "references_ok (d\<lparr>users := x11\<rparr>) = references_ok d"
  by (simp_all add: reference_defs)


lemmas tables_ok = dealership_tab.constrained_table_axioms customer_tab.constrained_table_axioms
  customer_dealership_tab.constrained_table_axioms vehicle_tab.constrained_table_axioms
  service_type_tab.constrained_table_axioms service_bay_tab.constrained_table_axioms
  required_skill_tab.constrained_table_axioms required_capability_tab.constrained_table_axioms
  bay_capability_tab.constrained_table_axioms user_role_tab.constrained_table_axioms

lemma insert_shape:
  assumes "constrained_table t" and "insert_row t x d = Inr d'"
  shows "unique_rows t (tb_get t d) \<longrightarrow> unique_rows t (tb_get t d @ [x])" and "d' = tb_put t (tb_get t d @ [x]) d"
  using unique_rows_insert [OF assms] assms(2) by (simp_all add: insert_row_ok)

lemma update_shape:
  assumes "update_rows t p f d = Inr d'"
  shows "unique_rows t (update_where p f (tb_get t d))" and "d' = tb_put t (update_where p f (tb_get t d)) d"
  using unique_rows_update [OF assms] assms by (simp_all add: update_rows_ok)

lemma update_where_keeps_row:
  assumes "x \<in> set xs" and "p x \<Longrightarrow> P (f x)" and "P x"
  shows "\<exists>y\<in>set (update_where p f xs). P y"
  using assms by (cases "p x") (auto simp: set_update_where intro: image_eqI)

text \<open>A write of a catalog table keeps the invariant; deleting a service type or bay needs that no
  appointment refers to it.\<close>

lemma catalog_inserts:
  "insert_row dealership_table x0 d = Inr d' \<Longrightarrow> system_inv d \<Longrightarrow> system_inv d'"
  "insert_row customer_table x1 d = Inr d' \<Longrightarrow> system_inv d \<Longrightarrow> system_inv d'"
  "insert_row customer_dealership_table x2 d = Inr d' \<Longrightarrow> system_inv d \<Longrightarrow> system_inv d'"
  "insert_row vehicle_table x3 d = Inr d' \<Longrightarrow> system_inv d \<Longrightarrow> system_inv d'"
  "insert_row service_type_table x4 d = Inr d' \<Longrightarrow> system_inv d \<Longrightarrow> system_inv d'"
  "insert_row service_bay_table x5 d = Inr d' \<Longrightarrow> system_inv d \<Longrightarrow> system_inv d'"
  "insert_row required_skill_table x6 d = Inr d' \<Longrightarrow> system_inv d \<Longrightarrow> system_inv d'"
  "insert_row required_capability_table x7 d = Inr d' \<Longrightarrow> system_inv d \<Longrightarrow> system_inv d'"
  "insert_row bay_capability_table x8 d = Inr d' \<Longrightarrow> system_inv d \<Longrightarrow> system_inv d'"
  "insert_row user_role_table x9 d = Inr d' \<Longrightarrow> system_inv d \<Longrightarrow> system_inv d'"
  using insert_shape [OF tables_ok(1), of x0 d d'] insert_shape [OF tables_ok(2), of x1 d d']
    insert_shape [OF tables_ok(3), of x2 d d'] insert_shape [OF tables_ok(4), of x3 d d']
    insert_shape [OF tables_ok(5), of x4 d d'] insert_shape [OF tables_ok(6), of x5 d d']
    insert_shape [OF tables_ok(7), of x6 d d'] insert_shape [OF tables_ok(8), of x7 d d']
    insert_shape [OF tables_ok(9), of x8 d d'] insert_shape [OF tables_ok(10), of x9 d d']
  by (auto simp: system_inv_def catalog_indexes_def
      intro!: references_service_types [of d] references_service_bays [of d])

lemma catalog_updates:
  "update_rows customer_table p1 f1 d = Inr d' \<Longrightarrow> system_inv d \<Longrightarrow> system_inv d'"
  "update_rows vehicle_table p3 f3 d = Inr d' \<Longrightarrow> system_inv d \<Longrightarrow> system_inv d'"
  "update_rows required_skill_table p6 f6 d = Inr d' \<Longrightarrow> system_inv d \<Longrightarrow> system_inv d'"
  "update_rows required_capability_table p7 f7 d = Inr d' \<Longrightarrow> system_inv d \<Longrightarrow> system_inv d'"
  "update_rows bay_capability_table p8 f8 d = Inr d' \<Longrightarrow> system_inv d \<Longrightarrow> system_inv d'"
  by (frule update_shape(1), drule update_shape(2), simp add: system_inv_def catalog_indexes_def)+

lemma service_type_update_keeps:
  assumes "update_rows service_type_table p f d = Inr d'" and "system_inv d"
    and "\<And>s. s \<in> set (service_types d) \<Longrightarrow> p s \<Longrightarrow> HasAppointmentsForServiceType d (sty_id s) \<Longrightarrow>
      sty_id (f s) = sty_id s \<and> sty_dealership_id (f s) = sty_dealership_id s \<and> sty_deleted_at (f s) = sty_deleted_at s"
  shows "system_inv d'"
proof -
  have "references_ok (d\<lparr>service_types := update_where p f (service_types d)\<rparr>)"
    by (rule references_service_types) (use assms(2,3) in \<open>auto simp: system_inv_def intro!: update_where_keeps_row\<close>)
  then show ?thesis
    using update_shape [OF assms(1)] assms(2) by (simp add: system_inv_def catalog_indexes_def)
qed

lemma service_bay_update_keeps:
  assumes "update_rows service_bay_table p f d = Inr d'" and "system_inv d"
    and "\<And>b. b \<in> set (service_bays d) \<Longrightarrow> p b \<Longrightarrow> HasAppointmentsForServiceBay d (bay_id b) \<Longrightarrow>
      bay_id (f b) = bay_id b \<and> bay_dealership_id (f b) = bay_dealership_id b \<and> bay_deleted_at (f b) = bay_deleted_at b"
  shows "system_inv d'"
proof -
  have "references_ok (d\<lparr>service_bays := update_where p f (service_bays d)\<rparr>)"
    by (rule references_service_bays) (use assms(2,3) in \<open>auto simp: system_inv_def intro!: update_where_keeps_row\<close>)
  then show ?thesis
    using update_shape [OF assms(1)] assms(2) by (simp add: system_inv_def catalog_indexes_def)
qed

lemma catalog_deletes:
  "system_inv d \<Longrightarrow> system_inv (delete_rows required_skill_table p6 d)"
  "system_inv d \<Longrightarrow> system_inv (delete_rows required_capability_table p7 d)"
  "system_inv d \<Longrightarrow> system_inv (delete_rows bay_capability_table p8 d)"
  by (simp_all add: system_inv_def catalog_indexes_def delete_rows_def unique_rows_delete [OF tables_ok(7)]
      unique_rows_delete [OF tables_ok(8)] unique_rows_delete [OF tables_ok(9)])


lemma booking_tables_frame: "system_inv d \<Longrightarrow> same_bookings d d' \<Longrightarrow> catalog_indexes d' \<Longrightarrow> references_ok d' \<Longrightarrow> system_inv d'"
  by (auto simp: system_inv_def elim: same_bookings_keeps)

lemma users_frame: "system_inv (d\<lparr>users := x\<rparr>) = system_inv d" "system_inv (d\<lparr>operation_times := y\<rparr>) = system_inv d"
  by (simp_all add: system_inv_def catalog_indexes_def)

lemma insert_user_keeps: "insert_user u d = Inr d' \<Longrightarrow> system_inv d \<Longrightarrow> system_inv d'"
  by (auto simp: insert_user_def checked_ok users_frame)

lemma operation_time_writes_keep:
  "insert_operation_time x d = Inr d' \<Longrightarrow> system_inv d \<Longrightarrow> system_inv d'"
  "update_operation_times p f d = Inr d' \<Longrightarrow> system_inv d \<Longrightarrow> system_inv d'"
  by (auto simp: insert_operation_time_def update_operation_times_def checked_ok users_frame Let_def)

section \<open>Actions\<close>

lemma preserves_exec: "(\<And>d d'. f d = Inr d' \<Longrightarrow> I d \<Longrightarrow> I d') \<Longrightarrow> preserves I (exec f)"
  by (rule preservesI) (auto simp: exec_def split: sum.splits)

lemma preserves_execrows:
  "(\<And>d d'. stmt d = Inr d' \<Longrightarrow> I d \<Longrightarrow> I d') \<Longrightarrow> preserves I (execrows h nf n stmt)"
  by (rule preservesI) (auto simp: execrows_def split: sum.splits if_splits)

lemma preserves_update_execrows:
  "(\<And>d d'. update_rows t p f d = Inr d' \<Longrightarrow> I d \<Longrightarrow> I d') \<Longrightarrow> preserves I (update_execrows t h nf p f)"
  unfolding update_execrows_def by (rule preserves_execrows)

lemma preserves_delete_execrows:
  "(\<And>d p. I d \<Longrightarrow> I (delete_rows t p d)) \<Longrightarrow> preserves I (delete_execrows t nf key)"
  by (rule preservesI) (auto simp: delete_execrows_def execrows_def split: if_splits)

lemma preserves_update_returning:
  "(\<And>p d d'. update_rows t p f d = Inr d' \<Longrightarrow> I d \<Longrightarrow> I d') \<Longrightarrow> preserves I (update_returning t key f)"
  by (rule preservesI) (auto simp: update_returning_def split: sum.splits option.splits)

text \<open>The world of a transaction that other sessions share.\<close>

definition world_within :: "(db \<Rightarrow> bool) \<Rightarrow> (unit, db) world \<Rightarrow> bool" where
  "world_within I w \<longleftrightarrow> sound_world w \<and> (\<forall>i t. I t \<longrightarrow> I (w_others w i t))"

lemma preserves_in_tx:
  assumes "world_within I w" and "\<And>i. preserves I (body i)"
  shows "preserves I (in_tx w body)"
proof (rule preservesI)
  fix s r s'
  assume I: "I s" and "in_tx w body s = (r, s')"
  then obtain u where "updateInTxWithIsolation w (\<lambda>i (u, s). case body i s of (r, s') \<Rightarrow> (r, (u, s'))) ((), s) = (r, (u, s'))"
    by (auto simp: in_tx_def UpdateInTx_def split: prod.splits)
  moreover have "sound_world w" "\<And>i t. I t \<Longrightarrow> I (w_others w i t)" using assms(1) by (auto simp: world_within_def)
  ultimately show "I s'"
    using I by (elim tx_invariant [where I = I, rotated]) (auto split: prod.splits dest: preservesD [OF assms(2)])
qed

lemma preserves_insert_link:
  "(\<And>d d'. insert_row t x d = Inr d' \<Longrightarrow> I d \<Longrightarrow> I d') \<Longrightarrow> preserves I (insert_link t parent target x)"
  unfolding insert_link_def by (intro preserves_andThen preserves_exec) (auto intro: preserves_readonly)

lemma delete_bodies_keep:
  "preserves system_inv (delete_service_type_body dealershipID serviceTypeID deletedAt)"
  "preserves system_inv (delete_service_bay_body dealershipID serviceBayID deletedAt)"
proof -
  show "preserves system_inv (delete_service_type_body dealershipID serviceTypeID deletedAt)"
  proof (rule preservesI)
    fix s r s'
    assume inv: "system_inv s" and run: "delete_service_type_body dealershipID serviceTypeID deletedAt s = (r, s')"
    show "system_inv s'"
      using run inv unfolding delete_service_type_body_def
      by (cases r) (auto simp: andThen_err andThen_ok on_err_def execrows_def update_execrows_def service_type_key_def
          split: sum.splits if_splits elim!: service_type_update_keeps)
  qed
  show "preserves system_inv (delete_service_bay_body dealershipID serviceBayID deletedAt)"
  proof (rule preservesI)
    fix s r s'
    assume inv: "system_inv s" and run: "delete_service_bay_body dealershipID serviceBayID deletedAt s = (r, s')"
    show "system_inv s'"
      using run inv unfolding delete_service_bay_body_def
      by (cases r) (auto simp: andThen_err andThen_ok on_err_def execrows_def update_execrows_def service_bay_key_def
          split: sum.splits if_splits elim!: service_bay_update_keeps)
  qed
qed


lemmas reads = preserves_readonly [OF readonly_query_res] preserves_readonly [OF readonly_query]
  preserves_readonly [OF readonly_lift_res] preserves_readonly [OF readonly_ensure]
  preserves_readonly [OF readonly_ret] preserves_readonly [OF readonly_throw]

lemma resource_repo_writes:
  "preserves system_inv (CreateServiceType_repo x4)" "preserves system_inv (UpdateServiceType_repo x4)"
  "preserves system_inv (CreateServiceBay_repo x5)" "preserves system_inv (UpdateServiceBay_repo x5)"
  "preserves system_inv (CreateDealershipOperationTime_repo x1)"
  "preserves system_inv (UpdateDealershipOperationTime_repo x1)"
  "preserves system_inv (DeleteDealershipOperationTime_repo i j)"
  unfolding CreateServiceType_repo_def UpdateServiceType_repo_def CreateServiceBay_repo_def
    UpdateServiceBay_repo_def CreateDealershipOperationTime_repo_def Let_def
    UpdateDealershipOperationTime_repo_def DeleteDealershipOperationTime_repo_def
  by (intro preserves_intros preserves_exec preserves_execrows preserves_update_execrows reads
      | erule (1) catalog_inserts operation_time_writes_keep service_type_update_keeps service_bay_update_keeps
      | force simp: users_frame)+

section \<open>Catalog requests\<close>

datatype catalog_request =
    CatCreateDealership CreateDealershipInput
  | CatCreateDealershipAdmin CreateDealershipAdminInput
  | CatCreateDealershipUser CreateDealershipUserInput
  | CatCreateServiceType uuid CreateServiceTypeInput
  | CatUpdateServiceType uuid uuid UpdateServiceTypeInput
  | CatDeleteServiceType uuid uuid
  | CatCreateOperationTime uuid int int int
  | CatUpdateOperationTime uuid uuid "int option" "int option" "int option"
  | CatDeleteOperationTime uuid uuid
  | CatCreateRequiredSkill uuid uuid uuid
  | CatUpdateRequiredSkill uuid uuid uuid "uuid option"
  | CatDeleteRequiredSkill uuid uuid uuid
  | CatCreateRequiredCapability uuid uuid uuid
  | CatUpdateRequiredCapability uuid uuid uuid "uuid option"
  | CatDeleteRequiredCapability uuid uuid uuid
  | CatCreateServiceBay uuid string string bool
  | CatUpdateServiceBay uuid uuid "string option" "string option" "bool option"
  | CatDeleteServiceBay uuid uuid
  | CatCreateBayCapability uuid uuid uuid
  | CatUpdateBayCapability uuid uuid uuid "uuid option"
  | CatDeleteBayCapability uuid uuid uuid
  | CatCreateCustomer CreateCustomerInput
  | CatUpdateCustomer uuid UpdateCustomerInput
  | CatCreateVehicle uuid CreateVehicleInput
  | CatUpdateVehicle uuid UpdateVehicleInput
  | CatDeleteVehicle uuid

text \<open>The surroundings of a request: the time zone database, the parsers of the standard
  library, the world of its transaction, the database clock and the ids made inside it.\<close>

record catalog_deps =
  cat_load_location :: "string \<Rightarrow> bool"
  cat_parse_uuid :: "string \<Rightarrow> uuid option"
  cat_parse_address :: "string \<Rightarrow> string option"
  cat_world :: "(unit, db) world"
  cat_clock :: "nat \<Rightarrow> pgtime"
  cat_ids :: "nat \<Rightarrow> uuid"

definition no_value :: "('s, 'e, 'a) action \<Rightarrow> ('s, 'e, unit) action" where
  "no_value m = andThen m (\<lambda>_. ret ())"

definition catalog_use_case ::
  "catalog_deps \<Rightarrow> service_env \<Rightarrow> uuid \<Rightarrow> catalog_request \<Rightarrow> (db, go_error, unit) action" where
  "catalog_use_case x env actor req =
     (case req of
        CatCreateDealership input \<Rightarrow> no_value (CreateDealership (cat_load_location x) env actor input)
      | CatCreateDealershipAdmin input \<Rightarrow>
          no_value (CreateDealershipAdmin (cat_parse_uuid x) (cat_parse_address x) (cat_world x) (cat_ids x) env actor input)
      | CatCreateDealershipUser input \<Rightarrow>
          no_value (CreateDealershipUser (cat_parse_uuid x) (cat_parse_address x) (cat_world x) (cat_ids x) env actor input)
      | CatCreateServiceType dl input \<Rightarrow> no_value (CreateServiceType env actor dl input)
      | CatUpdateServiceType dl i input \<Rightarrow> no_value (UpdateServiceType env actor dl i input)
      | CatDeleteServiceType dl i \<Rightarrow> DeleteServiceType (cat_world x) env actor dl i
      | CatCreateOperationTime dl day opens closes \<Rightarrow> no_value (CreateDealershipOperationTime env actor dl day opens closes)
      | CatUpdateOperationTime dl i day opens closes \<Rightarrow>
          no_value (UpdateDealershipOperationTime env actor dl i day opens closes)
      | CatDeleteOperationTime dl i \<Rightarrow> DeleteDealershipOperationTime actor dl i
      | CatCreateRequiredSkill dl i k \<Rightarrow> no_value (CreateServiceTypeRequiredSkill env actor dl i k)
      | CatUpdateRequiredSkill dl i j k \<Rightarrow> no_value (UpdateServiceTypeRequiredSkill env actor dl i j k)
      | CatDeleteRequiredSkill dl i j \<Rightarrow> DeleteServiceTypeRequiredSkill actor dl i j
      | CatCreateRequiredCapability dl i k \<Rightarrow> no_value (CreateServiceTypeRequiredBayCapability env actor dl i k)
      | CatUpdateRequiredCapability dl i j k \<Rightarrow> no_value (UpdateServiceTypeRequiredBayCapability env actor dl i j k)
      | CatDeleteRequiredCapability dl i j \<Rightarrow> DeleteServiceTypeRequiredBayCapability actor dl i j
      | CatCreateServiceBay dl code name active \<Rightarrow> no_value (CreateServiceBay env actor dl code name active)
      | CatUpdateServiceBay dl i code name active \<Rightarrow> no_value (UpdateServiceBay env actor dl i code name active)
      | CatDeleteServiceBay dl i \<Rightarrow> DeleteServiceBay (cat_world x) env actor dl i
      | CatCreateBayCapability dl i k \<Rightarrow> no_value (CreateServiceBayCapability env actor dl i k)
      | CatUpdateBayCapability dl i j k \<Rightarrow> no_value (UpdateServiceBayCapability env actor dl i j k)
      | CatDeleteBayCapability dl i j \<Rightarrow> DeleteServiceBayCapability actor dl i j
      | CatCreateCustomer input \<Rightarrow> no_value (CreateCustomer (cat_parse_address x) env actor input)
      | CatUpdateCustomer i input \<Rightarrow> no_value (UpdateCustomer (cat_parse_address x) env actor i input)
      | CatCreateVehicle i input \<Rightarrow> no_value (CreateVehicle (cat_world x) (cat_clock x) env actor i input)
      | CatUpdateVehicle i input \<Rightarrow> no_value (UpdateVehicle env actor i input)
      | CatDeleteVehicle i \<Rightarrow> DeleteVehicle env actor i)"

lemma readonly_actors:
  "readonly (require_actor a)" "readonly (require_dealership_admin slug msg a dl)"
  "readonly (authorizeServiceTypes a dl)" "readonly (authorizeServiceBays a dl)"
  "readonly (authorizeServiceTypeRequiredSkills a dl)"
  "readonly (authorizeServiceTypeRequiredBayCapabilities a dl)"
  "readonly (authorizeServiceBayCapabilities a dl)" "readonly (authorizeDealershipOperationTimes a dl)"
  "readonly (authorizeCreateDealershipUser env a dl)" "readonly (authorizeSearchAuthUser env a)"
  "readonly (authorizeCustomers a)" "readonly (authorizeVehicleManager a)"
  "readonly (authorizeVehicleCustomer dl i)" "readonly (vehicle_of_dealership dl i)"
  unfolding require_actor_def require_dealership_admin_def authorizeServiceTypes_def authorizeServiceBays_def
    authorizeServiceTypeRequiredSkills_def authorizeServiceTypeRequiredBayCapabilities_def
    authorizeServiceBayCapabilities_def authorizeDealershipOperationTimes_def
    authorizeCreateDealershipUser_def authorizeSearchAuthUser_def authorizeCustomers_def
    authorizeVehicleManager_def authorizeVehicleCustomer_def vehicle_of_dealership_def Let_def
  by (auto intro!: readonly_andThen readonly_on_err split: sum.split)

lemmas actor_reads = readonly_actors [THEN preserves_readonly]

lemma preserves_prod: "(\<And>x y. p = (x, y) \<Longrightarrow> preserves I (k x y)) \<Longrightarrow> preserves I (case p of (x, y) \<Rightarrow> k x y)"
  by (cases p) simp

text \<open>The requests that write service types, bays or opening hours; the others write shared
  tables or link tables.\<close>

fun resource_request :: "catalog_request \<Rightarrow> bool" where
  "resource_request (CatCreateServiceType dl input) = True"
| "resource_request (CatUpdateServiceType dl i input') = True"
| "resource_request (CatDeleteServiceType dl i) = True"
| "resource_request (CatCreateOperationTime dl a b c) = True"
| "resource_request (CatUpdateOperationTime dl i a' b' c') = True"
| "resource_request (CatDeleteOperationTime dl i) = True"
| "resource_request (CatCreateServiceBay dl code name active) = True"
| "resource_request (CatUpdateServiceBay dl i code' name' active') = True"
| "resource_request (CatDeleteServiceBay dl i) = True"
| "resource_request _ = False"

text \<open>An invariant the writes of the other tables keep, and one every write keeps.\<close>

locale shared_invariant =
  fixes I :: "db \<Rightarrow> bool"
  assumes shared_writes: "preserves I (CreateDealership_repo x0)"
      "preserves I (CreateCustomer_repo x1)" "preserves I (UpdateCustomer_repo x1)"
      "preserves I (UpdateVehicle_repo x2)" "preserves I (DeleteVehicle_repo i now)"
    and bodies: "preserves I (create_vehicle_body clock dl x2)" "preserves I (create_user_body urID dl authID role row)"
    and link_writes: "preserves I (CreateServiceTypeRequiredSkill_repo dl x3)"
      "preserves I (UpdateServiceTypeRequiredSkill_repo dl x3)" "preserves I (DeleteServiceTypeRequiredSkill_repo dl i j)"
      "preserves I (CreateServiceTypeRequiredBayCapability_repo dl x4)"
      "preserves I (UpdateServiceTypeRequiredBayCapability_repo dl x4)"
      "preserves I (DeleteServiceTypeRequiredBayCapability_repo dl i j)"
      "preserves I (CreateServiceBayCapability_repo dl x5)" "preserves I (UpdateServiceBayCapability_repo dl x5)"
      "preserves I (DeleteServiceBayCapability_repo dl i j)"
begin

lemma transactions:
  assumes "world_within I w"
  shows "preserves I (CreateVehicle_repo w tclock dl x)" "preserves I (CreateDealershipUser_repo w newID xu)"
    "preserves I (CreateDealershipAdmin_repo w newID xa)"
  unfolding CreateVehicle_repo_def CreateDealershipUser_repo_def CreateDealershipAdmin_repo_def
  by (intro preserves_on_err preserves_in_tx [OF assms] bodies)+

lemma shared_preserves:
  assumes "world_within I (cat_world x)" and "\<not> resource_request req"
  shows "preserves I (catalog_use_case x env actor req)"
  using assms(2)
  by (cases req)
    (auto simp: catalog_use_case_def no_value_def CreateDealership_def CreateDealershipAdmin_def CreateDealershipUser_def
        CreateServiceTypeRequiredSkill_def UpdateServiceTypeRequiredSkill_def DeleteServiceTypeRequiredSkill_def
        CreateServiceTypeRequiredBayCapability_def UpdateServiceTypeRequiredBayCapability_def
        DeleteServiceTypeRequiredBayCapability_def
        CreateServiceBayCapability_def UpdateServiceBayCapability_def DeleteServiceBayCapability_def
        CreateCustomer_def UpdateCustomer_def CreateVehicle_def UpdateVehicle_def DeleteVehicle_def Let_def
      intro!: preserves_intros preserves_prod reads actor_reads shared_writes link_writes transactions [OF assms(1)]
      split: option.split)

end

locale catalog_invariant = shared_invariant +
  assumes resource_writes: "preserves I (CreateServiceType_repo x6)" "preserves I (UpdateServiceType_repo x6)"
      "preserves I (CreateServiceBay_repo x7)" "preserves I (UpdateServiceBay_repo x7)"
      "preserves I (CreateDealershipOperationTime_repo x8)" "preserves I (UpdateDealershipOperationTime_repo x8)"
      "preserves I (DeleteDealershipOperationTime_repo dl i)"
    and delete_bodies: "preserves I (delete_service_type_body dl i now)" "preserves I (delete_service_bay_body dl i now)"
begin

lemma catalog_preserves:
  assumes "world_within I (cat_world x)"
  shows "preserves I (catalog_use_case x env actor req)"
proof (cases "resource_request req")
  case True
  have delete: "preserves I (DeleteServiceType_repo (cat_world x) dl i now)"
      "preserves I (DeleteServiceBay_repo (cat_world x) dl i now)" for dl i now
    unfolding DeleteServiceType_repo_def DeleteServiceBay_repo_def
    by (intro preserves_in_tx [OF assms] delete_bodies)+
  from True show ?thesis
    by (cases req)
      (auto simp: catalog_use_case_def no_value_def CreateServiceType_def UpdateServiceType_def DeleteServiceType_def
          CreateDealershipOperationTime_def UpdateDealershipOperationTime_def DeleteDealershipOperationTime_def
          CreateServiceBay_def UpdateServiceBay_def DeleteServiceBay_def
        intro!: preserves_intros reads actor_reads resource_writes delete)
next
  case False
  then show ?thesis by (rule shared_preserves [OF assms])
qed

end

text \<open>For the shared and link tables it is enough that the statements keep the invariant.\<close>

locale statement_invariant =
  fixes I :: "db \<Rightarrow> bool"
  assumes inserts: "insert_row dealership_table x0 d = Inr d' \<Longrightarrow> I d \<Longrightarrow> I d'"
      "insert_row customer_table x1 d = Inr d' \<Longrightarrow> I d \<Longrightarrow> I d'"
      "\<not> list_ex (\<lambda>r. cd_customer_id r = cd_customer_id x2) (customer_dealerships d) \<Longrightarrow>
         insert_row customer_dealership_table x2 d = Inr d' \<Longrightarrow> I d \<Longrightarrow> I d'"
      "insert_row vehicle_table x3 d = Inr d' \<Longrightarrow> I d \<Longrightarrow> I d'"
      "insert_row required_skill_table x6 d = Inr d' \<Longrightarrow> I d \<Longrightarrow> I d'"
      "insert_row required_capability_table x7 d = Inr d' \<Longrightarrow> I d \<Longrightarrow> I d'"
      "insert_row bay_capability_table x8 d = Inr d' \<Longrightarrow> I d \<Longrightarrow> I d'"
      "insert_row user_role_table x9 d = Inr d' \<Longrightarrow> I d \<Longrightarrow> I d'"
      "insert_user u d = Inr d' \<Longrightarrow> I d \<Longrightarrow> I d'"
    and updates: "update_rows customer_table p1 f1 d = Inr d' \<Longrightarrow> I d \<Longrightarrow> I d'"
      "update_rows vehicle_table p3 f3 d = Inr d' \<Longrightarrow> I d \<Longrightarrow> I d'"
      "update_rows required_skill_table p6 f6 d = Inr d' \<Longrightarrow> I d \<Longrightarrow> I d'"
      "update_rows required_capability_table p7 f7 d = Inr d' \<Longrightarrow> I d \<Longrightarrow> I d'"
      "update_rows bay_capability_table p8 f8 d = Inr d' \<Longrightarrow> I d \<Longrightarrow> I d'"
    and deletes: "I d \<Longrightarrow> I (delete_rows required_skill_table p6 d)"
      "I d \<Longrightarrow> I (delete_rows required_capability_table p7 d)"
      "I d \<Longrightarrow> I (delete_rows bay_capability_table p8 d)"
begin

lemma plain_writes:
  "preserves I (CreateDealership_repo y0)" "preserves I (CreateCustomer_repo y1)"
  "preserves I (UpdateCustomer_repo y1)" "preserves I (UpdateVehicle_repo y2)" "preserves I (DeleteVehicle_repo i now)"
  "preserves I (UpdateServiceTypeRequiredSkill_repo dl y3)" "preserves I (DeleteServiceTypeRequiredSkill_repo dl i j)"
  "preserves I (UpdateServiceTypeRequiredBayCapability_repo dl y4)"
  "preserves I (DeleteServiceTypeRequiredBayCapability_repo dl i j)"
  "preserves I (UpdateServiceBayCapability_repo dl y5)" "preserves I (DeleteServiceBayCapability_repo dl i j)"
  unfolding CreateDealership_repo_def CreateCustomer_repo_def UpdateCustomer_repo_def UpdateVehicle_repo_def
    DeleteVehicle_repo_def UpdateServiceTypeRequiredSkill_repo_def DeleteServiceTypeRequiredSkill_repo_def
    UpdateServiceTypeRequiredBayCapability_repo_def DeleteServiceTypeRequiredBayCapability_repo_def
    UpdateServiceBayCapability_repo_def DeleteServiceBayCapability_repo_def
  by (intro preserves_intros preserves_exec preserves_update_execrows preserves_delete_execrows
        preserves_update_returning reads
      | erule (1) inserts(1,2) updates | erule deletes)+

lemma link_inserts:
  "preserves I (CreateServiceTypeRequiredSkill_repo dl y3)"
  "preserves I (CreateServiceTypeRequiredBayCapability_repo dl y4)"
  "preserves I (CreateServiceBayCapability_repo dl y5)"
proof -
  have link: "preserves I (insert_link required_skill_table p q r6)"
    "preserves I (insert_link required_capability_table p q r7)"
    "preserves I (insert_link bay_capability_table p q r8)" for p q r6 r7 r8
    by (rule preserves_insert_link, erule (1) inserts(5-7))+
  show "preserves I (CreateServiceTypeRequiredSkill_repo dl y3)"
    by (rule preservesI)
      (auto simp: CreateServiceTypeRequiredSkill_repo_def split: prod.splits sum.splits dest: preservesD [OF link(1)])
  show "preserves I (CreateServiceTypeRequiredBayCapability_repo dl y4)"
    by (rule preservesI)
      (auto simp: CreateServiceTypeRequiredBayCapability_repo_def split: prod.splits sum.splits dest: preservesD [OF link(2)])
  show "preserves I (CreateServiceBayCapability_repo dl y5)"
    by (rule preservesI)
      (auto simp: CreateServiceBayCapability_repo_def split: prod.splits sum.splits dest: preservesD [OF link(3)])
qed

lemma transaction_bodies:
  "preserves I (create_vehicle_body now dl y2)" "preserves I (create_user_body urID dl authID role row)"
proof -
  have claim: "ClaimCustomerDealership now c dl d = Inr d' \<Longrightarrow> I d \<Longrightarrow> I d'" for now c dl d d'
    by (auto simp: ClaimCustomerDealership_def split: if_splits dest: inserts(3) [rotated])
  have user: "insert_user_with_role u i j d = Inr d' \<Longrightarrow> I d \<Longrightarrow> I d'" for u i j d d'
    by (auto simp: insert_user_with_role_def ok_iff dest: inserts(8,9))
  show "preserves I (create_vehicle_body now dl y2)"
    unfolding create_vehicle_body_def
    by (intro preserves_intros preserves_exec reads) (erule (1) claim inserts(4))+
  show "preserves I (create_user_body urID dl authID role row)"
    unfolding create_user_body_def by (intro preserves_intros preserves_exec reads; erule (1) user)
qed

end

sublocale statement_invariant \<subseteq> shared_invariant I
  by unfold_locales (rule plain_writes link_inserts transaction_bodies)+

interpretation catalog_statements: statement_invariant system_inv
  by unfold_locales (erule (1) catalog_inserts catalog_updates insert_user_keeps | erule catalog_deletes)+

interpretation catalog_system: catalog_invariant system_inv
  by unfold_locales (rule resource_repo_writes delete_bodies_keep)+

section \<open>Appointments and the workforce\<close>

definition catalog_part :: "db \<Rightarrow> bool" where
  "catalog_part d \<longleftrightarrow> catalog_indexes d \<and> references_ok d"

lemma system_inv_parts: "system_inv d \<longleftrightarrow> booking_inv d \<and> catalog_part d"
  by (auto simp: system_inv_def catalog_part_def)

lemma workforce_frame_catalog: "catalog_part d \<Longrightarrow> workforce_frame d d' \<Longrightarrow> catalog_part d'"
  unfolding workforce_frame_def catalog_part_def
  by (erule ssubst) (simp add: catalog_indexes_def reference_defs)

interpretation workforce_system: workforce_invariant system_inv
proof -
  have both: "preserves system_inv m"
    if "preserves booking_inv m" and "\<And>d r d'. m d = (r, d') \<Longrightarrow> workforce_frame d d'"
    for m :: "(db, go_error, 'a) action"
    using that workforce_frame_catalog unfolding system_inv_parts preserves_def by (metis prod.collapse)
  show "workforce_invariant system_inv"
    by unfold_locales
      (rule both, rule workforce_bookings.technician_writes workforce_bookings.shift_writes
         workforce_bookings.skill_writes workforce_bookings.time_off_writes, erule workforce_writes_frame)+
qed

lemma schedule_keeps_catalog:
  assumes "catalog_part d" and "ScheduleAppointment_tx zone ids (r, d) = (Inr (), (r', d'))"
  shows "catalog_part d'"
proof -
  obtain tz mn mx where st: "GetActiveServiceTypeDuration d (sar_ServiceTypeID r) (sar_DealershipID r) = Inr (mn, mx)"
      and r': "r' = resolved mx r" and checks: "schedule_checks zone tz r' d = Inr ()"
      and writes: "schedule_writes ids r' d = Inr d'"
    using assms(2) unfolding ScheduleAppointment_tx_ok by blast
  obtain s where "s \<in> set (service_types d)" "service_type_key (sar_DealershipID r) (sar_ServiceTypeID r) s"
    using st by (auto simp: GetActiveServiceTypeDuration_def service_type_key_def dest!: find_row_Some split: option.splits)
  moreover obtain b where "b \<in> set (service_bays d)" "service_bay_key (sar_DealershipID r) (sar_ServiceBayID r) b"
    using checks by (auto simp: schedule_checks_ok r' IsCompatibleServiceBay_def list_ex_iff service_bay_key_def)
  moreover have "d' = booked r' ids d" by (rule schedule_writes_booked(1) [OF writes])
  ultimately show ?thesis
    using assms(1)
    by (auto simp: catalog_part_def catalog_indexes_def booked_def reference_defs list_all_iff list_ex_iff
        scheduled_row_def r' split: prod.splits)
qed

lemma transitioned_references [simp]:
  "ap_service_type_id (transitioned tr actual n a) = ap_service_type_id a"
  "ap_service_bay_id (transitioned tr actual n a) = ap_service_bay_id a"
  "ap_dealership_id (transitioned tr actual n a) = ap_dealership_id a"
  "ap_deleted_at (transitioned tr actual n a) = ap_deleted_at a"
  by (simp_all add: transitioned_def Let_def split: AppointmentStatus.split)

lemma transition_keeps_catalog:
  assumes "catalog_part d" and "transition_body e tr d = Inr d'"
  shows "catalog_part d'"
proof -
  obtain a actual n where d': "d' = d\<lparr>appointments := update_where (\<lambda>a. ap_id a = tr_AppointmentID tr)
                 (transitioned tr actual n) (appointments d),
              reservations := released tr (reservations d),
              audits := audits d @ [changed_audit tr actual n a e]\<rparr>"
    using transition_body_effect [OF assms(2)] unfolding transition_effect_def by blast
  show ?thesis
    using assms(1) unfolding d'
    by (auto simp: catalog_part_def catalog_indexes_def reference_defs list_all_iff set_update_where)
qed

interpretation system: appointment_invariant system_inv
  by unfold_locales
    (auto simp: system_inv_parts intro: schedule_keeps transition_keeps schedule_keeps_catalog transition_keeps_catalog)

section \<open>The whole program\<close>

datatype request =
    ToAppointments call
  | ToWorkforce "string \<Rightarrow> string option" "user_row \<Rightarrow> string" tx_faults service_env uuid workforce_request
  | ToCatalog catalog_deps service_env uuid catalog_request

fun request_step :: "zone_db \<Rightarrow> request \<Rightarrow> db \<Rightarrow> db" where
  "request_step zone (ToAppointments c) d = snd (handle zone c d)"
| "request_step zone (ToWorkforce pa tz faults env actor req) d = snd (workforce_use_case pa zone tz faults env actor req d)"
| "request_step zone (ToCatalog x env actor req) d = snd (catalog_use_case x env actor req d)"

text \<open>What is assumed of the surroundings of a request: its worlds keep their contracts and other
  sessions keep the invariant.\<close>

fun surroundings_keep :: "(db \<Rightarrow> bool) \<Rightarrow> request \<Rightarrow> bool" where
  "surroundings_keep I (ToAppointments c) = call_within I c"
| "surroundings_keep I (ToWorkforce pa tz faults env actor req) = True"
| "surroundings_keep I (ToCatalog x env actor req) = world_within I (cat_world x)"

locale program_invariant = appointment_invariant I + workforce_invariant I + catalog_invariant I for I
begin

lemma request_step_keeps: "surroundings_keep I r \<Longrightarrow> I d \<Longrightarrow> I (request_step zone r d)"
proof (cases r)
  case (ToWorkforce pa tz faults env actor req)
  then show "I d \<Longrightarrow> I (request_step zone r d)"
    using preservesD [OF workforce_preserves prod.collapse [symmetric]] by simp
next
  case (ToCatalog x env actor req)
  moreover assume "surroundings_keep I r"
  ultimately show "I d \<Longrightarrow> I (request_step zone r d)"
    using preservesD [OF catalog_preserves prod.collapse [symmetric]] by simp
next
  case (ToAppointments c)
  moreover assume "surroundings_keep I r"
  ultimately show "I d \<Longrightarrow> I (request_step zone r d)"
    using handle_keeps [OF _ _ prod.collapse [symmetric]] by simp
qed

lemma requests_keep: "list_all (surroundings_keep I) rs \<Longrightarrow> I d \<Longrightarrow> I (fold (request_step zone) rs d)"
  by (induction rs arbitrary: d) (auto intro: request_step_keeps)

end

interpretation program: program_invariant system_inv
  by unfold_locales

end
