(* ===== verification/Catalog_Facts.thy ===== *)
theory Catalog_Facts
  imports Catalog_Requests
begin

text \<open>
  What the catalog use cases guarantee, resource by resource: who may write what of which
  dealership, that deletions are guarded, that a stored service type or customer reads back
  as it was created, that a customer stays with the dealership that claimed it.
\<close>

section \<open>Tenancy\<close>

text \<open>The dealership a request names, for the requests that are made for one dealership.\<close>

fun request_dealership :: "catalog_request \<Rightarrow> uuid option" where
  "request_dealership (CatCreateServiceType dl input) = Some dl"
| "request_dealership (CatUpdateServiceType dl i input') = Some dl"
| "request_dealership (CatDeleteServiceType dl i) = Some dl"
| "request_dealership (CatCreateOperationTime dl a b c) = Some dl"
| "request_dealership (CatUpdateOperationTime dl i a' b' c') = Some dl"
| "request_dealership (CatDeleteOperationTime dl i) = Some dl"
| "request_dealership (CatCreateRequiredSkill dl i k) = Some dl"
| "request_dealership (CatUpdateRequiredSkill dl i j k') = Some dl"
| "request_dealership (CatDeleteRequiredSkill dl i j) = Some dl"
| "request_dealership (CatCreateRequiredCapability dl i k) = Some dl"
| "request_dealership (CatUpdateRequiredCapability dl i j k') = Some dl"
| "request_dealership (CatDeleteRequiredCapability dl i j) = Some dl"
| "request_dealership (CatCreateServiceBay dl code name active) = Some dl"
| "request_dealership (CatUpdateServiceBay dl i code' name' active') = Some dl"
| "request_dealership (CatDeleteServiceBay dl i) = Some dl"
| "request_dealership (CatCreateBayCapability dl i k) = Some dl"
| "request_dealership (CatUpdateBayCapability dl i j k') = Some dl"
| "request_dealership (CatDeleteBayCapability dl i j) = Some dl"
| "request_dealership _ = None"

definition stops :: "('s, 'e, 'a) action \<Rightarrow> 's \<Rightarrow> bool" where
  "stops m s \<longleftrightarrow> (\<exists>e. m s = (Inl e, s))"

lemma stops_andThen: "stops m s \<Longrightarrow> stops (andThen m k) s"
  by (auto simp: stops_def andThen_def)

lemma stops_on_err: "stops m s \<Longrightarrow> stops (on_err h m) s"
  by (auto simp: stops_def on_err_def)

lemma stops_throw: "stops (throw e) s"
  by (simp add: stops_def)

lemma not_admin_stops:
  assumes "\<not> IsActiveSchedulerAdminForDealership d actor dl"
  shows "stops (require_dealership_admin slug msg actor dl) d"
  using assms by (auto simp: stops_def require_dealership_admin_def require_actor_def andThen_def)

lemma authorize_stops:
  assumes "\<not> IsActiveSchedulerAdminForDealership d actor dl"
  shows "stops (authorizeServiceTypes actor dl) d" "stops (authorizeServiceBays actor dl) d"
    "stops (authorizeServiceTypeRequiredSkills actor dl) d"
    "stops (authorizeServiceTypeRequiredBayCapabilities actor dl) d"
    "stops (authorizeServiceBayCapabilities actor dl) d" "stops (authorizeDealershipOperationTimes actor dl) d"
  using not_admin_stops [OF assms]
  by (simp_all add: authorizeServiceTypes_def authorizeServiceBays_def authorizeServiceTypeRequiredSkills_def
      authorizeServiceTypeRequiredBayCapabilities_def authorizeServiceBayCapabilities_def
      authorizeDealershipOperationTimes_def stops_andThen)

lemma not_admin_refused:
  assumes "request_dealership req = Some dl" and "\<not> IsActiveSchedulerAdminForDealership d actor dl"
  shows "stops (catalog_use_case x env actor req) d"
  using assms(1)
  by (cases req)
    (auto simp: catalog_use_case_def no_value_def CreateServiceType_def UpdateServiceType_def DeleteServiceType_def
        CreateDealershipOperationTime_def UpdateDealershipOperationTime_def DeleteDealershipOperationTime_def
        CreateServiceTypeRequiredSkill_def UpdateServiceTypeRequiredSkill_def DeleteServiceTypeRequiredSkill_def
        CreateServiceTypeRequiredBayCapability_def UpdateServiceTypeRequiredBayCapability_def
        DeleteServiceTypeRequiredBayCapability_def CreateServiceBay_def UpdateServiceBay_def DeleteServiceBay_def
        CreateServiceBayCapability_def UpdateServiceBayCapability_def DeleteServiceBayCapability_def
      intro!: stops_andThen authorize_stops [OF assms(2)] stops_throw split: option.split)

text \<open>The service types, bays and opening hours of a dealership.\<close>

definition tenant_rows ::
  "uuid \<Rightarrow> db \<Rightarrow> service_type_row list \<times> service_bay_row list \<times> operation_time_row list" where
  "tenant_rows dl d =
     (filter (\<lambda>r. sty_dealership_id r = dl) (service_types d),
      filter (\<lambda>r. bay_dealership_id r = dl) (service_bays d),
      filter (\<lambda>r. op_dealership_id r = dl) (operation_times d))"

lemma filter_update_where:
  "(\<And>r. p r \<Longrightarrow> \<not> q r \<and> \<not> q (f r)) \<Longrightarrow> filter q (update_where p f xs) = filter q xs"
  unfolding update_where_def by (induction xs) auto

lemma tenant_rows_frame [simp]:
  "tenant_rows dl (d\<lparr>dealerships := x0\<rparr>) = tenant_rows dl d" "tenant_rows dl (d\<lparr>customers := x1\<rparr>) = tenant_rows dl d"
  "tenant_rows dl (d\<lparr>customer_dealerships := x2\<rparr>) = tenant_rows dl d" "tenant_rows dl (d\<lparr>vehicles := x3\<rparr>) = tenant_rows dl d"
  "tenant_rows dl (d\<lparr>required_skills := x6\<rparr>) = tenant_rows dl d"
  "tenant_rows dl (d\<lparr>required_capabilities := x7\<rparr>) = tenant_rows dl d"
  "tenant_rows dl (d\<lparr>bay_capabilities := x8\<rparr>) = tenant_rows dl d" "tenant_rows dl (d\<lparr>user_roles := x9\<rparr>) = tenant_rows dl d"
  "tenant_rows dl (d\<lparr>users := x10\<rparr>) = tenant_rows dl d"
  by (simp_all add: tenant_rows_def)


interpretation tenant_statements: statement_invariant "\<lambda>d. tenant_rows dl d = K" for dl K
  by unfold_locales (auto simp: insert_row_ok update_rows_ok delete_rows_def insert_user_def checked_ok)

text \<open>An invariant of one run: the reads before a write tell what the write is about.\<close>

definition keeps :: "('s \<Rightarrow> bool) \<Rightarrow> ('s, 'e, 'a) action \<Rightarrow> 's \<Rightarrow> bool" where
  "keeps I m s \<longleftrightarrow> (I s \<longrightarrow> I (snd (m s)))"

lemma keeps_preserves: "preserves I m \<Longrightarrow> keeps I m s"
  by (simp add: keeps_def preserves_def)

lemma keeps_andThen:
  assumes "readonly m" and "\<And>x. m s = (Inr x, s) \<Longrightarrow> keeps I (k x) s"
  shows "keeps I (andThen m k) s"
proof -
  obtain r s1 where m: "m s = (r, s1)" by (rule prod.exhaust)
  then have "s1 = s" using assms(1) by (rule readonlyD [rotated])
  then show ?thesis using m assms(2) by (cases r) (auto simp: keeps_def andThen_def)
qed

lemma keeps_ret_after: "keeps I m s \<Longrightarrow> keeps I (andThen m (\<lambda>_. ret x)) s"
  by (auto simp: keeps_def andThen_def split: prod.splits sum.splits)

lemma keeps_on_err: "keeps I m s \<Longrightarrow> keeps I (on_err h m) s"
  by (auto simp: keeps_def on_err_def split: prod.splits sum.splits)

lemma found_dealership:
  "GetServiceType_repo d dl i = Inr x \<Longrightarrow> st_dealershipID x = dl"
  "GetServiceBay_repo d dl i = Inr y \<Longrightarrow> sb_dealershipID y = dl"
  "GetDealershipOperationTime_repo d dl i = Inr z \<Longrightarrow> ot_dealershipID z = dl"
  by (auto simp: GetServiceType_repo_def GetServiceType_sql_def GetServiceBay_repo_def GetServiceBay_sql_def
      GetDealershipOperationTime_repo_def ok_iff row_as_def serviceTypeFromRow_def RehydrateServiceType_def
      NewServiceType_def serviceBayFromRow_def RehydrateServiceBay_def NewServiceBay_def
      operationTimeFromRow_def RehydrateDealershipOperationTime_def NewDealershipOperationTime_def
      service_type_key_def service_bay_key_def operation_time_key_def
      split: option.splits sum.splits if_splits dest!: find_row_Some)

lemma updated_dealership:
  "ServiceType_Update n a b c e now x = Inr x' \<Longrightarrow> st_dealershipID x' = st_dealershipID x"
  "ServiceBay_Update c' n' e now y = Inr y' \<Longrightarrow> sb_dealershipID y' = sb_dealershipID y"
  "OperationTime_Update o1 o2 o3 now z = Inr z' \<Longrightarrow> ot_dealershipID z' = ot_dealershipID z"
  by (auto simp: ServiceType_Update_def ServiceBay_Update_def OperationTime_Update_def NewDealershipOperationTime_def
      RehydrateDealershipOperationTime_def Let_def split: sum.splits if_splits)

lemma created_dealership:
  "NewServiceType i dl n a b c e now = Inr x \<Longrightarrow> st_dealershipID x = dl"
  "NewServiceBay i dl c' n' e now = Inr y \<Longrightarrow> sb_dealershipID y = dl"
  "NewDealershipOperationTime i dl o1 o2 o3 now = Inr z \<Longrightarrow> ot_dealershipID z = dl"
  by (auto simp: NewServiceType_def NewServiceBay_def NewDealershipOperationTime_def split: sum.splits if_splits)

lemma other_tenant_statements:
  "insert_row service_type_table x d = Inr d' \<Longrightarrow> sty_dealership_id x \<noteq> dl \<Longrightarrow> tenant_rows dl d' = tenant_rows dl d"
  "insert_row service_bay_table y d = Inr d' \<Longrightarrow> bay_dealership_id y \<noteq> dl \<Longrightarrow> tenant_rows dl d' = tenant_rows dl d"
  "insert_operation_time z d = Inr d' \<Longrightarrow> op_dealership_id z \<noteq> dl \<Longrightarrow> tenant_rows dl d' = tenant_rows dl d"
  "update_rows service_type_table p f d = Inr d' \<Longrightarrow>
     (\<And>r. p r \<Longrightarrow> sty_dealership_id r \<noteq> dl \<and> sty_dealership_id (f r) \<noteq> dl) \<Longrightarrow> tenant_rows dl d' = tenant_rows dl d"
  "update_rows service_bay_table p' f' d = Inr d' \<Longrightarrow>
     (\<And>r. p' r \<Longrightarrow> bay_dealership_id r \<noteq> dl \<and> bay_dealership_id (f' r) \<noteq> dl) \<Longrightarrow> tenant_rows dl d' = tenant_rows dl d"
  "update_operation_times p'' f'' d = Inr d' \<Longrightarrow>
     (\<And>r. p'' r \<Longrightarrow> op_dealership_id r \<noteq> dl \<and> op_dealership_id (f'' r) \<noteq> dl) \<Longrightarrow> tenant_rows dl d' = tenant_rows dl d"
  by (auto simp: insert_row_ok update_rows_ok tenant_rows_def filter_update_where
      insert_operation_time_def update_operation_times_def checked_ok Let_def)

lemma other_tenant_delete:
  "(\<And>r. p r \<Longrightarrow> op_dealership_id r \<noteq> dl) \<Longrightarrow>
     tenant_rows dl (d\<lparr>operation_times := filter (\<lambda>r. \<not> p r) (operation_times d)\<rparr>) = tenant_rows dl d"
  by (auto simp: tenant_rows_def intro: filter_cong)

lemma other_tenant_writes:
  "st_dealershipID x \<noteq> dl \<Longrightarrow> preserves (\<lambda>d. tenant_rows dl d = K) (CreateServiceType_repo x)"
  "st_dealershipID x \<noteq> dl \<Longrightarrow> preserves (\<lambda>d. tenant_rows dl d = K) (UpdateServiceType_repo x)"
  "sb_dealershipID y \<noteq> dl \<Longrightarrow> preserves (\<lambda>d. tenant_rows dl d = K) (CreateServiceBay_repo y)"
  "sb_dealershipID y \<noteq> dl \<Longrightarrow> preserves (\<lambda>d. tenant_rows dl d = K) (UpdateServiceBay_repo y)"
  "ot_dealershipID z \<noteq> dl \<Longrightarrow> preserves (\<lambda>d. tenant_rows dl d = K) (CreateDealershipOperationTime_repo z)"
  "ot_dealershipID z \<noteq> dl \<Longrightarrow> preserves (\<lambda>d. tenant_rows dl d = K) (UpdateDealershipOperationTime_repo z)"
  "dl' \<noteq> dl \<Longrightarrow> preserves (\<lambda>d. tenant_rows dl d = K) (DeleteDealershipOperationTime_repo dl' i)"
  "dl' \<noteq> dl \<Longrightarrow> preserves (\<lambda>d. tenant_rows dl d = K) (delete_service_type_body dl' i now)"
  "dl' \<noteq> dl \<Longrightarrow> preserves (\<lambda>d. tenant_rows dl d = K) (delete_service_bay_body dl' i now)"
  unfolding CreateServiceType_repo_def UpdateServiceType_repo_def CreateServiceBay_repo_def UpdateServiceBay_repo_def
    CreateDealershipOperationTime_repo_def UpdateDealershipOperationTime_repo_def Let_def
    DeleteDealershipOperationTime_repo_def delete_service_type_body_def delete_service_bay_body_def
  by (intro preserves_intros preserves_exec preserves_execrows preserves_update_execrows reads;
      force simp: service_type_row_of_def service_bay_row_of_def operation_time_row_of_def
        service_type_key_def service_bay_key_def operation_time_key_def
        dest!: other_tenant_statements [where dl = dl] intro!: other_tenant_delete)+


lemma other_tenant_request:
  assumes w: "world_within (\<lambda>d. tenant_rows dl d = K) (cat_world x)" and "request_dealership req \<noteq> Some dl"
  shows "keeps (\<lambda>d. tenant_rows dl d = K) (catalog_use_case x env actor req) d"
proof (cases "resource_request req")
  case False
  then show ?thesis by (intro keeps_preserves tenant_statements.shared_preserves [OF w])
next
  case True
  note step = keeps_andThen [OF readonly_actors(3)] keeps_andThen [OF readonly_actors(4)]
    keeps_andThen [OF readonly_actors(8)] keeps_andThen [OF readonly_lift_res]
    keeps_andThen [OF readonly_on_err, OF readonly_query_res]
  have delete: "preserves (\<lambda>d. tenant_rows dl d = K) (DeleteServiceType_repo (cat_world x) dl' i now)"
      "preserves (\<lambda>d. tenant_rows dl d = K) (DeleteServiceBay_repo (cat_world x) dl' i now)"
    if "dl' \<noteq> dl" for dl' i now
    unfolding DeleteServiceType_repo_def DeleteServiceBay_repo_def
    using that by (intro preserves_in_tx [OF w] other_tenant_writes; simp)+
  from True assms(2) show ?thesis
    by (cases req)
      (auto simp: catalog_use_case_def no_value_def CreateServiceType_def UpdateServiceType_def DeleteServiceType_def
          CreateDealershipOperationTime_def UpdateDealershipOperationTime_def DeleteDealershipOperationTime_def
          CreateServiceBay_def UpdateServiceBay_def DeleteServiceBay_def ok_iff
        intro!: keeps_ret_after step keeps_on_err other_tenant_writes [THEN keeps_preserves] delete [THEN keeps_preserves]
        dest!: created_dealership updated_dealership found_dealership)
qed

lemma tenant_isolated:
  assumes "backoff_contract retry" and "cat_world x = calm retry" and "\<not> IsActiveSchedulerAdminForDealership d actor dl"
    and "catalog_use_case x env actor req d = (res, d')"
  shows "tenant_rows dl d' = tenant_rows dl d"
proof (cases "request_dealership req = Some dl")
  case True
  from not_admin_refused [OF this assms(3), of x env] assms(4) show ?thesis by (auto simp: stops_def)
next
  case False
  have "world_within (\<lambda>e. tenant_rows dl e = tenant_rows dl d) (cat_world x)"
    using calm_sound [OF assms(1)] by (simp add: world_within_def assms(2)) (simp add: calm_def)
  from other_tenant_request [OF this False, of env actor d] assms(4) show ?thesis by (simp add: keeps_def)
qed

section \<open>Customers stay with the dealership that claimed them\<close>

definition claimed :: "uuid \<Rightarrow> uuid \<Rightarrow> db \<Rightarrow> bool" where
  "claimed customerID dealershipID d = CustomerBelongsToDealership d customerID dealershipID"

lemma claimed_same: "customer_dealerships d' = customer_dealerships d \<Longrightarrow> claimed c dl d' = claimed c dl d"
  by (simp add: claimed_def CustomerBelongsToDealership_def GetCustomerDealership_def)

lemma claimed_frame [simp]:
  "claimed c dl (d\<lparr>dealerships := x0\<rparr>) = claimed c dl d"
  "claimed c dl (d\<lparr>customers := x1\<rparr>) = claimed c dl d"
  "claimed c dl (d\<lparr>vehicles := x2\<rparr>) = claimed c dl d"
  "claimed c dl (d\<lparr>service_types := x3\<rparr>) = claimed c dl d"
  "claimed c dl (d\<lparr>service_bays := x4\<rparr>) = claimed c dl d"
  "claimed c dl (d\<lparr>required_skills := x5\<rparr>) = claimed c dl d"
  "claimed c dl (d\<lparr>required_capabilities := x6\<rparr>) = claimed c dl d"
  "claimed c dl (d\<lparr>bay_capabilities := x7\<rparr>) = claimed c dl d"
  "claimed c dl (d\<lparr>user_roles := x8\<rparr>) = claimed c dl d"
  "claimed c dl (d\<lparr>users := x9\<rparr>) = claimed c dl d"
  "claimed c dl (d\<lparr>operation_times := x10\<rparr>) = claimed c dl d"
  by (rule claimed_same, simp)+

lemma claimed_insert: "claimed c dl d \<Longrightarrow> claimed c dl (d\<lparr>customer_dealerships := customer_dealerships d @ [x]\<rparr>)"
  by (auto simp: claimed_def CustomerBelongsToDealership_def GetCustomerDealership_def row_as_def find_row_snoc
      split: option.splits)

interpretation claims: statement_invariant "claimed c dl" for c dl
  by unfold_locales (auto simp: insert_row_ok update_rows_ok delete_rows_def insert_user_def checked_ok claimed_insert)

interpretation catalog_claims: catalog_invariant "claimed c dl" for c dl
  by unfold_locales
    (unfold CreateServiceType_repo_def UpdateServiceType_repo_def CreateServiceBay_repo_def UpdateServiceBay_repo_def
      CreateDealershipOperationTime_repo_def UpdateDealershipOperationTime_repo_def Let_def
      DeleteDealershipOperationTime_repo_def delete_service_type_body_def delete_service_bay_body_def,
     intro preserves_intros preserves_exec preserves_execrows preserves_update_execrows reads;
     auto simp: insert_row_ok update_rows_ok insert_operation_time_def update_operation_times_def checked_ok Let_def)+

lemma workforce_frame_claimed: "claimed c dl d \<Longrightarrow> workforce_frame d d' \<Longrightarrow> claimed c dl d'"
proof -
  assume "workforce_frame d d'"
  then have "customer_dealerships d' = customer_dealerships d"
    unfolding workforce_frame_def by (rule arg_cong [of _ _ customer_dealerships, THEN trans]) simp
  then show "claimed c dl d \<Longrightarrow> claimed c dl d'" using claimed_same by blast
qed

interpretation workforce_claims: workforce_invariant "claimed c dl" for c dl
  by (rule workforce_invariant_frame) (rule workforce_frame_claimed)

interpretation appointment_claims: appointment_invariant "claimed c dl" for c dl
proof unfold_locales
  fix d zone ids r r' d'
  assume "claimed c dl d" and "ScheduleAppointment_tx zone ids (r, d) = (Inr (), (r', d'))"
  then obtain r'' where "d' = booked r'' ids d" using schedule_writes_booked(1) unfolding ScheduleAppointment_tx_ok by blast
  then have "customer_dealerships d' = customer_dealerships d" by (simp add: booked_def split: prod.splits)
  then show "claimed c dl d'" using \<open>claimed c dl d\<close> claimed_same by blast
next
  fix d tr e d'
  assume "claimed c dl d" and "transition_body e tr d = Inr d'"
  moreover have "customer_dealerships d' = customer_dealerships d"
    using transition_body_effect [OF calculation(2)] unfolding transition_effect_def by auto
  ultimately show "claimed c dl d'" using claimed_same by blast
qed

text \<open>A customer that belongs to a dealership belongs to it after any request.\<close>

interpretation program_claims: program_invariant "claimed c dl" for c dl
  by unfold_locales


section \<open>Deleting what appointments refer to\<close>

lemma delete_service_type_body_outcomes:
  "\<not> service_type_of_dealership dl i d \<Longrightarrow>
     delete_service_type_body dl i now d = (Inl (AppCatalogErr ErrServiceTypeNotFound), d)"
  "service_type_of_dealership dl i d \<Longrightarrow> HasAppointmentsForServiceType d i \<Longrightarrow>
     delete_service_type_body dl i now d = (Inl (AppCatalogErr ErrServiceTypeInUse), d)"
  "delete_service_type_body dl i now d = (Inr u, d') \<Longrightarrow>
     service_type_of_dealership dl i d \<and> \<not> HasAppointmentsForServiceType d i
     \<and> d' = d\<lparr>service_types := update_where (service_type_key dl i)
               (\<lambda>r. r\<lparr>sty_deleted_at := Some (to_pg now)\<rparr>) (service_types d)\<rparr>"
proof -
  have found: "service_type_of_dealership dl i d \<longleftrightarrow> (\<exists>r. GetServiceType_sql d dl i = Inr r)"
    by (auto simp: service_type_of_dealership_def GetServiceType_sql_def row_as_def list_ex_iff
        split: option.splits dest: find_row_Some) (metis find_row_None option.distinct(1) option.exhaust)+
  show "\<not> service_type_of_dealership dl i d \<Longrightarrow>
     delete_service_type_body dl i now d = (Inl (AppCatalogErr ErrServiceTypeNotFound), d)"
    unfolding found GetServiceType_sql_def
    by (auto simp: delete_service_type_body_def andThen_def on_err_def GetServiceType_sql_def row_as_def no_rows_as_def
        split: option.splits)
  show "service_type_of_dealership dl i d \<Longrightarrow> HasAppointmentsForServiceType d i \<Longrightarrow>
     delete_service_type_body dl i now d = (Inl (AppCatalogErr ErrServiceTypeInUse), d)"
    unfolding found by (auto simp: delete_service_type_body_def andThen_def on_err_def)
  show "delete_service_type_body dl i now d = (Inr u, d') \<Longrightarrow>
     service_type_of_dealership dl i d \<and> \<not> HasAppointmentsForServiceType d i
     \<and> d' = d\<lparr>service_types := update_where (service_type_key dl i)
               (\<lambda>r. r\<lparr>sty_deleted_at := Some (to_pg now)\<rparr>) (service_types d)\<rparr>"
    unfolding found
    by (auto simp: delete_service_type_body_def ok_iff update_execrows_def execrows_def update_rows_ok
        split: sum.splits if_splits)
qed

lemma deleted_not_found:
  "\<not> service_type_of_dealership dl i (d\<lparr>service_types := update_where (service_type_key dl i)
     (\<lambda>r. r\<lparr>sty_deleted_at := Some now\<rparr>) rows\<rparr>)"
  unfolding service_type_of_dealership_def update_where_def by (induction rows) (auto simp: service_type_key_def)

lemma delete_service_type_outcomes:
  assumes b: "backoff_contract retry" and auth: "authorizeServiceTypes actor dl d = (Inr (), d)"
  shows "\<not> service_type_of_dealership dl i d \<Longrightarrow>
      DeleteServiceType (calm retry) env actor dl i d = (Inl (snd service_type_not_found), d)"
    and "service_type_of_dealership dl i d \<Longrightarrow> HasAppointmentsForServiceType d i \<Longrightarrow>
      DeleteServiceType (calm retry) env actor dl i d = (Inl (snd service_type_in_use), d)"
    and "DeleteServiceType (calm retry) env actor dl i d = (Inr u, d') \<Longrightarrow>
      service_type_of_dealership dl i d \<and> \<not> HasAppointmentsForServiceType d i \<and> \<not> service_type_of_dealership dl i d'"
proof -
  have plain: "\<not> retryable_error (AppCatalogErr ErrServiceTypeNotFound)" "\<not> retryable_error (AppCatalogErr ErrServiceTypeInUse)"
    by code_simp+
  have problems: "as_problems [service_type_not_found, service_type_in_use] (AppCatalogErr ErrServiceTypeNotFound) = snd service_type_not_found"
      "as_problems [service_type_not_found, service_type_in_use] (AppCatalogErr ErrServiceTypeInUse) = snd service_type_in_use"
    by code_simp+
  show "\<not> service_type_of_dealership dl i d \<Longrightarrow>
      DeleteServiceType (calm retry) env actor dl i d = (Inl (snd service_type_not_found), d)"
    using in_tx_calm(2) [OF b _ plain(1), of "\<lambda>_. delete_service_type_body dl i (sv_now env 0)" d d]
      delete_service_type_body_outcomes(1) [of dl i d]
    by (simp add: DeleteServiceType_def DeleteServiceType_repo_def andThen_def on_err_def auth problems)
  show "service_type_of_dealership dl i d \<Longrightarrow> HasAppointmentsForServiceType d i \<Longrightarrow>
      DeleteServiceType (calm retry) env actor dl i d = (Inl (snd service_type_in_use), d)"
    using in_tx_calm(2) [OF b _ plain(2), of "\<lambda>_. delete_service_type_body dl i (sv_now env 0)" d d]
      delete_service_type_body_outcomes(2) [of dl i d]
    by (simp add: DeleteServiceType_def DeleteServiceType_repo_def andThen_def on_err_def auth problems)
  assume "DeleteServiceType (calm retry) env actor dl i d = (Inr u, d')"
  then have "in_tx (calm retry) (\<lambda>_. delete_service_type_body dl i (sv_now env 0)) d = (Inr u, d')"
    by (simp add: DeleteServiceType_def DeleteServiceType_repo_def ok_iff auth)
  then have "delete_service_type_body dl i (sv_now env 0) d = (Inr (), d')" by (rule in_tx_calm_ok [OF b refl])
  from delete_service_type_body_outcomes(3) [OF this] deleted_not_found
  show "service_type_of_dealership dl i d \<and> \<not> HasAppointmentsForServiceType d i \<and> \<not> service_type_of_dealership dl i d'"
    by metis
qed

section \<open>What is stored reads back\<close>

text \<open>An instant the database can store exactly.\<close>

definition whole_us :: "gotime \<Rightarrow> bool" where
  "whole_us t \<longleftrightarrow> instant t mod 1000 = 0"

lemma stored_time: "whole_us t \<Longrightarrow> time_UTC (from_pg (to_pg t)) = time_UTC t"
  unfolding time_UTC_eq_iff whole_us_def to_pg_def by (simp add: minus_mod_eq_div_mult [symmetric])

lemma admin_frame [simp]:
  "IsActiveSchedulerAdminForDealership (d\<lparr>service_types := x\<rparr>) = IsActiveSchedulerAdminForDealership d"
  "IsActiveCustomerEmployee (d\<lparr>customers := y\<rparr>) = IsActiveCustomerEmployee d"
  by (intro ext; simp add: IsActiveSchedulerAdminForDealership_def IsActiveCustomerEmployee_def has_role_def)+

lemma authorize_service_types_ok:
  "authorizeServiceTypes actor dl d = (Inr u, d') \<longleftrightarrow>
     actor \<noteq> uuid_Nil \<and> dl \<noteq> uuid_Nil \<and> IsActiveSchedulerAdminForDealership d actor dl \<and> d' = d"
  by (auto simp: authorizeServiceTypes_def require_dealership_admin_def require_actor_def ok_iff)

lemma stored_service_type_reads_back:
  assumes made: "NewServiceType i dl n a b c e now = Inr x" and us: "whole_us now"
    and range: "st_defaultDurationMinutes x < 2147483648" "st_minDurationMinutes x < 2147483648"
      "st_maxDurationMinutes x < 2147483648"
  shows "serviceTypeFromRow (service_type_row_of x) = Inr x"
proof -
  have pos: "0 < st_defaultDurationMinutes x" "0 < st_minDurationMinutes x" "0 < st_maxDurationMinutes x"
    and times: "st_createdAt x = time_UTC now" "st_updatedAt x = time_UTC now"
    using made by (auto simp: NewServiceType_ok)
  have "serviceTypeFromRow (service_type_row_of x)
      = rehydrate_service_type (service_type_fields x) (st_createdAt x) (st_updatedAt x)"
    using pos range times stored_time [OF us]
    by (simp add: serviceTypeFromRow_def service_type_row_of_def service_type_fields_def
        RehydrateServiceType_def NewServiceType_def to_int32_id split: sum.split)
  then show ?thesis
    using service_type.stored_round_trip [of "(i, dl, n, a, b, c, e)" now x] made by simp
qed

lemma create_then_get_service_type:
  assumes run: "CreateServiceType env actor dl input d = (Inr x, d')" and us: "whole_us (sv_now env 0)"
    and range: "st_defaultDurationMinutes x < 2147483648" "st_minDurationMinutes x < 2147483648"
      "st_maxDurationMinutes x < 2147483648"
  shows "GetServiceType actor dl (st_id x) d' = (Inr x, d')"
proof -
  from run obtain n a b c e i where auth: "authorizeServiceTypes actor dl d = (Inr (), d)"
      and made: "NewServiceType i dl n a b c e (sv_now env 0) = Inr x"
      and ins: "insert_row service_type_table (service_type_row_of x) d = Inr d'"
    by (auto simp: CreateServiceType_def CreateServiceType_repo_def ok_iff authorize_service_types_ok)
  have d': "d' = d\<lparr>service_types := service_types d @ [service_type_row_of x]\<rparr>"
    and fresh: "\<forall>r\<in>set (service_types d). sty_id r \<noteq> st_id x"
    using ins by (auto simp: insert_row_ok service_type_table_def list_ex_iff same_key_def service_type_row_of_def)
  have "find_row (service_type_key dl (st_id x)) (service_types d) = None"
    using fresh by (auto simp: find_row_None service_type_key_def)
  then have "GetServiceType_repo d' dl (st_id x) = Inr x"
    using created_dealership(1) [OF made] stored_service_type_reads_back [OF made us range]
    by (simp add: GetServiceType_repo_def GetServiceType_sql_def d' find_row_snoc row_as_def
        service_type_key_def service_type_row_of_def)
  then show ?thesis
    using auth by (simp add: GetServiceType_def ok_iff authorize_service_types_ok d')
qed


text \<open>A customer is found by any spelling of its phone.\<close>

lemma authorize_customers_ok:
  "authorizeCustomers actor d = (Inr u, d') \<longleftrightarrow> actor \<noteq> uuid_Nil \<and> IsActiveCustomerEmployee d actor \<and> d' = d"
  by (auto simp: authorizeCustomers_def require_actor_def ok_iff)

lemma create_then_search_customer:
  assumes run: "CreateCustomer pa env actor input d = (Inr c, d')"
    and same: "normalizePhone_app phone = normalizePhone_app (cc_Phone input)"
  shows "SearchCustomers pa actor (Some phone) None d' = (Inr [c], d')"
proof -
  from run obtain name p email x where auth: "authorizeCustomers actor d = (Inr (), d)"
      and norm: "normalizeCustomerInput pa (cc_Name input) (cc_Phone input) (cc_Email input) = Inr (name, p, email)"
      and made: "NewCustomer (sv_newID env 0) name p email (sv_now env 0) = Inr x"
      and ins: "insert_row customer_table (customer_row_of x) d = Inr d'"
      and c: "c = customerFromRow (customer_row_of x)"
    by (auto simp: CreateCustomer_def CreateCustomer_repo_def ok_iff authorize_customers_ok)
  have d': "d' = d\<lparr>customers := customers d @ [customer_row_of x]\<rparr>"
    and fresh: "\<forall>r\<in>set (customers d). cu_phone r \<noteq> cu_phone (customer_row_of x)"
    using ins by (auto simp: insert_row_ok customer_table_def list_ex_iff same_key_def)
  have p: "normalizePhone_app phone = Inr p" using norm same by (simp add: normalizeCustomerInput_ok)
  have row: "cu_phone (customer_row_of x) = p" using made by (auto simp: NewCustomer_def customer_row_of_def split: if_splits)
  have "find_row (\<lambda>r. cu_phone r = p) (customers d) = None" using fresh row by (simp add: find_row_None)
  then have "GetCustomerByPhone_repo d' p = Inr c"
    by (simp add: GetCustomerByPhone_repo_def customerFromQuery_def d' find_row_snoc row row_as_def c)
  then show ?thesis
    using auth p by (simp add: SearchCustomers_def found_customer_def ok_iff authorize_customers_ok d')
qed

section \<open>Errors that are not recognised\<close>

text \<open>The unique index on the capabilities a service type requires has a name of 73 characters; the
  server reports it cut to 63, and the repository asks for the full one.\<close>

lemma duplicate_capability_raw:
  assumes "service_type_of_dealership dl i d" and "BayCapabilityExists d k"
    and "x = \<lparr>rc_id = j, rc_serviceTypeID = i, rc_bayCapabilityID = k, rc_capabilityCode = a, rc_capabilityName = b,
           rc_createdAt = t, rc_updatedAt = u\<rparr>"
    and "\<forall>r\<in>set (required_capabilities d). rcap_id r \<noteq> j"
    and "\<exists>r\<in>set (required_capabilities d). rcap_service_type_id r = i \<and> rcap_bay_capability_id r = k"
  shows "CreateServiceTypeRequiredBayCapability_repo dl x d =
    (Inl (unique_index ''service_type_required_bay_capabilities_service_type_bay_capability_unique''), d)"
proof -
  have "insert_row required_capability_table (required_capability_row_of x) d
      = Inl (unique_index ''service_type_required_bay_capabilities_service_type_bay_capability_unique'')"
    using assms(4,5)
    by (auto simp: insert_row_def required_capability_table_def checked_def list_ex_iff same_key_def
        required_capability_row_of_def assms(3))
  moreover have "\<not> errors_is (unique_index ''service_type_required_bay_capabilities_service_type_bay_capability_unique'') ErrNoRows"
    by code_simp
  moreover have "\<not> IsUniqueViolationError (Some (unique_index
      ''service_type_required_bay_capabilities_service_type_bay_capability_unique''))
      ''service_type_required_bay_capabilities_service_type_bay_capability_unique''"
    by code_simp
  ultimately show ?thesis
    using assms(1,2)
    by (simp add: CreateServiceTypeRequiredBayCapability_repo_def insert_link_def andThen_def exec_def assms(3))
qed


section \<open>Vehicles of other dealerships' customers\<close>

lemma foreign_vehicle_body:
  assumes "\<exists>r. GetCustomerByID d (v_customerID v) = Inr r" and "claimed (v_customerID v) other d" and "other \<noteq> dl"
  shows "create_vehicle_body now dl v d = (Inl (AppPeopleErr ErrVehicleCustomerForbidden), d)"
proof -
  have owner: "GetCustomerDealership d (v_customerID v) = Inr other"
    using assms(2) by (simp add: claimed_def CustomerBelongsToDealership_def)
  then have "list_ex (\<lambda>r. cd_customer_id r = v_customerID v) (customer_dealerships d)"
    by (auto simp: GetCustomerDealership_def ok_iff row_as_def list_ex_iff split: option.splits dest: find_row_Some)
  then show ?thesis
    using assms(1,3) owner
    by (auto simp: create_vehicle_body_def andThen_def on_err_def exec_def ClaimCustomerDealership_def)
qed

lemma foreign_vehicle_refused:
  assumes "backoff_contract retry" and "actor \<noteq> uuid_Nil" and "GetActiveVehicleManagerDealership d actor = Inr dl"
    and "NewVehicle (sv_newID env 0) customerID (cv_VIN input) (cv_RegistrationPlate input) (cv_Make input)
           (cv_Model input) (cv_ModelYear input) (sv_now env 0) = Inr v"
    and "\<exists>r. GetCustomerByID d customerID = Inr r" and "claimed customerID other d" and "other \<noteq> dl"
  shows "CreateVehicle (calm retry) clock env actor customerID input d =
    (Inl (NewForbiddenError ''vehicle_access_forbidden'' ''you are not allowed to manage vehicles for this customer''), d)"
proof -
  have v: "v_customerID v = customerID" using assms(4) by (auto simp: NewVehicle_def Let_def split: option.splits if_splits)
  have plain: "\<not> retryable_error (AppPeopleErr ErrVehicleCustomerForbidden)" by code_simp
  have "in_tx (calm retry) (\<lambda>i. create_vehicle_body (clock i) dl v) d = (Inl (AppPeopleErr ErrVehicleCustomerForbidden), d)"
    by (rule in_tx_calm(2) [OF assms(1) _ plain]) (rule foreign_vehicle_body, use assms(5-7) v in simp_all)
  moreover have "vehicleError (vehicleWriteError (AppPeopleErr ErrVehicleCustomerForbidden)) =
      NewForbiddenError ''vehicle_access_forbidden'' ''you are not allowed to manage vehicles for this customer''"
    by code_simp
  ultimately show ?thesis
    using assms(2-4)
    by (simp add: CreateVehicle_def CreateVehicle_repo_def authorizeVehicleManager_def require_actor_def andThen_def
        on_err_def)
qed

end
