(* ===== verification/Queries.thy ===== *)
theory Queries
  imports Catalog_Requests
begin

text \<open>
  The read side: app/technician\_schedule\_query.go, app/available\_service\_bays\_query.go,
  app/dealership\_appointments\_query.go and app/list\_dealerships\_query.go, with the statements they
  run (dbmodels/technician\_schedules.sql.go, service\_bays.sql.go, appointments.sql.go).

  Calendar days come from package time: a date is the number of days since 1970-01-01, a
  location its UTC offset in seconds at a Unix second. The table of locations
  (\<open>time.LoadLocation\<close>) is the parameter \<open>tzdata\<close>. \<open>sort.Slice\<close> is taken to be stable; the order of
  slots that agree in both ends is not specified by Go.
\<close>

section \<open>Package time\<close>

definition leap_year :: "int \<Rightarrow> bool" where
  "leap_year y \<longleftrightarrow> y mod 4 = 0 \<and> (y mod 100 \<noteq> 0 \<or> y mod 400 = 0)"

definition days_in :: "int \<Rightarrow> int \<Rightarrow> int" where
  "days_in m y = (if m = 2 then (if leap_year y then 29 else 28) else if m \<in> {4, 6, 9, 11} then 30 else 31)"

definition days_from_civil :: "int \<Rightarrow> int \<Rightarrow> int \<Rightarrow> int" where
  "days_from_civil y m d =
     (let y = (if m \<le> 2 then y - 1 else y); yoe = y mod 400;
          doy = (153 * (if m > 2 then m - 3 else m + 9) + 2) div 5 + d - 1 in
      y div 400 * 146097 + yoe * 365 + yoe div 4 - yoe div 100 + doy - 719468)"

definition civil_from_days :: "int \<Rightarrow> int \<times> int \<times> int" where
  "civil_from_days day =
     (let z = day + 719468; doe = z mod 146097;
          yoe = (doe - doe div 1460 + doe div 36524 - doe div 146096) div 365;
          doy = doe - (365 * yoe + yoe div 4 - yoe div 100);
          mp = (5 * doy + 2) div 153;
          m = (if mp < 10 then mp + 3 else mp - 9) in
      (yoe + z div 146097 * 400 + (if m \<le> 2 then 1 else 0), m, doy - (153 * mp + 2) div 5 + 1))"

definition digit :: "char \<Rightarrow> int" where
  "digit c = of_char c - 48"

text \<open>\<open>time.Parse("2006-01-02", s)\<close>, as a day number.\<close>

fun parse_date :: "string \<Rightarrow> int option" where
  "parse_date [y1, y2, y3, y4, s1, m1, m2, s2, d1, d2] =
     (if list_all is_digit [y1, y2, y3, y4, m1, m2, d1, d2] \<and> s1 = CHR ''-'' \<and> s2 = CHR ''-'' then
        (let y = digit y1 * 1000 + digit y2 * 100 + digit y3 * 10 + digit y4;
             m = digit m1 * 10 + digit m2; d = digit d1 * 10 + digit d2 in
         if 1 \<le> m \<and> m \<le> 12 \<and> 1 \<le> d \<and> d \<le> days_in m y then Some (days_from_civil y m d) else None)
      else None)"
| "parse_date _ = None"

definition two_digits :: "int \<Rightarrow> string" where
  "two_digits n = [char_of (48 + n div 10), char_of (48 + n mod 10)]"

definition format_date :: "int \<Rightarrow> string" where
  "format_date day =
     (case civil_from_days day of (y, m, d) \<Rightarrow>
        two_digits (y div 100) @ two_digits (y mod 100) @ ''-'' @ two_digits m @ ''-'' @ two_digits d)"

type_synonym tz_offset = "int \<Rightarrow> int"

text \<open>\<open>time.Date\<close> of a day and a clock in nanoseconds: the offset is looked up at the local time
  and then at the instant that offset gives.\<close>

definition time_Date :: "tz_offset \<Rightarrow> string \<Rightarrow> int \<Rightarrow> int \<Rightarrow> gotime" where
  "time_Date offs name day clock =
     (let unix = day * 86400 + clock div 1000000000;
          unix = unix - offs (unix - offs unix) in
      \<lparr>instant = unix * 1000000000 + clock mod 1000000000, loc = Loc_Named name\<rparr>)"

definition local_seconds :: "tz_offset \<Rightarrow> gotime \<Rightarrow> int" where
  "local_seconds offs t = instant t div 1000000000 + offs (instant t div 1000000000)"

definition local_day :: "tz_offset \<Rightarrow> gotime \<Rightarrow> int" where
  "local_day offs t = local_seconds offs t div 86400"

definition next_day :: "tz_offset \<Rightarrow> string \<Rightarrow> gotime \<Rightarrow> gotime" where
  "next_day offs name t =
     time_Date offs name (local_day offs t + 1)
       (local_seconds offs t mod 86400 * 1000000000 + instant t mod 1000000000)"

definition weekday :: "tz_offset \<Rightarrow> gotime \<Rightarrow> int" where
  "weekday offs t = (local_day offs t + 4) mod 7"

section \<open>Who may read\<close>

definition desk_employee :: "db \<Rightarrow> uuid \<Rightarrow> uuid \<Rightarrow> bool" where
  "desk_employee d authUserID dealershipID \<longleftrightarrow>
     list_ex (\<lambda>u. us_auth_user_id u = authUserID \<and> us_dealership_id u = dealershipID \<and> us_is_active u
       \<and> us_deleted_at u = None \<and> has_role d u [''admin'', ''staff'', ''dealer'']) (users d)"

definition CanReadTechnicianSchedules :: "db \<Rightarrow> uuid \<Rightarrow> uuid \<Rightarrow> bool" where
  "CanReadTechnicianSchedules d authUserID dealershipID = desk_employee d authUserID dealershipID"

definition CanReadAvailableServiceBays :: "db \<Rightarrow> uuid \<Rightarrow> uuid \<Rightarrow> bool" where
  "CanReadAvailableServiceBays d authUserID dealershipID = desk_employee d authUserID dealershipID"

definition CanReadDealershipAppointments :: "db \<Rightarrow> uuid \<Rightarrow> uuid \<Rightarrow> bool" where
  "CanReadDealershipAppointments d authUserID dealershipID = desk_employee d authUserID dealershipID"

definition dealership_timezone :: "go_error \<Rightarrow> db \<Rightarrow> uuid \<Rightarrow> (uuid \<times> string) result" where
  "dealership_timezone not_found d dealershipID =
     rbind (rerr (no_rows_as not_found) (row_as ErrNoRows
        (find_row (\<lambda>r. dl_id r = dealershipID \<and> dl_is_active r \<and> dl_deleted_at r = None) (dealerships d))))
       (\<lambda>r. Inr (dl_id r, dl_timezone r))"

definition GetActiveTechnicianScheduleDealership :: "db \<Rightarrow> uuid \<Rightarrow> (uuid \<times> string) result" where
  "GetActiveTechnicianScheduleDealership =
     dealership_timezone (AppAppointmentErr ErrTechnicianScheduleDealershipNotFound)"

definition GetActiveDealershipForAppointments :: "db \<Rightarrow> uuid \<Rightarrow> (uuid \<times> string) result" where
  "GetActiveDealershipForAppointments =
     dealership_timezone (AppAppointmentErr ErrDealershipAppointmentsDealershipNotFound)"

definition LoadLocation :: "(string \<Rightarrow> tz_offset option) \<Rightarrow> string \<Rightarrow> tz_offset result" where
  "LoadLocation tzdata name =
     (case tzdata name of None \<Rightarrow> Inl (ErrorString (''unknown time zone '' @ name)) | Some offs \<Rightarrow> Inr offs)"

definition valid_date :: "string \<Rightarrow> int result" where
  "valid_date s =
     (case parse_date s of
        None \<Rightarrow> Inl (NewInvalidInputError ''invalid_date'' ''date must use YYYY-MM-DD'')
      | Some day \<Rightarrow>
          if format_date day \<noteq> s then Inl (NewInvalidInputError ''invalid_date'' ''date must use YYYY-MM-DD'')
          else Inr day)"

definition dealership_missing :: go_error where
  "dealership_missing = NewNotFoundError ''dealership_not_found'' ''dealership was not found''"

section \<open>Free bays\<close>

record ListAvailableServiceBaysInput =
  lab_ActorUserID :: uuid
  lab_DealershipID :: uuid
  lab_ServiceTypeID :: uuid
  lab_StartsAt :: gotime
  lab_EndsAt :: gotime

definition IsActiveServiceTypeForAvailableServiceBays :: "db \<Rightarrow> uuid \<Rightarrow> uuid \<Rightarrow> bool" where
  "IsActiveServiceTypeForAvailableServiceBays d dealershipID serviceTypeID \<longleftrightarrow>
     list_ex (\<lambda>s. sty_id s = serviceTypeID \<and> sty_dealership_id s = dealershipID \<and> sty_is_active s
       \<and> sty_deleted_at s = None) (service_types d)"

definition bay_available :: "db \<Rightarrow> uuid \<Rightarrow> uuid \<Rightarrow> pgtime \<Rightarrow> pgtime \<Rightarrow> service_bay_row \<Rightarrow> bool" where
  "bay_available d dealershipID serviceTypeID startsAt endsAt b \<longleftrightarrow>
     bay_dealership_id b = dealershipID \<and> bay_is_active b \<and> bay_deleted_at b = None
     \<and> \<not> list_ex (\<lambda>a. ap_service_bay_id a = bay_id b \<and> ap_deleted_at a = None \<and> ap_active a
           \<and> ap_starts_at a < endsAt \<and> ap_ends_at a > startsAt) (appointments d)
     \<and> \<not> list_ex (\<lambda>required. rcap_service_type_id required = serviceTypeID
           \<and> \<not> list_ex (\<lambda>capability. bcap_service_bay_id capability = bay_id b
                 \<and> bcap_bay_capability_id capability = rcap_bay_capability_id required) (bay_capabilities d))
         (required_capabilities d)"

definition ListAvailableServiceBays_repo ::
  "(string \<Rightarrow> string) \<Rightarrow> db \<Rightarrow> uuid \<Rightarrow> uuid \<Rightarrow> gotime \<Rightarrow> gotime \<Rightarrow> ServiceBay list result" where
  "ListAvailableServiceBays_repo collate d dealershipID serviceTypeID startsAt endsAt =
     convert_rows serviceBayFromRow
       (order_by (\<lambda>b. collate (bay_code b)) (order_by bay_id
         (filter (bay_available d dealershipID serviceTypeID (to_pg startsAt) (to_pg endsAt)) (service_bays d))))"

definition AvailableServiceBays_List ::
  "(string \<Rightarrow> string) \<Rightarrow> ListAvailableServiceBaysInput \<Rightarrow> (db, go_error, ServiceBay list) action" where
  "AvailableServiceBays_List collate input =
     andThen (ensure (lab_ActorUserID input \<noteq> uuid_Nil)
       (NewUnauthorizedError ''authentication_required'' ''authentication is required'')) (\<lambda>_.
     andThen (ensure (lab_DealershipID input \<noteq> uuid_Nil)
       (NewInvalidInputError ''invalid_dealership_id'' ''dealership ID is required'')) (\<lambda>_.
     andThen (ensure (lab_ServiceTypeID input \<noteq> uuid_Nil)
       (NewInvalidInputError ''invalid_service_type_id'' ''service_type_id is required'')) (\<lambda>_.
     andThen (ensure (\<not> time_IsZero (lab_StartsAt input))
       (NewInvalidInputError ''invalid_starts_at'' ''starts_at is required'')) (\<lambda>_.
     andThen (ensure (\<not> time_IsZero (lab_EndsAt input))
       (NewInvalidInputError ''invalid_ends_at'' ''ends_at is required'')) (\<lambda>_.
     andThen (ensure (time_After (lab_EndsAt input) (lab_StartsAt input))
       (NewInvalidInputError ''invalid_time_range'' ''ends_at must be after starts_at'')) (\<lambda>_.
     andThen (query (\<lambda>d. CanReadAvailableServiceBays d (lab_ActorUserID input) (lab_DealershipID input))) (\<lambda>allowed.
     andThen (ensure allowed (NewForbiddenError ''available_service_bays_access_forbidden''
       ''you are not allowed to view available service bays for this dealership'')) (\<lambda>_.
     andThen (query (\<lambda>d. IsActiveDealership d (lab_DealershipID input))) (\<lambda>isActive.
     andThen (ensure isActive dealership_missing) (\<lambda>_.
     andThen (query (\<lambda>d. IsActiveServiceTypeForAvailableServiceBays d (lab_DealershipID input) (lab_ServiceTypeID input)))
       (\<lambda>serviceTypeIsActive.
     andThen (ensure serviceTypeIsActive
       (NewNotFoundError ''service_type_not_found'' ''active service type was not found'')) (\<lambda>_.
     query_res (\<lambda>d. ListAvailableServiceBays_repo collate d (lab_DealershipID input) (lab_ServiceTypeID input)
       (time_UTC (lab_StartsAt input)) (time_UTC (lab_EndsAt input)))))))))))))))"

section \<open>The day of a dealership\<close>

record DealershipAppointment =
  dap_AppointmentID :: uuid
  dap_ReferenceCode :: string
  dap_CustomerID :: uuid
  dap_VehicleID :: uuid
  dap_DealershipID :: uuid
  dap_ServiceTypeID :: uuid
  dap_TechnicianID :: uuid
  dap_ServiceBayID :: uuid
  dap_StartsAt :: gotime
  dap_EndsAt :: gotime
  dap_ActualEndsAt :: "gotime option"
  dap_PlannedDurationMinutes :: int
  dap_Status :: string
  dap_Notes :: "string option"
  dap_CreatedAt :: gotime
  dap_UpdatedAt :: gotime

definition dealership_appointment :: "appointment_row \<Rightarrow> DealershipAppointment" where
  "dealership_appointment a =
     \<lparr>dap_AppointmentID = ap_id a, dap_ReferenceCode = ap_reference_code a, dap_CustomerID = ap_customer_id a,
      dap_VehicleID = ap_vehicle_id a, dap_DealershipID = ap_dealership_id a,
      dap_ServiceTypeID = ap_service_type_id a, dap_TechnicianID = ap_technician_id a,
      dap_ServiceBayID = ap_service_bay_id a, dap_StartsAt = from_pg (ap_starts_at a),
      dap_EndsAt = from_pg (ap_ends_at a),
      dap_ActualEndsAt = map_option (\<lambda>t. time_UTC (from_pg t)) (ap_actual_ends_at a),
      dap_PlannedDurationMinutes = (case ap_planned_duration_minutes a of None \<Rightarrow> 0 | Some n \<Rightarrow> n),
      dap_Status = status_string (ap_status a), dap_Notes = ap_notes a,
      dap_CreatedAt = from_pg (ap_created_at a), dap_UpdatedAt = from_pg (ap_updated_at a)\<rparr>"

definition ListDealershipAppointments_repo :: "db \<Rightarrow> uuid \<Rightarrow> gotime \<Rightarrow> gotime \<Rightarrow> DealershipAppointment list" where
  "ListDealershipAppointments_repo d dealershipID periodStartsAt periodEndsAt =
     map dealership_appointment
       (order_by ap_starts_at (order_by ap_ends_at (order_by ap_id
         (filter (\<lambda>a. ap_dealership_id a = dealershipID \<and> ap_deleted_at a = None
             \<and> ap_starts_at a < to_pg periodEndsAt \<and> ap_ends_at a > to_pg periodStartsAt) (appointments d)))))"

record DealershipAppointmentsResult =
  dar_Date :: int
  dar_Timezone :: string
  dar_Appointments :: "DealershipAppointment list"

definition DealershipAppointments_List ::
  "(string \<Rightarrow> tz_offset option) \<Rightarrow> uuid \<Rightarrow> uuid \<Rightarrow> string \<Rightarrow> (db, go_error, DealershipAppointmentsResult) action" where
  "DealershipAppointments_List tzdata actorUserID dealershipID date =
     andThen (ensure (actorUserID \<noteq> uuid_Nil)
       (NewUnauthorizedError ''authentication_required'' ''authentication is required'')) (\<lambda>_.
     andThen (ensure (dealershipID \<noteq> uuid_Nil)
       (NewInvalidInputError ''invalid_dealership_id'' ''dealership ID is required'')) (\<lambda>_.
     andThen (lift_res (valid_date date)) (\<lambda>day.
     andThen (query (\<lambda>d. CanReadDealershipAppointments d actorUserID dealershipID)) (\<lambda>allowed.
     andThen (ensure allowed (NewForbiddenError ''dealership_appointments_access_forbidden''
       ''you are not allowed to view appointments for this dealership'')) (\<lambda>_.
     andThen (on_err (\<lambda>err. if errors_is err (AppAppointmentErr ErrDealershipAppointmentsDealershipNotFound)
         then dealership_missing else err)
       (query_res (\<lambda>d. GetActiveDealershipForAppointments d dealershipID))) (\<lambda>(dealershipID, timezone).
     andThen (lift_res (LoadLocation tzdata timezone)) (\<lambda>offs.
     let localStart = time_Date offs timezone day 0; localEnd = next_day offs timezone localStart in
     andThen (query (\<lambda>d. ListDealershipAppointments_repo d dealershipID (time_UTC localStart) (time_UTC localEnd)))
       (\<lambda>appointments.
     ret \<lparr>dar_Date = day, dar_Timezone = timezone, dar_Appointments = appointments\<rparr>))))))))"

section \<open>The list of dealerships\<close>

text \<open>\<open>ListDealershipsQuery.actorRole\<close> is \<open>Service.actorRole\<close> with another error, which \<open>List\<close> replaces.\<close>

definition ListDealerships_List ::
  "(string \<Rightarrow> bool) \<Rightarrow> (string \<Rightarrow> string) \<Rightarrow> service_env \<Rightarrow> uuid \<Rightarrow> (db, go_error, Dealership list) action" where
  "ListDealerships_List load_location collate env actorUserID =
     (let forbidden = NewForbiddenError ''dealership_list_forbidden'' ''you are not allowed to list dealerships'' in
     andThen (ensure (actorUserID \<noteq> uuid_Nil)
       (NewUnauthorizedError ''authentication_required'' ''authentication is required'')) (\<lambda>_.
     case actorRole env actorUserID of
       Inl err \<Rightarrow> throw forbidden
     | Inr role \<Rightarrow>
         if role = ''superadmin'' \<or> role = ''admin'' then query_res (ListDealerships_repo load_location collate)
         else andThen (query (\<lambda>d. CanListDealerships d actorUserID)) (\<lambda>allowed.
              andThen (ensure allowed forbidden) (\<lambda>_. query_res (ListDealerships_repo load_location collate)))))"

section \<open>Technician schedules\<close>

text \<open>Technicians of a dealership that are not deactivated, with their users.\<close>

definition scheduled_technicians :: "db \<Rightarrow> uuid \<Rightarrow> (technician_row \<times> user_row) list" where
  "scheduled_technicians d dealershipID =
     filter (\<lambda>(t, u). us_id u = te_user_id t \<and> us_dealership_id u = dealershipID \<and> te_is_active t
         \<and> te_deleted_at t = None \<and> us_deleted_at u = None)
       (List.product (technicians d) (users d))"

record TechnicianScheduleTechnician =
  tst_TechnicianID :: uuid
  tst_UserID :: uuid
  tst_Name :: string

definition ListActiveTechniciansForSchedule ::
  "db \<Rightarrow> uuid \<Rightarrow> uuid option \<Rightarrow> TechnicianScheduleTechnician list" where
  "ListActiveTechniciansForSchedule d dealershipID technicianID =
     map (\<lambda>(t, u). \<lparr>tst_TechnicianID = te_id t, tst_UserID = te_user_id t, tst_Name = us_name u\<rparr>)
       (order_by (\<lambda>(t, u). te_created_at t) (order_by (\<lambda>(t, u). te_id t)
         (filter (\<lambda>(t, u). technicianID = None \<or> technicianID = Some (te_id t))
           (scheduled_technicians d dealershipID))))"

text \<open>The rows of a table that belong to one of them: a join on the technician's id.\<close>

definition of_technicians :: "db \<Rightarrow> uuid \<Rightarrow> ('r \<Rightarrow> uuid) \<Rightarrow> 'r list \<Rightarrow> 'r list" where
  "of_technicians d dealershipID technician rows =
     map fst (filter (\<lambda>(r, (t, u)). te_id t = technician r)
       (List.product rows (scheduled_technicians d dealershipID)))"

definition ListTechnicianScheduleShifts ::
  "db \<Rightarrow> uuid \<Rightarrow> uuid option \<Rightarrow> int \<Rightarrow> (uuid \<times> int \<times> int) list" where
  "ListTechnicianScheduleShifts d dealershipID technicianID dayOfWeek =
     map (\<lambda>s. (shf_technician_id s, fromPGTime (shf_starts_at s), fromPGTime (shf_ends_at s)))
       (order_by shf_technician_id (order_by shf_starts_at (order_by shf_ends_at
         (filter (\<lambda>s. shf_deleted_at s = None \<and> shf_day_of_week s = to_int16 dayOfWeek
             \<and> (technicianID = None \<or> technicianID = Some (shf_technician_id s)))
           (of_technicians d dealershipID shf_technician_id (shifts d))))))"

record TechnicianScheduleAppointment =
  tsa_TechnicianID :: uuid
  tsa_AppointmentID :: uuid
  tsa_ReferenceCode :: string
  tsa_StartsAt :: gotime
  tsa_EndsAt :: gotime
  tsa_Status :: string
  tsa_ServiceTypeName :: string
  tsa_ServiceBayID :: uuid
  tsa_ServiceBayCode :: string

definition schedule_appointment :: "appointment_row \<times> service_type_row \<times> service_bay_row \<Rightarrow> TechnicianScheduleAppointment" where
  "schedule_appointment row =
     (case row of (a, s, b) \<Rightarrow>
        \<lparr>tsa_TechnicianID = ap_technician_id a, tsa_AppointmentID = ap_id a, tsa_ReferenceCode = ap_reference_code a,
         tsa_StartsAt = from_pg (ap_starts_at a), tsa_EndsAt = from_pg (ap_ends_at a),
         tsa_Status = status_string (ap_status a), tsa_ServiceTypeName = sty_name s, tsa_ServiceBayID = bay_id b,
         tsa_ServiceBayCode = bay_code b\<rparr>)"

definition ListTechnicianScheduleAppointments ::
  "db \<Rightarrow> uuid \<Rightarrow> uuid option \<Rightarrow> gotime \<Rightarrow> gotime \<Rightarrow> TechnicianScheduleAppointment list" where
  "ListTechnicianScheduleAppointments d dealershipID technicianID periodStartsAt periodEndsAt =
     map schedule_appointment
       (filter (\<lambda>(a, s, b). sty_id s = ap_service_type_id a \<and> bay_id b = ap_service_bay_id a)
         (List.product
           (order_by ap_technician_id (order_by ap_starts_at (order_by ap_ends_at (order_by ap_id
             (filter (\<lambda>a. ap_dealership_id a = dealershipID \<and> ap_deleted_at a = None \<and> ap_active a
                 \<and> ap_starts_at a < to_pg periodEndsAt \<and> ap_ends_at a > to_pg periodStartsAt
                 \<and> (technicianID = None \<or> technicianID = Some (ap_technician_id a)))
               (of_technicians d dealershipID ap_technician_id (appointments d)))))))
           (List.product (service_types d) (service_bays d))))"

definition ListTechnicianScheduleTimeOff ::
  "db \<Rightarrow> uuid \<Rightarrow> uuid option \<Rightarrow> gotime \<Rightarrow> gotime \<Rightarrow> (uuid \<times> gotime \<times> gotime) list" where
  "ListTechnicianScheduleTimeOff d dealershipID technicianID periodStartsAt periodEndsAt =
     map (\<lambda>t. (off_technician_id t, from_pg (off_starts_at t), from_pg (off_ends_at t)))
       (order_by off_technician_id (order_by off_starts_at (order_by off_ends_at (order_by off_id
         (filter (\<lambda>t. off_deleted_at t = None \<and> off_starts_at t < to_pg periodEndsAt
             \<and> off_ends_at t > to_pg periodStartsAt
             \<and> (technicianID = None \<or> technicianID = Some (off_technician_id t)))
           (of_technicians d dealershipID off_technician_id (time_offs d)))))))"

subsection \<open>The answer\<close>

record OccupiedSlot =
  os_Kind :: string
  os_StartsAt :: gotime
  os_EndsAt :: gotime
  os_AppointmentID :: "uuid option"
  os_ReferenceCode :: "string option"
  os_Status :: "string option"
  os_ServiceTypeName :: "string option"
  os_ServiceBayID :: "uuid option"
  os_ServiceBayCode :: "string option"

record ResultTechnician =
  rt_TechnicianID :: uuid
  rt_UserID :: uuid
  rt_Name :: string
  rt_Shifts :: "(gotime \<times> gotime) list"
  rt_OccupiedSlots :: "OccupiedSlot list"

record TechnicianScheduleResult =
  tr_ScheduleDealershipID :: uuid
  tr_Timezone :: string
  tr_Date :: int
  tr_PeriodStartsAt :: gotime
  tr_PeriodEndsAt :: gotime
  tr_Technicians :: "ResultTechnician list"

text \<open>Writing through \<open>byTechnicianID\<close>: the pointer of an id is the last element that has it.\<close>

fun at_technician :: "uuid \<Rightarrow> (ResultTechnician \<Rightarrow> ResultTechnician) \<Rightarrow> ResultTechnician list \<Rightarrow> ResultTechnician list" where
  "at_technician i f [] = []"
| "at_technician i f (t # ts) =
     (if rt_TechnicianID t = i \<and> \<not> list_ex (\<lambda>u. rt_TechnicianID u = i) ts then f t # ts
      else t # at_technician i f ts)"

definition localTimeOnDate :: "tz_offset \<Rightarrow> string \<Rightarrow> gotime \<Rightarrow> int \<Rightarrow> gotime" where
  "localTimeOnDate offs name date clock =
     (let hours = clock div Hour; minutes = clock mod Hour div Minute;
          seconds = clock mod Minute div 1000000000; nanoseconds = clock mod 1000000000 in
      time_Date offs name (local_day offs date)
        (hours * Hour + minutes * Minute + seconds * 1000000000 + nanoseconds))"

definition appendShifts ::
  "db \<Rightarrow> uuid \<Rightarrow> uuid option \<Rightarrow> tz_offset \<Rightarrow> string \<Rightarrow> gotime \<Rightarrow> ResultTechnician list \<Rightarrow> ResultTechnician list" where
  "appendShifts d dealershipID technicianID offs name date ts =
     (let dayOfWeek = (if weekday offs date = 0 then 7 else weekday offs date) in
      fold (\<lambda>(i, startsAt, endsAt). at_technician i (\<lambda>t. t\<lparr>rt_Shifts := rt_Shifts t @
              [(time_UTC (localTimeOnDate offs name date startsAt), time_UTC (localTimeOnDate offs name date endsAt))]\<rparr>))
        (ListTechnicianScheduleShifts d dealershipID technicianID dayOfWeek) ts)"

definition appointment_slot :: "TechnicianScheduleAppointment \<Rightarrow> OccupiedSlot" where
  "appointment_slot a =
     \<lparr>os_Kind = ''appointment'', os_StartsAt = time_UTC (tsa_StartsAt a), os_EndsAt = time_UTC (tsa_EndsAt a),
      os_AppointmentID = Some (tsa_AppointmentID a), os_ReferenceCode = Some (tsa_ReferenceCode a),
      os_Status = Some (tsa_Status a), os_ServiceTypeName = Some (tsa_ServiceTypeName a),
      os_ServiceBayID = Some (tsa_ServiceBayID a), os_ServiceBayCode = Some (tsa_ServiceBayCode a)\<rparr>"

definition time_off_slot :: "gotime \<Rightarrow> gotime \<Rightarrow> OccupiedSlot" where
  "time_off_slot startsAt endsAt =
     \<lparr>os_Kind = ''time_off'', os_StartsAt = time_UTC startsAt, os_EndsAt = time_UTC endsAt,
      os_AppointmentID = None, os_ReferenceCode = None, os_Status = None, os_ServiceTypeName = None,
      os_ServiceBayID = None, os_ServiceBayCode = None\<rparr>"

definition append_slot :: "OccupiedSlot \<Rightarrow> ResultTechnician \<Rightarrow> ResultTechnician" where
  "append_slot slot t = t\<lparr>rt_OccupiedSlots := rt_OccupiedSlots t @ [slot]\<rparr>"

definition appendAppointments ::
  "db \<Rightarrow> uuid \<Rightarrow> uuid option \<Rightarrow> gotime \<Rightarrow> gotime \<Rightarrow> ResultTechnician list \<Rightarrow> ResultTechnician list" where
  "appendAppointments d dealershipID technicianID periodStartsAt periodEndsAt ts =
     fold (\<lambda>a. at_technician (tsa_TechnicianID a) (append_slot (appointment_slot a)))
       (ListTechnicianScheduleAppointments d dealershipID technicianID periodStartsAt periodEndsAt) ts"

definition appendTimeOff ::
  "db \<Rightarrow> uuid \<Rightarrow> uuid option \<Rightarrow> gotime \<Rightarrow> gotime \<Rightarrow> ResultTechnician list \<Rightarrow> ResultTechnician list" where
  "appendTimeOff d dealershipID technicianID periodStartsAt periodEndsAt ts =
     fold (\<lambda>(i, startsAt, endsAt). at_technician i (append_slot (time_off_slot startsAt endsAt)))
       (ListTechnicianScheduleTimeOff d dealershipID technicianID periodStartsAt periodEndsAt) ts"

definition sort_slots :: "ResultTechnician \<Rightarrow> ResultTechnician" where
  "sort_slots t =
     t\<lparr>rt_OccupiedSlots := order_by (\<lambda>s. instant (os_StartsAt s))
        (order_by (\<lambda>s. instant (os_EndsAt s)) (rt_OccupiedSlots t))\<rparr>"

record technicianScheduleIncludes =
  inc_appointments :: bool
  inc_timeOff :: bool
  inc_shifts :: bool

fun include_values :: "string list \<Rightarrow> technicianScheduleIncludes \<Rightarrow> technicianScheduleIncludes result" where
  "include_values [] included = Inr included"
| "include_values (value # values) included =
     (if value = ''appointments'' then include_values values (included\<lparr>inc_appointments := True\<rparr>)
      else if value = ''time_off'' then include_values values (included\<lparr>inc_timeOff := True\<rparr>)
      else if value = ''shifts'' then include_values values (included\<lparr>inc_shifts := True\<rparr>)
      else Inl (NewInvalidInputError ''invalid_include'' ''include contains an unsupported value''))"

definition parseTechnicianScheduleIncludes :: "string list \<Rightarrow> technicianScheduleIncludes result" where
  "parseTechnicianScheduleIncludes values =
     (if values = [] then Inr \<lparr>inc_appointments = True, inc_timeOff = True, inc_shifts = True\<rparr>
      else include_values values \<lparr>inc_appointments = False, inc_timeOff = False, inc_shifts = False\<rparr>)"

definition result_technician :: "TechnicianScheduleTechnician \<Rightarrow> ResultTechnician" where
  "result_technician t =
     \<lparr>rt_TechnicianID = tst_TechnicianID t, rt_UserID = tst_UserID t, rt_Name = tst_Name t, rt_Shifts = [],
      rt_OccupiedSlots = []\<rparr>"

definition filled_technicians ::
  "db \<Rightarrow> technicianScheduleIncludes \<Rightarrow> uuid \<Rightarrow> uuid option \<Rightarrow> tz_offset \<Rightarrow> string \<Rightarrow> gotime \<Rightarrow> gotime \<Rightarrow> gotime
     \<Rightarrow> ResultTechnician list \<Rightarrow> ResultTechnician list" where
  "filled_technicians d included dealershipID technicianID offs timezone localStart periodStartsAt periodEndsAt ts =
     (let ts = (if inc_shifts included then appendShifts d dealershipID technicianID offs timezone localStart ts else ts);
          ts = (if inc_appointments included
                then appendAppointments d dealershipID technicianID periodStartsAt periodEndsAt ts else ts);
          ts = (if inc_timeOff included
                then appendTimeOff d dealershipID technicianID periodStartsAt periodEndsAt ts else ts) in
      map sort_slots ts)"

record ListTechnicianSchedulesInput =
  lts_ActorUserID :: uuid
  lts_DealershipID :: uuid
  lts_Date :: string
  lts_TechnicianID :: "uuid option"
  lts_Include :: "string list"

definition TechnicianSchedule_List ::
  "(string \<Rightarrow> tz_offset option) \<Rightarrow> ListTechnicianSchedulesInput \<Rightarrow> (db, go_error, TechnicianScheduleResult) action" where
  "TechnicianSchedule_List tzdata input =
     andThen (ensure (lts_DealershipID input \<noteq> uuid_Nil)
       (NewInvalidInputError ''invalid_dealership_id'' ''dealership ID is required'')) (\<lambda>_.
     andThen (ensure (lts_ActorUserID input \<noteq> uuid_Nil)
       (NewUnauthorizedError ''authentication_required'' ''authentication is required'')) (\<lambda>_.
     andThen (lift_res (valid_date (lts_Date input))) (\<lambda>date.
     andThen (lift_res (parseTechnicianScheduleIncludes (lts_Include input))) (\<lambda>included.
     andThen (query (\<lambda>d. CanReadTechnicianSchedules d (lts_ActorUserID input) (lts_DealershipID input))) (\<lambda>allowed.
     andThen (ensure allowed (NewForbiddenError ''technician_schedule_access_forbidden''
       ''you are not allowed to view technician schedules for this dealership'')) (\<lambda>_.
     andThen (on_err (\<lambda>err. if errors_is err (AppAppointmentErr ErrTechnicianScheduleDealershipNotFound)
         then dealership_missing else err)
       (query_res (\<lambda>d. GetActiveTechnicianScheduleDealership d (lts_DealershipID input)))) (\<lambda>(dealershipID, timezone).
     andThen (lift_res (LoadLocation tzdata timezone)) (\<lambda>offs.
     let localStart = time_Date offs timezone date 0; localEnd = next_day offs timezone localStart;
         periodStartsAt = time_UTC localStart; periodEndsAt = time_UTC localEnd in
     andThen (query (\<lambda>d. ListActiveTechniciansForSchedule d dealershipID (lts_TechnicianID input))) (\<lambda>technicians.
     andThen (ensure (\<not> (lts_TechnicianID input \<noteq> None \<and> technicians = []))
       (NewNotFoundError ''technician_not_found'' ''technician was not found'')) (\<lambda>_.
     query (\<lambda>d. \<lparr>tr_ScheduleDealershipID = dealershipID, tr_Timezone = timezone, tr_Date = date,
       tr_PeriodStartsAt = periodStartsAt, tr_PeriodEndsAt = periodEndsAt,
       tr_Technicians = filled_technicians d included dealershipID (lts_TechnicianID input) offs timezone localStart
         periodStartsAt periodEndsAt (map result_technician technicians)\<rparr>)))))))))))"

section \<open>What the answers say\<close>

text \<open>All four read and write nothing.\<close>

lemma queries_readonly:
  "readonly (AvailableServiceBays_List collate input)" "readonly (DealershipAppointments_List tzdata a dl date)"
  "readonly (ListDealerships_List ll collate env a)" "readonly (TechnicianSchedule_List tzdata input')"
  unfolding AvailableServiceBays_List_def DealershipAppointments_List_def ListDealerships_List_def
    TechnicianSchedule_List_def Let_def
  by (auto intro!: readonly_andThen readonly_on_err split: sum.split prod.split)

subsection \<open>Free bays\<close>

lemma convert_rows_map: "convert_rows f rows = Inr xs \<Longrightarrow> map f rows = map Inr xs"
  by (induction rows arbitrary: xs) (auto simp: ok_iff)

lemma listed_bays:
  assumes "ListAvailableServiceBays_repo collate d dl st s e = Inr bays"
  shows "i \<in> sb_id ` set bays \<longleftrightarrow> (\<exists>b\<in>set (service_bays d). bay_id b = i \<and> bay_available d dl st (to_pg s) (to_pg e) b)"
proof -
  define rows where "rows = order_by (\<lambda>b. collate (bay_code b)) (order_by bay_id
      (filter (bay_available d dl st (to_pg s) (to_pg e)) (service_bays d)))"
  have conv: "map serviceBayFromRow rows = map Inr bays"
    using assms convert_rows_map unfolding ListAvailableServiceBays_repo_def rows_def by blast
  have "serviceBayFromRow b = Inr x \<Longrightarrow> sb_id x = bay_id b" for b x
    by (auto simp: serviceBayFromRow_def RehydrateServiceBay_def NewServiceBay_def split: sum.splits if_splits)
  then have "map sb_id bays = map bay_id rows"
    using conv by (intro nth_equalityI) (auto dest: map_eq_imp_length_eq, metis length_map nth_map map_eq_imp_length_eq)
  then have "sb_id ` set bays = bay_id ` set rows" by (metis set_map)
  then show ?thesis by (auto simp: rows_def)
qed

lemma bay_available_iff:
  assumes "\<forall>a\<in>set (appointments d). ap_deleted_at a = None"
  shows "(\<exists>b\<in>set (service_bays d). bay_id b = i \<and> bay_available d dl st s e b) \<longleftrightarrow>
    IsCompatibleServiceBay d i dl st
    \<and> (\<forall>a\<in>set (appointments d). ap_active a \<and> ap_service_bay_id a = i \<longrightarrow>
        \<not> overlaps s e (ap_starts_at a) (ap_ends_at a))"
  using assms by (auto simp: bay_available_def IsCompatibleServiceBay_def list_ex_iff overlaps_def)

subsection \<open>Occupied slots\<close>

text \<open>The slots shown for a technician.\<close>

definition shown :: "uuid \<Rightarrow> ResultTechnician list \<Rightarrow> OccupiedSlot set" where
  "shown i ts = (\<Union>t\<in>{t \<in> set ts. rt_TechnicianID t = i}. set (rt_OccupiedSlots t))"

lemma shown_Cons: "shown i (t # ts) = (if rt_TechnicianID t = i then set (rt_OccupiedSlots t) else {}) \<union> shown i ts"
  by (auto simp: shown_def)

lemma at_technician_ids [simp]:
  "(\<And>t. rt_TechnicianID (f t) = rt_TechnicianID t) \<Longrightarrow>
   map rt_TechnicianID (at_technician i f ts) = map rt_TechnicianID ts"
  by (induction ts) auto

lemma append_slot_fields [simp]:
  "rt_TechnicianID (append_slot s t) = rt_TechnicianID t"
  "set (rt_OccupiedSlots (append_slot s t)) = insert s (set (rt_OccupiedSlots t))"
  by (simp_all add: append_slot_def)

lemma has_id: "list_ex (\<lambda>u. rt_TechnicianID u = j) ts \<longleftrightarrow> j \<in> rt_TechnicianID ` set ts"
  by (induction ts) auto

lemma shown_append_slot:
  "shown i (at_technician j (append_slot s) ts) =
     shown i ts \<union> (if i = j \<and> j \<in> rt_TechnicianID ` set ts then {s} else {})"
proof (induction ts)
  case (Cons t ts)
  show ?case
  proof (cases "rt_TechnicianID t = j \<and> j \<notin> rt_TechnicianID ` set ts")
    case True
    then show ?thesis by (simp add: shown_Cons has_id)
  next
    case False
    then have "at_technician j (append_slot s) (t # ts) = t # at_technician j (append_slot s) ts"
      "j \<in> rt_TechnicianID ` set (t # ts) \<longleftrightarrow> j \<in> rt_TechnicianID ` set ts"
      by (auto simp: has_id)
    then show ?thesis by (simp only: shown_Cons Cons.IH Un_assoc)
  qed
qed simp

lemma at_technician_id_set [simp]:
  "rt_TechnicianID ` set (at_technician j (append_slot s) ts) = rt_TechnicianID ` set ts"
  using at_technician_ids [of "append_slot s" j ts] by (metis append_slot_fields(1) list.set_map)

lemma shown_fold:
  "shown i (fold (\<lambda>x. at_technician (k x) (append_slot (sl x))) xs ts) =
     shown i ts \<union> (if i \<in> rt_TechnicianID ` set ts then sl ` {x \<in> set xs. k x = i} else {})"
proof (induction xs arbitrary: ts)
  case (Cons x xs)
  have "sl ` {y \<in> set (x # xs). k y = i} = (if i = k x then {sl x} else {}) \<union> sl ` {y \<in> set xs. k y = i}"
    by auto
  then show ?case by (simp add: Cons.IH shown_append_slot)
qed simp

lemma fold_ids:
  "rt_TechnicianID ` set (fold (\<lambda>x. at_technician (k x) (append_slot (sl x))) xs ts) = rt_TechnicianID ` set ts"
  by (induction xs arbitrary: ts) simp_all

lemma at_technician_shifts_shown:
  "shown i (at_technician j (\<lambda>t. t\<lparr>rt_Shifts := h t\<rparr>) ts) = shown i ts"
  by (induction ts) (auto simp: shown_Cons)

lemma at_technician_shifts_ids [simp]:
  "rt_TechnicianID ` set (at_technician j (\<lambda>t. t\<lparr>rt_Shifts := h t\<rparr>) ts) = rt_TechnicianID ` set ts"
  by (induction ts) auto

lemma appendShifts_shown:
  "rt_TechnicianID ` set (appendShifts d dl ti offs name date ts) = rt_TechnicianID ` set ts"
  "shown i (appendShifts d dl ti offs name date ts) = shown i ts"
proof -
  define g where "g = (\<lambda>(j, s, e). at_technician j (\<lambda>t. t\<lparr>rt_Shifts := rt_Shifts t @
      [(time_UTC (localTimeOnDate offs name date s), time_UTC (localTimeOnDate offs name date e))]\<rparr>))"
  have "rt_TechnicianID ` set (fold g xs ts) = rt_TechnicianID ` set ts \<and> shown i (fold g xs ts) = shown i ts" for xs
    by (induction xs arbitrary: ts) (simp_all add: g_def at_technician_shifts_shown split: prod.split)
  then show "rt_TechnicianID ` set (appendShifts d dl ti offs name date ts) = rt_TechnicianID ` set ts"
    "shown i (appendShifts d dl ti offs name date ts) = shown i ts"
    by (simp_all add: appendShifts_def Let_def g_def)
qed

lemma appendAppointments_shown:
  "rt_TechnicianID ` set (appendAppointments d dl ti ps pe ts) = rt_TechnicianID ` set ts"
  "shown i (appendAppointments d dl ti ps pe ts) = shown i ts \<union>
     (if i \<in> rt_TechnicianID ` set ts
      then appointment_slot ` {x \<in> set (ListTechnicianScheduleAppointments d dl ti ps pe). tsa_TechnicianID x = i} else {})"
  unfolding appendAppointments_def by (rule fold_ids, rule shown_fold)

lemma appendTimeOff_fold:
  "appendTimeOff d dl ti ps pe ts =
     fold (\<lambda>x. at_technician (fst x) (append_slot (time_off_slot (fst (snd x)) (snd (snd x)))))
       (ListTechnicianScheduleTimeOff d dl ti ps pe) ts"
  unfolding appendTimeOff_def by (simp add: case_prod_unfold)

lemma appendTimeOff_shown:
  "rt_TechnicianID ` set (appendTimeOff d dl ti ps pe ts) = rt_TechnicianID ` set ts"
  "shown i (appendTimeOff d dl ti ps pe ts) = shown i ts \<union>
     (if i \<in> rt_TechnicianID ` set ts
      then (\<lambda>x. time_off_slot (fst (snd x)) (snd (snd x))) ` {x \<in> set (ListTechnicianScheduleTimeOff d dl ti ps pe). fst x = i}
      else {})"
  unfolding appendTimeOff_fold by (rule fold_ids, rule shown_fold)

lemma sort_slots_shown:
  "rt_TechnicianID ` set (map sort_slots ts) = rt_TechnicianID ` set ts" "shown i (map sort_slots ts) = shown i ts"
  by (auto simp: shown_def sort_slots_def image_image)

lemma result_technician_shown: "shown i (map result_technician ts) = {}"
  by (auto simp: shown_def result_technician_def)

lemma slot_appointments [simp]:
  "os_AppointmentID (appointment_slot a) = Some (tsa_AppointmentID a)" "os_AppointmentID (time_off_slot s e) = None"
  by (simp_all add: appointment_slot_def time_off_slot_def)

lemmas filled_shown = sort_slots_shown appendTimeOff_shown appendAppointments_shown appendShifts_shown
  result_technician_shown

lemma filled_technicians_ids:
  "rt_TechnicianID ` set (filled_technicians d included dl ti offs tz ls ps pe ts) = rt_TechnicianID ` set ts"
  by (simp add: filled_technicians_def Let_def filled_shown del: set_map)

text \<open>The appointments among them: those the listing returned.\<close>

lemma filled_technicians_appointments:
  assumes "inc_appointments included"
  shows "(\<exists>s\<in>shown i (filled_technicians d included dl ti offs tz ls ps pe (map result_technician ts)). os_AppointmentID s = Some k)
    \<longleftrightarrow> i \<in> tst_TechnicianID ` set ts \<and>
      (\<exists>x\<in>set (ListTechnicianScheduleAppointments d dl ti ps pe). tsa_TechnicianID x = i \<and> tsa_AppointmentID x = k)"
proof -
  have "rt_TechnicianID ` set (map result_technician ts) = tst_TechnicianID ` set ts"
    by (force simp: result_technician_def)
  then show ?thesis using assms
    by (simp add: filled_technicians_def Let_def filled_shown bex_Un conj_commute del: set_map) blast
qed

lemma of_technicians_set:
  "r \<in> set (of_technicians d dl key rows) \<longleftrightarrow>
     r \<in> set rows \<and> (\<exists>(t, u)\<in>set (scheduled_technicians d dl). te_id t = key r)"
  by (force simp: of_technicians_def)

text \<open>The inner joins drop nothing: every appointment has a service type and a bay.\<close>

lemma schedule_appointments_listed:
  assumes "references_ok d"
  shows "(\<exists>x\<in>set (ListTechnicianScheduleAppointments d dl ti ps pe). tsa_TechnicianID x = i \<and> tsa_AppointmentID x = k)
    \<longleftrightarrow> (\<exists>a\<in>set (appointments d). ap_id a = k \<and> ap_technician_id a = i \<and> ap_dealership_id a = dl \<and> ap_active a
          \<and> overlaps (ap_starts_at a) (ap_ends_at a) (to_pg ps) (to_pg pe) \<and> (ti = None \<or> ti = Some i)
          \<and> (\<exists>(t, u)\<in>set (scheduled_technicians d dl). te_id t = i))"
    (is "_ \<longleftrightarrow> ?R")
proof -
  have refs: "ap_deleted_at a = None \<and> (\<exists>s\<in>set (service_types d). sty_id s = ap_service_type_id a)
      \<and> (\<exists>b\<in>set (service_bays d). bay_id b = ap_service_bay_id a)" if "a \<in> set (appointments d)" for a
    using assms that
    by (auto simp: reference_defs list_all_iff list_ex_iff service_type_key_def service_bay_key_def)
  have "(\<exists>x\<in>set (ListTechnicianScheduleAppointments d dl ti ps pe). tsa_TechnicianID x = i \<and> tsa_AppointmentID x = k)
    \<longleftrightarrow> (\<exists>a\<in>set (of_technicians d dl ap_technician_id (appointments d)). ap_id a = k \<and> ap_technician_id a = i
          \<and> ap_dealership_id a = dl \<and> ap_deleted_at a = None \<and> ap_active a
          \<and> ap_starts_at a < to_pg pe \<and> ap_ends_at a > to_pg ps \<and> (ti = None \<or> ti = Some (ap_technician_id a))
          \<and> (\<exists>s\<in>set (service_types d). sty_id s = ap_service_type_id a)
          \<and> (\<exists>b\<in>set (service_bays d). bay_id b = ap_service_bay_id a))"
    unfolding ListTechnicianScheduleAppointments_def schedule_appointment_def by force
  also have "\<dots> \<longleftrightarrow> ?R" unfolding Bex_def of_technicians_set overlaps_def using refs by blast
  finally show ?thesis .
qed

lemma include_values_appointments:
  "include_values vs inc = Inr inc' \<Longrightarrow> inc_appointments inc' \<longleftrightarrow> inc_appointments inc \<or> ''appointments'' \<in> set vs"
  by (induction vs inc rule: include_values.induct) (auto split: if_splits)

lemma includes_appointments:
  "parseTechnicianScheduleIncludes vs = Inr inc \<Longrightarrow> inc_appointments inc \<longleftrightarrow> vs = [] \<or> ''appointments'' \<in> set vs"
  using include_values_appointments [of vs] by (auto simp: parseTechnicianScheduleIncludes_def split: if_splits)

lemma schedule_dealership_same:
  "GetActiveTechnicianScheduleDealership d dl = Inr (i, tz) \<Longrightarrow> i = dl"
  by (auto simp: GetActiveTechnicianScheduleDealership_def dealership_timezone_def ok_iff row_as_def
      split: option.splits dest!: find_row_Some)

lemma listed_technicians:
  "i \<in> tst_TechnicianID ` set (ListActiveTechniciansForSchedule d dl ti) \<longleftrightarrow>
     (ti = None \<or> ti = Some i) \<and> (\<exists>(t, u)\<in>set (scheduled_technicians d dl). te_id t = i)"
  by (force simp: ListActiveTechniciansForSchedule_def)

text \<open>What a successful answer is made of.\<close>

lemma TechnicianSchedule_List_ok:
  assumes "TechnicianSchedule_List tzdata input d = (Inr r, d')"
  obtains included offs localStart where
    "parseTechnicianScheduleIncludes (lts_Include input) = Inr included"
    "tr_Technicians r = filled_technicians d included (lts_DealershipID input) (lts_TechnicianID input) offs
       (tr_Timezone r) localStart (tr_PeriodStartsAt r) (tr_PeriodEndsAt r)
       (map result_technician (ListActiveTechniciansForSchedule d (lts_DealershipID input) (lts_TechnicianID input)))"
  using assms unfolding TechnicianSchedule_List_def Let_def ok_iff
  by (auto simp: ok_iff lift_res_def query_def query_res_def split: sum.splits prod.splits
      dest!: schedule_dealership_same)

end
