(* ===== verification/Catalog_Scenario.thy ===== *)
theory Catalog_Scenario
  imports Scenario Catalog_Facts Queries
begin

text \<open>
  Catalog requests in the dealership of theory Scenario, run by the model's own definitions: a
  booking, an attempt to delete the service type it refers to, a new service type, and an
  attempt to deactivate the technician.
\<close>

definition catalog_desk :: catalog_deps where
  "catalog_desk =
     \<lparr>cat_load_location = (\<lambda>z. z = ''UTC''), cat_parse_uuid = (\<lambda>s. None), cat_parse_address = Some,
      cat_world = calm plain_retry, cat_clock = (\<lambda>i. 0), cat_ids = (\<lambda>i. 500)\<rparr>"

definition type_input :: "string \<Rightarrow> int \<Rightarrow> CreateServiceTypeInput" where
  "type_input name n =
     \<lparr>cst_Name = name, cst_DefaultDurationMinutes = n, cst_MinDurationMinutes = n, cst_MaxDurationMinutes = n,
      cst_IsActive = True\<rparr>"

definition day_requests :: "request list" where
  "day_requests =
     [ToAppointments (hd desk_calls),
      ToCatalog catalog_desk (desk_env 300 10) 30 (CatDeleteServiceType 1 6),
      ToCatalog catalog_desk (desk_env 301 11) 30 (CatCreateServiceType 1 (type_input ''Tyres'' 45)),
      ToWorkforce Some (\<lambda>u. ''UTC'') no_faults (desk_env 302 12) 30 (WfDeactivateTechnician 10)]"

lemma catalog_desk_within: "world_within I (cat_world catalog_desk)"
  by (simp add: world_within_def catalog_desk_def calm_sound plain_retry_contract) (simp add: calm_def)

lemma day_requests_ok: "list_all (surroundings_keep I) day_requests"
  by (simp add: day_requests_def desk_calls_def desk_call_within catalog_desk_within)

lemma shop_system_inv: "system_inv shop"
proof -
  have "catalog_indexes shop" by code_simp
  moreover have "references_ok shop" by code_simp
  ultimately show ?thesis using shop_inv by (simp add: system_inv_def)
qed

lemma day_requests_appointments:
  "appointments (fold (request_step utc_zone) day_requests shop) \<noteq> []
   \<and> ap_deleted_at (hd (appointments (fold (request_step utc_zone) day_requests shop))) = None"
  by code_simp

definition golf_input :: CreateVehicleInput where
  "golf_input = \<lparr>cv_VIN = Some ''VIN2'', cv_RegistrationPlate = None, cv_Make = ''VW'', cv_Model = ''Golf'',
     cv_ModelYear = None\<rparr>"

text \<open>A capability the service type already requires.\<close>

definition shop_lift :: db where
  "shop_lift = shop\<lparr>
     capabilities := [\<lparr>cap_id = 60, cap_code = ''LIFT'', cap_name = ''Lift''\<rparr>],
     required_capabilities := [\<lparr>rcap_id = 61, rcap_service_type_id = 6, rcap_bay_capability_id = 60,
        rcap_created_at = 0, rcap_updated_at = 0\<rparr>]\<rparr>"

text \<open>The day view: after the first request of the day.\<close>

definition shop_day :: db where
  "shop_day = fold (request_step utc_zone) [ToAppointments (hd desk_calls)] shop"

lemma shop_day_inv: "system_inv shop_day"
  unfolding shop_day_def
  by (rule program.requests_keep) (simp_all add: desk_calls_def desk_call_within shop_system_inv)

definition monday_schedule :: ListTechnicianSchedulesInput where
  "monday_schedule = \<lparr>lts_ActorUserID = 30, lts_DealershipID = 1, lts_Date = ''1970-01-05'', lts_TechnicianID = None,
     lts_Include = []\<rparr>"

end
