(* ===== verification/Auth_Domain.thy ===== *)
theory Auth_Domain
  imports Errors
begin

text \<open>
  The auth user (auth/domain/user.go): its constructor, its restoration from storage, its password
  history, the version of its refresh tokens, and its lifecycle status.

  \<open>parse_address\<close> is the address \<open>mail.ParseAddress\<close> finds. A method with a pointer receiver returns
  the changed user. \<open>user_wf\<close> is the invariant of the type: every user the package can produce has it
  (\<open>*_wf\<close>).
\<close>

definition StatusActive :: string where "StatusActive = ''active''"
definition StatusDisabled :: string where "StatusDisabled = ''disabled''"
definition StatusDeleted :: string where "StatusDeleted = ''deleted''"

definition RoleSuperadmin :: string where "RoleSuperadmin = ''superadmin''"
definition RoleAdmin :: string where "RoleAdmin = ''admin''"
definition RoleUser :: string where "RoleUser = ''user''"

definition validStatus :: "string \<Rightarrow> bool" where
  "validStatus value \<longleftrightarrow> value = StatusActive \<or> value = StatusDisabled \<or> value = StatusDeleted"

definition ValidRole :: "string \<Rightarrow> bool" where
  "ValidRole value \<longleftrightarrow> value = RoleSuperadmin \<or> value = RoleAdmin \<or> value = RoleUser"

record User =
  usr_id :: uuid
  usr_email :: string
  usr_fullName :: string
  usr_passwordHash :: string
  usr_previousPasswordHashes :: "string \<times> string"
  usr_tokenVersion :: int
  usr_status :: string
  usr_createdAt :: gotime
  usr_updatedAt :: gotime

definition auth_normalizeEmail :: "(string \<Rightarrow> string option) \<Rightarrow> string \<Rightarrow> string result" where
  "auth_normalizeEmail parse_address value =
     (let value = ToLower (TrimSpace value) in
      if parse_address value \<noteq> Some value then Inl (AuthErr ErrInvalidEmail) else Inr value)"

definition NewUser ::
  "(string \<Rightarrow> string option) \<Rightarrow> uuid \<Rightarrow> string \<Rightarrow> string \<Rightarrow> string \<Rightarrow> gotime \<Rightarrow> User result" where
  "NewUser parse_address i email fullName passwordHash now =
     rbind (rguard (i \<noteq> uuid_Nil) (ErrorString ''user ID is required'')) (\<lambda>_.
     rbind (auth_normalizeEmail parse_address email) (\<lambda>email.
     rbind (rguard (TrimSpace passwordHash \<noteq> []) (AuthErr ErrInvalidPassword)) (\<lambda>_.
     Inr \<lparr>usr_id = i, usr_email = email, usr_fullName = TrimSpace fullName, usr_passwordHash = passwordHash,
          usr_previousPasswordHashes = ([], []), usr_tokenVersion = 1, usr_status = StatusActive,
          usr_createdAt = time_UTC now, usr_updatedAt = time_UTC now\<rparr>)))"

definition RestoreUser ::
  "(string \<Rightarrow> string option) \<Rightarrow> uuid \<Rightarrow> string \<Rightarrow> string \<Rightarrow> string \<Rightarrow> string \<times> string \<Rightarrow> int \<Rightarrow> string
     \<Rightarrow> gotime \<Rightarrow> gotime \<Rightarrow> User result" where
  "RestoreUser parse_address i email fullName passwordHash previous tokenVersion status createdAt updatedAt =
     rbind (if email = [] then
         rbind (rguard (i \<noteq> uuid_Nil) (ErrorString ''user ID is required'')) (\<lambda>_.
         rbind (rguard (TrimSpace passwordHash \<noteq> []) (AuthErr ErrInvalidPassword)) (\<lambda>_.
         Inr \<lparr>usr_id = i, usr_email = [], usr_fullName = TrimSpace fullName, usr_passwordHash = passwordHash,
              usr_previousPasswordHashes = ([], []), usr_tokenVersion = 1, usr_status = StatusActive,
              usr_createdAt = time_UTC createdAt, usr_updatedAt = time_zero\<rparr>))
       else NewUser parse_address i email fullName passwordHash createdAt) (\<lambda>u.
     rbind (rguard (tokenVersion \<ge> 1) (ErrorString ''token version must be positive'')) (\<lambda>_.
     rbind (rguard (validStatus status) (AuthErr ErrInvalidUserStatus)) (\<lambda>_.
     Inr (u\<lparr>usr_previousPasswordHashes := previous, usr_tokenVersion := tokenVersion, usr_status := status,
            usr_updatedAt := time_UTC updatedAt\<rparr>))))"

definition next_version :: "User \<Rightarrow> int" where
  "next_version u = to_int64 (usr_tokenVersion u + 1)"

definition User_ChangePassword ::
  "string \<Rightarrow> (string \<Rightarrow> bool) \<Rightarrow> bool \<Rightarrow> gotime \<Rightarrow> User \<Rightarrow> User result" where
  "User_ChangePassword newHash matches signOutAll now u =
     rbind (rguard (TrimSpace newHash \<noteq> []) (AuthErr ErrInvalidPassword)) (\<lambda>_.
     case usr_previousPasswordHashes u of (h0, h1) \<Rightarrow>
     rbind (rguard (\<not> (matches (usr_passwordHash u) \<or> (h0 \<noteq> [] \<and> matches h0) \<or> (h1 \<noteq> [] \<and> matches h1)))
       (AuthErr ErrPasswordReused)) (\<lambda>_.
     Inr (u\<lparr>usr_previousPasswordHashes := (usr_passwordHash u, h0), usr_passwordHash := newHash,
            usr_tokenVersion := (if signOutAll then next_version u else usr_tokenVersion u),
            usr_updatedAt := time_UTC now\<rparr>)))"

definition RevokeRefreshTokens :: "gotime \<Rightarrow> User \<Rightarrow> User" where
  "RevokeRefreshTokens now u = u\<lparr>usr_tokenVersion := next_version u, usr_updatedAt := time_UTC now\<rparr>"

definition User_UpdateFullName :: "string \<Rightarrow> gotime \<Rightarrow> User \<Rightarrow> User result" where
  "User_UpdateFullName fullName now u =
     (let fullName = TrimSpace fullName in
      if fullName = [] then Inl (AuthErr ErrInvalidFullName)
      else Inr (u\<lparr>usr_fullName := fullName, usr_updatedAt := time_UTC now\<rparr>))"

definition ChangeStatus :: "string \<Rightarrow> gotime \<Rightarrow> User \<Rightarrow> User result" where
  "ChangeStatus status now u =
     (if \<not> validStatus status then Inl (AuthErr ErrInvalidUserStatus)
      else Inr (u\<lparr>usr_status := status, usr_updatedAt := time_UTC now\<rparr>))"

definition CanSignIn :: "User \<Rightarrow> unit result" where
  "CanSignIn u = (if usr_status u \<noteq> StatusActive then Inl (AuthErr ErrUserNotActive) else Inr ())"

section \<open>The invariant of the type\<close>

definition user_wf :: "User \<Rightarrow> bool" where
  "user_wf u \<longleftrightarrow> usr_id u \<noteq> uuid_Nil \<and> TrimSpace (usr_passwordHash u) \<noteq> [] \<and> usr_tokenVersion u \<ge> 1
     \<and> validStatus (usr_status u) \<and> usr_email u = ToLower (TrimSpace (usr_email u))
     \<and> time_UTC (usr_createdAt u) = usr_createdAt u \<and> time_UTC (usr_updatedAt u) = usr_updatedAt u"

lemma auth_normalizeEmail_ok:
  "auth_normalizeEmail pa m = Inr m' \<longleftrightarrow> m' = ToLower (TrimSpace m) \<and> pa m' = Some m'"
  by (auto simp: auth_normalizeEmail_def Let_def)

lemma normalized_email_fixed [simp]: "ToLower (TrimSpace (ToLower (TrimSpace s))) = ToLower (TrimSpace s)"
  by (simp add: TrimSpace_ToLower TrimSpace_idem ToLower_idem)

lemma NewUser_ok:
  "NewUser pa i m n h t = Inr u \<longleftrightarrow> i \<noteq> uuid_Nil \<and> TrimSpace h \<noteq> [] \<and>
     pa (ToLower (TrimSpace m)) = Some (ToLower (TrimSpace m)) \<and>
     u = \<lparr>usr_id = i, usr_email = ToLower (TrimSpace m), usr_fullName = TrimSpace n, usr_passwordHash = h,
       usr_previousPasswordHashes = ([], []), usr_tokenVersion = 1, usr_status = StatusActive,
       usr_createdAt = time_UTC t, usr_updatedAt = time_UTC t\<rparr>"
  by (auto simp: NewUser_def ok_iff auth_normalizeEmail_ok)

lemma NewUser_user_wf: "NewUser pa i m n h t = Inr u \<Longrightarrow> user_wf u"
  by (auto simp: NewUser_ok user_wf_def validStatus_def)

lemma RestoreUser_ok:
  "RestoreUser pa i m n h p v s c t = Inr u \<longleftrightarrow> i \<noteq> uuid_Nil \<and> TrimSpace h \<noteq> [] \<and> v \<ge> 1 \<and> validStatus s \<and>
     (m \<noteq> [] \<longrightarrow> pa (ToLower (TrimSpace m)) = Some (ToLower (TrimSpace m))) \<and>
     u = \<lparr>usr_id = i, usr_email = ToLower (TrimSpace m), usr_fullName = TrimSpace n, usr_passwordHash = h,
       usr_previousPasswordHashes = p, usr_tokenVersion = v, usr_status = s,
       usr_createdAt = time_UTC c, usr_updatedAt = time_UTC t\<rparr>"
  by (cases "m = []") (auto simp: RestoreUser_def ok_iff NewUser_ok ToLower_def)

lemma RestoreUser_user_wf: "RestoreUser pa i m n h p v s c t = Inr u \<Longrightarrow> user_wf u"
  by (auto simp: RestoreUser_ok user_wf_def)

lemma User_ChangePassword_ok:
  "User_ChangePassword newHash matches out t u = Inr u' \<longleftrightarrow> TrimSpace newHash \<noteq> [] \<and>
     \<not> matches (usr_passwordHash u) \<and>
     (\<forall>h\<in>{fst (usr_previousPasswordHashes u), snd (usr_previousPasswordHashes u)}. h \<noteq> [] \<longrightarrow> \<not> matches h) \<and>
     u' = u\<lparr>usr_previousPasswordHashes := (usr_passwordHash u, fst (usr_previousPasswordHashes u)),
       usr_passwordHash := newHash, usr_tokenVersion := (if out then next_version u else usr_tokenVersion u),
       usr_updatedAt := time_UTC t\<rparr>"
  by (cases "usr_previousPasswordHashes u") (auto simp: User_ChangePassword_def ok_iff)

lemma User_UpdateFullName_ok:
  "User_UpdateFullName n t u = Inr u' \<longleftrightarrow>
     TrimSpace n \<noteq> [] \<and> u' = u\<lparr>usr_fullName := TrimSpace n, usr_updatedAt := time_UTC t\<rparr>"
  by (auto simp: User_UpdateFullName_def Let_def)

lemma ChangeStatus_ok:
  "ChangeStatus s t u = Inr u' \<longleftrightarrow> validStatus s \<and> u' = u\<lparr>usr_status := s, usr_updatedAt := time_UTC t\<rparr>"
  by (auto simp: ChangeStatus_def)

lemma User_UpdateFullName_user_wf: "user_wf u \<Longrightarrow> User_UpdateFullName n t u = Inr u' \<Longrightarrow> user_wf u'"
  by (auto simp: User_UpdateFullName_ok user_wf_def)

lemma ChangeStatus_user_wf: "user_wf u \<Longrightarrow> ChangeStatus s t u = Inr u' \<Longrightarrow> user_wf u'"
  by (auto simp: ChangeStatus_ok user_wf_def)

lemma next_version_exact: "- 9223372036854775809 \<le> usr_tokenVersion u \<Longrightarrow> usr_tokenVersion u < 9223372036854775807 \<Longrightarrow>
    next_version u = usr_tokenVersion u + 1"
  by (simp add: next_version_def to_int64_id)

lemma User_ChangePassword_user_wf:
  "user_wf u \<Longrightarrow> usr_tokenVersion u < 9223372036854775807 \<Longrightarrow> User_ChangePassword h m out t u = Inr u' \<Longrightarrow> user_wf u'"
  by (auto simp: User_ChangePassword_ok user_wf_def next_version_exact)

lemma RevokeRefreshTokens_user_wf:
  "user_wf u \<Longrightarrow> usr_tokenVersion u < 9223372036854775807 \<Longrightarrow> user_wf (RevokeRefreshTokens t u)"
  by (auto simp: RevokeRefreshTokens_def user_wf_def next_version_exact)

end
