(* ===== verification/Auth_Repository.thy ===== *)
theory Auth_Repository
  imports Auth_Domain Service_Env
begin

text \<open>
  The auth schema (auth/adapters/db/migrations) and its repository (auth/adapters/db/repository.go,
  email\_lookup.go, dbmodels/users.sql.go), and the token issuer (auth/adapters/token/issuer.go) and
  password hasher (auth/adapters/password/bcrypt.go) the service is built with.

  What they call outside the repository is in the record \<open>auth_env\<close>: HMAC-SHA256 of an address, bcrypt,
  RS256 signing and parsing of claims, \<open>uuid.Parse\<close>, \<open>mail.ParseAddress\<close>, the clocks and \<open>uuid.New\<close>.
  User ids are stored as text. An \<open>Update\<close> writes every column of the aggregate; the two methods that
  run in \<open>common.UpdateInTx\<close> take the world of theory Tx.
\<close>

section \<open>Tables\<close>

record auth_role_row =
  aro_role_id :: string
  aro_name :: string

record auth_user_row =
  aus_user_id :: string
  aus_full_name :: string
  aus_email :: "string option"
  aus_email_lookup :: string
  aus_hashed_password :: string
  aus_hashed_password_1 :: string
  aus_hashed_password_2 :: string
  aus_token_ver :: int
  aus_created_at :: pgtime
  aus_updated_at :: pgtime
  aus_status :: string

record auth_user_role_row =
  aur_user_id :: string
  aur_role_id :: string
  aur_created_at :: pgtime
  aur_updated_at :: pgtime

record auth_db =
  auth_roles :: "auth_role_row list"
  auth_users :: "auth_user_row list"
  auth_user_roles :: "auth_user_role_row list"

definition seeded_roles :: "auth_role_row list" where
  "seeded_roles =
     [\<lparr>aro_role_id = ''00000000-0000-4000-8000-000000000001'', aro_name = ''superadmin''\<rparr>,
      \<lparr>aro_role_id = ''00000000-0000-4000-8000-000000000002'', aro_name = ''admin''\<rparr>,
      \<lparr>aro_role_id = ''00000000-0000-4000-8000-000000000003'', aro_name = ''user''\<rparr>]"

definition empty_auth_db :: auth_db where
  "empty_auth_db = \<lparr>auth_roles = seeded_roles, auth_users = [], auth_user_roles = []\<rparr>"

text \<open>The column types and CHECK constraints of a user row.\<close>

definition auth_user_checks :: "auth_user_row \<Rightarrow> (bool \<times> go_error) list" where
  "auth_user_checks r =
     [(longer 36 (aus_user_id r) \<or> longer 255 (aus_full_name r) \<or> longer_opt 255 (aus_email r)
        \<or> longer 255 (aus_hashed_password r) \<or> longer 255 (aus_hashed_password_1 r)
        \<or> longer 255 (aus_hashed_password_2 r) \<or> longer 16 (aus_status r), too_long),
      (aus_status r \<notin> {''active'', ''disabled'', ''deleted''}, check_violation ''users_status_check''),
      (\<not> aus_token_ver r > 0, check_violation ''users_token_ver_positive'')]"

definition insert_auth_user :: "auth_user_row \<Rightarrow> auth_db \<Rightarrow> go_error + auth_db" where
  "insert_auth_user r d =
     checked (auth_user_checks r @
        [(list_ex (\<lambda>x. aus_user_id x = aus_user_id r) (auth_users d), unique_violation ''users_pkey''),
         (list_ex (\<lambda>x. aus_email_lookup x = aus_email_lookup r) (auth_users d),
          unique_violation ''users_email_lookup_uq'')])
       (d\<lparr>auth_users := auth_users d @ [r]\<rparr>)"

text \<open>An UPDATE that leaves the keys alone.\<close>

definition update_auth_users ::
  "(auth_user_row \<Rightarrow> bool) \<Rightarrow> (auth_user_row \<Rightarrow> auth_user_row) \<Rightarrow> auth_db \<Rightarrow> go_error + auth_db" where
  "update_auth_users p f d =
     checked (concat (map (\<lambda>r. auth_user_checks (f r)) (filter p (auth_users d))))
       (d\<lparr>auth_users := update_where p f (auth_users d)\<rparr>)"

text \<open>\<open>:execrows\<close> followed by \<open>if rows == 0 { return app.ErrNotFound }\<close>.\<close>

definition update_auth_execrows ::
  "(auth_user_row \<Rightarrow> bool) \<Rightarrow> (auth_user_row \<Rightarrow> auth_user_row) \<Rightarrow> (auth_db, go_error, unit) action" where
  "update_auth_execrows p f d =
     (case update_auth_users p f d of
        Inl err \<Rightarrow> (Inl err, d)
      | Inr d' \<Rightarrow> (if count_where p (auth_users d) = 0 then Inl (AuthErr ErrNotFound) else Inr (), d'))"

definition CreateUserRole :: "string \<Rightarrow> pgtime \<Rightarrow> pgtime \<Rightarrow> string \<Rightarrow> auth_db \<Rightarrow> go_error + auth_db" where
  "CreateUserRole userID createdAt updatedAt roleName d =
     (case find_row (\<lambda>r. aro_name r = roleName) (auth_roles d) of
        None \<Rightarrow> Inr d
      | Some role \<Rightarrow>
          if longer 36 userID then Inl too_long
          else if list_ex (\<lambda>r. aur_user_id r = userID) (auth_user_roles d)
          then Inr (d\<lparr>auth_user_roles := update_where (\<lambda>r. aur_user_id r = userID)
                 (\<lambda>r. r\<lparr>aur_role_id := aro_role_id role, aur_updated_at := updatedAt\<rparr>) (auth_user_roles d)\<rparr>)
          else if \<not> list_ex (\<lambda>u. aus_user_id u = userID) (auth_users d)
          then Inl (foreign_key_violation ''user_roles_user_fk'')
          else Inr (d\<lparr>auth_user_roles := auth_user_roles d @
                 [\<lparr>aur_user_id = userID, aur_role_id = aro_role_id role, aur_created_at = createdAt,
                   aur_updated_at = updatedAt\<rparr>]\<rparr>))"

definition GetUserRole :: "auth_db \<Rightarrow> string \<Rightarrow> string result" where
  "GetUserRole d userID =
     rbind (row_as ErrNoRows (find_row (\<lambda>r. aur_user_id r = userID) (auth_user_roles d))) (\<lambda>ur.
     rbind (row_as ErrNoRows (find_row (\<lambda>r. aro_role_id r = aur_role_id ur) (auth_roles d))) (\<lambda>role.
     Inr (aro_name role)))"

definition HasAnyUser :: "auth_db \<Rightarrow> bool" where
  "HasAnyUser d \<longleftrightarrow> auth_users d \<noteq> []"

section \<open>What the service is built with\<close>

record token_claims =
  cl_UserID :: string
  cl_TokenVersion :: int
  cl_Plan :: string
  cl_Role :: string
  cl_Type :: string
  cl_IssuedAt :: gotime
  cl_ExpiresAt :: gotime

record auth_env =
  ae_now :: gotime
  ae_newID :: uuid
  ae_parse_address :: "string \<Rightarrow> string option"
  ae_parse_uuid :: "string \<Rightarrow> uuid result"
  ae_lookup :: "string \<Rightarrow> string"
  ae_bcrypt :: "string \<Rightarrow> string result"
  ae_bcrypt_matches :: "string \<Rightarrow> string \<Rightarrow> bool"
  ae_sign_jwt :: "token_claims \<Rightarrow> string result"
  ae_parse_jwt :: "string \<Rightarrow> token_claims option"
  ae_issuer_now :: "nat \<Rightarrow> gotime"
  ae_world :: "(unit, auth_db) world"

record Identity =
  idn_UserID :: uuid
  idn_TokenVersion :: int
  idn_Plan :: string
  idn_Role :: string

record Tokens =
  tok_AccessToken :: string
  tok_RefreshToken :: string
  tok_ExpiresIn :: int
  tok_TokenType :: string

definition accessLifetime :: int where "accessLifetime = 180 * Minute"
definition refreshLifetime :: int where "refreshLifetime = 7 * 24 * Hour"

text \<open>\<open>sign\<close> reads the clock twice; \<open>k\<close> numbers the calls.\<close>

definition issuer_sign :: "auth_env \<Rightarrow> nat \<Rightarrow> User \<Rightarrow> string \<Rightarrow> string \<Rightarrow> int \<Rightarrow> string result" where
  "issuer_sign env k user role kind lifetime =
     ae_sign_jwt env
       \<lparr>cl_UserID = uuid_String (usr_id user), cl_TokenVersion = usr_tokenVersion user, cl_Plan = ''free'',
        cl_Role = role, cl_Type = kind, cl_IssuedAt = ae_issuer_now env k,
        cl_ExpiresAt = time_Add (ae_issuer_now env (Suc k)) lifetime\<rparr>"

definition Issue :: "auth_env \<Rightarrow> User \<Rightarrow> string \<Rightarrow> Tokens result" where
  "Issue env user role =
     rbind (issuer_sign env 0 user role ''access'' accessLifetime) (\<lambda>access.
     rbind (issuer_sign env 2 user [] ''refresh'' refreshLifetime) (\<lambda>refresh.
     Inr \<lparr>tok_AccessToken = access, tok_RefreshToken = refresh,
          tok_ExpiresIn = accessLifetime div 1000000000, tok_TokenType = ''Bearer''\<rparr>))"

definition verify_token :: "auth_env \<Rightarrow> string \<Rightarrow> string \<Rightarrow> Identity result" where
  "verify_token env raw kind =
     (let invalid = ErrorString ''invalid token'' in
      case ae_parse_jwt env raw of
        None \<Rightarrow> Inl invalid
      | Some value \<Rightarrow>
          if cl_Type value \<noteq> kind then Inl invalid
          else case ae_parse_uuid env (cl_UserID value) of
            Inl _ \<Rightarrow> Inl invalid
          | Inr i \<Rightarrow>
              if i = uuid_Nil \<or> cl_TokenVersion value < 1 then Inl invalid
              else Inr \<lparr>idn_UserID = i, idn_TokenVersion = cl_TokenVersion value, idn_Plan = cl_Plan value,
                        idn_Role = cl_Role value\<rparr>)"

definition VerifyAccess :: "auth_env \<Rightarrow> string \<Rightarrow> Identity result" where
  "VerifyAccess env raw = verify_token env raw ''access''"

definition VerifyRefresh :: "auth_env \<Rightarrow> string \<Rightarrow> Identity result" where
  "VerifyRefresh env raw = verify_token env raw ''refresh''"

definition Hash :: "auth_env \<Rightarrow> string \<Rightarrow> string result" where
  "Hash env value = (if TrimSpace value = [] then Inl (AuthErr ErrInvalidPassword) else ae_bcrypt env value)"

definition Matches :: "auth_env \<Rightarrow> string \<Rightarrow> string \<Rightarrow> bool" where
  "Matches env hash value = ae_bcrypt_matches env hash value"

section \<open>The repository\<close>

definition storedEmail :: "string option \<Rightarrow> string" where
  "storedEmail value = (case value of None \<Rightarrow> [] | Some m \<Rightarrow> m)"

definition toDomain :: "auth_env \<Rightarrow> string \<Rightarrow> auth_user_row \<Rightarrow> User result" where
  "toDomain env email r =
     rbind (ae_parse_uuid env (aus_user_id r)) (\<lambda>i.
     RestoreUser (ae_parse_address env) i email (aus_full_name r) (aus_hashed_password r)
       (aus_hashed_password_1 r, aus_hashed_password_2 r) (aus_token_ver r) (aus_status r)
       (from_pg (aus_created_at r)) (from_pg (aus_updated_at r)))"

definition auth_user_found :: "(auth_user_row \<Rightarrow> bool) \<Rightarrow> auth_db \<Rightarrow> auth_user_row result" where
  "auth_user_found p d = row_as (AuthErr ErrNotFound) (find_row p (auth_users d))"

text \<open>The two queries that join the role: a user without a role is not found.\<close>

definition with_role :: "auth_db \<Rightarrow> auth_user_row \<Rightarrow> User result \<Rightarrow> (User \<times> string) result" where
  "with_role d r user =
     rbind (rerr (\<lambda>_. AuthErr ErrNotFound) (GetUserRole d (aus_user_id r))) (\<lambda>role.
     rbind user (\<lambda>u. Inr (u, role)))"

definition FindByEmail :: "auth_env \<Rightarrow> string \<Rightarrow> auth_db \<Rightarrow> User result" where
  "FindByEmail env email d =
     rbind (auth_user_found (\<lambda>r. aus_email_lookup r = ae_lookup env email) d) (toDomain env email)"

definition FindSignInUserByEmail :: "auth_env \<Rightarrow> string \<Rightarrow> auth_db \<Rightarrow> (User \<times> string) result" where
  "FindSignInUserByEmail env email d =
     rbind (auth_user_found (\<lambda>r. aus_email_lookup r = ae_lookup env email) d)
       (\<lambda>r. with_role d r (toDomain env email r))"

definition FindRefreshUserByID :: "auth_env \<Rightarrow> uuid \<Rightarrow> auth_db \<Rightarrow> (User \<times> string) result" where
  "FindRefreshUserByID env i d =
     rbind (auth_user_found (\<lambda>r. aus_user_id r = uuid_String i) d)
       (\<lambda>r. with_role d r (toDomain env (storedEmail (aus_email r)) r))"

definition FindByID :: "auth_env \<Rightarrow> uuid \<Rightarrow> auth_db \<Rightarrow> User result" where
  "FindByID env i d =
     rbind (auth_user_found (\<lambda>r. aus_user_id r = uuid_String i) d)
       (\<lambda>r. toDomain env (storedEmail (aus_email r)) r)"

definition FindRole :: "uuid \<Rightarrow> auth_db \<Rightarrow> string result" where
  "FindRole i d = rerr (\<lambda>err. if errors_is err ErrNoRows then AuthErr ErrNotFound else err) (GetUserRole d (uuid_String i))"

definition isDuplicateEmail :: "go_error \<Rightarrow> bool" where
  "isDuplicateEmail err = (case as_pg err of None \<Rightarrow> False | Some (code, k) \<Rightarrow> code = ''23505'')"

definition new_user_row :: "auth_env \<Rightarrow> User \<Rightarrow> auth_user_row" where
  "new_user_row env user =
     \<lparr>aus_user_id = uuid_String (usr_id user), aus_full_name = usr_fullName user, aus_email = None,
      aus_email_lookup = ae_lookup env (usr_email user), aus_hashed_password = usr_passwordHash user,
      aus_hashed_password_1 = fst (usr_previousPasswordHashes user),
      aus_hashed_password_2 = snd (usr_previousPasswordHashes user),
      aus_token_ver = to_int32 (usr_tokenVersion user), aus_created_at = to_pg (usr_createdAt user),
      aus_updated_at = to_pg (usr_updatedAt user), aus_status = usr_status user\<rparr>"

definition create_with_role_body ::
  "auth_env \<Rightarrow> User \<Rightarrow> string \<Rightarrow> bool \<Rightarrow> (auth_db, go_error, unit) action" where
  "create_with_role_body env user role onlyOne =
     andThen (if onlyOne then query HasAnyUser else ret False) (\<lambda>exists.
     andThen (ensure (\<not> exists) (AuthErr ErrAccountExists)) (\<lambda>_.
     andThen (exec (insert_auth_user (new_user_row env user))) (\<lambda>_.
     exec (CreateUserRole (uuid_String (usr_id user)) (to_pg (usr_createdAt user)) (to_pg (usr_updatedAt user)) role))))"

definition createWithRole :: "auth_env \<Rightarrow> User \<Rightarrow> string \<Rightarrow> bool \<Rightarrow> (auth_db, go_error, unit) action" where
  "createWithRole env user role onlyOne =
     on_err (\<lambda>err. if isDuplicateEmail err then AuthErr ErrEmailTaken else err)
       (in_tx (ae_world env) (\<lambda>i. create_with_role_body env user role onlyOne))"

definition Create_repo :: "auth_env \<Rightarrow> User \<Rightarrow> (auth_db, go_error, unit) action" where
  "Create_repo env user = createWithRole env user ''user'' False"

definition CreateSuperadmin_repo :: "auth_env \<Rightarrow> User \<Rightarrow> (auth_db, go_error, unit) action" where
  "CreateSuperadmin_repo env user = createWithRole env user ''superadmin'' True"

definition UpdateRole_repo :: "uuid \<Rightarrow> string \<Rightarrow> gotime \<Rightarrow> (auth_db, go_error, unit) action" where
  "UpdateRole_repo i role updatedAt = exec (CreateUserRole (uuid_String i) (to_pg updatedAt) (to_pg updatedAt) role)"

definition password_columns :: "User \<Rightarrow> auth_user_row \<Rightarrow> auth_user_row" where
  "password_columns user r =
     r\<lparr>aus_hashed_password := usr_passwordHash user,
       aus_hashed_password_1 := fst (usr_previousPasswordHashes user),
       aus_hashed_password_2 := snd (usr_previousPasswordHashes user),
       aus_token_ver := to_int32 (usr_tokenVersion user), aus_updated_at := to_pg (usr_updatedAt user)\<rparr>"

definition Update_repo :: "User \<Rightarrow> (auth_db, go_error, unit) action" where
  "Update_repo user =
     update_auth_execrows (\<lambda>r. aus_user_id r = uuid_String (usr_id user))
       (\<lambda>r. password_columns user (r\<lparr>aus_full_name := usr_fullName user, aus_status := usr_status user\<rparr>))"

definition update_password_body :: "User \<Rightarrow> (auth_db, go_error, unit) action" where
  "update_password_body user =
     update_auth_execrows (\<lambda>r. aus_user_id r = uuid_String (usr_id user)) (password_columns user)"

definition UpdatePassword_repo :: "auth_env \<Rightarrow> User \<Rightarrow> (auth_db, go_error, unit) action" where
  "UpdatePassword_repo env user = in_tx (ae_world env) (\<lambda>i. update_password_body user)"

definition StoreDeliveryEmail_repo :: "uuid \<Rightarrow> string \<Rightarrow> (auth_db, go_error, unit) action" where
  "StoreDeliveryEmail_repo i email =
     update_auth_execrows (\<lambda>r. aus_user_id r = uuid_String i) (\<lambda>r. r\<lparr>aus_email := Some email\<rparr>)"

end
