(* ===== verification/Auth_Service.thy ===== *)
theory Auth_Service
  imports Auth_Repository
begin

text \<open>
  The auth use cases (auth/app/service.go), what other modules see of them
  (auth/api/module/module.go) and the request handlers (auth/api/http/handler.go).

  A use case that reads a user, changes it and writes it back is two statements outside a
  transaction; \<open>UpdateFullName\<close> is written as its two halves, so that what happens between them can be
  stated. Passwords are byte strings: \<open>unicode.IsNumber\<close>, \<open>IsUpper\<close> and \<open>IsLower\<close> are those of ASCII.
\<close>

section \<open>Passwords\<close>

definition is_upper_letter :: "char \<Rightarrow> bool" where
  "is_upper_letter c \<longleftrightarrow> 65 \<le> (of_char c :: nat) \<and> (of_char c :: nat) \<le> 90"

definition is_lower_letter :: "char \<Rightarrow> bool" where
  "is_lower_letter c \<longleftrightarrow> 97 \<le> (of_char c :: nat) \<and> (of_char c :: nat) \<le> 122"

definition validatePasswordPattern :: "string \<Rightarrow> unit result" where
  "validatePasswordPattern pw =
     (if length pw < 8 \<or> length pw > 32 then Inl (AuthErr ErrPasswordPattern)
      else if list_ex (\<lambda>l. \<not> is_digit l \<and> \<not> is_upper_letter l \<and> \<not> is_lower_letter l \<and> l \<notin> set ''@#$*-_'') pw
      then Inl (AuthErr ErrPasswordPattern)
      else Inr ())"

section \<open>Accounts\<close>

record SignUpInput =
  su_Email :: string
  su_FullName :: string
  su_Password :: string

definition signup_password_problem :: "go_error \<Rightarrow> go_error" where
  "signup_password_problem err =
     WithDetails (NewInvalidInputError ''signup'' ''auth service : invalid credential'')
       [\<lparr>EntityType = ''input-validate'', EntityID = ''password'', DetailSlug = ''signup-password'',
         DetailMessage = error_text err\<rparr>]"

definition signup_email_problem :: "go_error \<Rightarrow> go_error" where
  "signup_email_problem err =
     WithDetails (NewInvalidInputError ''signup'' ''invalid credential'')
       [\<lparr>EntityType = ''input-validate'', EntityID = ''email'', DetailSlug = ''signup-email'',
         DetailMessage = error_text err\<rparr>]"

definition createUser ::
  "auth_env \<Rightarrow> SignUpInput \<Rightarrow> (User \<Rightarrow> (auth_db, go_error, unit) action) \<Rightarrow> (auth_db, go_error, uuid) action" where
  "createUser env input create =
     andThen (ensure (TrimSpace (su_Password input) \<noteq> []) (signup_password_problem (AuthErr ErrPasswordPattern))) (\<lambda>_.
     andThen (lift_res (rerr signup_password_problem (validatePasswordPattern (su_Password input)))) (\<lambda>_.
     andThen (lift_res (Hash env (su_Password input))) (\<lambda>hash.
     andThen (lift_res (rerr signup_email_problem
        (NewUser (ae_parse_address env) (ae_newID env) (su_Email input) (su_FullName input) hash (ae_now env)))) (\<lambda>user.
     andThen (on_err (\<lambda>err. if errors_is err (AuthErr ErrAccountExists)
          then NewConflictError ''account_exists'' ''an account already exists'' else err) (create user)) (\<lambda>_.
     ret (usr_id user))))))"

definition SignUp :: "auth_env \<Rightarrow> SignUpInput \<Rightarrow> (auth_db, go_error, uuid) action" where
  "SignUp env input = createUser env input (Create_repo env)"

definition CreateSuperadmin :: "auth_env \<Rightarrow> SignUpInput \<Rightarrow> (auth_db, go_error, uuid) action" where
  "CreateSuperadmin env input = createUser env input (CreateSuperadmin_repo env)"

section \<open>Sessions\<close>

definition SignIn :: "auth_env \<Rightarrow> string \<Rightarrow> string \<Rightarrow> bool \<Rightarrow> (auth_db, go_error, Tokens) action" where
  "SignIn env email password storeDeliveryEmail =
     andThen (on_err (\<lambda>_. AuthErr ErrInvalidCredentials) (query_res (FindSignInUserByEmail env (ToLower (TrimSpace email)))))
       (\<lambda>(user, role).
     andThen (ensure (Matches env (usr_passwordHash user) password \<and> CanSignIn user = Inr ()) (AuthErr ErrInvalidCredentials)) (\<lambda>_.
     andThen (if storeDeliveryEmail then StoreDeliveryEmail_repo (usr_id user) (usr_email user) else ret ()) (\<lambda>_.
     lift_res (Issue env user role))))"

definition Refresh :: "auth_env \<Rightarrow> string \<Rightarrow> (auth_db, go_error, Tokens) action" where
  "Refresh env rawToken =
     andThen (on_err (\<lambda>_. AuthErr ErrInvalidCredentials) (lift_res (VerifyRefresh env rawToken))) (\<lambda>identity.
     andThen (on_err (\<lambda>_. AuthErr ErrInvalidCredentials) (query_res (FindRefreshUserByID env (idn_UserID identity))))
       (\<lambda>(user, role).
     andThen (ensure (usr_tokenVersion user = idn_TokenVersion identity \<and> CanSignIn user = Inr ())
       (AuthErr ErrInvalidCredentials)) (\<lambda>_.
     lift_res (Issue env user role))))"

definition SignOutAllDevices :: "auth_env \<Rightarrow> uuid \<Rightarrow> (auth_db, go_error, unit) action" where
  "SignOutAllDevices env userID =
     on_err (\<lambda>_. AuthErr ErrInvalidCredentials)
       (andThen (query_res (FindByID env userID)) (\<lambda>user.
        Update_repo (RevokeRefreshTokens (ae_now env) user)))"

definition Authenticate :: "auth_env \<Rightarrow> string \<Rightarrow> Identity result" where
  "Authenticate env rawToken = VerifyAccess env rawToken"

section \<open>What other modules see\<close>

definition userInfo :: "auth_db \<Rightarrow> User result \<Rightarrow> UserInfo result" where
  "userInfo d found =
     rbind found (\<lambda>user. rbind (FindRole (usr_id user) d) (\<lambda>role.
       Inr \<lparr>ui_UserID = uuid_String (usr_id user), ui_Email = usr_email user, ui_FullName = usr_fullName user,
            ui_Status = usr_status user, ui_Role = role\<rparr>))"

definition GetUserInfo :: "auth_env \<Rightarrow> auth_db \<Rightarrow> uuid \<Rightarrow> UserInfo result" where
  "GetUserInfo env d i = userInfo d (FindByID env i d)"

definition GetUserInfoByEmail :: "auth_env \<Rightarrow> auth_db \<Rightarrow> string \<Rightarrow> UserInfo result" where
  "GetUserInfoByEmail env d email = userInfo d (FindByEmail env (ToLower (TrimSpace email)) d)"

definition AuthenticateAccessToken :: "auth_env \<Rightarrow> string \<Rightarrow> (uuid \<times> string) result" where
  "AuthenticateAccessToken env raw = rbind (Authenticate env raw) (\<lambda>i. Inr (idn_UserID i, idn_Role i))"

text \<open>The scheduler's environment with the auth module behind it.\<close>

definition with_auth :: "auth_env \<Rightarrow> auth_db \<Rightarrow> service_env \<Rightarrow> service_env" where
  "with_auth env d sv = sv\<lparr>sv_GetUserInfo := GetUserInfo env d, sv_GetUserInfoByEmail := GetUserInfoByEmail env d\<rparr>"

section \<open>Changes to an account\<close>

text \<open>\<open>FindByID\<close> followed by \<open>if err != nil { return ErrNotFound }\<close>.\<close>

definition target_user :: "auth_env \<Rightarrow> uuid \<Rightarrow> auth_db \<Rightarrow> User result" where
  "target_user env target d = rerr (\<lambda>_. AuthErr ErrNotFound) (FindByID env target d)"

definition ChangePassword ::
  "auth_env \<Rightarrow> uuid \<Rightarrow> uuid \<Rightarrow> string \<Rightarrow> string \<Rightarrow> bool \<Rightarrow> (auth_db, go_error, unit) action" where
  "ChangePassword env actor target current next signOutAll =
     andThen (ensure (actor = target) (AuthErr ErrForbidden)) (\<lambda>_.
     andThen (lift_res (validatePasswordPattern next)) (\<lambda>_.
     andThen (query_res (target_user env target)) (\<lambda>user.
     andThen (ensure (Matches env (usr_passwordHash user) current) (AuthErr ErrInvalidCredentials)) (\<lambda>_.
     andThen (lift_res (Hash env next)) (\<lambda>hash.
     andThen (lift_res (User_ChangePassword hash (\<lambda>old. Matches env old next) signOutAll (ae_now env) user)) (\<lambda>user.
     UpdatePassword_repo env user))))))"

definition UpdateFullName_read :: "auth_env \<Rightarrow> uuid \<Rightarrow> uuid \<Rightarrow> string \<Rightarrow> auth_db \<Rightarrow> User result" where
  "UpdateFullName_read env actor target name d =
     rbind (rguard (actor = target) (AuthErr ErrForbidden)) (\<lambda>_.
     rbind (target_user env target d) (\<lambda>user. User_UpdateFullName name (ae_now env) user))"

definition UpdateFullName :: "auth_env \<Rightarrow> uuid \<Rightarrow> uuid \<Rightarrow> string \<Rightarrow> (auth_db, go_error, unit) action" where
  "UpdateFullName env actor target name = andThen (query_res (UpdateFullName_read env actor target name)) Update_repo"

definition UpdateStatus :: "auth_env \<Rightarrow> uuid \<Rightarrow> uuid \<Rightarrow> string \<Rightarrow> (auth_db, go_error, unit) action" where
  "UpdateStatus env actor target status =
     andThen (ensure (actor = target) (AuthErr ErrForbidden)) (\<lambda>_.
     andThen (query_res (target_user env target)) (\<lambda>user.
     andThen (lift_res (ChangeStatus status (ae_now env) user)) Update_repo))"

definition UpdateRole :: "auth_env \<Rightarrow> uuid \<Rightarrow> uuid \<Rightarrow> string \<Rightarrow> (auth_db, go_error, unit) action" where
  "UpdateRole env actor target role =
     andThen (ensure (actor \<noteq> target) (AuthErr ErrForbidden)) (\<lambda>_.
     andThen (query (\<lambda>d. FindRole actor d)) (\<lambda>actorRole.
     andThen (ensure (actorRole = Inr RoleSuperadmin) (AuthErr ErrForbidden)) (\<lambda>_.
     andThen (ensure (ValidRole role) (AuthErr ErrInvalidRole)) (\<lambda>_.
     andThen (query_res (target_user env target)) (\<lambda>_.
     UpdateRole_repo target role (ae_now env))))))"

section \<open>Handlers\<close>

text \<open>A request: the access token comes from the Authorization header or a cookie; a missing body is
  \<open>None\<close>.\<close>

datatype auth_request =
    ReqCreateSuperadmin "(string \<times> string \<times> string option) option"
  | ReqSignUp "(string \<times> string \<times> string option) option"
  | ReqSignIn "(string \<times> string \<times> bool option) option"
  | ReqRefreshToken "string option"
  | ReqSignOutAllDevices
  | ReqChangePassword uuid "(string \<times> string \<times> bool option) option"
  | ReqUpdateFullName uuid "string option"
  | ReqUpdateUserStatus uuid "string option"
  | ReqUpdateUserRole uuid "string option"

record auth_call =
  ac_env :: auth_env
  ac_authorization :: string
  ac_access_cookie :: "string option"
  ac_request :: auth_request

text \<open>The answer. A cookie with a refresh token is set or (\<open>None\<close>) expired; an error the handler returns is
  left to the server; \<open>AuthUnbound\<close> is the framework's refusal of a request its bindings cannot read.\<close>

datatype auth_answer =
    UserCreated201 uuid
  | Tokens200 string int string "string option"
  | AuthNoContent204
  | SignedOut204 "string option"
  | AuthProblem int string string "error_details list"
  | Unhandled go_error
  | AuthUnbound int

text \<open>\<open>errors.As(err, &structured)\<close> with the details.\<close>

fun structured_error :: "go_error \<Rightarrow> (int \<times> string \<times> string \<times> error_details list) option" where
  "structured_error (CommonError c m s i ds) = Some (c, m, s, ds)"
| "structured_error (Wrapped p e) = structured_error e"
| "structured_error (Joined e1 e2) =
     (case structured_error e1 of Some x \<Rightarrow> Some x | None \<Rightarrow> structured_error e2)"
| "structured_error e = None"

definition error_answer :: "int \<Rightarrow> go_error \<Rightarrow> string \<Rightarrow> string \<Rightarrow> auth_answer" where
  "error_answer code err slug message =
     (case structured_error err of
        Some (c, m, s, ds) \<Rightarrow> AuthProblem code m s ds
      | None \<Rightarrow> AuthProblem code message slug [])"

definition plain_problem :: "int \<Rightarrow> string \<Rightarrow> string \<Rightarrow> auth_answer" where
  "plain_problem code slug message = AuthProblem code message slug []"

definition body_required :: auth_answer where
  "body_required = plain_problem 400 ''request_body_required'' ''request body is required''"

definition input_of :: "string \<times> string \<times> string option \<Rightarrow> SignUpInput" where
  "input_of b = (case b of (email, password, fullName) \<Rightarrow>
     \<lparr>su_Email = email, su_FullName = (case fullName of None \<Rightarrow> [] | Some n \<Rightarrow> n), su_Password = password\<rparr>)"

definition create_superadmin_answer :: "uuid result \<Rightarrow> auth_answer" where
  "create_superadmin_answer res =
     (case res of
        Inr i \<Rightarrow> UserCreated201 i
      | Inl err \<Rightarrow>
          (let taken = (if errors_is err (AuthErr ErrEmailTaken)
                        then plain_problem 409 ''email_taken'' ''email already exists'' else Unhandled err) in
           case structured_error err of
             None \<Rightarrow> taken
           | Some (c, m, s, ds) \<Rightarrow>
               if c = 409 then error_answer 409 err ''account_exists'' ''an account already exists''
               else if c = 400 then error_answer 400 err ''invalid_request'' ''invalid request''
               else taken))"

definition sign_up_answer :: "uuid result \<Rightarrow> auth_answer" where
  "sign_up_answer res =
     (case res of
        Inr i \<Rightarrow> UserCreated201 i
      | Inl err \<Rightarrow>
          if errors_is err (AuthErr ErrEmailTaken) then plain_problem 409 ''email_taken'' ''email already exists''
          else error_answer 400 err ''invalid_request'' ''invalid request'')"

definition tokens_answer :: "Tokens result \<Rightarrow> auth_answer" where
  "tokens_answer res =
     (case res of
        Inl err \<Rightarrow> plain_problem 401 ''invalid_credentials'' ''invalid credentials''
      | Inr t \<Rightarrow> Tokens200 (tok_AccessToken t) (tok_ExpiresIn t) (tok_TokenType t) (Some (tok_RefreshToken t)))"

text \<open>\<open>updateFullNameResponse\<close>, \<open>updateStatusResponse\<close>, \<open>updateRoleResponse\<close> differ in the last slug only;
  \<open>changePasswordResponse\<close> also knows invalid credentials.\<close>

definition account_answer :: "string \<Rightarrow> string \<Rightarrow> unit result \<Rightarrow> auth_answer" where
  "account_answer slug message res =
     (case res of
        Inr _ \<Rightarrow> AuthNoContent204
      | Inl err \<Rightarrow>
          if errors_is err (AuthErr ErrForbidden) then error_answer 403 err ''forbidden'' ''action is not permitted''
          else if errors_is err (AuthErr ErrNotFound) then error_answer 404 err ''user_not_found'' ''user not found''
          else error_answer 400 err slug message)"

definition changePasswordResponse :: "unit result \<Rightarrow> auth_answer" where
  "changePasswordResponse res =
     (case res of
        Inl err \<Rightarrow>
          if \<not> errors_is err (AuthErr ErrForbidden) \<and> \<not> errors_is err (AuthErr ErrNotFound)
             \<and> errors_is err (AuthErr ErrInvalidCredentials)
          then plain_problem 401 ''invalid_credentials'' ''invalid credentials''
          else account_answer ''invalid_request'' ''invalid request'' res
      | Inr _ \<Rightarrow> AuthNoContent204)"

text \<open>\<open>strings.Fields\<close> and \<open>strings.EqualFold\<close>.\<close>

fun fields_from :: "string \<Rightarrow> string \<Rightarrow> string list" where
  "fields_from acc [] = (if acc = [] then [] else [rev acc])"
| "fields_from acc (c # s) =
     (if is_space c then (if acc = [] then fields_from [] s else rev acc # fields_from [] s)
      else fields_from (c # acc) s)"

definition bearerToken :: "auth_call \<Rightarrow> string" where
  "bearerToken c =
     (case fields_from [] (ac_authorization c) of
        [scheme, token] \<Rightarrow>
          if ToLower scheme = ''bearer'' then token
          else (case ac_access_cookie c of None \<Rightarrow> [] | Some v \<Rightarrow> v)
      | _ \<Rightarrow> (case ac_access_cookie c of None \<Rightarrow> [] | Some v \<Rightarrow> v))"

definition requireIdentity ::
  "auth_call \<Rightarrow> (uuid \<Rightarrow> auth_db \<Rightarrow> auth_answer \<times> auth_db) \<Rightarrow> auth_db \<Rightarrow> auth_answer \<times> auth_db" where
  "requireIdentity c next d =
     (case Authenticate (ac_env c) (bearerToken c) of
        Inl _ \<Rightarrow> (plain_problem 401 ''authentication_required'' ''authentication required'', d)
      | Inr identity \<Rightarrow> next (idn_UserID identity) d)"

definition answered :: "('a result \<Rightarrow> auth_answer) \<Rightarrow> (auth_db, go_error, 'a) action \<Rightarrow> auth_db \<Rightarrow> auth_answer \<times> auth_db" where
  "answered answer use_case d = (case use_case d of (res, d') \<Rightarrow> (answer res, d'))"

definition auth_handle :: "auth_call \<Rightarrow> auth_db \<Rightarrow> auth_answer \<times> auth_db" where
  "auth_handle c =
     (let env = ac_env c in
      case ac_request c of
        ReqCreateSuperadmin None \<Rightarrow> Pair body_required
      | ReqCreateSuperadmin (Some b) \<Rightarrow> answered create_superadmin_answer (CreateSuperadmin env (input_of b))
      | ReqSignUp None \<Rightarrow> Pair body_required
      | ReqSignUp (Some b) \<Rightarrow> answered sign_up_answer (SignUp env (input_of b))
      | ReqSignIn None \<Rightarrow> Pair body_required
      | ReqSignIn (Some (email, password, store)) \<Rightarrow>
          answered tokens_answer (SignIn env email password (store = Some True))
      | ReqRefreshToken cookie \<Rightarrow>
          (case cookie of
             None \<Rightarrow> Pair (plain_problem 401 ''invalid_credentials'' ''invalid credentials'')
           | Some v \<Rightarrow> if v = [] then Pair (plain_problem 401 ''invalid_credentials'' ''invalid credentials'')
                       else answered tokens_answer (Refresh env v))
      | ReqSignOutAllDevices \<Rightarrow> requireIdentity c (\<lambda>actor. answered
          (\<lambda>res. case res of Inl _ \<Rightarrow> plain_problem 401 ''authentication_required'' ''authentication required''
                   | Inr _ \<Rightarrow> SignedOut204 None) (SignOutAllDevices env actor))
      | ReqChangePassword i None \<Rightarrow> requireIdentity c (\<lambda>actor. Pair body_required)
      | ReqChangePassword i (Some (password, newPassword, out)) \<Rightarrow> requireIdentity c (\<lambda>actor.
          answered changePasswordResponse (ChangePassword env actor i password newPassword (out = Some True)))
      | ReqUpdateFullName i None \<Rightarrow> requireIdentity c (\<lambda>actor. Pair body_required)
      | ReqUpdateFullName i (Some name) \<Rightarrow> requireIdentity c (\<lambda>actor.
          answered (account_answer ''invalid_request'' ''invalid request'') (UpdateFullName env actor i name))
      | ReqUpdateUserStatus i None \<Rightarrow> requireIdentity c (\<lambda>actor. Pair body_required)
      | ReqUpdateUserStatus i (Some status) \<Rightarrow> requireIdentity c (\<lambda>actor.
          answered (account_answer ''invalid_request'' ''invalid request'') (UpdateStatus env actor i status))
      | ReqUpdateUserRole i None \<Rightarrow> requireIdentity c (\<lambda>actor. Pair body_required)
      | ReqUpdateUserRole i (Some role) \<Rightarrow> requireIdentity c (\<lambda>actor.
          answered (account_answer ''invalid_role'' ''invalid role'') (UpdateRole env actor i role)))"

definition auth_step :: "auth_call \<Rightarrow> auth_db \<Rightarrow> auth_db" where
  "auth_step c d = snd (auth_handle c d)"

end
