(* ===== verification/Auth_Facts.thy ===== *)
theory Auth_Facts
  imports Auth_Service
begin

text \<open>
  What the auth use cases guarantee. \<open>auth_inv\<close> is the invariant of the auth tables; the locale
  \<open>account_relation\<close> lifts a relation between databases from the statements a use case ends in to
  sequences of requests, and is interpreted twice: versions of refresh tokens never go back
  (\<open>versions\<close>), and roles change only by the superadmin (\<open>roles_of\<close>).
\<close>

section \<open>Statements\<close>

lemma in_tx_calm_error:
  assumes "backoff_contract retry" and "in_tx (calm retry) body d = (Inl e, d')"
  shows "d' = d"
  using assms(2) calm_failure [OF assms(1)] by (auto simp: in_tx_def UpdateInTx_def split: prod.splits)

lemma update_auth_execrows_ok [ok_iff]:
  "update_auth_execrows p f d = (Inr u, d') \<longleftrightarrow>
     (\<exists>r\<in>set (auth_users d). p r) \<and> (\<forall>r\<in>set (auth_users d). p r \<longrightarrow> (\<forall>c\<in>set (auth_user_checks (f r)). \<not> fst c))
     \<and> d' = d\<lparr>auth_users := update_where p f (auth_users d)\<rparr>"
proof -
  have "update_auth_users p f d = Inr d1 \<longleftrightarrow>
      (\<forall>r\<in>set (auth_users d). p r \<longrightarrow> (\<forall>c\<in>set (auth_user_checks (f r)). \<not> fst c))
      \<and> d1 = d\<lparr>auth_users := update_where p f (auth_users d)\<rparr>" for d1
    by (auto simp: update_auth_users_def checked_ok)
  then show ?thesis
    unfolding update_auth_execrows_def count_where_0 by (cases "update_auth_users p f d") auto
qed

lemma update_auth_execrows_error: "update_auth_execrows p f d = (Inl e, d') \<Longrightarrow> d' = d"
proof -
  assume run: "update_auth_execrows p f d = (Inl e, d')"
  have "update_where p f (auth_users d) = auth_users d" if "count_where p (auth_users d) = 0"
    using that by (auto simp: count_where_0 update_where_def intro: map_idI)
  then show ?thesis using run
    by (auto simp: update_auth_execrows_def update_auth_users_def checked_ok split: sum.splits if_splits)
qed

lemma insert_auth_user_ok [ok_iff]:
  "insert_auth_user r d = Inr d' \<longleftrightarrow> (\<forall>c\<in>set (auth_user_checks r). \<not> fst c)
     \<and> (\<forall>x\<in>set (auth_users d). aus_user_id x \<noteq> aus_user_id r \<and> aus_email_lookup x \<noteq> aus_email_lookup r)
     \<and> d' = d\<lparr>auth_users := auth_users d @ [r]\<rparr>"
  by (auto simp: insert_auth_user_def checked_ok list_ex_iff)

lemma auth_user_checks_pass:
  "(\<forall>c\<in>set (auth_user_checks r). \<not> fst c) \<Longrightarrow> aus_token_ver r > 0"
  by (simp add: auth_user_checks_def)

section \<open>The invariant\<close>

definition auth_inv :: "auth_db \<Rightarrow> bool" where
  "auth_inv d \<longleftrightarrow> distinct (map aus_user_id (auth_users d)) \<and> distinct (map aus_email_lookup (auth_users d))
     \<and> (\<forall>r\<in>set (auth_users d). 1 \<le> aus_token_ver r \<and> aus_token_ver r < 2147483648
          \<and> (\<exists>i. aus_user_id r = uuid_String i))
     \<and> distinct (map aur_user_id (auth_user_roles d))
     \<and> aur_user_id ` set (auth_user_roles d) \<subseteq> aus_user_id ` set (auth_users d)
     \<and> auth_roles d = seeded_roles"

text \<open>What is assumed of the surroundings of a use case: \<open>uuid.Parse\<close> reads what \<open>String\<close> wrote, and
  nothing fails around its transaction.\<close>

definition uuid_contract :: "auth_env \<Rightarrow> bool" where
  "uuid_contract env \<longleftrightarrow> (\<forall>i. ae_parse_uuid env (uuid_String i) = Inr i)"

definition auth_env_ok :: "auth_env \<Rightarrow> bool" where
  "auth_env_ok env \<longleftrightarrow> uuid_contract env \<and> (\<exists>retry. backoff_contract retry \<and> ae_world env = calm retry)"

lemma FindByID_ok:
  assumes "uuid_contract env" and "FindByID env i d = Inr u"
  obtains r where "r \<in> set (auth_users d)" "aus_user_id r = uuid_String i" "usr_id u = i"
    "usr_tokenVersion u = aus_token_ver r" "usr_passwordHash u = aus_hashed_password r"
    "usr_previousPasswordHashes u = (aus_hashed_password_1 r, aus_hashed_password_2 r)" "usr_status u = aus_status r"
    "toDomain env (storedEmail (aus_email r)) r = Inr u"
proof -
  obtain r where r: "find_row (\<lambda>r. aus_user_id r = uuid_String i) (auth_users d) = Some r"
    and u: "toDomain env (storedEmail (aus_email r)) r = Inr u"
    using assms(2) by (auto simp: FindByID_def auth_user_found_def row_as_def ok_iff split: option.splits)
  then show thesis using that [of r] find_row_Some [OF r] assms(1)
    by (auto simp: toDomain_def ok_iff RestoreUser_ok uuid_contract_def)
qed

text \<open>A use case that starts with a check or a read either ends there or goes on from the same state.\<close>

lemma after_reads:
  "andThen (ensure b e) k d = (res, d') \<Longrightarrow> (d' = d \<Longrightarrow> P) \<Longrightarrow> (b \<Longrightarrow> k () d = (res, d') \<Longrightarrow> P) \<Longrightarrow> P"
  "andThen (lift_res r) k' d = (res, d') \<Longrightarrow> (d' = d \<Longrightarrow> P) \<Longrightarrow> (\<And>x. r = Inr x \<Longrightarrow> k' x d = (res, d') \<Longrightarrow> P) \<Longrightarrow> P"
  "andThen (query_res f) k'' d = (res, d') \<Longrightarrow> (d' = d \<Longrightarrow> P) \<Longrightarrow> (\<And>x. f d = Inr x \<Longrightarrow> k'' x d = (res, d') \<Longrightarrow> P) \<Longrightarrow> P"
  "andThen (query g) j d = (res, d') \<Longrightarrow> (j (g d) d = (res, d') \<Longrightarrow> P) \<Longrightarrow> P"
  by (auto simp: andThen_def ensure_def lift_res_def query_res_def query_def split: sum.splits if_splits)

lemma after_translated:
  "on_err h m d = (res, d') \<Longrightarrow> (\<And>r. m d = (r, d') \<Longrightarrow> P) \<Longrightarrow> P"
  by (auto simp: on_err_def split: prod.splits sum.splits)

section \<open>Lifting a relation to requests\<close>

definition permits :: "(uuid \<Rightarrow> bool) \<Rightarrow> auth_call \<Rightarrow> bool" where
  "permits A c \<longleftrightarrow> (case Authenticate (ac_env c) (bearerToken c) of Inl _ \<Rightarrow> True | Inr identity \<Rightarrow> A (idn_UserID identity))"

locale account_relation =
  fixes R :: "auth_db \<Rightarrow> auth_db \<Rightarrow> bool" and A :: "uuid \<Rightarrow> bool"
  assumes same: "R d d"
    and trans: "R d d1 \<Longrightarrow> R d1 d2 \<Longrightarrow> R d d2"
    and created: "create_with_role_body env user role onlyOne d = (Inr (), d') \<Longrightarrow>
        (role, onlyOne) \<in> {(''user'', False), (''superadmin'', True)} \<Longrightarrow> usr_tokenVersion user = 1 \<Longrightarrow> R d d'"
    and updated: "FindByID env i d = Inr u \<Longrightarrow> uuid_contract env \<Longrightarrow> usr_id u' = i \<Longrightarrow>
        usr_tokenVersion u' \<in> {usr_tokenVersion u, next_version u} \<Longrightarrow>
        Update_repo u' d = (Inr (), d') \<or> update_password_body u' d = (Inr (), d') \<Longrightarrow> R d d'"
    and email_stored: "StoreDeliveryEmail_repo i m d = (Inr (), d') \<Longrightarrow> R d d'"
    and role_updated: "A actor \<Longrightarrow> FindRole actor d = Inr RoleSuperadmin \<Longrightarrow>
        UpdateRole_repo target role t d = (Inr (), d') \<Longrightarrow> R d d'"
begin

lemma Update_repo_keeps:
  assumes "FindByID env i d = Inr u" and "uuid_contract env" and "usr_id u' = i"
    and "usr_tokenVersion u' \<in> {usr_tokenVersion u, next_version u}" and "Update_repo u' d = (res, d')"
  shows "R d d'"
proof (cases res)
  case (Inl e)
  then show ?thesis using assms(5) update_auth_execrows_error same unfolding Update_repo_def by blast
next
  case (Inr x)
  then show ?thesis using updated [OF assms(1-4)] assms(5) by simp
qed

lemma in_tx_keeps:
  assumes "auth_env_ok env" and "in_tx (ae_world env) (\<lambda>i. body) d = (res, d')"
    and "body d = (Inr (), d') \<Longrightarrow> R d d'"
  shows "R d d'"
proof -
  obtain retry where b: "backoff_contract retry" and w: "ae_world env = calm retry"
    using assms(1) by (auto simp: auth_env_ok_def)
  show ?thesis
  proof (cases res)
    case (Inl e)
    then show ?thesis using assms(2) same in_tx_calm_error [OF b] unfolding w by blast
  next
    case (Inr x)
    then show ?thesis using assms(2,3) in_tx_calm_ok [OF b, of "\<lambda>i. body"] unfolding w by blast
  qed
qed

lemma createWithRole_keeps:
  assumes "auth_env_ok env" and "createWithRole env u role onlyOne d = (res, d')"
    and "(role, onlyOne) \<in> {(''user'', False), (''superadmin'', True)}" and "usr_tokenVersion u = 1"
  shows "R d d'"
proof -
  obtain res' where "in_tx (ae_world env) (\<lambda>i. create_with_role_body env u role onlyOne) d = (res', d')"
    using assms(2) by (auto simp: createWithRole_def on_err_def split: prod.splits sum.splits)
  then show ?thesis by (rule in_tx_keeps [OF assms(1)]) (rule created [OF _ assms(3,4)])
qed

text \<open>The use cases: what comes before the write only reads.\<close>

lemma createUser_keeps:
  assumes "auth_env_ok env" and "createUser env input (\<lambda>u. createWithRole env u role onlyOne) d = (res, d')"
    and "(role, onlyOne) \<in> {(''user'', False), (''superadmin'', True)}"
  shows "R d d'"
proof -
  have "R d d'"
    if u: "NewUser pa i m n h t = Inr u" and run: "andThen (on_err f (createWithRole env u role onlyOne)) (\<lambda>_. ret x) d = (res, d')"
    for pa i m n h t u f x
  proof -
    obtain r where "createWithRole env u role onlyOne d = (r, d')"
      using run by (auto simp: andThen_def on_err_def ret_def split: prod.splits sum.splits)
    then show ?thesis using createWithRole_keeps [OF assms(1) _ assms(3)] u by (auto simp: NewUser_ok)
  qed
  then show ?thesis using assms(2) unfolding createUser_def
    by (elim after_reads) (simp_all add: same rerr_ok)
qed

lemma SignIn_keeps:
  assumes "SignIn env email password store d = (res, d')"
  shows "R d d'"
proof -
  have "R d d'" if "andThen (if store then StoreDeliveryEmail_repo i m else ret ()) (\<lambda>_. lift_res t) d = (res, d')" for i m t
  proof -
    have "d' = d \<or> (\<exists>r. StoreDeliveryEmail_repo i m d = (r, d'))"
      using that by (auto simp: andThen_def lift_res_def ret_def split: prod.splits sum.splits if_splits)
    moreover have "R d d'" if "StoreDeliveryEmail_repo i m d = (r, d')" for r
    proof (cases r)
      case (Inl e)
      then show ?thesis using that update_auth_execrows_error same unfolding StoreDeliveryEmail_repo_def by blast
    next
      case (Inr x)
      then show ?thesis using that email_stored by simp
    qed
    ultimately show ?thesis using same by blast
  qed
  then show ?thesis using assms unfolding SignIn_def
    by (auto simp: andThen_def on_err_def query_res_def ensure_def lift_res_def same split: sum.splits prod.splits if_splits)
qed

lemma SignOutAllDevices_keeps:
  assumes "auth_env_ok env" and "SignOutAllDevices env i d = (res, d')"
  shows "R d d'"
proof -
  have c: "uuid_contract env" using assms(1) by (simp add: auth_env_ok_def)
  show ?thesis using assms(2) unfolding SignOutAllDevices_def
  proof (elim after_translated after_reads)
    fix u r
    assume u: "FindByID env i d = Inr u" and run: "Update_repo (RevokeRefreshTokens (ae_now env) u) d = (r, d')"
    have "usr_id u = i" using FindByID_ok [OF c u] by blast
    then show "R d d'" using Update_repo_keeps [OF u c _ _ run] by (simp add: RevokeRefreshTokens_def)
  qed (simp add: same)
qed

lemma ChangePassword_keeps:
  assumes "auth_env_ok env" and "ChangePassword env actor i cur nxt out d = (res, d')"
  shows "R d d'"
proof -
  have c: "uuid_contract env" using assms(1) by (simp add: auth_env_ok_def)
  have "R d d'" if t: "target_user env i d = Inr u"
    and u': "User_ChangePassword h m out (ae_now env) u = Inr u'" and run: "UpdatePassword_repo env u' d = (r, d')" for u u' h m r
  proof (rule in_tx_keeps [OF assms(1) run [unfolded UpdatePassword_repo_def]])
    have u: "FindByID env i d = Inr u" using t by (simp add: target_user_def rerr_ok)
    have "usr_id u' = i" "usr_tokenVersion u' \<in> {usr_tokenVersion u, next_version u}"
      using FindByID_ok [OF c u] u' by (auto simp: User_ChangePassword_ok)
    then show "R d d'" if "update_password_body u' d = (Inr (), d')" using updated [OF u c] that by blast
  qed
  then show ?thesis using assms(2) unfolding ChangePassword_def
    by (elim after_reads) (simp_all add: same)
qed

lemma profile_update_keeps:
  assumes "auth_env_ok env" and "target_user env i d = Inr u" and "Update_repo u' d = (res, d')"
  shows "User_UpdateFullName name t u = Inr u' \<Longrightarrow> R d d'" and "ChangeStatus status t u = Inr u' \<Longrightarrow> R d d'"
proof -
  have c: "uuid_contract env" using assms(1) by (simp add: auth_env_ok_def)
  have u: "FindByID env i d = Inr u" using assms(2) by (simp add: target_user_def rerr_ok)
  have i: "usr_id u = i" using FindByID_ok [OF c u] by blast
  note keep = Update_repo_keeps [OF u c _ _ assms(3)]
  show "User_UpdateFullName name t u = Inr u' \<Longrightarrow> R d d'"
    by (rule keep) (simp_all add: User_UpdateFullName_ok i)
  show "ChangeStatus status t u = Inr u' \<Longrightarrow> R d d'"
    by (rule keep) (simp_all add: ChangeStatus_ok i)
qed

lemma UpdateFullName_keeps:
  assumes "auth_env_ok env" and "UpdateFullName env actor i name d = (res, d')"
  shows "R d d'"
  using assms(2) unfolding UpdateFullName_def
proof (elim after_reads)
  fix u'
  assume "UpdateFullName_read env actor i name d = Inr u'" and run: "Update_repo u' d = (res, d')"
  then obtain u where "target_user env i d = Inr u" "User_UpdateFullName name (ae_now env) u = Inr u'"
    by (auto simp: UpdateFullName_read_def ok_iff)
  then show "R d d'" using profile_update_keeps(1) [OF assms(1) _ run] by blast
qed (simp add: same)

lemma UpdateStatus_keeps:
  assumes "auth_env_ok env" and "UpdateStatus env actor i status d = (res, d')"
  shows "R d d'"
  using assms(2) unfolding UpdateStatus_def
proof (elim after_reads)
  fix u u'
  assume "target_user env i d = Inr u" "ChangeStatus status (ae_now env) u = Inr u'" "Update_repo u' d = (res, d')"
  then show "R d d'" using profile_update_keeps(2) [OF assms(1)] by blast
qed (simp_all add: same)

lemma UpdateRole_keeps:
  assumes "A actor" and "UpdateRole env actor i role d = (res, d')"
  shows "R d d'"
proof -
  have "R d d'" if "FindRole actor d = Inr RoleSuperadmin" and run: "UpdateRole_repo i role t d = (res, d')" for t
  proof (cases res)
    case (Inl e)
    then show ?thesis using run same by (auto simp: UpdateRole_repo_def exec_err)
  next
    case (Inr x)
    then show ?thesis using role_updated [OF assms(1) that(1)] run by simp
  qed
  then show ?thesis using assms(2) unfolding UpdateRole_def
    by (elim after_reads) (simp_all add: same)
qed

lemmas use_cases_keep = createUser_keeps SignIn_keeps SignOutAllDevices_keeps ChangePassword_keeps
  UpdateFullName_keeps UpdateStatus_keeps UpdateRole_keeps

lemma answered_keeps: "(\<And>res d'. use_case d = (res, d') \<Longrightarrow> R d d') \<Longrightarrow> R d (snd (answered answer use_case d))"
  by (simp add: answered_def split: prod.split)

lemma Refresh_keeps: "Refresh env raw d = (res, d') \<Longrightarrow> R d d'"
  unfolding Refresh_def
  by (auto simp: andThen_def on_err_def query_res_def ensure_def lift_res_def same split: sum.splits prod.splits if_splits)

lemma identity_keeps:
  assumes "permits A c" and "\<And>actor. A actor \<Longrightarrow> R d (snd (next actor d))"
  shows "R d (snd (requireIdentity c next d))"
  using assms by (auto simp: requireIdentity_def permits_def same split: sum.splits)

lemma request_keeps:
  assumes "auth_env_ok (ac_env c)" and "permits A c"
  shows "R d (auth_step c d)"
proof -
  note uses = createUser_keeps [OF assms(1)] SignIn_keeps SignOutAllDevices_keeps [OF assms(1)]
    ChangePassword_keeps [OF assms(1)] UpdateFullName_keeps [OF assms(1)] UpdateStatus_keeps [OF assms(1)]
    UpdateRole_keeps Refresh_keeps
  show ?thesis
    unfolding auth_step_def auth_handle_def Let_def SignUp_def CreateSuperadmin_def Create_repo_def CreateSuperadmin_repo_def
    by (cases "ac_request c")
      (auto split: option.split prod.split intro!: answered_keeps identity_keeps [OF assms(2)] intro: uses simp: same)
qed

lemma requests_keep: "list_all (\<lambda>c. auth_env_ok (ac_env c) \<and> permits A c) cs \<Longrightarrow> R d (fold auth_step cs d)"
proof (induction cs arbitrary: d)
  case (Cons c cs)
  then show ?case using request_keeps [of c d] trans by auto
qed (simp add: same)

end

section \<open>The invariant is kept\<close>

lemma to_int32_range: "to_int32 n < 2147483648"
  using signed_take_bit_int_less_exp [of 31 n] by (simp add: to_int32_def)

lemma user_update_inv:
  assumes "auth_inv d" and "\<And>r. aus_user_id (f r) = aus_user_id r" and "\<And>r. aus_email_lookup (f r) = aus_email_lookup r"
    and "\<And>r. r \<in> set (auth_users d) \<Longrightarrow> p r \<Longrightarrow> 1 \<le> aus_token_ver (f r) \<and> aus_token_ver (f r) < 2147483648"
  shows "auth_inv (d\<lparr>auth_users := update_where p f (auth_users d)\<rparr>)"
proof -
  have "map aus_user_id (update_where p f (auth_users d)) = map aus_user_id (auth_users d)"
    "map aus_email_lookup (update_where p f (auth_users d)) = map aus_email_lookup (auth_users d)"
    using assms(2,3) by (auto simp: update_where_def)
  moreover from this have "aus_user_id ` set (update_where p f (auth_users d)) = aus_user_id ` set (auth_users d)"
    by (metis list.set_map)
  ultimately show ?thesis using assms unfolding auth_inv_def by (auto simp: set_update_where)
qed

lemma stored_version:
  assumes "auth_inv d" and "r \<in> set (auth_users d)" and "v \<in> {aus_token_ver r, to_int64 (aus_token_ver r + 1)}"
    and "to_int32 v > 0"
  shows "to_int32 v = v" and "v \<ge> aus_token_ver r" and "v \<in> {aus_token_ver r, aus_token_ver r + 1}"
proof -
  have r: "1 \<le> aus_token_ver r" "aus_token_ver r < 2147483648" using assms(1,2) by (auto simp: auth_inv_def)
  then have v: "v \<in> {aus_token_ver r, aus_token_ver r + 1}" using assms(3) by (auto simp: to_int64_id)
  have "to_int32 2147483648 = - 2147483648" by (simp add: to_int32_def)
  then have "v \<noteq> 2147483648" using assms(4) by auto
  then show "to_int32 v = v" using v r by (intro to_int32_id) auto
  show "v \<ge> aus_token_ver r" "v \<in> {aus_token_ver r, aus_token_ver r + 1}" using v by auto
qed

lemma seeded_role:
  assumes "ro \<in> set seeded_roles"
  shows "find_row (\<lambda>r. aro_role_id r = aro_role_id ro) seeded_roles = Some ro"
proof (rule find_row_unique [OF _ assms])
  show "distinct (map aro_role_id seeded_roles)" by code_simp
qed simp_all

lemma create_with_role_ok:
  assumes "auth_inv d" and "create_with_role_body env user role onlyOne d = (Inr (), d')"
    and "role = ''user'' \<or> role = ''superadmin''" and "usr_tokenVersion user = 1"
  shows "auth_inv d'" and "auth_users d' = auth_users d @ [new_user_row env user]"
    and "onlyOne \<Longrightarrow> \<not> HasAnyUser d"
    and "\<exists>ur. aur_user_id ur = uuid_String (usr_id user) \<and> auth_user_roles d' = auth_user_roles d @ [ur]
      \<and> GetUserRole d' (uuid_String (usr_id user)) = Inr role"
    and "uuid_String (usr_id user) \<notin> aus_user_id ` set (auth_users d)"
proof -
  let ?k = "uuid_String (usr_id user)" and ?r = "new_user_row env user"
  obtain d1 where ins: "insert_auth_user ?r d = Inr d1"
    and ur: "CreateUserRole ?k (to_pg (usr_createdAt user)) (to_pg (usr_updatedAt user)) role d1 = Inr d'"
    and one: "onlyOne \<longrightarrow> \<not> HasAnyUser d"
    using assms(2) unfolding create_with_role_body_def
    by (auto simp: ok_iff query_def ret_def split: if_splits)
  have d1: "d1 = d\<lparr>auth_users := auth_users d @ [?r]\<rparr>"
    and new: "\<forall>x\<in>set (auth_users d). aus_user_id x \<noteq> ?k \<and> aus_email_lookup x \<noteq> aus_email_lookup ?r"
    using ins by (auto simp: insert_auth_user_ok new_user_row_def)
  have key: "aus_user_id ?r = ?k" "aus_token_ver ?r = 1" using assms(4) by (simp_all add: new_user_row_def to_int32_id)
  have "aur_user_id ` set (auth_user_roles d) \<subseteq> aus_user_id ` set (auth_users d)" using assms(1) by (simp add: auth_inv_def)
  then have none': "aur_user_id r \<noteq> ?k" if "r \<in> set (auth_user_roles d)" for r using new that by fastforce
  then have none: "?k \<notin> aur_user_id ` set (auth_user_roles d)" by (metis imageE)
  have no_role: "\<not> list_ex (\<lambda>r. aur_user_id r = ?k) (auth_user_roles d1)" using none' by (simp add: list_ex_iff d1)
  obtain ro where ro: "find_row (\<lambda>r. aro_name r = role) (auth_roles d1) = Some ro" "aro_name ro = role" "ro \<in> set seeded_roles"
    using assms(1,3) by (auto simp: auth_inv_def d1 seeded_roles_def find_row_def)
  define x where "x = \<lparr>aur_user_id = ?k, aur_role_id = aro_role_id ro, aur_created_at = to_pg (usr_createdAt user),
      aur_updated_at = to_pg (usr_updatedAt user)\<rparr>"
  have d': "d' = d1\<lparr>auth_user_roles := auth_user_roles d @ [x]\<rparr>"
    using ur no_role unfolding CreateUserRole_def ro x_def by (simp add: d1 split: if_splits)
  have users: "auth_users d' = auth_users d @ [?r]" and roles: "auth_user_roles d' = auth_user_roles d @ [x]"
    by (simp_all add: d' d1)
  have inv': "auth_inv d'"
    unfolding auth_inv_def
  proof (intro conjI)
    show "distinct (map aus_user_id (auth_users d'))" "distinct (map aus_email_lookup (auth_users d'))"
      using assms(1) new key(1) by (auto simp: users auth_inv_def)
    show "\<forall>r\<in>set (auth_users d'). 1 \<le> aus_token_ver r \<and> aus_token_ver r < 2147483648 \<and> (\<exists>i. aus_user_id r = uuid_String i)"
      using assms(1) key by (auto simp: users auth_inv_def)
    show "distinct (map aur_user_id (auth_user_roles d'))" using assms(1) none by (simp add: roles auth_inv_def x_def)
    show "aur_user_id ` set (auth_user_roles d') \<subseteq> aus_user_id ` set (auth_users d')"
      using assms(1) key(1) by (auto simp: roles users auth_inv_def x_def)
    show "auth_roles d' = seeded_roles" using assms(1) by (simp add: d' d1 auth_inv_def)
  qed
  then show "auth_inv d'" .
  show "auth_users d' = auth_users d @ [?r]" "onlyOne \<Longrightarrow> \<not> HasAnyUser d" using one by (simp_all add: d' d1)
  show "?k \<notin> aus_user_id ` set (auth_users d)" using new by auto
  have "find_row (\<lambda>r. aur_user_id r = ?k) (auth_user_roles d') = Some x"
  proof (rule find_row_unique)
    show "distinct (map aur_user_id (auth_user_roles d'))" using inv' by (simp add: auth_inv_def)
    show "x \<in> set (auth_user_roles d')" "aur_user_id x = ?k" by (simp_all add: d' x_def)
  qed (simp add: x_def)
  moreover have "find_row (\<lambda>r. aro_role_id r = aur_role_id x) (auth_roles d') = Some ro"
    using seeded_role [OF ro(3)] inv' by (simp add: auth_inv_def x_def)
  ultimately have "GetUserRole d' ?k = Inr role" by (simp add: GetUserRole_def row_as_def ro)
  then show "\<exists>ur. aur_user_id ur = ?k \<and> auth_user_roles d' = auth_user_roles d @ [ur] \<and> GetUserRole d' ?k = Inr role"
    by (auto simp: d' d1 x_def)
qed

text \<open>The two writes of an aggregate.\<close>

lemma user_write:
  assumes inv: "auth_inv d" and c: "uuid_contract env" and u: "FindByID env i d = Inr u" and i: "usr_id u' = i"
    and v: "usr_tokenVersion u' \<in> {usr_tokenVersion u, next_version u}"
    and run: "Update_repo u' d = (Inr (), d') \<or> update_password_body u' d = (Inr (), d')"
  obtains f where "d' = d\<lparr>auth_users := update_where (\<lambda>r. aus_user_id r = uuid_String i) f (auth_users d)\<rparr>"
    "\<And>r. aus_user_id (f r) = aus_user_id r" "\<And>r. aus_email_lookup (f r) = aus_email_lookup r"
    "\<And>r. aus_hashed_password (f r) = usr_passwordHash u'"
    "\<And>r. aus_token_ver (f r) = usr_tokenVersion u'"
    "usr_tokenVersion u \<le> usr_tokenVersion u'" "1 \<le> usr_tokenVersion u'" "usr_tokenVersion u' < 2147483648"
    "usr_tokenVersion u' \<noteq> usr_tokenVersion u \<Longrightarrow> usr_tokenVersion u' = usr_tokenVersion u + 1"
proof -
  obtain r where r: "r \<in> set (auth_users d)" "aus_user_id r = uuid_String i" "usr_tokenVersion u = aus_token_ver r"
    using FindByID_ok [OF c u] by metis
  obtain f where f: "f \<in> {password_columns u', \<lambda>r. password_columns u' (r\<lparr>aus_full_name := usr_fullName u', aus_status := usr_status u'\<rparr>)}"
    and run': "update_auth_execrows (\<lambda>r. aus_user_id r = uuid_String i) f d = (Inr (), d')"
    using run i by (auto simp: Update_repo_def update_password_body_def)
  have cols: "\<And>r. aus_user_id (f r) = aus_user_id r" "\<And>r. aus_email_lookup (f r) = aus_email_lookup r"
    "\<And>r. aus_hashed_password (f r) = usr_passwordHash u'" "\<And>r. aus_token_ver (f r) = to_int32 (usr_tokenVersion u')"
    using f by (auto simp: password_columns_def)
  have "\<forall>c\<in>set (auth_user_checks (f r)). \<not> fst c"
    and d': "d' = d\<lparr>auth_users := update_where (\<lambda>r. aus_user_id r = uuid_String i) f (auth_users d)\<rparr>"
    using run' r(1,2) by (simp_all add: update_auth_execrows_ok)
  then have "to_int32 (usr_tokenVersion u') > 0" using auth_user_checks_pass cols(4) by metis
  moreover have "usr_tokenVersion u' \<in> {aus_token_ver r, to_int64 (aus_token_ver r + 1)}"
    using v r(3) by (simp add: next_version_def)
  ultimately have ver: "to_int32 (usr_tokenVersion u') = usr_tokenVersion u'" "usr_tokenVersion u' \<ge> aus_token_ver r"
      "usr_tokenVersion u' \<in> {aus_token_ver r, aus_token_ver r + 1}"
    using stored_version [OF inv r(1)] by blast+
  show thesis
    by (rule that [OF d' cols(1,2,3)])
      (use ver cols(4) r to_int32_range [of "usr_tokenVersion u'"] inv in \<open>auto simp: auth_inv_def\<close>)
qed

lemma user_write_inv:
  assumes "auth_inv d" and "uuid_contract env" and "FindByID env i d = Inr u" and "usr_id u' = i"
    and "usr_tokenVersion u' \<in> {usr_tokenVersion u, next_version u}"
    and "Update_repo u' d = (Inr (), d') \<or> update_password_body u' d = (Inr (), d')"
  shows "auth_inv d'" and "auth_user_roles d' = auth_user_roles d" and "auth_roles d' = auth_roles d"
    and "auth_users d' = [] \<longleftrightarrow> auth_users d = []"
proof -
  obtain f where f: "d' = d\<lparr>auth_users := update_where (\<lambda>r. aus_user_id r = uuid_String i) f (auth_users d)\<rparr>"
    "\<And>r. aus_user_id (f r) = aus_user_id r" "\<And>r. aus_email_lookup (f r) = aus_email_lookup r"
    "\<And>r. aus_token_ver (f r) = usr_tokenVersion u'" "1 \<le> usr_tokenVersion u'" "usr_tokenVersion u' < 2147483648"
    by (rule user_write [OF assms]) blast
  show "auth_inv d'" unfolding f(1) by (rule user_update_inv [OF assms(1) f(2,3)]) (use f(4-6) in auto)
  show "auth_user_roles d' = auth_user_roles d" "auth_roles d' = auth_roles d" "auth_users d' = [] \<longleftrightarrow> auth_users d = []"
    by (simp_all add: f(1) update_where_def)
qed

lemma StoreDeliveryEmail_ok:
  "StoreDeliveryEmail_repo i m d = (Inr (), d') \<Longrightarrow>
     d' = d\<lparr>auth_users := update_where (\<lambda>r. aus_user_id r = uuid_String i) (\<lambda>r. r\<lparr>aus_email := Some m\<rparr>) (auth_users d)\<rparr>"
  by (simp add: StoreDeliveryEmail_repo_def update_auth_execrows_ok)

lemma StoreDeliveryEmail_inv:
  assumes "auth_inv d" and "StoreDeliveryEmail_repo i m d = (Inr (), d')"
  shows "auth_inv d'"
  unfolding StoreDeliveryEmail_ok [OF assms(2)] by (rule user_update_inv [OF assms(1)]) (use assms(1) in \<open>auto simp: auth_inv_def\<close>)

lemma CreateUserRole_cases:
  assumes "CreateUserRole k c t role d = Inr d'"
  obtains "d' = d"
  | f where "d' = d\<lparr>auth_user_roles := update_where (\<lambda>r. aur_user_id r = k) f (auth_user_roles d)\<rparr>"
      "\<And>r. aur_user_id (f r) = aur_user_id r"
  | ur where "d' = d\<lparr>auth_user_roles := auth_user_roles d @ [ur]\<rparr>" "aur_user_id ur \<notin> aur_user_id ` set (auth_user_roles d)"
      "aur_user_id ur \<in> aus_user_id ` set (auth_users d)"
proof (cases "find_row (\<lambda>r. aro_name r = role) (auth_roles d)")
  case None
  then show thesis using that(1) assms by (simp add: CreateUserRole_def)
next
  case (Some ro)
  define f where "f = (\<lambda>r :: auth_user_role_row. r\<lparr>aur_role_id := aro_role_id ro, aur_updated_at := t\<rparr>)"
  define ur where "ur = \<lparr>aur_user_id = k, aur_role_id = aro_role_id ro, aur_created_at = c, aur_updated_at = t\<rparr>"
  have "d' = d\<lparr>auth_user_roles := update_where (\<lambda>r. aur_user_id r = k) f (auth_user_roles d)\<rparr>
      \<or> (d' = d\<lparr>auth_user_roles := auth_user_roles d @ [ur]\<rparr> \<and> (\<forall>r\<in>set (auth_user_roles d). aur_user_id r \<noteq> k)
         \<and> (\<exists>u\<in>set (auth_users d). aus_user_id u = k))"
    using assms unfolding CreateUserRole_def Some f_def ur_def by (auto simp: list_ex_iff split: if_splits)
  moreover have "aur_user_id (f r) = aur_user_id r" "aur_user_id ur = k" for r by (simp_all add: f_def ur_def)
  ultimately show thesis using that(2,3) by (metis imageE imageI)
qed

lemma UpdateRole_inv:
  assumes "auth_inv d" and "UpdateRole_repo i role t d = (Inr (), d')"
  shows "auth_inv d'" and "auth_users d' = auth_users d"
proof -
  have "CreateUserRole (uuid_String i) (to_pg t) (to_pg t) role d = Inr d'"
    using assms(2) by (simp add: UpdateRole_repo_def exec_ok)
  then have "auth_inv d' \<and> auth_users d' = auth_users d"
  proof (cases rule: CreateUserRole_cases)
    case (2 f)
    have "map aur_user_id (update_where (\<lambda>r. aur_user_id r = uuid_String i) f (auth_user_roles d)) = map aur_user_id (auth_user_roles d)"
      by (rule map_update_where) (rule 2(2))
    moreover from this have "aur_user_id ` set (update_where (\<lambda>r. aur_user_id r = uuid_String i) f (auth_user_roles d))
        = aur_user_id ` set (auth_user_roles d)" by (metis list.set_map)
    ultimately show ?thesis using assms(1) by (simp add: 2(1) auth_inv_def)
  qed (use assms(1) in \<open>auto simp: auth_inv_def\<close>)
  then show "auth_inv d'" "auth_users d' = auth_users d" by auto
qed

section \<open>Versions never go back\<close>

definition grows :: "auth_db \<Rightarrow> auth_db \<Rightarrow> bool" where
  "grows d d' \<longleftrightarrow> (\<forall>r\<in>set (auth_users d). \<exists>r'\<in>set (auth_users d').
     aus_user_id r' = aus_user_id r \<and> aus_token_ver r \<le> aus_token_ver r')"

definition evolves :: "auth_db \<Rightarrow> auth_db \<Rightarrow> bool" where
  "evolves d d' \<longleftrightarrow> (auth_inv d \<longrightarrow> auth_inv d' \<and> grows d d')"

lemma grows_update_where:
  assumes "\<And>r. r \<in> set (auth_users d) \<Longrightarrow> p r \<Longrightarrow> aus_user_id (f r) = aus_user_id r \<and> aus_token_ver r \<le> aus_token_ver (f r)"
  shows "grows d (d\<lparr>auth_users := update_where p f (auth_users d)\<rparr>)"
  unfolding grows_def
proof
  fix r
  assume r: "r \<in> set (auth_users d)"
  let ?r' = "if p r then f r else r"
  have "?r' \<in> set (auth_users (d\<lparr>auth_users := update_where p f (auth_users d)\<rparr>))" using r by (simp add: set_update_where)
  moreover have "aus_user_id ?r' = aus_user_id r \<and> aus_token_ver r \<le> aus_token_ver ?r'" using assms [OF r] by simp
  ultimately show "\<exists>r'\<in>set (auth_users (d\<lparr>auth_users := update_where p f (auth_users d)\<rparr>)).
      aus_user_id r' = aus_user_id r \<and> aus_token_ver r \<le> aus_token_ver r'" by blast
qed

lemma grows_trans: "grows d d1 \<Longrightarrow> grows d1 d2 \<Longrightarrow> grows d d2"
  unfolding grows_def by (metis order_trans)

lemma user_write_grows:
  assumes inv: "auth_inv d" and c: "uuid_contract env" and u: "FindByID env i d = Inr u" and "usr_id u' = i"
    and "usr_tokenVersion u' \<in> {usr_tokenVersion u, next_version u}"
    and "Update_repo u' d = (Inr (), d') \<or> update_password_body u' d = (Inr (), d')"
  shows "grows d d'"
proof -
  obtain r0 where r0: "r0 \<in> set (auth_users d)" "aus_user_id r0 = uuid_String i" "usr_tokenVersion u = aus_token_ver r0"
    using FindByID_ok [OF c u] by metis
  obtain f where f: "d' = d\<lparr>auth_users := update_where (\<lambda>r. aus_user_id r = uuid_String i) f (auth_users d)\<rparr>"
    "\<And>r. aus_user_id (f r) = aus_user_id r" "\<And>r. aus_token_ver (f r) = usr_tokenVersion u'"
    "usr_tokenVersion u \<le> usr_tokenVersion u'"
    by (rule user_write [OF assms]) blast
  have "aus_token_ver r \<le> usr_tokenVersion u'" if "r \<in> set (auth_users d)" "aus_user_id r = uuid_String i" for r
  proof -
    have "r = r0" using inv that r0 by (auto simp: auth_inv_def distinct_map inj_on_def)
    then show ?thesis using f(4) r0(3) by simp
  qed
  then show ?thesis unfolding f(1) by (intro grows_update_where) (simp add: f(2,3))
qed

interpretation versions: account_relation evolves "\<lambda>actor. True"
proof
  show "evolves d d" for d by (auto simp: evolves_def grows_def)
  show "evolves d d2" if "evolves d d1" "evolves d1 d2" for d d1 d2
    using that grows_trans unfolding evolves_def by blast
  show "evolves d d'" if "create_with_role_body env user role onlyOne d = (Inr (), d')"
    "(role, onlyOne) \<in> {(''user'', False), (''superadmin'', True)}" "usr_tokenVersion user = 1" for env user role onlyOne d d'
    using create_with_role_ok(1,2) [OF _ that(1) _ that(3)] that(2) by (auto simp: evolves_def grows_def)
  show "evolves d d'" if "FindByID env i d = Inr u" "uuid_contract env" "usr_id u' = i"
    "usr_tokenVersion u' \<in> {usr_tokenVersion u, next_version u}"
    "Update_repo u' d = (Inr (), d') \<or> update_password_body u' d = (Inr (), d')" for env i d u u' d'
    using user_write_inv(1) [OF _ that(2,1,3-5)] user_write_grows [OF _ that(2,1,3-5)] by (simp add: evolves_def)
  show "evolves d d'" if "StoreDeliveryEmail_repo i m d = (Inr (), d')" for i m d d'
    using StoreDeliveryEmail_inv [OF _ that] grows_update_where [of d] unfolding evolves_def StoreDeliveryEmail_ok [OF that] by simp
  show "evolves d d'" if "UpdateRole_repo target role t d = (Inr (), d')" for target role t d d'
    using UpdateRole_inv [OF _ that] by (auto simp: evolves_def grows_def)
qed

section \<open>Signing out ends sessions\<close>

text \<open>A parsed token is the one that was signed.\<close>

definition jwt_contract :: "auth_env \<Rightarrow> auth_env \<Rightarrow> bool" where
  "jwt_contract signer verifier \<longleftrightarrow>
     (\<forall>c raw. ae_sign_jwt signer c = Inr raw \<longrightarrow> ae_parse_jwt verifier raw \<in> {None, Some c})"

definition version_of :: "auth_db \<Rightarrow> uuid \<Rightarrow> int \<Rightarrow> bool" where
  "version_of d i v \<longleftrightarrow> (\<exists>r\<in>set (auth_users d). aus_user_id r = uuid_String i \<and> v \<le> aus_token_ver r)"

lemma version_of_evolves: "auth_inv d \<Longrightarrow> evolves d d' \<Longrightarrow> version_of d i v \<Longrightarrow> version_of d' i v"
  unfolding version_of_def evolves_def grows_def by (metis order_trans)

lemma write_bumps:
  assumes inv: "auth_inv d" and c: "uuid_contract env" and u: "FindByID env i d = Inr u" and i: "usr_id u' = i"
    and v: "usr_tokenVersion u' = next_version u"
    and run: "Update_repo u' d = (Inr (), d') \<or> update_password_body u' d = (Inr (), d')"
    and "version_of d i v"
  shows "version_of d' i (v + 1)"
proof -
  obtain r where r: "r \<in> set (auth_users d)" "aus_user_id r = uuid_String i" "usr_tokenVersion u = aus_token_ver r"
    using FindByID_ok [OF c u] by metis
  have "v \<le> aus_token_ver r"
    using assms(7) inv r by (auto simp: version_of_def auth_inv_def distinct_map inj_on_def)
  have bounds: "1 \<le> aus_token_ver r" "aus_token_ver r < 2147483648" using inv r(1) by (auto simp: auth_inv_def)
  then have "usr_tokenVersion u' = aus_token_ver r + 1" using v r(3) by (simp add: next_version_exact)
  moreover obtain f where f: "d' = d\<lparr>auth_users := update_where (\<lambda>r. aus_user_id r = uuid_String i) f (auth_users d)\<rparr>"
    "\<And>r. aus_user_id (f r) = aus_user_id r" "\<And>r. aus_token_ver (f r) = usr_tokenVersion u'"
    by (rule user_write [OF inv c u i _ run]) (use v in auto)
  ultimately have "f r \<in> set (auth_users d')" "aus_user_id (f r) = uuid_String i" "v + 1 \<le> aus_token_ver (f r)"
    using r \<open>v \<le> aus_token_ver r\<close> by (auto simp: set_update_where)
  then show ?thesis by (auto simp: version_of_def)
qed

lemma sign_out_bumps:
  assumes inv: "auth_inv d" and env: "auth_env_ok env" and run: "SignOutAllDevices env i d = (Inr (), d')" and "version_of d i v"
  shows "version_of d' i (v + 1)"
proof -
  have c: "uuid_contract env" using env by (simp add: auth_env_ok_def)
  obtain u where u: "FindByID env i d = Inr u" and run': "Update_repo (RevokeRefreshTokens (ae_now env) u) d = (Inr (), d')"
    using run by (auto simp: SignOutAllDevices_def ok_iff query_res_def split: sum.splits)
  have "usr_id u = i" using FindByID_ok [OF c u] by blast
  then have "usr_id (RevokeRefreshTokens (ae_now env) u) = i"
    "usr_tokenVersion (RevokeRefreshTokens (ae_now env) u) = next_version u" by (simp_all add: RevokeRefreshTokens_def)
  then show ?thesis using write_bumps [OF inv c u _ _ _ assms(4)] run' by blast
qed

lemma password_sign_out_bumps:
  assumes inv: "auth_inv d" and env: "auth_env_ok env"
    and run: "ChangePassword env actor i cur nxt True d = (Inr (), d')" and "version_of d i v"
  shows "version_of d' i (v + 1)"
proof -
  have c: "uuid_contract env" using env by (simp add: auth_env_ok_def)
  obtain retry where b: "backoff_contract retry" and w: "ae_world env = calm retry" using env by (auto simp: auth_env_ok_def)
  obtain u u' h where u: "FindByID env i d = Inr u"
    and u': "User_ChangePassword h (\<lambda>old. Matches env old nxt) True (ae_now env) u = Inr u'"
    and "UpdatePassword_repo env u' d = (Inr (), d')"
    using run by (auto simp: ChangePassword_def target_user_def ok_iff query_res_def lift_res_def split: sum.splits)
  then have "update_password_body u' d = (Inr (), d')"
    using in_tx_calm_ok [OF b, of "\<lambda>i. update_password_body u'"] by (simp add: UpdatePassword_repo_def w)
  moreover have "usr_id u' = i" "usr_tokenVersion u' = next_version u"
    using FindByID_ok [OF c u] u' by (auto simp: User_ChangePassword_ok)
  ultimately show ?thesis using write_bumps [OF inv c u _ _ _ assms(4)] by blast
qed

text \<open>A refresh token older than the stored version is refused.\<close>

lemma old_token_refused:
  assumes inv: "auth_inv d" and c: "uuid_contract env" and "version_of d i v"
    and tok: "ae_parse_jwt env raw = Some cl" "cl_UserID cl = uuid_String i" "cl_TokenVersion cl < v"
  shows "Refresh env raw d = (Inl (AuthErr ErrInvalidCredentials), d)"
proof (cases "VerifyRefresh env raw")
  case (Inl e)
  then show ?thesis by (simp add: Refresh_def andThen_def on_err_def lift_res_def)
next
  case (Inr identity)
  then have idn: "idn_UserID identity = i" "idn_TokenVersion identity < v"
    using tok c by (auto simp: VerifyRefresh_def verify_token_def uuid_contract_def Let_def split: if_splits)
  have "usr_tokenVersion u \<ge> v" if f: "FindRefreshUserByID env i d = Inr (u, role)" for u role
  proof -
    obtain r where r: "find_row (\<lambda>r. aus_user_id r = uuid_String i) (auth_users d) = Some r"
      and u: "toDomain env (storedEmail (aus_email r)) r = Inr u"
      using f by (auto simp: FindRefreshUserByID_def auth_user_found_def with_role_def row_as_def ok_iff split: option.splits)
    have "usr_tokenVersion u = aus_token_ver r" using u by (auto simp: toDomain_def ok_iff RestoreUser_ok)
    moreover have "v \<le> aus_token_ver r"
      using assms(3) inv find_row_Some [OF r] by (auto simp: version_of_def auth_inv_def distinct_map inj_on_def)
    ultimately show ?thesis by simp
  qed
  then show ?thesis using Inr idn
    by (fastforce simp: Refresh_def andThen_def on_err_def lift_res_def query_res_def ensure_def split: sum.split prod.split)
qed

lemma unreadable_token_refused:
  "ae_parse_jwt env raw = None \<Longrightarrow> Refresh env raw d = (Inl (AuthErr ErrInvalidCredentials), d)"
  by (simp add: Refresh_def andThen_def on_err_def lift_res_def VerifyRefresh_def verify_token_def)

text \<open>The refresh token of a sign-in carries the version stored at that moment.\<close>

lemma sign_in_token:
  assumes inv: "auth_inv d" and c: "uuid_contract env" and run: "SignIn env email pw store d = (Inr t, d')"
  obtains u role i cl where "FindSignInUserByEmail env (ToLower (TrimSpace email)) d = Inr (u, role)" "usr_id u = i"
    "version_of d i (cl_TokenVersion cl)" "cl_UserID cl = uuid_String i" "ae_sign_jwt env cl = Inr (tok_RefreshToken t)"
proof -
  obtain u role where f: "FindSignInUserByEmail env (ToLower (TrimSpace email)) d = Inr (u, role)"
    and t: "Issue env u role = Inr t"
    using run by (auto simp: SignIn_def ok_iff query_res_def lift_res_def split: sum.splits prod.splits)
  obtain r where r: "find_row (\<lambda>r. aus_email_lookup r = ae_lookup env (ToLower (TrimSpace email))) (auth_users d) = Some r"
    and u: "toDomain env (ToLower (TrimSpace email)) r = Inr u"
    using f by (auto simp: FindSignInUserByEmail_def auth_user_found_def with_role_def row_as_def ok_iff split: option.splits)
  have "r \<in> set (auth_users d)" using find_row_Some [OF r] by simp
  then obtain i where i: "aus_user_id r = uuid_String i" using inv by (auto simp: auth_inv_def)
  then have ver: "usr_id u = i" "usr_tokenVersion u = aus_token_ver r"
    using u c by (auto simp: toDomain_def ok_iff RestoreUser_ok uuid_contract_def)
  moreover obtain cl where "ae_sign_jwt env cl = Inr (tok_RefreshToken t)" "cl_UserID cl = uuid_String (usr_id u)"
    "cl_TokenVersion cl = usr_tokenVersion u"
    using t by (auto simp: Issue_def issuer_sign_def ok_iff)
  moreover from this have "version_of d i (cl_TokenVersion cl)"
    unfolding version_of_def using \<open>r \<in> set (auth_users d)\<close> i ver by (intro bexI [of _ r]) auto
  ultimately show thesis using that [OF f] by metis
qed

section \<open>Only the superadmin changes roles\<close>

definition sole_superadmin :: "uuid \<Rightarrow> auth_db \<Rightarrow> bool" where
  "sole_superadmin s d \<longleftrightarrow> auth_inv d \<and> HasAnyUser d \<and> (\<forall>x. FindRole x d = Inr RoleSuperadmin \<longrightarrow> x = s)"

definition roles_kept :: "auth_db \<Rightarrow> auth_db \<Rightarrow> bool" where
  "roles_kept d d' \<longleftrightarrow> (\<forall>x r. FindRole x d = Inr r \<longrightarrow> FindRole x d' = Inr r)"

definition rank_stable :: "uuid \<Rightarrow> auth_db \<Rightarrow> auth_db \<Rightarrow> bool" where
  "rank_stable s d d' \<longleftrightarrow> (sole_superadmin s d \<longrightarrow> sole_superadmin s d' \<and> roles_kept d d')"

lemma FindRole_frame: "auth_user_roles d' = auth_user_roles d \<Longrightarrow> auth_roles d' = auth_roles d \<Longrightarrow> FindRole x d' = FindRole x d"
  by (simp add: FindRole_def GetUserRole_def)

lemma rank_stable_frame:
  assumes "auth_inv d \<Longrightarrow> auth_inv d'" and "auth_user_roles d' = auth_user_roles d" and "auth_roles d' = auth_roles d"
    and "auth_users d' = [] \<longleftrightarrow> auth_users d = []"
  shows "rank_stable s d d'"
proof -
  have "FindRole x d' = FindRole x d" for x by (rule FindRole_frame [OF assms(2,3)])
  then show ?thesis using assms(1,4) by (simp add: rank_stable_def sole_superadmin_def roles_kept_def HasAnyUser_def)
qed

lemma created_rank_stable:
  assumes run: "create_with_role_body env user role onlyOne d = (Inr (), d')"
    and kind: "(role, onlyOne) \<in> {(''user'', False), (''superadmin'', True)}" and v: "usr_tokenVersion user = 1"
  shows "rank_stable s d d'"
  unfolding rank_stable_def
proof
  assume sole: "sole_superadmin s d"
  let ?k = "uuid_String (usr_id user)"
  have inv: "auth_inv d" and any: "HasAnyUser d" using sole by (simp_all add: sole_superadmin_def)
  note new = create_with_role_ok [OF inv run _ v]
  have role: "role = ''user''" using kind new(3) any by auto
  obtain ur where ur: "aur_user_id ur = ?k" "auth_user_roles d' = auth_user_roles d @ [ur]" "GetUserRole d' ?k = Inr role"
    using new(4) role by auto
  have roles: "auth_roles d' = auth_roles d" using new(1) inv role by (simp add: auth_inv_def)
  have "?k \<notin> aur_user_id ` set (auth_user_roles d)" using new(5) inv role by (auto simp: auth_inv_def)
  then have none: "find_row (\<lambda>r. aur_user_id r = ?k) (auth_user_roles d) = None"
    unfolding find_row_None by (metis imageI)
  have other: "FindRole x d' = FindRole x d" if "x \<noteq> usr_id user" for x
    using that ur(1) uuid_String_inj [of x "usr_id user"]
    by (auto simp: FindRole_def GetUserRole_def ur(2) roles find_row_snoc row_as_def split: option.split)
  have now: "FindRole (usr_id user) d' = Inr ''user''" using ur(3) role by (simp add: FindRole_def)
  have before: "FindRole (usr_id user) d = Inl (AuthErr ErrNotFound)"
    using none by (simp add: FindRole_def GetUserRole_def row_as_def)
  have kept: "roles_kept d d'"
    unfolding roles_kept_def
  proof (intro allI impI)
    fix x r
    assume "FindRole x d = Inr r"
    then show "FindRole x d' = Inr r" using before other [of x] by (cases "x = usr_id user") auto
  qed
  have only: "x = s" if x: "FindRole x d' = Inr RoleSuperadmin" for x
  proof (cases "x = usr_id user")
    case True
    then show ?thesis using x now by (simp add: RoleSuperadmin_def)
  next
    case False
    then show ?thesis using x other sole by (simp add: sole_superadmin_def)
  qed
  have "auth_inv d'" "HasAnyUser d'" using new(1,2) role by (simp_all add: HasAnyUser_def)
  then show "sole_superadmin s d' \<and> roles_kept d d'" using kept only by (simp add: sole_superadmin_def)
qed

interpretation roles_of: account_relation "rank_stable s" "\<lambda>actor. actor \<noteq> s" for s
proof
  show "rank_stable s d d" for d by (simp add: rank_stable_def roles_kept_def)
  show "rank_stable s d d2" if "rank_stable s d d1" "rank_stable s d1 d2" for d d1 d2
    using that by (auto simp: rank_stable_def roles_kept_def)
  show "rank_stable s d d'" if "create_with_role_body env user role onlyOne d = (Inr (), d')"
    "(role, onlyOne) \<in> {(''user'', False), (''superadmin'', True)}" "usr_tokenVersion user = 1" for env user role onlyOne d d'
    by (rule created_rank_stable [OF that])
  show "rank_stable s d d'" if "FindByID env i d = Inr u" "uuid_contract env" "usr_id u' = i"
    "usr_tokenVersion u' \<in> {usr_tokenVersion u, next_version u}"
    "Update_repo u' d = (Inr (), d') \<or> update_password_body u' d = (Inr (), d')" for env i d u u' d'
  proof (cases "auth_inv d")
    case True
    then show ?thesis using user_write_inv [OF True that(2,1,3-5)] by (intro rank_stable_frame) auto
  qed (simp add: rank_stable_def sole_superadmin_def)
  show "rank_stable s d d'" if "StoreDeliveryEmail_repo i m d = (Inr (), d')" for i m d d'
    using StoreDeliveryEmail_inv [OF _ that] StoreDeliveryEmail_ok [OF that]
    by (intro rank_stable_frame) (auto simp: update_where_def)
  show "rank_stable s d d'" if "actor \<noteq> s" "FindRole actor d = Inr RoleSuperadmin"
    "UpdateRole_repo target role t d = (Inr (), d')" for actor d target role t d'
    using that by (auto simp: rank_stable_def sole_superadmin_def)
qed

section \<open>A sign-up can sign in\<close>

text \<open>bcrypt: a hash matches the password it was made of and no other.\<close>

definition bcrypt_contract :: "auth_env \<Rightarrow> auth_env \<Rightarrow> bool" where
  "bcrypt_contract env env' \<longleftrightarrow>
     (\<forall>pw h pw'. ae_bcrypt env pw = Inr h \<longrightarrow> (ae_bcrypt_matches env' h pw' \<longleftrightarrow> pw' = pw))"

lemma toDomain_new_user:
  assumes "uuid_contract env'" and "NewUser pa i m n h t = Inr u" and "ae_parse_address env' = pa"
  shows "\<exists>u'. toDomain env' (usr_email u) (new_user_row env u) = Inr u' \<and> usr_id u' = i \<and> usr_passwordHash u' = h
    \<and> usr_status u' = StatusActive \<and> usr_email u' = usr_email u"
  using assms
  by (auto simp: toDomain_def new_user_row_def NewUser_ok ok_iff RestoreUser_ok uuid_contract_def to_int32_id validStatus_def)

lemma sign_up_then_sign_in_run:
  assumes inv: "auth_inv d" and env: "auth_env_ok env" and c: "uuid_contract env'"
    and same: "ae_parse_address env' = ae_parse_address env" "ae_lookup env' = ae_lookup env"
    and bc: "bcrypt_contract env env'" and run: "SignUp env input d = (Inr i, d')"
    and m: "ToLower (TrimSpace email) = ToLower (TrimSpace (su_Email input))"
  shows "\<exists>u. usr_id u = i \<and> SignIn env' email pw False d' =
    (if pw = su_Password input then (Issue env' u ''user'', d') else (Inl (AuthErr ErrInvalidCredentials), d'))"
proof -
  obtain retry where b: "backoff_contract retry" and w: "ae_world env = calm retry" using env by (auto simp: auth_env_ok_def)
  obtain h u where h: "ae_bcrypt env (su_Password input) = Inr h"
    and u: "NewUser (ae_parse_address env) (ae_newID env) (su_Email input) (su_FullName input) h (ae_now env) = Inr u"
    and cr: "createWithRole env u ''user'' False d = (Inr (), d')" and i: "i = usr_id u"
    using run by (auto simp: SignUp_def createUser_def Create_repo_def ok_iff lift_res_def Hash_def ret_def split: sum.splits if_splits)
  have body: "create_with_role_body env u ''user'' False d = (Inr (), d')"
    using cr in_tx_calm_ok [OF b, of "\<lambda>i. create_with_role_body env u ''user'' False"]
    by (auto simp: createWithRole_def w on_err_ok)
  have u1: "usr_tokenVersion u = 1" "usr_email u = ToLower (TrimSpace (su_Email input))" using u by (simp_all add: NewUser_ok)
  note new = create_with_role_ok [OF inv body _ u1(1)]
  have users: "auth_users d' = auth_users d @ [new_user_row env u]" and inv': "auth_inv d'" using new(1,2) by simp_all
  have found: "find_row (\<lambda>r. aus_email_lookup r = ae_lookup env (usr_email u)) (auth_users d') = Some (new_user_row env u)"
    by (rule find_row_unique [where k = aus_email_lookup]) (use inv' in \<open>auto simp: auth_inv_def users new_user_row_def\<close>)
  obtain u' where u': "toDomain env' (usr_email u) (new_user_row env u) = Inr u'" "usr_id u' = i" "usr_passwordHash u' = h"
    "usr_status u' = StatusActive"
    using toDomain_new_user [OF c u same(1)] u i by (auto simp: NewUser_ok)
  have "GetUserRole d' (aus_user_id (new_user_row env u)) = Inr ''user''" using new(4) by (auto simp: new_user_row_def)
  then have "FindSignInUserByEmail env' (ToLower (TrimSpace email)) d' = Inr (u', ''user'')"
    using found u'(1) by (simp add: FindSignInUserByEmail_def auth_user_found_def with_role_def row_as_def m same(2) u1(2) [symmetric])
  moreover have "Matches env' h pw \<longleftrightarrow> pw = su_Password input" using bc h by (simp add: bcrypt_contract_def Matches_def)
  ultimately show ?thesis using u'
    by (auto simp: SignIn_def andThen_def on_err_def query_res_def ensure_def lift_res_def ret_def CanSignIn_def split: sum.split intro!: exI [of _ u'])
qed

section \<open>A profile update between read and write\<close>

lemma stale_update:
  assumes inv: "auth_inv d" and env: "auth_env_ok env" "auth_env_ok env'"
    and u: "FindByID env i d = Inr u" and stale: "UpdateFullName_read env i i name d = Inr stale"
    and pw: "ChangePassword env' i i cur nxt out d = (Inr (), d')"
    and wr: "Update_repo stale d' = (Inr (), d'')"
  shows "\<exists>r\<in>set (auth_users d''). aus_user_id r = uuid_String i \<and> aus_hashed_password r = usr_passwordHash u
    \<and> aus_token_ver r = usr_tokenVersion u"
proof -
  have c: "uuid_contract env" using env(1) by (simp add: auth_env_ok_def)
  obtain r where r: "r \<in> set (auth_users d)" "aus_user_id r = uuid_String i" "usr_tokenVersion u = aus_token_ver r" "usr_id u = i"
    using FindByID_ok [OF c u] by metis
  have "User_UpdateFullName name (ae_now env) u = Inr stale"
    using stale u by (simp add: UpdateFullName_read_def ok_iff target_user_def)
  then have st: "usr_id stale = i" "usr_passwordHash stale = usr_passwordHash u" "usr_tokenVersion stale = usr_tokenVersion u"
    using r(4) by (auto simp: User_UpdateFullName_ok)
  have "evolves d d'" by (rule versions.ChangePassword_keeps [OF env(2) pw])
  then obtain r' where r': "r' \<in> set (auth_users d')" "aus_user_id r' = uuid_String i"
    using inv r(1,2) by (auto simp: evolves_def grows_def)
  let ?f = "\<lambda>r. password_columns stale (r\<lparr>aus_full_name := usr_fullName stale, aus_status := usr_status stale\<rparr>)"
  have "?f r' \<in> set (auth_users d'')"
    using wr r' st(1) by (auto simp: Update_repo_def update_auth_execrows_ok set_update_where)
  moreover have "to_int32 (usr_tokenVersion u) = usr_tokenVersion u"
    using inv r(1,3) by (auto simp: auth_inv_def intro!: to_int32_id)
  ultimately show ?thesis using st r'(2) by (intro bexI [of _ "?f r'"]) (simp_all add: password_columns_def)
qed

end
