(* ===== verification/Auth_Scenario.thy ===== *)
theory Auth_Scenario
  imports Auth_Facts
begin

text \<open>
  Accounts run by the model's own definitions: a superadmin and a user sign up, the user signs in,
  the superadmin makes the user an admin, the user signs out everywhere. The surroundings are
  concrete: texts of uuids are parsed back, a hash is the password with a mark in front, and a token is
  the text of its claims. It shows that the hypotheses of the theorems about accounts can hold.
\<close>

section \<open>Reading a uuid\<close>

definition hex_digit :: "char \<Rightarrow> int" where
  "hex_digit c = (if (of_char c :: int) < 58 then of_char c - 48 else of_char c - 87)"

definition hex_value :: "string \<Rightarrow> int" where
  "hex_value s = fold (\<lambda>c n. 16 * n + hex_digit c) s 0"

definition parse_uuid_text :: "string \<Rightarrow> uuid result" where
  "parse_uuid_text s =
     (let i = word_of_int (hex_value (filter (\<lambda>c. c \<noteq> CHR ''-'') s)) in
      if uuid_String i = s then Inr i else Inl (ErrorString ''invalid UUID''))"

lemma hex_digit_char: "0 \<le> n \<Longrightarrow> n < 16 \<Longrightarrow> hex_digit (hex_char n) = n"
  unfolding hex_digit_def of_nat_of_char [symmetric, where 'a = int] by (auto simp: of_hex_char)

lemma hex_char_no_dash: "0 \<le> n \<Longrightarrow> n < 16 \<Longrightarrow> hex_char n \<noteq> CHR ''-''"
proof
  assume "0 \<le> n" "n < 16" "hex_char n = CHR ''-''"
  then have "(of_char CHR ''-'' :: nat) \<ge> 48" using of_hex_char [of n] by (simp split: if_splits)
  then show False by simp
qed

lemma hex_text_no_dash: "c \<in> set (hex_text k n) \<Longrightarrow> c \<noteq> CHR ''-''"
proof (induction k arbitrary: n)
  case (Suc k)
  then show ?case using hex_char_no_dash [of "n mod 16"] by auto
qed simp

lemma hex_value_text: "hex_value (hex_text k n) = n mod 16 ^ k"
proof (induction k arbitrary: n)
  case (Suc k)
  have "n mod (16 * 16 ^ k) = 16 * (n div 16 mod 16 ^ k) + n mod 16" by (rule zmod_zmult2_eq) simp
  then show ?case using Suc [of "n div 16"] by (simp add: hex_value_def hex_digit_char)
qed (simp add: hex_value_def)

lemma parse_uuid_String: "parse_uuid_text (uuid_String i) = Inr i"
proof -
  let ?h = "hex_text 32 (uint i)"
  have keep: "filter (\<lambda>c. c \<noteq> CHR ''-'') xs = xs" if "set xs \<subseteq> set ?h" for xs
    using that hex_text_no_dash by (auto simp: filter_id_conv)
  have parts: "set (take 8 ?h) \<subseteq> set ?h" "set (take 4 (drop 8 ?h)) \<subseteq> set ?h" "set (take 4 (drop 12 ?h)) \<subseteq> set ?h"
    "set (take 4 (drop 16 ?h)) \<subseteq> set ?h" "set (drop 20 ?h) \<subseteq> set ?h"
    by (meson set_take_subset set_drop_subset subset_trans)+
  have "take 8 xs @ take 4 (drop 8 xs) @ take 4 (drop 12 xs) @ take 4 (drop 16 xs) @ drop 20 xs = xs" for xs :: string
    using append_take_drop_id [of 8 xs] append_take_drop_id [of 4 "drop 8 xs"]
      append_take_drop_id [of 4 "drop 12 xs"] append_take_drop_id [of 4 "drop 16 xs"]
    by simp
  then have "filter (\<lambda>c. c \<noteq> CHR ''-'') (uuid_String i) = ?h"
    by (simp add: uuid_String_def Let_def keep [OF parts(1)] keep [OF parts(2)] keep [OF parts(3)] keep [OF parts(4)]
        keep [OF parts(5)])
  moreover have "word_of_int (hex_value ?h) = i"
  proof -
    have "0 \<le> uint i \<and> uint i < 16 ^ 32" using unsigned_less [of i, where ?'a = int] by simp
    then show ?thesis by (simp add: hex_value_text mod_pos_pos_trivial)
  qed
  ultimately show ?thesis by (simp add: parse_uuid_text_def Let_def)
qed

text \<open>Leading zeros are evaluated at once.\<close>

lemma hex_text_zero: "hex_text k 0 = replicate k CHR ''0''"
proof (induction k)
  case (Suc k)
  have "hex_char 0 = CHR ''0''" by code_simp
  then show ?case using Suc by (simp add: replicate_append_same)
qed simp

lemma hex_text_code [code]:
  "hex_text k n = (if n = 0 then replicate k CHR ''0''
     else case k of 0 \<Rightarrow> [] | Suc k \<Rightarrow> hex_text k (n div 16) @ [hex_char (n mod 16)])"
  by (auto simp: hex_text_zero split: nat.split)

section \<open>Tokens as texts\<close>

definition auth_time :: "int \<Rightarrow> gotime" where
  "auth_time n = \<lparr>instant = 345600000000000 + n * 60000000000, loc = Loc_UTC\<rparr>"

definition claims_text :: "token_claims \<Rightarrow> string" where
  "claims_text c = take 1 (cl_Type c) @ cl_UserID c @ hex_text 16 (cl_TokenVersion c) @ cl_Role c"

definition claims_of_text :: "string \<Rightarrow> token_claims" where
  "claims_of_text s =
     (let access = (take 1 s = ''a'') in
      \<lparr>cl_UserID = take 36 (drop 1 s), cl_TokenVersion = hex_value (take 16 (drop 37 s)), cl_Plan = ''free'',
       cl_Role = drop 53 s, cl_Type = (if access then ''access'' else ''refresh''), cl_IssuedAt = auth_time 0,
       cl_ExpiresAt = time_Add (auth_time 0) (if access then accessLifetime else refreshLifetime)\<rparr>)"

definition sign_claims :: "token_claims \<Rightarrow> string result" where
  "sign_claims c = (if claims_of_text (claims_text c) = c then Inr (claims_text c) else Inl (ErrorString ''signing''))"

definition parse_claims :: "string \<Rightarrow> token_claims option" where
  "parse_claims s = (if length s < 53 then None else Some (claims_of_text s))"

section \<open>The accounts\<close>

definition office :: "uuid \<Rightarrow> int \<Rightarrow> auth_env" where
  "office i n =
     \<lparr>ae_now = auth_time n, ae_newID = i, ae_parse_address = Some, ae_parse_uuid = parse_uuid_text,
      ae_lookup = (\<lambda>m. m), ae_bcrypt = (\<lambda>pw. Inr (''h:'' @ pw)), ae_bcrypt_matches = (\<lambda>h pw. h = ''h:'' @ pw),
      ae_sign_jwt = sign_claims, ae_parse_jwt = parse_claims, ae_issuer_now = (\<lambda>k. auth_time 0),
      ae_world = calm plain_retry\<rparr>"

lemma office_ok: "auth_env_ok (office i n)"
  by (auto simp: auth_env_ok_def uuid_contract_def office_def parse_uuid_String intro: plain_retry_contract)

lemma office_contracts:
  "uuid_contract (office i n)" "jwt_contract (office i n) (office j m)" "bcrypt_contract (office i n) (office j m)"
  by (auto simp: uuid_contract_def jwt_contract_def bcrypt_contract_def office_def parse_uuid_String sign_claims_def
      parse_claims_def split: if_splits)

definition ann_input :: SignUpInput where
  "ann_input = \<lparr>su_Email = '' Ann@Shop.com'', su_FullName = ''Ann'', su_Password = ''Passw0rd''\<rparr>"

definition owner_input :: SignUpInput where
  "owner_input = \<lparr>su_Email = ''owner@shop.com'', su_FullName = ''Owner'', su_Password = ''Secret#99''\<rparr>"

definition office_owner :: auth_db where
  "office_owner = snd (CreateSuperadmin (office 900 0) owner_input empty_auth_db)"

definition office_two :: auth_db where
  "office_two = snd (SignUp (office 901 5) ann_input office_owner)"

lemma empty_auth_inv: "auth_inv empty_auth_db"
  by (simp add: auth_inv_def empty_auth_db_def)

lemma office_owner_inv: "auth_inv office_owner"
proof -
  have "evolves empty_auth_db office_owner"
    unfolding office_owner_def CreateSuperadmin_def CreateSuperadmin_repo_def
    by (rule versions.createUser_keeps [OF office_ok [of 900 0]]) (auto intro: prod.collapse [symmetric])
  then show ?thesis using empty_auth_inv by (simp add: evolves_def)
qed

lemma office_two_run: "SignUp (office 901 5) ann_input office_owner = (Inr 901, office_two)"
proof -
  have "fst (SignUp (office 901 5) ann_input office_owner) = Inr 901" by code_simp
  then show ?thesis unfolding office_two_def by (metis prod.collapse)
qed

lemma office_two_inv: "auth_inv office_two"
proof -
  have "evolves office_owner office_two"
    using office_two_run unfolding SignUp_def Create_repo_def
    by (rule versions.createUser_keeps [OF office_ok]) simp
  then show ?thesis using office_owner_inv by (simp add: evolves_def)
qed

text \<open>The accounts they lead to, as values.\<close>

lemma office_two_value [code]:
  "office_two =
     \<lparr>auth_roles = seeded_roles,
      auth_users =
        [\<lparr>aus_user_id = ''00000000-0000-0000-0000-000000000384'', aus_full_name = ''Owner'', aus_email = None,
          aus_email_lookup = ''owner@shop.com'', aus_hashed_password = ''h:Secret#99'', aus_hashed_password_1 = [],
          aus_hashed_password_2 = [], aus_token_ver = 1, aus_created_at = 345600000000,
          aus_updated_at = 345600000000, aus_status = ''active''\<rparr>,
         \<lparr>aus_user_id = ''00000000-0000-0000-0000-000000000385'', aus_full_name = ''Ann'', aus_email = None,
          aus_email_lookup = ''ann@shop.com'', aus_hashed_password = ''h:Passw0rd'', aus_hashed_password_1 = [],
          aus_hashed_password_2 = [], aus_token_ver = 1, aus_created_at = 345900000000,
          aus_updated_at = 345900000000, aus_status = ''active''\<rparr>],
      auth_user_roles =
        [\<lparr>aur_user_id = ''00000000-0000-0000-0000-000000000384'',
          aur_role_id = ''00000000-0000-4000-8000-000000000001'', aur_created_at = 345600000000,
          aur_updated_at = 345600000000\<rparr>,
         \<lparr>aur_user_id = ''00000000-0000-0000-0000-000000000385'',
          aur_role_id = ''00000000-0000-4000-8000-000000000003'', aur_created_at = 345900000000,
          aur_updated_at = 345900000000\<rparr>]\<rparr>"
  by code_simp

text \<open>Requests with the access token of a sign-in.\<close>

definition signed_in :: "string \<Rightarrow> string \<Rightarrow> auth_db \<Rightarrow> Tokens" where
  "signed_in email pw d = projr (fst (SignIn (office 1 10) email pw False d))"

definition ann_tokens :: Tokens where "ann_tokens = signed_in ''ann@shop.com'' ''Passw0rd'' office_two"
definition owner_tokens :: Tokens where "owner_tokens = signed_in ''owner@shop.com'' ''Secret#99'' office_two"

lemma ann_tokens_value [code]:
  "ann_tokens =
     \<lparr>tok_AccessToken = ''a00000000-0000-0000-0000-0000000003850000000000000001user'',
      tok_RefreshToken = ''r00000000-0000-0000-0000-0000000003850000000000000001'',
      tok_ExpiresIn = 10800, tok_TokenType = ''Bearer''\<rparr>"
  by code_simp

lemma owner_tokens_value [code]:
  "owner_tokens =
     \<lparr>tok_AccessToken = ''a00000000-0000-0000-0000-0000000003840000000000000001superadmin'',
      tok_RefreshToken = ''r00000000-0000-0000-0000-0000000003840000000000000001'',
      tok_ExpiresIn = 10800, tok_TokenType = ''Bearer''\<rparr>"
  by code_simp

definition office_call :: "Tokens \<Rightarrow> int \<Rightarrow> auth_request \<Rightarrow> auth_call" where
  "office_call tokens n req =
     \<lparr>ac_env = office 902 n, ac_authorization = ''Bearer '' @ tok_AccessToken tokens, ac_access_cookie = None,
      ac_request = req\<rparr>"

definition make_ann_admin :: auth_call where
  "make_ann_admin = office_call owner_tokens 20 (ReqUpdateUserRole 901 (Some ''admin''))"

definition ann_takes_over :: auth_call where
  "ann_takes_over = office_call ann_tokens 30 (ReqUpdateUserRole 900 (Some ''user''))"

definition ann_renames :: auth_call where
  "ann_renames = office_call ann_tokens 31 (ReqUpdateFullName 901 (Some ''Ann B.''))"

lemma office_calls_ok:
  "list_all (\<lambda>c. auth_env_ok (ac_env c)) [make_ann_admin, ann_takes_over, ann_renames]"
  by (simp add: make_ann_admin_def ann_takes_over_def ann_renames_def office_call_def office_ok)

lemma ann_signs_in: "SignIn (office 1 10) ''ann@shop.com'' ''Passw0rd'' False office_two = (Inr ann_tokens, office_two)"
proof -
  have "\<not> isl (fst (SignIn (office 1 10) ''ann@shop.com'' ''Passw0rd'' False office_two))"
    "snd (SignIn (office 1 10) ''ann@shop.com'' ''Passw0rd'' False office_two) = office_two" by code_simp+
  then show ?thesis unfolding ann_tokens_def signed_in_def by (metis prod.collapse sum.collapse(2))
qed

definition office_admin :: auth_db where
  "office_admin = fold auth_step [make_ann_admin, ann_renames] office_two"

lemma office_admin_role: "FindRole 901 office_admin = Inr ''admin''"
  by code_simp

end
