(* ===== verification/Auth_Properties.thy ===== *)
theory Auth_Properties
  imports Auth_Scenario
begin

text \<open>
  The properties of accounts and sessions: what ends a session, who changes roles, that a sign-up can
  sign in with its password only, and what a profile update written late does. Each is applied to the
  accounts of theory Auth\_Scenario.
\<close>



text \<open>C33. Roles change only by the superadmin: while one user is the only superadmin, requests that do not
  authenticate as that user change nobody's role and make nobody superadmin.\<close>

theorem roles_change_only_by_superadmin:
  assumes "auth_inv d" and "HasAnyUser d" and "\<forall>x. FindRole x d = Inr RoleSuperadmin \<longrightarrow> x = s"
    and "list_all (\<lambda>c. auth_env_ok (ac_env c)
      \<and> (\<forall>identity. Authenticate (ac_env c) (bearerToken c) = Inr identity \<longrightarrow> idn_UserID identity \<noteq> s)) cs"
  shows "(\<forall>x role. FindRole x d = Inr role \<longrightarrow> FindRole x (fold auth_step cs d) = Inr role)
    \<and> (\<forall>x. FindRole x (fold auth_step cs d) = Inr RoleSuperadmin \<longrightarrow> x = s)"
proof -
  have "rank_stable s d (fold auth_step cs d)"
    by (rule roles_of.requests_keep) (use assms(4) in \<open>auto simp: permits_def list_all_iff split: sum.split\<close>)
  then show ?thesis using assms(1-3) by (auto simp: rank_stable_def sole_superadmin_def roles_kept_def)
qed

lemma roles_change_only_by_superadmin_witness:
  "FindRole 900 (fold auth_step [ann_takes_over, ann_renames] office_two) = Inr RoleSuperadmin"
proof -
  have two: "\<forall>x. FindRole x office_two = Inr RoleSuperadmin \<longrightarrow> x = 900"
  proof (intro allI impI)
    fix x
    assume x: "FindRole x office_two = Inr RoleSuperadmin"
    have "uuid_String 900 = ''00000000-0000-0000-0000-000000000384''" by code_simp
    then show "x = 900" using x uuid_String_inj [of x 900]
      by (auto simp: FindRole_def GetUserRole_def office_two_value seeded_roles_def find_row_def row_as_def
          RoleSuperadmin_def split: if_splits)
  qed
  have who: "map_sum id idn_UserID (Authenticate (ac_env ann_takes_over) (bearerToken ann_takes_over)) = Inr 901"
    "map_sum id idn_UserID (Authenticate (ac_env ann_renames) (bearerToken ann_renames)) = Inr 901" by code_simp+
  have calls: "list_all (\<lambda>c. auth_env_ok (ac_env c)
      \<and> (\<forall>identity. Authenticate (ac_env c) (bearerToken c) = Inr identity \<longrightarrow> idn_UserID identity \<noteq> 900))
      [ann_takes_over, ann_renames]"
    using office_calls_ok who by auto
  have "HasAnyUser office_two" by code_simp
  moreover have "FindRole 900 office_two = Inr RoleSuperadmin" by code_simp
  ultimately show ?thesis using roles_change_only_by_superadmin [OF office_two_inv _ two calls] by blast
qed



text \<open>C35. A profile update written late undoes a change of password: a name change that read the user
  before a change of password and writes after it puts the old password hash and the old version of
  the refresh tokens back, so the old password and the tokens that were signed out work again.\<close>

theorem stale_update_restores_password:
  assumes "auth_inv d" and "auth_env_ok env" "auth_env_ok env'"
    and "FindByID env i d = Inr u" and "UpdateFullName_read env i i name d = Inr stale"
    and "ChangePassword env' i i current next signOutAll d = (Inr (), d')"
    and "Update_repo stale d' = (Inr (), d'')"
  shows "\<exists>r\<in>set (auth_users d''). aus_user_id r = uuid_String i \<and> aus_hashed_password r = usr_passwordHash u
    \<and> aus_token_ver r = usr_tokenVersion u"
  by (rule stale_update [OF assms])

definition new_password_db :: auth_db where
  "new_password_db = snd (ChangePassword (office 2 40) 901 901 ''Passw0rd'' ''Other-123'' True office_two)"

lemma stale_update_restores_password_witness:
  "\<exists>stale u. UpdateFullName_read (office 2 39) 901 901 ''Ann B.'' office_two = Inr stale
     \<and> FindByID (office 2 39) 901 office_two = Inr u \<and>
     (\<exists>r\<in>set (auth_users (snd (Update_repo stale new_password_db))). aus_user_id r = uuid_String 901
        \<and> aus_hashed_password r = usr_passwordHash u \<and> aus_token_ver r = usr_tokenVersion u)"
proof -
  let ?stale = "projr (UpdateFullName_read (office 2 39) 901 901 ''Ann B.'' office_two)"
  have "\<not> isl (UpdateFullName_read (office 2 39) 901 901 ''Ann B.'' office_two)" by code_simp
  then have stale: "UpdateFullName_read (office 2 39) 901 901 ''Ann B.'' office_two = Inr ?stale" by simp
  have "\<not> isl (FindByID (office 2 39) 901 office_two)" by code_simp
  then obtain u where u: "FindByID (office 2 39) 901 office_two = Inr u" by (metis sum.collapse(2))
  have "fst (ChangePassword (office 2 40) 901 901 ''Passw0rd'' ''Other-123'' True office_two) = Inr ()" by code_simp
  then have pw: "ChangePassword (office 2 40) 901 901 ''Passw0rd'' ''Other-123'' True office_two = (Inr (), new_password_db)"
    unfolding new_password_db_def by (metis prod.collapse)
  have "fst (Update_repo ?stale new_password_db) = Inr ()" by code_simp
  then have wr: "Update_repo ?stale new_password_db = (Inr (), snd (Update_repo ?stale new_password_db))"
    by (metis prod.collapse)
  show ?thesis using stale_update_restores_password [OF office_two_inv office_ok office_ok u stale pw wr] stale u by blast
qed

end
