(* ===== verification/Idempotency.thy ===== *)
theory Idempotency
  imports Errors
begin

text \<open>
  Idempotency keys (common/http/idempotency.go, common/redis/idempotency.go). A write request names a
  key; the middleware reserves it, runs the handler and releases the key again unless the handler
  succeeded.

  \<open>IdempotencyMiddleware\<close> is the middleware as one request sees it. Requests run concurrently:
  \<open>idem_step\<close> interleaves the reservation, the handler and the release of any number of requests,
  with a clock; \<open>middleware_is_steps\<close> relates the two. The interface \<open>IdempotencyStore\<close> is a record of
  functions as in the code, its contract the locale \<open>reservations\<close>, and Redis the instance. A call to
  the store may fail with or without effect (\<open>fault\<close>). \<open>serve\<close> stands for the rest of the server: the
  error it returns, the status the response resolves to, and what it does to the state.
\<close>

section \<open>The middleware\<close>

record idem_request =
  rq_Method :: string
  rq_Path :: string
  rq_IdempotencyID :: string

datatype middleware_answer =
    Refused int string
  | StoreError go_error
  | Passed "go_error option" int
  | Panicked

definition isIdempotentWriteMethod :: "string \<Rightarrow> bool" where
  "isIdempotentWriteMethod meth \<longleftrightarrow> meth = ''POST'' \<or> meth = ''PUT'' \<or> meth = ''PATCH''"

definition idempotencyStoreKey :: "string \<Rightarrow> string \<Rightarrow> string \<Rightarrow> string" where
  "idempotencyStoreKey meth path i = ''idempotency:'' @ meth @ '':'' @ path @ '':'' @ i"

text \<open>What the middleware does before it touches the store: refuse, pass on, or go on with a key.\<close>

definition request_key :: "idem_request \<Rightarrow> middleware_answer + string option" where
  "request_key q =
     (if \<not> isIdempotentWriteMethod (rq_Method q) then Inr None
      else let i = TrimSpace (rq_IdempotencyID q) in
        if i = [] \<or> length i > 255 then Inl (Refused 400 ''invalid_idempotency_id'')
        else Inr (Some (idempotencyStoreKey (rq_Method q) (rq_Path q) i)))"

type_synonym fault = "(bool \<times> go_error) option"

record 'r IdempotencyStore =
  st_Reserve :: "fault \<Rightarrow> int \<Rightarrow> string \<Rightarrow> 'r \<Rightarrow> bool result \<times> 'r"
  st_Release :: "fault \<Rightarrow> string \<Rightarrow> 'r \<Rightarrow> unit result \<times> 'r"

definition must_release :: "go_error option \<Rightarrow> int \<Rightarrow> bool" where
  "must_release err status \<longleftrightarrow> err \<noteq> None \<or> status < 200 \<or> status \<ge> 300"

definition release_answer :: "go_error option \<Rightarrow> int \<Rightarrow> unit result \<Rightarrow> middleware_answer" where
  "release_answer err status released =
     (case released of
        Inl e \<Rightarrow> if err = None then StoreError e else Passed err status
      | Inr _ \<Rightarrow> Passed err status)"

definition IdempotencyMiddleware ::
  "'r IdempotencyStore \<Rightarrow> fault \<Rightarrow> fault \<Rightarrow> int \<Rightarrow> ('s \<Rightarrow> (go_error option \<times> int) \<times> 's) \<Rightarrow> idem_request
     \<Rightarrow> 'r \<times> 's \<Rightarrow> middleware_answer \<times> 'r \<times> 's" where
  "IdempotencyMiddleware store f1 f2 now serve q = (\<lambda>(r, s).
     case request_key q of
       Inl answer \<Rightarrow> (answer, r, s)
     | Inr None \<Rightarrow> (case serve s of ((err, status), s') \<Rightarrow> (Passed err status, r, s'))
     | Inr (Some key) \<Rightarrow>
         (case st_Reserve store f1 now key r of
            (Inl e, r') \<Rightarrow> (StoreError e, r', s)
          | (Inr reserved, r') \<Rightarrow>
              if \<not> reserved then (Refused 409 ''idempotency_id_reused'', r', s)
              else (case serve s of ((err, status), s') \<Rightarrow>
                if must_release err status
                then (case st_Release store f2 key r' of (released, r'') \<Rightarrow> (release_answer err status released, r'', s'))
                else (Passed err status, r', s'))))"

section \<open>Redis\<close>

text \<open>The keys with their expiry. SETNX sees a key until it expires.\<close>

type_synonym redis = "string \<Rightarrow> int option"

definition idempotencyKeyTTL :: int where "idempotencyKeyTTL = 24 * Hour"

definition key_held :: "redis \<Rightarrow> string \<Rightarrow> int \<Rightarrow> bool" where
  "key_held r key t = (case r key of None \<Rightarrow> False | Some expiry \<Rightarrow> t < expiry)"

definition SetNX :: "int \<Rightarrow> string \<Rightarrow> int \<Rightarrow> redis \<Rightarrow> bool \<times> redis" where
  "SetNX now key ttl r = (if key_held r key now then (False, r) else (True, r(key \<mapsto> now + ttl)))"

definition redis_Reserve :: "fault \<Rightarrow> int \<Rightarrow> string \<Rightarrow> redis \<Rightarrow> bool result \<times> redis" where
  "redis_Reserve f now key r =
     (case SetNX now key idempotencyKeyTTL r of (ok, r') \<Rightarrow>
        (case f of None \<Rightarrow> (Inr ok, r') | Some (applied, e) \<Rightarrow> (Inl e, if applied then r' else r)))"

definition redis_Release :: "fault \<Rightarrow> string \<Rightarrow> redis \<Rightarrow> unit result \<times> redis" where
  "redis_Release f key r =
     (case f of None \<Rightarrow> (Inr (), r(key := None)) | Some (applied, e) \<Rightarrow> (Inl e, if applied then r(key := None) else r))"

definition NewIdempotencyStore :: "redis IdempotencyStore" where
  "NewIdempotencyStore = \<lparr>st_Reserve = redis_Reserve, st_Release = redis_Release\<rparr>"

section \<open>Concurrent requests\<close>

datatype progress =
    Handling string int
  | Releasing string int "go_error option" int
  | Ended middleware_answer

record ('r, 's) idem_state =
  id_now :: int
  id_store :: 'r
  id_state :: 's
  id_progress :: "nat \<Rightarrow> progress option"
  id_succeeded :: "(string \<times> int) list"

text \<open>The key a request holds, and since when.\<close>

fun holding :: "progress option \<Rightarrow> (string \<times> int) option" where
  "holding (Some (Handling key t)) = Some (key, t)"
| "holding (Some (Releasing key t err status)) = Some (key, t)"
| "holding x = None"

definition active :: "('r, 's) idem_state \<Rightarrow> nat \<Rightarrow> string \<Rightarrow> int \<Rightarrow> bool" where
  "active st i key t \<longleftrightarrow> holding (id_progress st i) = Some (key, t)"

definition after_reserve :: "string \<Rightarrow> int \<Rightarrow> bool result \<Rightarrow> progress" where
  "after_reserve key now res =
     (case res of
        Inl e \<Rightarrow> Ended (StoreError e)
      | Inr reserved \<Rightarrow> if reserved then Handling key now else Ended (Refused 409 ''idempotency_id_reused''))"

definition after_handler :: "string \<Rightarrow> int \<Rightarrow> go_error option \<Rightarrow> int \<Rightarrow> progress" where
  "after_handler key t err status =
     (if must_release err status then Releasing key t err status else Ended (Passed err status))"

text \<open>\<open>deadline\<close> bounds how long a request holds a key: the clock does not pass it while one does.\<close>

inductive idem_step ::
  "'r IdempotencyStore \<Rightarrow> int \<Rightarrow> (nat \<Rightarrow> idem_request) \<Rightarrow> (nat \<Rightarrow> 's \<Rightarrow> (go_error option \<times> int) \<times> 's)
     \<Rightarrow> ('r, 's) idem_state \<Rightarrow> ('r, 's) idem_state \<Rightarrow> bool"
  for store deadline req serve where
  tick: "id_now st \<le> t \<Longrightarrow> \<forall>i key u. active st i key u \<longrightarrow> t < u + deadline \<Longrightarrow>
    idem_step store deadline req serve st (st\<lparr>id_now := t\<rparr>)"
| refuse: "id_progress st i = None \<Longrightarrow> request_key (req i) = Inl answer \<Longrightarrow>
    idem_step store deadline req serve st (st\<lparr>id_progress := (id_progress st)(i \<mapsto> Ended answer)\<rparr>)"
| bypass: "id_progress st i = None \<Longrightarrow> request_key (req i) = Inr None \<Longrightarrow> serve i (id_state st) = ((err, status), s') \<Longrightarrow>
    idem_step store deadline req serve st
      (st\<lparr>id_state := s', id_progress := (id_progress st)(i \<mapsto> Ended (Passed err status))\<rparr>)"
| reserve: "id_progress st i = None \<Longrightarrow> request_key (req i) = Inr (Some key) \<Longrightarrow>
    st_Reserve store f (id_now st) key (id_store st) = (res, r') \<Longrightarrow>
    idem_step store deadline req serve st
      (st\<lparr>id_store := r', id_progress := (id_progress st)(i \<mapsto> after_reserve key (id_now st) res)\<rparr>)"
| run: "id_progress st i = Some (Handling key t) \<Longrightarrow> serve i (id_state st) = ((err, status), s') \<Longrightarrow>
    idem_step store deadline req serve st
      (st\<lparr>id_state := s', id_progress := (id_progress st)(i \<mapsto> after_handler key t err status),
          id_succeeded := (if must_release err status then id_succeeded st else id_succeeded st @ [(key, t)])\<rparr>)"
| panic: "id_progress st i = Some (Handling key t) \<Longrightarrow> serve i (id_state st) = (x, s') \<Longrightarrow>
    idem_step store deadline req serve st
      (st\<lparr>id_state := s', id_progress := (id_progress st)(i \<mapsto> Ended Panicked)\<rparr>)"
| release: "id_progress st i = Some (Releasing key t err status) \<Longrightarrow>
    st_Release store f key (id_store st) = (released, r') \<Longrightarrow>
    idem_step store deadline req serve st
      (st\<lparr>id_store := r', id_progress := (id_progress st)(i \<mapsto> Ended (release_answer err status released))\<rparr>)"

definition idem_start :: "int \<Rightarrow> 'r \<Rightarrow> 's \<Rightarrow> ('r, 's) idem_state" where
  "idem_start now r s =
     \<lparr>id_now = now, id_store = r, id_state = s, id_progress = (\<lambda>i. None), id_succeeded = []\<rparr>"

section \<open>What is promised\<close>

text \<open>The contract of a store: a key it grants was free and is held for \<open>ttl\<close>; a release frees at most its
  key; a call that fails did its work or did nothing.\<close>

locale reservations =
  fixes store :: "'r IdempotencyStore" and held :: "'r \<Rightarrow> string \<Rightarrow> int \<Rightarrow> bool" and ttl :: int
  assumes reserve_law: "st_Reserve store f now key r = (res, r') \<Longrightarrow>
      (r' = r \<and> res \<noteq> Inr True) \<or>
      (\<not> held r key now \<and> (\<forall>k t. held r' k t \<longleftrightarrow> (if k = key then t < now + ttl else held r k t)))"
    and release_law: "st_Release store f key r = (released, r'') \<Longrightarrow>
      r'' = r \<or> (\<forall>k t. held r'' k t \<longleftrightarrow> k \<noteq> key \<and> held r k t)"
begin

definition keeps_until :: "('r, 's) idem_state \<Rightarrow> string \<Rightarrow> int \<Rightarrow> bool" where
  "keeps_until st key t \<longleftrightarrow> (\<forall>u. id_now st \<le> u \<and> u < t \<longrightarrow> held (id_store st) key u)"

definition idem_inv :: "int \<Rightarrow> ('r, 's) idem_state \<Rightarrow> bool" where
  "idem_inv deadline st \<longleftrightarrow>
     (\<forall>i key t. active st i key t \<longrightarrow> t \<le> id_now st \<and> id_now st < t + deadline \<and> keeps_until st key (t + ttl))
   \<and> (\<forall>i j key t u. active st i key t \<longrightarrow> active st j key u \<longrightarrow> i = j)
   \<and> (\<forall>key t. (key, t) \<in> set (id_succeeded st) \<longrightarrow>
        keeps_until st key (t + ttl) \<and> (\<forall>i u. active st i key u \<longrightarrow> t + ttl \<le> u))
   \<and> sorted_wrt (\<lambda>x y. fst x = fst y \<longrightarrow> snd x + ttl \<le> snd y) (id_succeeded st)"

lemma idem_invI:
  assumes "\<And>i key t. active st i key t \<Longrightarrow> t \<le> id_now st \<and> id_now st < t + deadline \<and> keeps_until st key (t + ttl)"
    and "\<And>i j key t u. active st i key t \<Longrightarrow> active st j key u \<Longrightarrow> i = j"
    and "\<And>key t. (key, t) \<in> set (id_succeeded st) \<Longrightarrow> keeps_until st key (t + ttl)"
    and "\<And>key t i u. (key, t) \<in> set (id_succeeded st) \<Longrightarrow> active st i key u \<Longrightarrow> t + ttl \<le> u"
    and "sorted_wrt (\<lambda>x y. fst x = fst y \<longrightarrow> snd x + ttl \<le> snd y) (id_succeeded st)"
  shows "idem_inv deadline st"
  unfolding idem_inv_def by (intro conjI allI impI) (use assms in \<open>blast+\<close>)

lemma holder:
  assumes "idem_inv deadline st" and "active st i key t"
  shows "t \<le> id_now st" and "id_now st < t + deadline" and "keeps_until st key (t + ttl)"
  using assms unfolding idem_inv_def by blast+

lemma one_holder: "idem_inv deadline st \<Longrightarrow> active st i key t \<Longrightarrow> active st j key u \<Longrightarrow> i = j"
  unfolding idem_inv_def by blast

lemma success:
  assumes "idem_inv deadline st" and "(key, t) \<in> set (id_succeeded st)"
  shows "keeps_until st key (t + ttl)" and "active st i key u \<Longrightarrow> t + ttl \<le> u"
  using assms unfolding idem_inv_def by blast+

lemma successes_apart:
  "idem_inv deadline st \<Longrightarrow> sorted_wrt (\<lambda>x y. fst x = fst y \<longrightarrow> snd x + ttl \<le> snd y) (id_succeeded st)"
  unfolding idem_inv_def by blast

text \<open>A reservation that takes effect finds nobody holding the key, and every success of it expired.\<close>

lemma free_key:
  assumes inv: "idem_inv deadline st" and "deadline \<le> ttl" and free: "\<not> held (id_store st) key (id_now st)"
  shows "\<not> active st j key u" and "(key, t) \<in> set (id_succeeded st) \<Longrightarrow> t + ttl \<le> id_now st"
proof -
  show "\<not> active st j key u"
    using holder(2,3) [OF inv, of j key u] assms(2) free by (auto simp: keeps_until_def)
  show "(key, t) \<in> set (id_succeeded st) \<Longrightarrow> t + ttl \<le> id_now st"
    using success(1) [OF inv, of key t] free by (force simp: keeps_until_def)
qed

text \<open>Requests that stop holding their keys, and keys that are still held as long as needed.\<close>

lemma fewer_inv:
  assumes inv: "idem_inv deadline st" and "id_now st' = id_now st" and "id_succeeded st' = id_succeeded st"
    and act: "\<And>j key t. active st' j key t \<Longrightarrow> active st j key t \<and> keeps_until st' key (t + ttl)"
    and held: "\<And>key t. (key, t) \<in> set (id_succeeded st) \<Longrightarrow> keeps_until st' key (t + ttl)"
  shows "idem_inv deadline st'"
proof (rule idem_invI)
  show "sorted_wrt (\<lambda>x y. fst x = fst y \<longrightarrow> snd x + ttl \<le> snd y) (id_succeeded st')"
    using successes_apart [OF inv] by (simp only: assms(3))
  show "t \<le> id_now st' \<and> id_now st' < t + deadline \<and> keeps_until st' key (t + ttl)" if "active st' i key t" for i key t
    using act [OF that] holder [OF inv, of i key t] by (simp add: assms(2))
  show "i = j" if "active st' i key t" "active st' j key u" for i j key t u
    using act [OF that(1)] act [OF that(2)] one_holder [OF inv] by blast
  show "keeps_until st' key (t + ttl)" if "(key, t) \<in> set (id_succeeded st')" for key t
    using held that by (simp add: assms(3))
  show "t + ttl \<le> u" if "(key, t) \<in> set (id_succeeded st')" "active st' i key u" for key t i u
    using act [OF that(2)] success(2) [OF inv, of key t i u] that(1) by (simp add: assms(3))
qed

lemma dropped_inv:
  assumes inv: "idem_inv deadline st" and "id_now st' = id_now st" and "id_store st' = id_store st"
    and "id_succeeded st' = id_succeeded st" and act: "\<And>j key t. active st' j key t \<Longrightarrow> active st j key t"
  shows "idem_inv deadline st'"
proof (rule fewer_inv [OF inv assms(2,4)])
  have keep: "keeps_until st' k t = keeps_until st k t" for k t by (simp add: keeps_until_def assms(2,3))
  show "active st j key t \<and> keeps_until st' key (t + ttl)" if "active st' j key t" for j key t
    using act [OF that] holder(3) [OF inv] unfolding keep by blast
  show "keeps_until st' key (t + ttl)" if "(key, t) \<in> set (id_succeeded st)" for key t
    using success(1) [OF inv that] unfolding keep .
qed

lemma tick_inv:
  assumes inv: "idem_inv deadline st" and "id_now st \<le> t" and before: "\<And>i key u. active st i key u \<Longrightarrow> t < u + deadline"
  shows "idem_inv deadline (st\<lparr>id_now := t\<rparr>)"
proof -
  have act: "active (st\<lparr>id_now := t\<rparr>) = active st" by (simp add: active_def fun_eq_iff)
  have keep: "keeps_until (st\<lparr>id_now := t\<rparr>) key u" if "keeps_until st key u" for key u
    using that assms(2) by (auto simp: keeps_until_def)
  show ?thesis
  proof (rule idem_invI, unfold act)
    show "u \<le> id_now (st\<lparr>id_now := t\<rparr>) \<and> id_now (st\<lparr>id_now := t\<rparr>) < u + deadline
        \<and> keeps_until (st\<lparr>id_now := t\<rparr>) key (u + ttl)" if "active st i key u" for i key u
      using holder(1) [OF inv that] before [OF that] keep [OF holder(3) [OF inv that]] assms(2) by simp
    show "sorted_wrt (\<lambda>x y. fst x = fst y \<longrightarrow> snd x + ttl \<le> snd y) (id_succeeded (st\<lparr>id_now := t\<rparr>))"
      using successes_apart [OF inv] by simp
  qed (use keep one_holder [OF inv] success [OF inv] in auto)
qed

lemma reserve_inv:
  assumes inv: "idem_inv deadline st" and dl: "0 < deadline" "deadline \<le> ttl" and i: "id_progress st i = None"
    and run: "st_Reserve store f (id_now st) key (id_store st) = (res, r')"
    and st': "st' = st\<lparr>id_store := r', id_progress := (id_progress st)(i \<mapsto> after_reserve key (id_now st) res)\<rparr>"
  shows "idem_inv deadline st'"
proof (cases "r' = id_store st \<and> res \<noteq> Inr True")
  case True
  then have "holding (Some (after_reserve key (id_now st) res)) = None"
    by (auto simp: after_reserve_def split: sum.split)
  then show ?thesis
    by (intro dropped_inv [OF inv]) (use True in \<open>auto simp: st' active_def split: if_splits\<close>)
next
  case False
  then have free: "\<not> held (id_store st) key (id_now st)"
    and store: "\<And>k t. held r' k t \<longleftrightarrow> (if k = key then t < id_now st + ttl else held (id_store st) k t)"
    using reserve_law [OF run] by blast+
  note none = free_key [OF inv dl(2) free]
  have act: "active st' j k t \<Longrightarrow> (j \<noteq> i \<and> k \<noteq> key \<and> active st j k t) \<or> (j = i \<and> k = key \<and> t = id_now st)" for j k t
    using none(1) i by (auto simp: st' active_def after_reserve_def split: if_splits sum.splits)
  have new: "keeps_until st' key (id_now st + ttl)" by (simp add: keeps_until_def st' store)
  have old: "keeps_until st' k t" if "keeps_until st k t" "k \<noteq> key \<or> t \<le> id_now st" for k t
    using that by (auto simp: keeps_until_def st' store)
  show ?thesis
  proof (rule idem_invI)
    show "t \<le> id_now st' \<and> id_now st' < t + deadline \<and> keeps_until st' k (t + ttl)" if "active st' j k t" for j k t
      using act [OF that] holder [OF inv, of j k t] new old dl by (auto simp: st')
    show "j = l" if "active st' j k t" "active st' l k u" for j l k t u
      using act [OF that(1)] act [OF that(2)] one_holder [OF inv] by blast
    have past: "t + ttl \<le> id_now st" if "(key, t) \<in> set (id_succeeded st')" for t
      using none(2) that by (simp add: st')
    show "keeps_until st' k (t + ttl)" if k: "(k, t) \<in> set (id_succeeded st')" for k t
    proof (cases "k = key")
      case True
      then have "t + ttl \<le> id_now st" using past k by simp
      then show ?thesis by (auto simp: keeps_until_def st')
    next
      case False
      then show ?thesis using success(1) [OF inv] k old by (simp add: st')
    qed
    show "t + ttl \<le> u" if k: "(k, t) \<in> set (id_succeeded st')" and "active st' j k u" for k t j u
      using act [OF that(2)] success(2) [OF inv, of k t j u] past k by (auto simp: st')
    show "sorted_wrt (\<lambda>x y. fst x = fst y \<longrightarrow> snd x + ttl \<le> snd y) (id_succeeded st')"
      using successes_apart [OF inv] by (simp add: st')
  qed
qed

lemma run_inv:
  assumes inv: "idem_inv deadline st" and i: "id_progress st i = Some (Handling key t)"
    and st': "st' = st\<lparr>id_state := s', id_progress := (id_progress st)(i \<mapsto> after_handler key t err status),
          id_succeeded := (if must_release err status then id_succeeded st else id_succeeded st @ [(key, t)])\<rparr>"
  shows "idem_inv deadline st'"
proof (cases "must_release err status")
  case True
  then show ?thesis
    by (intro dropped_inv [OF inv]) (use i in \<open>auto simp: st' active_def after_handler_def split: if_splits\<close>)
next
  case False
  have here: "active st i key t" using i by (simp add: active_def)
  have act: "active st' j k u \<Longrightarrow> j \<noteq> i \<and> active st j k u" for j k u
    using False by (auto simp: st' active_def after_handler_def split: if_splits)
  have only: "\<not> active st' j key u" for j u using act [of j key u] here one_holder [OF inv] by blast
  have keep: "keeps_until st' k u \<longleftrightarrow> keeps_until st k u" for k u by (simp add: keeps_until_def st')
  show ?thesis
  proof (rule idem_invI, unfold keep)
    have done': "id_succeeded st' = id_succeeded st @ [(key, t)]" by (simp add: st' False)
    show "u \<le> id_now st' \<and> id_now st' < u + deadline \<and> keeps_until st k (u + ttl)" if "active st' j k u" for j k u
      using act [OF that] holder [OF inv, of j k u] by (simp add: st')
    show "j = l" if "active st' j k u" "active st' l k v" for j l k u v
      using act [OF that(1)] act [OF that(2)] one_holder [OF inv] by blast
    show "keeps_until st k (u + ttl)" if "(k, u) \<in> set (id_succeeded st')" for k u
      using that success(1) [OF inv] holder(3) [OF inv here] by (auto simp: done')
    show "u + ttl \<le> v" if "(k, u) \<in> set (id_succeeded st')" "active st' j k v" for k u j v
      using that(1) success(2) [OF inv, of k u j v] act [OF that(2)] only [of j v] that(2) by (auto simp: done')
    show "sorted_wrt (\<lambda>x y. fst x = fst y \<longrightarrow> snd x + ttl \<le> snd y) (id_succeeded st')"
      using successes_apart [OF inv] success(2) [OF inv _ here] by (auto simp: done' sorted_wrt_append)
  qed
qed

lemma release_inv:
  assumes inv: "idem_inv deadline st" and i: "id_progress st i = Some (Releasing key t err status)"
    and run: "st_Release store f key (id_store st) = (released, r')"
    and st': "st' = st\<lparr>id_store := r', id_progress := (id_progress st)(i \<mapsto> Ended a)\<rparr>"
  shows "idem_inv deadline st'"
proof (cases "r' = id_store st")
  case True
  then show ?thesis by (intro dropped_inv [OF inv]) (auto simp: st' active_def split: if_splits)
next
  case False
  then have store: "\<And>k t. held r' k t \<longleftrightarrow> k \<noteq> key \<and> held (id_store st) k t" using release_law [OF run] by blast
  have here: "active st i key t" using i by (simp add: active_def)
  have act: "active st j k u \<and> k \<noteq> key" if "active st' j k u" for j k u
  proof -
    have "j \<noteq> i" "active st j k u" using that by (auto simp: st' active_def split: if_splits)
    then show ?thesis using here one_holder [OF inv] by blast
  qed
  have keep: "keeps_until st' k u" if "keeps_until st k u" "k \<noteq> key \<or> u \<le> id_now st" for k u
    using that by (auto simp: keeps_until_def st' store)
  show ?thesis
  proof (rule fewer_inv [OF inv])
    show "active st j k u \<and> keeps_until st' k (u + ttl)" if "active st' j k u" for j k u
      using act [OF that] keep holder(3) [OF inv] by blast
    show "keeps_until st' k (u + ttl)" if "(k, u) \<in> set (id_succeeded st)" for k u
    proof (rule keep)
      show "k \<noteq> key \<or> u + ttl \<le> id_now st"
        using holder(1) [OF inv here] success(2) [OF inv that, of i t] here by fastforce
      show "keeps_until st k (u + ttl)" by (rule success(1) [OF inv that])
    qed
  qed (simp_all add: st')
qed

lemma step_inv:
  assumes "idem_step store deadline req serve st st'" and "0 < deadline" "deadline \<le> ttl" and "idem_inv deadline st"
  shows "idem_inv deadline st'"
  using assms(1,4)
proof (cases rule: idem_step.cases)
  case (tick t)
  show ?thesis unfolding tick(1) by (rule tick_inv [OF assms(4) tick(2)]) (use tick(3) in blast)
next
  case (reserve i key f res r')
  show ?thesis by (rule reserve_inv [OF assms(4,2,3) reserve(2,4,1)])
next
  case (run i key t err status s')
  show ?thesis by (rule run_inv [OF assms(4) run(2,1)])
next
  case (release i key t err status f released r')
  show ?thesis by (rule release_inv [OF assms(4) release(2,3,1)])
next
  case (refuse i answer)
  show ?thesis by (rule dropped_inv [OF assms(4)]) (use refuse in \<open>auto simp: active_def split: if_splits\<close>)
next
  case (bypass i err status s')
  show ?thesis by (rule dropped_inv [OF assms(4)]) (use bypass in \<open>auto simp: active_def split: if_splits\<close>)
next
  case (panic i key t x s')
  show ?thesis by (rule dropped_inv [OF assms(4)]) (use panic in \<open>auto simp: active_def split: if_splits\<close>)
qed

lemma reachable_inv:
  assumes "(idem_step store deadline req serve)\<^sup>*\<^sup>* (idem_start now r s) st" and "0 < deadline" "deadline \<le> ttl"
  shows "idem_inv deadline st"
  using assms(1)
proof (induction rule: rtranclp_induct)
  case base
  show ?case by (simp add: idem_inv_def idem_start_def active_def)
next
  case (step st st')
  then show ?case using step_inv assms(2,3) by blast
qed

end

text \<open>Redis keeps the contract, with a day.\<close>

interpretation redis_store: reservations NewIdempotencyStore key_held idempotencyKeyTTL
proof
  show "(r' = r \<and> res \<noteq> Inr True) \<or> (\<not> key_held r key now \<and>
      (\<forall>k t. key_held r' k t \<longleftrightarrow> (if k = key then t < now + idempotencyKeyTTL else key_held r k t)))"
    if "st_Reserve NewIdempotencyStore f now key r = (res, r')" for f now key r res r'
    using that by (auto simp: NewIdempotencyStore_def redis_Reserve_def SetNX_def key_held_def split: option.splits if_splits)
  show "r' = r \<or> (\<forall>k t. key_held r' k t \<longleftrightarrow> k \<noteq> key \<and> key_held r k t)"
    if "st_Release NewIdempotencyStore f key r = (released, r')" for f key r released r'
    using that by (auto simp: NewIdempotencyStore_def redis_Release_def key_held_def split: option.splits if_splits)
qed

section \<open>The middleware is its steps\<close>

definition success_of :: "idem_request \<Rightarrow> int \<Rightarrow> middleware_answer \<Rightarrow> (string \<times> int) list" where
  "success_of q now answer =
     (case (request_key q, answer) of
        (Inr (Some key), Passed err status) \<Rightarrow> if must_release err status then [] else [(key, now)]
      | _ \<Rightarrow> [])"

text \<open>Run alone, the steps of a request do what the middleware does.\<close>

lemma middleware_is_steps:
  assumes run: "IdempotencyMiddleware store f1 f2 (id_now st) (serve i) (req i) (id_store st, id_state st) = (answer, r', s')"
    and i: "id_progress st i = None"
  shows "(idem_step store deadline req serve)\<^sup>*\<^sup>* st
    (st\<lparr>id_store := r', id_state := s', id_progress := (id_progress st)(i \<mapsto> Ended answer),
        id_succeeded := id_succeeded st @ success_of (req i) (id_now st) answer\<rparr>)"
    (is "?steps\<^sup>*\<^sup>* st ?st'")
proof (cases "request_key (req i)")
  case (Inl a)
  then have "?st' = st\<lparr>id_progress := (id_progress st)(i \<mapsto> Ended a)\<rparr>"
    using run by (simp add: IdempotencyMiddleware_def success_of_def)
  then show ?thesis using idem_step.refuse [where req = req and i = i, OF i Inl] by auto
next
  case (Inr k)
  obtain err status s1 where serve: "serve i (id_state st) = ((err, status), s1)" by (metis surj_pair)
  show ?thesis
  proof (cases k)
    case None
    then have "?st' = st\<lparr>id_state := s1, id_progress := (id_progress st)(i \<mapsto> Ended (Passed err status))\<rparr>"
      using run Inr serve by (simp add: IdempotencyMiddleware_def success_of_def)
    then show ?thesis using idem_step.bypass [where req = req and i = i and serve = serve, OF i _ serve] Inr None by auto
  next
    case (Some key)
    obtain res r1 where res: "st_Reserve store f1 (id_now st) key (id_store st) = (res, r1)" by (metis surj_pair)
    let ?st1 = "st\<lparr>id_store := r1, id_progress := (id_progress st)(i \<mapsto> after_reserve key (id_now st) res)\<rparr>"
    have step1: "?steps st ?st1" using idem_step.reserve [where req = req and i = i, OF i _ res] Inr Some by simp
    show ?thesis
    proof (cases "res = Inr True")
      case False
      then have "?st' = ?st1"
        using run Inr Some res
        by (cases res) (auto simp: IdempotencyMiddleware_def success_of_def after_reserve_def)
      then show ?thesis using step1 by auto
    next
      case True
      let ?st2 = "?st1\<lparr>id_state := s1, id_progress := (id_progress ?st1)(i \<mapsto> after_handler key (id_now st) err status),
          id_succeeded := (if must_release err status then id_succeeded ?st1 else id_succeeded ?st1 @ [(key, id_now st)])\<rparr>"
      have step2: "?steps ?st1 ?st2"
        by (rule idem_step.run) (use True serve in \<open>simp_all add: after_reserve_def\<close>)
      show ?thesis
      proof (cases "must_release err status")
        case False
        then have "?st' = ?st2"
          using run Inr Some res True serve
          by (auto simp: IdempotencyMiddleware_def success_of_def after_handler_def)
        then show ?thesis using step1 step2 by auto
      next
        case rel: True
        obtain released r2 where r2: "st_Release store f2 key r1 = (released, r2)" by (metis surj_pair)
        let ?st3 = "?st2\<lparr>id_store := r2, id_progress := (id_progress ?st2)(i \<mapsto> Ended (release_answer err status released))\<rparr>"
        have "?steps ?st2 ?st3"
          by (rule idem_step.release) (use rel r2 in \<open>simp_all add: after_handler_def\<close>)
        moreover have "?st' = ?st3"
          using run Inr Some res True serve rel r2
          by (auto simp: IdempotencyMiddleware_def success_of_def release_answer_def split: sum.splits)
        ultimately show ?thesis using step1 step2 by auto
      qed
    qed
  qed
qed

text \<open>DELETE requests are not guarded, and a key is shared by all resources of a route.\<close>

lemma delete_unguarded: "request_key \<lparr>rq_Method = ''DELETE'', rq_Path = p, rq_IdempotencyID = i\<rparr> = Inr None"
  by (simp add: request_key_def isIdempotentWriteMethod_def)

text \<open>A failed request whose release fails keeps its key: the retry is refused.\<close>

lemma failed_release_blocks_retry:
  assumes "request_key q = Inr (Some key)" and "r key = None" and "serve s = ((err, status), s')" and "must_release err status"
    and "now \<le> now'" "now' < now + idempotencyKeyTTL"
  shows "\<exists>answer r'. IdempotencyMiddleware NewIdempotencyStore None (Some (False, e)) now serve q (r, s) = (answer, r', s')
    \<and> IdempotencyMiddleware NewIdempotencyStore None f now' serve q (r', s'') = (Refused 409 ''idempotency_id_reused'', r', s'')"
  using assms by (simp add: IdempotencyMiddleware_def NewIdempotencyStore_def redis_Reserve_def redis_Release_def
      SetNX_def key_held_def)

end
