(* ===== verification/Answers.thy ===== *)
theory Answers
  imports Queries
begin

text \<open>
  What the request handlers of api/http/handler.go answer with: clock times, bodies, problems, and the
  function that turns the errors of each endpoint into an answer.

  The body of an answer is the aggregate whose fields the code copies; where it converts them (clock
  times, UTC) the conversion is written out. The error functions of the file are one \<open>switch\<close> each over
  the status code of the error, with a default of 500; the codes of the switch are the lists here.
\<close>

section \<open>Clock times\<close>

definition clock_digits :: "int \<Rightarrow> string" where
  "clock_digits n = [char_of (48 + nat (n div 10)), char_of (48 + nat (n mod 10))]"

definition digit_of :: "char \<Rightarrow> int" where
  "digit_of c = of_char c - 48"

text \<open>\<open>time.Parse("15:04", value)\<close> with the checks behind it: exactly HH:MM.\<close>

definition parse_clock :: "string \<Rightarrow> int option" where
  "parse_clock value =
     (case value of
        [h1, h2, c, m1, m2] \<Rightarrow>
          if is_digit h1 \<and> is_digit h2 \<and> c = CHR '':'' \<and> is_digit m1 \<and> is_digit m2
             \<and> 10 * digit_of h1 + digit_of h2 < 24 \<and> 10 * digit_of m1 + digit_of m2 < 60
          then Some ((10 * digit_of h1 + digit_of h2) * Hour + (10 * digit_of m1 + digit_of m2) * Minute)
          else None
      | _ \<Rightarrow> None)"

definition parseOperationTime :: "string \<Rightarrow> int result" where
  "parseOperationTime value =
     (case parse_clock value of
        None \<Rightarrow> Inl (NewInvalidInputError ''invalid_operation_time'' ''time must use HH:MM format'')
      | Some t \<Rightarrow> Inr t)"

definition parseShiftTime :: "string \<Rightarrow> int result" where
  "parseShiftTime value =
     (case parse_clock value of
        None \<Rightarrow> Inl (NewInvalidInputError ''validation_failed'' ''time must use HH:MM format'')
      | Some t \<Rightarrow> Inr t)"

definition formatOperationTime :: "int \<Rightarrow> string" where
  "formatOperationTime value = clock_digits (value div Hour mod 24) @ '':'' @ clock_digits (value div Minute mod 60)"

text \<open>An optional clock time.\<close>

definition parse_optional :: "(string \<Rightarrow> int result) \<Rightarrow> string option \<Rightarrow> int option result" where
  "parse_optional parse value =
     (case value of None \<Rightarrow> Inr None | Some s \<Rightarrow> rbind (parse s) (\<lambda>t. Inr (Some t)))"

section \<open>Answers\<close>

record operation_time_body =
  otb_OperationTimeId :: uuid
  otb_DealershipId :: uuid
  otb_DayOfWeek :: int
  otb_OpensAt :: string
  otb_ClosesAt :: string
  otb_CreatedAt :: gotime
  otb_UpdatedAt :: gotime

record shift_body =
  shb_TechnicianShiftId :: uuid
  shb_TechnicianId :: uuid
  shb_DayOfWeek :: int
  shb_StartsAt :: string
  shb_EndsAt :: string
  shb_CreatedAt :: gotime
  shb_UpdatedAt :: gotime

definition operationTimeResponse :: "DealershipOperationTime \<Rightarrow> operation_time_body" where
  "operationTimeResponse o' =
     \<lparr>otb_OperationTimeId = ot_id o', otb_DealershipId = ot_dealershipID o', otb_DayOfWeek = ot_dayOfWeek o',
      otb_OpensAt = formatOperationTime (ot_opensAt o'), otb_ClosesAt = formatOperationTime (ot_closesAt o'),
      otb_CreatedAt = ot_createdAt o', otb_UpdatedAt = ot_updatedAt o'\<rparr>"

definition technicianShiftResponse :: "TechnicianShift \<Rightarrow> shift_body" where
  "technicianShiftResponse shift =
     \<lparr>shb_TechnicianShiftId = sh_id shift, shb_TechnicianId = sh_technicianID shift,
      shb_DayOfWeek = sh_dayOfWeek shift, shb_StartsAt = formatOperationTime (sh_startsAt shift),
      shb_EndsAt = formatOperationTime (sh_endsAt shift), shb_CreatedAt = sh_createdAt shift,
      shb_UpdatedAt = sh_updatedAt shift\<rparr>"

definition technicianOccupiedSlotResponse :: "OccupiedSlot \<Rightarrow> OccupiedSlot" where
  "technicianOccupiedSlotResponse slot =
     slot\<lparr>os_StartsAt := time_UTC (os_StartsAt slot), os_EndsAt := time_UTC (os_EndsAt slot)\<rparr>"

definition technicianScheduleResponse :: "TechnicianScheduleResult \<Rightarrow> TechnicianScheduleResult" where
  "technicianScheduleResponse result =
     result\<lparr>tr_PeriodStartsAt := time_UTC (tr_PeriodStartsAt result),
       tr_PeriodEndsAt := time_UTC (tr_PeriodEndsAt result),
       tr_Technicians := map (\<lambda>t. t\<lparr>rt_Shifts := map (\<lambda>(a, b). (time_UTC a, time_UTC b)) (rt_Shifts t),
         rt_OccupiedSlots := map technicianOccupiedSlotResponse (rt_OccupiedSlots t)\<rparr>) (tr_Technicians result)\<rparr>"

datatype payload =
    EmptyBody
  | DealershipBody Dealership
  | DealershipsBody "Dealership list"
  | AdminBody DealershipAdmin
  | UserBody DealershipUser
  | AuthUserBody AuthUser
  | OperationTimeBody operation_time_body
  | OperationTimesBody "operation_time_body list"
  | ServiceTypeBody ServiceType
  | ServiceTypesBody "ServiceType list"
  | RequiredSkillBody ServiceTypeRequiredSkill
  | RequiredSkillsBody "ServiceTypeRequiredSkill list"
  | RequiredCapabilityBody ServiceTypeRequiredBayCapability
  | RequiredCapabilitiesBody "ServiceTypeRequiredBayCapability list"
  | ServiceBayBody ServiceBay
  | ServiceBayPage "ServiceBay list" int int
  | AvailableServiceBaysBody gotime gotime "ServiceBay list"
  | BayCapabilityBody ServiceBayCapability
  | BayCapabilitiesBody "ServiceBayCapability list"
  | TechnicianBody Technician
  | TechnicianPage "Technician list" int int
  | TechnicianSkillBody TechnicianSkill
  | TechnicianSkillsBody "TechnicianSkill list"
  | ShiftBody shift_body
  | ShiftsBody "shift_body list"
  | TimeOffBody TechnicianTimeOff
  | TimeOffPage "TechnicianTimeOff list" int int
  | CustomerCreatedBody Customer string
  | CustomerBody Customer
  | CustomersBody "Customer list"
  | VehicleBody Vehicle
  | VehiclesBody "Vehicle list"
  | SchedulesBody TechnicianScheduleResult
  | DayBody DealershipAppointmentsResult

text \<open>An answer with its status and body; a problem with its status and the status, detail and code
  its body shows; an error the handler returns, which the error handler of the server answers; or the
  status of the framework for a request its bindings cannot read.\<close>

datatype api_answer =
    Answered int payload
  | ProblemAnswer int int string string
  | Escaped go_error
  | AppointmentAnswer appointment_answer
  | Unbound int

text \<open>\<open>errorResponse\<close>: the body shows the code of the error, or 500 for none.\<close>

definition problem_answer :: "int \<Rightarrow> go_error \<Rightarrow> api_answer" where
  "problem_answer status err =
     (case operationTimeProblem err of
        (code, message, slug) \<Rightarrow> ProblemAnswer status (if code = 0 then 500 else code) message slug)"

text \<open>\<open>customerProblem\<close> and \<open>vehicleProblem\<close> name an unknown error differently.\<close>

definition customer_problem_answer :: "int \<Rightarrow> go_error \<Rightarrow> api_answer" where
  "customer_problem_answer status err =
     (case as_common err of
        Some p \<Rightarrow> problem_answer status err
      | None \<Rightarrow> ProblemAnswer status 500 ''internal server error'' ''internal_error'')"

definition bad_request :: "string \<Rightarrow> string \<Rightarrow> api_answer" where
  "bad_request slug message = problem_answer 400 (NewInvalidInputError slug message)"

definition finish_with ::
  "(go_error \<Rightarrow> api_answer) \<Rightarrow> int \<Rightarrow> ('a \<Rightarrow> payload) \<Rightarrow> (db, go_error, 'a) action \<Rightarrow> db \<Rightarrow> api_answer \<times> db" where
  "finish_with problem status body m d =
     (case m d of
        (Inl err, d') \<Rightarrow> (problem err, d')
      | (Inr x, d') \<Rightarrow> (Answered status (body x), d'))"

definition problems :: "int list \<Rightarrow> go_error \<Rightarrow> api_answer" where
  "problems codes err = problem_answer (respond codes err) err"

definition customer_problems :: "int list \<Rightarrow> go_error \<Rightarrow> api_answer" where
  "customer_problems codes err = customer_problem_answer (respond codes err) err"

text \<open>The shift handlers answer an invalid input with 422.\<close>

definition shift_problems :: "int list \<Rightarrow> go_error \<Rightarrow> api_answer" where
  "shift_problems codes err =
     (if fst (operationTimeProblem err) = 400 then problem_answer 422 err else problems codes err)"

text \<open>Some handlers return what they do not know to the server.\<close>

definition escaping_problems :: "int list \<Rightarrow> go_error \<Rightarrow> api_answer" where
  "escaping_problems codes err =
     (if as_common err = None \<or> fst (operationTimeProblem err) \<notin> set codes then Escaped err
      else problem_answer (fst (operationTimeProblem err)) err)"

text \<open>The search for an account hides what it does not know.\<close>

definition opaque_problems :: "int list \<Rightarrow> go_error \<Rightarrow> api_answer" where
  "opaque_problems codes err =
     (if fst (operationTimeProblem err) \<in> set codes then problem_answer (fst (operationTimeProblem err)) err
      else ProblemAnswer 500 500 ''internal server error'' ''internal_server_error'')"

text \<open>\<open>httpErrorResponseFromErr\<close> of common/errors\_echo.go, for errors that are not the framework's:
  message, slug and status.\<close>

definition httpErrorResponseFromErr :: "go_error \<Rightarrow> string \<times> string \<times> int" where
  "httpErrorResponseFromErr err =
     (case as_common err of
        None \<Rightarrow> (''Internal Server Error'', ''internal_server_error'', 500)
      | Some (code, message, slug) \<Rightarrow>
          (if message = [] then ''Internal Server Error'' else message,
           if slug = [] then ''internal_server_error'' else slug,
           if code = 0 then 500 else code))"

section \<open>The error function of each endpoint\<close>

definition listDealershipAppointmentsErrorResponse :: "go_error \<Rightarrow> api_answer" where
  "listDealershipAppointmentsErrorResponse = problems [400, 401, 403, 404]"

definition listDealershipsErrorResponse :: "go_error \<Rightarrow> api_answer" where
  "listDealershipsErrorResponse = problems [401, 403]"

definition listAvailableServiceBaysErrorResponse :: "go_error \<Rightarrow> api_answer" where
  "listAvailableServiceBaysErrorResponse = problems [400, 401, 403, 404]"

definition listTechnicianSchedulesErrorResponse :: "go_error \<Rightarrow> api_answer" where
  "listTechnicianSchedulesErrorResponse = problems [400, 401, 403, 404]"

definition createTechnicianErrorResponse :: "go_error \<Rightarrow> api_answer" where
  "createTechnicianErrorResponse = problems [400, 401, 403, 409, 422]"

definition listTechniciansErrorResponse :: "go_error \<Rightarrow> api_answer" where
  "listTechniciansErrorResponse = problems [400, 401, 403]"

definition getTechnicianErrorResponse :: "go_error \<Rightarrow> api_answer" where
  "getTechnicianErrorResponse = problems [401, 403, 404]"

definition updateTechnicianErrorResponse :: "go_error \<Rightarrow> api_answer" where
  "updateTechnicianErrorResponse = problems [400, 401, 403, 404, 409, 422]"

definition deleteTechnicianErrorResponse :: "go_error \<Rightarrow> api_answer" where
  "deleteTechnicianErrorResponse = problems [401, 403, 404, 409]"

definition createTechnicianSkillErrorResponse :: "go_error \<Rightarrow> api_answer" where
  "createTechnicianSkillErrorResponse = problems [400, 401, 403, 404, 409]"

definition listTechnicianSkillsErrorResponse :: "go_error \<Rightarrow> api_answer" where
  "listTechnicianSkillsErrorResponse = problems [400, 401, 403, 404]"

definition updateTechnicianSkillErrorResponse :: "go_error \<Rightarrow> api_answer" where
  "updateTechnicianSkillErrorResponse = problems [400, 401, 403, 404, 409]"

definition deleteTechnicianSkillErrorResponse :: "go_error \<Rightarrow> api_answer" where
  "deleteTechnicianSkillErrorResponse = problems [401, 403, 404]"

definition createTechnicianShiftErrorResponse :: "go_error \<Rightarrow> api_answer" where
  "createTechnicianShiftErrorResponse = shift_problems [400, 401, 403, 404, 409, 422]"

definition listTechnicianShiftErrorResponse :: "go_error \<Rightarrow> api_answer" where
  "listTechnicianShiftErrorResponse = problems [401, 403, 404]"

definition updateTechnicianShiftErrorResponse :: "go_error \<Rightarrow> api_answer" where
  "updateTechnicianShiftErrorResponse = shift_problems [400, 401, 403, 404, 409, 422]"

definition deleteTechnicianShiftErrorResponse :: "go_error \<Rightarrow> api_answer" where
  "deleteTechnicianShiftErrorResponse = problems [401, 403, 404, 409]"

definition createTechnicianTimeOffError :: "go_error \<Rightarrow> api_answer" where
  "createTechnicianTimeOffError = problems [400, 401, 403, 404, 409]"

definition listTechnicianTimeOffError :: "go_error \<Rightarrow> api_answer" where
  "listTechnicianTimeOffError = problems [400, 401, 403, 404]"

definition getTechnicianTimeOffError :: "go_error \<Rightarrow> api_answer" where
  "getTechnicianTimeOffError = problems [401, 403, 404]"

definition updateTechnicianTimeOffError :: "go_error \<Rightarrow> api_answer" where
  "updateTechnicianTimeOffError = problems [400, 401, 403, 404, 409]"

definition deleteTechnicianTimeOffError :: "go_error \<Rightarrow> api_answer" where
  "deleteTechnicianTimeOffError = problems [401, 403, 404]"

definition createCustomerErrorResponse :: "go_error \<Rightarrow> api_answer" where
  "createCustomerErrorResponse = customer_problems [400, 401, 403, 409]"

definition getCustomerErrorResponse :: "go_error \<Rightarrow> api_answer" where
  "getCustomerErrorResponse = customer_problems [400, 401, 403, 404]"

definition updateCustomerErrorResponse :: "go_error \<Rightarrow> api_answer" where
  "updateCustomerErrorResponse = customer_problems [400, 401, 403, 404, 409]"

definition searchCustomersErrorResponse :: "go_error \<Rightarrow> api_answer" where
  "searchCustomersErrorResponse = customer_problems [400, 401, 403]"

definition createVehicleErrorResponse :: "go_error \<Rightarrow> api_answer" where
  "createVehicleErrorResponse = customer_problems [400, 401, 403, 404, 409]"

definition getVehicleErrorResponse :: "go_error \<Rightarrow> api_answer" where
  "getVehicleErrorResponse = customer_problems [401, 403, 404]"

definition listVehiclesErrorResponse :: "go_error \<Rightarrow> api_answer" where
  "listVehiclesErrorResponse = customer_problems [401, 403, 404]"

definition updateVehicleErrorResponse :: "go_error \<Rightarrow> api_answer" where
  "updateVehicleErrorResponse = customer_problems [400, 401, 403, 404, 409]"

definition deleteVehicleErrorResponse :: "go_error \<Rightarrow> api_answer" where
  "deleteVehicleErrorResponse = customer_problems [401, 403, 404, 409]"

definition createDealershipErrorResponse :: "go_error \<Rightarrow> api_answer" where
  "createDealershipErrorResponse = escaping_problems [400, 401, 403, 409]"

definition createDealershipAdminErrorResponse :: "go_error \<Rightarrow> api_answer" where
  "createDealershipAdminErrorResponse = escaping_problems [400, 401, 403, 404, 409]"

definition createDealershipUserErrorResponse :: "go_error \<Rightarrow> api_answer" where
  "createDealershipUserErrorResponse = escaping_problems [400, 401, 403, 404, 409]"

definition searchAuthUserByEmailErrorResponse :: "go_error \<Rightarrow> api_answer" where
  "searchAuthUserByEmailErrorResponse = opaque_problems [400, 401, 403, 404]"

definition createServiceTypeErrorResponse :: "go_error \<Rightarrow> api_answer" where
  "createServiceTypeErrorResponse = problems [400, 401, 403, 409]"

definition listServiceTypesErrorResponse :: "go_error \<Rightarrow> api_answer" where
  "listServiceTypesErrorResponse = problems [401, 403]"

definition getServiceTypeErrorResponse :: "go_error \<Rightarrow> api_answer" where
  "getServiceTypeErrorResponse = problems [401, 403, 404]"

definition updateServiceTypeErrorResponse :: "go_error \<Rightarrow> api_answer" where
  "updateServiceTypeErrorResponse = problems [400, 401, 403, 404, 409]"

definition deleteServiceTypeErrorResponse :: "go_error \<Rightarrow> api_answer" where
  "deleteServiceTypeErrorResponse = problems [401, 403, 404, 409]"

definition createServiceTypeRequiredSkillErrorResponse :: "go_error \<Rightarrow> api_answer" where
  "createServiceTypeRequiredSkillErrorResponse = problems [400, 401, 403, 404, 409]"

definition listServiceTypeRequiredSkillsErrorResponse :: "go_error \<Rightarrow> api_answer" where
  "listServiceTypeRequiredSkillsErrorResponse = problems [401, 403, 404]"

definition updateServiceTypeRequiredSkillErrorResponse :: "go_error \<Rightarrow> api_answer" where
  "updateServiceTypeRequiredSkillErrorResponse = problems [400, 401, 403, 404, 409]"

definition deleteServiceTypeRequiredSkillErrorResponse :: "go_error \<Rightarrow> api_answer" where
  "deleteServiceTypeRequiredSkillErrorResponse = problems [401, 403, 404]"

definition createServiceTypeRequiredBayCapabilityErrorResponse :: "go_error \<Rightarrow> api_answer" where
  "createServiceTypeRequiredBayCapabilityErrorResponse = problems [400, 401, 403, 404, 409]"

definition listServiceTypeRequiredBayCapabilitiesErrorResponse :: "go_error \<Rightarrow> api_answer" where
  "listServiceTypeRequiredBayCapabilitiesErrorResponse = problems [401, 403, 404]"

definition updateServiceTypeRequiredBayCapabilityErrorResponse :: "go_error \<Rightarrow> api_answer" where
  "updateServiceTypeRequiredBayCapabilityErrorResponse = problems [400, 401, 403, 404, 409]"

definition deleteServiceTypeRequiredBayCapabilityErrorResponse :: "go_error \<Rightarrow> api_answer" where
  "deleteServiceTypeRequiredBayCapabilityErrorResponse = problems [401, 403, 404]"

definition createServiceBayErrorResponse :: "go_error \<Rightarrow> api_answer" where
  "createServiceBayErrorResponse = problems [400, 401, 403, 409]"

definition listServiceBaysErrorResponse :: "go_error \<Rightarrow> api_answer" where
  "listServiceBaysErrorResponse = problems [400, 401, 403]"

definition getServiceBayErrorResponse :: "go_error \<Rightarrow> api_answer" where
  "getServiceBayErrorResponse = problems [401, 403, 404]"

definition updateServiceBayErrorResponse :: "go_error \<Rightarrow> api_answer" where
  "updateServiceBayErrorResponse = problems [400, 401, 403, 404, 409]"

definition deleteServiceBayErrorResponse :: "go_error \<Rightarrow> api_answer" where
  "deleteServiceBayErrorResponse = problems [401, 403, 404, 409]"

definition createServiceBayCapabilityErrorResponse :: "go_error \<Rightarrow> api_answer" where
  "createServiceBayCapabilityErrorResponse = problems [400, 401, 403, 404, 409]"

definition listServiceBayCapabilitiesErrorResponse :: "go_error \<Rightarrow> api_answer" where
  "listServiceBayCapabilitiesErrorResponse = problems [401, 403, 404]"

definition updateServiceBayCapabilityErrorResponse :: "go_error \<Rightarrow> api_answer" where
  "updateServiceBayCapabilityErrorResponse = problems [400, 401, 403, 404, 409]"

definition deleteServiceBayCapabilityErrorResponse :: "go_error \<Rightarrow> api_answer" where
  "deleteServiceBayCapabilityErrorResponse = problems [401, 403, 404]"

definition createOperationTimeErrorResponse :: "go_error \<Rightarrow> api_answer" where
  "createOperationTimeErrorResponse = problems [400, 401, 403, 404, 409, 422]"

definition listOperationTimeErrorResponse :: "go_error \<Rightarrow> api_answer" where
  "listOperationTimeErrorResponse = problems [401, 403, 404]"

definition updateOperationTimeErrorResponse :: "go_error \<Rightarrow> api_answer" where
  "updateOperationTimeErrorResponse = problems [400, 401, 403, 404, 409, 422]"

definition deleteOperationTimeErrorResponse :: "go_error \<Rightarrow> api_answer" where
  "deleteOperationTimeErrorResponse = problems [401, 403, 404]"

lemmas error_function_defs =
  listDealershipAppointmentsErrorResponse_def
  listDealershipsErrorResponse_def
  listAvailableServiceBaysErrorResponse_def
  listTechnicianSchedulesErrorResponse_def
  createTechnicianErrorResponse_def
  listTechniciansErrorResponse_def
  getTechnicianErrorResponse_def
  updateTechnicianErrorResponse_def
  deleteTechnicianErrorResponse_def
  createTechnicianSkillErrorResponse_def
  listTechnicianSkillsErrorResponse_def
  updateTechnicianSkillErrorResponse_def
  deleteTechnicianSkillErrorResponse_def
  createTechnicianShiftErrorResponse_def
  listTechnicianShiftErrorResponse_def
  updateTechnicianShiftErrorResponse_def
  deleteTechnicianShiftErrorResponse_def
  createTechnicianTimeOffError_def
  listTechnicianTimeOffError_def
  getTechnicianTimeOffError_def
  updateTechnicianTimeOffError_def
  deleteTechnicianTimeOffError_def
  createCustomerErrorResponse_def
  getCustomerErrorResponse_def
  updateCustomerErrorResponse_def
  searchCustomersErrorResponse_def
  createVehicleErrorResponse_def
  getVehicleErrorResponse_def
  listVehiclesErrorResponse_def
  updateVehicleErrorResponse_def
  deleteVehicleErrorResponse_def
  createDealershipErrorResponse_def
  createDealershipAdminErrorResponse_def
  createDealershipUserErrorResponse_def
  searchAuthUserByEmailErrorResponse_def
  createServiceTypeErrorResponse_def
  listServiceTypesErrorResponse_def
  getServiceTypeErrorResponse_def
  updateServiceTypeErrorResponse_def
  deleteServiceTypeErrorResponse_def
  createServiceTypeRequiredSkillErrorResponse_def
  listServiceTypeRequiredSkillsErrorResponse_def
  updateServiceTypeRequiredSkillErrorResponse_def
  deleteServiceTypeRequiredSkillErrorResponse_def
  createServiceTypeRequiredBayCapabilityErrorResponse_def
  listServiceTypeRequiredBayCapabilitiesErrorResponse_def
  updateServiceTypeRequiredBayCapabilityErrorResponse_def
  deleteServiceTypeRequiredBayCapabilityErrorResponse_def
  createServiceBayErrorResponse_def
  listServiceBaysErrorResponse_def
  getServiceBayErrorResponse_def
  updateServiceBayErrorResponse_def
  deleteServiceBayErrorResponse_def
  createServiceBayCapabilityErrorResponse_def
  listServiceBayCapabilitiesErrorResponse_def
  updateServiceBayCapabilityErrorResponse_def
  deleteServiceBayCapabilityErrorResponse_def
  createOperationTimeErrorResponse_def
  listOperationTimeErrorResponse_def
  updateOperationTimeErrorResponse_def
  deleteOperationTimeErrorResponse_def

end
