(* ===== verification/Handlers.thy ===== *)
theory Handlers
  imports Answers
begin

text \<open>
  The request handlers of api/http/handler.go other than the appointment ones (theory
  Appointment\_Service): each checks the body, fills in defaults, reads clock times, calls one use case
  and turns its outcome into an answer. A missing body and an omitted field are \<open>None\<close>. The four queries
  are the ones module.go installs.
\<close>

section \<open>Request bodies\<close>

text \<open>The generated request types whose fields are not those of the input of the use case. A PATCH field
  that can be cleared says whether it was present.\<close>

record OptionalNullableString =
  ons_Present :: bool
  ons_Value :: "string option"

record OptionalNullableInt =
  oni_Present :: bool
  oni_Value :: "int option"

record CreateDealershipOperationTimeRequest =
  cor_DayOfWeek :: int
  cor_OpensAt :: string
  cor_ClosesAt :: string

record UpdateDealershipOperationTimeRequest =
  uor_DayOfWeek :: "int option"
  uor_OpensAt :: "string option"
  uor_ClosesAt :: "string option"

record CreateServiceBayRequest =
  cbr_Code :: string
  cbr_Name :: string
  cbr_IsActive :: "bool option"

record UpdateServiceBayRequest =
  ubr_Code :: "string option"
  ubr_Name :: "string option"
  ubr_IsActive :: "bool option"

record CreateServiceTypeRequest =
  csr_Name :: string
  csr_DefaultDurationMinutes :: int
  csr_MinDurationMinutes :: int
  csr_MaxDurationMinutes :: int
  csr_IsActive :: "bool option"

record CreateTechnicianRequest =
  ctr_Name :: string
  ctr_Phone :: string
  ctr_Email :: "string option"
  ctr_IsActive :: "bool option"

record UpdateTechnicianRequest =
  utr_Name :: "string option"
  utr_Phone :: "string option"
  utr_Email :: "OptionalNullableString option"
  utr_IsActive :: "bool option"

record CreateTechnicianShiftRequest =
  chr_DayOfWeek :: int
  chr_StartsAt :: string
  chr_EndsAt :: string

record UpdateTechnicianShiftRequest =
  uhr_DayOfWeek :: "int option"
  uhr_StartsAt :: "string option"
  uhr_EndsAt :: "string option"

record UpdateTechnicianTimeOffRequest =
  ufr_StartsAt :: "gotime option"
  ufr_EndsAt :: "gotime option"
  ufr_Reason :: "OptionalNullableString option"

record UpdateCustomerRequest =
  ucr_Name :: "string option"
  ucr_Phone :: "string option"
  ucr_Email :: "OptionalNullableString option"

record UpdateVehicleRequest =
  uvr_Vin :: "OptionalNullableString option"
  uvr_RegistrationPlate :: "OptionalNullableString option"
  uvr_Make :: "string option"
  uvr_Model :: "string option"
  uvr_ModelYear :: "OptionalNullableInt option"

text \<open>Present and value of an optional field: what the handlers copy when the pointer is not nil, and the
  zero value otherwise.\<close>

definition text_present :: "OptionalNullableString option \<Rightarrow> bool" where
  "text_present f = (case f of None \<Rightarrow> False | Some v \<Rightarrow> ons_Present v)"

definition text_value :: "OptionalNullableString option \<Rightarrow> string option" where
  "text_value f = (case f of None \<Rightarrow> None | Some v \<Rightarrow> ons_Value v)"

definition int_present :: "OptionalNullableInt option \<Rightarrow> bool" where
  "int_present f = (case f of None \<Rightarrow> False | Some v \<Rightarrow> oni_Present v)"

definition int_value :: "OptionalNullableInt option \<Rightarrow> int option" where
  "int_value f = (case f of None \<Rightarrow> None | Some v \<Rightarrow> oni_Value v)"

section \<open>The shape of a handler\<close>

definition with_body :: "'b option \<Rightarrow> string \<Rightarrow> ('b \<Rightarrow> db \<Rightarrow> api_answer \<times> db) \<Rightarrow> db \<Rightarrow> api_answer \<times> db" where
  "with_body body slug k =
     (case body of None \<Rightarrow> Pair (bad_request slug ''request body is required'') | Some b \<Rightarrow> k b)"

definition at_least_one :: "string \<Rightarrow> bool \<Rightarrow> (db \<Rightarrow> api_answer \<times> db) \<Rightarrow> db \<Rightarrow> api_answer \<times> db" where
  "at_least_one slug given k = (if given then k else Pair (bad_request slug ''at least one field is required''))"

definition parsed :: "(go_error \<Rightarrow> api_answer) \<Rightarrow> 'a result \<Rightarrow> ('a \<Rightarrow> db \<Rightarrow> api_answer \<times> db) \<Rightarrow> db \<Rightarrow> api_answer \<times> db" where
  "parsed problem r k = (case r of Inl err \<Rightarrow> Pair (problem err) | Inr x \<Rightarrow> k x)"

definition require_body :: "'b option \<Rightarrow> go_error \<Rightarrow> 'b result" where
  "require_body body err = (case body of None \<Rightarrow> Inl err | Some b \<Rightarrow> Inr b)"

section \<open>Queries\<close>

definition ListDealershipAppointments_handler ::
  "(string \<Rightarrow> tz_offset option) \<Rightarrow> uuid \<Rightarrow> uuid \<Rightarrow> string \<Rightarrow> db \<Rightarrow> api_answer \<times> db" where
  "ListDealershipAppointments_handler tzdata actor dealershipID date =
     finish_with listDealershipAppointmentsErrorResponse 200 DayBody (DealershipAppointments_List tzdata actor dealershipID date)"

definition ListDealerships_handler ::
  "(string \<Rightarrow> bool) \<Rightarrow> (string \<Rightarrow> string) \<Rightarrow> service_env \<Rightarrow> uuid \<Rightarrow> db \<Rightarrow> api_answer \<times> db" where
  "ListDealerships_handler load_location collate env actor =
     finish_with listDealershipsErrorResponse 200 DealershipsBody (ListDealerships_List load_location collate env actor)"

definition ListAvailableServiceBays_handler ::
  "(string \<Rightarrow> string) \<Rightarrow> uuid \<Rightarrow> uuid \<Rightarrow> uuid \<Rightarrow> gotime \<Rightarrow> gotime \<Rightarrow> db \<Rightarrow> api_answer \<times> db" where
  "ListAvailableServiceBays_handler collate actor dealershipID serviceTypeID startsAt endsAt =
     finish_with listAvailableServiceBaysErrorResponse 200
       (AvailableServiceBaysBody (time_UTC startsAt) (time_UTC endsAt))
       (AvailableServiceBays_List collate
          \<lparr>lab_ActorUserID = actor, lab_DealershipID = dealershipID, lab_ServiceTypeID = serviceTypeID,
           lab_StartsAt = startsAt, lab_EndsAt = endsAt\<rparr>)"

definition ListTechnicianSchedules_handler ::
  "(string \<Rightarrow> tz_offset option) \<Rightarrow> (string \<Rightarrow> uuid option) \<Rightarrow> uuid \<Rightarrow> uuid \<Rightarrow> string \<Rightarrow> string option
     \<Rightarrow> string list option \<Rightarrow> db \<Rightarrow> api_answer \<times> db" where
  "ListTechnicianSchedules_handler tzdata parse_uuid actor dealershipID date technicianID include =
     parsed listTechnicianSchedulesErrorResponse
       (case technicianID of
          None \<Rightarrow> Inr None
        | Some s \<Rightarrow>
            (case parse_uuid s of
               None \<Rightarrow> Inl (NewInvalidInputError ''invalid_technician_id'' ''technician_id must be a valid UUID'')
             | Some i \<Rightarrow> Inr (Some i))) (\<lambda>technicianID.
     finish_with listTechnicianSchedulesErrorResponse 200 (\<lambda>r. SchedulesBody (technicianScheduleResponse r))
       (TechnicianSchedule_List tzdata
          \<lparr>lts_ActorUserID = actor, lts_DealershipID = dealershipID, lts_Date = date, lts_TechnicianID = technicianID,
           lts_Include = (case include of None \<Rightarrow> [] | Some xs \<Rightarrow> xs)\<rparr>))"

section \<open>Opening hours\<close>

definition CreateDealershipOperationTime_handler ::
  "service_env \<Rightarrow> uuid \<Rightarrow> uuid \<Rightarrow> CreateDealershipOperationTimeRequest option \<Rightarrow> db \<Rightarrow> api_answer \<times> db" where
  "CreateDealershipOperationTime_handler env actor dealershipID body =
     with_body body ''request_body_required'' (\<lambda>b.
     parsed createOperationTimeErrorResponse (parseOperationTime (cor_OpensAt b)) (\<lambda>opensAt.
     parsed createOperationTimeErrorResponse (parseOperationTime (cor_ClosesAt b)) (\<lambda>closesAt.
     finish_with createOperationTimeErrorResponse 201 (\<lambda>o'. OperationTimeBody (operationTimeResponse o'))
       (CreateDealershipOperationTime env actor dealershipID (cor_DayOfWeek b) opensAt closesAt))))"

definition ListDealershipOperationTimes_handler ::
  "uuid \<Rightarrow> uuid \<Rightarrow> db \<Rightarrow> api_answer \<times> db" where
  "ListDealershipOperationTimes_handler actor dealershipID =
     finish_with listOperationTimeErrorResponse 200 (\<lambda>os. OperationTimesBody (map operationTimeResponse os))
       (ListDealershipOperationTimes actor dealershipID)"

definition given_operation_time :: "UpdateDealershipOperationTimeRequest option \<Rightarrow> bool" where
  "given_operation_time body = (case body of None \<Rightarrow> False
     | Some b \<Rightarrow> uor_DayOfWeek b \<noteq> None \<or> uor_OpensAt b \<noteq> None \<or> uor_ClosesAt b \<noteq> None)"

definition UpdateDealershipOperationTime_handler ::
  "service_env \<Rightarrow> uuid \<Rightarrow> uuid \<Rightarrow> uuid \<Rightarrow> UpdateDealershipOperationTimeRequest option \<Rightarrow> db \<Rightarrow> api_answer \<times> db" where
  "UpdateDealershipOperationTime_handler env actor dealershipID operationTimeID body =
     at_least_one ''request_body_required'' (given_operation_time body) (
     with_body body ''request_body_required'' (\<lambda>b.
     parsed updateOperationTimeErrorResponse (parse_optional parseOperationTime (uor_OpensAt b)) (\<lambda>opensAt.
     parsed updateOperationTimeErrorResponse (parse_optional parseOperationTime (uor_ClosesAt b)) (\<lambda>closesAt.
     finish_with updateOperationTimeErrorResponse 200 (\<lambda>o'. OperationTimeBody (operationTimeResponse o'))
       (UpdateDealershipOperationTime env actor dealershipID operationTimeID (uor_DayOfWeek b) opensAt closesAt)))))"

definition DeleteDealershipOperationTime_handler ::
  "uuid \<Rightarrow> uuid \<Rightarrow> uuid \<Rightarrow> db \<Rightarrow> api_answer \<times> db" where
  "DeleteDealershipOperationTime_handler actor dealershipID operationTimeID =
     finish_with deleteOperationTimeErrorResponse 204 (\<lambda>_. EmptyBody)
       (DeleteDealershipOperationTime actor dealershipID operationTimeID)"

section \<open>Service bays\<close>

definition CreateServiceBay_handler ::
  "service_env \<Rightarrow> uuid \<Rightarrow> uuid \<Rightarrow> CreateServiceBayRequest option \<Rightarrow> db \<Rightarrow> api_answer \<times> db" where
  "CreateServiceBay_handler env actor dealershipID body =
     with_body body ''request_body_required'' (\<lambda>b.
     finish_with createServiceBayErrorResponse 201 ServiceBayBody
       (CreateServiceBay env actor dealershipID (cbr_Code b) (cbr_Name b) (valueOr (cbr_IsActive b) True)))"

definition ListServiceBays_handler ::
  "(string \<Rightarrow> string) \<Rightarrow> uuid \<Rightarrow> uuid \<Rightarrow> bool option \<Rightarrow> int option \<Rightarrow> int option \<Rightarrow> db \<Rightarrow> api_answer \<times> db" where
  "ListServiceBays_handler collate actor dealershipID isActive limit off =
     finish_with listServiceBaysErrorResponse 200 (\<lambda>bs. ServiceBayPage bs (valueOr limit 25) (valueOr off 0))
       (ListServiceBays collate actor dealershipID isActive (valueOr limit 25) (valueOr off 0))"

definition GetServiceBay_handler ::
  "uuid \<Rightarrow> uuid \<Rightarrow> uuid \<Rightarrow> db \<Rightarrow> api_answer \<times> db" where
  "GetServiceBay_handler actor dealershipID serviceBayID =
     finish_with getServiceBayErrorResponse 200 ServiceBayBody
       (GetServiceBay actor dealershipID serviceBayID)"

definition UpdateServiceBay_handler ::
  "service_env \<Rightarrow> uuid \<Rightarrow> uuid \<Rightarrow> uuid \<Rightarrow> UpdateServiceBayRequest option \<Rightarrow> db \<Rightarrow> api_answer \<times> db" where
  "UpdateServiceBay_handler env actor dealershipID serviceBayID body =
     with_body body ''request_body_required'' (\<lambda>b.
     at_least_one ''request_body_required'' (ubr_Code b \<noteq> None \<or> ubr_Name b \<noteq> None \<or> ubr_IsActive b \<noteq> None) (
     finish_with updateServiceBayErrorResponse 200 ServiceBayBody
       (UpdateServiceBay env actor dealershipID serviceBayID (ubr_Code b) (ubr_Name b) (ubr_IsActive b))))"

definition DeleteServiceBay_handler ::
  "(unit, db) world \<Rightarrow> service_env \<Rightarrow> uuid \<Rightarrow> uuid \<Rightarrow> uuid \<Rightarrow> db \<Rightarrow> api_answer \<times> db" where
  "DeleteServiceBay_handler w env actor dealershipID serviceBayID =
     finish_with deleteServiceBayErrorResponse 204 (\<lambda>_. EmptyBody)
       (DeleteServiceBay w env actor dealershipID serviceBayID)"

definition CreateServiceBayCapability_handler ::
  "service_env \<Rightarrow> uuid \<Rightarrow> uuid \<Rightarrow> uuid \<Rightarrow> uuid option \<Rightarrow> db \<Rightarrow> api_answer \<times> db" where
  "CreateServiceBayCapability_handler env actor dealershipID serviceBayID body =
     with_body body ''request_body_required'' (\<lambda>bayCapabilityID.
     finish_with createServiceBayCapabilityErrorResponse 201 BayCapabilityBody
       (CreateServiceBayCapability env actor dealershipID serviceBayID bayCapabilityID))"

definition ListServiceBayCapabilities_handler ::
  "(string \<Rightarrow> string) \<Rightarrow> uuid \<Rightarrow> uuid \<Rightarrow> uuid \<Rightarrow> db \<Rightarrow> api_answer \<times> db" where
  "ListServiceBayCapabilities_handler collate actor dealershipID serviceBayID =
     finish_with listServiceBayCapabilitiesErrorResponse 200 BayCapabilitiesBody
       (ListServiceBayCapabilities collate actor dealershipID serviceBayID)"

definition UpdateServiceBayCapability_handler ::
  "service_env \<Rightarrow> uuid \<Rightarrow> uuid \<Rightarrow> uuid \<Rightarrow> uuid \<Rightarrow> uuid option \<Rightarrow> db \<Rightarrow> api_answer \<times> db" where
  "UpdateServiceBayCapability_handler env actor dealershipID serviceBayID serviceBayCapabilityID body =
     with_body body ''request_body_required'' (\<lambda>bayCapabilityID.
     finish_with updateServiceBayCapabilityErrorResponse 200 BayCapabilityBody
       (UpdateServiceBayCapability env actor dealershipID serviceBayID serviceBayCapabilityID (Some bayCapabilityID)))"

definition DeleteServiceBayCapability_handler ::
  "uuid \<Rightarrow> uuid \<Rightarrow> uuid \<Rightarrow> uuid \<Rightarrow> db \<Rightarrow> api_answer \<times> db" where
  "DeleteServiceBayCapability_handler actor dealershipID serviceBayID serviceBayCapabilityID =
     finish_with deleteServiceBayCapabilityErrorResponse 204 (\<lambda>_. EmptyBody)
       (DeleteServiceBayCapability actor dealershipID serviceBayID serviceBayCapabilityID)"

section \<open>Service types\<close>

definition CreateServiceType_handler ::
  "service_env \<Rightarrow> uuid \<Rightarrow> uuid \<Rightarrow> CreateServiceTypeRequest option \<Rightarrow> db \<Rightarrow> api_answer \<times> db" where
  "CreateServiceType_handler env actor dealershipID body =
     with_body body ''request_body_required'' (\<lambda>b.
     finish_with createServiceTypeErrorResponse 201 ServiceTypeBody
       (CreateServiceType env actor dealershipID
          \<lparr>cst_Name = csr_Name b, cst_DefaultDurationMinutes = csr_DefaultDurationMinutes b,
           cst_MinDurationMinutes = csr_MinDurationMinutes b, cst_MaxDurationMinutes = csr_MaxDurationMinutes b,
           cst_IsActive = valueOr (csr_IsActive b) True\<rparr>))"

definition ListServiceTypes_handler ::
  "(string \<Rightarrow> string) \<Rightarrow> uuid \<Rightarrow> uuid \<Rightarrow> db \<Rightarrow> api_answer \<times> db" where
  "ListServiceTypes_handler collate actor dealershipID =
     finish_with listServiceTypesErrorResponse 200 ServiceTypesBody
       (ListServiceTypes collate actor dealershipID)"

definition GetServiceType_handler ::
  "uuid \<Rightarrow> uuid \<Rightarrow> uuid \<Rightarrow> db \<Rightarrow> api_answer \<times> db" where
  "GetServiceType_handler actor dealershipID serviceTypeID =
     finish_with getServiceTypeErrorResponse 200 ServiceTypeBody
       (GetServiceType actor dealershipID serviceTypeID)"

definition given_service_type :: "UpdateServiceTypeInput \<Rightarrow> bool" where
  "given_service_type b \<longleftrightarrow> ust_Name b \<noteq> None \<or> ust_DefaultDurationMinutes b \<noteq> None \<or> ust_MinDurationMinutes b \<noteq> None
     \<or> ust_MaxDurationMinutes b \<noteq> None \<or> ust_IsActive b \<noteq> None"

definition UpdateServiceType_handler ::
  "service_env \<Rightarrow> uuid \<Rightarrow> uuid \<Rightarrow> uuid \<Rightarrow> UpdateServiceTypeInput option \<Rightarrow> db \<Rightarrow> api_answer \<times> db" where
  "UpdateServiceType_handler env actor dealershipID serviceTypeID body =
     with_body body ''request_body_required'' (\<lambda>b.
     at_least_one ''request_body_required'' (given_service_type b) (
     finish_with updateServiceTypeErrorResponse 200 ServiceTypeBody
       (UpdateServiceType env actor dealershipID serviceTypeID b)))"

definition DeleteServiceType_handler ::
  "(unit, db) world \<Rightarrow> service_env \<Rightarrow> uuid \<Rightarrow> uuid \<Rightarrow> uuid \<Rightarrow> db \<Rightarrow> api_answer \<times> db" where
  "DeleteServiceType_handler w env actor dealershipID serviceTypeID =
     finish_with deleteServiceTypeErrorResponse 204 (\<lambda>_. EmptyBody)
       (DeleteServiceType w env actor dealershipID serviceTypeID)"

definition CreateServiceTypeRequiredSkill_handler ::
  "service_env \<Rightarrow> uuid \<Rightarrow> uuid \<Rightarrow> uuid \<Rightarrow> uuid option \<Rightarrow> db \<Rightarrow> api_answer \<times> db" where
  "CreateServiceTypeRequiredSkill_handler env actor dealershipID serviceTypeID body =
     with_body body ''request_body_required'' (\<lambda>skillID.
     finish_with createServiceTypeRequiredSkillErrorResponse 201 RequiredSkillBody
       (CreateServiceTypeRequiredSkill env actor dealershipID serviceTypeID skillID))"

definition ListServiceTypeRequiredSkills_handler ::
  "(string \<Rightarrow> string) \<Rightarrow> uuid \<Rightarrow> uuid \<Rightarrow> uuid \<Rightarrow> db \<Rightarrow> api_answer \<times> db" where
  "ListServiceTypeRequiredSkills_handler collate actor dealershipID serviceTypeID =
     finish_with listServiceTypeRequiredSkillsErrorResponse 200 RequiredSkillsBody
       (ListServiceTypeRequiredSkills collate actor dealershipID serviceTypeID)"

definition UpdateServiceTypeRequiredSkill_handler ::
  "service_env \<Rightarrow> uuid \<Rightarrow> uuid \<Rightarrow> uuid \<Rightarrow> uuid \<Rightarrow> uuid option \<Rightarrow> db \<Rightarrow> api_answer \<times> db" where
  "UpdateServiceTypeRequiredSkill_handler env actor dealershipID serviceTypeID requiredSkillID body =
     with_body body ''request_body_required'' (\<lambda>skillID.
     finish_with updateServiceTypeRequiredSkillErrorResponse 200 RequiredSkillBody
       (UpdateServiceTypeRequiredSkill env actor dealershipID serviceTypeID requiredSkillID (Some skillID)))"

definition DeleteServiceTypeRequiredSkill_handler ::
  "uuid \<Rightarrow> uuid \<Rightarrow> uuid \<Rightarrow> uuid \<Rightarrow> db \<Rightarrow> api_answer \<times> db" where
  "DeleteServiceTypeRequiredSkill_handler actor dealershipID serviceTypeID requiredSkillID =
     finish_with deleteServiceTypeRequiredSkillErrorResponse 204 (\<lambda>_. EmptyBody)
       (DeleteServiceTypeRequiredSkill actor dealershipID serviceTypeID requiredSkillID)"

definition CreateServiceTypeRequiredBayCapability_handler ::
  "service_env \<Rightarrow> uuid \<Rightarrow> uuid \<Rightarrow> uuid \<Rightarrow> uuid option \<Rightarrow> db \<Rightarrow> api_answer \<times> db" where
  "CreateServiceTypeRequiredBayCapability_handler env actor dealershipID serviceTypeID body =
     with_body body ''request_body_required'' (\<lambda>bayCapabilityID.
     finish_with createServiceTypeRequiredBayCapabilityErrorResponse 201 RequiredCapabilityBody
       (CreateServiceTypeRequiredBayCapability env actor dealershipID serviceTypeID bayCapabilityID))"

definition ListServiceTypeRequiredBayCapabilities_handler ::
  "(string \<Rightarrow> string) \<Rightarrow> uuid \<Rightarrow> uuid \<Rightarrow> uuid \<Rightarrow> db \<Rightarrow> api_answer \<times> db" where
  "ListServiceTypeRequiredBayCapabilities_handler collate actor dealershipID serviceTypeID =
     finish_with listServiceTypeRequiredBayCapabilitiesErrorResponse 200 RequiredCapabilitiesBody
       (ListServiceTypeRequiredBayCapabilities collate actor dealershipID serviceTypeID)"

definition UpdateServiceTypeRequiredBayCapability_handler ::
  "service_env \<Rightarrow> uuid \<Rightarrow> uuid \<Rightarrow> uuid \<Rightarrow> uuid \<Rightarrow> uuid option \<Rightarrow> db \<Rightarrow> api_answer \<times> db" where
  "UpdateServiceTypeRequiredBayCapability_handler env actor dealershipID serviceTypeID requiredCapabilityID body =
     with_body body ''request_body_required'' (\<lambda>bayCapabilityID.
     finish_with updateServiceTypeRequiredBayCapabilityErrorResponse 200 RequiredCapabilityBody
       (UpdateServiceTypeRequiredBayCapability env actor dealershipID serviceTypeID requiredCapabilityID (Some bayCapabilityID)))"

definition DeleteServiceTypeRequiredBayCapability_handler ::
  "uuid \<Rightarrow> uuid \<Rightarrow> uuid \<Rightarrow> uuid \<Rightarrow> db \<Rightarrow> api_answer \<times> db" where
  "DeleteServiceTypeRequiredBayCapability_handler actor dealershipID serviceTypeID requiredCapabilityID =
     finish_with deleteServiceTypeRequiredBayCapabilityErrorResponse 204 (\<lambda>_. EmptyBody)
       (DeleteServiceTypeRequiredBayCapability actor dealershipID serviceTypeID requiredCapabilityID)"

section \<open>Dealerships and users\<close>

definition CreateDealership_handler ::
  "(string \<Rightarrow> bool) \<Rightarrow> service_env \<Rightarrow> uuid \<Rightarrow> CreateDealershipInput option \<Rightarrow> db \<Rightarrow> api_answer \<times> db" where
  "CreateDealership_handler load_location env actor body =
     with_body body ''request_body_required'' (\<lambda>b.
     finish_with createDealershipErrorResponse 201 DealershipBody (CreateDealership load_location env actor b))"

text \<open>An empty address is answered with 400, but the body shows the 403 of the error built for it.\<close>

definition CreateDealershipAdmin_handler ::
  "(string \<Rightarrow> uuid option) \<Rightarrow> (string \<Rightarrow> string option) \<Rightarrow> (unit, db) world \<Rightarrow> (nat \<Rightarrow> uuid) \<Rightarrow> service_env \<Rightarrow> uuid \<Rightarrow> CreateDealershipAdminInput option \<Rightarrow> db \<Rightarrow> api_answer \<times> db" where
  "CreateDealershipAdmin_handler parse_uuid parse_address w ids env actor body =
     with_body body ''request_body_required'' (\<lambda>b.
     if cai_Email b = [] then Pair (problem_answer 400 (NewForbiddenError ''email'' ''the email is required''))
     else finish_with createDealershipAdminErrorResponse 201 AdminBody
            (CreateDealershipAdmin parse_uuid parse_address w ids env actor b))"

definition CreateDealershipUser_handler ::
  "(string \<Rightarrow> uuid option) \<Rightarrow> (string \<Rightarrow> string option) \<Rightarrow> (unit, db) world \<Rightarrow> (nat \<Rightarrow> uuid) \<Rightarrow> service_env \<Rightarrow> uuid \<Rightarrow> CreateDealershipUserInput option \<Rightarrow> db \<Rightarrow> api_answer \<times> db" where
  "CreateDealershipUser_handler parse_uuid parse_address w ids env actor body =
     with_body body ''request_body_required'' (\<lambda>b.
     finish_with createDealershipUserErrorResponse 201 UserBody
       (CreateDealershipUser parse_uuid parse_address w ids env actor b))"

definition SearchAuthUserByEmail_handler ::
  "(string \<Rightarrow> uuid option) \<Rightarrow> service_env \<Rightarrow> uuid \<Rightarrow> string \<Rightarrow> db \<Rightarrow> api_answer \<times> db" where
  "SearchAuthUserByEmail_handler parse_uuid env actor email =
     finish_with searchAuthUserByEmailErrorResponse 200 AuthUserBody
       (SearchAuthUserByEmail parse_uuid env actor email)"

section \<open>Technicians\<close>

definition CreateTechnician_handler ::
  "(string \<Rightarrow> string option) \<Rightarrow> service_env \<Rightarrow> uuid \<Rightarrow> CreateTechnicianRequest option \<Rightarrow> db \<Rightarrow> api_answer \<times> db" where
  "CreateTechnician_handler parse_address env actor body =
     with_body body ''request_body_required'' (\<lambda>b.
     finish_with createTechnicianErrorResponse 201 TechnicianBody
       (CreateTechnician parse_address env actor
          \<lparr>ct_Name = ctr_Name b, ct_Phone = ctr_Phone b, ct_Email = ctr_Email b,
           ct_IsActive = valueOr (ctr_IsActive b) True\<rparr>))"

definition ListTechnicians_handler ::
  "(string \<Rightarrow> string option) \<Rightarrow> service_env \<Rightarrow> uuid \<Rightarrow> bool option \<Rightarrow> int option \<Rightarrow> int option \<Rightarrow> db \<Rightarrow> api_answer \<times> db" where
  "ListTechnicians_handler parse_address env actor isActive limit off =
     finish_with listTechniciansErrorResponse 200 (\<lambda>ts. TechnicianPage ts (valueOr limit 25) (valueOr off 0))
       (ListTechnicians parse_address env actor isActive (valueOr limit 25) (valueOr off 0))"

definition GetTechnician_handler ::
  "(string \<Rightarrow> string option) \<Rightarrow> service_env \<Rightarrow> uuid \<Rightarrow> uuid \<Rightarrow> db \<Rightarrow> api_answer \<times> db" where
  "GetTechnician_handler parse_address env actor technicianID =
     finish_with getTechnicianErrorResponse 200 TechnicianBody
       (GetTechnician_service parse_address env actor technicianID)"

definition given_technician :: "UpdateTechnicianRequest option \<Rightarrow> bool" where
  "given_technician body = (case body of None \<Rightarrow> False
     | Some b \<Rightarrow> utr_Name b \<noteq> None \<or> utr_Phone b \<noteq> None \<or> utr_Email b \<noteq> None \<or> utr_IsActive b \<noteq> None)"

definition UpdateTechnician_handler ::
  "(string \<Rightarrow> string option) \<Rightarrow> service_env \<Rightarrow> uuid \<Rightarrow> uuid \<Rightarrow> UpdateTechnicianRequest option \<Rightarrow> db \<Rightarrow> api_answer \<times> db" where
  "UpdateTechnician_handler parse_address env actor technicianID body =
     at_least_one ''request_body_required'' (given_technician body) (
     with_body body ''request_body_required'' (\<lambda>b.
     finish_with updateTechnicianErrorResponse 200 TechnicianBody
       (UpdateTechnician parse_address env actor technicianID
          \<lparr>ut_Name = utr_Name b, ut_Phone = utr_Phone b, ut_Email = text_value (utr_Email b),
           ut_EmailPresent = text_present (utr_Email b), ut_IsActive = utr_IsActive b\<rparr>)))"

definition DeleteTechnician_handler ::
  "(string \<Rightarrow> string option) \<Rightarrow> service_env \<Rightarrow> uuid \<Rightarrow> uuid \<Rightarrow> db \<Rightarrow> api_answer \<times> db" where
  "DeleteTechnician_handler parse_address env actor technicianID =
     finish_with deleteTechnicianErrorResponse 204 (\<lambda>_. EmptyBody)
       (DeactivateTechnician parse_address env actor technicianID)"

definition CreateTechnicianSkill_handler ::
  "service_env \<Rightarrow> uuid \<Rightarrow> uuid \<Rightarrow> uuid option \<Rightarrow> db \<Rightarrow> api_answer \<times> db" where
  "CreateTechnicianSkill_handler env actor technicianID body =
     with_body body ''request_body_required'' (\<lambda>skillID.
     finish_with createTechnicianSkillErrorResponse 201 TechnicianSkillBody
       (CreateTechnicianSkill env actor technicianID skillID))"

definition ListTechnicianSkills_handler ::
  "uuid \<Rightarrow> uuid \<Rightarrow> db \<Rightarrow> api_answer \<times> db" where
  "ListTechnicianSkills_handler actor technicianID =
     finish_with listTechnicianSkillsErrorResponse 200 TechnicianSkillsBody
       (ListTechnicianSkills actor technicianID)"

definition UpdateTechnicianSkill_handler ::
  "service_env \<Rightarrow> uuid \<Rightarrow> uuid \<Rightarrow> uuid \<Rightarrow> uuid option \<Rightarrow> db \<Rightarrow> api_answer \<times> db" where
  "UpdateTechnicianSkill_handler env actor technicianID technicianSkillID body =
     with_body body ''request_body_required'' (\<lambda>skillID.
     finish_with updateTechnicianSkillErrorResponse 200 TechnicianSkillBody
       (UpdateTechnicianSkill env actor technicianID technicianSkillID (Some skillID)))"

definition DeleteTechnicianSkill_handler ::
  "uuid \<Rightarrow> uuid \<Rightarrow> uuid \<Rightarrow> db \<Rightarrow> api_answer \<times> db" where
  "DeleteTechnicianSkill_handler actor technicianID technicianSkillID =
     finish_with deleteTechnicianSkillErrorResponse 204 (\<lambda>_. EmptyBody)
       (DeleteTechnicianSkill actor technicianID technicianSkillID)"

section \<open>Shifts\<close>

text \<open>A missing body is an invalid input like any other here.\<close>

definition CreateTechnicianShift_handler ::
  "(string \<Rightarrow> string option) \<Rightarrow> service_env \<Rightarrow> uuid \<Rightarrow> uuid \<Rightarrow> CreateTechnicianShiftRequest option \<Rightarrow> db \<Rightarrow> api_answer \<times> db" where
  "CreateTechnicianShift_handler parse_address env actor technicianID body =
     parsed createTechnicianShiftErrorResponse
       (require_body body (NewInvalidInputError ''validation_failed'' ''request body is required'')) (\<lambda>b.
     parsed createTechnicianShiftErrorResponse (parseShiftTime (chr_StartsAt b)) (\<lambda>startsAt.
     parsed createTechnicianShiftErrorResponse (parseShiftTime (chr_EndsAt b)) (\<lambda>endsAt.
     finish_with createTechnicianShiftErrorResponse 201 (\<lambda>s. ShiftBody (technicianShiftResponse s))
       (CreateTechnicianShift parse_address env actor technicianID
          \<lparr>cs_DayOfWeek = chr_DayOfWeek b, cs_StartsAt = startsAt, cs_EndsAt = endsAt\<rparr>))))"

definition ListTechnicianShifts_handler ::
  "(string \<Rightarrow> string option) \<Rightarrow> service_env \<Rightarrow> uuid \<Rightarrow> uuid \<Rightarrow> db \<Rightarrow> api_answer \<times> db" where
  "ListTechnicianShifts_handler parse_address env actor technicianID =
     finish_with listTechnicianShiftErrorResponse 200 (\<lambda>ss. ShiftsBody (map technicianShiftResponse ss))
       (ListTechnicianShifts parse_address env actor technicianID)"

definition given_shift :: "UpdateTechnicianShiftRequest option \<Rightarrow> UpdateTechnicianShiftRequest option" where
  "given_shift body = (case body of None \<Rightarrow> None
     | Some b \<Rightarrow> if uhr_DayOfWeek b \<noteq> None \<or> uhr_StartsAt b \<noteq> None \<or> uhr_EndsAt b \<noteq> None then Some b else None)"

definition UpdateTechnicianShift_handler ::
  "(string \<Rightarrow> string option) \<Rightarrow> zone_db \<Rightarrow> (user_row \<Rightarrow> string) \<Rightarrow> service_env \<Rightarrow> uuid \<Rightarrow> uuid \<Rightarrow> uuid \<Rightarrow> UpdateTechnicianShiftRequest option \<Rightarrow> db \<Rightarrow> api_answer \<times> db" where
  "UpdateTechnicianShift_handler parse_address zone timezone env actor technicianID shiftID body =
     parsed updateTechnicianShiftErrorResponse
       (require_body (given_shift body) (NewInvalidInputError ''validation_failed'' ''at least one field is required'')) (\<lambda>b.
     parsed updateTechnicianShiftErrorResponse (parse_optional parseShiftTime (uhr_StartsAt b)) (\<lambda>startsAt.
     parsed updateTechnicianShiftErrorResponse (parse_optional parseShiftTime (uhr_EndsAt b)) (\<lambda>endsAt.
     finish_with updateTechnicianShiftErrorResponse 200 (\<lambda>s. ShiftBody (technicianShiftResponse s))
       (UpdateTechnicianShift parse_address zone timezone env actor technicianID shiftID
          \<lparr>us_DayOfWeek = uhr_DayOfWeek b, us_StartsAt = startsAt, us_EndsAt = endsAt\<rparr>))))"

definition DeleteTechnicianShift_handler ::
  "(string \<Rightarrow> string option) \<Rightarrow> zone_db \<Rightarrow> (user_row \<Rightarrow> string) \<Rightarrow> service_env \<Rightarrow> uuid \<Rightarrow> uuid \<Rightarrow> uuid \<Rightarrow> db \<Rightarrow> api_answer \<times> db" where
  "DeleteTechnicianShift_handler parse_address zone timezone env actor technicianID shiftID =
     finish_with deleteTechnicianShiftErrorResponse 204 (\<lambda>_. EmptyBody)
       (DeleteTechnicianShift parse_address zone timezone env actor technicianID shiftID)"

section \<open>Time off\<close>

definition CreateTechnicianTimeOff_handler ::
  "(string \<Rightarrow> string option) \<Rightarrow> tx_faults \<Rightarrow> service_env \<Rightarrow> uuid \<Rightarrow> uuid \<Rightarrow> CreateTechnicianTimeOffInput option \<Rightarrow> db \<Rightarrow> api_answer \<times> db" where
  "CreateTechnicianTimeOff_handler parse_address faults env actor technicianID body =
     with_body body ''request_body_required'' (\<lambda>b.
     finish_with createTechnicianTimeOffError 201 TimeOffBody
       (CreateTechnicianTimeOff parse_address faults env actor technicianID b))"

definition wrong_period :: "gotime option \<Rightarrow> gotime option \<Rightarrow> bool" where
  "wrong_period from_time to_time =
     (case (from_time, to_time) of (Some f, Some t) \<Rightarrow> \<not> time_After t f | _ \<Rightarrow> False)"

definition ListTechnicianTimeOff_handler ::
  "(string \<Rightarrow> string option) \<Rightarrow> gotime \<Rightarrow> service_env \<Rightarrow> uuid \<Rightarrow> uuid \<Rightarrow> gotime option \<Rightarrow> gotime option \<Rightarrow> int option \<Rightarrow> int option \<Rightarrow> db \<Rightarrow> api_answer \<times> db" where
  "ListTechnicianTimeOff_handler parse_address clock env actor technicianID from_time to_time limit off =
     (if wrong_period from_time to_time
      then Pair (bad_request ''invalid_time_off_interval'' ''to must be after from'')
      else finish_with listTechnicianTimeOffError 200 (\<lambda>is. TimeOffPage is (valueOr limit 25) (valueOr off 0))
             (ListTechnicianTimeOff parse_address clock env actor technicianID from_time to_time
                (valueOr limit 25) (valueOr off 0)))"

definition GetTechnicianTimeOff_handler ::
  "(string \<Rightarrow> string option) \<Rightarrow> service_env \<Rightarrow> uuid \<Rightarrow> uuid \<Rightarrow> uuid \<Rightarrow> db \<Rightarrow> api_answer \<times> db" where
  "GetTechnicianTimeOff_handler parse_address env actor technicianID timeOffID =
     finish_with getTechnicianTimeOffError 200 TimeOffBody
       (GetTechnicianTimeOff parse_address env actor technicianID timeOffID)"

definition given_time_off :: "UpdateTechnicianTimeOffRequest option \<Rightarrow> bool" where
  "given_time_off body = (case body of None \<Rightarrow> False
     | Some b \<Rightarrow> ufr_StartsAt b \<noteq> None \<or> ufr_EndsAt b \<noteq> None \<or> ufr_Reason b \<noteq> None)"

definition UpdateTechnicianTimeOff_handler ::
  "(string \<Rightarrow> string option) \<Rightarrow> tx_faults \<Rightarrow> service_env \<Rightarrow> uuid \<Rightarrow> uuid \<Rightarrow> uuid \<Rightarrow> UpdateTechnicianTimeOffRequest option \<Rightarrow> db \<Rightarrow> api_answer \<times> db" where
  "UpdateTechnicianTimeOff_handler parse_address faults env actor technicianID timeOffID body =
     at_least_one ''request_body_required'' (given_time_off body) (
     with_body body ''request_body_required'' (\<lambda>b.
     finish_with updateTechnicianTimeOffError 200 TimeOffBody
       (UpdateTechnicianTimeOff parse_address faults env actor technicianID timeOffID
          \<lparr>uto_StartsAt = ufr_StartsAt b, uto_EndsAt = ufr_EndsAt b, uto_Reason = text_value (ufr_Reason b),
           uto_ReasonSet = text_present (ufr_Reason b)\<rparr>)))"

definition DeleteTechnicianTimeOff_handler ::
  "(string \<Rightarrow> string option) \<Rightarrow> service_env \<Rightarrow> uuid \<Rightarrow> uuid \<Rightarrow> uuid \<Rightarrow> db \<Rightarrow> api_answer \<times> db" where
  "DeleteTechnicianTimeOff_handler parse_address env actor technicianID timeOffID =
     finish_with deleteTechnicianTimeOffError 204 (\<lambda>_. EmptyBody)
       (DeleteTechnicianTimeOff parse_address env actor technicianID timeOffID)"

section \<open>Customers and vehicles\<close>

definition CreateCustomer_handler ::
  "(string \<Rightarrow> string option) \<Rightarrow> service_env \<Rightarrow> uuid \<Rightarrow> CreateCustomerInput option \<Rightarrow> db \<Rightarrow> api_answer \<times> db" where
  "CreateCustomer_handler parse_address env actor body =
     with_body body ''invalid_request'' (\<lambda>b.
     finish_with createCustomerErrorResponse 201
       (\<lambda>c. CustomerCreatedBody c (''/v1/customers/'' @ uuid_String (c_id c)))
       (CreateCustomer parse_address env actor b))"

definition GetCustomer_handler ::
  "uuid \<Rightarrow> uuid \<Rightarrow> db \<Rightarrow> api_answer \<times> db" where
  "GetCustomer_handler actor customerID =
     finish_with getCustomerErrorResponse 200 CustomerBody
       (GetCustomer actor customerID)"

definition UpdateCustomer_handler ::
  "(string \<Rightarrow> string option) \<Rightarrow> service_env \<Rightarrow> uuid \<Rightarrow> uuid \<Rightarrow> UpdateCustomerRequest option \<Rightarrow> db \<Rightarrow> api_answer \<times> db" where
  "UpdateCustomer_handler parse_address env actor customerID body =
     with_body body ''invalid_request'' (\<lambda>b.
     finish_with updateCustomerErrorResponse 200 CustomerBody
       (UpdateCustomer parse_address env actor customerID
          \<lparr>uc_Name = ucr_Name b, uc_Phone = ucr_Phone b, uc_Email = text_value (ucr_Email b),
           uc_EmailPresent = text_present (ucr_Email b)\<rparr>))"

definition SearchCustomers_handler ::
  "(string \<Rightarrow> string option) \<Rightarrow> uuid \<Rightarrow> string option \<Rightarrow> string option \<Rightarrow> db \<Rightarrow> api_answer \<times> db" where
  "SearchCustomers_handler parse_address actor phone email =
     finish_with searchCustomersErrorResponse 200 CustomersBody
       (SearchCustomers parse_address actor phone email)"

definition CreateVehicle_handler ::
  "(unit, db) world \<Rightarrow> (nat \<Rightarrow> pgtime) \<Rightarrow> service_env \<Rightarrow> uuid \<Rightarrow> uuid \<Rightarrow> CreateVehicleInput option \<Rightarrow> db \<Rightarrow> api_answer \<times> db" where
  "CreateVehicle_handler w clock env actor customerID body =
     with_body body ''invalid_request'' (\<lambda>b.
     finish_with createVehicleErrorResponse 201 VehicleBody (CreateVehicle w clock env actor customerID b))"

definition GetVehicle_handler ::
  "uuid \<Rightarrow> uuid \<Rightarrow> db \<Rightarrow> api_answer \<times> db" where
  "GetVehicle_handler actor vehicleID =
     finish_with getVehicleErrorResponse 200 VehicleBody
       (GetVehicle actor vehicleID)"

definition ListCustomerVehicles_handler ::
  "uuid \<Rightarrow> uuid \<Rightarrow> db \<Rightarrow> api_answer \<times> db" where
  "ListCustomerVehicles_handler actor customerID =
     finish_with listVehiclesErrorResponse 200 VehiclesBody
       (ListCustomerVehicles actor customerID)"

definition given_vehicle :: "UpdateVehicleRequest option \<Rightarrow> bool" where
  "given_vehicle body = (case body of None \<Rightarrow> False
     | Some b \<Rightarrow> uvr_Vin b \<noteq> None \<or> uvr_RegistrationPlate b \<noteq> None \<or> uvr_Make b \<noteq> None \<or> uvr_Model b \<noteq> None
         \<or> uvr_ModelYear b \<noteq> None)"

definition UpdateVehicle_handler ::
  "service_env \<Rightarrow> uuid \<Rightarrow> uuid \<Rightarrow> UpdateVehicleRequest option \<Rightarrow> db \<Rightarrow> api_answer \<times> db" where
  "UpdateVehicle_handler env actor vehicleID body =
     at_least_one ''invalid_request'' (given_vehicle body) (
     with_body body ''invalid_request'' (\<lambda>b.
     finish_with updateVehicleErrorResponse 200 VehicleBody
       (UpdateVehicle env actor vehicleID
          \<lparr>uv_VINPresent = text_present (uvr_Vin b), uv_VIN = text_value (uvr_Vin b),
           uv_RegistrationPlatePresent = text_present (uvr_RegistrationPlate b),
           uv_RegistrationPlate = text_value (uvr_RegistrationPlate b),
           uv_Make = uvr_Make b, uv_Model = uvr_Model b,
           uv_ModelYearPresent = int_present (uvr_ModelYear b), uv_ModelYear = int_value (uvr_ModelYear b)\<rparr>)))"

definition DeleteVehicle_handler ::
  "service_env \<Rightarrow> uuid \<Rightarrow> uuid \<Rightarrow> db \<Rightarrow> api_answer \<times> db" where
  "DeleteVehicle_handler env actor vehicleID =
     finish_with deleteVehicleErrorResponse 204 (\<lambda>_. EmptyBody)
       (DeleteVehicle env actor vehicleID)"

lemmas query_handler_defs =
  ListDealershipAppointments_handler_def
  ListDealerships_handler_def
  ListAvailableServiceBays_handler_def
  ListTechnicianSchedules_handler_def

lemmas api_handler_defs =
  CreateDealershipOperationTime_handler_def
  ListDealershipOperationTimes_handler_def
  UpdateDealershipOperationTime_handler_def
  DeleteDealershipOperationTime_handler_def
  CreateServiceBay_handler_def
  ListServiceBays_handler_def
  GetServiceBay_handler_def
  UpdateServiceBay_handler_def
  DeleteServiceBay_handler_def
  CreateServiceBayCapability_handler_def
  ListServiceBayCapabilities_handler_def
  UpdateServiceBayCapability_handler_def
  DeleteServiceBayCapability_handler_def
  CreateServiceType_handler_def
  ListServiceTypes_handler_def
  GetServiceType_handler_def
  UpdateServiceType_handler_def
  DeleteServiceType_handler_def
  CreateServiceTypeRequiredSkill_handler_def
  ListServiceTypeRequiredSkills_handler_def
  UpdateServiceTypeRequiredSkill_handler_def
  DeleteServiceTypeRequiredSkill_handler_def
  CreateServiceTypeRequiredBayCapability_handler_def
  ListServiceTypeRequiredBayCapabilities_handler_def
  UpdateServiceTypeRequiredBayCapability_handler_def
  DeleteServiceTypeRequiredBayCapability_handler_def
  CreateDealership_handler_def
  CreateDealershipAdmin_handler_def
  CreateDealershipUser_handler_def
  SearchAuthUserByEmail_handler_def
  CreateTechnician_handler_def
  ListTechnicians_handler_def
  GetTechnician_handler_def
  UpdateTechnician_handler_def
  DeleteTechnician_handler_def
  CreateTechnicianSkill_handler_def
  ListTechnicianSkills_handler_def
  UpdateTechnicianSkill_handler_def
  DeleteTechnicianSkill_handler_def
  CreateTechnicianShift_handler_def
  ListTechnicianShifts_handler_def
  UpdateTechnicianShift_handler_def
  DeleteTechnicianShift_handler_def
  CreateTechnicianTimeOff_handler_def
  ListTechnicianTimeOff_handler_def
  GetTechnicianTimeOff_handler_def
  UpdateTechnicianTimeOff_handler_def
  DeleteTechnicianTimeOff_handler_def
  CreateCustomer_handler_def
  GetCustomer_handler_def
  UpdateCustomer_handler_def
  SearchCustomers_handler_def
  CreateVehicle_handler_def
  GetVehicle_handler_def
  ListCustomerVehicles_handler_def
  UpdateVehicle_handler_def
  DeleteVehicle_handler_def

end
