(* ===== verification/Api.thy ===== *)
theory Api
  imports Handlers Auth_Service
begin

text \<open>
  The HTTP surface of the scheduler: the routes that \<open>Register\<close> (api/http/handler.go) installs with
  \<open>requireIdentity\<close> in front of every one, their dispatch to the handlers, and what this adds to the
  use cases. The generated router picks the constructor of \<open>api_request\<close>; path, query and body parameters
  are its arguments.
\<close>

section \<open>Requests\<close>

datatype query_request =
    ApiListDealershipAppointments uuid string
  | ApiListDealerships
  | ApiListAvailableServiceBays uuid uuid gotime gotime
  | ApiListTechnicianSchedules uuid string "string option" "string list option"

datatype hours_request =
    ApiCreateDealershipOperationTime uuid "CreateDealershipOperationTimeRequest option"
  | ApiListDealershipOperationTimes uuid
  | ApiUpdateDealershipOperationTime uuid uuid "UpdateDealershipOperationTimeRequest option"
  | ApiDeleteDealershipOperationTime uuid uuid

datatype bay_request =
    ApiCreateServiceBay uuid "CreateServiceBayRequest option"
  | ApiListServiceBays uuid "bool option" "int option" "int option"
  | ApiGetServiceBay uuid uuid
  | ApiUpdateServiceBay uuid uuid "UpdateServiceBayRequest option"
  | ApiDeleteServiceBay uuid uuid
  | ApiCreateServiceBayCapability uuid uuid "uuid option"
  | ApiListServiceBayCapabilities uuid uuid
  | ApiUpdateServiceBayCapability uuid uuid uuid "uuid option"
  | ApiDeleteServiceBayCapability uuid uuid uuid

datatype service_type_request =
    ApiCreateServiceType uuid "CreateServiceTypeRequest option"
  | ApiListServiceTypes uuid
  | ApiGetServiceType uuid uuid
  | ApiUpdateServiceType uuid uuid "UpdateServiceTypeInput option"
  | ApiDeleteServiceType uuid uuid

datatype requirement_request =
    ApiCreateServiceTypeRequiredSkill uuid uuid "uuid option"
  | ApiListServiceTypeRequiredSkills uuid uuid
  | ApiUpdateServiceTypeRequiredSkill uuid uuid uuid "uuid option"
  | ApiDeleteServiceTypeRequiredSkill uuid uuid uuid
  | ApiCreateServiceTypeRequiredBayCapability uuid uuid "uuid option"
  | ApiListServiceTypeRequiredBayCapabilities uuid uuid
  | ApiUpdateServiceTypeRequiredBayCapability uuid uuid uuid "uuid option"
  | ApiDeleteServiceTypeRequiredBayCapability uuid uuid uuid

datatype dealership_request =
    ApiCreateDealership "CreateDealershipInput option"
  | ApiCreateDealershipAdmin "CreateDealershipAdminInput option"
  | ApiCreateDealershipUser "CreateDealershipUserInput option"
  | ApiSearchAuthUserByEmail string

datatype technician_request =
    ApiCreateTechnician "CreateTechnicianRequest option"
  | ApiListTechnicians "bool option" "int option" "int option"
  | ApiGetTechnician uuid
  | ApiUpdateTechnician uuid "UpdateTechnicianRequest option"
  | ApiDeleteTechnician uuid
  | ApiCreateTechnicianSkill uuid "uuid option"
  | ApiListTechnicianSkills uuid
  | ApiUpdateTechnicianSkill uuid uuid "uuid option"
  | ApiDeleteTechnicianSkill uuid uuid

datatype rota_request =
    ApiCreateTechnicianShift uuid "CreateTechnicianShiftRequest option"
  | ApiListTechnicianShifts uuid
  | ApiUpdateTechnicianShift uuid uuid "UpdateTechnicianShiftRequest option"
  | ApiDeleteTechnicianShift uuid uuid
  | ApiCreateTechnicianTimeOff uuid "CreateTechnicianTimeOffInput option"
  | ApiListTechnicianTimeOff uuid "gotime option" "gotime option" "int option" "int option"
  | ApiGetTechnicianTimeOff uuid uuid
  | ApiUpdateTechnicianTimeOff uuid uuid "UpdateTechnicianTimeOffRequest option"
  | ApiDeleteTechnicianTimeOff uuid uuid

datatype customer_request =
    ApiCreateCustomer "CreateCustomerInput option"
  | ApiGetCustomer uuid
  | ApiUpdateCustomer uuid "UpdateCustomerRequest option"
  | ApiSearchCustomers "string option" "string option"
  | ApiCreateVehicle uuid "CreateVehicleInput option"
  | ApiGetVehicle uuid
  | ApiListCustomerVehicles uuid
  | ApiUpdateVehicle uuid "UpdateVehicleRequest option"
  | ApiDeleteVehicle uuid

datatype api_request =
    ApiAppointment appointment_request
  | ApiQuery query_request
  | ApiHours hours_request
  | ApiBays bay_request
  | ApiServiceTypes service_type_request
  | ApiRequirements requirement_request
  | ApiDealerships dealership_request
  | ApiTechnicians technician_request
  | ApiRota rota_request
  | ApiCustomers customer_request

text \<open>What surrounds a request: the parameters of the model, the worlds of its transactions, and the auth
  module.\<close>

record surroundings =
  sr_tzdata :: "string \<Rightarrow> tz_offset option"
  sr_zone :: zone_db
  sr_collate :: "string \<Rightarrow> string"
  sr_timezone :: "user_row \<Rightarrow> string"
  sr_faults :: tx_faults
  sr_clock :: gotime
  sr_catalog :: catalog_deps
  sr_schedule_world :: "(ScheduleAppointmentRecord, db) world"
  sr_appointment_ids :: "nat \<Rightarrow> uuid \<times> uuid \<times> uuid"
  sr_audit_ids :: "nat \<Rightarrow> uuid"
  sr_env :: service_env
  sr_auth :: auth_env

definition appointment_call :: "surroundings \<Rightarrow> service_env \<Rightarrow> uuid \<Rightarrow> appointment_request \<Rightarrow> call" where
  "appointment_call s env actor req =
     \<lparr>c_env = env, c_schedule_world = sr_schedule_world s, c_status_world = cat_world (sr_catalog s),
      c_ids = sr_appointment_ids s, c_auditEvents = sr_audit_ids s, c_actor = actor, c_request = req\<rparr>"

definition query_dispatch :: "surroundings \<Rightarrow> service_env \<Rightarrow> uuid \<Rightarrow> query_request \<Rightarrow> db \<Rightarrow> api_answer \<times> db" where
  "query_dispatch s env actor r =
     (case r of
        ApiListDealershipAppointments dealershipID date \<Rightarrow> 
          ListDealershipAppointments_handler (sr_tzdata s) actor dealershipID date
      | ApiListDealerships \<Rightarrow> 
          ListDealerships_handler (cat_load_location (sr_catalog s)) (sr_collate s) env actor
      | ApiListAvailableServiceBays dealershipID serviceTypeID startsAt endsAt \<Rightarrow> 
          ListAvailableServiceBays_handler (sr_collate s) actor dealershipID serviceTypeID startsAt endsAt
      | ApiListTechnicianSchedules dealershipID date technicianID include \<Rightarrow> 
          ListTechnicianSchedules_handler (sr_tzdata s) (cat_parse_uuid (sr_catalog s)) actor dealershipID date technicianID include)"

definition hours_dispatch :: "surroundings \<Rightarrow> service_env \<Rightarrow> uuid \<Rightarrow> hours_request \<Rightarrow> db \<Rightarrow> api_answer \<times> db" where
  "hours_dispatch s env actor r =
     (case r of
        ApiCreateDealershipOperationTime dealershipID body \<Rightarrow> 
          CreateDealershipOperationTime_handler env actor dealershipID body
      | ApiListDealershipOperationTimes dealershipID \<Rightarrow> 
          ListDealershipOperationTimes_handler actor dealershipID
      | ApiUpdateDealershipOperationTime dealershipID operationTimeID body \<Rightarrow> 
          UpdateDealershipOperationTime_handler env actor dealershipID operationTimeID body
      | ApiDeleteDealershipOperationTime dealershipID operationTimeID \<Rightarrow> 
          DeleteDealershipOperationTime_handler actor dealershipID operationTimeID)"

definition bay_dispatch :: "surroundings \<Rightarrow> service_env \<Rightarrow> uuid \<Rightarrow> bay_request \<Rightarrow> db \<Rightarrow> api_answer \<times> db" where
  "bay_dispatch s env actor r =
     (case r of
        ApiCreateServiceBay dealershipID body \<Rightarrow> 
          CreateServiceBay_handler env actor dealershipID body
      | ApiListServiceBays dealershipID isActive limit off \<Rightarrow> 
          ListServiceBays_handler (sr_collate s) actor dealershipID isActive limit off
      | ApiGetServiceBay dealershipID serviceBayID \<Rightarrow> 
          GetServiceBay_handler actor dealershipID serviceBayID
      | ApiUpdateServiceBay dealershipID serviceBayID body \<Rightarrow> 
          UpdateServiceBay_handler env actor dealershipID serviceBayID body
      | ApiDeleteServiceBay dealershipID serviceBayID \<Rightarrow> 
          DeleteServiceBay_handler (cat_world (sr_catalog s)) env actor dealershipID serviceBayID
      | ApiCreateServiceBayCapability dealershipID serviceBayID body \<Rightarrow> 
          CreateServiceBayCapability_handler env actor dealershipID serviceBayID body
      | ApiListServiceBayCapabilities dealershipID serviceBayID \<Rightarrow> 
          ListServiceBayCapabilities_handler (sr_collate s) actor dealershipID serviceBayID
      | ApiUpdateServiceBayCapability dealershipID serviceBayID serviceBayCapabilityID body \<Rightarrow> 
          UpdateServiceBayCapability_handler env actor dealershipID serviceBayID serviceBayCapabilityID body
      | ApiDeleteServiceBayCapability dealershipID serviceBayID serviceBayCapabilityID \<Rightarrow> 
          DeleteServiceBayCapability_handler actor dealershipID serviceBayID serviceBayCapabilityID)"

definition service_type_dispatch :: "surroundings \<Rightarrow> service_env \<Rightarrow> uuid \<Rightarrow> service_type_request \<Rightarrow> db \<Rightarrow> api_answer \<times> db" where
  "service_type_dispatch s env actor r =
     (case r of
        ApiCreateServiceType dealershipID body \<Rightarrow> 
          CreateServiceType_handler env actor dealershipID body
      | ApiListServiceTypes dealershipID \<Rightarrow> 
          ListServiceTypes_handler (sr_collate s) actor dealershipID
      | ApiGetServiceType dealershipID serviceTypeID \<Rightarrow> 
          GetServiceType_handler actor dealershipID serviceTypeID
      | ApiUpdateServiceType dealershipID serviceTypeID body \<Rightarrow> 
          UpdateServiceType_handler env actor dealershipID serviceTypeID body
      | ApiDeleteServiceType dealershipID serviceTypeID \<Rightarrow> 
          DeleteServiceType_handler (cat_world (sr_catalog s)) env actor dealershipID serviceTypeID)"

definition requirement_dispatch :: "surroundings \<Rightarrow> service_env \<Rightarrow> uuid \<Rightarrow> requirement_request \<Rightarrow> db \<Rightarrow> api_answer \<times> db" where
  "requirement_dispatch s env actor r =
     (case r of
        ApiCreateServiceTypeRequiredSkill dealershipID serviceTypeID body \<Rightarrow> 
          CreateServiceTypeRequiredSkill_handler env actor dealershipID serviceTypeID body
      | ApiListServiceTypeRequiredSkills dealershipID serviceTypeID \<Rightarrow> 
          ListServiceTypeRequiredSkills_handler (sr_collate s) actor dealershipID serviceTypeID
      | ApiUpdateServiceTypeRequiredSkill dealershipID serviceTypeID requiredSkillID body \<Rightarrow> 
          UpdateServiceTypeRequiredSkill_handler env actor dealershipID serviceTypeID requiredSkillID body
      | ApiDeleteServiceTypeRequiredSkill dealershipID serviceTypeID requiredSkillID \<Rightarrow> 
          DeleteServiceTypeRequiredSkill_handler actor dealershipID serviceTypeID requiredSkillID
      | ApiCreateServiceTypeRequiredBayCapability dealershipID serviceTypeID body \<Rightarrow> 
          CreateServiceTypeRequiredBayCapability_handler env actor dealershipID serviceTypeID body
      | ApiListServiceTypeRequiredBayCapabilities dealershipID serviceTypeID \<Rightarrow> 
          ListServiceTypeRequiredBayCapabilities_handler (sr_collate s) actor dealershipID serviceTypeID
      | ApiUpdateServiceTypeRequiredBayCapability dealershipID serviceTypeID requiredCapabilityID body \<Rightarrow> 
          UpdateServiceTypeRequiredBayCapability_handler env actor dealershipID serviceTypeID requiredCapabilityID body
      | ApiDeleteServiceTypeRequiredBayCapability dealershipID serviceTypeID requiredCapabilityID \<Rightarrow> 
          DeleteServiceTypeRequiredBayCapability_handler actor dealershipID serviceTypeID requiredCapabilityID)"

definition dealership_dispatch :: "surroundings \<Rightarrow> service_env \<Rightarrow> uuid \<Rightarrow> dealership_request \<Rightarrow> db \<Rightarrow> api_answer \<times> db" where
  "dealership_dispatch s env actor r =
     (case r of
        ApiCreateDealership body \<Rightarrow> 
          CreateDealership_handler (cat_load_location (sr_catalog s)) env actor body
      | ApiCreateDealershipAdmin body \<Rightarrow> 
          CreateDealershipAdmin_handler (cat_parse_uuid (sr_catalog s)) (cat_parse_address (sr_catalog s)) (cat_world (sr_catalog s)) (cat_ids (sr_catalog s)) env actor body
      | ApiCreateDealershipUser body \<Rightarrow> 
          CreateDealershipUser_handler (cat_parse_uuid (sr_catalog s)) (cat_parse_address (sr_catalog s)) (cat_world (sr_catalog s)) (cat_ids (sr_catalog s)) env actor body
      | ApiSearchAuthUserByEmail email \<Rightarrow> 
          SearchAuthUserByEmail_handler (cat_parse_uuid (sr_catalog s)) env actor email)"

definition technician_dispatch :: "surroundings \<Rightarrow> service_env \<Rightarrow> uuid \<Rightarrow> technician_request \<Rightarrow> db \<Rightarrow> api_answer \<times> db" where
  "technician_dispatch s env actor r =
     (case r of
        ApiCreateTechnician body \<Rightarrow> 
          CreateTechnician_handler (cat_parse_address (sr_catalog s)) env actor body
      | ApiListTechnicians isActive limit off \<Rightarrow> 
          ListTechnicians_handler (cat_parse_address (sr_catalog s)) env actor isActive limit off
      | ApiGetTechnician technicianID \<Rightarrow> 
          GetTechnician_handler (cat_parse_address (sr_catalog s)) env actor technicianID
      | ApiUpdateTechnician technicianID body \<Rightarrow> 
          UpdateTechnician_handler (cat_parse_address (sr_catalog s)) env actor technicianID body
      | ApiDeleteTechnician technicianID \<Rightarrow> 
          DeleteTechnician_handler (cat_parse_address (sr_catalog s)) env actor technicianID
      | ApiCreateTechnicianSkill technicianID body \<Rightarrow> 
          CreateTechnicianSkill_handler env actor technicianID body
      | ApiListTechnicianSkills technicianID \<Rightarrow> ListTechnicianSkills_handler actor technicianID
      | ApiUpdateTechnicianSkill technicianID technicianSkillID body \<Rightarrow> 
          UpdateTechnicianSkill_handler env actor technicianID technicianSkillID body
      | ApiDeleteTechnicianSkill technicianID technicianSkillID \<Rightarrow> 
          DeleteTechnicianSkill_handler actor technicianID technicianSkillID)"

definition rota_dispatch :: "surroundings \<Rightarrow> service_env \<Rightarrow> uuid \<Rightarrow> rota_request \<Rightarrow> db \<Rightarrow> api_answer \<times> db" where
  "rota_dispatch s env actor r =
     (case r of
        ApiCreateTechnicianShift technicianID body \<Rightarrow> 
          CreateTechnicianShift_handler (cat_parse_address (sr_catalog s)) env actor technicianID body
      | ApiListTechnicianShifts technicianID \<Rightarrow> 
          ListTechnicianShifts_handler (cat_parse_address (sr_catalog s)) env actor technicianID
      | ApiUpdateTechnicianShift technicianID shiftID body \<Rightarrow> 
          UpdateTechnicianShift_handler (cat_parse_address (sr_catalog s)) (sr_zone s) (sr_timezone s) env actor technicianID shiftID body
      | ApiDeleteTechnicianShift technicianID shiftID \<Rightarrow> 
          DeleteTechnicianShift_handler (cat_parse_address (sr_catalog s)) (sr_zone s) (sr_timezone s) env actor technicianID shiftID
      | ApiCreateTechnicianTimeOff technicianID body \<Rightarrow> 
          CreateTechnicianTimeOff_handler (cat_parse_address (sr_catalog s)) (sr_faults s) env actor technicianID body
      | ApiListTechnicianTimeOff technicianID from_time to_time limit off \<Rightarrow> 
          ListTechnicianTimeOff_handler (cat_parse_address (sr_catalog s)) (sr_clock s) env actor technicianID from_time to_time limit off
      | ApiGetTechnicianTimeOff technicianID timeOffID \<Rightarrow> 
          GetTechnicianTimeOff_handler (cat_parse_address (sr_catalog s)) env actor technicianID timeOffID
      | ApiUpdateTechnicianTimeOff technicianID timeOffID body \<Rightarrow> 
          UpdateTechnicianTimeOff_handler (cat_parse_address (sr_catalog s)) (sr_faults s) env actor technicianID timeOffID body
      | ApiDeleteTechnicianTimeOff technicianID timeOffID \<Rightarrow> 
          DeleteTechnicianTimeOff_handler (cat_parse_address (sr_catalog s)) env actor technicianID timeOffID)"

definition customer_dispatch :: "surroundings \<Rightarrow> service_env \<Rightarrow> uuid \<Rightarrow> customer_request \<Rightarrow> db \<Rightarrow> api_answer \<times> db" where
  "customer_dispatch s env actor r =
     (case r of
        ApiCreateCustomer body \<Rightarrow> 
          CreateCustomer_handler (cat_parse_address (sr_catalog s)) env actor body
      | ApiGetCustomer customerID \<Rightarrow> GetCustomer_handler actor customerID
      | ApiUpdateCustomer customerID body \<Rightarrow> 
          UpdateCustomer_handler (cat_parse_address (sr_catalog s)) env actor customerID body
      | ApiSearchCustomers phone email \<Rightarrow> 
          SearchCustomers_handler (cat_parse_address (sr_catalog s)) actor phone email
      | ApiCreateVehicle customerID body \<Rightarrow> 
          CreateVehicle_handler (cat_world (sr_catalog s)) (cat_clock (sr_catalog s)) env actor customerID body
      | ApiGetVehicle vehicleID \<Rightarrow> GetVehicle_handler actor vehicleID
      | ApiListCustomerVehicles customerID \<Rightarrow> ListCustomerVehicles_handler actor customerID
      | ApiUpdateVehicle vehicleID body \<Rightarrow> UpdateVehicle_handler env actor vehicleID body
      | ApiDeleteVehicle vehicleID \<Rightarrow> DeleteVehicle_handler env actor vehicleID)"

definition api_dispatch :: "surroundings \<Rightarrow> service_env \<Rightarrow> uuid \<Rightarrow> api_request \<Rightarrow> db \<Rightarrow> api_answer \<times> db" where
  "api_dispatch s env actor r =
     (case r of
        ApiAppointment req \<Rightarrow>
          (\<lambda>d. case handle (sr_zone s) (appointment_call s env actor req) d of (a, d') \<Rightarrow> (AppointmentAnswer a, d'))
      | ApiQuery q \<Rightarrow> query_dispatch s env actor q
      | ApiHours q \<Rightarrow> hours_dispatch s env actor q
      | ApiBays q \<Rightarrow> bay_dispatch s env actor q
      | ApiServiceTypes q \<Rightarrow> service_type_dispatch s env actor q
      | ApiRequirements q \<Rightarrow> requirement_dispatch s env actor q
      | ApiDealerships q \<Rightarrow> dealership_dispatch s env actor q
      | ApiTechnicians q \<Rightarrow> technician_dispatch s env actor q
      | ApiRota q \<Rightarrow> rota_dispatch s env actor q
      | ApiCustomers q \<Rightarrow> customer_dispatch s env actor q)"

section \<open>Identity\<close>

text \<open>\<open>bearerToken\<close> of this module: the prefix in any case, then the token without the blanks around it.\<close>

definition scheduler_bearerToken :: "string \<Rightarrow> string" where
  "scheduler_bearerToken value =
     (if length value < 7 \<or> ToLower (take 7 value) \<noteq> ''bearer '' then [] else TrimSpace (drop 7 value))"

text \<open>\<open>requireIdentity\<close>: the handler runs as the user of the token, with the authorization of the token.\<close>

definition scheduler_requireIdentity ::
  "surroundings \<Rightarrow> auth_db \<Rightarrow> string \<Rightarrow> (service_env \<Rightarrow> uuid \<Rightarrow> db \<Rightarrow> api_answer \<times> db) \<Rightarrow> db \<Rightarrow> api_answer \<times> db" where
  "scheduler_requireIdentity s accounts header next d =
     (case AuthenticateAccessToken (sr_auth s) (scheduler_bearerToken header) of
        Inl _ \<Rightarrow> (problem_answer 401 (NewUnauthorizedError ''authentication_required'' ''authentication required''), d)
      | Inr (userID, role) \<Rightarrow>
          if userID = uuid_Nil
          then (problem_answer 401 (NewUnauthorizedError ''authentication_required'' ''authentication required''), d)
          else next ((with_auth (sr_auth s) accounts (sr_env s))
                       \<lparr>sv_authorization := Some \<lparr>au_UserID = userID, au_Role = role\<rparr>\<rparr>) userID d)"

definition api_serve :: "surroundings \<Rightarrow> auth_db \<Rightarrow> string \<Rightarrow> api_request \<Rightarrow> db \<Rightarrow> api_answer \<times> db" where
  "api_serve s accounts header r =
     scheduler_requireIdentity s accounts header (\<lambda>env actor. api_dispatch s env actor r)"

end
