(* ===== verification/Api_Facts.thy ===== *)
theory Api_Facts
  imports Api Catalog_Facts Auth_Facts
begin

text \<open>
  What the HTTP surface guarantees: a request to it is at most one request of the whole program (theory
  Catalog\_Requests), so what those keep, it keeps; without a live access token nothing happens; reads
  change nothing.
\<close>

section \<open>One request, one use case\<close>

text \<open>The requests of the program that a request in these surroundings can become.\<close>

fun issues :: "surroundings \<Rightarrow> service_env \<Rightarrow> uuid \<Rightarrow> request \<Rightarrow> bool" where
  "issues s env actor (ToAppointments c) \<longleftrightarrow> (\<exists>req. c = appointment_call s env actor req)"
| "issues s env actor (ToWorkforce pa tz faults e a req) \<longleftrightarrow>
     pa = cat_parse_address (sr_catalog s) \<and> tz = sr_timezone s \<and> faults = sr_faults s \<and> e = env \<and> a = actor"
| "issues s env actor (ToCatalog x e a req) \<longleftrightarrow> x = sr_catalog s \<and> e = env \<and> a = actor"

text \<open>A handler moves the database as one of them or not at all.\<close>

definition moves :: "surroundings \<Rightarrow> service_env \<Rightarrow> uuid \<Rightarrow> (db \<Rightarrow> 'a \<times> db) \<Rightarrow> bool" where
  "moves s env actor h \<longleftrightarrow>
     (\<forall>d. snd (h d) = d \<or> (\<exists>q. issues s env actor q \<and> snd (h d) = request_step (sr_zone s) q d))"

lemma finish_with_state: "snd (finish_with p st b m d) = snd (m d)"
  by (simp add: finish_with_def split: prod.split sum.split)

lemma no_value_state: "snd (no_value m d) = snd (m d)"
  by (simp add: no_value_def andThen_def ret_def split: prod.split sum.split)

lemma andThen_ret_state: "snd (andThen m (\<lambda>_. ret ()) d) = snd (m d)"
  using no_value_state [of m d] by (simp add: no_value_def)

lemma moves_pure: "moves s env actor (Pair a)"
  by (simp add: moves_def)

lemma moves_read: "readonly m \<Longrightarrow> moves s env actor (finish_with p st b m)"
  by (simp add: moves_def finish_with_state readonly_def)

lemma moves_catalog:
  assumes "\<And>d. snd (m d) = snd (catalog_use_case (sr_catalog s) env actor req d)"
  shows "moves s env actor (finish_with p st b m)"
proof -
  have "issues s env actor (ToCatalog (sr_catalog s) env actor req)" by simp
  then show ?thesis unfolding moves_def finish_with_state using assms by (metis request_step.simps(3))
qed

lemma moves_workforce:
  assumes "\<And>d. snd (m d) = snd (workforce_use_case (cat_parse_address (sr_catalog s)) (sr_zone s) (sr_timezone s)
      (sr_faults s) env actor req d)"
  shows "moves s env actor (finish_with p st b m)"
proof -
  have "issues s env actor (ToWorkforce (cat_parse_address (sr_catalog s)) (sr_timezone s) (sr_faults s) env actor req)"
    by simp
  then show ?thesis unfolding moves_def finish_with_state using assms by (metis request_step.simps(2))
qed

lemma moves_with_body: "(\<And>x. moves s env actor (k x)) \<Longrightarrow> moves s env actor (with_body body slug k)"
  by (cases body) (simp_all add: with_body_def moves_pure)

lemma moves_at_least_one: "moves s env actor k \<Longrightarrow> moves s env actor (at_least_one slug given k)"
  by (simp add: at_least_one_def moves_pure)

lemma moves_parsed: "(\<And>x. moves s env actor (k x)) \<Longrightarrow> moves s env actor (parsed p r k)"
  by (cases r) (simp_all add: parsed_def moves_pure)

lemma moves_if: "moves s env actor h1 \<Longrightarrow> moves s env actor h2 \<Longrightarrow> moves s env actor (if c then h1 else h2)"
  by simp

lemma catalog_runs:
  "snd (CreateDealership (cat_load_location x) env actor i d) = snd (catalog_use_case x env actor (CatCreateDealership i) d)"
  "snd (CreateDealershipAdmin (cat_parse_uuid x) (cat_parse_address x) (cat_world x) (cat_ids x) env actor i2 d)
     = snd (catalog_use_case x env actor (CatCreateDealershipAdmin i2) d)"
  "snd (CreateDealershipUser (cat_parse_uuid x) (cat_parse_address x) (cat_world x) (cat_ids x) env actor i3 d)
     = snd (catalog_use_case x env actor (CatCreateDealershipUser i3) d)"
  "snd (CreateServiceType env actor dl i4 d) = snd (catalog_use_case x env actor (CatCreateServiceType dl i4) d)"
  "snd (UpdateServiceType env actor dl j i5 d) = snd (catalog_use_case x env actor (CatUpdateServiceType dl j i5) d)"
  "snd (DeleteServiceType (cat_world x) env actor dl j d) = snd (catalog_use_case x env actor (CatDeleteServiceType dl j) d)"
  "snd (CreateDealershipOperationTime env actor dl a b c d) = snd (catalog_use_case x env actor (CatCreateOperationTime dl a b c) d)"
  "snd (UpdateDealershipOperationTime env actor dl j a' b' c' d)
     = snd (catalog_use_case x env actor (CatUpdateOperationTime dl j a' b' c') d)"
  "snd (DeleteDealershipOperationTime actor dl j d) = snd (catalog_use_case x env actor (CatDeleteOperationTime dl j) d)"
  "snd (CreateServiceTypeRequiredSkill env actor dl j k d) = snd (catalog_use_case x env actor (CatCreateRequiredSkill dl j k) d)"
  "snd (UpdateServiceTypeRequiredSkill env actor dl j k l d)
     = snd (catalog_use_case x env actor (CatUpdateRequiredSkill dl j k l) d)"
  "snd (DeleteServiceTypeRequiredSkill actor dl j k d) = snd (catalog_use_case x env actor (CatDeleteRequiredSkill dl j k) d)"
  "snd (CreateServiceTypeRequiredBayCapability env actor dl j k d)
     = snd (catalog_use_case x env actor (CatCreateRequiredCapability dl j k) d)"
  "snd (UpdateServiceTypeRequiredBayCapability env actor dl j k l d)
     = snd (catalog_use_case x env actor (CatUpdateRequiredCapability dl j k l) d)"
  "snd (DeleteServiceTypeRequiredBayCapability actor dl j k d)
     = snd (catalog_use_case x env actor (CatDeleteRequiredCapability dl j k) d)"
  "snd (CreateServiceBay env actor dl co na act d) = snd (catalog_use_case x env actor (CatCreateServiceBay dl co na act) d)"
  "snd (UpdateServiceBay env actor dl j co' na' act' d)
     = snd (catalog_use_case x env actor (CatUpdateServiceBay dl j co' na' act') d)"
  "snd (DeleteServiceBay (cat_world x) env actor dl j d) = snd (catalog_use_case x env actor (CatDeleteServiceBay dl j) d)"
  "snd (CreateServiceBayCapability env actor dl j k d) = snd (catalog_use_case x env actor (CatCreateBayCapability dl j k) d)"
  "snd (UpdateServiceBayCapability env actor dl j k l d)
     = snd (catalog_use_case x env actor (CatUpdateBayCapability dl j k l) d)"
  "snd (DeleteServiceBayCapability actor dl j k d) = snd (catalog_use_case x env actor (CatDeleteBayCapability dl j k) d)"
  "snd (CreateCustomer (cat_parse_address x) env actor i6 d) = snd (catalog_use_case x env actor (CatCreateCustomer i6) d)"
  "snd (UpdateCustomer (cat_parse_address x) env actor j i7 d) = snd (catalog_use_case x env actor (CatUpdateCustomer j i7) d)"
  "snd (CreateVehicle (cat_world x) (cat_clock x) env actor j i8 d) = snd (catalog_use_case x env actor (CatCreateVehicle j i8) d)"
  "snd (UpdateVehicle env actor j i9 d) = snd (catalog_use_case x env actor (CatUpdateVehicle j i9) d)"
  "snd (DeleteVehicle env actor j d) = snd (catalog_use_case x env actor (CatDeleteVehicle j) d)"
  by (simp_all add: catalog_use_case_def no_value_state)

lemma workforce_runs:
  "snd (CreateTechnician pa env actor i1 d) = snd (workforce_use_case pa z tz f env actor (WfCreateTechnician i1) d)"
  "snd (UpdateTechnician pa env actor j i2 d) = snd (workforce_use_case pa z tz f env actor (WfUpdateTechnician j i2) d)"
  "snd (DeactivateTechnician pa env actor j d) = snd (workforce_use_case pa z tz f env actor (WfDeactivateTechnician j) d)"
  "snd (CreateTechnicianShift pa env actor j i3 d) = snd (workforce_use_case pa z tz f env actor (WfCreateShift j i3) d)"
  "snd (UpdateTechnicianShift pa z tz env actor j k i4 d) = snd (workforce_use_case pa z tz f env actor (WfUpdateShift j k i4) d)"
  "snd (DeleteTechnicianShift pa z tz env actor j k d) = snd (workforce_use_case pa z tz f env actor (WfDeleteShift j k) d)"
  "snd (CreateTechnicianTimeOff pa f env actor j i5 d) = snd (workforce_use_case pa z tz f env actor (WfCreateTimeOff j i5) d)"
  "snd (UpdateTechnicianTimeOff pa f env actor j k i6 d) = snd (workforce_use_case pa z tz f env actor (WfUpdateTimeOff j k i6) d)"
  "snd (DeleteTechnicianTimeOff pa env actor j k d) = snd (workforce_use_case pa z tz f env actor (WfDeleteTimeOff j k) d)"
  "snd (CreateTechnicianSkill env actor j k d) = snd (workforce_use_case pa z tz f env actor (WfCreateSkill j k) d)"
  "snd (UpdateTechnicianSkill env actor j k l d) = snd (workforce_use_case pa z tz f env actor (WfUpdateSkill j k l) d)"
  "snd (DeleteTechnicianSkill actor j k d) = snd (workforce_use_case pa z tz f env actor (WfDeleteSkill j k) d)"
  by (simp_all add: workforce_use_case_def andThen_ret_state)

text \<open>The reads of the use cases.\<close>

lemma use_case_reads:
  "readonly (ListDealershipOperationTimes a dl)" "readonly (ListServiceBays collate a dl act l off)"
  "readonly (GetServiceBay a dl i)" "readonly (ListServiceBayCapabilities collate a dl i)"
  "readonly (ListServiceTypes collate a dl)" "readonly (GetServiceType a dl i)"
  "readonly (ListServiceTypeRequiredSkills collate a dl i)"
  "readonly (ListServiceTypeRequiredBayCapabilities collate a dl i)"
  "readonly (SearchAuthUserByEmail pu env a m)" "readonly (GetCustomer a i)"
  "readonly (SearchCustomers pa a phone email)" "readonly (GetVehicle a i)" "readonly (ListCustomerVehicles a i)"
  "readonly (ListTechnicians pa env a act l off)" "readonly (GetTechnician_service pa env a i)"
  "readonly (ListTechnicianSkills a i)" "readonly (ListTechnicianShifts pa env a i)"
  "readonly (ListTechnicianTimeOff pa clock env a i from to l off)" "readonly (GetTechnicianTimeOff pa env a i j)"
  unfolding ListDealershipOperationTimes_def ListServiceBays_def GetServiceBay_def ListServiceBayCapabilities_def
    ListServiceTypes_def GetServiceType_def ListServiceTypeRequiredSkills_def
    ListServiceTypeRequiredBayCapabilities_def SearchAuthUserByEmail_def GetCustomer_def SearchCustomers_def
    found_customer_def GetVehicle_def ListCustomerVehicles_def ListTechnicians_def GetTechnician_service_def
    ListTechnicianSkills_def ListTechnicianShifts_def ListTechnicianTimeOff_def GetTechnicianTimeOff_def Let_def
  by (auto intro!: readonly_andThen readonly_on_err readonly_actors technician_reads split: sum.split option.split)


lemmas dispatch_defs = query_dispatch_def hours_dispatch_def bay_dispatch_def service_type_dispatch_def
  requirement_dispatch_def dealership_dispatch_def technician_dispatch_def rota_dispatch_def customer_dispatch_def

lemmas moves_intros = moves_pure moves_with_body moves_at_least_one moves_parsed moves_if

lemmas read_moves = use_case_reads [THEN moves_read] queries_readonly [THEN moves_read]

lemmas catalog_moves = catalog_runs [THEN moves_catalog]

lemmas workforce_moves = workforce_runs [THEN moves_workforce]

lemma group_moves:
  "moves s env actor (query_dispatch s env actor r1)" "moves s env actor (hours_dispatch s env actor r2)"
  "moves s env actor (bay_dispatch s env actor r3)" "moves s env actor (service_type_dispatch s env actor r4)"
  "moves s env actor (requirement_dispatch s env actor r5)" "moves s env actor (dealership_dispatch s env actor r6)"
  "moves s env actor (technician_dispatch s env actor r7)" "moves s env actor (rota_dispatch s env actor r8)"
  "moves s env actor (customer_dispatch s env actor r9)"
  subgoal by (cases r1; simp only: dispatch_defs query_request.case query_handler_defs)
      (intro moves_intros read_moves)+
  subgoal by (cases r2; simp only: dispatch_defs hours_request.case api_handler_defs)
      (intro moves_intros read_moves catalog_moves)+
  subgoal by (cases r3; simp only: dispatch_defs bay_request.case api_handler_defs)
      (intro moves_intros read_moves catalog_moves)+
  subgoal by (cases r4; simp only: dispatch_defs service_type_request.case api_handler_defs)
      (intro moves_intros read_moves catalog_moves)+
  subgoal by (cases r5; simp only: dispatch_defs requirement_request.case api_handler_defs)
      (intro moves_intros read_moves catalog_moves)+
  subgoal by (cases r6; simp only: dispatch_defs dealership_request.case api_handler_defs)
      (intro moves_intros read_moves catalog_moves)+
  subgoal by (cases r7; simp only: dispatch_defs technician_request.case api_handler_defs)
      (intro moves_intros read_moves workforce_moves)+
  subgoal by (cases r8; simp only: dispatch_defs rota_request.case api_handler_defs)
      (intro moves_intros read_moves workforce_moves)+
  subgoal by (cases r9; simp only: dispatch_defs customer_request.case api_handler_defs)
      (intro moves_intros read_moves catalog_moves)+
  done

lemma appointment_moves:
  "moves s env actor (\<lambda>d. case handle (sr_zone s) (appointment_call s env actor req) d of (a, d') \<Rightarrow> (AppointmentAnswer a, d'))"
proof -
  have "issues s env actor (ToAppointments (appointment_call s env actor req))" by auto
  moreover have "snd (case handle (sr_zone s) (appointment_call s env actor req) d of (a, d') \<Rightarrow> (AppointmentAnswer a, d'))
      = request_step (sr_zone s) (ToAppointments (appointment_call s env actor req)) d" for d
    by (simp split: prod.split)
  ultimately show ?thesis unfolding moves_def by metis
qed

lemma api_moves: "moves s env actor (api_dispatch s env actor r)"
  by (cases r) (simp_all add: api_dispatch_def group_moves appointment_moves)

section \<open>Identity\<close>

text \<open>The environment of a handler behind a token of a user with a role.\<close>

definition identified :: "surroundings \<Rightarrow> auth_db \<Rightarrow> uuid \<Rightarrow> string \<Rightarrow> service_env" where
  "identified s accounts userID role =
     (with_auth (sr_auth s) accounts (sr_env s))\<lparr>sv_authorization := Some \<lparr>au_UserID = userID, au_Role = role\<rparr>\<rparr>"

definition unauthenticated :: api_answer where
  "unauthenticated = ProblemAnswer 401 401 ''authentication required'' ''authentication_required''"

lemma access_token_claims:
  "AuthenticateAccessToken env raw = Inr (u, role) \<Longrightarrow>
     \<exists>claims. ae_parse_jwt env raw = Some claims \<and> cl_Type claims = ''access'' \<and> cl_TokenVersion claims \<ge> 1
       \<and> ae_parse_uuid env (cl_UserID claims) = Inr u \<and> u \<noteq> uuid_Nil \<and> role = cl_Role claims"
  by (auto simp: AuthenticateAccessToken_def Authenticate_def VerifyAccess_def verify_token_def Let_def rbind_ok
      split: option.splits if_splits sum.splits)

lemma api_serve_cases:
  obtains (refused) "api_serve s accounts header r d = (unauthenticated, d)"
      "\<And>i role. AuthenticateAccessToken (sr_auth s) (scheduler_bearerToken header) = Inr (i, role) \<Longrightarrow> i = uuid_Nil"
  | (served) userID role where
      "AuthenticateAccessToken (sr_auth s) (scheduler_bearerToken header) = Inr (userID, role)" "userID \<noteq> uuid_Nil"
      "api_serve s accounts header r d = api_dispatch s (identified s accounts userID role) userID r d"
proof -
  have problem: "problem_answer 401 (NewUnauthorizedError ''authentication_required'' ''authentication required'')
      = unauthenticated"
    by (simp add: problem_answer_def operationTimeProblem_def NewUnauthorizedError_def newError_def unauthenticated_def)
  show ?thesis
  proof (cases "AuthenticateAccessToken (sr_auth s) (scheduler_bearerToken header)")
    case (Inl e)
    then show ?thesis using refused by (simp add: api_serve_def scheduler_requireIdentity_def problem)
  next
    case (Inr p)
    obtain userID role where p: "p = (userID, role)" by (cases p)
    show ?thesis
      using Inr refused served [of userID role] unfolding p
      by (cases "userID = uuid_Nil")
        (simp_all add: api_serve_def scheduler_requireIdentity_def problem identified_def)
  qed
qed

section \<open>Histories\<close>

text \<open>A request to the API as the server sees it: its surroundings, the accounts at that moment, the
  Authorization header and what is asked.\<close>

record api_call =
  apc_surroundings :: surroundings
  apc_accounts :: auth_db
  apc_header :: string
  apc_request :: api_request

fun api_run :: "api_call list \<Rightarrow> db \<Rightarrow> api_answer list \<times> db" where
  "api_run [] d = ([], d)"
| "api_run (c # cs) d =
     (case api_serve (apc_surroundings c) (apc_accounts c) (apc_header c) (apc_request c) d of
        (a, d') \<Rightarrow> case api_run cs d' of (as, d'') \<Rightarrow> (a # as, d''))"

definition api_within :: "(db \<Rightarrow> bool) \<Rightarrow> surroundings \<Rightarrow> bool" where
  "api_within I s \<longleftrightarrow> world_within I (cat_world (sr_catalog s)) \<and> sound_world (sr_schedule_world s)
     \<and> (\<forall>i t. I t \<longrightarrow> I (w_others (sr_schedule_world s) i t)) \<and> sv_newID (sr_env s) 0 \<noteq> uuid_Nil"

lemma issued_within:
  assumes "api_within I s" and "issues s (identified s accounts u role) actor q"
  shows "surroundings_keep I q"
proof -
  have "sv_newID (identified s accounts u role) = sv_newID (sr_env s)"
    by (simp add: identified_def with_auth_def)
  then show ?thesis
    using assms by (cases q) (auto simp: api_within_def call_within_def world_within_def appointment_call_def)
qed

context program_invariant
begin

lemma api_serve_keeps:
  assumes "api_within I s" and "I d"
  shows "I (snd (api_serve s accounts header r d))"
proof (rule api_serve_cases [where s = s and accounts = accounts and header = header and r = r and d = d])
  assume "api_serve s accounts header r d = (unauthenticated, d)"
  then show ?thesis using assms(2) by simp
next
  fix userID role
  assume "api_serve s accounts header r d = api_dispatch s (identified s accounts userID role) userID r d"
  then show ?thesis
    using api_moves [of s "identified s accounts userID role" userID r] assms issued_within [OF assms(1)]
      request_step_keeps [of _ d "sr_zone s"]
    unfolding moves_def by metis
qed

lemma api_run_keeps:
  "list_all (\<lambda>c. api_within I (apc_surroundings c)) cs \<Longrightarrow> I d \<Longrightarrow> I (snd (api_run cs d))"
proof (induction cs arbitrary: d)
  case (Cons c cs)
  then show ?case
    using api_serve_keeps [of "apc_surroundings c" d "apc_accounts c" "apc_header c" "apc_request c"]
    by (auto split: prod.split) (metis snd_conv)
qed simp

end

end
