(* ===== verification/Api_Authority.thy ===== *)
theory Api_Authority
  imports Api_Facts
begin

text \<open>
  What decides whether a request is allowed: the role in the access token. The scheduler asks the auth
  module about somebody else's account only in three endpoints; all others answer the same whatever has
  happened to the accounts since the token was signed.
\<close>

definition same_authority :: "service_env \<Rightarrow> service_env \<Rightarrow> uuid \<Rightarrow> bool" where
  "same_authority e1 e2 actor \<longleftrightarrow> sv_newID e1 = sv_newID e2 \<and> sv_now e1 = sv_now e2
     \<and> actorRole e1 actor = actorRole e2 actor"

lemma identified_authority:
  assumes "role \<noteq> []" and "u \<noteq> uuid_Nil"
  shows "same_authority (identified s accounts u role) (identified s accounts' u role) u"
  using assms by (simp add: same_authority_def identified_def with_auth_def actorRole_def AuthorizationFrom_def)

lemma identified_role:
  assumes "role \<noteq> []" and "u \<noteq> uuid_Nil"
  shows "actorRole (identified s accounts u role) u = Inr role"
  using assms by (simp add: identified_def with_auth_def actorRole_def AuthorizationFrom_def)

text \<open>The endpoints that look up an account other than the actor's.\<close>

fun looks_up_account :: "api_request \<Rightarrow> bool" where
  "looks_up_account (ApiDealerships (ApiCreateDealershipAdmin body)) = True"
| "looks_up_account (ApiDealerships (ApiCreateDealershipUser body)) = True"
| "looks_up_account (ApiDealerships (ApiSearchAuthUserByEmail email)) = True"
| "looks_up_account _ = False"

lemma workforce_authority:
  assumes "same_authority e1 e2 a"
  shows "CreateTechnician pa e1 a i1 = CreateTechnician pa e2 a i1"
    "ListTechnicians pa e1 a act l off = ListTechnicians pa e2 a act l off"
    "GetTechnician_service pa e1 a i = GetTechnician_service pa e2 a i"
    "UpdateTechnician pa e1 a i i2 = UpdateTechnician pa e2 a i i2"
    "DeactivateTechnician pa e1 a i = DeactivateTechnician pa e2 a i"
    "CreateTechnicianShift pa e1 a i i3 = CreateTechnicianShift pa e2 a i i3"
    "ListTechnicianShifts pa e1 a i = ListTechnicianShifts pa e2 a i"
    "UpdateTechnicianShift pa z tz e1 a i j i4 = UpdateTechnicianShift pa z tz e2 a i j i4"
    "DeleteTechnicianShift pa z tz e1 a i j = DeleteTechnicianShift pa z tz e2 a i j"
    "CreateTechnicianTimeOff pa f e1 a i i5 = CreateTechnicianTimeOff pa f e2 a i i5"
    "ListTechnicianTimeOff pa clock e1 a i from to l off = ListTechnicianTimeOff pa clock e2 a i from to l off"
    "GetTechnicianTimeOff pa e1 a i j = GetTechnicianTimeOff pa e2 a i j"
    "UpdateTechnicianTimeOff pa f e1 a i j i6 = UpdateTechnicianTimeOff pa f e2 a i j i6"
    "DeleteTechnicianTimeOff pa e1 a i j = DeleteTechnicianTimeOff pa e2 a i j"
    "CreateTechnicianSkill e1 a i k = CreateTechnicianSkill e2 a i k"
    "UpdateTechnicianSkill e1 a i j k' = UpdateTechnicianSkill e2 a i j k'"
  using assms
  unfolding same_authority_def CreateTechnician_def ListTechnicians_def GetTechnician_service_def
    UpdateTechnician_def DeactivateTechnician_def CreateTechnicianShift_def ListTechnicianShifts_def
    UpdateTechnicianShift_def DeleteTechnicianShift_def CreateTechnicianTimeOff_def ListTechnicianTimeOff_def
    GetTechnicianTimeOff_def UpdateTechnicianTimeOff_def DeleteTechnicianTimeOff_def CreateTechnicianSkill_def
    UpdateTechnicianSkill_def authorizeTechnicians_def authorizeTechnicianShifts_def authorizeTechnicianTimeOff_def
  by (simp_all cong: if_cong option.case_cong)

lemma catalog_authority:
  assumes "same_authority e1 e2 a"
  shows "CreateDealership ll e1 a i1 = CreateDealership ll e2 a i1"
    "ListDealerships_List ll collate e1 a = ListDealerships_List ll collate e2 a"
    "CreateServiceType e1 a dl i4 = CreateServiceType e2 a dl i4"
    "UpdateServiceType e1 a dl i i5 = UpdateServiceType e2 a dl i i5"
    "DeleteServiceType w e1 a dl i = DeleteServiceType w e2 a dl i"
    "CreateDealershipOperationTime e1 a dl x y z = CreateDealershipOperationTime e2 a dl x y z"
    "UpdateDealershipOperationTime e1 a dl i x' y' z' = UpdateDealershipOperationTime e2 a dl i x' y' z'"
    "CreateServiceTypeRequiredSkill e1 a dl i k = CreateServiceTypeRequiredSkill e2 a dl i k"
    "UpdateServiceTypeRequiredSkill e1 a dl i j k' = UpdateServiceTypeRequiredSkill e2 a dl i j k'"
    "CreateServiceTypeRequiredBayCapability e1 a dl i k = CreateServiceTypeRequiredBayCapability e2 a dl i k"
    "UpdateServiceTypeRequiredBayCapability e1 a dl i j k' = UpdateServiceTypeRequiredBayCapability e2 a dl i j k'"
    "CreateServiceBayCapability e1 a dl i k = CreateServiceBayCapability e2 a dl i k"
    "UpdateServiceBayCapability e1 a dl i j k' = UpdateServiceBayCapability e2 a dl i j k'"
    "CreateServiceBay e1 a dl co na act = CreateServiceBay e2 a dl co na act"
    "UpdateServiceBay e1 a dl i co' na' act' = UpdateServiceBay e2 a dl i co' na' act'"
    "DeleteServiceBay w e1 a dl i = DeleteServiceBay w e2 a dl i"
    "CreateCustomer pa e1 a i6 = CreateCustomer pa e2 a i6" "UpdateCustomer pa e1 a i i7 = UpdateCustomer pa e2 a i i7"
    "CreateVehicle w clock e1 a i i8 = CreateVehicle w clock e2 a i i8" "UpdateVehicle e1 a i i9 = UpdateVehicle e2 a i i9"
    "DeleteVehicle e1 a i = DeleteVehicle e2 a i"
  using assms
  unfolding same_authority_def CreateDealership_def ListDealerships_List_def authorizeCreate_def
    CreateServiceType_def UpdateServiceType_def DeleteServiceType_def CreateDealershipOperationTime_def
    UpdateDealershipOperationTime_def CreateServiceTypeRequiredSkill_def UpdateServiceTypeRequiredSkill_def
    CreateServiceTypeRequiredBayCapability_def UpdateServiceTypeRequiredBayCapability_def
    CreateServiceBayCapability_def UpdateServiceBayCapability_def CreateServiceBay_def UpdateServiceBay_def
    DeleteServiceBay_def CreateCustomer_def UpdateCustomer_def CreateVehicle_def UpdateVehicle_def DeleteVehicle_def
  by (simp_all cong: if_cong option.case_cong)

lemma appointment_authority:
  assumes "same_authority e1 e2 a"
  shows "handle zone (appointment_call s e1 a req) = handle zone (appointment_call s e2 a req)"
  using assms
  by (cases req) (auto simp: fun_eq_iff handle_def appointment_call_def handler_defs same_authority_def
      ScheduleAppointment_def ChangeAppointmentStatus_def Let_def schedule_record_def status_transition_def
      split: option.split)

lemma dispatch_authority:
  assumes "same_authority e1 e2 a" and "\<not> looks_up_account r"
  shows "api_dispatch s e1 a r = api_dispatch s e2 a r"
proof (cases r)
  case (ApiDealerships q)
  then show ?thesis using assms(2)
    by (cases q) (simp_all add: api_dispatch_def dispatch_defs api_handler_defs catalog_authority [OF assms(1)])
next
  case (ApiAppointment req)
  then show ?thesis using appointment_authority [OF assms(1)] by (simp add: api_dispatch_def)
next
  case (ApiQuery q)
  then show ?thesis
    by (cases q) (simp_all add: api_dispatch_def dispatch_defs query_handler_defs catalog_authority [OF assms(1)])
next
  case (ApiHours q)
  then show ?thesis
    by (cases q) (simp_all add: api_dispatch_def dispatch_defs api_handler_defs catalog_authority [OF assms(1)])
next
  case (ApiBays q)
  then show ?thesis
    by (cases q) (simp_all add: api_dispatch_def dispatch_defs api_handler_defs catalog_authority [OF assms(1)])
next
  case (ApiServiceTypes q)
  then show ?thesis
    by (cases q) (simp_all add: api_dispatch_def dispatch_defs api_handler_defs catalog_authority [OF assms(1)])
next
  case (ApiRequirements q)
  then show ?thesis
    by (cases q) (simp_all add: api_dispatch_def dispatch_defs api_handler_defs catalog_authority [OF assms(1)])
next
  case (ApiTechnicians q)
  then show ?thesis
    by (cases q) (simp_all add: api_dispatch_def dispatch_defs api_handler_defs workforce_authority [OF assms(1)])
next
  case (ApiRota q)
  then show ?thesis
    by (cases q) (simp_all add: api_dispatch_def dispatch_defs api_handler_defs workforce_authority [OF assms(1)])
next
  case (ApiCustomers q)
  then show ?thesis
    by (cases q) (simp_all add: api_dispatch_def dispatch_defs api_handler_defs catalog_authority [OF assms(1)])
qed

end
