(* ===== verification/Api_Atomic.thy ===== *)
theory Api_Atomic
  imports Api_Facts
begin

text \<open>
  Errors and effects: when nothing outside interferes, a use case that returns an error has written
  nothing, or the error is one the API answers with 500. \<open>all_or_nothing\<close> is the first, \<open>honest\<close> the second;
  both are closed under the way use cases are put together, so each is proved once per statement.
\<close>

section \<open>Actions that fail without a trace\<close>

definition all_or_nothing :: "('s, 'e, 'a) action \<Rightarrow> bool" where
  "all_or_nothing m \<longleftrightarrow> (\<forall>s e s'. m s = (Inl e, s') \<longrightarrow> s' = s)"

lemma aonI: "(\<And>s e s'. m s = (Inl e, s') \<Longrightarrow> s' = s) \<Longrightarrow> all_or_nothing m"
  by (simp add: all_or_nothing_def)

lemma aonD: "all_or_nothing m \<Longrightarrow> m s = (Inl e, s') \<Longrightarrow> s' = s"
  by (simp add: all_or_nothing_def)

lemma aon_readonly: "readonly m \<Longrightarrow> all_or_nothing m"
  by (rule aonI) (auto dest: readonlyD)

lemma aon_read_then: "readonly m \<Longrightarrow> (\<And>x. all_or_nothing (k x)) \<Longrightarrow> all_or_nothing (andThen m k)"
  by (rule aonI) (auto simp: andThen_err dest: readonlyD aonD)

lemma aon_then_ret: "all_or_nothing m \<Longrightarrow> all_or_nothing (andThen m (\<lambda>x. ret (f x)))"
  by (rule aonI) (auto simp: andThen_err dest: aonD)

lemma aon_on_err: "all_or_nothing m \<Longrightarrow> all_or_nothing (on_err h m)"
  by (rule aonI) (auto simp: on_err_err dest: aonD)

lemma aon_exec: "all_or_nothing (exec f)"
  by (rule aonI) (simp add: exec_err)

lemma aon_if: "all_or_nothing m \<Longrightarrow> all_or_nothing n \<Longrightarrow> all_or_nothing (if b then m else n)"
  by simp

lemma aon_prod: "(\<And>x y. p = (x, y) \<Longrightarrow> all_or_nothing (k x y)) \<Longrightarrow> all_or_nothing (case p of (x, y) \<Rightarrow> k x y)"
  by (cases p) simp

lemma aon_throw: "all_or_nothing (throw e)"
  by (rule aonI) simp

lemma aon_ret: "all_or_nothing (ret x)"
  by (rule aonI) simp

lemma aon_in_tx: "backoff_contract retry \<Longrightarrow> all_or_nothing (in_tx (calm retry) body)"
  by (rule aonI) (rule in_tx_calm_error)

lemma aon_execrows:
  assumes "\<And>d d'. stmt d = Inr d' \<Longrightarrow> affected d = 0 \<Longrightarrow> d' = d"
  shows "all_or_nothing (execrows h not_found affected stmt)"
  by (rule aonI) (auto simp: execrows_def dest: assms split: sum.splits if_splits)

lemma update_where_none: "count_where p rows = 0 \<Longrightarrow> update_where p f rows = rows"
  by (auto simp: count_where_0 update_where_def intro: map_idI)

definition writes_back :: "'r tab \<Rightarrow> bool" where
  "writes_back t \<longleftrightarrow> (\<forall>d. tb_put t (tb_get t d) d = d)"

lemma tables_write_back:
  "writes_back dealership_table" "writes_back customer_table" "writes_back customer_dealership_table"
  "writes_back vehicle_table" "writes_back service_type_table" "writes_back service_bay_table"
  "writes_back required_skill_table" "writes_back required_capability_table" "writes_back bay_capability_table"
  by (simp_all add: writes_back_def table_defs)

lemma aon_update_execrows: "writes_back t \<Longrightarrow> all_or_nothing (update_execrows t h not_found key f)"
  unfolding update_execrows_def
  by (rule aon_execrows) (auto simp: update_rows_ok update_where_none writes_back_def)

lemma aon_delete_execrows: "writes_back t \<Longrightarrow> all_or_nothing (delete_execrows t not_found key)"
proof (rule aonI)
  fix d e d'
  assume wb: "writes_back t" and run: "delete_execrows t not_found key d = (Inl e, d')"
  have "filter (\<lambda>r. \<not> key d r) (tb_get t d) = tb_get t d" if "count_where (key d) (tb_get t d) = 0"
    using that by (auto simp: count_where_0 filter_id_conv)
  then show "d' = d"
    using run wb by (auto simp: delete_execrows_def execrows_def delete_rows_def writes_back_def split: if_splits)
qed

lemma aon_update_returning: "writes_back t \<Longrightarrow> all_or_nothing (update_returning t key f)"
proof (rule aonI)
  fix d e d'
  assume wb: "writes_back t" and run: "update_returning t key f d = (Inl e, d')"
  have "update_where (key d) f (tb_get t d) = tb_get t d" if "find_row (key d) (tb_get t d) = None"
    using that by (auto simp: find_row_None update_where_def intro: map_idI)
  then show "d' = d"
    using run wb by (auto simp: update_returning_def update_rows_ok writes_back_def split: sum.splits option.splits)
qed

lemmas aon_statements = aon_exec aon_update_execrows aon_delete_execrows aon_update_returning tables_write_back

lemmas aon_intros = aon_read_then aon_then_ret aon_on_err aon_if aon_prod aon_throw aon_ret

section \<open>Errors that are answered with 500\<close>

text \<open>No use case turns these errors into a problem with a code: they are none of the sentinels of the
  application layer.\<close>

definition unknown_error :: "go_error \<Rightarrow> bool" where
  "unknown_error e \<longleftrightarrow> as_common e = None
     \<and> (\<forall>x. \<not> errors_is e (AppPeopleErr x)) \<and> (\<forall>x. \<not> errors_is e (AppCatalogErr x))"

definition honest :: "('s, go_error, 'a) action \<Rightarrow> bool" where
  "honest m \<longleftrightarrow> (\<forall>s e s'. m s = (Inl e, s') \<longrightarrow> s' = s \<or> as_common e = None)"

lemma honestI: "(\<And>s e s'. m s = (Inl e, s') \<Longrightarrow> s' = s \<or> as_common e = None) \<Longrightarrow> honest m"
  unfolding honest_def by metis

lemma honestD: "honest m \<Longrightarrow> m s = (Inl e, s') \<Longrightarrow> s' = s \<or> as_common e = None"
  unfolding honest_def by metis

lemma honest_aon: "all_or_nothing m \<Longrightarrow> honest m"
  by (simp add: honest_def all_or_nothing_def)

lemma honest_read_then: "readonly m \<Longrightarrow> (\<And>x. honest (k x)) \<Longrightarrow> honest (andThen m k)"
proof (rule honestI)
  fix s e s'
  assume ro: "readonly m" and k: "\<And>x. honest (k x)" and run: "andThen m k s = (Inl e, s')"
  from run consider "m s = (Inl e, s')" | x s1 where "m s = (Inr x, s1)" "k x s1 = (Inl e, s')"
    by (auto simp: andThen_err)
  then show "s' = s \<or> as_common e = None"
  proof cases
    case 1
    then show ?thesis using readonlyD [OF ro] by simp
  next
    case 2
    have "s1 = s" using readonlyD [OF ro 2(1)] .
    then show ?thesis using honestD [OF k 2(2)] by simp
  qed
qed

text \<open>A write that may fail only with an unknown error after it has written.\<close>

definition fails_unknown :: "('s, go_error, 'a) action \<Rightarrow> bool" where
  "fails_unknown m \<longleftrightarrow> (\<forall>s e s'. m s = (Inl e, s') \<longrightarrow> s' = s \<or> unknown_error e)"

lemma honest_on_err:
  "fails_unknown m \<Longrightarrow> (\<And>e. unknown_error e \<Longrightarrow> as_common (h e) = None) \<Longrightarrow> honest (on_err h m)"
  by (rule honestI) (metis on_err_err fails_unknown_def)

lemma unknown_kept:
  assumes "unknown_error e"
  shows "as_common (technicianError e) = None" "as_common (technicianSkillError e) = None"
    "as_common (serviceTypeRequiredSkillError e) = None" "as_common (serviceTypeRequiredBayCapabilityError e) = None"
    "as_common (serviceBayCapabilityError e) = None"
  using assms by (auto simp: unknown_error_def technicianError_def technicianSkillError_def
      serviceTypeRequiredSkillError_def serviceTypeRequiredBayCapabilityError_def serviceBayCapabilityError_def)

lemma rehydration_unknown:
  "technicianFromRow pa (Inr tu) = Inl e \<Longrightarrow> unknown_error e"
  "technicianSkillFromRow (Inr s) = Inl e \<Longrightarrow> unknown_error e"
  "requiredSkillFromRow rs = Inl e \<Longrightarrow> unknown_error e"
  "requiredBayCapabilityFromRow rc = Inl e \<Longrightarrow> unknown_error e"
  "serviceBayCapabilityFromRow bc = Inl e \<Longrightarrow> unknown_error e"
  by (auto simp: unknown_error_def technicianFromRow_def RehydrateTechnician_def NewTechnician_def
      validateTechnicianDetails_def technicianSkillFromRow_def RehydrateTechnicianSkill_def NewTechnicianSkill_def
      requiredSkillFromRow_def RehydrateServiceTypeRequiredSkill_def NewServiceTypeRequiredSkill_def
      requiredBayCapabilityFromRow_def RehydrateServiceTypeRequiredBayCapability_def
      NewServiceTypeRequiredBayCapability_def serviceBayCapabilityFromRow_def RehydrateServiceBayCapability_def
      NewServiceBayCapability_def Let_def split: prod.splits option.splits sum.splits if_splits)

section \<open>The repository\<close>

lemma aon_repositories:
  "all_or_nothing (CreateDealership_repo a1)" "all_or_nothing (CreateDealershipOperationTime_repo a2)"
  "all_or_nothing (UpdateDealershipOperationTime_repo a3)" "all_or_nothing (DeleteDealershipOperationTime_repo i j)"
  "all_or_nothing (CreateCustomer_repo a4)" "all_or_nothing (UpdateCustomer_repo a5)"
  "all_or_nothing (UpdateVehicle_repo a6)" "all_or_nothing (DeleteVehicle_repo i t)"
  "all_or_nothing (CreateServiceType_repo a7)" "all_or_nothing (UpdateServiceType_repo a8)"
  "all_or_nothing (CreateServiceBay_repo a9)" "all_or_nothing (UpdateServiceBay_repo a10)"
  "all_or_nothing (DeleteServiceTypeRequiredSkill_repo i j k)"
  "all_or_nothing (DeleteServiceTypeRequiredBayCapability_repo i j k)"
  "all_or_nothing (DeleteServiceBayCapability_repo i j k)"
  unfolding CreateDealership_repo_def CreateDealershipOperationTime_repo_def UpdateDealershipOperationTime_repo_def
    DeleteDealershipOperationTime_repo_def CreateCustomer_repo_def UpdateCustomer_repo_def UpdateVehicle_repo_def
    DeleteVehicle_repo_def CreateServiceType_repo_def UpdateServiceType_repo_def CreateServiceBay_repo_def
    UpdateServiceBay_repo_def DeleteServiceTypeRequiredSkill_repo_def
    DeleteServiceTypeRequiredBayCapability_repo_def DeleteServiceBayCapability_repo_def Let_def
  by (intro aon_then_ret aon_on_err aon_statements | rule aon_execrows;
      auto simp: update_operation_times_def Let_def checked_ok update_where_none count_where_0 filter_id_conv)+

lemma aon_transactions:
  assumes "backoff_contract retry"
  shows "all_or_nothing (CreateVehicle_repo (calm retry) clock i v)"
    "all_or_nothing (CreateDealershipUser_repo (calm retry) ids u)"
    "all_or_nothing (CreateDealershipAdmin_repo (calm retry) ids a)"
    "all_or_nothing (DeleteServiceType_repo (calm retry) i j t)"
    "all_or_nothing (DeleteServiceBay_repo (calm retry) i j t)"
  unfolding CreateVehicle_repo_def CreateDealershipUser_repo_def CreateDealershipAdmin_repo_def
    DeleteServiceType_repo_def DeleteServiceBay_repo_def
  using assms by (auto intro: aon_on_err aon_in_tx)

lemma aon_workforce:
  "all_or_nothing (DeactivateTechnician_repo i j t)" "all_or_nothing (CreateTechnicianShift_repo s)"
  "all_or_nothing (DeleteTechnicianSkill_repo i j)" "all_or_nothing (DeleteTechnicianTimeOff_repo i j t)"
  "all_or_nothing (CreateTechnicianTimeOff_repo no_faults x)" "all_or_nothing (UpdateTechnicianTimeOff_repo no_faults x)"
  subgoal by (rule aonI) (auto simp: DeactivateTechnician_repo_def Let_def split: if_splits)
  subgoal by (rule aonI) (auto simp: CreateTechnicianShift_repo_def on_err_err exec_err)
  subgoal by (rule aonI) (auto simp: DeleteTechnicianSkill_repo_def Let_def split: if_splits sum.splits)
  subgoal by (rule aonI) (auto simp: DeleteTechnicianTimeOff_repo_def DeleteTechnicianTimeOff_sql_def ok_iff
      update_time_offs_def checked_ok update_where_none Let_def split: if_splits sum.splits)
  subgoal by (rule aonI) (auto simp: CreateTechnicianTimeOff_repo_def withTechnicianScheduleLock_def no_faults_def
      split: sum.splits prod.splits)
  subgoal by (rule aonI) (auto simp: UpdateTechnicianTimeOff_repo_def withTechnicianScheduleLock_def no_faults_def
      split: sum.splits prod.splits)
  done

text \<open>The writes that read their row back: the row is there, so only its rehydration can fail.\<close>

lemma fails_unknownI: "(\<And>s e s'. m s = (Inl e, s') \<Longrightarrow> s' = s \<or> unknown_error e) \<Longrightarrow> fails_unknown m"
  unfolding fails_unknown_def by metis

lemma fails_unknown_workforce:
  "fails_unknown (CreateTechnician_repo pa i t)" "fails_unknown (UpdateTechnician_repo pa i t)"
  "fails_unknown (CreateTechnicianSkill_repo s)" "fails_unknown (UpdateTechnicianSkill_repo s)"
  subgoal by (rule fails_unknownI) (auto simp: CreateTechnician_repo_def dest: rehydration_unknown split: sum.splits)
  subgoal by (rule fails_unknownI)
      (auto simp: UpdateTechnician_repo_def dest: rehydration_unknown split: sum.splits prod.splits)
  subgoal by (rule fails_unknownI)
      (auto simp: CreateTechnicianSkill_repo_def dest: rehydration_unknown split: sum.splits prod.splits)
  subgoal by (rule fails_unknownI)
      (auto simp: UpdateTechnicianSkill_repo_def dest: rehydration_unknown split: sum.splits prod.splits)
  done

lemma insert_link_ok:
  "insert_link t parent target row d = (Inr u, d') \<longleftrightarrow> parent d \<and> target d \<and> insert_row t row d = Inr d'"
  by (auto simp: insert_link_def andThen_ok exec_ok)

lemma insert_link_err: "insert_link t parent target row d = (Inl e, d') \<Longrightarrow> d' = d"
  unfolding insert_link_def by (auto simp: andThen_err exec_err split: if_splits)

lemma update_returning_ok:
  "update_returning t key f d = (Inr x, d') \<Longrightarrow>
     \<exists>r. r \<in> set (tb_get t d) \<and> key d r \<and> d' = tb_put t (update_where (key d) f (tb_get t d)) d"
  by (auto simp: update_returning_def update_rows_ok dest: find_row_Some split: sum.splits option.splits)

lemma updated_member: "r \<in> set rows \<Longrightarrow> p r \<Longrightarrow> f r \<in> set (update_where p f rows)"
  by (force simp: update_where_def)

lemma linked_read:
  assumes "rbind (row_as nf (find_row (\<lambda>(r, s). P r \<and> k s = g r) (List.product rs ss))) from_row = Inl e"
    and "r \<in> set rs" and "P r" and "list_ex (\<lambda>s. k s = g r) ss"
  shows "\<exists>x. from_row x = Inl e"
proof -
  obtain s where "s \<in> set ss" "k s = g r" using assms(4) by (auto simp: list_ex_iff)
  then have "find_row (\<lambda>(r, s). P r \<and> k s = g r) (List.product rs ss) \<noteq> None"
    using assms(2,3) by (auto simp: find_row_None)
  then show ?thesis using assms(1) by (cases "find_row (\<lambda>(r, s). P r \<and> k s = g r) (List.product rs ss)")
      (auto simp: row_as_def rbind_def simp del: split_paired_Ex)
qed

lemma fails_unknown_insert:
  assumes "\<And>d d' e. insert_link t parent target row d = (Inr (), d') \<Longrightarrow> get d' = Inl e \<Longrightarrow> unknown_error e"
  shows "fails_unknown (\<lambda>d. case insert_link t parent target row d of
      (Inr u, d') \<Rightarrow> (get d', d') | (Inl err, d') \<Rightarrow> (Inl (h d err), d'))"
proof (rule fails_unknownI)
  fix d e d'
  assume run: "(case insert_link t parent target row d of
      (Inr u, d') \<Rightarrow> (get d', d') | (Inl err, d') \<Rightarrow> (Inl (h d err), d')) = (Inl e, d')"
  show "d' = d \<or> unknown_error e"
  proof (cases "insert_link t parent target row d")
    case (Pair r d1)
    then show ?thesis using run assms [of d d1] insert_link_err [of t parent target row d] by (cases r) auto
  qed
qed

lemma link_inserted:
  assumes "insert_link t parent target row d = (Inr u, d')" and "tb_get t (tb_put t (tb_get t d @ [row]) d) = tb_get t d @ [row]"
  shows "parent d" "target d" "row \<in> set (tb_get t d')" "d' = tb_put t (tb_get t d @ [row]) d"
  using assms by (auto simp: insert_link_ok insert_row_ok)

lemma fails_unknown_inserts:
  "fails_unknown (CreateServiceTypeRequiredSkill_repo i x1)"
  "fails_unknown (CreateServiceTypeRequiredBayCapability_repo i x2)"
  "fails_unknown (CreateServiceBayCapability_repo i x3)"
  subgoal
    unfolding CreateServiceTypeRequiredSkill_repo_def [abs_def] GetServiceTypeRequiredSkill_repo_def
    by (rule fails_unknown_insert, drule linked_read [where r = "required_skill_row_of x1"])
      (auto simp: insert_link_ok insert_row_ok table_defs required_skill_key_def required_skill_row_of_def
        service_type_of_dealership_def SkillExists_def dest: rehydration_unknown)
  subgoal
    unfolding CreateServiceTypeRequiredBayCapability_repo_def [abs_def] GetServiceTypeRequiredBayCapability_repo_def
    by (rule fails_unknown_insert, drule linked_read [where r = "required_capability_row_of x2"])
      (auto simp: insert_link_ok insert_row_ok table_defs required_capability_key_def required_capability_row_of_def
        service_type_of_dealership_def BayCapabilityExists_def dest: rehydration_unknown)
  subgoal
    unfolding CreateServiceBayCapability_repo_def [abs_def] GetServiceBayCapability_repo_def
    by (rule fails_unknown_insert, drule linked_read [where r = "bay_capability_row_of x3"])
      (auto simp: insert_link_ok insert_row_ok table_defs bay_capability_key_def bay_capability_row_of_def
        service_bay_of_dealership_def BayCapabilityExists_def dest: rehydration_unknown)
  done

lemma fails_unknown_update:
  assumes "writes_back t"
    and "\<And>d d' r e. present d \<Longrightarrow> r \<in> set (tb_get t d) \<Longrightarrow> key d r
      \<Longrightarrow> d' = tb_put t (update_where (key d) f (tb_get t d)) d \<Longrightarrow> get d' = Inl e \<Longrightarrow> unknown_error e"
  shows "fails_unknown (andThen (query present) (\<lambda>p. andThen (ensure p nf) (\<lambda>_.
      andThen (on_err h (update_returning t key f)) (\<lambda>_. query_res get))))"
proof (rule fails_unknownI)
  fix d e d'
  assume "andThen (query present) (\<lambda>p. andThen (ensure p nf) (\<lambda>_.
      andThen (on_err h (update_returning t key f)) (\<lambda>_. query_res get))) d = (Inl e, d')"
  then show "d' = d \<or> unknown_error e"
    using aonD [OF aon_update_returning [OF assms(1)]] assms(2)
    by (auto simp: andThen_err on_err_err on_err_ok split: if_splits dest!: update_returning_ok)
qed

lemma fails_unknown_updates:
  "fails_unknown (UpdateServiceTypeRequiredSkill_repo i x1)"
  "fails_unknown (UpdateServiceTypeRequiredBayCapability_repo i x2)"
  "fails_unknown (UpdateServiceBayCapability_repo i x3)"
proof -
  show "fails_unknown (UpdateServiceTypeRequiredSkill_repo i x1)"
    unfolding UpdateServiceTypeRequiredSkill_repo_def
  proof (rule fails_unknown_update)
    fix d d' r e
    assume a: "SkillExists d (rs_skillID x1)" "r \<in> set (tb_get required_skill_table d)"
      "required_skill_key i (rs_serviceTypeID x1) (rs_id x1) d r"
      "d' = tb_put required_skill_table (update_where (required_skill_key i (rs_serviceTypeID x1) (rs_id x1) d)
         (\<lambda>r. r\<lparr>rsk_skill_id := rs_skillID x1, rsk_updated_at := to_pg (rs_updatedAt x1)\<rparr>) (tb_get required_skill_table d)) d"
      "GetServiceTypeRequiredSkill_repo d' i (rs_serviceTypeID x1) (rs_id x1) = Inl e"
    have "\<exists>x. requiredSkillFromRow x = Inl e"
      using a(5) unfolding GetServiceTypeRequiredSkill_repo_def
      by (rule linked_read [where r = "r\<lparr>rsk_skill_id := rs_skillID x1, rsk_updated_at := to_pg (rs_updatedAt x1)\<rparr>"])
        (use a(1,3,4) updated_member [where p = "required_skill_key i (rs_serviceTypeID x1) (rs_id x1) d", OF a(2) a(3)] in
          \<open>simp_all add: table_defs\<close>,
         auto simp: required_skill_key_def service_type_of_dealership_def SkillExists_def)
    then show "unknown_error e" using rehydration_unknown(3) by metis
  qed (rule tables_write_back)
  show "fails_unknown (UpdateServiceTypeRequiredBayCapability_repo i x2)"
    unfolding UpdateServiceTypeRequiredBayCapability_repo_def
  proof (rule fails_unknown_update)
    fix d d' r e
    assume a: "BayCapabilityExists d (rc_bayCapabilityID x2)" "r \<in> set (tb_get required_capability_table d)"
      "required_capability_key i (rc_serviceTypeID x2) (rc_id x2) d r"
      "d' = tb_put required_capability_table (update_where (required_capability_key i (rc_serviceTypeID x2) (rc_id x2) d)
         (\<lambda>r. r\<lparr>rcap_bay_capability_id := rc_bayCapabilityID x2, rcap_updated_at := to_pg (rc_updatedAt x2)\<rparr>)
         (tb_get required_capability_table d)) d"
      "GetServiceTypeRequiredBayCapability_repo d' i (rc_serviceTypeID x2) (rc_id x2) = Inl e"
    have "\<exists>x. requiredBayCapabilityFromRow x = Inl e"
      using a(5) unfolding GetServiceTypeRequiredBayCapability_repo_def
      by (rule linked_read [where r = "r\<lparr>rcap_bay_capability_id := rc_bayCapabilityID x2,
             rcap_updated_at := to_pg (rc_updatedAt x2)\<rparr>"])
        (use a(1,3,4) updated_member [where p = "required_capability_key i (rc_serviceTypeID x2) (rc_id x2) d", OF a(2) a(3)] in
          \<open>simp_all add: table_defs\<close>,
         auto simp: required_capability_key_def service_type_of_dealership_def BayCapabilityExists_def)
    then show "unknown_error e" using rehydration_unknown(4) by metis
  qed (rule tables_write_back)
  show "fails_unknown (UpdateServiceBayCapability_repo i x3)"
    unfolding UpdateServiceBayCapability_repo_def
  proof (rule fails_unknown_update)
    fix d d' r e
    assume a: "BayCapabilityExists d (bc_bayCapabilityID x3)" "r \<in> set (tb_get bay_capability_table d)"
      "bay_capability_key i (bc_serviceBayID x3) (bc_id x3) d r"
      "d' = tb_put bay_capability_table (update_where (bay_capability_key i (bc_serviceBayID x3) (bc_id x3) d)
         (\<lambda>r. r\<lparr>bcap_bay_capability_id := bc_bayCapabilityID x3, bcap_updated_at := to_pg (bc_updatedAt x3)\<rparr>)
         (tb_get bay_capability_table d)) d"
      "GetServiceBayCapability_repo d' i (bc_serviceBayID x3) (bc_id x3) = Inl e"
    have "\<exists>x. serviceBayCapabilityFromRow x = Inl e"
      using a(5) unfolding GetServiceBayCapability_repo_def
      by (rule linked_read [where r = "r\<lparr>bcap_bay_capability_id := bc_bayCapabilityID x3,
             bcap_updated_at := to_pg (bc_updatedAt x3)\<rparr>"])
        (use a(1,3,4) updated_member [where p = "bay_capability_key i (bc_serviceBayID x3) (bc_id x3) d", OF a(2) a(3)] in
          \<open>simp_all add: table_defs\<close>,
         auto simp: bay_capability_key_def service_bay_of_dealership_def BayCapabilityExists_def)
    then show "unknown_error e" using rehydration_unknown(5) by metis
  qed (rule tables_write_back)
qed

section \<open>Use cases\<close>

lemmas reads_first = readonly_actors technician_reads readonly_query readonly_query_res readonly_lift_res readonly_ensure
  readonly_on_err

lemma honest_throw: "honest (throw e)"
  by (rule honest_aon) (rule aon_throw)

lemma honest_catalog:
  assumes "backoff_contract retry"
  shows "honest (CreateDealership ll env a i1)" "honest (CreateDealershipAdmin pu pa (calm retry) ids env a i2)"
    "honest (CreateDealershipUser pu pa (calm retry) ids env a i3)" "honest (CreateServiceType env a dl i4)"
    "honest (UpdateServiceType env a dl i i5)" "honest (DeleteServiceType (calm retry) env a dl i)"
    "honest (CreateDealershipOperationTime env a dl x y z)" "honest (UpdateDealershipOperationTime env a dl i x' y' z')"
    "honest (DeleteDealershipOperationTime a dl i)" "honest (DeleteServiceTypeRequiredSkill a dl i j)"
    "honest (DeleteServiceTypeRequiredBayCapability a dl i j)" "honest (CreateServiceBay env a dl co na act)"
    "honest (UpdateServiceBay env a dl i co' na' act')" "honest (DeleteServiceBay (calm retry) env a dl i)"
    "honest (DeleteServiceBayCapability a dl i j)" "honest (CreateCustomer pa env a i6)"
    "honest (UpdateCustomer pa env a i i7)" "honest (CreateVehicle (calm retry) clock env a i i8)"
    "honest (UpdateVehicle env a i i9)" "honest (DeleteVehicle env a i)"
  unfolding CreateDealership_def CreateDealershipAdmin_def CreateDealershipUser_def CreateServiceType_def
    UpdateServiceType_def DeleteServiceType_def CreateDealershipOperationTime_def UpdateDealershipOperationTime_def
    DeleteDealershipOperationTime_def DeleteServiceTypeRequiredSkill_def DeleteServiceTypeRequiredBayCapability_def
    CreateServiceBay_def UpdateServiceBay_def DeleteServiceBay_def DeleteServiceBayCapability_def CreateCustomer_def
    UpdateCustomer_def CreateVehicle_def UpdateVehicle_def DeleteVehicle_def Let_def requireActiveTargetAuthUser_def
  by (intro honest_aon aon_intros reads_first aon_repositories aon_transactions [OF assms])+

lemma honest_links:
  "honest (CreateServiceTypeRequiredSkill env a dl i k)" "honest (UpdateServiceTypeRequiredSkill env a dl i j k')"
  "honest (CreateServiceTypeRequiredBayCapability env a dl i k)"
  "honest (UpdateServiceTypeRequiredBayCapability env a dl i j k')"
  "honest (CreateServiceBayCapability env a dl i k)" "honest (UpdateServiceBayCapability env a dl i j k')"
  unfolding CreateServiceTypeRequiredSkill_def UpdateServiceTypeRequiredSkill_def
    CreateServiceTypeRequiredBayCapability_def UpdateServiceTypeRequiredBayCapability_def
    CreateServiceBayCapability_def UpdateServiceBayCapability_def
  by (cases k'; auto intro!: honest_read_then honest_throw reads_first honest_on_err fails_unknown_inserts
      fails_unknown_updates unknown_kept)+

lemma honest_workforce:
  "honest (CreateTechnician pa env a i1)" "honest (UpdateTechnician pa env a i i2)"
  "honest (DeactivateTechnician pa env a i)" "honest (CreateTechnicianShift pa env a i i3)"
  "honest (CreateTechnicianTimeOff pa no_faults env a i i5)" "honest (UpdateTechnicianTimeOff pa no_faults env a i j i6)"
  "honest (DeleteTechnicianTimeOff pa env a i j)" "honest (CreateTechnicianSkill env a i k)"
  "honest (UpdateTechnicianSkill env a i j k')" "honest (DeleteTechnicianSkill a i j)"
  "honest (UpdateTechnicianShift pa zone tz env a i j i4)" "honest (DeleteTechnicianShift pa zone tz env a i j)"
proof -
  show "honest (CreateTechnician pa env a i1)" "honest (UpdateTechnician pa env a i i2)"
    unfolding CreateTechnician_def UpdateTechnician_def Let_def
    by (intro honest_read_then reads_first honest_on_err fails_unknown_workforce unknown_kept; assumption)+
  show "honest (CreateTechnicianSkill env a i k)" "honest (UpdateTechnicianSkill env a i j k')"
    unfolding CreateTechnicianSkill_def UpdateTechnicianSkill_def
    by (cases k'; auto intro!: honest_read_then honest_throw reads_first honest_on_err fails_unknown_workforce unknown_kept)+
  show "honest (DeactivateTechnician pa env a i)" "honest (CreateTechnicianShift pa env a i i3)"
    "honest (CreateTechnicianTimeOff pa no_faults env a i i5)" "honest (UpdateTechnicianTimeOff pa no_faults env a i j i6)"
    "honest (DeleteTechnicianTimeOff pa env a i j)" "honest (DeleteTechnicianSkill a i j)"
    unfolding DeactivateTechnician_def CreateTechnicianShift_def CreateTechnicianTimeOff_def UpdateTechnicianTimeOff_def
      DeleteTechnicianTimeOff_def DeleteTechnicianSkill_def GetTechnicianTimeOff_def Let_def
    by (intro honest_aon aon_intros reads_first readonly_andThen aon_workforce)+
  show "honest (UpdateTechnicianShift pa zone tz env a i j i4)" "honest (DeleteTechnicianShift pa zone tz env a i j)"
    using UpdateTechnicianShift_refuses DeleteTechnicianShift_refuses
    unfolding honest_def refuses_def by (metis Pair_inject)+
qed

section \<open>Answers\<close>

fun answer_status :: "api_answer \<Rightarrow> int" where
  "answer_status (Answered status body) = status"
| "answer_status (ProblemAnswer status code message slug) = status"
| "answer_status (Escaped err) = snd (snd (httpErrorResponseFromErr err))"
| "answer_status (AppointmentAnswer a) =
     (case a of Created201 r \<Rightarrow> 201 | NoContent204 \<Rightarrow> 204 | Problem code err \<Rightarrow> code)"
| "answer_status (Unbound status) = status"

definition client_error :: "api_answer \<Rightarrow> bool" where
  "client_error a \<longleftrightarrow> 400 \<le> answer_status a \<and> answer_status a < 500"

definition opaque :: "(go_error \<Rightarrow> api_answer) \<Rightarrow> bool" where
  "opaque problem \<longleftrightarrow> (\<forall>e. as_common e = None \<longrightarrow> \<not> client_error (problem e))"

lemma opaque_tables:
  "0 \<notin> set codes \<Longrightarrow> opaque (problems codes)" "0 \<notin> set codes \<Longrightarrow> opaque (customer_problems codes)"
  "0 \<notin> set codes \<Longrightarrow> opaque (shift_problems codes)" "opaque (escaping_problems codes)"
  "0 \<notin> set codes \<Longrightarrow> opaque (opaque_problems codes)"
  by (auto simp: opaque_def client_error_def problems_def customer_problems_def shift_problems_def
      escaping_problems_def opaque_problems_def customer_problem_answer_def problem_answer_def respond_def
      operationTimeProblem_def httpErrorResponseFromErr_def Let_def)

lemma opaque_error_functions:
  "opaque listDealershipAppointmentsErrorResponse" "opaque listDealershipsErrorResponse"
  "opaque listAvailableServiceBaysErrorResponse" "opaque listTechnicianSchedulesErrorResponse"
  "opaque createTechnicianErrorResponse" "opaque listTechniciansErrorResponse"
  "opaque getTechnicianErrorResponse" "opaque updateTechnicianErrorResponse"
  "opaque deleteTechnicianErrorResponse" "opaque createTechnicianSkillErrorResponse"
  "opaque listTechnicianSkillsErrorResponse" "opaque updateTechnicianSkillErrorResponse"
  "opaque deleteTechnicianSkillErrorResponse" "opaque createTechnicianShiftErrorResponse"
  "opaque listTechnicianShiftErrorResponse" "opaque updateTechnicianShiftErrorResponse"
  "opaque deleteTechnicianShiftErrorResponse" "opaque createTechnicianTimeOffError"
  "opaque listTechnicianTimeOffError" "opaque getTechnicianTimeOffError" "opaque updateTechnicianTimeOffError"
  "opaque deleteTechnicianTimeOffError" "opaque createCustomerErrorResponse" "opaque getCustomerErrorResponse"
  "opaque updateCustomerErrorResponse" "opaque searchCustomersErrorResponse"
  "opaque createVehicleErrorResponse" "opaque getVehicleErrorResponse" "opaque listVehiclesErrorResponse"
  "opaque updateVehicleErrorResponse" "opaque deleteVehicleErrorResponse"
  "opaque createDealershipErrorResponse" "opaque createDealershipAdminErrorResponse"
  "opaque createDealershipUserErrorResponse" "opaque searchAuthUserByEmailErrorResponse"
  "opaque createServiceTypeErrorResponse" "opaque listServiceTypesErrorResponse"
  "opaque getServiceTypeErrorResponse" "opaque updateServiceTypeErrorResponse"
  "opaque deleteServiceTypeErrorResponse" "opaque createServiceTypeRequiredSkillErrorResponse"
  "opaque listServiceTypeRequiredSkillsErrorResponse" "opaque updateServiceTypeRequiredSkillErrorResponse"
  "opaque deleteServiceTypeRequiredSkillErrorResponse"
  "opaque createServiceTypeRequiredBayCapabilityErrorResponse"
  "opaque listServiceTypeRequiredBayCapabilitiesErrorResponse"
  "opaque updateServiceTypeRequiredBayCapabilityErrorResponse"
  "opaque deleteServiceTypeRequiredBayCapabilityErrorResponse" "opaque createServiceBayErrorResponse"
  "opaque listServiceBaysErrorResponse" "opaque getServiceBayErrorResponse"
  "opaque updateServiceBayErrorResponse" "opaque deleteServiceBayErrorResponse"
  "opaque createServiceBayCapabilityErrorResponse" "opaque listServiceBayCapabilitiesErrorResponse"
  "opaque updateServiceBayCapabilityErrorResponse" "opaque deleteServiceBayCapabilityErrorResponse"
  "opaque createOperationTimeErrorResponse" "opaque listOperationTimeErrorResponse"
  "opaque updateOperationTimeErrorResponse" "opaque deleteOperationTimeErrorResponse"
  unfolding error_function_defs by (intro opaque_tables; simp)+

text \<open>A handler that answers with a client error has changed nothing.\<close>

definition fair :: "(db \<Rightarrow> api_answer \<times> db) \<Rightarrow> bool" where
  "fair h \<longleftrightarrow> (\<forall>d a d'. h d = (a, d') \<longrightarrow> client_error a \<longrightarrow> d' = d)"

lemma fair_pure: "fair (Pair a)"
  by (simp add: fair_def)

lemma fair_finish: "opaque p \<Longrightarrow> honest m \<Longrightarrow> status < 400 \<Longrightarrow> fair (finish_with p status body m)"
  unfolding fair_def opaque_def honest_def
  by (auto simp: finish_with_def client_error_def split: prod.splits sum.splits) blast+

lemma fair_read: "readonly m \<Longrightarrow> fair (finish_with p status body m)"
  unfolding fair_def by (metis finish_with_state readonly_def snd_conv)

lemma fair_with_body: "(\<And>x. fair (k x)) \<Longrightarrow> fair (with_body body slug k)"
  by (cases body) (simp_all add: with_body_def fair_pure)

lemma fair_at_least_one: "fair k \<Longrightarrow> fair (at_least_one slug given k)"
  by (simp add: at_least_one_def fair_pure)

lemma fair_parsed: "(\<And>x. fair (k x)) \<Longrightarrow> fair (parsed p r k)"
  by (cases r) (simp_all add: parsed_def fair_pure)

lemma fair_if: "fair h1 \<Longrightarrow> fair h2 \<Longrightarrow> fair (if c then h1 else h2)"
  by simp

lemmas fair_reads = use_case_reads [THEN fair_read] queries_readonly [THEN fair_read]

lemmas fair_intros = fair_pure fair_with_body fair_at_least_one fair_parsed fair_if fair_reads

text \<open>Surroundings that do not interfere.\<close>

definition calm_surroundings :: "surroundings \<Rightarrow> bool" where
  "calm_surroundings s \<longleftrightarrow> sr_faults s = no_faults
     \<and> (\<exists>retry. backoff_contract retry \<and> sr_schedule_world s = calm retry)
     \<and> (\<exists>retry. backoff_contract retry \<and> cat_world (sr_catalog s) = calm retry)"

lemma fair_groups:
  assumes "backoff_contract retry" and w: "cat_world (sr_catalog s) = calm retry" and f: "sr_faults s = no_faults"
  shows "fair (query_dispatch s env actor r1)" "fair (hours_dispatch s env actor r2)"
    "fair (bay_dispatch s env actor r3)" "fair (service_type_dispatch s env actor r4)"
    "fair (requirement_dispatch s env actor r5)" "fair (dealership_dispatch s env actor r6)"
    "fair (technician_dispatch s env actor r7)" "fair (rota_dispatch s env actor r8)"
    "fair (customer_dispatch s env actor r9)"
proof -
  note finish = fair_finish opaque_error_functions
  note catalog = honest_catalog [OF assms(1)] honest_links
  show "fair (query_dispatch s env actor r1)"
    by (cases r1; simp only: dispatch_defs query_request.case query_handler_defs) (intro fair_intros)+
  show "fair (hours_dispatch s env actor r2)"
    by (cases r2; simp only: dispatch_defs hours_request.case api_handler_defs)
      (intro fair_intros finish catalog; simp)+
  show "fair (bay_dispatch s env actor r3)"
    by (cases r3; simp only: dispatch_defs bay_request.case api_handler_defs w)
      (intro fair_intros finish catalog; simp)+
  show "fair (service_type_dispatch s env actor r4)"
    by (cases r4; simp only: dispatch_defs service_type_request.case api_handler_defs w)
      (intro fair_intros finish catalog; simp)+
  show "fair (requirement_dispatch s env actor r5)"
    by (cases r5; simp only: dispatch_defs requirement_request.case api_handler_defs)
      (intro fair_intros finish catalog; simp)+
  show "fair (dealership_dispatch s env actor r6)"
    by (cases r6; simp only: dispatch_defs dealership_request.case api_handler_defs w)
      (intro fair_intros finish catalog; simp)+
  show "fair (technician_dispatch s env actor r7)"
    by (cases r7; simp only: dispatch_defs technician_request.case api_handler_defs)
      (intro fair_intros finish honest_workforce; simp)+
  show "fair (rota_dispatch s env actor r8)"
    by (cases r8; simp only: dispatch_defs rota_request.case api_handler_defs f)
      (intro fair_intros finish honest_workforce; simp)+
  show "fair (customer_dispatch s env actor r9)"
    by (cases r9; simp only: dispatch_defs customer_request.case api_handler_defs w)
      (intro fair_intros finish catalog; simp)+
qed

lemma fair_appointment:
  assumes "calm_surroundings s"
  shows "fair (\<lambda>d. case handle (sr_zone s) (appointment_call s env actor req) d of (a, d') \<Rightarrow> (AppointmentAnswer a, d'))"
proof -
  have calm: "calm_call (appointment_call s env actor req)"
    using assms by (auto simp: calm_surroundings_def calm_call_def appointment_call_def)
  show ?thesis
    unfolding fair_def client_error_def
    by (auto split: prod.splits appointment_answer.splits dest: calm_handle_problem [OF calm])
qed

lemma fair_dispatch: "calm_surroundings s \<Longrightarrow> fair (api_dispatch s env actor r)"
  using fair_groups fair_appointment unfolding calm_surroundings_def
  by (cases r) (auto simp: api_dispatch_def)

lemma api_client_error:
  assumes "calm_surroundings s" and "api_serve s accounts header r d = (a, d')" and "client_error a"
  shows "d' = d"
proof (rule api_serve_cases [where s = s and accounts = accounts and header = header and r = r and d = d])
  fix userID role
  assume "api_serve s accounts header r d = api_dispatch s (identified s accounts userID role) userID r d"
  then show "d' = d" using fair_dispatch [OF assms(1)] assms(2,3) unfolding fair_def by metis
qed (use assms(2) in simp)

end
