(* ===== verification/Api_Times.thy ===== *)
theory Api_Times
  imports Api_Atomic
begin

text \<open>
  Clock times as texts: what is read is what is shown, also after the way through the database.
\<close>

lemma digit_shown: "is_digit h \<Longrightarrow> char_of (48 + nat (digit_of h)) = h"
proof -
  assume "is_digit h"
  then have "48 \<le> (of_char h :: nat)" "(of_char h :: int) = int (of_char h)"
    using of_nat_of_char [of h, where 'a = int] by (simp_all add: is_digit_def)
  then have "48 + nat (digit_of h) = (of_char h :: nat)" by (simp add: digit_of_def)
  then show ?thesis by simp
qed

lemma digit_range: "is_digit h \<Longrightarrow> 0 \<le> digit_of h \<and> digit_of h < 10"
proof -
  assume "is_digit h"
  then have "48 \<le> (of_char h :: nat)" "(of_char h :: nat) \<le> 57" "(of_char h :: int) = int (of_char h)"
    using of_nat_of_char [of h, where 'a = int] by (simp_all add: is_digit_def)
  then show ?thesis by (simp add: digit_of_def)
qed

lemma clock_digits_shown:
  assumes "is_digit a" and "is_digit b"
  shows "clock_digits (10 * digit_of a + digit_of b) = [a, b]"
  using digit_range [OF assms(1)] digit_range [OF assms(2)] digit_shown [OF assms(1)] digit_shown [OF assms(2)]
  by (simp add: clock_digits_def)

lemma clock_parts:
  assumes "0 \<le> h" "h < 24" "0 \<le> m" "m < (60::int)"
  shows "(h * Hour + m * Minute) div Hour mod 24 = h" "(h * Hour + m * Minute) div Minute mod 60 = m"
proof -
  have "h * Hour + m * Minute = Hour * h + m * Minute" "0 \<le> m * Minute" "m * Minute < Hour"
    using assms by (simp_all add: Hour_def Minute_def)
  then have "(h * Hour + m * Minute) div Hour = h" by (simp add: div_mult_self4)
  then show "(h * Hour + m * Minute) div Hour mod 24 = h" using assms by simp
  have "h * Hour + m * Minute = (60 * h + m) * Minute" by (simp add: Hour_def Minute_def)
  moreover have "(60 * h + m) * Minute div Minute = 60 * h + m" by (simp add: Minute_def)
  ultimately have "(h * Hour + m * Minute) div Minute = 60 * h + m" by (simp only:)
  then show "(h * Hour + m * Minute) div Minute mod 60 = m" using assms by simp
qed

lemma parse_clock_shown:
  assumes "parse_clock s = Some t"
  shows "formatOperationTime t = s" "\<exists>n. t = n * Minute" "0 \<le> t" "t < 24 * Hour"
proof -
  obtain h1 h2 m1 m2 where s: "s = [h1, h2, CHR '':'', m1, m2]"
    and d: "is_digit h1" "is_digit h2" "is_digit m1" "is_digit m2"
    and r: "10 * digit_of h1 + digit_of h2 < 24" "10 * digit_of m1 + digit_of m2 < 60"
    and t: "t = (10 * digit_of h1 + digit_of h2) * Hour + (10 * digit_of m1 + digit_of m2) * Minute"
    using assms by (auto simp: parse_clock_def split: list.splits if_splits)
  have p: "0 \<le> 10 * digit_of h1 + digit_of h2" "0 \<le> 10 * digit_of m1 + digit_of m2"
    using digit_range d by simp_all
  show "formatOperationTime t = s"
    unfolding formatOperationTime_def t clock_parts [OF p(1) r(1) p(2) r(2)] clock_digits_shown [OF d(1,2)]
      clock_digits_shown [OF d(3,4)] s by simp
  show "\<exists>n. t = n * Minute"
    by (rule exI [of _ "60 * (10 * digit_of h1 + digit_of h2) + 10 * digit_of m1 + digit_of m2"])
      (simp add: t Hour_def Minute_def)
  show "0 \<le> t" "t < 24 * Hour" using p r by (simp_all add: t Hour_def Minute_def)
qed

lemma parseOperationTime_shown: "parseOperationTime s = Inr t \<Longrightarrow> formatOperationTime t = s"
  by (auto simp: parseOperationTime_def dest: parse_clock_shown(1) split: option.splits)

text \<open>Whole minutes of a day survive the microseconds of the database.\<close>

lemma clock_stored:
  assumes "parse_clock s = Some t"
  shows "fromPGTime (toPGTime t) = t"
proof -
  obtain n where "t = n * Minute" using parse_clock_shown(2) [OF assms] by blast
  then show ?thesis
    using fromPGTime_toPGTime [OF parse_clock_shown(3) [OF assms]] parse_clock_shown(4) [OF assms]
    by (simp add: Hour_def Minute_def)
qed

section \<open>Opening hours as they are listed\<close>

lemma convert_rows_append:
  "convert_rows f (us @ vs) = rbind (convert_rows f us) (\<lambda>xs. rbind (convert_rows f vs) (\<lambda>ys. Inr (xs @ ys)))"
  by (induction us) (auto simp: rbind_def split: sum.splits)

text \<open>A new row takes its place in a sorted list and leaves the others in their order.\<close>

lemma order_by_new:
  assumes "r \<notin> set rows" and "P r"
  shows "\<exists>us vs. order_by k (order_by l (filter P (rows @ [r]))) = us @ r # vs
    \<and> order_by k (order_by l (filter P rows)) = us @ vs"
proof -
  let ?new = "order_by k (order_by l (filter P (rows @ [r])))"
  have "r \<in> set ?new" using assms(2) by (simp add: order_by_def)
  then obtain us vs where new: "?new = us @ r # vs" and us: "r \<notin> set us" by (meson split_list_first)
  have "filter (\<lambda>z. z \<noteq> r) (filter P (rows @ [r])) = filter P rows"
    using assms(1) by (auto intro: filter_cong)
  then have old: "filter (\<lambda>z. z \<noteq> r) ?new = order_by k (order_by l (filter P rows))"
    by (simp only: order_by_def filter_sort)
  have "length (filter (\<lambda>z. z = r) ?new) = 1"
    using assms by (auto simp: order_by_def filter_sort filter_empty_conv)
  then have "length (filter (\<lambda>z. z = r) (us @ r # vs)) = 1" unfolding new .
  then have "length (filter (\<lambda>z. z = r) vs) = 0" using us by simp
  then have vs: "r \<notin> set vs" by (auto simp: filter_empty_conv)
  have "filter (\<lambda>z. z \<noteq> r) (us @ r # vs) = us @ vs"
    using us vs filter_id_conv [of "\<lambda>z. z \<noteq> r" us] filter_id_conv [of "\<lambda>z. z \<noteq> r" vs] by auto
  then have "filter (\<lambda>z. z \<noteq> r) ?new = us @ vs" unfolding new .
  then show ?thesis using new old by auto
qed

lemma stored_operation_time_reads_back:
  assumes made: "NewDealershipOperationTime i dl day opens closes now = Inr x" and us: "whole_us now"
    and clock: "fromPGTime (toPGTime opens) = opens" "fromPGTime (toPGTime closes) = closes"
  shows "operationTimeFromRow (operation_time_row_of x) = Inr x"
proof -
  have day: "to_int16 day = day" using made by (intro to_int16_id) (auto simp: NewDealershipOperationTime_ok)
  have now: "time_UTC (from_pg (to_pg (time_UTC now))) = time_UTC now"
    using stored_time [of "time_UTC now"] us by (simp add: whole_us_def)
  show ?thesis
    using made day now clock
    by (auto simp: operationTimeFromRow_def operation_time_row_of_def RehydrateDealershipOperationTime_def
        NewDealershipOperationTime_ok split: sum.split)
      (auto simp: NewDealershipOperationTime_def split: if_splits)
qed

lemma operation_time_access:
  "authorizeDealershipOperationTimes actor dl d = (Inr u, d') \<longleftrightarrow>
     actor \<noteq> uuid_Nil \<and> dl \<noteq> uuid_Nil \<and> IsActiveSchedulerAdminForDealership d actor dl \<and> IsActiveDealership d dl
     \<and> d' = d"
  by (auto simp: authorizeDealershipOperationTimes_def require_dealership_admin_def require_actor_def ok_iff)

lemma operation_time_access_frame [simp]:
  "IsActiveSchedulerAdminForDealership (d\<lparr>operation_times := x\<rparr>) = IsActiveSchedulerAdminForDealership d"
  "IsActiveDealership (d\<lparr>operation_times := x\<rparr>) = IsActiveDealership d"
  by (intro ext; simp add: IsActiveSchedulerAdminForDealership_def has_role_def IsActiveDealership_def
      GetActiveDealership_def)+

lemma finish_with_answered:
  assumes "\<And>e. p e \<noteq> Answered st b"
  shows "finish_with p st body m d = (Answered st b, d') \<longleftrightarrow> (\<exists>x. m d = (Inr x, d') \<and> b = body x)"
  using assms by (cases "m d"; cases "fst (m d)") (auto simp: finish_with_def)

lemma operation_times_listed:
  "ListDealershipOperationTimes_handler actor dl d = (Answered 200 (OperationTimesBody bs), d') \<longleftrightarrow>
     actor \<noteq> uuid_Nil \<and> dl \<noteq> uuid_Nil \<and> IsActiveSchedulerAdminForDealership d actor dl \<and> IsActiveDealership d dl
     \<and> d' = d \<and> (\<exists>xs. ListDealershipOperationTimes_repo d dl = Inr xs \<and> bs = map operationTimeResponse xs)"
proof -
  have "listOperationTimeErrorResponse e \<noteq> Answered 200 b" for e b
    by (simp add: error_function_defs problems_def problem_answer_def split: prod.split)
  then show ?thesis
    by (simp add: ListDealershipOperationTimes_handler_def finish_with_answered ListDealershipOperationTimes_def
        andThen_ok operation_time_access) auto
qed

lemma operation_times_after_insert:
  assumes listed: "ListDealershipOperationTimes_repo d dl = Inr xs"
    and row: "op_dealership_id r = dl" "operationTimeFromRow r = Inr x"
    and d': "operation_times d' = operation_times d @ [r]" and new: "r \<notin> set (operation_times d)"
  shows "\<exists>us vs. xs = us @ vs \<and> ListDealershipOperationTimes_repo d' dl = Inr (us @ x # vs)"
proof -
  obtain ru rv where "order_by op_day_of_week (order_by op_opens_at (filter (\<lambda>r. op_dealership_id r = dl)
      (operation_times d'))) = ru @ r # rv"
    and old: "order_by op_day_of_week (order_by op_opens_at (filter (\<lambda>r. op_dealership_id r = dl)
      (operation_times d))) = ru @ rv"
    using order_by_new [OF new, of "\<lambda>r. op_dealership_id r = dl" op_day_of_week op_opens_at] row(1) d' by auto
  moreover obtain us vs where "convert_rows operationTimeFromRow ru = Inr us" "convert_rows operationTimeFromRow rv = Inr vs"
    "xs = us @ vs"
    using listed unfolding ListDealershipOperationTimes_repo_def old convert_rows_append by (auto simp: rbind_ok)
  ultimately show ?thesis
    using row(2) by (auto simp: ListDealershipOperationTimes_repo_def convert_rows_append)
qed

lemma created_operation_time:
  assumes "CreateDealershipOperationTime_handler env actor dl (Some b) d = (Answered 201 body, d')"
  shows "\<exists>x opens closes. parseOperationTime (cor_OpensAt b) = Inr opens \<and> parseOperationTime (cor_ClosesAt b) = Inr closes
    \<and> NewDealershipOperationTime (sv_newID env 0) dl (cor_DayOfWeek b) opens closes (sv_now env 0) = Inr x
    \<and> insert_operation_time (operation_time_row_of x) d = Inr d' \<and> body = OperationTimeBody (operationTimeResponse x)"
proof -
  have refuse: "createOperationTimeErrorResponse e \<noteq> Answered 201 b" for e b
    by (simp add: error_function_defs problems_def problem_answer_def split: prod.split)
  show ?thesis
    using assms
    by (cases "parseOperationTime (cor_OpensAt b)"; cases "parseOperationTime (cor_ClosesAt b)")
      (auto simp: CreateDealershipOperationTime_handler_def with_body_def parsed_def refuse finish_with_answered
        CreateDealershipOperationTime_def CreateDealershipOperationTime_repo_def operation_time_access ok_iff)
qed

lemma parseOperationTime_stored: "parseOperationTime s = Inr t \<Longrightarrow> fromPGTime (toPGTime t) = t"
  by (auto simp: parseOperationTime_def dest: clock_stored split: option.splits)

end
