(* ===== verification/Request_Json.thy ===== *)
theory Request_Json
  imports Api_Atomic
begin

text \<open>
  How the bodies of the PATCH requests that can clear a field are read: the decoders of
  optional\_nullable\_string.go and optional\_nullable\_int.go, and the decoding encoding/json does for the
  generated type of a vehicle update, which has no decoder of its own.

  A body is the value its text stands for. encoding/json matches a field of the struct with the members
  whose names are equal up to the case of (ASCII) letters, assigns every one of them in order, so the last
  wins, and fails when any has the wrong kind; \<open>null\<close> makes a pointer nil. A \<open>json.RawMessage\<close> keeps any
  value, \<open>null\<close> too. The parser of RFC 3339 times is a parameter.
\<close>

section \<open>Values\<close>

datatype body_value =
    BNull
  | BBool bool
  | BInt int
  | BDecimal string
  | BText string
  | BArray "body_value list"
  | BObject "(string \<times> body_value) list"

definition wrong_kind :: go_error where
  "wrong_kind = ErrorString ''json: cannot unmarshal value into Go value''"

definition text_of :: "body_value \<Rightarrow> string result" where
  "text_of v = (case v of BText s \<Rightarrow> Inr s | _ \<Rightarrow> Inl wrong_kind)"

definition bool_of :: "body_value \<Rightarrow> bool result" where
  "bool_of v = (case v of BBool b \<Rightarrow> Inr b | _ \<Rightarrow> Inl wrong_kind)"

definition int_of_body :: "body_value \<Rightarrow> int result" where
  "int_of_body v =
     (case v of BInt n \<Rightarrow> if - 9223372036854775808 \<le> n \<and> n < 9223372036854775808 then Inr n else Inl wrong_kind
      | _ \<Rightarrow> Inl wrong_kind)"

text \<open>A pointer: nil for \<open>null\<close>.\<close>

definition pointer_to :: "(body_value \<Rightarrow> 'a result) \<Rightarrow> body_value \<Rightarrow> 'a option result" where
  "pointer_to dec v = (if v = BNull then Inr None else rbind (dec v) (\<lambda>x. Inr (Some x)))"

definition raw_message :: "body_value \<Rightarrow> body_value option result" where
  "raw_message v = Inr (Some v)"

section \<open>Structs\<close>

text \<open>The members of the value a struct is read from; \<open>null\<close> leaves the struct as it is.\<close>

definition members :: "body_value \<Rightarrow> (string \<times> body_value) list result" where
  "members v = (case v of BObject fs \<Rightarrow> Inr fs | BNull \<Rightarrow> Inr [] | _ \<Rightarrow> Inl wrong_kind)"

fun field :: "string \<Rightarrow> (body_value \<Rightarrow> 'a option result) \<Rightarrow> 'a option \<Rightarrow> (string \<times> body_value) list \<Rightarrow> 'a option result" where
  "field name dec current [] = Inr current"
| "field name dec current ((k, v) # fs) =
     (if ToLower k = ToLower name then rbind (dec v) (\<lambda>x. field name dec x fs) else field name dec current fs)"

definition read_field :: "string \<Rightarrow> (body_value \<Rightarrow> 'a option result) \<Rightarrow> (string \<times> body_value) list \<Rightarrow> 'a option result" where
  "read_field name dec fs = field name dec None fs"

section \<open>The decoders\<close>

definition OptionalNullableString_UnmarshalJSON :: "body_value \<Rightarrow> OptionalNullableString result" where
  "OptionalNullableString_UnmarshalJSON v =
     (if v = BNull then Inr \<lparr>ons_Present = True, ons_Value = None\<rparr>
      else rbind (text_of v) (\<lambda>s. Inr \<lparr>ons_Present = True, ons_Value = Some s\<rparr>))"

definition OptionalNullableInt_UnmarshalJSON :: "body_value \<Rightarrow> OptionalNullableInt result" where
  "OptionalNullableInt_UnmarshalJSON v =
     (if v = BNull then Inr \<lparr>oni_Present = True, oni_Value = None\<rparr>
      else rbind (int_of_body v) (\<lambda>n. Inr \<lparr>oni_Present = True, oni_Value = Some n\<rparr>))"

text \<open>The field of a request that was kept raw.\<close>

definition from_raw :: "body_value option \<Rightarrow> OptionalNullableString option result" where
  "from_raw raw =
     (case raw of
        None \<Rightarrow> Inr None
      | Some v \<Rightarrow> rbind (OptionalNullableString_UnmarshalJSON v) (\<lambda>x. Inr (Some x)))"

definition UpdateCustomerRequest_UnmarshalJSON :: "body_value \<Rightarrow> UpdateCustomerRequest result" where
  "UpdateCustomerRequest_UnmarshalJSON body =
     rbind (members body) (\<lambda>fs.
     rbind (read_field ''name'' (pointer_to text_of) fs) (\<lambda>name.
     rbind (read_field ''phone'' (pointer_to text_of) fs) (\<lambda>phone.
     rbind (read_field ''email'' raw_message fs) (\<lambda>raw.
     rbind (from_raw raw) (\<lambda>email.
     Inr \<lparr>ucr_Name = name, ucr_Phone = phone, ucr_Email = email\<rparr>)))))"

definition UpdateTechnicianRequest_UnmarshalJSON :: "body_value \<Rightarrow> UpdateTechnicianRequest result" where
  "UpdateTechnicianRequest_UnmarshalJSON body =
     rbind (members body) (\<lambda>fs.
     rbind (read_field ''name'' (pointer_to text_of) fs) (\<lambda>name.
     rbind (read_field ''phone'' (pointer_to text_of) fs) (\<lambda>phone.
     rbind (read_field ''email'' raw_message fs) (\<lambda>raw.
     rbind (read_field ''isActive'' (pointer_to bool_of) fs) (\<lambda>isActive.
     rbind (from_raw raw) (\<lambda>email.
     Inr \<lparr>utr_Name = name, utr_Phone = phone, utr_Email = email, utr_IsActive = isActive\<rparr>))))))"

definition parsed_time :: "(string \<Rightarrow> gotime result) \<Rightarrow> string option \<Rightarrow> gotime option result" where
  "parsed_time parse_time value =
     (case value of None \<Rightarrow> Inr None | Some s \<Rightarrow> rbind (parse_time s) (\<lambda>t. Inr (Some t)))"

definition UpdateTechnicianTimeOffRequest_UnmarshalJSON ::
  "(string \<Rightarrow> gotime result) \<Rightarrow> body_value \<Rightarrow> UpdateTechnicianTimeOffRequest result" where
  "UpdateTechnicianTimeOffRequest_UnmarshalJSON parse_time body =
     rbind (members body) (\<lambda>fs.
     rbind (read_field ''startsAt'' (pointer_to text_of) fs) (\<lambda>startsAt.
     rbind (read_field ''endsAt'' (pointer_to text_of) fs) (\<lambda>endsAt.
     rbind (read_field ''reason'' raw_message fs) (\<lambda>raw.
     rbind (parsed_time parse_time startsAt) (\<lambda>startsAt.
     rbind (parsed_time parse_time endsAt) (\<lambda>endsAt.
     rbind (from_raw raw) (\<lambda>reason.
     Inr \<lparr>ufr_StartsAt = startsAt, ufr_EndsAt = endsAt, ufr_Reason = reason\<rparr>)))))))"

text \<open>The generated type of a vehicle update: the decoder of a field runs only for values other than
  \<open>null\<close>, since the field is a pointer.\<close>

definition decode_UpdateVehicleRequest :: "body_value \<Rightarrow> UpdateVehicleRequest result" where
  "decode_UpdateVehicleRequest body =
     rbind (members body) (\<lambda>fs.
     rbind (read_field ''make'' (pointer_to text_of) fs) (\<lambda>make.
     rbind (read_field ''model'' (pointer_to text_of) fs) (\<lambda>model.
     rbind (read_field ''model_year'' (pointer_to OptionalNullableInt_UnmarshalJSON) fs) (\<lambda>modelYear.
     rbind (read_field ''registration_plate'' (pointer_to OptionalNullableString_UnmarshalJSON) fs) (\<lambda>plate.
     rbind (read_field ''vin'' (pointer_to OptionalNullableString_UnmarshalJSON) fs) (\<lambda>vin.
     Inr \<lparr>uvr_Vin = vin, uvr_RegistrationPlate = plate, uvr_Make = make, uvr_Model = model,
          uvr_ModelYear = modelYear\<rparr>))))))"

section \<open>What a field depends on\<close>

text \<open>A field no member names stays omitted.\<close>

lemma field_unnamed: "\<forall>(k, v)\<in>set fs. ToLower k \<noteq> ToLower name \<Longrightarrow> field name dec current fs = Inr current"
  by (induction fs) auto

lemma read_field_unnamed: "\<forall>k\<in>set (map fst fs). ToLower k \<noteq> ToLower name \<Longrightarrow> read_field name dec fs = Inr None"
  by (auto simp: read_field_def intro!: field_unnamed)

text \<open>A pointer all members set to \<open>null\<close> stays nil.\<close>

lemma read_field_null: "\<forall>(k, v)\<in>set fs. v = BNull \<Longrightarrow> read_field name (pointer_to dec) fs = Inr None"
proof -
  have "field name (pointer_to dec) None fs = Inr None" if "\<forall>(k, v)\<in>set fs. v = BNull"
    using that by (induction fs) (auto simp: pointer_to_def)
  then show "\<forall>(k, v)\<in>set fs. v = BNull \<Longrightarrow> read_field name (pointer_to dec) fs = Inr None"
    by (simp add: read_field_def)
qed

text \<open>A member after which the name does not come again decides.\<close>

lemma read_field_last:
  assumes "\<forall>k\<in>set (map fst fs). ToLower k \<noteq> ToLower name" and "ToLower k = ToLower name"
  shows "read_field name dec ((k, v) # fs) = dec v"
proof -
  have "field name dec x fs = Inr x" for x using assms(1) by (intro field_unnamed) auto
  then show ?thesis using assms(2) by (cases "dec v") (simp_all add: read_field_def)
qed

lemma time_off_body_undocumented_names:
  assumes "set (map fst fs) \<subseteq> {''starts_at'', ''ends_at''}"
  shows "UpdateTechnicianTimeOffRequest_UnmarshalJSON parse_time (BObject fs)
    = Inr \<lparr>ufr_StartsAt = None, ufr_EndsAt = None, ufr_Reason = None\<rparr>"
proof -
  have "ToLower ''starts_at'' \<notin> {ToLower ''startsAt'', ToLower ''endsAt'', ToLower ''reason''}"
    "ToLower ''ends_at'' \<notin> {ToLower ''startsAt'', ToLower ''endsAt'', ToLower ''reason''}" by code_simp+
  then have "\<forall>k\<in>set (map fst fs). ToLower k \<notin> {ToLower ''startsAt'', ToLower ''endsAt'', ToLower ''reason''}"
    using assms by (auto dest!: subsetD)
  then have "\<forall>k\<in>set (map fst fs). ToLower k \<noteq> ToLower ''startsAt''"
    "\<forall>k\<in>set (map fst fs). ToLower k \<noteq> ToLower ''endsAt''" "\<forall>k\<in>set (map fst fs). ToLower k \<noteq> ToLower ''reason''"
    by blast+
  then show ?thesis
    by (simp add: UpdateTechnicianTimeOffRequest_UnmarshalJSON_def members_def read_field_unnamed parsed_time_def
        from_raw_def)
qed

lemma technician_body_undocumented_name:
  assumes "set (map fst fs) \<subseteq> {''is_active''}"
  shows "UpdateTechnicianRequest_UnmarshalJSON (BObject fs)
    = Inr \<lparr>utr_Name = None, utr_Phone = None, utr_Email = None, utr_IsActive = None\<rparr>"
proof -
  have "ToLower ''is_active'' \<notin> {ToLower ''name'', ToLower ''phone'', ToLower ''email'', ToLower ''isActive''}" by code_simp
  then have "\<forall>k\<in>set (map fst fs). ToLower k \<notin> {ToLower ''name'', ToLower ''phone'', ToLower ''email'', ToLower ''isActive''}"
    using assms by (auto dest!: subsetD)
  then have "\<forall>k\<in>set (map fst fs). ToLower k \<noteq> ToLower ''name''" "\<forall>k\<in>set (map fst fs). ToLower k \<noteq> ToLower ''phone''"
    "\<forall>k\<in>set (map fst fs). ToLower k \<noteq> ToLower ''email''" "\<forall>k\<in>set (map fst fs). ToLower k \<noteq> ToLower ''isActive''"
    by blast+
  then show ?thesis
    by (simp add: UpdateTechnicianRequest_UnmarshalJSON_def members_def read_field_unnamed from_raw_def)
qed

lemma vehicle_body_null:
  assumes "\<forall>(k, v)\<in>set fs. v = BNull"
  shows "decode_UpdateVehicleRequest (BObject fs)
    = Inr \<lparr>uvr_Vin = None, uvr_RegistrationPlate = None, uvr_Make = None, uvr_Model = None, uvr_ModelYear = None\<rparr>"
  by (simp add: decode_UpdateVehicleRequest_def members_def read_field_null [OF assms])

end
