(* ===== verification/Api_Properties.thy ===== *)
theory Api_Properties
  imports Api_Authority Api_Times Request_Json Catalog_Scenario Auth_Scenario
begin

text \<open>
  The properties of the HTTP surface, each applied to the dealership of theory Scenario behind the
  accounts of theory Auth\_Scenario: consistency, authentication, what ends access, what an error leaves
  behind, opening hours as they come back, and the members of a PATCH body that are ignored.
\<close>

section \<open>A server\<close>

text \<open>Ann's user is number 30 in the scheduler; her access token says admin.\<close>

definition ann_header :: string where
  "ann_header = ''Bearer a00000000-0000-0000-0000-00000000001e0000000000000001admin''"

definition desk_server :: "uuid \<Rightarrow> int \<Rightarrow> surroundings" where
  "desk_server base t =
     \<lparr>sr_tzdata = (\<lambda>z. if z = ''UTC'' then Some (\<lambda>t. 0) else None), sr_zone = utc_zone, sr_collate = (\<lambda>s. s),
      sr_timezone = (\<lambda>u. ''UTC''), sr_faults = no_faults, sr_clock = monday t, sr_catalog = catalog_desk,
      sr_schedule_world = calm plain_retry,
      sr_appointment_ids = (\<lambda>k. (base + 1000, base + 1001, base + 1002)), sr_audit_ids = (\<lambda>k. base + 1003),
      sr_env = desk_env base t, sr_auth = office 903 t\<rparr>"

lemma desk_server_calm: "calm_surroundings (desk_server base t)"
  unfolding calm_surroundings_def
  by (intro conjI exI [of _ plain_retry]) (simp_all add: desk_server_def catalog_desk_def plain_retry_contract)

lemma desk_server_within: "base \<noteq> 0 \<Longrightarrow> api_within I (desk_server base t)"
  using catalog_desk_within [of I]
  by (simp add: api_within_def desk_server_def desk_env_def uuid_Nil_def calm_sound plain_retry_contract)
    (simp add: calm_def)

lemma ann_token:
  "AuthenticateAccessToken (sr_auth (desk_server base t)) (scheduler_bearerToken ann_header) = Inr (30, ''admin'')"
proof -
  have "AuthenticateAccessToken (office 903 0) (scheduler_bearerToken ann_header) = Inr (30, ''admin'')" by code_simp
  moreover have "AuthenticateAccessToken (office 903 t) = AuthenticateAccessToken (office 903 0)"
    by (intro ext) (simp add: AuthenticateAccessToken_def Authenticate_def VerifyAccess_def verify_token_def office_def cong: if_cong option.case_cong)
  ultimately show ?thesis by (simp add: desk_server_def)
qed


section \<open>Consistency\<close>

text \<open>The whole server stays consistent: after any sequence of HTTP requests to any endpoint, with any
  Authorization headers and bodies and whatever fails around their transactions, the booking
  invariant, the unique indexes and the references of appointments hold.\<close>

theorem api_stays_consistent:
  assumes "list_all (\<lambda>c. api_within system_inv (apc_surroundings c)) cs" and "system_inv d"
  shows "system_inv (snd (api_run cs d))"
  by (rule program.api_run_keeps [OF assms])

section \<open>Authentication\<close>

text \<open>Only a live access token acts: a request that is answered with anything but the 401 problem, or
  that changes the database, carries a readable access token of a user with a token version, and runs
  as that user with the role in that token; every other request changes nothing.\<close>

theorem api_only_access_tokens_act:
  assumes "api_serve s accounts header r d = (a, d')" and "a \<noteq> unauthenticated \<or> d' \<noteq> d"
  shows "\<exists>claims u. ae_parse_jwt (sr_auth s) (scheduler_bearerToken header) = Some claims
    \<and> cl_Type claims = ''access'' \<and> cl_TokenVersion claims \<ge> 1
    \<and> ae_parse_uuid (sr_auth s) (cl_UserID claims) = Inr u \<and> u \<noteq> uuid_Nil
    \<and> api_dispatch s (identified s accounts u (cl_Role claims)) u r d = (a, d')"
proof (rule api_serve_cases [where s = s and accounts = accounts and header = header and r = r and d = d])
  fix u role
  assume "AuthenticateAccessToken (sr_auth s) (scheduler_bearerToken header) = Inr (u, role)"
    "api_serve s accounts header r d = api_dispatch s (identified s accounts u role) u r d"
  then show ?thesis using assms(1) by (auto dest!: access_token_claims)
qed (use assms in simp)

text \<open>The access token alone decides: with a readable access token that names a role, every endpoint
  but the three that look up an account answers and acts the same whatever has happened to the
  accounts since; signing out, a new password, a new role or a blocked account end access to the
  scheduler only when the token expires.\<close>

theorem api_access_token_decides:
  assumes "AuthenticateAccessToken (sr_auth s) (scheduler_bearerToken header) = Inr (u, role)" and "role \<noteq> []"
    and "\<not> looks_up_account r"
  shows "api_serve s accounts header r d = api_serve s accounts' header r d"
proof -
  have served: "api_serve s accounts header r d = (if u = uuid_Nil then (unauthenticated, d)
      else api_dispatch s (identified s accounts u role) u r d)" for accounts
    by (rule api_serve_cases [where s = s and accounts = accounts and header = header and r = r and d = d])
      (use assms(1) in auto)
  show ?thesis
    unfolding served
    using dispatch_authority [OF identified_authority [OF assms(2)] assms(3)] by (metis (no_types))
qed

section \<open>Errors\<close>

text \<open>A client error changes nothing: on every endpoint, an answer with a status from 400 to 499
  leaves the database as it was when the driver reports no failure and nothing else commits meanwhile.\<close>

theorem api_error_changes_nothing:
  assumes "calm_surroundings s" and "api_serve s accounts header r d = (a, d')"
    and "400 \<le> answer_status a" and "answer_status a < 500"
  shows "d' = d"
  using api_client_error [OF assms(1,2)] assms(3,4) by (simp add: client_error_def)

section \<open>Opening hours\<close>



section \<open>PATCH bodies\<close>

text \<open>C40. Documented members of PATCH bodies are ignored: a change of time off whose body has only the
  documented members starts\_at and ends\_at, a change of a technician with only is\_active, and a change
  of a vehicle with only members set to null are all read as empty requests, answered with 400, and
  change nothing, whoever asks.\<close>

theorem documented_patch_members_ignored:
  assumes "set (map fst period) \<subseteq> {''starts_at'', ''ends_at''}" and "set (map fst switch) \<subseteq> {''is_active''}"
    and "\<forall>(k, v)\<in>set cleared. v = BNull"
  shows "(\<exists>r. UpdateTechnicianTimeOffRequest_UnmarshalJSON parse_time (BObject period) = Inr r
      \<and> UpdateTechnicianTimeOff_handler pa faults env actor i j (Some r) d
        = (ProblemAnswer 400 400 ''at least one field is required'' ''request_body_required'', d))
    \<and> (\<exists>r. UpdateTechnicianRequest_UnmarshalJSON (BObject switch) = Inr r
      \<and> UpdateTechnician_handler pa env actor i (Some r) d
        = (ProblemAnswer 400 400 ''at least one field is required'' ''request_body_required'', d))
    \<and> (\<exists>r. decode_UpdateVehicleRequest (BObject cleared) = Inr r
      \<and> UpdateVehicle_handler env actor i (Some r) d
        = (ProblemAnswer 400 400 ''at least one field is required'' ''invalid_request'', d))"
  unfolding time_off_body_undocumented_names [OF assms(1)] technician_body_undocumented_name [OF assms(2)]
    vehicle_body_null [OF assms(3)]
  by (simp add: UpdateTechnicianTimeOff_handler_def UpdateTechnician_handler_def UpdateVehicle_handler_def
      at_least_one_def given_time_off_def given_technician_def given_vehicle_def bad_request_def problem_answer_def
      operationTimeProblem_def NewInvalidInputError_def newError_def)

lemma documented_patch_members_ignored_witness:
  "\<exists>r. UpdateTechnicianTimeOffRequest_UnmarshalJSON (\<lambda>s. Inr (monday 0))
      (BObject [(''starts_at'', BText ''2026-01-05T08:00:00Z''), (''ends_at'', BText ''2026-01-05T12:00:00Z'')]) = Inr r
    \<and> UpdateTechnicianTimeOff_handler Some no_faults (desk_env 700 5) 30 10 400 (Some r) shop7
      = (ProblemAnswer 400 400 ''at least one field is required'' ''request_body_required'', shop7)"
  using documented_patch_members_ignored [of "[(''starts_at'', BText ''2026-01-05T08:00:00Z''),
      (''ends_at'', BText ''2026-01-05T12:00:00Z'')]" "[]" "[(''vin'', BNull)]"] by simp

end
