(* ===== verification/Http_Bodies.thy ===== *)
theory Http_Bodies
  imports Api_Authority Api_Times Request_Json
begin

text \<open>
  How the generated bindings of the scheduler (api/http/openapi.gen.go) read a request: the parameters of
  the path and the query, and the body as the struct of its operation. A field without a pointer keeps
  its zero value when it is omitted or \<open>null\<close>; an unknown member is skipped.

  What the bindings call is outside the repository and a parameter, record \<open>binders\<close>: the runtime package
  of oapi-codegen for path and query parameters, the texts of package uuid, the JSON form of an e-mail
  address, and the two parsers of times (\<open>time.Time\<close> and, for the hand-written decoders, \<open>time.Parse\<close>).
\<close>

section \<open>Parameters\<close>

type_synonym query_values = "string \<Rightarrow> string list"

record binders =
  bn_path_uuid :: "string \<Rightarrow> uuid option"
  bn_required_uuid :: "string \<Rightarrow> query_values \<Rightarrow> uuid option"
  bn_required_time :: "string \<Rightarrow> query_values \<Rightarrow> gotime option"
  bn_required_date :: "string \<Rightarrow> query_values \<Rightarrow> string option"
  bn_required_email :: "string \<Rightarrow> query_values \<Rightarrow> string option"
  bn_optional_text :: "string \<Rightarrow> query_values \<Rightarrow> string option option"
  bn_optional_texts :: "string \<Rightarrow> query_values \<Rightarrow> string list option option"
  bn_optional_bool :: "string \<Rightarrow> query_values \<Rightarrow> bool option option"
  bn_optional_int :: "string \<Rightarrow> query_values \<Rightarrow> int option option"
  bn_optional_time :: "string \<Rightarrow> query_values \<Rightarrow> gotime option option"
  bn_optional_email :: "string \<Rightarrow> query_values \<Rightarrow> string option option"
  bn_uuid :: "string \<Rightarrow> uuid option"
  bn_time :: "string \<Rightarrow> gotime option"
  bn_email :: "body_value \<Rightarrow> string result"
  bn_parse_time :: "string \<Rightarrow> gotime result"

text \<open>The text of a request that the framework hands to the bindings: nothing, a JSON value, or
  something it refuses with a status of its own (malformed JSON, another media type).\<close>

datatype http_content =
    NoContent
  | JsonContent body_value
  | UnreadableContent int

text \<open>A request whose route is known: its path parameters, query and content, and the headers and cookies
  the server reads (empty or \<open>None\<close> when they are missing).\<close>

record http_raw =
  hr_param :: "string \<Rightarrow> string"
  hr_query :: query_values
  hr_content :: http_content
  hr_authorization :: string
  hr_cookie :: "string \<Rightarrow> string option"
  hr_idempotency_id :: string

text \<open>A parameter that cannot be read is answered with 400; so is a body of the wrong shape. \<open>refuse\<close> is the
  framework's answer with a status.\<close>

definition bind_path :: "(int \<Rightarrow> 'r) \<Rightarrow> binders \<Rightarrow> http_raw \<Rightarrow> string \<Rightarrow> (uuid \<Rightarrow> 'r) \<Rightarrow> 'r" where
  "bind_path refuse x r name k = (case bn_path_uuid x (hr_param r name) of None \<Rightarrow> refuse 400 | Some i \<Rightarrow> k i)"

definition bind_query ::
  "(int \<Rightarrow> 'r) \<Rightarrow> (string \<Rightarrow> query_values \<Rightarrow> 'a option) \<Rightarrow> http_raw \<Rightarrow> string \<Rightarrow> ('a \<Rightarrow> 'r) \<Rightarrow> 'r" where
  "bind_query refuse read r name k = (case read name (hr_query r) of None \<Rightarrow> refuse 400 | Some v \<Rightarrow> k v)"

text \<open>A request without content leaves the struct zero, as \<open>null\<close> does.\<close>

definition bind_body :: "(int \<Rightarrow> 'r) \<Rightarrow> (body_value \<Rightarrow> 'b result) \<Rightarrow> http_content \<Rightarrow> ('b \<Rightarrow> 'r) \<Rightarrow> 'r" where
  "bind_body refuse dec content k =
     (case content of
        UnreadableContent status \<Rightarrow> refuse status
      | NoContent \<Rightarrow> (case dec BNull of Inl e \<Rightarrow> refuse 400 | Inr b \<Rightarrow> k b)
      | JsonContent v \<Rightarrow> (case dec v of Inl e \<Rightarrow> refuse 400 | Inr b \<Rightarrow> k b))"

section \<open>Fields\<close>

text \<open>A field that is a value: \<open>null\<close> leaves it alone.\<close>

fun slot :: "string \<Rightarrow> (body_value \<Rightarrow> 'a result) \<Rightarrow> 'a \<Rightarrow> (string \<times> body_value) list \<Rightarrow> 'a result" where
  "slot name dec current [] = Inr current"
| "slot name dec current ((k, v) # fs) =
     (if ToLower k = ToLower name \<and> v \<noteq> BNull then rbind (dec v) (\<lambda>y. slot name dec y fs)
      else slot name dec current fs)"

definition plain_field :: "string \<Rightarrow> (body_value \<Rightarrow> 'a result) \<Rightarrow> 'a \<Rightarrow> (string \<times> body_value) list \<Rightarrow> 'a result" where
  "plain_field name dec zero fs = slot name dec zero fs"

text \<open>A field whose type reads every value itself, \<open>null\<close> too.\<close>

definition value_field :: "string \<Rightarrow> (body_value \<Rightarrow> 'a result) \<Rightarrow> 'a \<Rightarrow> (string \<times> body_value) list \<Rightarrow> 'a result" where
  "value_field name dec zero fs =
     rbind (field name (\<lambda>v. rbind (dec v) (\<lambda>y. Inr (Some y))) (Some zero) fs) (\<lambda>y. Inr (valueOr y zero))"

definition uuid_of :: "binders \<Rightarrow> body_value \<Rightarrow> uuid result" where
  "uuid_of x v = rbind (text_of v) (\<lambda>s. case bn_uuid x s of None \<Rightarrow> Inl wrong_kind | Some i \<Rightarrow> Inr i)"

definition time_of :: "binders \<Rightarrow> body_value \<Rightarrow> gotime result" where
  "time_of x v = rbind (text_of v) (\<lambda>s. case bn_time x s of None \<Rightarrow> Inl wrong_kind | Some t \<Rightarrow> Inr t)"

section \<open>The bodies\<close>

definition decode_AppointmentNoteRequest ::
  "body_value \<Rightarrow> string option result" where
  "decode_AppointmentNoteRequest body =
     rbind (members body) (\<lambda>fs.
     rbind (read_field ''note'' (pointer_to text_of) fs) (\<lambda>note.
     Inr note))"

definition decode_CancelAppointmentRequest ::
  "body_value \<Rightarrow> (string \<times> string option) result" where
  "decode_CancelAppointmentRequest body =
     rbind (members body) (\<lambda>fs.
     rbind (plain_field ''cancellation_reason'' text_of [] fs) (\<lambda>cancellationReason.
     rbind (read_field ''note'' (pointer_to text_of) fs) (\<lambda>note.
     Inr (cancellationReason, note))))"

definition decode_CompleteAppointmentRequest ::
  "binders \<Rightarrow> body_value \<Rightarrow> (gotime option \<times> string option) result" where
  "decode_CompleteAppointmentRequest x body =
     rbind (members body) (\<lambda>fs.
     rbind (read_field ''actual_ends_at'' (pointer_to (time_of x)) fs) (\<lambda>actualEndsAt.
     rbind (read_field ''note'' (pointer_to text_of) fs) (\<lambda>note.
     Inr (actualEndsAt, note))))"

definition decode_CreateCustomerRequest ::
  "binders \<Rightarrow> body_value \<Rightarrow> CreateCustomerInput result" where
  "decode_CreateCustomerRequest x body =
     rbind (members body) (\<lambda>fs.
     rbind (read_field ''email'' (pointer_to (bn_email x)) fs) (\<lambda>email.
     rbind (plain_field ''name'' text_of [] fs) (\<lambda>name.
     rbind (plain_field ''phone'' text_of [] fs) (\<lambda>phone.
     Inr \<lparr>cc_Name = name, cc_Phone = phone, cc_Email = email\<rparr>))))"

definition decode_CreateDealershipAdminRequest ::
  "binders \<Rightarrow> body_value \<Rightarrow> CreateDealershipAdminInput result" where
  "decode_CreateDealershipAdminRequest x body =
     rbind (members body) (\<lambda>fs.
     rbind (plain_field ''dealership_id'' (uuid_of x) uuid_Nil fs) (\<lambda>dealershipId.
     rbind (value_field ''email'' (bn_email x) [] fs) (\<lambda>email.
     rbind (plain_field ''name'' text_of [] fs) (\<lambda>name.
     rbind (read_field ''phone'' (pointer_to text_of) fs) (\<lambda>phone.
     Inr \<lparr>cai_DealershipID = dealershipId, cai_Name = name, cai_Phone = phone, cai_Email = email\<rparr>)))))"

definition decode_CreateDealershipOperationTimeRequest ::
  "body_value \<Rightarrow> CreateDealershipOperationTimeRequest result" where
  "decode_CreateDealershipOperationTimeRequest body =
     rbind (members body) (\<lambda>fs.
     rbind (plain_field ''closes_at'' text_of [] fs) (\<lambda>closesAt.
     rbind (plain_field ''day_of_week'' int_of_body 0 fs) (\<lambda>dayOfWeek.
     rbind (plain_field ''opens_at'' text_of [] fs) (\<lambda>opensAt.
     Inr \<lparr>cor_DayOfWeek = dayOfWeek, cor_OpensAt = opensAt, cor_ClosesAt = closesAt\<rparr>))))"

definition decode_CreateDealershipRequest ::
  "body_value \<Rightarrow> CreateDealershipInput result" where
  "decode_CreateDealershipRequest body =
     rbind (members body) (\<lambda>fs.
     rbind (plain_field ''address'' text_of [] fs) (\<lambda>address.
     rbind (plain_field ''code'' text_of [] fs) (\<lambda>code.
     rbind (plain_field ''name'' text_of [] fs) (\<lambda>name.
     rbind (plain_field ''timezone'' text_of [] fs) (\<lambda>timezone.
     Inr \<lparr>cdi_Name = name, cdi_Code = code, cdi_Address = address, cdi_Timezone = timezone\<rparr>)))))"

definition decode_CreateDealershipUserRequest ::
  "binders \<Rightarrow> body_value \<Rightarrow> CreateDealershipUserInput result" where
  "decode_CreateDealershipUserRequest x body =
     rbind (members body) (\<lambda>fs.
     rbind (plain_field ''dealership_id'' (uuid_of x) uuid_Nil fs) (\<lambda>dealershipId.
     rbind (value_field ''email'' (bn_email x) [] fs) (\<lambda>email.
     rbind (plain_field ''role'' text_of [] fs) (\<lambda>role.
     Inr \<lparr>cui_DealershipID = dealershipId, cui_Email = email, cui_Role = role\<rparr>))))"

definition decode_CreateServiceBayCapabilityRequest ::
  "binders \<Rightarrow> body_value \<Rightarrow> uuid result" where
  "decode_CreateServiceBayCapabilityRequest x body =
     rbind (members body) (\<lambda>fs.
     rbind (plain_field ''bay_capability_id'' (uuid_of x) uuid_Nil fs) (\<lambda>bayCapabilityId.
     Inr bayCapabilityId))"

definition decode_CreateServiceBayRequest ::
  "body_value \<Rightarrow> CreateServiceBayRequest result" where
  "decode_CreateServiceBayRequest body =
     rbind (members body) (\<lambda>fs.
     rbind (plain_field ''code'' text_of [] fs) (\<lambda>code.
     rbind (read_field ''is_active'' (pointer_to bool_of) fs) (\<lambda>isActive.
     rbind (plain_field ''name'' text_of [] fs) (\<lambda>name.
     Inr \<lparr>cbr_Code = code, cbr_Name = name, cbr_IsActive = isActive\<rparr>))))"

definition decode_CreateServiceTypeRequest ::
  "body_value \<Rightarrow> CreateServiceTypeRequest result" where
  "decode_CreateServiceTypeRequest body =
     rbind (members body) (\<lambda>fs.
     rbind (plain_field ''default_duration_minutes'' int_of_body 0 fs) (\<lambda>defaultDurationMinutes.
     rbind (read_field ''is_active'' (pointer_to bool_of) fs) (\<lambda>isActive.
     rbind (plain_field ''max_duration_minutes'' int_of_body 0 fs) (\<lambda>maxDurationMinutes.
     rbind (plain_field ''min_duration_minutes'' int_of_body 0 fs) (\<lambda>minDurationMinutes.
     rbind (plain_field ''name'' text_of [] fs) (\<lambda>name.
     Inr \<lparr>csr_Name = name, csr_DefaultDurationMinutes = defaultDurationMinutes,
         csr_MinDurationMinutes = minDurationMinutes, csr_MaxDurationMinutes = maxDurationMinutes,
         csr_IsActive = isActive\<rparr>))))))"

definition decode_CreateServiceTypeRequiredBayCapabilityRequest ::
  "binders \<Rightarrow> body_value \<Rightarrow> uuid result" where
  "decode_CreateServiceTypeRequiredBayCapabilityRequest x body =
     rbind (members body) (\<lambda>fs.
     rbind (plain_field ''bay_capability_id'' (uuid_of x) uuid_Nil fs) (\<lambda>bayCapabilityId.
     Inr bayCapabilityId))"

definition decode_CreateServiceTypeRequiredSkillRequest ::
  "binders \<Rightarrow> body_value \<Rightarrow> uuid result" where
  "decode_CreateServiceTypeRequiredSkillRequest x body =
     rbind (members body) (\<lambda>fs.
     rbind (plain_field ''skill_id'' (uuid_of x) uuid_Nil fs) (\<lambda>skillId.
     Inr skillId))"

definition decode_CreateTechnicianRequest ::
  "binders \<Rightarrow> body_value \<Rightarrow> CreateTechnicianRequest result" where
  "decode_CreateTechnicianRequest x body =
     rbind (members body) (\<lambda>fs.
     rbind (read_field ''email'' (pointer_to (bn_email x)) fs) (\<lambda>email.
     rbind (read_field ''is_active'' (pointer_to bool_of) fs) (\<lambda>isActive.
     rbind (plain_field ''name'' text_of [] fs) (\<lambda>name.
     rbind (plain_field ''phone'' text_of [] fs) (\<lambda>phone.
     Inr \<lparr>ctr_Name = name, ctr_Phone = phone, ctr_Email = email, ctr_IsActive = isActive\<rparr>)))))"

definition decode_CreateTechnicianShiftRequest ::
  "body_value \<Rightarrow> CreateTechnicianShiftRequest result" where
  "decode_CreateTechnicianShiftRequest body =
     rbind (members body) (\<lambda>fs.
     rbind (plain_field ''day_of_week'' int_of_body 0 fs) (\<lambda>dayOfWeek.
     rbind (plain_field ''ends_at'' text_of [] fs) (\<lambda>endsAt.
     rbind (plain_field ''starts_at'' text_of [] fs) (\<lambda>startsAt.
     Inr \<lparr>chr_DayOfWeek = dayOfWeek, chr_StartsAt = startsAt, chr_EndsAt = endsAt\<rparr>))))"

definition decode_CreateTechnicianSkillRequest ::
  "binders \<Rightarrow> body_value \<Rightarrow> uuid result" where
  "decode_CreateTechnicianSkillRequest x body =
     rbind (members body) (\<lambda>fs.
     rbind (plain_field ''skill_id'' (uuid_of x) uuid_Nil fs) (\<lambda>skillId.
     Inr skillId))"

definition decode_CreateTechnicianTimeOffRequest ::
  "binders \<Rightarrow> body_value \<Rightarrow> CreateTechnicianTimeOffInput result" where
  "decode_CreateTechnicianTimeOffRequest x body =
     rbind (members body) (\<lambda>fs.
     rbind (plain_field ''ends_at'' (time_of x) time_zero fs) (\<lambda>endsAt.
     rbind (read_field ''reason'' (pointer_to text_of) fs) (\<lambda>reason.
     rbind (plain_field ''starts_at'' (time_of x) time_zero fs) (\<lambda>startsAt.
     Inr \<lparr>cto_StartsAt = startsAt, cto_EndsAt = endsAt, cto_Reason = reason\<rparr>))))"

definition decode_CreateVehicleRequest ::
  "body_value \<Rightarrow> CreateVehicleInput result" where
  "decode_CreateVehicleRequest body =
     rbind (members body) (\<lambda>fs.
     rbind (plain_field ''make'' text_of [] fs) (\<lambda>make.
     rbind (plain_field ''model'' text_of [] fs) (\<lambda>model.
     rbind (read_field ''model_year'' (pointer_to int_of_body) fs) (\<lambda>modelYear.
     rbind (read_field ''registration_plate'' (pointer_to text_of) fs) (\<lambda>registrationPlate.
     rbind (read_field ''vin'' (pointer_to text_of) fs) (\<lambda>vin.
     Inr \<lparr>cv_VIN = vin, cv_RegistrationPlate = registrationPlate, cv_Make = make, cv_Model = model,
         cv_ModelYear = modelYear\<rparr>))))))"

definition decode_ScheduleAppointmentRequest ::
  "binders \<Rightarrow> body_value \<Rightarrow> ScheduleAppointmentInput result" where
  "decode_ScheduleAppointmentRequest x body =
     rbind (members body) (\<lambda>fs.
     rbind (plain_field ''customer_id'' (uuid_of x) uuid_Nil fs) (\<lambda>customerId.
     rbind (read_field ''notes'' (pointer_to text_of) fs) (\<lambda>notes.
     rbind (read_field ''planned_duration_minutes'' (pointer_to int_of_body) fs) (\<lambda>plannedDurationMinutes.
     rbind (plain_field ''service_bay_id'' (uuid_of x) uuid_Nil fs) (\<lambda>serviceBayId.
     rbind (plain_field ''service_type_id'' (uuid_of x) uuid_Nil fs) (\<lambda>serviceTypeId.
     rbind (plain_field ''starts_at'' (time_of x) time_zero fs) (\<lambda>startsAt.
     rbind (plain_field ''technician_id'' (uuid_of x) uuid_Nil fs) (\<lambda>technicianId.
     rbind (plain_field ''vehicle_id'' (uuid_of x) uuid_Nil fs) (\<lambda>vehicleId.
     Inr \<lparr>in_CustomerID = customerId, in_VehicleID = vehicleId, in_ServiceTypeID = serviceTypeId,
         in_StartsAt = startsAt, in_TechnicianID = technicianId, in_ServiceBayID = serviceBayId,
         in_PlannedDurationMinutes = plannedDurationMinutes, in_Notes = notes\<rparr>)))))))))"

definition decode_UpdateDealershipOperationTimeRequest ::
  "body_value \<Rightarrow> UpdateDealershipOperationTimeRequest result" where
  "decode_UpdateDealershipOperationTimeRequest body =
     rbind (members body) (\<lambda>fs.
     rbind (read_field ''closes_at'' (pointer_to text_of) fs) (\<lambda>closesAt.
     rbind (read_field ''day_of_week'' (pointer_to int_of_body) fs) (\<lambda>dayOfWeek.
     rbind (read_field ''opens_at'' (pointer_to text_of) fs) (\<lambda>opensAt.
     Inr \<lparr>uor_DayOfWeek = dayOfWeek, uor_OpensAt = opensAt, uor_ClosesAt = closesAt\<rparr>))))"

definition decode_UpdateServiceBayCapabilityRequest ::
  "binders \<Rightarrow> body_value \<Rightarrow> uuid result" where
  "decode_UpdateServiceBayCapabilityRequest x body =
     rbind (members body) (\<lambda>fs.
     rbind (plain_field ''bay_capability_id'' (uuid_of x) uuid_Nil fs) (\<lambda>bayCapabilityId.
     Inr bayCapabilityId))"

definition decode_UpdateServiceBayRequest ::
  "body_value \<Rightarrow> UpdateServiceBayRequest result" where
  "decode_UpdateServiceBayRequest body =
     rbind (members body) (\<lambda>fs.
     rbind (read_field ''code'' (pointer_to text_of) fs) (\<lambda>code.
     rbind (read_field ''is_active'' (pointer_to bool_of) fs) (\<lambda>isActive.
     rbind (read_field ''name'' (pointer_to text_of) fs) (\<lambda>name.
     Inr \<lparr>ubr_Code = code, ubr_Name = name, ubr_IsActive = isActive\<rparr>))))"

definition decode_UpdateServiceTypeRequest ::
  "body_value \<Rightarrow> UpdateServiceTypeInput result" where
  "decode_UpdateServiceTypeRequest body =
     rbind (members body) (\<lambda>fs.
     rbind (read_field ''default_duration_minutes'' (pointer_to int_of_body) fs) (\<lambda>defaultDurationMinutes.
     rbind (read_field ''is_active'' (pointer_to bool_of) fs) (\<lambda>isActive.
     rbind (read_field ''max_duration_minutes'' (pointer_to int_of_body) fs) (\<lambda>maxDurationMinutes.
     rbind (read_field ''min_duration_minutes'' (pointer_to int_of_body) fs) (\<lambda>minDurationMinutes.
     rbind (read_field ''name'' (pointer_to text_of) fs) (\<lambda>name.
     Inr \<lparr>ust_Name = name, ust_DefaultDurationMinutes = defaultDurationMinutes,
         ust_MinDurationMinutes = minDurationMinutes, ust_MaxDurationMinutes = maxDurationMinutes,
         ust_IsActive = isActive\<rparr>))))))"

definition decode_UpdateServiceTypeRequiredBayCapabilityRequest ::
  "binders \<Rightarrow> body_value \<Rightarrow> uuid result" where
  "decode_UpdateServiceTypeRequiredBayCapabilityRequest x body =
     rbind (members body) (\<lambda>fs.
     rbind (plain_field ''bay_capability_id'' (uuid_of x) uuid_Nil fs) (\<lambda>bayCapabilityId.
     Inr bayCapabilityId))"

definition decode_UpdateServiceTypeRequiredSkillRequest ::
  "binders \<Rightarrow> body_value \<Rightarrow> uuid result" where
  "decode_UpdateServiceTypeRequiredSkillRequest x body =
     rbind (members body) (\<lambda>fs.
     rbind (plain_field ''skill_id'' (uuid_of x) uuid_Nil fs) (\<lambda>skillId.
     Inr skillId))"

definition decode_UpdateTechnicianShiftRequest ::
  "body_value \<Rightarrow> UpdateTechnicianShiftRequest result" where
  "decode_UpdateTechnicianShiftRequest body =
     rbind (members body) (\<lambda>fs.
     rbind (read_field ''day_of_week'' (pointer_to int_of_body) fs) (\<lambda>dayOfWeek.
     rbind (read_field ''ends_at'' (pointer_to text_of) fs) (\<lambda>endsAt.
     rbind (read_field ''starts_at'' (pointer_to text_of) fs) (\<lambda>startsAt.
     Inr \<lparr>uhr_DayOfWeek = dayOfWeek, uhr_StartsAt = startsAt, uhr_EndsAt = endsAt\<rparr>))))"

definition decode_UpdateTechnicianSkillRequest ::
  "binders \<Rightarrow> body_value \<Rightarrow> uuid result" where
  "decode_UpdateTechnicianSkillRequest x body =
     rbind (members body) (\<lambda>fs.
     rbind (plain_field ''skill_id'' (uuid_of x) uuid_Nil fs) (\<lambda>skillId.
     Inr skillId))"

lemmas body_decoder_defs =
  decode_AppointmentNoteRequest_def
  decode_CancelAppointmentRequest_def
  decode_CompleteAppointmentRequest_def
  decode_CreateCustomerRequest_def
  decode_CreateDealershipAdminRequest_def
  decode_CreateDealershipOperationTimeRequest_def
  decode_CreateDealershipRequest_def
  decode_CreateDealershipUserRequest_def
  decode_CreateServiceBayCapabilityRequest_def
  decode_CreateServiceBayRequest_def
  decode_CreateServiceTypeRequest_def
  decode_CreateServiceTypeRequiredBayCapabilityRequest_def
  decode_CreateServiceTypeRequiredSkillRequest_def
  decode_CreateTechnicianRequest_def
  decode_CreateTechnicianShiftRequest_def
  decode_CreateTechnicianSkillRequest_def
  decode_CreateTechnicianTimeOffRequest_def
  decode_CreateVehicleRequest_def
  decode_ScheduleAppointmentRequest_def
  decode_UpdateDealershipOperationTimeRequest_def
  decode_UpdateServiceBayCapabilityRequest_def
  decode_UpdateServiceBayRequest_def
  decode_UpdateServiceTypeRequest_def
  decode_UpdateServiceTypeRequiredBayCapabilityRequest_def
  decode_UpdateServiceTypeRequiredSkillRequest_def
  decode_UpdateTechnicianShiftRequest_def
  decode_UpdateTechnicianSkillRequest_def
  decode_UpdateVehicleRequest_def UpdateCustomerRequest_UnmarshalJSON_def UpdateTechnicianRequest_UnmarshalJSON_def
  UpdateTechnicianTimeOffRequest_UnmarshalJSON_def

text \<open>The end of a table of routes.\<close>

lemma all_nil: "list_all P []"
  by simp

end
