(* ===== verification/Http_Responses.thy ===== *)
theory Http_Responses
  imports Http_Bodies
begin

text \<open>
  The responses of the scheduler's operations. openapi.gen.go has one type per operation and status, with
  a \<open>Visit\<close> method that writes it: the status alone, or the status and the body in JSON, once with the
  header Location too. \<open>X_visitors\<close> lists those of operation \<open>X\<close>; \<open>visiting\<close> is what a strict handler does
  with the answer of the handler: an error is left to the server, a value of another type is an error
  (whose text would also name the type).
  The encoding of a body as JSON text is taken to succeed.
\<close>

type_synonym responder = "db \<Rightarrow> api_answer \<times> db"

datatype visitor =
    VisitStatus int
  | VisitJSON int
  | VisitJSONLocation int

text \<open>The method an answer needs; none for what is not a response.\<close>

fun visitor_of :: "api_answer \<Rightarrow> visitor option" where
  "visitor_of (Answered status body) = Some
     (case body of
        EmptyBody \<Rightarrow> VisitStatus status
      | CustomerCreatedBody customer location \<Rightarrow> VisitJSONLocation status
      | _ \<Rightarrow> VisitJSON status)"
| "visitor_of (ProblemAnswer status code message slug) = Some (VisitJSON status)"
| "visitor_of (AppointmentAnswer a) = Some
     (case a of Created201 record \<Rightarrow> VisitJSON 201 | NoContent204 \<Rightarrow> VisitStatus 204 | Problem status err \<Rightarrow> VisitJSON status)"
| "visitor_of (Escaped err) = None"
| "visitor_of (Unbound status) = None"

definition visited :: "visitor list \<Rightarrow> api_answer \<Rightarrow> bool" where
  "visited visitors a = (case visitor_of a of None \<Rightarrow> True | Some v \<Rightarrow> v \<in> set visitors)"

definition visiting :: "visitor list \<Rightarrow> responder \<Rightarrow> responder" where
  "visiting visitors handler d =
     (case handler d of
        (a, d') \<Rightarrow> (if visited visitors a then a else Escaped (ErrorString ''unexpected response type''), d'))"

section \<open>The responses of each operation\<close>

definition ScheduleAppointment_visitors :: "visitor list" where
  "ScheduleAppointment_visitors =
     [VisitJSON 201, VisitJSON 400, VisitJSON 401, VisitJSON 403, VisitJSON 404, VisitJSON 409, VisitJSON 422,
         VisitJSON 500]"

definition CancelAppointment_visitors :: "visitor list" where
  "CancelAppointment_visitors =
     [VisitStatus 204, VisitJSON 400, VisitJSON 403, VisitJSON 404, VisitJSON 409, VisitJSON 500]"

definition CheckInAppointment_visitors :: "visitor list" where
  "CheckInAppointment_visitors =
     [VisitStatus 204, VisitJSON 400, VisitJSON 403, VisitJSON 404, VisitJSON 409, VisitJSON 500]"

definition CompleteAppointment_visitors :: "visitor list" where
  "CompleteAppointment_visitors =
     [VisitStatus 204, VisitJSON 400, VisitJSON 403, VisitJSON 404, VisitJSON 409, VisitJSON 500]"

definition StartAppointment_visitors :: "visitor list" where
  "StartAppointment_visitors =
     [VisitStatus 204, VisitJSON 400, VisitJSON 403, VisitJSON 404, VisitJSON 409, VisitJSON 500]"

definition CreateCustomer_visitors :: "visitor list" where
  "CreateCustomer_visitors =
     [VisitJSONLocation 201, VisitJSON 400, VisitJSON 401, VisitJSON 403, VisitJSON 409, VisitJSON 500]"

definition GetCustomer_visitors :: "visitor list" where
  "GetCustomer_visitors =
     [VisitJSON 200, VisitJSON 400, VisitJSON 401, VisitJSON 403, VisitJSON 404, VisitJSON 500]"

definition UpdateCustomer_visitors :: "visitor list" where
  "UpdateCustomer_visitors =
     [VisitJSON 200, VisitJSON 400, VisitJSON 401, VisitJSON 403, VisitJSON 404, VisitJSON 409, VisitJSON 500]"

definition ListCustomerVehicles_visitors :: "visitor list" where
  "ListCustomerVehicles_visitors =
     [VisitJSON 200, VisitJSON 401, VisitJSON 403, VisitJSON 404, VisitJSON 500]"

definition CreateVehicle_visitors :: "visitor list" where
  "CreateVehicle_visitors =
     [VisitJSON 201, VisitJSON 400, VisitJSON 401, VisitJSON 403, VisitJSON 404, VisitJSON 409, VisitJSON 500]"

definition SearchCustomers_visitors :: "visitor list" where
  "SearchCustomers_visitors =
     [VisitJSON 200, VisitJSON 400, VisitJSON 401, VisitJSON 403, VisitJSON 500]"

definition CreateDealershipUser_visitors :: "visitor list" where
  "CreateDealershipUser_visitors =
     [VisitJSON 201, VisitJSON 400, VisitJSON 401, VisitJSON 403, VisitJSON 404, VisitJSON 409, VisitJSON 500]"

definition CreateDealershipAdmin_visitors :: "visitor list" where
  "CreateDealershipAdmin_visitors =
     [VisitJSON 201, VisitJSON 400, VisitJSON 401, VisitJSON 403, VisitJSON 404, VisitJSON 409, VisitJSON 500]"

definition SearchAuthUserByEmail_visitors :: "visitor list" where
  "SearchAuthUserByEmail_visitors =
     [VisitJSON 200, VisitJSON 400, VisitJSON 401, VisitJSON 403, VisitJSON 404, VisitJSON 500]"

definition ListDealerships_visitors :: "visitor list" where
  "ListDealerships_visitors =
     [VisitJSON 200, VisitJSON 401, VisitJSON 403, VisitJSON 500]"

definition CreateDealership_visitors :: "visitor list" where
  "CreateDealership_visitors =
     [VisitJSON 201, VisitJSON 400, VisitJSON 401, VisitJSON 403, VisitJSON 409, VisitJSON 500]"

definition ListDealershipAppointments_visitors :: "visitor list" where
  "ListDealershipAppointments_visitors =
     [VisitJSON 200, VisitJSON 400, VisitJSON 401, VisitJSON 403, VisitJSON 404, VisitJSON 500]"

definition ListDealershipOperationTimes_visitors :: "visitor list" where
  "ListDealershipOperationTimes_visitors =
     [VisitJSON 200, VisitJSON 401, VisitJSON 403, VisitJSON 404, VisitJSON 500]"

definition CreateDealershipOperationTime_visitors :: "visitor list" where
  "CreateDealershipOperationTime_visitors =
     [VisitJSON 201, VisitJSON 400, VisitJSON 401, VisitJSON 403, VisitJSON 404, VisitJSON 409, VisitJSON 422,
         VisitJSON 500]"

definition DeleteDealershipOperationTime_visitors :: "visitor list" where
  "DeleteDealershipOperationTime_visitors =
     [VisitStatus 204, VisitJSON 401, VisitJSON 403, VisitJSON 404, VisitJSON 500]"

definition UpdateDealershipOperationTime_visitors :: "visitor list" where
  "UpdateDealershipOperationTime_visitors =
     [VisitJSON 200, VisitJSON 400, VisitJSON 401, VisitJSON 403, VisitJSON 404, VisitJSON 409, VisitJSON 422,
         VisitJSON 500]"

definition ListServiceBays_visitors :: "visitor list" where
  "ListServiceBays_visitors =
     [VisitJSON 200, VisitJSON 400, VisitJSON 401, VisitJSON 403, VisitJSON 500]"

definition CreateServiceBay_visitors :: "visitor list" where
  "CreateServiceBay_visitors =
     [VisitJSON 201, VisitJSON 400, VisitJSON 401, VisitJSON 403, VisitJSON 409, VisitJSON 500]"

definition ListAvailableServiceBays_visitors :: "visitor list" where
  "ListAvailableServiceBays_visitors =
     [VisitJSON 200, VisitJSON 400, VisitJSON 401, VisitJSON 403, VisitJSON 404, VisitJSON 500]"

definition DeleteServiceBay_visitors :: "visitor list" where
  "DeleteServiceBay_visitors =
     [VisitStatus 204, VisitJSON 401, VisitJSON 403, VisitJSON 404, VisitJSON 409, VisitJSON 500]"

definition GetServiceBay_visitors :: "visitor list" where
  "GetServiceBay_visitors =
     [VisitJSON 200, VisitJSON 401, VisitJSON 403, VisitJSON 404, VisitJSON 500]"

definition UpdateServiceBay_visitors :: "visitor list" where
  "UpdateServiceBay_visitors =
     [VisitJSON 200, VisitJSON 400, VisitJSON 401, VisitJSON 403, VisitJSON 404, VisitJSON 409, VisitJSON 500]"

definition ListServiceBayCapabilities_visitors :: "visitor list" where
  "ListServiceBayCapabilities_visitors =
     [VisitJSON 200, VisitJSON 401, VisitJSON 403, VisitJSON 404, VisitJSON 500]"

definition CreateServiceBayCapability_visitors :: "visitor list" where
  "CreateServiceBayCapability_visitors =
     [VisitJSON 201, VisitJSON 400, VisitJSON 401, VisitJSON 403, VisitJSON 404, VisitJSON 409, VisitJSON 500]"

definition DeleteServiceBayCapability_visitors :: "visitor list" where
  "DeleteServiceBayCapability_visitors =
     [VisitStatus 204, VisitJSON 401, VisitJSON 403, VisitJSON 404, VisitJSON 500]"

definition UpdateServiceBayCapability_visitors :: "visitor list" where
  "UpdateServiceBayCapability_visitors =
     [VisitJSON 200, VisitJSON 400, VisitJSON 401, VisitJSON 403, VisitJSON 404, VisitJSON 409, VisitJSON 500]"

definition ListServiceTypes_visitors :: "visitor list" where
  "ListServiceTypes_visitors =
     [VisitJSON 200, VisitJSON 401, VisitJSON 403, VisitJSON 500]"

definition CreateServiceType_visitors :: "visitor list" where
  "CreateServiceType_visitors =
     [VisitJSON 201, VisitJSON 400, VisitJSON 401, VisitJSON 403, VisitJSON 409, VisitJSON 500]"

definition DeleteServiceType_visitors :: "visitor list" where
  "DeleteServiceType_visitors =
     [VisitStatus 204, VisitJSON 401, VisitJSON 403, VisitJSON 404, VisitJSON 409, VisitJSON 500]"

definition GetServiceType_visitors :: "visitor list" where
  "GetServiceType_visitors =
     [VisitJSON 200, VisitJSON 401, VisitJSON 403, VisitJSON 404, VisitJSON 500]"

definition UpdateServiceType_visitors :: "visitor list" where
  "UpdateServiceType_visitors =
     [VisitJSON 200, VisitJSON 400, VisitJSON 401, VisitJSON 403, VisitJSON 404, VisitJSON 409, VisitJSON 500]"

definition ListServiceTypeRequiredBayCapabilities_visitors :: "visitor list" where
  "ListServiceTypeRequiredBayCapabilities_visitors =
     [VisitJSON 200, VisitJSON 401, VisitJSON 403, VisitJSON 404, VisitJSON 500]"

definition CreateServiceTypeRequiredBayCapability_visitors :: "visitor list" where
  "CreateServiceTypeRequiredBayCapability_visitors =
     [VisitJSON 201, VisitJSON 400, VisitJSON 401, VisitJSON 403, VisitJSON 404, VisitJSON 409, VisitJSON 500]"

definition DeleteServiceTypeRequiredBayCapability_visitors :: "visitor list" where
  "DeleteServiceTypeRequiredBayCapability_visitors =
     [VisitStatus 204, VisitJSON 401, VisitJSON 403, VisitJSON 404, VisitJSON 500]"

definition UpdateServiceTypeRequiredBayCapability_visitors :: "visitor list" where
  "UpdateServiceTypeRequiredBayCapability_visitors =
     [VisitJSON 200, VisitJSON 400, VisitJSON 401, VisitJSON 403, VisitJSON 404, VisitJSON 409, VisitJSON 500]"

definition ListServiceTypeRequiredSkills_visitors :: "visitor list" where
  "ListServiceTypeRequiredSkills_visitors =
     [VisitJSON 200, VisitJSON 401, VisitJSON 403, VisitJSON 404, VisitJSON 500]"

definition CreateServiceTypeRequiredSkill_visitors :: "visitor list" where
  "CreateServiceTypeRequiredSkill_visitors =
     [VisitJSON 201, VisitJSON 400, VisitJSON 401, VisitJSON 403, VisitJSON 404, VisitJSON 409, VisitJSON 500]"

definition DeleteServiceTypeRequiredSkill_visitors :: "visitor list" where
  "DeleteServiceTypeRequiredSkill_visitors =
     [VisitStatus 204, VisitJSON 401, VisitJSON 403, VisitJSON 404, VisitJSON 500]"

definition UpdateServiceTypeRequiredSkill_visitors :: "visitor list" where
  "UpdateServiceTypeRequiredSkill_visitors =
     [VisitJSON 200, VisitJSON 400, VisitJSON 401, VisitJSON 403, VisitJSON 404, VisitJSON 409, VisitJSON 500]"

definition ListTechnicianSchedules_visitors :: "visitor list" where
  "ListTechnicianSchedules_visitors =
     [VisitJSON 200, VisitJSON 400, VisitJSON 401, VisitJSON 403, VisitJSON 404, VisitJSON 500]"

definition ListTechnicians_visitors :: "visitor list" where
  "ListTechnicians_visitors =
     [VisitJSON 200, VisitJSON 400, VisitJSON 401, VisitJSON 403, VisitJSON 500]"

definition CreateTechnician_visitors :: "visitor list" where
  "CreateTechnician_visitors =
     [VisitJSON 201, VisitJSON 400, VisitJSON 401, VisitJSON 403, VisitJSON 409, VisitJSON 422, VisitJSON 500]"

definition DeleteTechnician_visitors :: "visitor list" where
  "DeleteTechnician_visitors =
     [VisitStatus 204, VisitJSON 401, VisitJSON 403, VisitJSON 404, VisitJSON 409, VisitJSON 500]"

definition GetTechnician_visitors :: "visitor list" where
  "GetTechnician_visitors =
     [VisitJSON 200, VisitJSON 401, VisitJSON 403, VisitJSON 404, VisitJSON 500]"

definition UpdateTechnician_visitors :: "visitor list" where
  "UpdateTechnician_visitors =
     [VisitJSON 200, VisitJSON 400, VisitJSON 401, VisitJSON 403, VisitJSON 404, VisitJSON 409, VisitJSON 422,
         VisitJSON 500]"

definition ListTechnicianShifts_visitors :: "visitor list" where
  "ListTechnicianShifts_visitors =
     [VisitJSON 200, VisitJSON 401, VisitJSON 403, VisitJSON 404, VisitJSON 500]"

definition CreateTechnicianShift_visitors :: "visitor list" where
  "CreateTechnicianShift_visitors =
     [VisitJSON 201, VisitJSON 401, VisitJSON 403, VisitJSON 404, VisitJSON 409, VisitJSON 422, VisitJSON 500]"

definition DeleteTechnicianShift_visitors :: "visitor list" where
  "DeleteTechnicianShift_visitors =
     [VisitStatus 204, VisitJSON 401, VisitJSON 403, VisitJSON 404, VisitJSON 409, VisitJSON 500]"

definition UpdateTechnicianShift_visitors :: "visitor list" where
  "UpdateTechnicianShift_visitors =
     [VisitJSON 200, VisitJSON 401, VisitJSON 403, VisitJSON 404, VisitJSON 409, VisitJSON 422, VisitJSON 500]"

definition ListTechnicianSkills_visitors :: "visitor list" where
  "ListTechnicianSkills_visitors =
     [VisitJSON 200, VisitJSON 400, VisitJSON 401, VisitJSON 403, VisitJSON 404, VisitJSON 500]"

definition CreateTechnicianSkill_visitors :: "visitor list" where
  "CreateTechnicianSkill_visitors =
     [VisitJSON 201, VisitJSON 400, VisitJSON 401, VisitJSON 403, VisitJSON 404, VisitJSON 409, VisitJSON 500]"

definition DeleteTechnicianSkill_visitors :: "visitor list" where
  "DeleteTechnicianSkill_visitors =
     [VisitStatus 204, VisitJSON 401, VisitJSON 403, VisitJSON 404, VisitJSON 500]"

definition UpdateTechnicianSkill_visitors :: "visitor list" where
  "UpdateTechnicianSkill_visitors =
     [VisitJSON 200, VisitJSON 400, VisitJSON 401, VisitJSON 403, VisitJSON 404, VisitJSON 409, VisitJSON 500]"

definition ListTechnicianTimeOff_visitors :: "visitor list" where
  "ListTechnicianTimeOff_visitors =
     [VisitJSON 200, VisitJSON 400, VisitJSON 401, VisitJSON 403, VisitJSON 404, VisitJSON 500]"

definition CreateTechnicianTimeOff_visitors :: "visitor list" where
  "CreateTechnicianTimeOff_visitors =
     [VisitJSON 201, VisitJSON 400, VisitJSON 401, VisitJSON 403, VisitJSON 404, VisitJSON 409, VisitJSON 500]"

definition DeleteTechnicianTimeOff_visitors :: "visitor list" where
  "DeleteTechnicianTimeOff_visitors =
     [VisitStatus 204, VisitJSON 401, VisitJSON 403, VisitJSON 404, VisitJSON 500]"

definition GetTechnicianTimeOff_visitors :: "visitor list" where
  "GetTechnicianTimeOff_visitors =
     [VisitJSON 200, VisitJSON 401, VisitJSON 403, VisitJSON 404, VisitJSON 500]"

definition UpdateTechnicianTimeOff_visitors :: "visitor list" where
  "UpdateTechnicianTimeOff_visitors =
     [VisitJSON 200, VisitJSON 400, VisitJSON 401, VisitJSON 403, VisitJSON 404, VisitJSON 409, VisitJSON 500]"

definition DeleteVehicle_visitors :: "visitor list" where
  "DeleteVehicle_visitors =
     [VisitStatus 204, VisitJSON 401, VisitJSON 403, VisitJSON 404, VisitJSON 409, VisitJSON 500]"

definition GetVehicle_visitors :: "visitor list" where
  "GetVehicle_visitors =
     [VisitJSON 200, VisitJSON 401, VisitJSON 403, VisitJSON 404, VisitJSON 500]"

definition UpdateVehicle_visitors :: "visitor list" where
  "UpdateVehicle_visitors =
     [VisitJSON 200, VisitJSON 400, VisitJSON 401, VisitJSON 403, VisitJSON 404, VisitJSON 409, VisitJSON 500]"

lemmas visitors_defs =
  ScheduleAppointment_visitors_def
  CancelAppointment_visitors_def
  CheckInAppointment_visitors_def
  CompleteAppointment_visitors_def
  StartAppointment_visitors_def
  CreateCustomer_visitors_def
  GetCustomer_visitors_def
  UpdateCustomer_visitors_def
  ListCustomerVehicles_visitors_def
  CreateVehicle_visitors_def
  SearchCustomers_visitors_def
  CreateDealershipUser_visitors_def
  CreateDealershipAdmin_visitors_def
  SearchAuthUserByEmail_visitors_def
  ListDealerships_visitors_def
  CreateDealership_visitors_def
  ListDealershipAppointments_visitors_def
  ListDealershipOperationTimes_visitors_def
  CreateDealershipOperationTime_visitors_def
  DeleteDealershipOperationTime_visitors_def
  UpdateDealershipOperationTime_visitors_def
  ListServiceBays_visitors_def
  CreateServiceBay_visitors_def
  ListAvailableServiceBays_visitors_def
  DeleteServiceBay_visitors_def
  GetServiceBay_visitors_def
  UpdateServiceBay_visitors_def
  ListServiceBayCapabilities_visitors_def
  CreateServiceBayCapability_visitors_def
  DeleteServiceBayCapability_visitors_def
  UpdateServiceBayCapability_visitors_def
  ListServiceTypes_visitors_def
  CreateServiceType_visitors_def
  DeleteServiceType_visitors_def
  GetServiceType_visitors_def
  UpdateServiceType_visitors_def
  ListServiceTypeRequiredBayCapabilities_visitors_def
  CreateServiceTypeRequiredBayCapability_visitors_def
  DeleteServiceTypeRequiredBayCapability_visitors_def
  UpdateServiceTypeRequiredBayCapability_visitors_def
  ListServiceTypeRequiredSkills_visitors_def
  CreateServiceTypeRequiredSkill_visitors_def
  DeleteServiceTypeRequiredSkill_visitors_def
  UpdateServiceTypeRequiredSkill_visitors_def
  ListTechnicianSchedules_visitors_def
  ListTechnicians_visitors_def
  CreateTechnician_visitors_def
  DeleteTechnician_visitors_def
  GetTechnician_visitors_def
  UpdateTechnician_visitors_def
  ListTechnicianShifts_visitors_def
  CreateTechnicianShift_visitors_def
  DeleteTechnicianShift_visitors_def
  UpdateTechnicianShift_visitors_def
  ListTechnicianSkills_visitors_def
  CreateTechnicianSkill_visitors_def
  DeleteTechnicianSkill_visitors_def
  UpdateTechnicianSkill_visitors_def
  ListTechnicianTimeOff_visitors_def
  CreateTechnicianTimeOff_visitors_def
  DeleteTechnicianTimeOff_visitors_def
  GetTechnicianTimeOff_visitors_def
  UpdateTechnicianTimeOff_visitors_def
  DeleteVehicle_visitors_def
  GetVehicle_visitors_def
  UpdateVehicle_visitors_def

end
