(* ===== verification/Http_Routes.thy ===== *)
theory Http_Routes
  imports Http_Responses
begin

text \<open>
  The routes of the scheduler. For each operation openapi.gen.go has a wrapper that reads the parameters
  of the path and the query and a strict handler that reads the body and calls the handler; both are
  functions of what is called next, here the handler of a typed request. \<open>scheduler_routes\<close> is the
  registration, \<open>guarded_operations\<close> the operations \<open>Register\<close> (handler.go) puts \<open>requireIdentity\<close> in front of,
  \<open>http_serve\<close> a request on one of the routes. Which route a path belongs to is the router's business.
\<close>

definition unbound :: "int \<Rightarrow> responder" where
  "unbound status = Pair (Unbound status)"

section \<open>Strict handlers\<close>

definition ScheduleAppointment_strict ::
  "binders \<Rightarrow> (api_request \<Rightarrow> responder) \<Rightarrow> http_content \<Rightarrow> responder" where
  "ScheduleAppointment_strict x k content =
     bind_body unbound (decode_ScheduleAppointmentRequest x) content (\<lambda>b.
       visiting ScheduleAppointment_visitors (k (ApiAppointment (ReqSchedule (Some b)))))"

definition CancelAppointment_strict ::
  "(api_request \<Rightarrow> responder) \<Rightarrow> uuid \<Rightarrow> http_content \<Rightarrow> responder" where
  "CancelAppointment_strict k appointmentId content =
     bind_body unbound decode_CancelAppointmentRequest content (\<lambda>b.
       visiting CancelAppointment_visitors (k (ApiAppointment (ReqCancel appointmentId (Some b)))))"

definition CheckInAppointment_strict ::
  "(api_request \<Rightarrow> responder) \<Rightarrow> uuid \<Rightarrow> http_content \<Rightarrow> responder" where
  "CheckInAppointment_strict k appointmentId content =
     bind_body unbound decode_AppointmentNoteRequest content (\<lambda>b.
       visiting CheckInAppointment_visitors (k (ApiAppointment (ReqCheckIn appointmentId b))))"

definition CompleteAppointment_strict ::
  "binders \<Rightarrow> (api_request \<Rightarrow> responder) \<Rightarrow> uuid \<Rightarrow> http_content \<Rightarrow> responder" where
  "CompleteAppointment_strict x k appointmentId content =
     bind_body unbound (decode_CompleteAppointmentRequest x) content (\<lambda>b.
       visiting CompleteAppointment_visitors (k (ApiAppointment (ReqComplete appointmentId (fst b) (snd b)))))"

definition StartAppointment_strict ::
  "(api_request \<Rightarrow> responder) \<Rightarrow> uuid \<Rightarrow> http_content \<Rightarrow> responder" where
  "StartAppointment_strict k appointmentId content =
     bind_body unbound decode_AppointmentNoteRequest content (\<lambda>b.
       visiting StartAppointment_visitors (k (ApiAppointment (ReqStart appointmentId b))))"

definition CreateCustomer_strict ::
  "binders \<Rightarrow> (api_request \<Rightarrow> responder) \<Rightarrow> http_content \<Rightarrow> responder" where
  "CreateCustomer_strict x k content =
     bind_body unbound (decode_CreateCustomerRequest x) content (\<lambda>b.
       visiting CreateCustomer_visitors (k (ApiCustomers (ApiCreateCustomer (Some b)))))"

definition GetCustomer_strict ::
  "(api_request \<Rightarrow> responder) \<Rightarrow> uuid \<Rightarrow> responder" where
  "GetCustomer_strict k customerId =
     visiting GetCustomer_visitors (k (ApiCustomers (ApiGetCustomer customerId)))"

definition UpdateCustomer_strict ::
  "(api_request \<Rightarrow> responder) \<Rightarrow> uuid \<Rightarrow> http_content \<Rightarrow> responder" where
  "UpdateCustomer_strict k customerId content =
     bind_body unbound UpdateCustomerRequest_UnmarshalJSON content (\<lambda>b.
       visiting UpdateCustomer_visitors (k (ApiCustomers (ApiUpdateCustomer customerId (Some b)))))"

definition ListCustomerVehicles_strict ::
  "(api_request \<Rightarrow> responder) \<Rightarrow> uuid \<Rightarrow> responder" where
  "ListCustomerVehicles_strict k customerId =
     visiting ListCustomerVehicles_visitors (k (ApiCustomers (ApiListCustomerVehicles customerId)))"

definition CreateVehicle_strict ::
  "(api_request \<Rightarrow> responder) \<Rightarrow> uuid \<Rightarrow> http_content \<Rightarrow> responder" where
  "CreateVehicle_strict k customerId content =
     bind_body unbound decode_CreateVehicleRequest content (\<lambda>b.
       visiting CreateVehicle_visitors (k (ApiCustomers (ApiCreateVehicle customerId (Some b)))))"

definition SearchCustomers_strict ::
  "(api_request \<Rightarrow> responder) \<Rightarrow> string option \<Rightarrow> string option \<Rightarrow> responder" where
  "SearchCustomers_strict k phone email =
     visiting SearchCustomers_visitors (k (ApiCustomers (ApiSearchCustomers phone email)))"

definition CreateDealershipUser_strict ::
  "binders \<Rightarrow> (api_request \<Rightarrow> responder) \<Rightarrow> http_content \<Rightarrow> responder" where
  "CreateDealershipUser_strict x k content =
     bind_body unbound (decode_CreateDealershipUserRequest x) content (\<lambda>b.
       visiting CreateDealershipUser_visitors (k (ApiDealerships (ApiCreateDealershipUser (Some b)))))"

definition CreateDealershipAdmin_strict ::
  "binders \<Rightarrow> (api_request \<Rightarrow> responder) \<Rightarrow> http_content \<Rightarrow> responder" where
  "CreateDealershipAdmin_strict x k content =
     bind_body unbound (decode_CreateDealershipAdminRequest x) content (\<lambda>b.
       visiting CreateDealershipAdmin_visitors (k (ApiDealerships (ApiCreateDealershipAdmin (Some b)))))"

definition SearchAuthUserByEmail_strict ::
  "(api_request \<Rightarrow> responder) \<Rightarrow> string \<Rightarrow> responder" where
  "SearchAuthUserByEmail_strict k email =
     visiting SearchAuthUserByEmail_visitors (k (ApiDealerships (ApiSearchAuthUserByEmail email)))"

definition ListDealerships_strict ::
  "(api_request \<Rightarrow> responder) \<Rightarrow> responder" where
  "ListDealerships_strict k =
     visiting ListDealerships_visitors (k (ApiQuery ApiListDealerships))"

definition CreateDealership_strict ::
  "(api_request \<Rightarrow> responder) \<Rightarrow> http_content \<Rightarrow> responder" where
  "CreateDealership_strict k content =
     bind_body unbound decode_CreateDealershipRequest content (\<lambda>b.
       visiting CreateDealership_visitors (k (ApiDealerships (ApiCreateDealership (Some b)))))"

definition ListDealershipAppointments_strict ::
  "(api_request \<Rightarrow> responder) \<Rightarrow> uuid \<Rightarrow> string \<Rightarrow> responder" where
  "ListDealershipAppointments_strict k dealershipId date =
     visiting ListDealershipAppointments_visitors (k (ApiQuery (ApiListDealershipAppointments dealershipId date)))"

definition ListDealershipOperationTimes_strict ::
  "(api_request \<Rightarrow> responder) \<Rightarrow> uuid \<Rightarrow> responder" where
  "ListDealershipOperationTimes_strict k dealershipId =
     visiting ListDealershipOperationTimes_visitors (k (ApiHours (ApiListDealershipOperationTimes dealershipId)))"

definition CreateDealershipOperationTime_strict ::
  "(api_request \<Rightarrow> responder) \<Rightarrow> uuid \<Rightarrow> http_content \<Rightarrow> responder" where
  "CreateDealershipOperationTime_strict k dealershipId content =
     bind_body unbound decode_CreateDealershipOperationTimeRequest content (\<lambda>b.
       visiting CreateDealershipOperationTime_visitors (k (ApiHours (ApiCreateDealershipOperationTime dealershipId
           (Some b)))))"

definition DeleteDealershipOperationTime_strict ::
  "(api_request \<Rightarrow> responder) \<Rightarrow> uuid \<Rightarrow> uuid \<Rightarrow> responder" where
  "DeleteDealershipOperationTime_strict k dealershipId operationTimeId =
     visiting DeleteDealershipOperationTime_visitors (k (ApiHours (ApiDeleteDealershipOperationTime dealershipId
         operationTimeId)))"

definition UpdateDealershipOperationTime_strict ::
  "(api_request \<Rightarrow> responder) \<Rightarrow> uuid \<Rightarrow> uuid \<Rightarrow> http_content \<Rightarrow> responder" where
  "UpdateDealershipOperationTime_strict k dealershipId operationTimeId content =
     bind_body unbound decode_UpdateDealershipOperationTimeRequest content (\<lambda>b.
       visiting UpdateDealershipOperationTime_visitors (k (ApiHours (ApiUpdateDealershipOperationTime dealershipId
           operationTimeId (Some b)))))"

definition ListServiceBays_strict ::
  "(api_request \<Rightarrow> responder) \<Rightarrow> uuid \<Rightarrow> bool option \<Rightarrow> int option \<Rightarrow> int option \<Rightarrow> responder" where
  "ListServiceBays_strict k dealershipId isActive limit off =
     visiting ListServiceBays_visitors (k (ApiBays (ApiListServiceBays dealershipId isActive limit off)))"

definition CreateServiceBay_strict ::
  "(api_request \<Rightarrow> responder) \<Rightarrow> uuid \<Rightarrow> http_content \<Rightarrow> responder" where
  "CreateServiceBay_strict k dealershipId content =
     bind_body unbound decode_CreateServiceBayRequest content (\<lambda>b.
       visiting CreateServiceBay_visitors (k (ApiBays (ApiCreateServiceBay dealershipId (Some b)))))"

definition ListAvailableServiceBays_strict ::
  "(api_request \<Rightarrow> responder) \<Rightarrow> uuid \<Rightarrow> uuid \<Rightarrow> gotime \<Rightarrow> gotime \<Rightarrow> responder" where
  "ListAvailableServiceBays_strict k dealershipId serviceTypeId startsAt endsAt =
     visiting ListAvailableServiceBays_visitors (k (ApiQuery (ApiListAvailableServiceBays dealershipId
         serviceTypeId startsAt endsAt)))"

definition DeleteServiceBay_strict ::
  "(api_request \<Rightarrow> responder) \<Rightarrow> uuid \<Rightarrow> uuid \<Rightarrow> responder" where
  "DeleteServiceBay_strict k dealershipId serviceBayId =
     visiting DeleteServiceBay_visitors (k (ApiBays (ApiDeleteServiceBay dealershipId serviceBayId)))"

definition GetServiceBay_strict ::
  "(api_request \<Rightarrow> responder) \<Rightarrow> uuid \<Rightarrow> uuid \<Rightarrow> responder" where
  "GetServiceBay_strict k dealershipId serviceBayId =
     visiting GetServiceBay_visitors (k (ApiBays (ApiGetServiceBay dealershipId serviceBayId)))"

definition UpdateServiceBay_strict ::
  "(api_request \<Rightarrow> responder) \<Rightarrow> uuid \<Rightarrow> uuid \<Rightarrow> http_content \<Rightarrow> responder" where
  "UpdateServiceBay_strict k dealershipId serviceBayId content =
     bind_body unbound decode_UpdateServiceBayRequest content (\<lambda>b.
       visiting UpdateServiceBay_visitors (k (ApiBays (ApiUpdateServiceBay dealershipId serviceBayId (Some b)))))"

definition ListServiceBayCapabilities_strict ::
  "(api_request \<Rightarrow> responder) \<Rightarrow> uuid \<Rightarrow> uuid \<Rightarrow> responder" where
  "ListServiceBayCapabilities_strict k dealershipId serviceBayId =
     visiting ListServiceBayCapabilities_visitors (k (ApiBays (ApiListServiceBayCapabilities dealershipId
         serviceBayId)))"

definition CreateServiceBayCapability_strict ::
  "binders \<Rightarrow> (api_request \<Rightarrow> responder) \<Rightarrow> uuid \<Rightarrow> uuid \<Rightarrow> http_content \<Rightarrow> responder" where
  "CreateServiceBayCapability_strict x k dealershipId serviceBayId content =
     bind_body unbound (decode_CreateServiceBayCapabilityRequest x) content (\<lambda>b.
       visiting CreateServiceBayCapability_visitors (k (ApiBays (ApiCreateServiceBayCapability dealershipId
           serviceBayId (Some b)))))"

definition DeleteServiceBayCapability_strict ::
  "(api_request \<Rightarrow> responder) \<Rightarrow> uuid \<Rightarrow> uuid \<Rightarrow> uuid \<Rightarrow> responder" where
  "DeleteServiceBayCapability_strict k dealershipId serviceBayId serviceBayCapabilityId =
     visiting DeleteServiceBayCapability_visitors (k (ApiBays (ApiDeleteServiceBayCapability dealershipId
         serviceBayId serviceBayCapabilityId)))"

definition UpdateServiceBayCapability_strict ::
  "binders \<Rightarrow> (api_request \<Rightarrow> responder) \<Rightarrow> uuid \<Rightarrow> uuid \<Rightarrow> uuid \<Rightarrow> http_content \<Rightarrow> responder" where
  "UpdateServiceBayCapability_strict x k dealershipId serviceBayId serviceBayCapabilityId content =
     bind_body unbound (decode_UpdateServiceBayCapabilityRequest x) content (\<lambda>b.
       visiting UpdateServiceBayCapability_visitors (k (ApiBays (ApiUpdateServiceBayCapability dealershipId
           serviceBayId serviceBayCapabilityId (Some b)))))"

definition ListServiceTypes_strict ::
  "(api_request \<Rightarrow> responder) \<Rightarrow> uuid \<Rightarrow> responder" where
  "ListServiceTypes_strict k dealershipId =
     visiting ListServiceTypes_visitors (k (ApiServiceTypes (ApiListServiceTypes dealershipId)))"

definition CreateServiceType_strict ::
  "(api_request \<Rightarrow> responder) \<Rightarrow> uuid \<Rightarrow> http_content \<Rightarrow> responder" where
  "CreateServiceType_strict k dealershipId content =
     bind_body unbound decode_CreateServiceTypeRequest content (\<lambda>b.
       visiting CreateServiceType_visitors (k (ApiServiceTypes (ApiCreateServiceType dealershipId (Some b)))))"

definition DeleteServiceType_strict ::
  "(api_request \<Rightarrow> responder) \<Rightarrow> uuid \<Rightarrow> uuid \<Rightarrow> responder" where
  "DeleteServiceType_strict k dealershipId serviceTypeId =
     visiting DeleteServiceType_visitors (k (ApiServiceTypes (ApiDeleteServiceType dealershipId serviceTypeId)))"

definition GetServiceType_strict ::
  "(api_request \<Rightarrow> responder) \<Rightarrow> uuid \<Rightarrow> uuid \<Rightarrow> responder" where
  "GetServiceType_strict k dealershipId serviceTypeId =
     visiting GetServiceType_visitors (k (ApiServiceTypes (ApiGetServiceType dealershipId serviceTypeId)))"

definition UpdateServiceType_strict ::
  "(api_request \<Rightarrow> responder) \<Rightarrow> uuid \<Rightarrow> uuid \<Rightarrow> http_content \<Rightarrow> responder" where
  "UpdateServiceType_strict k dealershipId serviceTypeId content =
     bind_body unbound decode_UpdateServiceTypeRequest content (\<lambda>b.
       visiting UpdateServiceType_visitors (k (ApiServiceTypes (ApiUpdateServiceType dealershipId serviceTypeId
           (Some b)))))"

definition ListServiceTypeRequiredBayCapabilities_strict ::
  "(api_request \<Rightarrow> responder) \<Rightarrow> uuid \<Rightarrow> uuid \<Rightarrow> responder" where
  "ListServiceTypeRequiredBayCapabilities_strict k dealershipId serviceTypeId =
     visiting ListServiceTypeRequiredBayCapabilities_visitors (k (ApiRequirements
         (ApiListServiceTypeRequiredBayCapabilities dealershipId serviceTypeId)))"

definition CreateServiceTypeRequiredBayCapability_strict ::
  "binders \<Rightarrow> (api_request \<Rightarrow> responder) \<Rightarrow> uuid \<Rightarrow> uuid \<Rightarrow> http_content \<Rightarrow> responder" where
  "CreateServiceTypeRequiredBayCapability_strict x k dealershipId serviceTypeId content =
     bind_body unbound (decode_CreateServiceTypeRequiredBayCapabilityRequest x) content (\<lambda>b.
       visiting CreateServiceTypeRequiredBayCapability_visitors (k (ApiRequirements
           (ApiCreateServiceTypeRequiredBayCapability dealershipId serviceTypeId (Some b)))))"

definition DeleteServiceTypeRequiredBayCapability_strict ::
  "(api_request \<Rightarrow> responder) \<Rightarrow> uuid \<Rightarrow> uuid \<Rightarrow> uuid \<Rightarrow> responder" where
  "DeleteServiceTypeRequiredBayCapability_strict k dealershipId serviceTypeId requiredCapabilityId =
     visiting DeleteServiceTypeRequiredBayCapability_visitors (k (ApiRequirements
         (ApiDeleteServiceTypeRequiredBayCapability dealershipId serviceTypeId requiredCapabilityId)))"

definition UpdateServiceTypeRequiredBayCapability_strict ::
  "binders \<Rightarrow> (api_request \<Rightarrow> responder) \<Rightarrow> uuid \<Rightarrow> uuid \<Rightarrow> uuid \<Rightarrow> http_content \<Rightarrow> responder" where
  "UpdateServiceTypeRequiredBayCapability_strict x k dealershipId serviceTypeId requiredCapabilityId content =
     bind_body unbound (decode_UpdateServiceTypeRequiredBayCapabilityRequest x) content (\<lambda>b.
       visiting UpdateServiceTypeRequiredBayCapability_visitors (k (ApiRequirements
           (ApiUpdateServiceTypeRequiredBayCapability dealershipId serviceTypeId requiredCapabilityId (Some b)))))"

definition ListServiceTypeRequiredSkills_strict ::
  "(api_request \<Rightarrow> responder) \<Rightarrow> uuid \<Rightarrow> uuid \<Rightarrow> responder" where
  "ListServiceTypeRequiredSkills_strict k dealershipId serviceTypeId =
     visiting ListServiceTypeRequiredSkills_visitors (k (ApiRequirements (ApiListServiceTypeRequiredSkills
         dealershipId serviceTypeId)))"

definition CreateServiceTypeRequiredSkill_strict ::
  "binders \<Rightarrow> (api_request \<Rightarrow> responder) \<Rightarrow> uuid \<Rightarrow> uuid \<Rightarrow> http_content \<Rightarrow> responder" where
  "CreateServiceTypeRequiredSkill_strict x k dealershipId serviceTypeId content =
     bind_body unbound (decode_CreateServiceTypeRequiredSkillRequest x) content (\<lambda>b.
       visiting CreateServiceTypeRequiredSkill_visitors (k (ApiRequirements (ApiCreateServiceTypeRequiredSkill
           dealershipId serviceTypeId (Some b)))))"

definition DeleteServiceTypeRequiredSkill_strict ::
  "(api_request \<Rightarrow> responder) \<Rightarrow> uuid \<Rightarrow> uuid \<Rightarrow> uuid \<Rightarrow> responder" where
  "DeleteServiceTypeRequiredSkill_strict k dealershipId serviceTypeId requiredSkillId =
     visiting DeleteServiceTypeRequiredSkill_visitors (k (ApiRequirements (ApiDeleteServiceTypeRequiredSkill
         dealershipId serviceTypeId requiredSkillId)))"

definition UpdateServiceTypeRequiredSkill_strict ::
  "binders \<Rightarrow> (api_request \<Rightarrow> responder) \<Rightarrow> uuid \<Rightarrow> uuid \<Rightarrow> uuid \<Rightarrow> http_content \<Rightarrow> responder" where
  "UpdateServiceTypeRequiredSkill_strict x k dealershipId serviceTypeId requiredSkillId content =
     bind_body unbound (decode_UpdateServiceTypeRequiredSkillRequest x) content (\<lambda>b.
       visiting UpdateServiceTypeRequiredSkill_visitors (k (ApiRequirements (ApiUpdateServiceTypeRequiredSkill
           dealershipId serviceTypeId requiredSkillId (Some b)))))"

definition ListTechnicianSchedules_strict ::
  "(api_request \<Rightarrow> responder) \<Rightarrow> uuid \<Rightarrow> string \<Rightarrow> string option \<Rightarrow> string list option \<Rightarrow> responder" where
  "ListTechnicianSchedules_strict k dealershipId date technicianId include =
     visiting ListTechnicianSchedules_visitors (k (ApiQuery (ApiListTechnicianSchedules dealershipId date
         technicianId include)))"

definition ListTechnicians_strict ::
  "(api_request \<Rightarrow> responder) \<Rightarrow> bool option \<Rightarrow> int option \<Rightarrow> int option \<Rightarrow> responder" where
  "ListTechnicians_strict k isActive limit off =
     visiting ListTechnicians_visitors (k (ApiTechnicians (ApiListTechnicians isActive limit off)))"

definition CreateTechnician_strict ::
  "binders \<Rightarrow> (api_request \<Rightarrow> responder) \<Rightarrow> http_content \<Rightarrow> responder" where
  "CreateTechnician_strict x k content =
     bind_body unbound (decode_CreateTechnicianRequest x) content (\<lambda>b.
       visiting CreateTechnician_visitors (k (ApiTechnicians (ApiCreateTechnician (Some b)))))"

definition DeleteTechnician_strict ::
  "(api_request \<Rightarrow> responder) \<Rightarrow> uuid \<Rightarrow> responder" where
  "DeleteTechnician_strict k technicianId =
     visiting DeleteTechnician_visitors (k (ApiTechnicians (ApiDeleteTechnician technicianId)))"

definition GetTechnician_strict ::
  "(api_request \<Rightarrow> responder) \<Rightarrow> uuid \<Rightarrow> responder" where
  "GetTechnician_strict k technicianId =
     visiting GetTechnician_visitors (k (ApiTechnicians (ApiGetTechnician technicianId)))"

definition UpdateTechnician_strict ::
  "(api_request \<Rightarrow> responder) \<Rightarrow> uuid \<Rightarrow> http_content \<Rightarrow> responder" where
  "UpdateTechnician_strict k technicianId content =
     bind_body unbound UpdateTechnicianRequest_UnmarshalJSON content (\<lambda>b.
       visiting UpdateTechnician_visitors (k (ApiTechnicians (ApiUpdateTechnician technicianId (Some b)))))"

definition ListTechnicianShifts_strict ::
  "(api_request \<Rightarrow> responder) \<Rightarrow> uuid \<Rightarrow> responder" where
  "ListTechnicianShifts_strict k technicianId =
     visiting ListTechnicianShifts_visitors (k (ApiRota (ApiListTechnicianShifts technicianId)))"

definition CreateTechnicianShift_strict ::
  "(api_request \<Rightarrow> responder) \<Rightarrow> uuid \<Rightarrow> http_content \<Rightarrow> responder" where
  "CreateTechnicianShift_strict k technicianId content =
     bind_body unbound decode_CreateTechnicianShiftRequest content (\<lambda>b.
       visiting CreateTechnicianShift_visitors (k (ApiRota (ApiCreateTechnicianShift technicianId (Some b)))))"

definition DeleteTechnicianShift_strict ::
  "(api_request \<Rightarrow> responder) \<Rightarrow> uuid \<Rightarrow> uuid \<Rightarrow> responder" where
  "DeleteTechnicianShift_strict k technicianId shiftId =
     visiting DeleteTechnicianShift_visitors (k (ApiRota (ApiDeleteTechnicianShift technicianId shiftId)))"

definition UpdateTechnicianShift_strict ::
  "(api_request \<Rightarrow> responder) \<Rightarrow> uuid \<Rightarrow> uuid \<Rightarrow> http_content \<Rightarrow> responder" where
  "UpdateTechnicianShift_strict k technicianId shiftId content =
     bind_body unbound decode_UpdateTechnicianShiftRequest content (\<lambda>b.
       visiting UpdateTechnicianShift_visitors (k (ApiRota (ApiUpdateTechnicianShift technicianId shiftId (Some
           b)))))"

definition ListTechnicianSkills_strict ::
  "(api_request \<Rightarrow> responder) \<Rightarrow> uuid \<Rightarrow> responder" where
  "ListTechnicianSkills_strict k technicianId =
     visiting ListTechnicianSkills_visitors (k (ApiTechnicians (ApiListTechnicianSkills technicianId)))"

definition CreateTechnicianSkill_strict ::
  "binders \<Rightarrow> (api_request \<Rightarrow> responder) \<Rightarrow> uuid \<Rightarrow> http_content \<Rightarrow> responder" where
  "CreateTechnicianSkill_strict x k technicianId content =
     bind_body unbound (decode_CreateTechnicianSkillRequest x) content (\<lambda>b.
       visiting CreateTechnicianSkill_visitors (k (ApiTechnicians (ApiCreateTechnicianSkill technicianId (Some
           b)))))"

definition DeleteTechnicianSkill_strict ::
  "(api_request \<Rightarrow> responder) \<Rightarrow> uuid \<Rightarrow> uuid \<Rightarrow> responder" where
  "DeleteTechnicianSkill_strict k technicianId technicianSkillId =
     visiting DeleteTechnicianSkill_visitors (k (ApiTechnicians (ApiDeleteTechnicianSkill technicianId
         technicianSkillId)))"

definition UpdateTechnicianSkill_strict ::
  "binders \<Rightarrow> (api_request \<Rightarrow> responder) \<Rightarrow> uuid \<Rightarrow> uuid \<Rightarrow> http_content \<Rightarrow> responder" where
  "UpdateTechnicianSkill_strict x k technicianId technicianSkillId content =
     bind_body unbound (decode_UpdateTechnicianSkillRequest x) content (\<lambda>b.
       visiting UpdateTechnicianSkill_visitors (k (ApiTechnicians (ApiUpdateTechnicianSkill technicianId
           technicianSkillId (Some b)))))"

definition ListTechnicianTimeOff_strict ::
  "(api_request \<Rightarrow> responder) \<Rightarrow> uuid \<Rightarrow> gotime option \<Rightarrow> gotime option \<Rightarrow> int option \<Rightarrow> int option \<Rightarrow> responder" where
  "ListTechnicianTimeOff_strict k technicianId from_time to_time limit off =
     visiting ListTechnicianTimeOff_visitors (k (ApiRota (ApiListTechnicianTimeOff technicianId from_time to_time
         limit off)))"

definition CreateTechnicianTimeOff_strict ::
  "binders \<Rightarrow> (api_request \<Rightarrow> responder) \<Rightarrow> uuid \<Rightarrow> http_content \<Rightarrow> responder" where
  "CreateTechnicianTimeOff_strict x k technicianId content =
     bind_body unbound (decode_CreateTechnicianTimeOffRequest x) content (\<lambda>b.
       visiting CreateTechnicianTimeOff_visitors (k (ApiRota (ApiCreateTechnicianTimeOff technicianId (Some b)))))"

definition DeleteTechnicianTimeOff_strict ::
  "(api_request \<Rightarrow> responder) \<Rightarrow> uuid \<Rightarrow> uuid \<Rightarrow> responder" where
  "DeleteTechnicianTimeOff_strict k technicianId timeOffId =
     visiting DeleteTechnicianTimeOff_visitors (k (ApiRota (ApiDeleteTechnicianTimeOff technicianId timeOffId)))"

definition GetTechnicianTimeOff_strict ::
  "(api_request \<Rightarrow> responder) \<Rightarrow> uuid \<Rightarrow> uuid \<Rightarrow> responder" where
  "GetTechnicianTimeOff_strict k technicianId timeOffId =
     visiting GetTechnicianTimeOff_visitors (k (ApiRota (ApiGetTechnicianTimeOff technicianId timeOffId)))"

definition UpdateTechnicianTimeOff_strict ::
  "binders \<Rightarrow> (api_request \<Rightarrow> responder) \<Rightarrow> uuid \<Rightarrow> uuid \<Rightarrow> http_content \<Rightarrow> responder" where
  "UpdateTechnicianTimeOff_strict x k technicianId timeOffId content =
     bind_body unbound (UpdateTechnicianTimeOffRequest_UnmarshalJSON (bn_parse_time x)) content (\<lambda>b.
       visiting UpdateTechnicianTimeOff_visitors (k (ApiRota (ApiUpdateTechnicianTimeOff technicianId timeOffId
           (Some b)))))"

definition DeleteVehicle_strict ::
  "(api_request \<Rightarrow> responder) \<Rightarrow> uuid \<Rightarrow> responder" where
  "DeleteVehicle_strict k vehicleId =
     visiting DeleteVehicle_visitors (k (ApiCustomers (ApiDeleteVehicle vehicleId)))"

definition GetVehicle_strict ::
  "(api_request \<Rightarrow> responder) \<Rightarrow> uuid \<Rightarrow> responder" where
  "GetVehicle_strict k vehicleId =
     visiting GetVehicle_visitors (k (ApiCustomers (ApiGetVehicle vehicleId)))"

definition UpdateVehicle_strict ::
  "(api_request \<Rightarrow> responder) \<Rightarrow> uuid \<Rightarrow> http_content \<Rightarrow> responder" where
  "UpdateVehicle_strict k vehicleId content =
     bind_body unbound decode_UpdateVehicleRequest content (\<lambda>b.
       visiting UpdateVehicle_visitors (k (ApiCustomers (ApiUpdateVehicle vehicleId (Some b)))))"

section \<open>Wrappers\<close>

definition ScheduleAppointment_wrapper ::
  "binders \<Rightarrow> (api_request \<Rightarrow> responder) \<Rightarrow> http_raw \<Rightarrow> responder" where
  "ScheduleAppointment_wrapper x k r =
     ScheduleAppointment_strict x k (hr_content r)"

definition CancelAppointment_wrapper ::
  "binders \<Rightarrow> (api_request \<Rightarrow> responder) \<Rightarrow> http_raw \<Rightarrow> responder" where
  "CancelAppointment_wrapper x k r =
     bind_path unbound x r ''appointmentId'' (\<lambda>appointmentId.
     CancelAppointment_strict k appointmentId (hr_content r))"

definition CheckInAppointment_wrapper ::
  "binders \<Rightarrow> (api_request \<Rightarrow> responder) \<Rightarrow> http_raw \<Rightarrow> responder" where
  "CheckInAppointment_wrapper x k r =
     bind_path unbound x r ''appointmentId'' (\<lambda>appointmentId.
     CheckInAppointment_strict k appointmentId (hr_content r))"

definition CompleteAppointment_wrapper ::
  "binders \<Rightarrow> (api_request \<Rightarrow> responder) \<Rightarrow> http_raw \<Rightarrow> responder" where
  "CompleteAppointment_wrapper x k r =
     bind_path unbound x r ''appointmentId'' (\<lambda>appointmentId.
     CompleteAppointment_strict x k appointmentId (hr_content r))"

definition StartAppointment_wrapper ::
  "binders \<Rightarrow> (api_request \<Rightarrow> responder) \<Rightarrow> http_raw \<Rightarrow> responder" where
  "StartAppointment_wrapper x k r =
     bind_path unbound x r ''appointmentId'' (\<lambda>appointmentId.
     StartAppointment_strict k appointmentId (hr_content r))"

definition CreateCustomer_wrapper ::
  "binders \<Rightarrow> (api_request \<Rightarrow> responder) \<Rightarrow> http_raw \<Rightarrow> responder" where
  "CreateCustomer_wrapper x k r =
     CreateCustomer_strict x k (hr_content r)"

definition GetCustomer_wrapper ::
  "binders \<Rightarrow> (api_request \<Rightarrow> responder) \<Rightarrow> http_raw \<Rightarrow> responder" where
  "GetCustomer_wrapper x k r =
     bind_path unbound x r ''customerId'' (\<lambda>customerId.
     GetCustomer_strict k customerId)"

definition UpdateCustomer_wrapper ::
  "binders \<Rightarrow> (api_request \<Rightarrow> responder) \<Rightarrow> http_raw \<Rightarrow> responder" where
  "UpdateCustomer_wrapper x k r =
     bind_path unbound x r ''customerId'' (\<lambda>customerId.
     UpdateCustomer_strict k customerId (hr_content r))"

definition ListCustomerVehicles_wrapper ::
  "binders \<Rightarrow> (api_request \<Rightarrow> responder) \<Rightarrow> http_raw \<Rightarrow> responder" where
  "ListCustomerVehicles_wrapper x k r =
     bind_path unbound x r ''customerId'' (\<lambda>customerId.
     ListCustomerVehicles_strict k customerId)"

definition CreateVehicle_wrapper ::
  "binders \<Rightarrow> (api_request \<Rightarrow> responder) \<Rightarrow> http_raw \<Rightarrow> responder" where
  "CreateVehicle_wrapper x k r =
     bind_path unbound x r ''customerId'' (\<lambda>customerId.
     CreateVehicle_strict k customerId (hr_content r))"

definition SearchCustomers_wrapper ::
  "binders \<Rightarrow> (api_request \<Rightarrow> responder) \<Rightarrow> http_raw \<Rightarrow> responder" where
  "SearchCustomers_wrapper x k r =
     bind_query unbound (bn_optional_text x) r ''phone'' (\<lambda>phone.
     bind_query unbound (bn_optional_email x) r ''email'' (\<lambda>email.
     SearchCustomers_strict k phone email))"

definition CreateDealershipUser_wrapper ::
  "binders \<Rightarrow> (api_request \<Rightarrow> responder) \<Rightarrow> http_raw \<Rightarrow> responder" where
  "CreateDealershipUser_wrapper x k r =
     CreateDealershipUser_strict x k (hr_content r)"

definition CreateDealershipAdmin_wrapper ::
  "binders \<Rightarrow> (api_request \<Rightarrow> responder) \<Rightarrow> http_raw \<Rightarrow> responder" where
  "CreateDealershipAdmin_wrapper x k r =
     CreateDealershipAdmin_strict x k (hr_content r)"

definition SearchAuthUserByEmail_wrapper ::
  "binders \<Rightarrow> (api_request \<Rightarrow> responder) \<Rightarrow> http_raw \<Rightarrow> responder" where
  "SearchAuthUserByEmail_wrapper x k r =
     bind_query unbound (bn_required_email x) r ''email'' (\<lambda>email.
     SearchAuthUserByEmail_strict k email)"

definition ListDealerships_wrapper ::
  "binders \<Rightarrow> (api_request \<Rightarrow> responder) \<Rightarrow> http_raw \<Rightarrow> responder" where
  "ListDealerships_wrapper x k r =
     ListDealerships_strict k"

definition CreateDealership_wrapper ::
  "binders \<Rightarrow> (api_request \<Rightarrow> responder) \<Rightarrow> http_raw \<Rightarrow> responder" where
  "CreateDealership_wrapper x k r =
     CreateDealership_strict k (hr_content r)"

definition ListDealershipAppointments_wrapper ::
  "binders \<Rightarrow> (api_request \<Rightarrow> responder) \<Rightarrow> http_raw \<Rightarrow> responder" where
  "ListDealershipAppointments_wrapper x k r =
     bind_path unbound x r ''dealershipId'' (\<lambda>dealershipId.
     bind_query unbound (bn_required_date x) r ''date'' (\<lambda>date.
     ListDealershipAppointments_strict k dealershipId date))"

definition ListDealershipOperationTimes_wrapper ::
  "binders \<Rightarrow> (api_request \<Rightarrow> responder) \<Rightarrow> http_raw \<Rightarrow> responder" where
  "ListDealershipOperationTimes_wrapper x k r =
     bind_path unbound x r ''dealershipId'' (\<lambda>dealershipId.
     ListDealershipOperationTimes_strict k dealershipId)"

definition CreateDealershipOperationTime_wrapper ::
  "binders \<Rightarrow> (api_request \<Rightarrow> responder) \<Rightarrow> http_raw \<Rightarrow> responder" where
  "CreateDealershipOperationTime_wrapper x k r =
     bind_path unbound x r ''dealershipId'' (\<lambda>dealershipId.
     CreateDealershipOperationTime_strict k dealershipId (hr_content r))"

definition DeleteDealershipOperationTime_wrapper ::
  "binders \<Rightarrow> (api_request \<Rightarrow> responder) \<Rightarrow> http_raw \<Rightarrow> responder" where
  "DeleteDealershipOperationTime_wrapper x k r =
     bind_path unbound x r ''dealershipId'' (\<lambda>dealershipId.
     bind_path unbound x r ''operationTimeId'' (\<lambda>operationTimeId.
     DeleteDealershipOperationTime_strict k dealershipId operationTimeId))"

definition UpdateDealershipOperationTime_wrapper ::
  "binders \<Rightarrow> (api_request \<Rightarrow> responder) \<Rightarrow> http_raw \<Rightarrow> responder" where
  "UpdateDealershipOperationTime_wrapper x k r =
     bind_path unbound x r ''dealershipId'' (\<lambda>dealershipId.
     bind_path unbound x r ''operationTimeId'' (\<lambda>operationTimeId.
     UpdateDealershipOperationTime_strict k dealershipId operationTimeId (hr_content r)))"

definition ListServiceBays_wrapper ::
  "binders \<Rightarrow> (api_request \<Rightarrow> responder) \<Rightarrow> http_raw \<Rightarrow> responder" where
  "ListServiceBays_wrapper x k r =
     bind_path unbound x r ''dealershipId'' (\<lambda>dealershipId.
     bind_query unbound (bn_optional_bool x) r ''isActive'' (\<lambda>isActive.
     bind_query unbound (bn_optional_int x) r ''limit'' (\<lambda>limit.
     bind_query unbound (bn_optional_int x) r ''offset'' (\<lambda>off.
     ListServiceBays_strict k dealershipId isActive limit off))))"

definition CreateServiceBay_wrapper ::
  "binders \<Rightarrow> (api_request \<Rightarrow> responder) \<Rightarrow> http_raw \<Rightarrow> responder" where
  "CreateServiceBay_wrapper x k r =
     bind_path unbound x r ''dealershipId'' (\<lambda>dealershipId.
     CreateServiceBay_strict k dealershipId (hr_content r))"

definition ListAvailableServiceBays_wrapper ::
  "binders \<Rightarrow> (api_request \<Rightarrow> responder) \<Rightarrow> http_raw \<Rightarrow> responder" where
  "ListAvailableServiceBays_wrapper x k r =
     bind_path unbound x r ''dealershipId'' (\<lambda>dealershipId.
     bind_query unbound (bn_required_uuid x) r ''service_type_id'' (\<lambda>serviceTypeId.
     bind_query unbound (bn_required_time x) r ''starts_at'' (\<lambda>startsAt.
     bind_query unbound (bn_required_time x) r ''ends_at'' (\<lambda>endsAt.
     ListAvailableServiceBays_strict k dealershipId serviceTypeId startsAt endsAt))))"

definition DeleteServiceBay_wrapper ::
  "binders \<Rightarrow> (api_request \<Rightarrow> responder) \<Rightarrow> http_raw \<Rightarrow> responder" where
  "DeleteServiceBay_wrapper x k r =
     bind_path unbound x r ''dealershipId'' (\<lambda>dealershipId.
     bind_path unbound x r ''serviceBayId'' (\<lambda>serviceBayId.
     DeleteServiceBay_strict k dealershipId serviceBayId))"

definition GetServiceBay_wrapper ::
  "binders \<Rightarrow> (api_request \<Rightarrow> responder) \<Rightarrow> http_raw \<Rightarrow> responder" where
  "GetServiceBay_wrapper x k r =
     bind_path unbound x r ''dealershipId'' (\<lambda>dealershipId.
     bind_path unbound x r ''serviceBayId'' (\<lambda>serviceBayId.
     GetServiceBay_strict k dealershipId serviceBayId))"

definition UpdateServiceBay_wrapper ::
  "binders \<Rightarrow> (api_request \<Rightarrow> responder) \<Rightarrow> http_raw \<Rightarrow> responder" where
  "UpdateServiceBay_wrapper x k r =
     bind_path unbound x r ''dealershipId'' (\<lambda>dealershipId.
     bind_path unbound x r ''serviceBayId'' (\<lambda>serviceBayId.
     UpdateServiceBay_strict k dealershipId serviceBayId (hr_content r)))"

definition ListServiceBayCapabilities_wrapper ::
  "binders \<Rightarrow> (api_request \<Rightarrow> responder) \<Rightarrow> http_raw \<Rightarrow> responder" where
  "ListServiceBayCapabilities_wrapper x k r =
     bind_path unbound x r ''dealershipId'' (\<lambda>dealershipId.
     bind_path unbound x r ''serviceBayId'' (\<lambda>serviceBayId.
     ListServiceBayCapabilities_strict k dealershipId serviceBayId))"

definition CreateServiceBayCapability_wrapper ::
  "binders \<Rightarrow> (api_request \<Rightarrow> responder) \<Rightarrow> http_raw \<Rightarrow> responder" where
  "CreateServiceBayCapability_wrapper x k r =
     bind_path unbound x r ''dealershipId'' (\<lambda>dealershipId.
     bind_path unbound x r ''serviceBayId'' (\<lambda>serviceBayId.
     CreateServiceBayCapability_strict x k dealershipId serviceBayId (hr_content r)))"

definition DeleteServiceBayCapability_wrapper ::
  "binders \<Rightarrow> (api_request \<Rightarrow> responder) \<Rightarrow> http_raw \<Rightarrow> responder" where
  "DeleteServiceBayCapability_wrapper x k r =
     bind_path unbound x r ''dealershipId'' (\<lambda>dealershipId.
     bind_path unbound x r ''serviceBayId'' (\<lambda>serviceBayId.
     bind_path unbound x r ''serviceBayCapabilityId'' (\<lambda>serviceBayCapabilityId.
     DeleteServiceBayCapability_strict k dealershipId serviceBayId serviceBayCapabilityId)))"

definition UpdateServiceBayCapability_wrapper ::
  "binders \<Rightarrow> (api_request \<Rightarrow> responder) \<Rightarrow> http_raw \<Rightarrow> responder" where
  "UpdateServiceBayCapability_wrapper x k r =
     bind_path unbound x r ''dealershipId'' (\<lambda>dealershipId.
     bind_path unbound x r ''serviceBayId'' (\<lambda>serviceBayId.
     bind_path unbound x r ''serviceBayCapabilityId'' (\<lambda>serviceBayCapabilityId.
     UpdateServiceBayCapability_strict x k dealershipId serviceBayId serviceBayCapabilityId (hr_content r))))"

definition ListServiceTypes_wrapper ::
  "binders \<Rightarrow> (api_request \<Rightarrow> responder) \<Rightarrow> http_raw \<Rightarrow> responder" where
  "ListServiceTypes_wrapper x k r =
     bind_path unbound x r ''dealershipId'' (\<lambda>dealershipId.
     ListServiceTypes_strict k dealershipId)"

definition CreateServiceType_wrapper ::
  "binders \<Rightarrow> (api_request \<Rightarrow> responder) \<Rightarrow> http_raw \<Rightarrow> responder" where
  "CreateServiceType_wrapper x k r =
     bind_path unbound x r ''dealershipId'' (\<lambda>dealershipId.
     CreateServiceType_strict k dealershipId (hr_content r))"

definition DeleteServiceType_wrapper ::
  "binders \<Rightarrow> (api_request \<Rightarrow> responder) \<Rightarrow> http_raw \<Rightarrow> responder" where
  "DeleteServiceType_wrapper x k r =
     bind_path unbound x r ''dealershipId'' (\<lambda>dealershipId.
     bind_path unbound x r ''serviceTypeId'' (\<lambda>serviceTypeId.
     DeleteServiceType_strict k dealershipId serviceTypeId))"

definition GetServiceType_wrapper ::
  "binders \<Rightarrow> (api_request \<Rightarrow> responder) \<Rightarrow> http_raw \<Rightarrow> responder" where
  "GetServiceType_wrapper x k r =
     bind_path unbound x r ''dealershipId'' (\<lambda>dealershipId.
     bind_path unbound x r ''serviceTypeId'' (\<lambda>serviceTypeId.
     GetServiceType_strict k dealershipId serviceTypeId))"

definition UpdateServiceType_wrapper ::
  "binders \<Rightarrow> (api_request \<Rightarrow> responder) \<Rightarrow> http_raw \<Rightarrow> responder" where
  "UpdateServiceType_wrapper x k r =
     bind_path unbound x r ''dealershipId'' (\<lambda>dealershipId.
     bind_path unbound x r ''serviceTypeId'' (\<lambda>serviceTypeId.
     UpdateServiceType_strict k dealershipId serviceTypeId (hr_content r)))"

definition ListServiceTypeRequiredBayCapabilities_wrapper ::
  "binders \<Rightarrow> (api_request \<Rightarrow> responder) \<Rightarrow> http_raw \<Rightarrow> responder" where
  "ListServiceTypeRequiredBayCapabilities_wrapper x k r =
     bind_path unbound x r ''dealershipId'' (\<lambda>dealershipId.
     bind_path unbound x r ''serviceTypeId'' (\<lambda>serviceTypeId.
     ListServiceTypeRequiredBayCapabilities_strict k dealershipId serviceTypeId))"

definition CreateServiceTypeRequiredBayCapability_wrapper ::
  "binders \<Rightarrow> (api_request \<Rightarrow> responder) \<Rightarrow> http_raw \<Rightarrow> responder" where
  "CreateServiceTypeRequiredBayCapability_wrapper x k r =
     bind_path unbound x r ''dealershipId'' (\<lambda>dealershipId.
     bind_path unbound x r ''serviceTypeId'' (\<lambda>serviceTypeId.
     CreateServiceTypeRequiredBayCapability_strict x k dealershipId serviceTypeId (hr_content r)))"

definition DeleteServiceTypeRequiredBayCapability_wrapper ::
  "binders \<Rightarrow> (api_request \<Rightarrow> responder) \<Rightarrow> http_raw \<Rightarrow> responder" where
  "DeleteServiceTypeRequiredBayCapability_wrapper x k r =
     bind_path unbound x r ''dealershipId'' (\<lambda>dealershipId.
     bind_path unbound x r ''serviceTypeId'' (\<lambda>serviceTypeId.
     bind_path unbound x r ''requiredCapabilityId'' (\<lambda>requiredCapabilityId.
     DeleteServiceTypeRequiredBayCapability_strict k dealershipId serviceTypeId requiredCapabilityId)))"

definition UpdateServiceTypeRequiredBayCapability_wrapper ::
  "binders \<Rightarrow> (api_request \<Rightarrow> responder) \<Rightarrow> http_raw \<Rightarrow> responder" where
  "UpdateServiceTypeRequiredBayCapability_wrapper x k r =
     bind_path unbound x r ''dealershipId'' (\<lambda>dealershipId.
     bind_path unbound x r ''serviceTypeId'' (\<lambda>serviceTypeId.
     bind_path unbound x r ''requiredCapabilityId'' (\<lambda>requiredCapabilityId.
     UpdateServiceTypeRequiredBayCapability_strict x k dealershipId serviceTypeId requiredCapabilityId (hr_content
         r))))"

definition ListServiceTypeRequiredSkills_wrapper ::
  "binders \<Rightarrow> (api_request \<Rightarrow> responder) \<Rightarrow> http_raw \<Rightarrow> responder" where
  "ListServiceTypeRequiredSkills_wrapper x k r =
     bind_path unbound x r ''dealershipId'' (\<lambda>dealershipId.
     bind_path unbound x r ''serviceTypeId'' (\<lambda>serviceTypeId.
     ListServiceTypeRequiredSkills_strict k dealershipId serviceTypeId))"

definition CreateServiceTypeRequiredSkill_wrapper ::
  "binders \<Rightarrow> (api_request \<Rightarrow> responder) \<Rightarrow> http_raw \<Rightarrow> responder" where
  "CreateServiceTypeRequiredSkill_wrapper x k r =
     bind_path unbound x r ''dealershipId'' (\<lambda>dealershipId.
     bind_path unbound x r ''serviceTypeId'' (\<lambda>serviceTypeId.
     CreateServiceTypeRequiredSkill_strict x k dealershipId serviceTypeId (hr_content r)))"

definition DeleteServiceTypeRequiredSkill_wrapper ::
  "binders \<Rightarrow> (api_request \<Rightarrow> responder) \<Rightarrow> http_raw \<Rightarrow> responder" where
  "DeleteServiceTypeRequiredSkill_wrapper x k r =
     bind_path unbound x r ''dealershipId'' (\<lambda>dealershipId.
     bind_path unbound x r ''serviceTypeId'' (\<lambda>serviceTypeId.
     bind_path unbound x r ''requiredSkillId'' (\<lambda>requiredSkillId.
     DeleteServiceTypeRequiredSkill_strict k dealershipId serviceTypeId requiredSkillId)))"

definition UpdateServiceTypeRequiredSkill_wrapper ::
  "binders \<Rightarrow> (api_request \<Rightarrow> responder) \<Rightarrow> http_raw \<Rightarrow> responder" where
  "UpdateServiceTypeRequiredSkill_wrapper x k r =
     bind_path unbound x r ''dealershipId'' (\<lambda>dealershipId.
     bind_path unbound x r ''serviceTypeId'' (\<lambda>serviceTypeId.
     bind_path unbound x r ''requiredSkillId'' (\<lambda>requiredSkillId.
     UpdateServiceTypeRequiredSkill_strict x k dealershipId serviceTypeId requiredSkillId (hr_content r))))"

definition ListTechnicianSchedules_wrapper ::
  "binders \<Rightarrow> (api_request \<Rightarrow> responder) \<Rightarrow> http_raw \<Rightarrow> responder" where
  "ListTechnicianSchedules_wrapper x k r =
     bind_path unbound x r ''dealershipId'' (\<lambda>dealershipId.
     bind_query unbound (bn_required_date x) r ''date'' (\<lambda>date.
     bind_query unbound (bn_optional_text x) r ''technician_id'' (\<lambda>technicianId.
     bind_query unbound (bn_optional_texts x) r ''include'' (\<lambda>include.
     ListTechnicianSchedules_strict k dealershipId date technicianId include))))"

definition ListTechnicians_wrapper ::
  "binders \<Rightarrow> (api_request \<Rightarrow> responder) \<Rightarrow> http_raw \<Rightarrow> responder" where
  "ListTechnicians_wrapper x k r =
     bind_query unbound (bn_optional_bool x) r ''isActive'' (\<lambda>isActive.
     bind_query unbound (bn_optional_int x) r ''limit'' (\<lambda>limit.
     bind_query unbound (bn_optional_int x) r ''offset'' (\<lambda>off.
     ListTechnicians_strict k isActive limit off)))"

definition CreateTechnician_wrapper ::
  "binders \<Rightarrow> (api_request \<Rightarrow> responder) \<Rightarrow> http_raw \<Rightarrow> responder" where
  "CreateTechnician_wrapper x k r =
     CreateTechnician_strict x k (hr_content r)"

definition DeleteTechnician_wrapper ::
  "binders \<Rightarrow> (api_request \<Rightarrow> responder) \<Rightarrow> http_raw \<Rightarrow> responder" where
  "DeleteTechnician_wrapper x k r =
     bind_path unbound x r ''technicianId'' (\<lambda>technicianId.
     DeleteTechnician_strict k technicianId)"

definition GetTechnician_wrapper ::
  "binders \<Rightarrow> (api_request \<Rightarrow> responder) \<Rightarrow> http_raw \<Rightarrow> responder" where
  "GetTechnician_wrapper x k r =
     bind_path unbound x r ''technicianId'' (\<lambda>technicianId.
     GetTechnician_strict k technicianId)"

definition UpdateTechnician_wrapper ::
  "binders \<Rightarrow> (api_request \<Rightarrow> responder) \<Rightarrow> http_raw \<Rightarrow> responder" where
  "UpdateTechnician_wrapper x k r =
     bind_path unbound x r ''technicianId'' (\<lambda>technicianId.
     UpdateTechnician_strict k technicianId (hr_content r))"

definition ListTechnicianShifts_wrapper ::
  "binders \<Rightarrow> (api_request \<Rightarrow> responder) \<Rightarrow> http_raw \<Rightarrow> responder" where
  "ListTechnicianShifts_wrapper x k r =
     bind_path unbound x r ''technicianId'' (\<lambda>technicianId.
     ListTechnicianShifts_strict k technicianId)"

definition CreateTechnicianShift_wrapper ::
  "binders \<Rightarrow> (api_request \<Rightarrow> responder) \<Rightarrow> http_raw \<Rightarrow> responder" where
  "CreateTechnicianShift_wrapper x k r =
     bind_path unbound x r ''technicianId'' (\<lambda>technicianId.
     CreateTechnicianShift_strict k technicianId (hr_content r))"

definition DeleteTechnicianShift_wrapper ::
  "binders \<Rightarrow> (api_request \<Rightarrow> responder) \<Rightarrow> http_raw \<Rightarrow> responder" where
  "DeleteTechnicianShift_wrapper x k r =
     bind_path unbound x r ''technicianId'' (\<lambda>technicianId.
     bind_path unbound x r ''shiftId'' (\<lambda>shiftId.
     DeleteTechnicianShift_strict k technicianId shiftId))"

definition UpdateTechnicianShift_wrapper ::
  "binders \<Rightarrow> (api_request \<Rightarrow> responder) \<Rightarrow> http_raw \<Rightarrow> responder" where
  "UpdateTechnicianShift_wrapper x k r =
     bind_path unbound x r ''technicianId'' (\<lambda>technicianId.
     bind_path unbound x r ''shiftId'' (\<lambda>shiftId.
     UpdateTechnicianShift_strict k technicianId shiftId (hr_content r)))"

definition ListTechnicianSkills_wrapper ::
  "binders \<Rightarrow> (api_request \<Rightarrow> responder) \<Rightarrow> http_raw \<Rightarrow> responder" where
  "ListTechnicianSkills_wrapper x k r =
     bind_path unbound x r ''technicianId'' (\<lambda>technicianId.
     ListTechnicianSkills_strict k technicianId)"

definition CreateTechnicianSkill_wrapper ::
  "binders \<Rightarrow> (api_request \<Rightarrow> responder) \<Rightarrow> http_raw \<Rightarrow> responder" where
  "CreateTechnicianSkill_wrapper x k r =
     bind_path unbound x r ''technicianId'' (\<lambda>technicianId.
     CreateTechnicianSkill_strict x k technicianId (hr_content r))"

definition DeleteTechnicianSkill_wrapper ::
  "binders \<Rightarrow> (api_request \<Rightarrow> responder) \<Rightarrow> http_raw \<Rightarrow> responder" where
  "DeleteTechnicianSkill_wrapper x k r =
     bind_path unbound x r ''technicianId'' (\<lambda>technicianId.
     bind_path unbound x r ''technicianSkillId'' (\<lambda>technicianSkillId.
     DeleteTechnicianSkill_strict k technicianId technicianSkillId))"

definition UpdateTechnicianSkill_wrapper ::
  "binders \<Rightarrow> (api_request \<Rightarrow> responder) \<Rightarrow> http_raw \<Rightarrow> responder" where
  "UpdateTechnicianSkill_wrapper x k r =
     bind_path unbound x r ''technicianId'' (\<lambda>technicianId.
     bind_path unbound x r ''technicianSkillId'' (\<lambda>technicianSkillId.
     UpdateTechnicianSkill_strict x k technicianId technicianSkillId (hr_content r)))"

definition ListTechnicianTimeOff_wrapper ::
  "binders \<Rightarrow> (api_request \<Rightarrow> responder) \<Rightarrow> http_raw \<Rightarrow> responder" where
  "ListTechnicianTimeOff_wrapper x k r =
     bind_path unbound x r ''technicianId'' (\<lambda>technicianId.
     bind_query unbound (bn_optional_time x) r ''from'' (\<lambda>from_time.
     bind_query unbound (bn_optional_time x) r ''to'' (\<lambda>to_time.
     bind_query unbound (bn_optional_int x) r ''limit'' (\<lambda>limit.
     bind_query unbound (bn_optional_int x) r ''offset'' (\<lambda>off.
     ListTechnicianTimeOff_strict k technicianId from_time to_time limit off)))))"

definition CreateTechnicianTimeOff_wrapper ::
  "binders \<Rightarrow> (api_request \<Rightarrow> responder) \<Rightarrow> http_raw \<Rightarrow> responder" where
  "CreateTechnicianTimeOff_wrapper x k r =
     bind_path unbound x r ''technicianId'' (\<lambda>technicianId.
     CreateTechnicianTimeOff_strict x k technicianId (hr_content r))"

definition DeleteTechnicianTimeOff_wrapper ::
  "binders \<Rightarrow> (api_request \<Rightarrow> responder) \<Rightarrow> http_raw \<Rightarrow> responder" where
  "DeleteTechnicianTimeOff_wrapper x k r =
     bind_path unbound x r ''technicianId'' (\<lambda>technicianId.
     bind_path unbound x r ''timeOffId'' (\<lambda>timeOffId.
     DeleteTechnicianTimeOff_strict k technicianId timeOffId))"

definition GetTechnicianTimeOff_wrapper ::
  "binders \<Rightarrow> (api_request \<Rightarrow> responder) \<Rightarrow> http_raw \<Rightarrow> responder" where
  "GetTechnicianTimeOff_wrapper x k r =
     bind_path unbound x r ''technicianId'' (\<lambda>technicianId.
     bind_path unbound x r ''timeOffId'' (\<lambda>timeOffId.
     GetTechnicianTimeOff_strict k technicianId timeOffId))"

definition UpdateTechnicianTimeOff_wrapper ::
  "binders \<Rightarrow> (api_request \<Rightarrow> responder) \<Rightarrow> http_raw \<Rightarrow> responder" where
  "UpdateTechnicianTimeOff_wrapper x k r =
     bind_path unbound x r ''technicianId'' (\<lambda>technicianId.
     bind_path unbound x r ''timeOffId'' (\<lambda>timeOffId.
     UpdateTechnicianTimeOff_strict x k technicianId timeOffId (hr_content r)))"

definition DeleteVehicle_wrapper ::
  "binders \<Rightarrow> (api_request \<Rightarrow> responder) \<Rightarrow> http_raw \<Rightarrow> responder" where
  "DeleteVehicle_wrapper x k r =
     bind_path unbound x r ''vehicleId'' (\<lambda>vehicleId.
     DeleteVehicle_strict k vehicleId)"

definition GetVehicle_wrapper ::
  "binders \<Rightarrow> (api_request \<Rightarrow> responder) \<Rightarrow> http_raw \<Rightarrow> responder" where
  "GetVehicle_wrapper x k r =
     bind_path unbound x r ''vehicleId'' (\<lambda>vehicleId.
     GetVehicle_strict k vehicleId)"

definition UpdateVehicle_wrapper ::
  "binders \<Rightarrow> (api_request \<Rightarrow> responder) \<Rightarrow> http_raw \<Rightarrow> responder" where
  "UpdateVehicle_wrapper x k r =
     bind_path unbound x r ''vehicleId'' (\<lambda>vehicleId.
     UpdateVehicle_strict k vehicleId (hr_content r))"

section \<open>The registration\<close>

record http_route =
  rt_Method :: string
  rt_Path :: string
  rt_Wrapper :: "(api_request \<Rightarrow> responder) \<Rightarrow> http_raw \<Rightarrow> responder"
  rt_Key :: string

definition route ::
  "string \<Rightarrow> string \<Rightarrow> ((api_request \<Rightarrow> responder) \<Rightarrow> http_raw \<Rightarrow> responder) \<Rightarrow> string \<Rightarrow> http_route" where
  "route m p w key =
     \<lparr>rt_Method = m, rt_Path = ''/appointment-scheduler/v1'' @ p, rt_Wrapper = w, rt_Key = key\<rparr>"

definition scheduler_routes :: "binders \<Rightarrow> http_route list" where
  "scheduler_routes x =
     [route ''GET'' ''/dealerships/:dealershipId/service-bays/available''
        (ListAvailableServiceBays_wrapper x) ''listAvailableServiceBays'',
      route ''GET'' ''/dealerships/:dealershipId/technician-schedules''
        (ListTechnicianSchedules_wrapper x) ''listTechnicianSchedules'',
      route ''POST'' ''/appointments''
        (ScheduleAppointment_wrapper x) ''scheduleAppointment'',
      route ''GET'' ''/dealerships/:dealershipId/appointments''
        (ListDealershipAppointments_wrapper x) ''listDealershipAppointments'',
      route ''POST'' ''/appointments/:appointmentId/check-in''
        (CheckInAppointment_wrapper x) ''checkInAppointment'',
      route ''POST'' ''/appointments/:appointmentId/start''
        (StartAppointment_wrapper x) ''startAppointment'',
      route ''POST'' ''/appointments/:appointmentId/complete''
        (CompleteAppointment_wrapper x) ''completeAppointment'',
      route ''POST'' ''/appointments/:appointmentId/cancel''
        (CancelAppointment_wrapper x) ''cancelAppointment'',
      route ''GET'' ''/dealerships/:dealershipId/operation-times''
        (ListDealershipOperationTimes_wrapper x) ''listDealershipOperationTimes'',
      route ''POST'' ''/dealerships/:dealershipId/operation-times''
        (CreateDealershipOperationTime_wrapper x) ''createDealershipOperationTime'',
      route ''DELETE'' ''/dealerships/:dealershipId/operation-times/:operationTimeId''
        (DeleteDealershipOperationTime_wrapper x) ''deleteDealershipOperationTime'',
      route ''PATCH'' ''/dealerships/:dealershipId/operation-times/:operationTimeId''
        (UpdateDealershipOperationTime_wrapper x) ''updateDealershipOperationTime'',
      route ''GET'' ''/dealerships/:dealershipId/service-bays''
        (ListServiceBays_wrapper x) ''listServiceBays'',
      route ''POST'' ''/dealerships/:dealershipId/service-bays''
        (CreateServiceBay_wrapper x) ''createServiceBay'',
      route ''DELETE'' ''/dealerships/:dealershipId/service-bays/:serviceBayId''
        (DeleteServiceBay_wrapper x) ''deleteServiceBay'',
      route ''GET'' ''/dealerships/:dealershipId/service-bays/:serviceBayId''
        (GetServiceBay_wrapper x) ''getServiceBay'',
      route ''PATCH'' ''/dealerships/:dealershipId/service-bays/:serviceBayId''
        (UpdateServiceBay_wrapper x) ''updateServiceBay'',
      route ''GET'' ''/dealerships/:dealershipId/service-bays/:serviceBayId/capabilities''
        (ListServiceBayCapabilities_wrapper x) ''listServiceBayCapabilities'',
      route ''POST'' ''/dealerships/:dealershipId/service-bays/:serviceBayId/capabilities''
        (CreateServiceBayCapability_wrapper x) ''createServiceBayCapability'',
      route ''DELETE'' ''/dealerships/:dealershipId/service-bays/:serviceBayId/capabilities/:serviceBayCapabilityId''
        (DeleteServiceBayCapability_wrapper x) ''deleteServiceBayCapability'',
      route ''PATCH'' ''/dealerships/:dealershipId/service-bays/:serviceBayId/capabilities/:serviceBayCapabilityId''
        (UpdateServiceBayCapability_wrapper x) ''updateServiceBayCapability'',
      route ''GET'' ''/dealerships/:dealershipId/service-types''
        (ListServiceTypes_wrapper x) ''listServiceTypes'',
      route ''POST'' ''/dealerships/:dealershipId/service-types''
        (CreateServiceType_wrapper x) ''createServiceType'',
      route ''DELETE'' ''/dealerships/:dealershipId/service-types/:serviceTypeId''
        (DeleteServiceType_wrapper x) ''deleteServiceType'',
      route ''GET'' ''/dealerships/:dealershipId/service-types/:serviceTypeId''
        (GetServiceType_wrapper x) ''getServiceType'',
      route ''PATCH'' ''/dealerships/:dealershipId/service-types/:serviceTypeId''
        (UpdateServiceType_wrapper x) ''updateServiceType'',
      route ''GET'' ''/dealerships/:dealershipId/service-types/:serviceTypeId/required-skills''
        (ListServiceTypeRequiredSkills_wrapper x) ''listServiceTypeRequiredSkills'',
      route ''POST'' ''/dealerships/:dealershipId/service-types/:serviceTypeId/required-skills''
        (CreateServiceTypeRequiredSkill_wrapper x) ''createServiceTypeRequiredSkill'',
      route ''DELETE'' ''/dealerships/:dealershipId/service-types/:serviceTypeId/required-skills/:requiredSkillId''
        (DeleteServiceTypeRequiredSkill_wrapper x) ''deleteServiceTypeRequiredSkill'',
      route ''PATCH'' ''/dealerships/:dealershipId/service-types/:serviceTypeId/required-skills/:requiredSkillId''
        (UpdateServiceTypeRequiredSkill_wrapper x) ''updateServiceTypeRequiredSkill'',
      route ''GET'' ''/dealerships/:dealershipId/service-types/:serviceTypeId/required-bay-capabilities''
        (ListServiceTypeRequiredBayCapabilities_wrapper x) ''listServiceTypeRequiredBayCapabilities'',
      route ''POST'' ''/dealerships/:dealershipId/service-types/:serviceTypeId/required-bay-capabilities''
        (CreateServiceTypeRequiredBayCapability_wrapper x) ''createServiceTypeRequiredBayCapability'',
      route ''DELETE'' ''/dealerships/:dealershipId/service-types/:serviceTypeId/required-bay-capabilities/:requiredCapabilityId''
        (DeleteServiceTypeRequiredBayCapability_wrapper x) ''deleteServiceTypeRequiredBayCapability'',
      route ''PATCH'' ''/dealerships/:dealershipId/service-types/:serviceTypeId/required-bay-capabilities/:requiredCapabilityId''
        (UpdateServiceTypeRequiredBayCapability_wrapper x) ''updateServiceTypeRequiredBayCapability'',
      route ''POST'' ''/dealership-users''
        (CreateDealershipUser_wrapper x) ''createDealershipUser'',
      route ''GET'' ''/dealership-users/search''
        (SearchAuthUserByEmail_wrapper x) ''searchAuthUserByEmail'',
      route ''POST'' ''/dealership-users/admins''
        (CreateDealershipAdmin_wrapper x) ''createDealershipAdmin'',
      route ''GET'' ''/dealerships''
        (ListDealerships_wrapper x) ''listDealerships'',
      route ''POST'' ''/dealerships''
        (CreateDealership_wrapper x) ''createDealership'',
      route ''POST'' ''/customers''
        (CreateCustomer_wrapper x) ''createCustomer'',
      route ''GET'' ''/customers/:customerId''
        (GetCustomer_wrapper x) ''getCustomer'',
      route ''PATCH'' ''/customers/:customerId''
        (UpdateCustomer_wrapper x) ''updateCustomer'',
      route ''GET'' (''/customers'' @ CHR 0x5C # '':search'')
        (SearchCustomers_wrapper x) ''searchCustomers'',
      route ''GET'' ''/customers/:customerId/vehicles''
        (ListCustomerVehicles_wrapper x) ''listCustomerVehicles'',
      route ''POST'' ''/customers/:customerId/vehicles''
        (CreateVehicle_wrapper x) ''createVehicle'',
      route ''GET'' ''/technicians''
        (ListTechnicians_wrapper x) ''listTechnicians'',
      route ''POST'' ''/technicians''
        (CreateTechnician_wrapper x) ''createTechnician'',
      route ''DELETE'' ''/technicians/:technicianId''
        (DeleteTechnician_wrapper x) ''deleteTechnician'',
      route ''GET'' ''/technicians/:technicianId''
        (GetTechnician_wrapper x) ''getTechnician'',
      route ''PATCH'' ''/technicians/:technicianId''
        (UpdateTechnician_wrapper x) ''updateTechnician'',
      route ''GET'' ''/technicians/:technicianId/skills''
        (ListTechnicianSkills_wrapper x) ''listTechnicianSkills'',
      route ''POST'' ''/technicians/:technicianId/skills''
        (CreateTechnicianSkill_wrapper x) ''createTechnicianSkill'',
      route ''DELETE'' ''/technicians/:technicianId/skills/:technicianSkillId''
        (DeleteTechnicianSkill_wrapper x) ''deleteTechnicianSkill'',
      route ''PATCH'' ''/technicians/:technicianId/skills/:technicianSkillId''
        (UpdateTechnicianSkill_wrapper x) ''updateTechnicianSkill'',
      route ''GET'' ''/technicians/:technicianId/shifts''
        (ListTechnicianShifts_wrapper x) ''listTechnicianShifts'',
      route ''POST'' ''/technicians/:technicianId/shifts''
        (CreateTechnicianShift_wrapper x) ''createTechnicianShift'',
      route ''DELETE'' ''/technicians/:technicianId/shifts/:shiftId''
        (DeleteTechnicianShift_wrapper x) ''deleteTechnicianShift'',
      route ''PATCH'' ''/technicians/:technicianId/shifts/:shiftId''
        (UpdateTechnicianShift_wrapper x) ''updateTechnicianShift'',
      route ''GET'' ''/technicians/:technicianId/time-off''
        (ListTechnicianTimeOff_wrapper x) ''listTechnicianTimeOff'',
      route ''POST'' ''/technicians/:technicianId/time-off''
        (CreateTechnicianTimeOff_wrapper x) ''createTechnicianTimeOff'',
      route ''DELETE'' ''/technicians/:technicianId/time-off/:timeOffId''
        (DeleteTechnicianTimeOff_wrapper x) ''deleteTechnicianTimeOff'',
      route ''GET'' ''/technicians/:technicianId/time-off/:timeOffId''
        (GetTechnicianTimeOff_wrapper x) ''getTechnicianTimeOff'',
      route ''PATCH'' ''/technicians/:technicianId/time-off/:timeOffId''
        (UpdateTechnicianTimeOff_wrapper x) ''updateTechnicianTimeOff'',
      route ''DELETE'' ''/vehicles/:vehicleId''
        (DeleteVehicle_wrapper x) ''deleteVehicle'',
      route ''GET'' ''/vehicles/:vehicleId''
        (GetVehicle_wrapper x) ''getVehicle'',
      route ''PATCH'' ''/vehicles/:vehicleId''
        (UpdateVehicle_wrapper x) ''updateVehicle'']"

definition guarded_operations :: "string list" where
  "guarded_operations =
     [''listDealerships'',
      ''listAvailableServiceBays'',
      ''listTechnicianSchedules'',
      ''listDealershipAppointments'',
      ''scheduleAppointment'',
      ''checkInAppointment'',
      ''startAppointment'',
      ''completeAppointment'',
      ''cancelAppointment'',
      ''createDealershipOperationTime'',
      ''listDealershipOperationTimes'',
      ''updateDealershipOperationTime'',
      ''deleteDealershipOperationTime'',
      ''createServiceBayCapability'',
      ''listServiceBayCapabilities'',
      ''updateServiceBayCapability'',
      ''deleteServiceBayCapability'',
      ''createServiceBay'',
      ''listServiceBays'',
      ''getServiceBay'',
      ''updateServiceBay'',
      ''deleteServiceBay'',
      ''createServiceType'',
      ''listServiceTypes'',
      ''getServiceType'',
      ''updateServiceType'',
      ''deleteServiceType'',
      ''createServiceTypeRequiredSkill'',
      ''listServiceTypeRequiredSkills'',
      ''updateServiceTypeRequiredSkill'',
      ''deleteServiceTypeRequiredSkill'',
      ''createServiceTypeRequiredBayCapability'',
      ''listServiceTypeRequiredBayCapabilities'',
      ''updateServiceTypeRequiredBayCapability'',
      ''deleteServiceTypeRequiredBayCapability'',
      ''createDealershipUser'',
      ''createDealership'',
      ''createDealershipAdmin'',
      ''searchAuthUserByEmail'',
      ''createCustomer'',
      ''getCustomer'',
      ''updateCustomer'',
      ''searchCustomers'',
      ''createVehicle'',
      ''getVehicle'',
      ''listCustomerVehicles'',
      ''updateVehicle'',
      ''deleteVehicle'',
      ''createTechnician'',
      ''listTechnicians'',
      ''getTechnician'',
      ''updateTechnician'',
      ''deleteTechnician'',
      ''createTechnicianSkill'',
      ''listTechnicianSkills'',
      ''updateTechnicianSkill'',
      ''deleteTechnicianSkill'',
      ''createTechnicianShift'',
      ''listTechnicianShifts'',
      ''updateTechnicianShift'',
      ''deleteTechnicianShift'',
      ''createTechnicianTimeOff'',
      ''listTechnicianTimeOff'',
      ''getTechnicianTimeOff'',
      ''updateTechnicianTimeOff'',
      ''deleteTechnicianTimeOff'']"

text \<open>A request on a route. Without \<open>requireIdentity\<close> the handler would see no token and the zero user.\<close>

definition http_serve ::
  "surroundings \<Rightarrow> auth_db \<Rightarrow> http_route \<Rightarrow> http_raw \<Rightarrow> responder" where
  "http_serve s accounts rt raw =
     (let handler = (\<lambda>env actor. rt_Wrapper rt (api_dispatch s env actor) raw) in
      if rt_Key rt \<in> set guarded_operations
      then scheduler_requireIdentity s accounts (hr_authorization raw) handler
      else handler ((with_auth (sr_auth s) accounts (sr_env s))\<lparr>sv_authorization := None\<rparr>) uuid_Nil)"

lemmas strict_defs =
  ScheduleAppointment_strict_def
  CancelAppointment_strict_def
  CheckInAppointment_strict_def
  CompleteAppointment_strict_def
  StartAppointment_strict_def
  CreateCustomer_strict_def
  GetCustomer_strict_def
  UpdateCustomer_strict_def
  ListCustomerVehicles_strict_def
  CreateVehicle_strict_def
  SearchCustomers_strict_def
  CreateDealershipUser_strict_def
  CreateDealershipAdmin_strict_def
  SearchAuthUserByEmail_strict_def
  ListDealerships_strict_def
  CreateDealership_strict_def
  ListDealershipAppointments_strict_def
  ListDealershipOperationTimes_strict_def
  CreateDealershipOperationTime_strict_def
  DeleteDealershipOperationTime_strict_def
  UpdateDealershipOperationTime_strict_def
  ListServiceBays_strict_def
  CreateServiceBay_strict_def
  ListAvailableServiceBays_strict_def
  DeleteServiceBay_strict_def
  GetServiceBay_strict_def
  UpdateServiceBay_strict_def
  ListServiceBayCapabilities_strict_def
  CreateServiceBayCapability_strict_def
  DeleteServiceBayCapability_strict_def
  UpdateServiceBayCapability_strict_def
  ListServiceTypes_strict_def
  CreateServiceType_strict_def
  DeleteServiceType_strict_def
  GetServiceType_strict_def
  UpdateServiceType_strict_def
  ListServiceTypeRequiredBayCapabilities_strict_def
  CreateServiceTypeRequiredBayCapability_strict_def
  DeleteServiceTypeRequiredBayCapability_strict_def
  UpdateServiceTypeRequiredBayCapability_strict_def
  ListServiceTypeRequiredSkills_strict_def
  CreateServiceTypeRequiredSkill_strict_def
  DeleteServiceTypeRequiredSkill_strict_def
  UpdateServiceTypeRequiredSkill_strict_def
  ListTechnicianSchedules_strict_def
  ListTechnicians_strict_def
  CreateTechnician_strict_def
  DeleteTechnician_strict_def
  GetTechnician_strict_def
  UpdateTechnician_strict_def
  ListTechnicianShifts_strict_def
  CreateTechnicianShift_strict_def
  DeleteTechnicianShift_strict_def
  UpdateTechnicianShift_strict_def
  ListTechnicianSkills_strict_def
  CreateTechnicianSkill_strict_def
  DeleteTechnicianSkill_strict_def
  UpdateTechnicianSkill_strict_def
  ListTechnicianTimeOff_strict_def
  CreateTechnicianTimeOff_strict_def
  DeleteTechnicianTimeOff_strict_def
  GetTechnicianTimeOff_strict_def
  UpdateTechnicianTimeOff_strict_def
  DeleteVehicle_strict_def
  GetVehicle_strict_def
  UpdateVehicle_strict_def

lemmas wrapper_defs =
  ScheduleAppointment_wrapper_def
  CancelAppointment_wrapper_def
  CheckInAppointment_wrapper_def
  CompleteAppointment_wrapper_def
  StartAppointment_wrapper_def
  CreateCustomer_wrapper_def
  GetCustomer_wrapper_def
  UpdateCustomer_wrapper_def
  ListCustomerVehicles_wrapper_def
  CreateVehicle_wrapper_def
  SearchCustomers_wrapper_def
  CreateDealershipUser_wrapper_def
  CreateDealershipAdmin_wrapper_def
  SearchAuthUserByEmail_wrapper_def
  ListDealerships_wrapper_def
  CreateDealership_wrapper_def
  ListDealershipAppointments_wrapper_def
  ListDealershipOperationTimes_wrapper_def
  CreateDealershipOperationTime_wrapper_def
  DeleteDealershipOperationTime_wrapper_def
  UpdateDealershipOperationTime_wrapper_def
  ListServiceBays_wrapper_def
  CreateServiceBay_wrapper_def
  ListAvailableServiceBays_wrapper_def
  DeleteServiceBay_wrapper_def
  GetServiceBay_wrapper_def
  UpdateServiceBay_wrapper_def
  ListServiceBayCapabilities_wrapper_def
  CreateServiceBayCapability_wrapper_def
  DeleteServiceBayCapability_wrapper_def
  UpdateServiceBayCapability_wrapper_def
  ListServiceTypes_wrapper_def
  CreateServiceType_wrapper_def
  DeleteServiceType_wrapper_def
  GetServiceType_wrapper_def
  UpdateServiceType_wrapper_def
  ListServiceTypeRequiredBayCapabilities_wrapper_def
  CreateServiceTypeRequiredBayCapability_wrapper_def
  DeleteServiceTypeRequiredBayCapability_wrapper_def
  UpdateServiceTypeRequiredBayCapability_wrapper_def
  ListServiceTypeRequiredSkills_wrapper_def
  CreateServiceTypeRequiredSkill_wrapper_def
  DeleteServiceTypeRequiredSkill_wrapper_def
  UpdateServiceTypeRequiredSkill_wrapper_def
  ListTechnicianSchedules_wrapper_def
  ListTechnicians_wrapper_def
  CreateTechnician_wrapper_def
  DeleteTechnician_wrapper_def
  GetTechnician_wrapper_def
  UpdateTechnician_wrapper_def
  ListTechnicianShifts_wrapper_def
  CreateTechnicianShift_wrapper_def
  DeleteTechnicianShift_wrapper_def
  UpdateTechnicianShift_wrapper_def
  ListTechnicianSkills_wrapper_def
  CreateTechnicianSkill_wrapper_def
  DeleteTechnicianSkill_wrapper_def
  UpdateTechnicianSkill_wrapper_def
  ListTechnicianTimeOff_wrapper_def
  CreateTechnicianTimeOff_wrapper_def
  DeleteTechnicianTimeOff_wrapper_def
  GetTechnicianTimeOff_wrapper_def
  UpdateTechnicianTimeOff_wrapper_def
  DeleteVehicle_wrapper_def
  GetVehicle_wrapper_def
  UpdateVehicle_wrapper_def

end
