(* ===== verification/Http_Answers.thy ===== *)
theory Http_Answers
  imports Http_Responses Api_Facts
begin

text \<open>
  Every answer of a handler is a response of its operation: its status is one openapi.gen.go has a type for,
  and it has a body exactly when that type has one.
\<close>

section \<open>Handlers and their responses\<close>

definition answers :: "visitor list \<Rightarrow> responder \<Rightarrow> bool" where
  "answers visitors h \<longleftrightarrow> (\<forall>d. visited visitors (fst (h d)))"

lemma answers_pure: "visited vs a \<Longrightarrow> answers vs (Pair a)"
  by (simp add: answers_def)

lemma answers_finish:
  "(\<And>e. visited vs (p e)) \<Longrightarrow> (\<And>x. visited vs (Answered status (body x))) \<Longrightarrow> answers vs (finish_with p status body m)"
  by (simp add: answers_def finish_with_def split: prod.split sum.split)

lemma answers_with_body:
  "VisitJSON 400 \<in> set vs \<Longrightarrow> (\<And>x. answers vs (k x)) \<Longrightarrow> answers vs (with_body body slug k)"
  by (simp add: answers_def with_body_def bad_request_def problem_answer_def visited_def split: option.split prod.split)

lemma answers_at_least_one: "VisitJSON 400 \<in> set vs \<Longrightarrow> answers vs k \<Longrightarrow> answers vs (at_least_one slug given k)"
  by (simp add: answers_def at_least_one_def bad_request_def problem_answer_def visited_def split: prod.split)

lemma answers_parsed: "(\<And>e. visited vs (p e)) \<Longrightarrow> (\<And>x. answers vs (k x)) \<Longrightarrow> answers vs (parsed p r k)"
  by (simp add: answers_def parsed_def split: sum.split)

lemma answers_if: "answers vs h1 \<Longrightarrow> answers vs h2 \<Longrightarrow> answers vs (if c then h1 else h2)"
  by simp

lemma visited_problems:
  "list_all (\<lambda>c. VisitJSON c \<in> set vs) (500 # codes) \<Longrightarrow> visited vs (problems codes e)"
  "list_all (\<lambda>c. VisitJSON c \<in> set vs) (500 # codes) \<Longrightarrow> visited vs (customer_problems codes e)"
  "list_all (\<lambda>c. c = 400 \<or> VisitJSON c \<in> set vs) (422 # 500 # codes) \<Longrightarrow> visited vs (shift_problems codes e)"
  "list_all (\<lambda>c. VisitJSON c \<in> set vs) codes \<Longrightarrow> visited vs (escaping_problems codes e)"
  "list_all (\<lambda>c. VisitJSON c \<in> set vs) (500 # codes) \<Longrightarrow> visited vs (opaque_problems codes e)"
  by (auto simp: visited_def problems_def customer_problems_def shift_problems_def escaping_problems_def
      opaque_problems_def customer_problem_answer_def problem_answer_def respond_def operationTimeProblem_def
      httpErrorResponseFromErr_def list_all_iff Let_def split: prod.splits option.splits)

lemma visited_problem_answer: "VisitJSON status \<in> set vs \<Longrightarrow> visited vs (problem_answer status e)"
  by (simp add: visited_def problem_answer_def split: prod.split)

lemma visited_bad_request: "VisitJSON 400 \<in> set vs \<Longrightarrow> visited vs (bad_request slug message)"
  by (simp add: bad_request_def visited_problem_answer)

lemmas answers_intros = answers_pure answers_finish answers_with_body answers_at_least_one
  answers_parsed answers_if visited_problems visited_problem_answer visited_bad_request

section \<open>The operations\<close>

definition documented :: "api_request \<Rightarrow> visitor list \<Rightarrow> bool" where
  "documented r vs \<longleftrightarrow> (\<forall>s env actor. answers vs (api_dispatch s env actor r))"

lemma visiting_documented: "documented r vs \<Longrightarrow> visiting vs (api_dispatch s env actor r) = api_dispatch s env actor r"
  by (rule ext) (auto simp: documented_def answers_def visiting_def split: prod.split, metis fst_conv)

lemma appointment_documented:
  "documented (ApiAppointment (ReqSchedule b2)) ScheduleAppointment_visitors"
  "documented (ApiAppointment (ReqCancel appointmentId b3)) CancelAppointment_visitors"
  "documented (ApiAppointment (ReqCheckIn appointmentId b4)) CheckInAppointment_visitors"
  "documented (ApiAppointment (ReqComplete appointmentId b5 note)) CompleteAppointment_visitors"
  "documented (ApiAppointment (ReqStart appointmentId b6)) StartAppointment_visitors"
  by (auto simp: documented_def answers_def api_dispatch_def appointment_call_def handle_def Let_def visited_def
      visitors_defs ScheduleAppointment_handler_def CheckInAppointment_handler_def StartAppointment_handler_def
      CompleteAppointment_handler_def CancelAppointment_handler_def status_answer_def respond_def
      split: prod.splits sum.splits option.splits appointment_answer.splits)

lemma customer_documented:
  "documented (ApiCustomers (ApiCreateCustomer b7)) CreateCustomer_visitors"
  "documented (ApiCustomers (ApiGetCustomer customerId)) GetCustomer_visitors"
  "documented (ApiCustomers (ApiUpdateCustomer customerId b9)) UpdateCustomer_visitors"
  "documented (ApiCustomers (ApiListCustomerVehicles customerId)) ListCustomerVehicles_visitors"
  "documented (ApiCustomers (ApiCreateVehicle customerId b11)) CreateVehicle_visitors"
  "documented (ApiCustomers (ApiSearchCustomers phone email)) SearchCustomers_visitors"
  "documented (ApiCustomers (ApiDeleteVehicle vehicleId)) DeleteVehicle_visitors"
  "documented (ApiCustomers (ApiGetVehicle vehicleId)) GetVehicle_visitors"
  "documented (ApiCustomers (ApiUpdateVehicle vehicleId b15)) UpdateVehicle_visitors"
  unfolding documented_def api_dispatch_def api_request.case dispatch_defs customer_request.case api_handler_defs
    error_function_defs
  by (intro allI answers_intros; simp add: visitors_defs visited_def)+

lemma dealership_documented:
  "documented (ApiDealerships (ApiCreateDealershipUser b16)) CreateDealershipUser_visitors"
  "documented (ApiDealerships (ApiCreateDealershipAdmin b17)) CreateDealershipAdmin_visitors"
  "documented (ApiDealerships (ApiSearchAuthUserByEmail email)) SearchAuthUserByEmail_visitors"
  "documented (ApiDealerships (ApiCreateDealership b19)) CreateDealership_visitors"
  unfolding documented_def api_dispatch_def api_request.case dispatch_defs dealership_request.case api_handler_defs
    error_function_defs
  by (intro allI answers_intros; simp add: visitors_defs visited_def)+

lemma query_documented:
  "documented (ApiQuery ApiListDealerships) ListDealerships_visitors"
  "documented (ApiQuery (ApiListDealershipAppointments dealershipId date)) ListDealershipAppointments_visitors"
  "documented (ApiQuery (ApiListAvailableServiceBays dealershipId serviceTypeId startsAt endsAt)) ListAvailableServiceBays_visitors"
  "documented (ApiQuery (ApiListTechnicianSchedules dealershipId date technicianId include)) ListTechnicianSchedules_visitors"
  unfolding documented_def api_dispatch_def api_request.case dispatch_defs query_request.case query_handler_defs
    error_function_defs
  by (intro allI answers_intros; simp add: visitors_defs visited_def)+

lemma hours_documented:
  "documented (ApiHours (ApiListDealershipOperationTimes dealershipId)) ListDealershipOperationTimes_visitors"
  "documented (ApiHours (ApiCreateDealershipOperationTime dealershipId b25)) CreateDealershipOperationTime_visitors"
  "documented (ApiHours (ApiDeleteDealershipOperationTime dealershipId operationTimeId)) DeleteDealershipOperationTime_visitors"
  "documented (ApiHours (ApiUpdateDealershipOperationTime dealershipId operationTimeId b27)) UpdateDealershipOperationTime_visitors"
  unfolding documented_def api_dispatch_def api_request.case dispatch_defs hours_request.case api_handler_defs
    error_function_defs
  by (intro allI answers_intros; simp add: visitors_defs visited_def)+

lemma bay_documented:
  "documented (ApiBays (ApiListServiceBays dealershipId isActive limit off)) ListServiceBays_visitors"
  "documented (ApiBays (ApiCreateServiceBay dealershipId b29)) CreateServiceBay_visitors"
  "documented (ApiBays (ApiDeleteServiceBay dealershipId serviceBayId)) DeleteServiceBay_visitors"
  "documented (ApiBays (ApiGetServiceBay dealershipId serviceBayId)) GetServiceBay_visitors"
  "documented (ApiBays (ApiUpdateServiceBay dealershipId serviceBayId b32)) UpdateServiceBay_visitors"
  "documented (ApiBays (ApiListServiceBayCapabilities dealershipId serviceBayId)) ListServiceBayCapabilities_visitors"
  "documented (ApiBays (ApiCreateServiceBayCapability dealershipId serviceBayId b34)) CreateServiceBayCapability_visitors"
  "documented (ApiBays (ApiDeleteServiceBayCapability dealershipId serviceBayId serviceBayCapabilityId)) DeleteServiceBayCapability_visitors"
  "documented (ApiBays (ApiUpdateServiceBayCapability dealershipId serviceBayId serviceBayCapabilityId b36)) UpdateServiceBayCapability_visitors"
  unfolding documented_def api_dispatch_def api_request.case dispatch_defs bay_request.case api_handler_defs
    error_function_defs
  by (intro allI answers_intros; simp add: visitors_defs visited_def)+

lemma service_type_documented:
  "documented (ApiServiceTypes (ApiListServiceTypes dealershipId)) ListServiceTypes_visitors"
  "documented (ApiServiceTypes (ApiCreateServiceType dealershipId b38)) CreateServiceType_visitors"
  "documented (ApiServiceTypes (ApiDeleteServiceType dealershipId serviceTypeId)) DeleteServiceType_visitors"
  "documented (ApiServiceTypes (ApiGetServiceType dealershipId serviceTypeId)) GetServiceType_visitors"
  "documented (ApiServiceTypes (ApiUpdateServiceType dealershipId serviceTypeId b41)) UpdateServiceType_visitors"
  unfolding documented_def api_dispatch_def api_request.case dispatch_defs service_type_request.case api_handler_defs
    error_function_defs
  by (intro allI answers_intros; simp add: visitors_defs visited_def)+

lemma requirement_documented:
  "documented (ApiRequirements (ApiListServiceTypeRequiredBayCapabilities dealershipId serviceTypeId)) ListServiceTypeRequiredBayCapabilities_visitors"
  "documented (ApiRequirements (ApiCreateServiceTypeRequiredBayCapability dealershipId serviceTypeId b43)) CreateServiceTypeRequiredBayCapability_visitors"
  "documented (ApiRequirements (ApiDeleteServiceTypeRequiredBayCapability dealershipId serviceTypeId requiredCapabilityId)) DeleteServiceTypeRequiredBayCapability_visitors"
  "documented (ApiRequirements (ApiUpdateServiceTypeRequiredBayCapability dealershipId serviceTypeId requiredCapabilityId b45)) UpdateServiceTypeRequiredBayCapability_visitors"
  "documented (ApiRequirements (ApiListServiceTypeRequiredSkills dealershipId serviceTypeId)) ListServiceTypeRequiredSkills_visitors"
  "documented (ApiRequirements (ApiCreateServiceTypeRequiredSkill dealershipId serviceTypeId b47)) CreateServiceTypeRequiredSkill_visitors"
  "documented (ApiRequirements (ApiDeleteServiceTypeRequiredSkill dealershipId serviceTypeId requiredSkillId)) DeleteServiceTypeRequiredSkill_visitors"
  "documented (ApiRequirements (ApiUpdateServiceTypeRequiredSkill dealershipId serviceTypeId requiredSkillId b49)) UpdateServiceTypeRequiredSkill_visitors"
  unfolding documented_def api_dispatch_def api_request.case dispatch_defs requirement_request.case api_handler_defs
    error_function_defs
  by (intro allI answers_intros; simp add: visitors_defs visited_def)+

lemma technician_documented:
  "documented (ApiTechnicians (ApiListTechnicians isActive limit off)) ListTechnicians_visitors"
  "documented (ApiTechnicians (ApiCreateTechnician b51)) CreateTechnician_visitors"
  "documented (ApiTechnicians (ApiDeleteTechnician technicianId)) DeleteTechnician_visitors"
  "documented (ApiTechnicians (ApiGetTechnician technicianId)) GetTechnician_visitors"
  "documented (ApiTechnicians (ApiUpdateTechnician technicianId b54)) UpdateTechnician_visitors"
  "documented (ApiTechnicians (ApiListTechnicianSkills technicianId)) ListTechnicianSkills_visitors"
  "documented (ApiTechnicians (ApiCreateTechnicianSkill technicianId b56)) CreateTechnicianSkill_visitors"
  "documented (ApiTechnicians (ApiDeleteTechnicianSkill technicianId technicianSkillId)) DeleteTechnicianSkill_visitors"
  "documented (ApiTechnicians (ApiUpdateTechnicianSkill technicianId technicianSkillId b58)) UpdateTechnicianSkill_visitors"
  unfolding documented_def api_dispatch_def api_request.case dispatch_defs technician_request.case api_handler_defs
    error_function_defs
  by (intro allI answers_intros; simp add: visitors_defs visited_def)+

lemma rota_documented:
  "documented (ApiRota (ApiListTechnicianShifts technicianId)) ListTechnicianShifts_visitors"
  "documented (ApiRota (ApiCreateTechnicianShift technicianId b60)) CreateTechnicianShift_visitors"
  "documented (ApiRota (ApiDeleteTechnicianShift technicianId shiftId)) DeleteTechnicianShift_visitors"
  "documented (ApiRota (ApiUpdateTechnicianShift technicianId shiftId b62)) UpdateTechnicianShift_visitors"
  "documented (ApiRota (ApiListTechnicianTimeOff technicianId from_time to_time limit off)) ListTechnicianTimeOff_visitors"
  "documented (ApiRota (ApiCreateTechnicianTimeOff technicianId b64)) CreateTechnicianTimeOff_visitors"
  "documented (ApiRota (ApiDeleteTechnicianTimeOff technicianId timeOffId)) DeleteTechnicianTimeOff_visitors"
  "documented (ApiRota (ApiGetTechnicianTimeOff technicianId timeOffId)) GetTechnicianTimeOff_visitors"
  "documented (ApiRota (ApiUpdateTechnicianTimeOff technicianId timeOffId b67)) UpdateTechnicianTimeOff_visitors"
  unfolding documented_def api_dispatch_def api_request.case dispatch_defs rota_request.case api_handler_defs
    error_function_defs
  by (intro allI answers_intros; simp add: visitors_defs visited_def)+

text \<open>The responses of the operation a request belongs to.\<close>

definition response_types :: "api_request \<Rightarrow> visitor list" where
  "response_types r =
     (case r of
       ApiAppointment q \<Rightarrow>
         (case q of
           ReqSchedule _ \<Rightarrow> ScheduleAppointment_visitors
         | ReqCancel _ _ \<Rightarrow> CancelAppointment_visitors
         | ReqCheckIn _ _ \<Rightarrow> CheckInAppointment_visitors
         | ReqComplete _ _ _ \<Rightarrow> CompleteAppointment_visitors
         | ReqStart _ _ \<Rightarrow> StartAppointment_visitors)
     | ApiCustomers q \<Rightarrow>
         (case q of
           ApiCreateCustomer _ \<Rightarrow> CreateCustomer_visitors
         | ApiGetCustomer _ \<Rightarrow> GetCustomer_visitors
         | ApiUpdateCustomer _ _ \<Rightarrow> UpdateCustomer_visitors
         | ApiListCustomerVehicles _ \<Rightarrow> ListCustomerVehicles_visitors
         | ApiCreateVehicle _ _ \<Rightarrow> CreateVehicle_visitors
         | ApiSearchCustomers _ _ \<Rightarrow> SearchCustomers_visitors
         | ApiDeleteVehicle _ \<Rightarrow> DeleteVehicle_visitors
         | ApiGetVehicle _ \<Rightarrow> GetVehicle_visitors
         | ApiUpdateVehicle _ _ \<Rightarrow> UpdateVehicle_visitors)
     | ApiDealerships q \<Rightarrow>
         (case q of
           ApiCreateDealershipUser _ \<Rightarrow> CreateDealershipUser_visitors
         | ApiCreateDealershipAdmin _ \<Rightarrow> CreateDealershipAdmin_visitors
         | ApiSearchAuthUserByEmail _ \<Rightarrow> SearchAuthUserByEmail_visitors
         | ApiCreateDealership _ \<Rightarrow> CreateDealership_visitors)
     | ApiQuery q \<Rightarrow>
         (case q of
           ApiListDealerships \<Rightarrow> ListDealerships_visitors
         | ApiListDealershipAppointments _ _ \<Rightarrow> ListDealershipAppointments_visitors
         | ApiListAvailableServiceBays _ _ _ _ \<Rightarrow> ListAvailableServiceBays_visitors
         | ApiListTechnicianSchedules _ _ _ _ \<Rightarrow> ListTechnicianSchedules_visitors)
     | ApiHours q \<Rightarrow>
         (case q of
           ApiListDealershipOperationTimes _ \<Rightarrow> ListDealershipOperationTimes_visitors
         | ApiCreateDealershipOperationTime _ _ \<Rightarrow> CreateDealershipOperationTime_visitors
         | ApiDeleteDealershipOperationTime _ _ \<Rightarrow> DeleteDealershipOperationTime_visitors
         | ApiUpdateDealershipOperationTime _ _ _ \<Rightarrow> UpdateDealershipOperationTime_visitors)
     | ApiBays q \<Rightarrow>
         (case q of
           ApiListServiceBays _ _ _ _ \<Rightarrow> ListServiceBays_visitors
         | ApiCreateServiceBay _ _ \<Rightarrow> CreateServiceBay_visitors
         | ApiDeleteServiceBay _ _ \<Rightarrow> DeleteServiceBay_visitors
         | ApiGetServiceBay _ _ \<Rightarrow> GetServiceBay_visitors
         | ApiUpdateServiceBay _ _ _ \<Rightarrow> UpdateServiceBay_visitors
         | ApiListServiceBayCapabilities _ _ \<Rightarrow> ListServiceBayCapabilities_visitors
         | ApiCreateServiceBayCapability _ _ _ \<Rightarrow> CreateServiceBayCapability_visitors
         | ApiDeleteServiceBayCapability _ _ _ \<Rightarrow> DeleteServiceBayCapability_visitors
         | ApiUpdateServiceBayCapability _ _ _ _ \<Rightarrow> UpdateServiceBayCapability_visitors)
     | ApiServiceTypes q \<Rightarrow>
         (case q of
           ApiListServiceTypes _ \<Rightarrow> ListServiceTypes_visitors
         | ApiCreateServiceType _ _ \<Rightarrow> CreateServiceType_visitors
         | ApiDeleteServiceType _ _ \<Rightarrow> DeleteServiceType_visitors
         | ApiGetServiceType _ _ \<Rightarrow> GetServiceType_visitors
         | ApiUpdateServiceType _ _ _ \<Rightarrow> UpdateServiceType_visitors)
     | ApiRequirements q \<Rightarrow>
         (case q of
           ApiListServiceTypeRequiredBayCapabilities _ _ \<Rightarrow> ListServiceTypeRequiredBayCapabilities_visitors
         | ApiCreateServiceTypeRequiredBayCapability _ _ _ \<Rightarrow> CreateServiceTypeRequiredBayCapability_visitors
         | ApiDeleteServiceTypeRequiredBayCapability _ _ _ \<Rightarrow> DeleteServiceTypeRequiredBayCapability_visitors
         | ApiUpdateServiceTypeRequiredBayCapability _ _ _ _ \<Rightarrow> UpdateServiceTypeRequiredBayCapability_visitors
         | ApiListServiceTypeRequiredSkills _ _ \<Rightarrow> ListServiceTypeRequiredSkills_visitors
         | ApiCreateServiceTypeRequiredSkill _ _ _ \<Rightarrow> CreateServiceTypeRequiredSkill_visitors
         | ApiDeleteServiceTypeRequiredSkill _ _ _ \<Rightarrow> DeleteServiceTypeRequiredSkill_visitors
         | ApiUpdateServiceTypeRequiredSkill _ _ _ _ \<Rightarrow> UpdateServiceTypeRequiredSkill_visitors)
     | ApiTechnicians q \<Rightarrow>
         (case q of
           ApiListTechnicians _ _ _ \<Rightarrow> ListTechnicians_visitors
         | ApiCreateTechnician _ \<Rightarrow> CreateTechnician_visitors
         | ApiDeleteTechnician _ \<Rightarrow> DeleteTechnician_visitors
         | ApiGetTechnician _ \<Rightarrow> GetTechnician_visitors
         | ApiUpdateTechnician _ _ \<Rightarrow> UpdateTechnician_visitors
         | ApiListTechnicianSkills _ \<Rightarrow> ListTechnicianSkills_visitors
         | ApiCreateTechnicianSkill _ _ \<Rightarrow> CreateTechnicianSkill_visitors
         | ApiDeleteTechnicianSkill _ _ \<Rightarrow> DeleteTechnicianSkill_visitors
         | ApiUpdateTechnicianSkill _ _ _ \<Rightarrow> UpdateTechnicianSkill_visitors)
     | ApiRota q \<Rightarrow>
         (case q of
           ApiListTechnicianShifts _ \<Rightarrow> ListTechnicianShifts_visitors
         | ApiCreateTechnicianShift _ _ \<Rightarrow> CreateTechnicianShift_visitors
         | ApiDeleteTechnicianShift _ _ \<Rightarrow> DeleteTechnicianShift_visitors
         | ApiUpdateTechnicianShift _ _ _ \<Rightarrow> UpdateTechnicianShift_visitors
         | ApiListTechnicianTimeOff _ _ _ _ _ \<Rightarrow> ListTechnicianTimeOff_visitors
         | ApiCreateTechnicianTimeOff _ _ \<Rightarrow> CreateTechnicianTimeOff_visitors
         | ApiDeleteTechnicianTimeOff _ _ \<Rightarrow> DeleteTechnicianTimeOff_visitors
         | ApiGetTechnicianTimeOff _ _ \<Rightarrow> GetTechnicianTimeOff_visitors
         | ApiUpdateTechnicianTimeOff _ _ _ \<Rightarrow> UpdateTechnicianTimeOff_visitors))"

lemma response_types_documented: "documented r (response_types r)"
proof (cases r)
  case (ApiAppointment q)
  then show ?thesis by (cases q) (simp_all add: response_types_def appointment_documented)
next
  case (ApiCustomers q)
  then show ?thesis by (cases q) (simp_all add: response_types_def customer_documented)
next
  case (ApiDealerships q)
  then show ?thesis by (cases q) (simp_all add: response_types_def dealership_documented)
next
  case (ApiQuery q)
  then show ?thesis by (cases q) (simp_all add: response_types_def query_documented)
next
  case (ApiHours q)
  then show ?thesis by (cases q) (simp_all add: response_types_def hours_documented)
next
  case (ApiBays q)
  then show ?thesis by (cases q) (simp_all add: response_types_def bay_documented)
next
  case (ApiServiceTypes q)
  then show ?thesis by (cases q) (simp_all add: response_types_def service_type_documented)
next
  case (ApiRequirements q)
  then show ?thesis by (cases q) (simp_all add: response_types_def requirement_documented)
next
  case (ApiTechnicians q)
  then show ?thesis by (cases q) (simp_all add: response_types_def technician_documented)
next
  case (ApiRota q)
  then show ?thesis by (cases q) (simp_all add: response_types_def rota_documented)
qed

lemmas all_documented =
  appointment_documented customer_documented dealership_documented query_documented hours_documented bay_documented service_type_documented requirement_documented technician_documented rota_documented

end
