(* ===== verification/Http_Facts.thy ===== *)
theory Http_Facts
  imports Http_Routes Http_Answers
begin

text \<open>
  What the generated bindings do with a request: a wrapper refuses it before the handler runs, or hands
  the handler one typed request, whatever the handler is (\<open>binds\<close>). So a request on a route is
  unauthenticated, refused, or one of the requests of theory Api.
\<close>

section \<open>Kinds of requests\<close>

text \<open>Requests that only read, and requests to an operation with a body that have none.\<close>

fun reads :: "api_request \<Rightarrow> bool" where
  "reads (ApiQuery q) = True"
| "reads (ApiHours (ApiListDealershipOperationTimes i0)) = True"
| "reads (ApiBays (ApiListServiceBays i0 i1 i2 i3)) = True"
| "reads (ApiBays (ApiGetServiceBay i0 i1)) = True"
| "reads (ApiBays (ApiListServiceBayCapabilities i0 i1)) = True"
| "reads (ApiServiceTypes (ApiListServiceTypes i0)) = True"
| "reads (ApiServiceTypes (ApiGetServiceType i0 i1)) = True"
| "reads (ApiRequirements (ApiListServiceTypeRequiredSkills i0 i1)) = True"
| "reads (ApiRequirements (ApiListServiceTypeRequiredBayCapabilities i0 i1)) = True"
| "reads (ApiDealerships (ApiSearchAuthUserByEmail i0)) = True"
| "reads (ApiTechnicians (ApiListTechnicians i0 i1 i2)) = True"
| "reads (ApiTechnicians (ApiGetTechnician i0)) = True"
| "reads (ApiTechnicians (ApiListTechnicianSkills i0)) = True"
| "reads (ApiRota (ApiListTechnicianShifts i0)) = True"
| "reads (ApiRota (ApiListTechnicianTimeOff i0 i1 i2 i3 i4)) = True"
| "reads (ApiRota (ApiGetTechnicianTimeOff i0 i1)) = True"
| "reads (ApiCustomers (ApiGetCustomer i0)) = True"
| "reads (ApiCustomers (ApiSearchCustomers i0 i1)) = True"
| "reads (ApiCustomers (ApiGetVehicle i0)) = True"
| "reads (ApiCustomers (ApiListCustomerVehicles i0)) = True"
| "reads _ = False"

fun bodiless :: "api_request \<Rightarrow> bool" where
  "bodiless (ApiAppointment (ReqSchedule body)) = (body = None)"
| "bodiless (ApiAppointment (ReqCancel i0 body)) = (body = None)"
| "bodiless (ApiHours (ApiCreateDealershipOperationTime i0 body)) = (body = None)"
| "bodiless (ApiHours (ApiUpdateDealershipOperationTime i0 i1 body)) = (body = None)"
| "bodiless (ApiBays (ApiCreateServiceBay i0 body)) = (body = None)"
| "bodiless (ApiBays (ApiUpdateServiceBay i0 i1 body)) = (body = None)"
| "bodiless (ApiBays (ApiCreateServiceBayCapability i0 i1 body)) = (body = None)"
| "bodiless (ApiBays (ApiUpdateServiceBayCapability i0 i1 i2 body)) = (body = None)"
| "bodiless (ApiServiceTypes (ApiCreateServiceType i0 body)) = (body = None)"
| "bodiless (ApiServiceTypes (ApiUpdateServiceType i0 i1 body)) = (body = None)"
| "bodiless (ApiRequirements (ApiCreateServiceTypeRequiredSkill i0 i1 body)) = (body = None)"
| "bodiless (ApiRequirements (ApiUpdateServiceTypeRequiredSkill i0 i1 i2 body)) = (body = None)"
| "bodiless (ApiRequirements (ApiCreateServiceTypeRequiredBayCapability i0 i1 body)) = (body = None)"
| "bodiless (ApiRequirements (ApiUpdateServiceTypeRequiredBayCapability i0 i1 i2 body)) = (body = None)"
| "bodiless (ApiDealerships (ApiCreateDealership body)) = (body = None)"
| "bodiless (ApiDealerships (ApiCreateDealershipAdmin body)) = (body = None)"
| "bodiless (ApiDealerships (ApiCreateDealershipUser body)) = (body = None)"
| "bodiless (ApiTechnicians (ApiCreateTechnician body)) = (body = None)"
| "bodiless (ApiTechnicians (ApiUpdateTechnician i0 body)) = (body = None)"
| "bodiless (ApiTechnicians (ApiCreateTechnicianSkill i0 body)) = (body = None)"
| "bodiless (ApiTechnicians (ApiUpdateTechnicianSkill i0 i1 body)) = (body = None)"
| "bodiless (ApiRota (ApiCreateTechnicianShift i0 body)) = (body = None)"
| "bodiless (ApiRota (ApiUpdateTechnicianShift i0 i1 body)) = (body = None)"
| "bodiless (ApiRota (ApiCreateTechnicianTimeOff i0 body)) = (body = None)"
| "bodiless (ApiRota (ApiUpdateTechnicianTimeOff i0 i1 body)) = (body = None)"
| "bodiless (ApiCustomers (ApiCreateCustomer body)) = (body = None)"
| "bodiless (ApiCustomers (ApiUpdateCustomer i0 body)) = (body = None)"
| "bodiless (ApiCustomers (ApiCreateVehicle i0 body)) = (body = None)"
| "bodiless (ApiCustomers (ApiUpdateVehicle i0 body)) = (body = None)"
| "bodiless _ = False"

lemma reads_nothing_written:
  assumes "reads r"
  shows "snd (api_dispatch s env actor r d) = d"
proof -
  have h: "readonly m \<Longrightarrow> snd (finish_with p st b m d) = d" for p st b m
    by (simp add: finish_with_state readonly_def)
  show ?thesis
    using assms
    by (cases r rule: reads.cases)
      (auto simp: api_dispatch_def dispatch_defs api_handler_defs query_handler_defs with_body_def parsed_def
        use_case_reads [THEN h] queries_readonly [THEN h] split: sum.split option.split query_request.split)
qed

section \<open>Bindings\<close>

definition binds :: "(api_request \<Rightarrow> bool) \<Rightarrow> ((api_request \<Rightarrow> responder) \<Rightarrow> responder) \<Rightarrow> bool" where
  "binds P w \<longleftrightarrow> (\<exists>status. \<forall>k. w k = unbound status)
     \<or> (\<exists>r visitors. P r \<and> documented r visitors \<and> (\<forall>k. w k = visiting visitors (k r)))"

lemma binds_refusal: "binds P (\<lambda>k. unbound status)"
  by (auto simp: binds_def)

lemma binds_call: "P r \<Longrightarrow> documented r visitors \<Longrightarrow> binds P (\<lambda>k. visiting visitors (k r))"
  by (auto simp: binds_def)

lemma binds_path: "(\<And>i. binds P (\<lambda>k. f k i)) \<Longrightarrow> binds P (\<lambda>k. bind_path unbound x raw name (f k))"
  by (cases "bn_path_uuid x (hr_param raw name)") (simp_all add: bind_path_def binds_refusal)

lemma binds_query: "(\<And>v. binds P (\<lambda>k. f k v)) \<Longrightarrow> binds P (\<lambda>k. bind_query unbound read raw name (f k))"
  by (cases "read name (hr_query raw)") (simp_all add: bind_query_def binds_refusal)

lemma binds_body: "(\<And>b. binds P (\<lambda>k. f k b)) \<Longrightarrow> binds P (\<lambda>k. bind_body unbound dec content (f k))"
  by (cases content; cases "dec (case content of JsonContent v \<Rightarrow> v | _ \<Rightarrow> BNull)")
    (simp_all add: bind_body_def binds_refusal)

lemmas binds_intros = binds_path binds_query binds_body binds_call

section \<open>Routes\<close>

text \<open>What every route hands on: with GET only reads, never a missing body, and accounts are looked up by
  three operations only.\<close>

definition account_operations :: "string list" where
  "account_operations = [''createDealershipUser'', ''createDealershipAdmin'', ''searchAuthUserByEmail'']"

definition proper :: "http_route \<Rightarrow> api_request \<Rightarrow> bool" where
  "proper rt r \<longleftrightarrow> (rt_Method rt = ''GET'' \<longrightarrow> reads r) \<and> \<not> bodiless r
     \<and> (looks_up_account r \<longrightarrow> rt_Key rt \<in> set account_operations)"

lemma route_binds:
  assumes "rt \<in> set (scheduler_routes x)"
  shows "binds (proper rt) (\<lambda>k. rt_Wrapper rt k raw)"
proof -
  have "list_all (\<lambda>rt. binds (proper rt) (\<lambda>k. rt_Wrapper rt k raw)) (scheduler_routes x)"
    unfolding scheduler_routes_def route_def list.pred_inject(2) http_route.select_convs wrapper_defs strict_defs
    by (intro conjI binds_intros all_nil all_documented)
      (simp_all add: proper_def account_operations_def)
  then show ?thesis using assms by (simp add: list_all_iff)
qed

lemma routes_guarded: "rt \<in> set (scheduler_routes x) \<Longrightarrow> rt_Key rt \<in> set guarded_operations"
proof -
  have "list_all (\<lambda>key. key \<in> set guarded_operations) (map rt_Key (scheduler_routes x))"
    unfolding scheduler_routes_def route_def list.map http_route.select_convs by code_simp
  then show "rt \<in> set (scheduler_routes x) \<Longrightarrow> rt_Key rt \<in> set guarded_operations" by (simp add: list_all_iff)
qed

text \<open>A request on a route.\<close>

lemma identity_problem:
  "problem_answer 401 (NewUnauthorizedError ''authentication_required'' ''authentication required'') = unauthenticated"
  by (simp add: problem_answer_def operationTimeProblem_def NewUnauthorizedError_def newError_def unauthenticated_def)

lemma http_serve_guarded:
  assumes "rt \<in> set (scheduler_routes x)"
  shows "http_serve s accounts rt raw
    = scheduler_requireIdentity s accounts (hr_authorization raw) (\<lambda>env actor. rt_Wrapper rt (api_dispatch s env actor) raw)"
  using routes_guarded [OF assms] by (simp add: http_serve_def)

lemma http_serve_binds:
  assumes "rt \<in> set (scheduler_routes x)"
  obtains (refused) status where "\<And>s accounts. http_serve s accounts rt raw
      = scheduler_requireIdentity s accounts (hr_authorization raw) (\<lambda>env actor. unbound status)"
  | (bound) r where "proper rt r" "\<And>s accounts. http_serve s accounts rt raw = api_serve s accounts (hr_authorization raw) r"
  using route_binds [OF assms, of raw] refused bound
  unfolding binds_def http_serve_guarded [OF assms] api_serve_def by (auto simp: visiting_documented)

text \<open>A request on a route, case by case.\<close>

lemma http_serve_cases:
  assumes "rt \<in> set (scheduler_routes x)"
  obtains (unauthenticated) "http_serve s accounts rt raw d = (unauthenticated, d)"
  | (refused) userID role status where
      "AuthenticateAccessToken (sr_auth s) (scheduler_bearerToken (hr_authorization raw)) = Inr (userID, role)"
      "http_serve s accounts rt raw d = (Unbound status, d)"
  | (bound) r where "proper rt r" "http_serve s accounts rt raw d = api_serve s accounts (hr_authorization raw) r d"
proof (rule http_serve_binds [OF assms, of raw])
  fix status
  assume h: "\<And>s accounts. http_serve s accounts rt raw
      = scheduler_requireIdentity s accounts (hr_authorization raw) (\<lambda>env actor. unbound status)"
  show thesis
    using h [of s accounts] unauthenticated refused [of _ _ status]
    by (cases "AuthenticateAccessToken (sr_auth s) (scheduler_bearerToken (hr_authorization raw))";
        cases "case AuthenticateAccessToken (sr_auth s) (scheduler_bearerToken (hr_authorization raw)) of Inr (u, role) \<Rightarrow> u = uuid_Nil | _ \<Rightarrow> False")
      (auto simp: scheduler_requireIdentity_def unbound_def identity_problem split: prod.splits)
qed (metis bound)

end
