(* ===== verification/Auth_Http.thy ===== *)
theory Auth_Http
  imports Http_Responses
begin

text \<open>
  The routes of the auth module: its generated bindings (auth/api/http/openapi.gen.go) and their
  registration (\<open>Register\<close> in auth/api/http/handler.go), as theory Http\_Routes does for the scheduler.
  \<open>auth_handle\<close> (theory Auth\_Service) checks the identity itself; on the routes the check comes before
  the bindings, so a request nobody signed is refused whatever its body is.
\<close>

section \<open>Bodies\<close>

definition decode_CreateSuperadminRequest :: "binders \<Rightarrow> body_value \<Rightarrow> (string \<times> string \<times> string option) result" where
  "decode_CreateSuperadminRequest x body =
     rbind (members body) (\<lambda>fs.
     rbind (value_field ''email'' (bn_email x) [] fs) (\<lambda>email.
     rbind (read_field ''full_name'' (pointer_to text_of) fs) (\<lambda>fullName.
     rbind (plain_field ''password'' text_of [] fs) (\<lambda>password.
     Inr (email, password, fullName)))))"

definition decode_SignUpRequest :: "binders \<Rightarrow> body_value \<Rightarrow> (string \<times> string \<times> string option) result" where
  "decode_SignUpRequest x body =
     rbind (members body) (\<lambda>fs.
     rbind (value_field ''email'' (bn_email x) [] fs) (\<lambda>email.
     rbind (read_field ''full_name'' (pointer_to text_of) fs) (\<lambda>fullName.
     rbind (plain_field ''password'' text_of [] fs) (\<lambda>password.
     Inr (email, password, fullName)))))"

definition decode_CredentialsRequest :: "binders \<Rightarrow> body_value \<Rightarrow> (string \<times> string \<times> bool option) result" where
  "decode_CredentialsRequest x body =
     rbind (members body) (\<lambda>fs.
     rbind (value_field ''email'' (bn_email x) [] fs) (\<lambda>email.
     rbind (plain_field ''password'' text_of [] fs) (\<lambda>password.
     rbind (read_field ''store_delivery_email'' (pointer_to bool_of) fs) (\<lambda>storeDeliveryEmail.
     Inr (email, password, storeDeliveryEmail)))))"

definition decode_ChangePasswordRequest :: "body_value \<Rightarrow> (string \<times> string \<times> bool option) result" where
  "decode_ChangePasswordRequest body =
     rbind (members body) (\<lambda>fs.
     rbind (plain_field ''new_password'' text_of [] fs) (\<lambda>newPassword.
     rbind (plain_field ''password'' text_of [] fs) (\<lambda>password.
     rbind (read_field ''sign_out_all'' (pointer_to bool_of) fs) (\<lambda>signOutAll.
     Inr (password, newPassword, signOutAll)))))"

definition decode_UpdateFullNameRequest :: "body_value \<Rightarrow> string result" where
  "decode_UpdateFullNameRequest body =
     rbind (members body) (\<lambda>fs. plain_field ''full_name'' text_of [] fs)"

definition decode_UpdateRoleRequest :: "body_value \<Rightarrow> string result" where
  "decode_UpdateRoleRequest body =
     rbind (members body) (\<lambda>fs. plain_field ''role'' text_of [] fs)"

definition decode_UpdateStatusRequest :: "body_value \<Rightarrow> string result" where
  "decode_UpdateStatusRequest body =
     rbind (members body) (\<lambda>fs. plain_field ''status'' text_of [] fs)"

section \<open>Responses\<close>

text \<open>As in theory Http\_Responses: the method an answer needs, what a strict handler does with an answer,
  and the responses of each operation.\<close>

type_synonym auth_responder = "auth_db \<Rightarrow> auth_answer \<times> auth_db"

fun auth_visitor_of :: "auth_answer \<Rightarrow> visitor option" where
  "auth_visitor_of (UserCreated201 i) = Some (VisitJSON 201)"
| "auth_visitor_of (Tokens200 access expires kind refresh) = Some (VisitJSON 200)"
| "auth_visitor_of AuthNoContent204 = Some (VisitStatus 204)"
| "auth_visitor_of (SignedOut204 cookie) = Some (VisitStatus 204)"
| "auth_visitor_of (AuthProblem status message slug details) = Some (VisitJSON status)"
| "auth_visitor_of (Unhandled err) = None"
| "auth_visitor_of (AuthUnbound status) = None"

definition auth_visited :: "visitor list \<Rightarrow> auth_answer \<Rightarrow> bool" where
  "auth_visited visitors a = (case auth_visitor_of a of None \<Rightarrow> True | Some v \<Rightarrow> v \<in> set visitors)"

definition auth_visiting :: "visitor list \<Rightarrow> auth_responder \<Rightarrow> auth_responder" where
  "auth_visiting visitors handler d =
     (case handler d of
        (a, d') \<Rightarrow> (if auth_visited visitors a then a else Unhandled (ErrorString ''unexpected response type''), d'))"

definition CreateSuperadmin_visitors :: "visitor list" where
  "CreateSuperadmin_visitors = [VisitJSON 201, VisitJSON 400, VisitJSON 409, VisitJSON 500]"

definition RefreshToken_visitors :: "visitor list" where
  "RefreshToken_visitors = [VisitJSON 200, VisitJSON 401]"

definition SignIn_visitors :: "visitor list" where
  "SignIn_visitors = [VisitJSON 200, VisitJSON 400, VisitJSON 401]"

definition SignOutAllDevices_visitors :: "visitor list" where
  "SignOutAllDevices_visitors = [VisitStatus 204, VisitJSON 401]"

definition SignUp_visitors :: "visitor list" where
  "SignUp_visitors = [VisitJSON 201, VisitJSON 400, VisitJSON 409]"

definition UpdateFullName_visitors :: "visitor list" where
  "UpdateFullName_visitors = [VisitStatus 204, VisitJSON 400, VisitJSON 401, VisitJSON 403, VisitJSON 404]"

definition ChangePassword_visitors :: "visitor list" where
  "ChangePassword_visitors = [VisitStatus 204, VisitJSON 400, VisitJSON 401, VisitJSON 403, VisitJSON 404]"

definition UpdateUserRole_visitors :: "visitor list" where
  "UpdateUserRole_visitors = [VisitStatus 204, VisitJSON 400, VisitJSON 401, VisitJSON 403, VisitJSON 404]"

definition UpdateUserStatus_visitors :: "visitor list" where
  "UpdateUserStatus_visitors = [VisitStatus 204, VisitJSON 400, VisitJSON 401, VisitJSON 403, VisitJSON 404]"

section \<open>Strict handlers\<close>

definition auth_unbound :: "int \<Rightarrow> auth_responder" where
  "auth_unbound status = Pair (AuthUnbound status)"

definition CreateSuperadmin_strict :: "binders \<Rightarrow> (auth_request \<Rightarrow> auth_responder) \<Rightarrow> http_content \<Rightarrow> auth_responder" where
  "CreateSuperadmin_strict x k content =
     bind_body auth_unbound (decode_CreateSuperadminRequest x) content (\<lambda>b.
       auth_visiting CreateSuperadmin_visitors (k (ReqCreateSuperadmin (Some b))))"

text \<open>The handler reads the refresh cookie; here it comes with the request.\<close>

definition RefreshToken_strict :: "(auth_request \<Rightarrow> auth_responder) \<Rightarrow> string option \<Rightarrow> auth_responder" where
  "RefreshToken_strict k cookie = auth_visiting RefreshToken_visitors (k (ReqRefreshToken cookie))"

definition SignIn_strict :: "binders \<Rightarrow> (auth_request \<Rightarrow> auth_responder) \<Rightarrow> http_content \<Rightarrow> auth_responder" where
  "SignIn_strict x k content =
     bind_body auth_unbound (decode_CredentialsRequest x) content (\<lambda>b.
       auth_visiting SignIn_visitors (k (ReqSignIn (Some b))))"

definition SignOutAllDevices_strict :: "(auth_request \<Rightarrow> auth_responder) \<Rightarrow> auth_responder" where
  "SignOutAllDevices_strict k = auth_visiting SignOutAllDevices_visitors (k ReqSignOutAllDevices)"

definition SignUp_strict :: "binders \<Rightarrow> (auth_request \<Rightarrow> auth_responder) \<Rightarrow> http_content \<Rightarrow> auth_responder" where
  "SignUp_strict x k content =
     bind_body auth_unbound (decode_SignUpRequest x) content (\<lambda>b.
       auth_visiting SignUp_visitors (k (ReqSignUp (Some b))))"

definition UpdateFullName_strict :: "(auth_request \<Rightarrow> auth_responder) \<Rightarrow> uuid \<Rightarrow> http_content \<Rightarrow> auth_responder" where
  "UpdateFullName_strict k i content =
     bind_body auth_unbound decode_UpdateFullNameRequest content (\<lambda>b.
       auth_visiting UpdateFullName_visitors (k (ReqUpdateFullName i (Some b))))"

definition ChangePassword_strict :: "(auth_request \<Rightarrow> auth_responder) \<Rightarrow> uuid \<Rightarrow> http_content \<Rightarrow> auth_responder" where
  "ChangePassword_strict k i content =
     bind_body auth_unbound decode_ChangePasswordRequest content (\<lambda>b.
       auth_visiting ChangePassword_visitors (k (ReqChangePassword i (Some b))))"

definition UpdateUserRole_strict :: "(auth_request \<Rightarrow> auth_responder) \<Rightarrow> uuid \<Rightarrow> http_content \<Rightarrow> auth_responder" where
  "UpdateUserRole_strict k i content =
     bind_body auth_unbound decode_UpdateRoleRequest content (\<lambda>b.
       auth_visiting UpdateUserRole_visitors (k (ReqUpdateUserRole i (Some b))))"

definition UpdateUserStatus_strict :: "(auth_request \<Rightarrow> auth_responder) \<Rightarrow> uuid \<Rightarrow> http_content \<Rightarrow> auth_responder" where
  "UpdateUserStatus_strict k i content =
     bind_body auth_unbound decode_UpdateStatusRequest content (\<lambda>b.
       auth_visiting UpdateUserStatus_visitors (k (ReqUpdateUserStatus i (Some b))))"

section \<open>Wrappers\<close>

definition CreateSuperadmin_wrapper :: "binders \<Rightarrow> (auth_request \<Rightarrow> auth_responder) \<Rightarrow> http_raw \<Rightarrow> auth_responder" where
  "CreateSuperadmin_wrapper x k r = CreateSuperadmin_strict x k (hr_content r)"

definition RefreshToken_wrapper :: "binders \<Rightarrow> (auth_request \<Rightarrow> auth_responder) \<Rightarrow> http_raw \<Rightarrow> auth_responder" where
  "RefreshToken_wrapper x k r = RefreshToken_strict k (hr_cookie r ''refresh_token'')"

definition SignIn_wrapper :: "binders \<Rightarrow> (auth_request \<Rightarrow> auth_responder) \<Rightarrow> http_raw \<Rightarrow> auth_responder" where
  "SignIn_wrapper x k r = SignIn_strict x k (hr_content r)"

definition SignOutAllDevices_wrapper :: "binders \<Rightarrow> (auth_request \<Rightarrow> auth_responder) \<Rightarrow> http_raw \<Rightarrow> auth_responder" where
  "SignOutAllDevices_wrapper x k r = SignOutAllDevices_strict k"

definition SignUp_wrapper :: "binders \<Rightarrow> (auth_request \<Rightarrow> auth_responder) \<Rightarrow> http_raw \<Rightarrow> auth_responder" where
  "SignUp_wrapper x k r = SignUp_strict x k (hr_content r)"

definition UpdateFullName_wrapper :: "binders \<Rightarrow> (auth_request \<Rightarrow> auth_responder) \<Rightarrow> http_raw \<Rightarrow> auth_responder" where
  "UpdateFullName_wrapper x k r =
     bind_path auth_unbound x r ''id'' (\<lambda>i. UpdateFullName_strict k i (hr_content r))"

definition ChangePassword_wrapper :: "binders \<Rightarrow> (auth_request \<Rightarrow> auth_responder) \<Rightarrow> http_raw \<Rightarrow> auth_responder" where
  "ChangePassword_wrapper x k r =
     bind_path auth_unbound x r ''id'' (\<lambda>i. ChangePassword_strict k i (hr_content r))"

definition UpdateUserRole_wrapper :: "binders \<Rightarrow> (auth_request \<Rightarrow> auth_responder) \<Rightarrow> http_raw \<Rightarrow> auth_responder" where
  "UpdateUserRole_wrapper x k r =
     bind_path auth_unbound x r ''id'' (\<lambda>i. UpdateUserRole_strict k i (hr_content r))"

definition UpdateUserStatus_wrapper :: "binders \<Rightarrow> (auth_request \<Rightarrow> auth_responder) \<Rightarrow> http_raw \<Rightarrow> auth_responder" where
  "UpdateUserStatus_wrapper x k r =
     bind_path auth_unbound x r ''id'' (\<lambda>i. UpdateUserStatus_strict k i (hr_content r))"

section \<open>The registration\<close>

record auth_http_route =
  ar_Method :: string
  ar_Path :: string
  ar_Wrapper :: "(auth_request \<Rightarrow> auth_responder) \<Rightarrow> http_raw \<Rightarrow> auth_responder"
  ar_Key :: string

definition auth_route ::
  "string \<Rightarrow> string \<Rightarrow> ((auth_request \<Rightarrow> auth_responder) \<Rightarrow> http_raw \<Rightarrow> auth_responder) \<Rightarrow> string \<Rightarrow> auth_http_route" where
  "auth_route m p w key = \<lparr>ar_Method = m, ar_Path = ''/auth/v1'' @ p, ar_Wrapper = w, ar_Key = key\<rparr>"

definition auth_routes :: "binders \<Rightarrow> auth_http_route list" where
  "auth_routes x =
     [auth_route ''POST'' ''/internal/superadmin'' (CreateSuperadmin_wrapper x) ''createSuperadmin'',
      auth_route ''POST'' ''/sign-up'' (SignUp_wrapper x) ''signUp'',
      auth_route ''POST'' ''/sign-in'' (SignIn_wrapper x) ''signIn'',
      auth_route ''POST'' ''/refresh-token'' (RefreshToken_wrapper x) ''refreshToken'',
      auth_route ''POST'' ''/sign-out-all-devices'' (SignOutAllDevices_wrapper x) ''signOutAllDevices'',
      auth_route ''PUT'' ''/users/:id/password'' (ChangePassword_wrapper x) ''changePassword'',
      auth_route ''PATCH'' ''/users/:id/full-name'' (UpdateFullName_wrapper x) ''updateFullName'',
      auth_route ''PATCH'' ''/users/:id/status'' (UpdateUserStatus_wrapper x) ''updateUserStatus'',
      auth_route ''PATCH'' ''/users/:id/role'' (UpdateUserRole_wrapper x) ''updateUserRole'']"

definition identified_operations :: "string list" where
  "identified_operations =
     [''signOutAllDevices'', ''changePassword'', ''updateFullName'', ''updateUserStatus'', ''updateUserRole'']"

definition auth_http_call :: "auth_env \<Rightarrow> http_raw \<Rightarrow> auth_request \<Rightarrow> auth_call" where
  "auth_http_call env raw req =
     \<lparr>ac_env = env, ac_authorization = hr_authorization raw, ac_access_cookie = hr_cookie raw ''access_token'',
      ac_request = req\<rparr>"

definition auth_http_serve :: "auth_env \<Rightarrow> auth_http_route \<Rightarrow> http_raw \<Rightarrow> auth_responder" where
  "auth_http_serve env rt raw =
     (let handler = ar_Wrapper rt (\<lambda>req. auth_handle (auth_http_call env raw req)) raw in
      if ar_Key rt \<in> set identified_operations
      then requireIdentity (auth_http_call env raw ReqSignOutAllDevices) (\<lambda>actor. handler)
      else handler)"

lemmas auth_strict_defs =
  CreateSuperadmin_strict_def RefreshToken_strict_def SignIn_strict_def SignOutAllDevices_strict_def SignUp_strict_def
  UpdateFullName_strict_def ChangePassword_strict_def UpdateUserRole_strict_def UpdateUserStatus_strict_def

lemmas auth_wrapper_defs =
  CreateSuperadmin_wrapper_def RefreshToken_wrapper_def SignIn_wrapper_def SignOutAllDevices_wrapper_def SignUp_wrapper_def
  UpdateFullName_wrapper_def ChangePassword_wrapper_def UpdateUserRole_wrapper_def UpdateUserStatus_wrapper_def

lemmas auth_visitors_defs =
  CreateSuperadmin_visitors_def RefreshToken_visitors_def SignIn_visitors_def SignOutAllDevices_visitors_def SignUp_visitors_def
  UpdateFullName_visitors_def ChangePassword_visitors_def UpdateUserRole_visitors_def UpdateUserStatus_visitors_def

section \<open>Answers\<close>

text \<open>Every answer is a response of its operation, as in theory Http\_Answers.\<close>

definition auth_response_types :: "auth_request \<Rightarrow> visitor list" where
  "auth_response_types r =
     (case r of
        ReqCreateSuperadmin _ \<Rightarrow> CreateSuperadmin_visitors
      | ReqSignUp _ \<Rightarrow> SignUp_visitors
      | ReqSignIn _ \<Rightarrow> SignIn_visitors
      | ReqRefreshToken _ \<Rightarrow> RefreshToken_visitors
      | ReqSignOutAllDevices \<Rightarrow> SignOutAllDevices_visitors
      | ReqChangePassword _ _ \<Rightarrow> ChangePassword_visitors
      | ReqUpdateFullName _ _ \<Rightarrow> UpdateFullName_visitors
      | ReqUpdateUserStatus _ _ \<Rightarrow> UpdateUserStatus_visitors
      | ReqUpdateUserRole _ _ \<Rightarrow> UpdateUserRole_visitors)"

lemma auth_visited_identity:
  "VisitJSON 401 \<in> set vs \<Longrightarrow> (\<And>actor. auth_visited vs (fst (next actor d))) \<Longrightarrow> auth_visited vs (fst (requireIdentity c next d))"
  by (simp add: requireIdentity_def plain_problem_def auth_visited_def split: sum.split)

lemma auth_visited_answered: "(\<And>res. auth_visited vs (answer res)) \<Longrightarrow> auth_visited vs (fst (answered answer use_case d))"
  by (simp add: answered_def split: prod.split)

lemma auth_visited_problem:
  "VisitJSON code \<in> set vs \<Longrightarrow> auth_visited vs (plain_problem code slug message)"
  "VisitJSON code \<in> set vs \<Longrightarrow> auth_visited vs (error_answer code err slug message)"
  by (auto simp: auth_visited_def plain_problem_def error_answer_def split: option.split)

lemma auth_handle_documented: "auth_visited (auth_response_types (ac_request c)) (fst (auth_handle c d))"
  by (cases "ac_request c")
    (auto simp: auth_handle_def Let_def auth_response_types_def auth_visitors_defs body_required_def
      create_superadmin_answer_def sign_up_answer_def tokens_answer_def account_answer_def changePasswordResponse_def
      auth_visited_def [of _ AuthNoContent204] auth_visited_def [of _ "UserCreated201 _"]
      auth_visited_def [of _ "Tokens200 _ _ _ _"] auth_visited_def [of _ "SignedOut204 _"] auth_visited_def [of _ "Unhandled _"]
      intro!: auth_visited_identity auth_visited_answered auth_visited_problem split: option.split sum.split)

lemma auth_visiting_handle:
  "ac_request c = r \<Longrightarrow> vs = auth_response_types r \<Longrightarrow> auth_visiting vs (auth_handle c) = auth_handle c"
  using auth_handle_documented [of c] by (auto simp: auth_visiting_def fun_eq_iff split: prod.split) (metis fst_conv)

text \<open>A request on a route is refused, or is the request of theory Auth\_Service that its bindings read.\<close>

definition auth_binds :: "((auth_request \<Rightarrow> auth_responder) \<Rightarrow> auth_responder) \<Rightarrow> bool" where
  "auth_binds w \<longleftrightarrow> (\<exists>status. \<forall>k. w k = auth_unbound status)
     \<or> (\<exists>r. \<forall>k. w k = auth_visiting (auth_response_types r) (k r))"

lemma auth_binds_refusal: "auth_binds (\<lambda>k. auth_unbound status)"
  by (auto simp: auth_binds_def)

lemma auth_binds_call: "vs = auth_response_types r \<Longrightarrow> auth_binds (\<lambda>k. auth_visiting vs (k r))"
  by (auto simp: auth_binds_def)

lemma auth_binds_path: "(\<And>i. auth_binds (\<lambda>k. f k i)) \<Longrightarrow> auth_binds (\<lambda>k. bind_path auth_unbound x raw name (f k))"
  by (cases "bn_path_uuid x (hr_param raw name)") (simp_all add: bind_path_def auth_binds_refusal)

lemma auth_binds_body: "(\<And>b. auth_binds (\<lambda>k. f k b)) \<Longrightarrow> auth_binds (\<lambda>k. bind_body auth_unbound dec content (f k))"
  by (cases content; cases "dec (case content of JsonContent v \<Rightarrow> v | _ \<Rightarrow> BNull)")
    (simp_all add: bind_body_def auth_binds_refusal)

lemma auth_route_binds:
  assumes "rt \<in> set (auth_routes x)"
  shows "auth_binds (\<lambda>k. ar_Wrapper rt k raw)"
proof -
  have "list_all (\<lambda>rt. auth_binds (\<lambda>k. ar_Wrapper rt k raw)) (auth_routes x)"
    unfolding auth_routes_def auth_route_def list.pred_inject(2) auth_http_route.select_convs auth_wrapper_defs auth_strict_defs
    by (intro conjI auth_binds_path auth_binds_body auth_binds_call all_nil) (simp_all add: auth_response_types_def)
  then show ?thesis using assms by (simp add: list_all_iff)
qed

lemma auth_http_serve_cases:
  assumes "rt \<in> set (auth_routes x)"
  obtains (refused) a where "auth_http_serve env rt raw d = (a, d)"
  | (bound) req where "auth_http_serve env rt raw d = auth_handle (auth_http_call env raw req) d"
proof (cases "auth_http_serve env rt raw d = ar_Wrapper rt (\<lambda>req. auth_handle (auth_http_call env raw req)) raw d")
  case True
  then show ?thesis
    using auth_route_binds [OF assms, of raw] refused bound
    by (auto simp: auth_binds_def auth_unbound_def auth_visiting_handle auth_http_call_def)
next
  case False
  then show ?thesis
    using refused by (auto simp: auth_http_serve_def Let_def requireIdentity_def split: if_splits sum.splits)
qed

end
