(* ===== verification/Server.thy ===== *)
theory Server
  imports Http_Facts Auth_Http Idempotency
begin

text \<open>
  The server as it is put together in \<open>New\<close> (service.go): the routes of the auth module and of the
  scheduler in one router, behind the idempotency middleware, which is installed for every route and
  comes before \<open>requireIdentity\<close> and the bindings. Its state is what the process keeps outside itself:
  the keys in Redis, the accounts and the scheduler's database.

  \<open>server_step\<close> serves one request after the other; theory Idempotency interleaves the middleware of
  concurrent ones. The error values of the framework are a parameter (\<open>http_error\<close>).
\<close>

datatype server_route =
    AuthRoute auth_http_route
  | SchedulerRoute http_route

definition server_routes :: "binders \<Rightarrow> server_route list" where
  "server_routes x = map AuthRoute (auth_routes x) @ map SchedulerRoute (scheduler_routes x)"

definition sv_Method :: "server_route \<Rightarrow> string" where
  "sv_Method rt = (case rt of AuthRoute a \<Rightarrow> ar_Method a | SchedulerRoute h \<Rightarrow> rt_Method h)"

definition sv_Path :: "server_route \<Rightarrow> string" where
  "sv_Path rt = (case rt of AuthRoute a \<Rightarrow> ar_Path a | SchedulerRoute h \<Rightarrow> rt_Path h)"

record server_call =
  sc_surroundings :: surroundings
  sc_http_error :: "int \<Rightarrow> go_error"
  sc_now :: int
  sc_reserve_fault :: fault
  sc_release_fault :: fault
  sc_route :: server_route
  sc_raw :: http_raw

datatype server_answer =
    AuthAnswer auth_answer
  | SchedulerAnswer api_answer

type_synonym server_state = "redis \<times> auth_db \<times> db"

section \<open>Answers\<close>

text \<open>The status of an answer of the auth module.\<close>

definition auth_answer_status :: "auth_answer \<Rightarrow> int" where
  "auth_answer_status a =
     (case a of
        UserCreated201 i \<Rightarrow> 201
      | Tokens200 access expires kind refresh \<Rightarrow> 200
      | AuthNoContent204 \<Rightarrow> 204
      | SignedOut204 cookie \<Rightarrow> 204
      | AuthProblem status message slug details \<Rightarrow> status
      | Unhandled err \<Rightarrow> (case httpErrorResponseFromErr err of (message, slug, status) \<Rightarrow> status)
      | AuthUnbound status \<Rightarrow> status)"

text \<open>What the middleware sees of an answer: the error a handler returned and the status of the response
  (\<open>responseStatus\<close> in common/http/middleware.go).\<close>

definition server_outcome :: "(int \<Rightarrow> go_error) \<Rightarrow> server_answer \<Rightarrow> go_error option \<times> int" where
  "server_outcome http_error a =
     (case a of
        AuthAnswer (Unhandled err) \<Rightarrow> (Some err, auth_answer_status (Unhandled err))
      | AuthAnswer (AuthUnbound status) \<Rightarrow> (Some (http_error status), status)
      | AuthAnswer b \<Rightarrow> (None, auth_answer_status b)
      | SchedulerAnswer (Escaped err) \<Rightarrow> (Some err, answer_status (Escaped err))
      | SchedulerAnswer (Unbound status) \<Rightarrow> (Some (http_error status), status)
      | SchedulerAnswer b \<Rightarrow> (None, answer_status b))"

section \<open>A request\<close>

definition module_serve :: "server_call \<Rightarrow> auth_db \<times> db \<Rightarrow> server_answer \<times> auth_db \<times> db" where
  "module_serve c = (\<lambda>(accounts, d).
     case sc_route c of
       AuthRoute rt \<Rightarrow>
         (case auth_http_serve (sr_auth (sc_surroundings c)) rt (sc_raw c) accounts of
            (a, accounts') \<Rightarrow> (AuthAnswer a, accounts', d))
     | SchedulerRoute rt \<Rightarrow>
         (case http_serve (sc_surroundings c) accounts rt (sc_raw c) d of
            (a, d') \<Rightarrow> (SchedulerAnswer a, accounts, d')))"

definition idempotent_request :: "server_call \<Rightarrow> idem_request" where
  "idempotent_request c =
     \<lparr>rq_Method = sv_Method (sc_route c), rq_Path = sv_Path (sc_route c),
      rq_IdempotencyID = hr_idempotency_id (sc_raw c)\<rparr>"

text \<open>A request with its answer: what the middleware made of it, and the answer of the handler if it ran.\<close>

definition server_step :: "server_call \<Rightarrow> server_state \<Rightarrow> (middleware_answer \<times> server_answer option) \<times> server_state" where
  "server_step c = (\<lambda>(keys, accounts, d).
     case IdempotencyMiddleware NewIdempotencyStore (sc_reserve_fault c) (sc_release_fault c) (sc_now c)
        (\<lambda>(s, none). case module_serve c s of (a, s') \<Rightarrow> (server_outcome (sc_http_error c) a, s', Some a))
        (idempotent_request c) (keys, (accounts, d), None) of
       (m, keys', s', a) \<Rightarrow> ((m, a), keys', s'))"

fun server_run :: "server_call list \<Rightarrow> server_state \<Rightarrow> server_state" where
  "server_run [] st = st"
| "server_run (c # cs) st = server_run cs (snd (server_step c st))"

section \<open>One step\<close>

text \<open>The databases after a step: as they were, or as the handler left them.\<close>

lemma server_step_modules:
  "snd (snd (server_step c (keys, s))) = s \<or> snd (snd (server_step c (keys, s))) = snd (module_serve c s)"
  by (cases s) (auto simp: server_step_def IdempotencyMiddleware_def split: prod.split sum.split option.split if_split)

lemma module_serve_state:
  assumes "module_serve c (accounts, d) = (a, accounts', d')"
  shows "(\<exists>rt b. sc_route c = AuthRoute rt \<and> d' = d \<and> a = AuthAnswer b
      \<and> auth_http_serve (sr_auth (sc_surroundings c)) rt (sc_raw c) accounts = (b, accounts'))
    \<or> (\<exists>rt b. sc_route c = SchedulerRoute rt \<and> accounts' = accounts \<and> a = SchedulerAnswer b
      \<and> http_serve (sc_surroundings c) accounts rt (sc_raw c) d = (b, d'))"
  using assms by (auto simp: module_serve_def split: server_route.splits prod.splits)

text \<open>Whatever relates the databases before and after every handler relates them across a history.\<close>

lemma server_run_induct:
  assumes "\<And>c keys s. c \<in> set cs \<Longrightarrow> P s \<Longrightarrow> P (snd (module_serve c s))" and "P s"
  shows "P (snd (server_run cs (keys, s)))"
  using assms
proof (induction cs arbitrary: keys s)
  case (Cons c cs)
  obtain a keys' s' where step: "server_step c (keys, s) = (a, keys', s')" by (cases "server_step c (keys, s)") auto
  have "s' = s \<or> s' = snd (module_serve c s)" using server_step_modules [of c keys s] step by simp
  then have "P s'" using Cons.prems by (metis list.set_intros(1))
  from Cons.IH [OF _ this] Cons.prems(1) show ?case by (simp add: step)
qed simp

text \<open>The accounts move only as the auth module moves them, the scheduler's database only as the scheduler
  does.\<close>

lemma auth_http_evolves:
  assumes "rt \<in> set (auth_routes x)" and "auth_env_ok env"
  shows "evolves d (snd (auth_http_serve env rt raw d))"
proof (rule auth_http_serve_cases [OF assms(1), of env raw d])
  fix req
  assume "auth_http_serve env rt raw d = auth_handle (auth_http_call env raw req) d"
  then show ?thesis
    using versions.request_keeps [of "auth_http_call env raw req" d] assms(2)
    by (simp add: auth_step_def auth_http_call_def permits_def split: sum.split)
qed (simp add: versions.same)

context program_invariant
begin

lemma http_serve_keeps:
  assumes "rt \<in> set (scheduler_routes x)" and "api_within I s" and "I d"
  shows "I (snd (http_serve s accounts rt raw d))"
proof (rule http_serve_cases [OF assms(1), of s accounts raw d])
  fix r
  assume "http_serve s accounts rt raw d = api_serve s accounts (hr_authorization raw) r d"
  then show ?thesis using api_serve_keeps [OF assms(2,3)] by simp
qed (use assms(3) in simp_all)

end

definition sound_call :: "(db \<Rightarrow> bool) \<Rightarrow> binders \<Rightarrow> server_call \<Rightarrow> bool" where
  "sound_call I x c \<longleftrightarrow> sc_route c \<in> set (server_routes x) \<and> api_within I (sc_surroundings c)
     \<and> auth_env_ok (sr_auth (sc_surroundings c))"

context program_invariant
begin

lemma module_serve_keeps:
  assumes "sound_call I x c" and "evolves accounts (fst s)" and "I (snd s)"
  shows "evolves accounts (fst (snd (module_serve c s))) \<and> I (snd (snd (module_serve c s)))"
proof (cases "sc_route c")
  case (AuthRoute rt)
  then have "rt \<in> set (auth_routes x)" "auth_env_ok (sr_auth (sc_surroundings c))"
    using assms(1) by (auto simp: sound_call_def server_routes_def)
  from versions.trans [OF assms(2) auth_http_evolves [OF this, of "fst s" "sc_raw c"]] show ?thesis
    using assms(3)
    by (cases s; cases "auth_http_serve (sr_auth (sc_surroundings c)) rt (sc_raw c) (fst s)")
      (simp add: module_serve_def AuthRoute)
next
  case (SchedulerRoute rt)
  then have "rt \<in> set (scheduler_routes x)" "api_within I (sc_surroundings c)"
    using assms(1) by (auto simp: sound_call_def server_routes_def)
  from http_serve_keeps [OF this assms(3), of "fst s" "sc_raw c"] show ?thesis
    using assms(2)
    by (cases s; cases "http_serve (sc_surroundings c) (fst s) rt (sc_raw c) (snd s)")
      (simp add: module_serve_def SchedulerRoute)
qed

lemma server_run_keeps:
  assumes "list_all (sound_call I x) cs" and "auth_inv accounts" and "I d"
    and "server_run cs (keys, accounts, d) = (keys', accounts', d')"
  shows "auth_inv accounts' \<and> evolves accounts accounts' \<and> I d'"
proof -
  have "evolves accounts (fst (snd (server_run cs (keys, accounts, d)))) \<and> I (snd (snd (server_run cs (keys, accounts, d))))"
    by (rule server_run_induct [where P = "\<lambda>s. evolves accounts (fst s) \<and> I (snd s)"])
      (use assms(1,3) module_serve_keeps versions.same in \<open>auto simp: list_all_iff\<close>)
  then show ?thesis using assms(2,4) by (simp add: evolves_def)
qed

end

section \<open>Keys\<close>

section \<open>Keys\<close>

text \<open>A step leaves a held key held, unless it is the request that holds it.\<close>

lemma held_key_kept:
  assumes "key_held keys key t" and "sc_now c \<le> t" and "server_step c (keys, s) = (a, keys', s')"
  shows "key_held keys' key t"
proof -
  have held: "key_held keys key (sc_now c)" using assms(1,2) by (auto simp: key_held_def split: option.splits)
  have other: "request_key (idempotent_request c) = Inr (Some k) \<Longrightarrow> keys' = keys \<or> k \<noteq> key \<and>
      (\<exists>v. keys' = keys(k := v))" for k
    using assms(3) held
    by (cases s) (auto simp: server_step_def IdempotencyMiddleware_def NewIdempotencyStore_def redis_Reserve_def
        redis_Release_def SetNX_def split: prod.splits sum.splits option.splits if_splits)
  have none: "\<forall>k. request_key (idempotent_request c) \<noteq> Inr (Some k) \<Longrightarrow> keys' = keys"
    using assms(3)
    by (cases s) (auto simp: server_step_def IdempotencyMiddleware_def split: prod.splits sum.splits option.splits)
  show ?thesis
    using assms(1) other none by (cases "\<exists>k. request_key (idempotent_request c) = Inr (Some k)")
      (auto simp: key_held_def)
qed

lemma held_key_refused:
  assumes "key_held keys key (sc_now c)" and "request_key (idempotent_request c) = Inr (Some key)"
    and "sc_reserve_fault c = None"
  shows "server_step c (keys, s) = ((Refused 409 ''idempotency_id_reused'', None), keys, s)"
  using assms
  by (cases s) (simp add: server_step_def IdempotencyMiddleware_def NewIdempotencyStore_def redis_Reserve_def SetNX_def)

lemma run_keeps_held_key:
  assumes "key_held keys key t" and "\<forall>c\<in>set cs. sc_now c \<le> t"
  shows "key_held (fst (server_run cs (keys, s))) key t"
  using assms
proof (induction cs arbitrary: keys s)
  case (Cons c cs)
  obtain a keys' s' where step: "server_step c (keys, s) = (a, keys', s')" by (cases "server_step c (keys, s)") auto
  then have "key_held keys' key t" using held_key_kept [of keys key t c s a keys' s'] Cons.prems by simp
  then show ?case using Cons by (simp add: step)
qed simp

text \<open>A success keeps its key for a day.\<close>

lemma success_holds_key:
  assumes "server_step c (keys, s) = ((Passed None status, a), keys', s')" and "200 \<le> status" and "status < 300"
    and "request_key (idempotent_request c) = Inr (Some key)" and "t < sc_now c + idempotencyKeyTTL"
  shows "key_held keys' key t"
  using assms
  by (cases s) (auto simp: server_step_def IdempotencyMiddleware_def NewIdempotencyStore_def redis_Reserve_def
      SetNX_def must_release_def release_answer_def key_held_def split: prod.splits sum.splits option.splits if_splits)

end
