(* ===== verification/Http_Properties.thy ===== *)
theory Http_Properties
  imports Server Api_Properties
begin

text \<open>
  What the server guarantees of a request on any of its routes, each applied to the dealership of theory
  Scenario behind the accounts of theory Auth\_Scenario: who acts, what an error or a read leaves behind,
  what a repeated request does, and what holds after any history of both modules.
\<close>

section \<open>A client\<close>

text \<open>The bindings read the texts of the model's own uuids and nothing else.\<close>

definition plain_binders :: binders where
  "plain_binders =
     \<lparr>bn_path_uuid = (\<lambda>s. case parse_uuid_text s of Inl e \<Rightarrow> None | Inr i \<Rightarrow> Some i),
      bn_required_uuid = (\<lambda>n q. None), bn_required_time = (\<lambda>n q. None), bn_required_date = (\<lambda>n q. None),
      bn_required_email = (\<lambda>n q. None), bn_optional_text = (\<lambda>n q. Some None), bn_optional_texts = (\<lambda>n q. Some None),
      bn_optional_bool = (\<lambda>n q. Some None), bn_optional_int = (\<lambda>n q. Some None), bn_optional_time = (\<lambda>n q. Some None),
      bn_optional_email = (\<lambda>n q. Some None), bn_uuid = (\<lambda>s. None), bn_time = (\<lambda>s. None), bn_email = text_of,
      bn_parse_time = (\<lambda>s. Inl wrong_kind)\<rparr>"

text \<open>Ann opens on Tuesdays, with a key of her own, and closes a bay that is in use.\<close>

definition hours_route :: http_route where
  "hours_route = route ''POST'' ''/dealerships/:dealershipId/operation-times''
     (CreateDealershipOperationTime_wrapper plain_binders) ''createDealershipOperationTime''"

definition list_hours_route :: http_route where
  "list_hours_route = route ''GET'' ''/dealerships/:dealershipId/operation-times''
     (ListDealershipOperationTimes_wrapper plain_binders) ''listDealershipOperationTimes''"

definition close_bay_route :: http_route where
  "close_bay_route = route ''DELETE'' ''/dealerships/:dealershipId/service-bays/:serviceBayId''
     (DeleteServiceBay_wrapper plain_binders) ''deleteServiceBay''"

definition ann_raw :: "http_content \<Rightarrow> http_raw" where
  "ann_raw content =
     \<lparr>hr_param = (\<lambda>n. uuid_String (if n = ''dealershipId'' then 1 else 9)), hr_query = (\<lambda>n. []), hr_content = content,
      hr_authorization = ann_header, hr_cookie = (\<lambda>n. None), hr_idempotency_id = '' k1 ''\<rparr>"

definition hours_body :: http_content where
  "hours_body = JsonContent (BObject [(''day_of_week'', BInt 2), (''opens_at'', BText ''08:30''), (''closes_at'', BText ''17:05'')])"

lemma client_routes:
  "hours_route \<in> set (scheduler_routes plain_binders)" "list_hours_route \<in> set (scheduler_routes plain_binders)"
  "close_bay_route \<in> set (scheduler_routes plain_binders)"
  unfolding scheduler_routes_def hours_route_def list_hours_route_def close_bay_route_def list.set by blast+

definition ann_sends :: "uuid \<Rightarrow> int \<Rightarrow> http_route \<Rightarrow> http_content \<Rightarrow> server_call" where
  "ann_sends base t rt content =
     \<lparr>sc_surroundings = desk_server base t, sc_http_error = (\<lambda>status. wrong_kind), sc_now = t,
      sc_reserve_fault = None, sc_release_fault = None, sc_route = SchedulerRoute rt, sc_raw = ann_raw content\<rparr>"

section \<open>Who acts\<close>





section \<open>What is left behind\<close>



text \<open>C14. GET is safe: a request with that method changes nothing on any route, whoever sends it and
  whatever it is answered.\<close>

theorem get_changes_nothing:
  assumes "rt \<in> set (scheduler_routes x)" and "rt_Method rt = ''GET''"
  shows "snd (http_serve s accounts rt raw d) = d"
proof (rule http_serve_cases [OF assms(1), of s accounts raw d])
  fix r
  assume r: "proper rt r" and h: "http_serve s accounts rt raw d = api_serve s accounts (hr_authorization raw) r d"
  have "reads r" using r assms(2) by (simp add: proper_def)
  then show ?thesis
    using h reads_nothing_written by (auto simp: api_serve_def scheduler_requireIdentity_def split: sum.splits prod.splits)
qed simp_all

lemma get_changes_nothing_witness:
  "answer_status (fst (http_serve (desk_server 700 5) office_two list_hours_route (ann_raw NoContent) shop)) = 200
   \<and> snd (http_serve (desk_server 700 5) office_two list_hours_route (ann_raw NoContent) shop) = shop"
proof
  show "answer_status (fst (http_serve (desk_server 700 5) office_two list_hours_route (ann_raw NoContent) shop)) = 200"
    by code_simp
  show "snd (http_serve (desk_server 700 5) office_two list_hours_route (ann_raw NoContent) shop) = shop"
    by (rule get_changes_nothing [OF client_routes(2)]) (simp add: list_hours_route_def route_def)
qed

section \<open>Responses\<close>


section \<open>Histories\<close>



text \<open>C25. A repeated write runs once: when a request that names a key was answered with a success, a
  request of the same method on the same route with the same key, sent within 24 hours after it, is
  refused with 409 and changes neither database, whatever requests of both modules came between and
  whatever failed in Redis for them.\<close>

theorem repeated_write_refused:
  assumes first: "server_step c st = ((Passed None status, a), st')" "200 \<le> status" "status < 300"
    and key: "request_key (idempotent_request c) = Inr (Some key)" "request_key (idempotent_request c') = Inr (Some key)"
    and within: "\<forall>x\<in>set (c' # cs). sc_now x < sc_now c + 24 * Hour" and "sc_reserve_fault c' = None"
  shows "server_step c' (server_run cs st') = ((Refused 409 ''idempotency_id_reused'', None), server_run cs st')"
proof -
  obtain keys s keys' s' where st: "st = (keys, s)" "st' = (keys', s')" by (cases st; cases st')
  let ?t = "sc_now c + idempotencyKeyTTL - 1"
  have "key_held keys' key ?t" using success_holds_key [OF first [unfolded st] key(1)] by simp
  then have "key_held (fst (server_run cs st')) key ?t"
    unfolding st by (rule run_keeps_held_key) (use within in \<open>auto simp: idempotencyKeyTTL_def\<close>)
  moreover have "sc_now c' \<le> ?t" using within by (simp add: idempotencyKeyTTL_def)
  ultimately have "key_held (fst (server_run cs st')) key (sc_now c')" by (auto simp: key_held_def split: option.splits)
  from held_key_refused [OF this key(2) assms(7)] show ?thesis by (metis prod.collapse)
qed

lemma repeated_write_refused_witness:
  "server_step (ann_sends 702 7 hours_route hours_body)
     (server_run [ann_sends 701 6 close_bay_route NoContent]
        (snd (server_step (ann_sends 700 5 hours_route hours_body) (\<lambda>k. None, office_two, shop))))
   = ((Refused 409 ''idempotency_id_reused'', None),
      server_run [ann_sends 701 6 close_bay_route NoContent]
        (snd (server_step (ann_sends 700 5 hours_route hours_body) (\<lambda>k. None, office_two, shop))))"
proof -
  let ?first = "server_step (ann_sends 700 5 hours_route hours_body) (\<lambda>k. None, office_two, shop)"
  have "(case fst (fst ?first) of Passed None status \<Rightarrow> status = 201 | _ \<Rightarrow> False)" by code_simp
  then have first: "?first = ((Passed None 201, snd (fst ?first)), snd ?first)"
    by (cases ?first) (auto split: middleware_answer.splits option.splits)
  have key: "request_key (idempotent_request (ann_sends b t hours_route hours_body))
      = Inr (Some ''idempotency:POST:/appointment-scheduler/v1/dealerships/:dealershipId/operation-times:k1'')" for b t
    by (simp add: idempotent_request_def ann_sends_def sv_Method_def sv_Path_def hours_route_def route_def ann_raw_def)
      code_simp
  show ?thesis
    by (rule repeated_write_refused [OF first _ _ key key]) (simp_all add: ann_sends_def Hour_def)
qed

end
