(* ===== verification/Migrations.thy ===== *)
theory Migrations
  imports Domain_Appointment
begin

text \<open>
  The migrations runner (common/migrations.go): at start-up every module applies the files of its directory
  that its schema has not seen. The state is one schema, with the table \<open>schema_migrations\<close>; what a file
  does to the rest of the schema is a parameter (\<open>run\<close>). A run holds an advisory lock from before its
  first statement to its end, so runs of several servers follow one another; it may fail anywhere, and a
  commit may take effect although its answer is lost.
\<close>

section \<open>File names\<close>

type_synonym migration_file = "string \<times> string"

text \<open>\<open>fs.Glob\<close> with \<open>*.up.sql\<close>, then \<open>sort.Strings\<close>: the names in the order of their bytes.\<close>

definition migration_files :: "migration_file list \<Rightarrow> migration_file list" where
  "migration_files directory = sort_key fst (filter (\<lambda>(name, contents). suffix ''.up.sql'' name) directory)"

text \<open>\<open>strings.Cut\<close> at the first underscore and \<open>strconv.ParseInt\<close> with base 10 and 64 bits.\<close>

definition cut_underscore :: "string \<Rightarrow> string option" where
  "cut_underscore name = (if CHR ''_'' \<in> set name then Some (takeWhile (\<lambda>c. c \<noteq> CHR ''_'') name) else None)"

definition decimal_value :: "string \<Rightarrow> int" where
  "decimal_value ds = foldl (\<lambda>n c. 10 * n + (of_char c - 48)) 0 ds"

definition ParseInt :: "string \<Rightarrow> int result" where
  "ParseInt s =
     (let (negative, ds) = (case s of
            [] \<Rightarrow> (False, [])
          | c # cs \<Rightarrow> if c = CHR ''-'' then (True, cs) else if c = CHR ''+'' then (False, cs) else (False, s));
        n = (if negative then - decimal_value ds else decimal_value ds)
      in if ds = [] \<or> \<not> list_all is_digit ds then Inl (ErrorString ''invalid syntax'')
         else if n < - 9223372036854775808 \<or> 9223372036854775807 < n then Inl (ErrorString ''value out of range'')
         else Inr n)"

text \<open>The verb \<open>%q\<close>, for names without quotes, backslashes and control characters; a file is named without its
  directory.\<close>

definition quoted :: "string \<Rightarrow> string" where
  "quoted name = [CHR 0x22] @ name @ [CHR 0x22]"

definition migrationFileVersion :: "string \<Rightarrow> int result" where
  "migrationFileVersion name =
     (case cut_underscore name of
        None \<Rightarrow> Inl (ErrorString (''invalid migration filename '' @ quoted name))
      | Some p \<Rightarrow> rerr (Wrapped (''invalid migration filename '' @ quoted name @ '': '')) (ParseInt p))"

section \<open>A schema\<close>

record 'c module_schema =
  ms_exists :: bool
  ms_versions :: "(int \<times> bool) list option"
  ms_content :: 'c

definition migrationVersion :: "'c module_schema \<Rightarrow> int result" where
  "migrationVersion d =
     (case ms_versions d of
        Some ((version, dirty) # rows) \<Rightarrow>
          if dirty then Inl (ErrorString (''database is at dirty migration version '' @ int_text version)) else Inr version
      | _ \<Rightarrow> Inr 0)"

text \<open>A transaction on the connection: a statement may fail, or the commit, with or without effect.\<close>

datatype migration_fault =
    AppliesCleanly
  | StatementFails go_error
  | CommitFails bool go_error

definition commit_migration :: "migration_fault \<Rightarrow> 'c module_schema \<Rightarrow> 'c module_schema \<Rightarrow> unit result \<times> 'c module_schema" where
  "commit_migration f before after =
     (case f of
        AppliesCleanly \<Rightarrow> (Inr (), after)
      | StatementFails err \<Rightarrow> (Inl err, before)
      | CommitFails applied err \<Rightarrow> (Inl err, if applied then after else before))"

definition applyMigration ::
  "(string \<Rightarrow> 'c \<Rightarrow> 'c result) \<Rightarrow> migration_fault \<Rightarrow> int \<Rightarrow> string \<Rightarrow> 'c module_schema \<Rightarrow> unit result \<times> 'c module_schema" where
  "applyMigration run f version sql d =
     (let d1 = d\<lparr>ms_versions := Some []\<rparr>;
          d2 = d1\<lparr>ms_versions := map_option (\<lambda>rows. rows @ [(version, True)]) (ms_versions d1)\<rparr> in
      case run sql (ms_content d2) of
        Inl err \<Rightarrow> (Inl err, d)
      | Inr content \<Rightarrow>
          let d3 = d2\<lparr>ms_content := content\<rparr>;
              d4 = d3\<lparr>ms_versions := map_option (map (\<lambda>(v, dirty). (v, dirty \<and> v \<noteq> version))) (ms_versions d3)\<rparr>
          in commit_migration f d d4)"

section \<open>A run\<close>

text \<open>What fails: \<open>mf_prepare\<close> before anything is written, the two statements that create the schema and
  its table, the read of the version, and per file the read of it or its transaction.\<close>

record migration_faults =
  mf_prepare :: "go_error option"
  mf_schema :: "go_error option"
  mf_table :: "go_error option"
  mf_version :: "go_error option"
  mf_read :: "string \<Rightarrow> go_error option"
  mf_apply :: "string \<Rightarrow> migration_fault"

fun migrate_files ::
  "(string \<Rightarrow> 'c \<Rightarrow> 'c result) \<Rightarrow> migration_faults \<Rightarrow> migration_file list \<Rightarrow> int \<Rightarrow> 'c module_schema
     \<Rightarrow> unit result \<times> 'c module_schema" where
  "migrate_files run f [] current d = (Inr (), d)"
| "migrate_files run f ((name, contents) # files) current d =
     (case migrationFileVersion name of
        Inl err \<Rightarrow> (Inl err, d)
      | Inr version \<Rightarrow>
          if version \<le> current then migrate_files run f files current d
          else case mf_read f name of
            Some err \<Rightarrow> (Inl (Wrapped (''read migration '' @ name @ '': '') err), d)
          | None \<Rightarrow>
              (case applyMigration run (mf_apply f name) version contents d of
                 (Inl err, d') \<Rightarrow> (Inl (Wrapped (''apply migration '' @ name @ '': '') err), d')
               | (Inr _, d') \<Rightarrow> migrate_files run f files version d'))"

definition MigrateDatabaseUp ::
  "(string \<Rightarrow> 'c \<Rightarrow> 'c result) \<Rightarrow> migration_faults \<Rightarrow> string \<Rightarrow> migration_file list \<Rightarrow> 'c module_schema
     \<Rightarrow> unit result \<times> 'c module_schema" where
  "MigrateDatabaseUp run f schema directory d =
     (if schema = [] then (Inl (ErrorString ''migration schema is required''), d)
      else case mf_prepare f of Some err \<Rightarrow> (Inl err, d) | None \<Rightarrow>
      case mf_schema f of Some err \<Rightarrow> (Inl (Wrapped ''create schema: '' err), d) | None \<Rightarrow>
      let d1 = d\<lparr>ms_exists := True\<rparr> in
      case mf_table f of Some err \<Rightarrow> (Inl (Wrapped ''create migration table: '' err), d1) | None \<Rightarrow>
      let d2 = d1\<lparr>ms_versions := (case ms_versions d1 of None \<Rightarrow> Some [] | Some rows \<Rightarrow> Some rows)\<rparr> in
      case mf_version f of Some err \<Rightarrow> (Inl (Wrapped ''read migration version: '' err), d2) | None \<Rightarrow>
      case migrationVersion d2 of Inl err \<Rightarrow> (Inl err, d2) | Inr current \<Rightarrow>
      migrate_files run f (migration_files directory) current d2)"

section \<open>In order and once\<close>

text \<open>Files whose names number them from 1 upwards, in the order of their names.\<close>

definition well_numbered :: "migration_file list \<Rightarrow> bool" where
  "well_numbered files \<longleftrightarrow> (\<exists>vs. map (migrationFileVersion \<circ> fst) files = map Inr vs
     \<and> sorted_wrt (<) (0 # vs))"

definition version_at :: "migration_file list \<Rightarrow> nat \<Rightarrow> int" where
  "version_at files n = (if n = 0 then 0 else projr (migrationFileVersion (fst (files ! (n - 1)))))"

fun run_files :: "(string \<Rightarrow> 'c \<Rightarrow> 'c result) \<Rightarrow> migration_file list \<Rightarrow> 'c \<Rightarrow> 'c result" where
  "run_files run [] c = Inr c"
| "run_files run (x # files) c = rbind (run (snd x) c) (run_files run files)"

text \<open>The schema has seen exactly the first \<open>n\<close> files, each once and in order, starting from \<open>c0\<close>.\<close>

definition migrated_to :: "(string \<Rightarrow> 'c \<Rightarrow> 'c result) \<Rightarrow> 'c \<Rightarrow> migration_file list \<Rightarrow> nat \<Rightarrow> 'c module_schema \<Rightarrow> bool" where
  "migrated_to run c0 files n d \<longleftrightarrow> n \<le> length files \<and> run_files run (take n files) c0 = Inr (ms_content d)
     \<and> (if n = 0 then ms_versions d \<in> {None, Some []} else ms_versions d = Some [(version_at files n, False)])"

lemma run_files_append: "run_files run (xs @ ys) c = rbind (run_files run xs c) (run_files run ys)"
  by (induction xs arbitrary: c) (auto simp: rbind_def split: sum.split)

lemma well_numbered_versions:
  assumes "well_numbered files"
  shows "i < length files \<Longrightarrow> migrationFileVersion (fst (files ! i)) = Inr (version_at files (Suc i))"
    and "m < n \<Longrightarrow> n \<le> length files \<Longrightarrow> version_at files m < version_at files n"
proof -
  obtain vs where vs: "map (migrationFileVersion \<circ> fst) files = map Inr vs" and sorted: "sorted_wrt (<) (0 # vs)"
    using assms unfolding well_numbered_def by blast
  have len: "length vs = length files" using arg_cong [OF vs, of length] by simp
  have at: "migrationFileVersion (fst (files ! i)) = Inr (vs ! i)" if "i < length files" for i
    using arg_cong [OF vs, of "\<lambda>l. l ! i"] that len by simp
  then show "i < length files \<Longrightarrow> migrationFileVersion (fst (files ! i)) = Inr (version_at files (Suc i))" for i
    by (simp add: version_at_def)
  have "version_at files n = (0 # vs) ! n" if "n \<le> length files" for n
    using that at by (cases n) (simp_all add: version_at_def)
  then show "m < n \<Longrightarrow> n \<le> length files \<Longrightarrow> version_at files m < version_at files n" for m n
    using sorted_wrt_nth_less [OF sorted, of m n] len by simp
qed

lemma migrationVersion_migrated_to: "migrated_to run c0 files n d \<Longrightarrow> migrationVersion d = Inr (version_at files n)"
  by (auto simp: migrated_to_def migrationVersion_def version_at_def split: if_splits)

text \<open>One file moves the schema on by one, or leaves it.\<close>

lemma applyMigration_seen:
  assumes "well_numbered files" and "migrated_to run c0 files n d" and "n < length files"
    and "applyMigration run f (version_at files (Suc n)) (snd (files ! n)) d = (r, d')"
  shows "if r = Inr () then migrated_to run c0 files (Suc n) d' else migrated_to run c0 files n d' \<or> migrated_to run c0 files (Suc n) d'"
proof (cases "run (snd (files ! n)) (ms_content d)")
  case (Inl e)
  then show ?thesis using assms by (auto simp: applyMigration_def Let_def)
next
  case (Inr c)
  let ?after = "d\<lparr>ms_content := c, ms_versions := Some [(version_at files (Suc n), False)]\<rparr>"
  have after: "migrated_to run c0 files (Suc n) ?after"
    using assms(2,3) Inr by (auto simp: migrated_to_def take_Suc_conv_app_nth run_files_append rbind_def)
  have "applyMigration run f (version_at files (Suc n)) (snd (files ! n)) d = commit_migration f d ?after"
    using Inr by (simp add: applyMigration_def Let_def)
  then show ?thesis using assms(2,4) after by (auto simp: commit_migration_def split: migration_fault.splits if_splits)
qed

lemma migrate_files_seen:
  assumes "well_numbered files" and "migrated_to run c0 files n d" and "xs = drop k (take m files)" and "k \<le> n"
    and "migrate_files run f xs (version_at files n) d = (r, d')"
  shows "\<exists>n'\<ge>n. migrated_to run c0 files n' d' \<and> (r = Inr () \<longrightarrow> min m (length files) \<le> n')"
  using assms(2-5)
proof (induction xs arbitrary: k n d)
  case Nil
  then have "min m (length files) \<le> n" by simp
  then show ?case using Nil by auto
next
  case (Cons x xs)
  have k: "k < length (take m files)" using Cons.prems(2) by (metis drop_all linorder_not_le list.distinct(1))
  then have "x = take m files ! k" and xs: "xs = drop (Suc k) (take m files)"
    using Cons.prems(2) by (simp_all add: Cons_nth_drop_Suc [symmetric])
  then have k: "k < length files" "k < m" and x: "x = files ! k" using k by auto
  obtain name contents where nc: "x = (name, contents)" by (cases x)
  have version: "migrationFileVersion name = Inr (version_at files (Suc k))"
    using well_numbered_versions(1) [OF assms(1) k(1)] x nc by (metis fst_conv)
  have run: "migrate_files run f ((name, contents) # xs) (version_at files n) d = (r, d')" using Cons.prems(4) nc by simp
  show ?case
  proof (cases "k < n")
    case True
    have "n \<le> length files" using Cons.prems(1) by (simp add: migrated_to_def)
    then have "version_at files (Suc k) \<le> version_at files n"
      using well_numbered_versions(2) [OF assms(1), of "Suc k" n] True by (cases "Suc k = n") auto
    then show ?thesis using Cons.IH [OF Cons.prems(1) xs] run version True by simp
  next
    case False
    then have n: "n = k" using Cons.prems(3) by simp
    have newer: "\<not> version_at files (Suc k) \<le> version_at files n"
      using well_numbered_versions(2) [OF assms(1), of k "Suc k"] n k(1) by auto
    show ?thesis
    proof (cases "mf_read f name")
      case (Some e)
      then show ?thesis using run version newer Cons.prems(1) by auto
    next
      case None
      obtain r1 d1 where step: "applyMigration run (mf_apply f name) (version_at files (Suc n)) (snd (files ! n)) d = (r1, d1)"
        by fastforce
      note moved = applyMigration_seen [OF assms(1) Cons.prems(1) _ step]
      have call: "contents = snd (files ! n)" using x nc n by (metis snd_conv)
      show ?thesis
      proof (cases r1)
        case (Inl e)
        then show ?thesis
          using moved run version newer None step k(1) n unfolding call by (auto intro: le_SucI)
      next
        case (Inr u)
        then have "migrated_to run c0 files (Suc n) d1" using moved k(1) n by simp
        from Cons.IH [OF this xs] show ?thesis
          using Inr run version newer None step n unfolding call by (auto dest: Suc_leD)
      qed
    qed
  qed
qed

lemma MigrateDatabaseUp_seen:
  assumes "well_numbered files" and "prefix (migration_files directory) files" and "migrated_to run c0 files n d"
    and "MigrateDatabaseUp run f schema directory d = (r, d')"
  shows "\<exists>n'\<ge>n. migrated_to run c0 files n' d' \<and> (r = Inr () \<longrightarrow> length (migration_files directory) \<le> n')"
proof -
  let ?prepared = "d\<lparr>ms_exists := True, ms_versions := (case ms_versions d of None \<Rightarrow> Some [] | Some rows \<Rightarrow> Some rows)\<rparr>"
  have same: "migrated_to run c0 files n (d\<lparr>ms_exists := True\<rparr>)" and prepared: "migrated_to run c0 files n ?prepared"
    using assms(3) by (auto simp: migrated_to_def)
  have files: "migration_files directory = drop 0 (take (length (migration_files directory)) files)"
    "length (migration_files directory) \<le> length files"
    using assms(2) by (auto simp: prefix_def)
  show ?thesis
  proof (cases "schema = [] \<or> mf_prepare f \<noteq> None \<or> mf_schema f \<noteq> None \<or> mf_table f \<noteq> None \<or> mf_version f \<noteq> None")
    case True
    then have "d' \<in> {d, d\<lparr>ms_exists := True\<rparr>, ?prepared}" "r \<noteq> Inr ()"
      using assms(4) by (auto simp: MigrateDatabaseUp_def Let_def split: option.splits if_splits)
    then show ?thesis using assms(3) same prepared by blast
  next
    case False
    then have "migrate_files run f (migration_files directory) (version_at files n) ?prepared = (r, d')"
      using assms(4) migrationVersion_migrated_to [OF prepared] by (auto simp: MigrateDatabaseUp_def Let_def)
    from migrate_files_seen [OF assms(1) prepared files(1) _ this] show ?thesis using files(2) by (simp add: min_absorb1)
  qed
qed

text \<open>Runs after one another, of servers old and new: each has its own directory.\<close>

fun migrate_history ::
  "(string \<Rightarrow> 'c \<Rightarrow> 'c result) \<Rightarrow> string \<Rightarrow> (migration_faults \<times> migration_file list) list \<Rightarrow> 'c module_schema
     \<Rightarrow> unit result list \<times> 'c module_schema" where
  "migrate_history run schema [] d = ([], d)"
| "migrate_history run schema ((f, directory) # runs) d =
     (case MigrateDatabaseUp run f schema directory d of
        (r, d') \<Rightarrow> (case migrate_history run schema runs d' of (rs, d'') \<Rightarrow> (r # rs, d'')))"

text \<open>Migrations are applied once and in order: when the names of the files number them upwards, any
  sequence of runs of servers whose directories hold the first files of that list, each failing anywhere
  or not at all, leaves the schema as if a first part of the files had been run once each, one after the
  other, records the version of the last of them, never leaves it dirty and never goes back; a run that
  reports success has seen all files of its directory to that state.\<close>

theorem migrations_once_in_order:
  assumes "well_numbered files" and "\<forall>(f, directory)\<in>set runs. prefix (migration_files directory) files"
    and "migrated_to run c0 files n d" and "migrate_history run schema runs d = (rs, d')"
  shows "\<exists>n'\<ge>n. migrated_to run c0 files n' d'
    \<and> (\<forall>i<length runs. rs ! i = Inr () \<longrightarrow> length (migration_files (snd (runs ! i))) \<le> n')"
  using assms(2-4)
proof (induction runs arbitrary: n d rs)
  case (Cons x runs)
  obtain f directory where x: "x = (f, directory)" by (cases x)
  obtain r d1 where first: "MigrateDatabaseUp run f schema directory d = (r, d1)" by fastforce
  obtain rs' where rest: "migrate_history run schema runs d1 = (rs', d')" and rs: "rs = r # rs'"
    using Cons.prems(3) first x by (auto split: prod.splits)
  obtain n1 where n1: "n1 \<ge> n" "migrated_to run c0 files n1 d1" "r = Inr () \<longrightarrow> length (migration_files directory) \<le> n1"
    using MigrateDatabaseUp_seen [OF assms(1) _ Cons.prems(2) first] Cons.prems(1) x by auto
  obtain n' where n': "n' \<ge> n1" "migrated_to run c0 files n' d'"
    "\<forall>i<length runs. rs' ! i = Inr () \<longrightarrow> length (migration_files (snd (runs ! i))) \<le> n'"
    using Cons.IH [OF _ n1(2) rest] Cons.prems(1) by auto
  have "(x # runs) ! i = x \<and> i = 0 \<or> (\<exists>j<length runs. i = Suc j)" if "i < length (x # runs)" for i
    using that by (cases i) auto
  then show ?case
    using n1 n' x rs by (intro exI [of _ n']) (auto simp: nth_Cons split: nat.splits)
qed auto

text \<open>The witness: the commit of the first file takes effect but its answer is lost; the next run goes on
  with the second file.\<close>

definition scheduler_migrations :: "migration_file list" where
  "scheduler_migrations =
     [(''0002_drop_appointment_idempotency.up.sql'', ''drop''), (''0001_init_tables.up.sql'', ''init''), (''readme.md'', [])]"

definition migration_trouble :: "(string \<Rightarrow> migration_fault) \<Rightarrow> migration_faults" where
  "migration_trouble apply_faults =
     \<lparr>mf_prepare = None, mf_schema = None, mf_table = None, mf_version = None, mf_read = (\<lambda>n. None),
      mf_apply = apply_faults\<rparr>"

definition two_starts :: "(migration_faults \<times> migration_file list) list" where
  "two_starts =
     [(migration_trouble (\<lambda>n. CommitFails True DeadlineExceeded), scheduler_migrations),
      (migration_trouble (\<lambda>n. AppliesCleanly), scheduler_migrations)]"

definition fresh_schema :: "string list module_schema" where
  "fresh_schema = \<lparr>ms_exists = False, ms_versions = None, ms_content = []\<rparr>"

lemma migrations_once_in_order_witness:
  "\<exists>n'. migrated_to (\<lambda>sql c. Inr (c @ [sql])) [] (migration_files scheduler_migrations) n'
       (snd (migrate_history (\<lambda>sql c. Inr (c @ [sql])) ''appointment_scheduler'' two_starts fresh_schema))
     \<and> 2 \<le> n'"
proof -
  let ?history = "migrate_history (\<lambda>sql c. Inr (c @ [sql])) ''appointment_scheduler'' two_starts fresh_schema"
  have sorted: "migration_files scheduler_migrations
      = [(''0001_init_tables.up.sql'', ''init''), (''0002_drop_appointment_idempotency.up.sql'', ''drop'')]" by code_simp
  have numbers: "map (migrationFileVersion \<circ> fst) (migration_files scheduler_migrations) = map Inr [1, 2]" by code_simp
  have "well_numbered (migration_files scheduler_migrations)"
    unfolding well_numbered_def using numbers by (intro exI [of _ "[1, 2]"]) simp
  moreover have "migrated_to (\<lambda>sql c. Inr (c @ [sql])) [] (migration_files scheduler_migrations) 0 fresh_schema"
    by (simp add: migrated_to_def fresh_schema_def)
  moreover have "fst ?history ! 1 = Inr ()" by code_simp
  ultimately show ?thesis
    using migrations_once_in_order [of "migration_files scheduler_migrations" two_starts _ _ 0 fresh_schema
        "''appointment_scheduler''" "fst ?history" "snd ?history"]
    by (fastforce simp: two_starts_def sorted)
qed

text \<open>Names without leading zeros are not in the order of their numbers: the second file is never applied,
  and no run reports it.\<close>

lemma unpadded_file_skipped:
  "MigrateDatabaseUp (\<lambda>sql c. Inr (c @ [sql]))
     (migration_trouble (\<lambda>n. AppliesCleanly)) ''auth'' [(''2_b.up.sql'', ''b''), (''10_c.up.sql'', ''c'')] \<lparr>ms_exists = False, ms_versions = None, ms_content = []\<rparr>
   = (Inr (), \<lparr>ms_exists = True, ms_versions = Some [(10, False)], ms_content = [''c'']\<rparr>)"
  by code_simp

end
