(* ===== verification/Startup.thy ===== *)
theory Startup
  imports Server Migrations
begin

text \<open>
  How the process comes up and goes down: the environment it reads (common/config/config.go), the composition
  of the two modules (\<open>New\<close> in service.go with the modules' module.go), the TLS key pair, the probes, the
  listeners (\<open>Run\<close>) and \<open>main\<close>. PEM, ASN.1 and X.509 are parameters, as are the answers of PostgreSQL, Redis
  and the telemetry exporters; what is modelled is which of them are asked, in which order, and what an
  answer leads to. The two schemas are those of theory Migrations.
\<close>

section \<open>Configuration\<close>

record Config =
  cf_PostgresDSN :: string
  cf_RedisURL :: string
  cf_EmailLookupKey :: string
  cf_JWTPrivateKeyPEM :: string
  cf_JWTPublicKeyPEM :: string
  cf_HTTPPort :: string
  cf_HTTPSPort :: string
  cf_OTELServiceName :: string
  cf_OTELTraceEndpoint :: string
  cf_Environment :: string
  cf_ServiceVersion :: string
  cf_DeploymentRegion :: string

text \<open>The environment gives no value or a text; \<open>os.Getenv\<close> does not tell no value from an empty one.\<close>

type_synonym process_env = "string \<Rightarrow> string option"

definition Getenv :: "process_env \<Rightarrow> string \<Rightarrow> string" where
  "Getenv env name = (case env name of None \<Rightarrow> [] | Some value \<Rightarrow> value)"

definition valueOrDefault :: "process_env \<Rightarrow> string \<Rightarrow> string \<Rightarrow> string" where
  "valueOrDefault env name fallback = (let value = Getenv env name in if value \<noteq> [] then value else fallback)"

definition Load :: "process_env \<Rightarrow> Config result" where
  "Load env =
     (let config =
        \<lparr>cf_PostgresDSN = Getenv env ''POSTGRES_DSN'',
         cf_RedisURL = Getenv env ''REDIS_URL'',
         cf_EmailLookupKey = Getenv env ''EMAIL_LOOKUP_KEY'',
         cf_JWTPrivateKeyPEM = Getenv env ''RSA_PRIVATE_KEY_PEM'',
         cf_JWTPublicKeyPEM = Getenv env ''RSA_PUBLIC_KEY_PEM'',
         cf_HTTPPort = valueOrDefault env ''SERVER_PORT'' ''8080'',
         cf_HTTPSPort = valueOrDefault env ''SERVER_PORT_TLS'' ''8443'',
         cf_OTELServiceName = valueOrDefault env ''OTEL_SERVICE_NAME'' ''dealership'',
         cf_OTELTraceEndpoint = Getenv env ''OTEL_EXPORTER_OTLP_TRACES_ENDPOINT'',
         cf_Environment = valueOrDefault env ''ENVIRONMENT'' ''development'',
         cf_ServiceVersion = valueOrDefault env ''SERVICE_VERSION'' ''unknown'',
         cf_DeploymentRegion = valueOrDefault env ''DEPLOYMENT_REGION'' ''unknown''\<rparr>
      in if cf_PostgresDSN config = [] \<or> cf_RedisURL config = [] \<or> cf_EmailLookupKey config = []
            \<or> cf_JWTPrivateKeyPEM config = [] \<or> cf_JWTPublicKeyPEM config = []
         then Inl (ErrorString ''POSTGRES_DSN, REDIS_URL, EMAIL_LOOKUP_KEY, RSA_PRIVATE_KEY_PEM, and RSA_PUBLIC_KEY_PEM are required'')
         else Inr config)"

text \<open>What every part of the program may rely on once the configuration is loaded.\<close>

definition usable_config :: "Config \<Rightarrow> bool" where
  "usable_config c \<longleftrightarrow> [] \<notin> {cf_PostgresDSN c, cf_RedisURL c, cf_EmailLookupKey c, cf_JWTPrivateKeyPEM c,
     cf_JWTPublicKeyPEM c, cf_HTTPPort c, cf_HTTPSPort c, cf_OTELServiceName c, cf_Environment c,
     cf_ServiceVersion c, cf_DeploymentRegion c}"

lemma valueOrDefault_empty [simp]:
  "valueOrDefault env name fallback = [] \<longleftrightarrow> fallback = [] \<and> Getenv env name = []"
  "[] = valueOrDefault env name fallback \<longleftrightarrow> fallback = [] \<and> Getenv env name = []"
  by (auto simp: valueOrDefault_def Let_def)

lemma Load_usable: "Load env = Inr c \<Longrightarrow> usable_config c"
  unfolding Load_def Let_def by (split if_split_asm) (auto simp: usable_config_def)

section \<open>The key pair\<close>

text \<open>A parsed key: an RSA key with its modulus and public exponent, or a key of another kind.\<close>

datatype parsed_key = RSAKey int int | OtherKey

record key_tools =
  kt_pem :: "string \<Rightarrow> string option"
  kt_pkcs1 :: "string \<Rightarrow> (int \<times> int) result"
  kt_pkcs8 :: "string \<Rightarrow> parsed_key result"
  kt_pkix :: "string \<Rightarrow> parsed_key result"
  kt_certificate :: "int \<times> int \<Rightarrow> string result"
  kt_jwt_private :: "string \<Rightarrow> unit result"
  kt_jwt_public :: "string \<Rightarrow> unit result"

definition parseRSAPrivateKey :: "key_tools \<Rightarrow> string \<Rightarrow> (int \<times> int) result" where
  "parseRSAPrivateKey kt pem =
     (case kt_pem kt pem of
        None \<Rightarrow> Inl (ErrorString ''decode RSA private key PEM'')
      | Some block \<Rightarrow>
          (case kt_pkcs1 kt block of
             Inr key \<Rightarrow> Inr key
           | Inl _ \<Rightarrow>
               (case kt_pkcs8 kt block of
                  Inl err \<Rightarrow> Inl (Wrapped ''parse RSA private key: '' err)
                | Inr (RSAKey n e) \<Rightarrow> Inr (n, e)
                | Inr OtherKey \<Rightarrow> Inl (ErrorString ''private key is not RSA''))))"

definition parseRSAPublicKey :: "key_tools \<Rightarrow> string \<Rightarrow> (int \<times> int) result" where
  "parseRSAPublicKey kt pem =
     (case kt_pem kt pem of
        None \<Rightarrow> Inl (ErrorString ''decode RSA public key PEM'')
      | Some block \<Rightarrow>
          (case kt_pkix kt block of
             Inl err \<Rightarrow> Inl (Wrapped ''parse RSA public key: '' err)
           | Inr (RSAKey n e) \<Rightarrow> Inr (n, e)
           | Inr OtherKey \<Rightarrow> Inl (ErrorString ''public key is not RSA'')))"

text \<open>The certificate is made for the pair; the result names it and the key it is served with.\<close>

definition newTLSConfig :: "key_tools \<Rightarrow> string \<Rightarrow> string \<Rightarrow> (string \<times> int \<times> int) result" where
  "newTLSConfig kt privatePEM publicPEM =
     rbind (parseRSAPrivateKey kt privatePEM) (\<lambda>private.
     rbind (parseRSAPublicKey kt publicPEM) (\<lambda>public.
     rbind (rguard (fst private = fst public \<and> snd private = snd public)
       (ErrorString ''RSA private and public keys do not match'')) (\<lambda>_.
     rbind (rerr (Wrapped ''create TLS certificate: '') (kt_certificate kt public)) (\<lambda>certificate.
     Inr (certificate, private)))))"

lemma newTLSConfig_pair:
  assumes "newTLSConfig kt priv pub = Inr (certificate, key)"
  shows "parseRSAPrivateKey kt priv = Inr key" and "parseRSAPublicKey kt pub = Inr key"
  using assms by (auto simp: newTLSConfig_def ok_iff prod_eq_iff)

section \<open>Modules\<close>

text \<open>A failure that is returned, or a panic.\<close>

datatype start_failure = Failed go_error | PanickedWith go_error

datatype module_id = AuthModule | SchedulerModule

primrec Name :: "module_id \<Rightarrow> string" where
  "Name AuthModule = ''auth''"
| "Name SchedulerModule = ''appointment_scheduler''"

text \<open>What the modules hold while they are started: whether the auth module has its service and handler, the
  contract (published over the service the auth module had then), whether the scheduler has its handler, the
  schemas of both, and the routes of the router. \<open>sx_\<close> is what the outside answers at one start; what a
  migration file does (\<open>run\<close>) is the same at every start.\<close>

record 'c startup =
  su_schemas :: "module_id \<Rightarrow> 'c module_schema"
  su_auth_handler :: bool
  su_contract :: "bool option"
  su_scheduler_handler :: bool
  su_routes :: "server_route list"

record start_answers =
  sx_keys :: key_tools
  sx_binders :: binders
  sx_faults :: "module_id \<Rightarrow> migration_faults"
  sx_files :: "module_id \<Rightarrow> migration_file list"
  sx_telemetry :: "unit result"

type_synonym 'c migrator = "module_id \<Rightarrow> string \<Rightarrow> 'c \<Rightarrow> 'c result"

definition NewIssuer :: "key_tools \<Rightarrow> string \<Rightarrow> string \<Rightarrow> unit result" where
  "NewIssuer kt privateKeyPEM publicKeyPEM =
     rbind (rerr (Wrapped ''parse RSA private key: '') (kt_jwt_private kt privateKeyPEM)) (\<lambda>_.
     rerr (Wrapped ''parse RSA public key: '') (kt_jwt_public kt publicKeyPEM))"

definition migrate_module ::
  "'c migrator \<Rightarrow> start_answers \<Rightarrow> module_id \<Rightarrow> 'c startup \<Rightarrow> (start_failure + unit) \<times> 'c startup" where
  "migrate_module run sx m st =
     (case MigrateDatabaseUp (run m) (sx_faults sx m) (Name m) (sx_files sx m) (su_schemas st m) of
        (r, d) \<Rightarrow> (case r of Inl err \<Rightarrow> Inl (Failed err) | Inr _ \<Rightarrow> Inr (),
                   st\<lparr>su_schemas := (su_schemas st)(m := d)\<rparr>))"

definition auth_Init ::
  "'c migrator \<Rightarrow> start_answers \<Rightarrow> Config \<Rightarrow> 'c startup \<Rightarrow> (start_failure + unit) \<times> 'c startup" where
  "auth_Init run sx config st =
     (if cf_EmailLookupKey config = [] then (Inl (PanickedWith (ErrorString ''email lookup key is required'')), st)
      else case NewIssuer (sx_keys sx) (cf_JWTPrivateKeyPEM config) (cf_JWTPublicKeyPEM config) of
        Inl err \<Rightarrow> (Inl (Failed err), st)
      | Inr _ \<Rightarrow> migrate_module run sx AuthModule (st\<lparr>su_auth_handler := True\<rparr>))"

primrec Init ::
  "'c migrator \<Rightarrow> start_answers \<Rightarrow> Config \<Rightarrow> module_id \<Rightarrow> 'c startup \<Rightarrow> (start_failure + unit) \<times> 'c startup" where
  "Init run sx config AuthModule st = auth_Init run sx config st"
| "Init run sx config SchedulerModule st = migrate_module run sx SchedulerModule st"

primrec RegisterContracts :: "start_answers \<Rightarrow> module_id \<Rightarrow> 'c startup \<Rightarrow> (start_failure + unit) \<times> 'c startup" where
  "RegisterContracts sx AuthModule st = (Inr (), st\<lparr>su_contract := Some (su_auth_handler st)\<rparr>)"
| "RegisterContracts sx SchedulerModule st =
     (if su_contract st = None
      then (Inl (Failed (ErrorString ''auth contract is required by appointment scheduler'')), st)
      else case sx_telemetry sx of
        Inl err \<Rightarrow> (Inl (Failed (Wrapped ''configure appointment scheduler telemetry: '' err)), st)
      | Inr _ \<Rightarrow> (Inr (), st\<lparr>su_scheduler_handler := True\<rparr>))"

primrec RegisterHttp :: "start_answers \<Rightarrow> module_id \<Rightarrow> 'c startup \<Rightarrow> (start_failure + unit) \<times> 'c startup" where
  "RegisterHttp sx AuthModule st =
     (Inr (), st\<lparr>su_routes := su_routes st @ map AuthRoute (auth_routes (sx_binders sx))\<rparr>)"
| "RegisterHttp sx SchedulerModule st =
     (if \<not> su_scheduler_handler st
      then (Inl (Failed (ErrorString ''appointment scheduler module is not initialized with auth contract'')), st)
      else (Inr (), st\<lparr>su_routes := su_routes st @ map SchedulerRoute (scheduler_routes (sx_binders sx))\<rparr>))"

section \<open>Composition\<close>

record running_service =
  rs_routes :: "server_route list"
  rs_tls :: "string \<times> int \<times> int"

text \<open>\<open>fmt.Errorf\<close> around what a module returned; a panic passes.\<close>

definition in_module :: "string \<Rightarrow> module_id \<Rightarrow> string \<Rightarrow> start_failure \<Rightarrow> start_failure" where
  "in_module what m part f =
     (case f of
        Failed err \<Rightarrow> Failed (Wrapped (what @ '' module '' @ Name m @ part @ '': '') err)
      | PanickedWith err \<Rightarrow> PanickedWith err)"

fun start_modules ::
  "'c migrator \<Rightarrow> start_answers \<Rightarrow> Config \<Rightarrow> module_id list \<Rightarrow> 'c startup \<Rightarrow> (start_failure + unit) \<times> 'c startup" where
  "start_modules run sx config [] st = (Inr (), st)"
| "start_modules run sx config (m # ms) st =
     (case Init run sx config m st of
        (Inl f, st1) \<Rightarrow> (Inl (in_module ''initialize'' m [] f), st1)
      | (Inr _, st1) \<Rightarrow>
          (case RegisterContracts sx m st1 of
             (Inl f, st2) \<Rightarrow> (Inl (in_module ''register'' m '' contracts'' f), st2)
           | (Inr _, st2) \<Rightarrow> start_modules run sx config ms st2))"

fun register_modules ::
  "start_answers \<Rightarrow> module_id list \<Rightarrow> 'c startup \<Rightarrow> (start_failure + unit) \<times> 'c startup" where
  "register_modules sx [] st = (Inr (), st)"
| "register_modules sx (m # ms) st =
     (case RegisterHttp sx m st of
        (Inl f, st1) \<Rightarrow> (Inl (in_module ''register'' m '' HTTP routes'' f), st1)
      | (Inr _, st1) \<Rightarrow> register_modules sx ms st1)"

text \<open>\<open>Verify\<close> of the contracts accepts everything, so the step between the two loops is left out.\<close>

definition service_modules :: "module_id list" where
  "service_modules = [AuthModule, SchedulerModule]"

definition New ::
  "'c migrator \<Rightarrow> start_answers \<Rightarrow> bool \<Rightarrow> bool \<Rightarrow> Config \<Rightarrow> 'c startup \<Rightarrow> (start_failure + running_service) \<times> 'c startup" where
  "New run sx database idempotencyStore config st =
     (if \<not> database then (Inl (Failed (ErrorString ''PostgreSQL database is required'')), st)
      else if \<not> idempotencyStore then (Inl (Failed (ErrorString ''idempotency store is required'')), st)
      else case newTLSConfig (sx_keys sx) (cf_JWTPrivateKeyPEM config) (cf_JWTPublicKeyPEM config) of
        Inl err \<Rightarrow> (Inl (Failed (Wrapped ''configure HTTPS: '' err)), st)
      | Inr tls \<Rightarrow>
          (case start_modules run sx config service_modules st of
             (Inl f, st1) \<Rightarrow> (Inl f, st1)
           | (Inr _, st1) \<Rightarrow>
               (case register_modules sx service_modules st1 of
                  (Inl f, st2) \<Rightarrow> (Inl f, st2)
                | (Inr _, st2) \<Rightarrow> (Inr \<lparr>rs_routes = su_routes st2, rs_tls = tls\<rparr>, st2))))"

text \<open>The probes of the router; \<open>/readyz\<close> pings the database for at most two seconds.\<close>

datatype server_probe = Health | Readyz "unit result"

definition probe_status :: "server_probe \<Rightarrow> int" where
  "probe_status p = (case p of Health \<Rightarrow> 200 | Readyz ping \<Rightarrow> (case ping of Inl _ \<Rightarrow> 503 | Inr _ \<Rightarrow> 204))"

section \<open>Running and ending\<close>

text \<open>What ends \<open>Run\<close>: the context is cancelled, or a listener returns; then both servers are shut down, each
  with its answer.\<close>

datatype run_event = ContextDone | ListenerExits go_error

text \<open>\<open>errors.Join\<close> of the two answers: nil errors are dropped, and the join of none is nil.\<close>

definition errors_Join :: "go_error option \<Rightarrow> go_error option \<Rightarrow> go_error option" where
  "errors_Join a b = (if a = None then b else if b = None then a else Some (Joined (the a) (the b)))"

definition ErrServerClosed :: go_error where
  "ErrServerClosed = ErrorString ''http: Server closed''"

definition Run :: "run_event \<Rightarrow> go_error option \<Rightarrow> go_error option \<Rightarrow> go_error option" where
  "Run event httpShutdown httpsShutdown =
     (case event of
        ContextDone \<Rightarrow> errors_Join httpShutdown httpsShutdown
      | ListenerExits err \<Rightarrow> if errors_is err ErrServerClosed then None else Some err)"

text \<open>The process. \<open>log.Fatal\<close> leaves at once, without the deferred calls; a panic runs them. The resources
  the process holds when it ends are those whose deferred call did not run.\<close>

datatype resource = Observability | RedisClient | DatabasePool

datatype exit = Fatal go_error | Crashed go_error | Exited

record main_answers =
  mx_observability :: "unit result"
  mx_parse_dsn :: "unit result"
  mx_pool :: "unit result"
  mx_stats :: "unit result"
  mx_redis_url :: "unit result"
  mx_redis_ping :: "unit result"
  mx_run :: "run_event \<times> go_error option \<times> go_error option"

text \<open>\<open>NewClient\<close> of common/redis: a client that does not answer is closed again.\<close>

definition NewClient :: "unit result \<Rightarrow> unit result \<Rightarrow> unit result" where
  "NewClient options ping =
     rbind (rerr (Wrapped ''parse Redis URL: '') options) (\<lambda>_. rerr (Wrapped ''connect Redis: '') ping)"

definition main ::
  "'c migrator \<Rightarrow> start_answers \<Rightarrow> main_answers \<Rightarrow> process_env \<Rightarrow> 'c startup \<Rightarrow> exit \<times> resource list \<times> 'c startup" where
  "main run sx mx env st =
     (case Load env of Inl err \<Rightarrow> (Fatal err, [], st) | Inr config \<Rightarrow>
      case mx_observability mx of Inl err \<Rightarrow> (Fatal err, [], st) | Inr _ \<Rightarrow>
      case mx_parse_dsn mx of Inl err \<Rightarrow> (Fatal err, [Observability], st) | Inr _ \<Rightarrow>
      case mx_pool mx of Inl err \<Rightarrow> (Fatal err, [Observability], st) | Inr _ \<Rightarrow>
      case mx_stats mx of
        Inl err \<Rightarrow> (Fatal (Wrapped ''register PostgreSQL pool metrics: '' err), [Observability, DatabasePool], st)
      | Inr _ \<Rightarrow>
      case NewClient (mx_redis_url mx) (mx_redis_ping mx) of
        Inl err \<Rightarrow> (Fatal err, [Observability, DatabasePool], st)
      | Inr _ \<Rightarrow>
      case New run sx True True config st of
        (Inl (Failed err), st') \<Rightarrow> (Fatal err, [Observability, DatabasePool, RedisClient], st')
      | (Inl (PanickedWith err), st') \<Rightarrow> (Crashed err, [DatabasePool], st')
      | (Inr service, st') \<Rightarrow>
          (case mx_run mx of (event, http, https) \<Rightarrow>
             case Run event http https of
               Some err \<Rightarrow> (Fatal err, [Observability, DatabasePool, RedisClient], st')
             | None \<Rightarrow> (Exited, [], st')))"

section \<open>What a start leaves behind\<close>

text \<open>Both schemas are at some number of files each.\<close>

definition schemas_at ::
  "'c migrator \<Rightarrow> (module_id \<Rightarrow> 'c) \<Rightarrow> (module_id \<Rightarrow> migration_file list) \<Rightarrow> (module_id \<Rightarrow> nat)
     \<Rightarrow> (module_id \<Rightarrow> 'c module_schema) \<Rightarrow> bool" where
  "schemas_at run c0 files n ds \<longleftrightarrow> (\<forall>m. migrated_to (run m) (c0 m) (files m) (n m) (ds m))"

text \<open>The directories of a start hold first parts of the files there are.\<close>

definition known_files :: "(module_id \<Rightarrow> migration_file list) \<Rightarrow> start_answers \<Rightarrow> bool" where
  "known_files files sx \<longleftrightarrow> (\<forall>m. prefix (migration_files (sx_files sx m)) (files m))"

lemma migrate_module_moves:
  assumes "\<forall>m. well_numbered (files m)" and "known_files files sx"
    and "schemas_at run c0 files n (su_schemas st)" and "migrate_module run sx m st = (r, st')"
  obtains n' where "n \<le> n'" and "schemas_at run c0 files n' (su_schemas st')"
    and "r = Inr () \<longrightarrow> length (migration_files (sx_files sx m)) \<le> n' m"
proof -
  obtain q d where step: "MigrateDatabaseUp (run m) (sx_faults sx m) (Name m) (sx_files sx m) (su_schemas st m) = (q, d)"
    by (rule prod.exhaust)
  have "well_numbered (files m)" "prefix (migration_files (sx_files sx m)) (files m)"
    "migrated_to (run m) (c0 m) (files m) (n m) (su_schemas st m)"
    using assms(1-3) by (simp_all add: known_files_def schemas_at_def)
  from MigrateDatabaseUp_seen [OF this step]
  obtain k where k: "n m \<le> k" "migrated_to (run m) (c0 m) (files m) k d"
    "q = Inr () \<longrightarrow> length (migration_files (sx_files sx m)) \<le> k" by blast
  show thesis
  proof (rule that [of "n(m := k)"])
    show "n \<le> n(m := k)" using k(1) by (simp add: le_fun_def)
    show "schemas_at run c0 files (n(m := k)) (su_schemas st')"
      using assms(3,4) step k(2) by (auto simp: migrate_module_def schemas_at_def)
    show "r = Inr () \<longrightarrow> length (migration_files (sx_files sx m)) \<le> (n(m := k)) m"
      using assms(4) step k(3) by (auto simp: migrate_module_def split: sum.splits)
  qed
qed

lemma Init_moves:
  assumes "\<forall>m. well_numbered (files m)" and "known_files files sx"
    and "schemas_at run c0 files n (su_schemas st)" and "Init run sx config m st = (r, st')"
  obtains n' where "n \<le> n'" and "schemas_at run c0 files n' (su_schemas st')"
    and "r = Inr () \<longrightarrow> length (migration_files (sx_files sx m)) \<le> n' m"
proof (cases "\<exists>st1. su_schemas st1 = su_schemas st \<and> migrate_module run sx m st1 = (r, st')")
  case True
  then obtain st1 where "su_schemas st1 = su_schemas st" "migrate_module run sx m st1 = (r, st')" by blast
  then show thesis using migrate_module_moves [OF assms(1,2), of run c0 n st1 m r st'] assms(3) that by metis
next
  case False
  then have "su_schemas st' = su_schemas st" "r \<noteq> Inr ()"
    using assms(4) by (cases m; auto simp: auth_Init_def split: if_splits sum.splits)+
  then show thesis using that [of n] assms(3) by simp
qed

lemma RegisterContracts_keeps [simp]:
  "RegisterContracts sx m st = (r, st') \<Longrightarrow> su_schemas st' = su_schemas st \<and> su_routes st' = su_routes st"
  by (cases m) (auto split: if_splits sum.splits)

lemma Init_routes: "Init run sx config m st = (r, st') \<Longrightarrow> su_routes st' = su_routes st"
  by (cases m) (auto simp: auth_Init_def migrate_module_def split: if_splits sum.splits prod.splits)

lemma start_modules_moves:
  assumes "\<forall>m. well_numbered (files m)" and "known_files files sx"
    and "schemas_at run c0 files n (su_schemas st)" and "start_modules run sx config ms st = (r, st')"
  shows "\<exists>n'\<ge>n. schemas_at run c0 files n' (su_schemas st')
    \<and> (r = Inr () \<longrightarrow> (\<forall>m\<in>set ms. length (migration_files (sx_files sx m)) \<le> n' m))
    \<and> su_routes st' = su_routes st"
  using assms(3,4)
proof (induction ms arbitrary: n st)
  case (Cons m ms)
  obtain q st1 where init: "Init run sx config m st = (q, st1)" by (rule prod.exhaust)
  obtain k where k: "n \<le> k" "schemas_at run c0 files k (su_schemas st1)"
    "q = Inr () \<longrightarrow> length (migration_files (sx_files sx m)) \<le> k m"
    using Init_moves [OF assms(1,2) Cons.prems(1) init] by blast
  have routes: "su_routes st1 = su_routes st" using Init_routes [OF init] .
  show ?case
  proof (cases q)
    case (Inl f)
    then show ?thesis using Cons.prems(2) init k routes by (auto intro: exI [of _ k])
  next
    case (Inr u)
    obtain p st2 where contracts: "RegisterContracts sx m st1 = (p, st2)" by (rule prod.exhaust)
    note kept = RegisterContracts_keeps [OF contracts]
    show ?thesis
    proof (cases p)
      case Inl
      then show ?thesis using Cons.prems(2) init Inr k routes contracts kept by (auto intro: exI [of _ k])
    next
      case (Inr v)
      then have rest: "start_modules run sx config ms st2 = (r, st')"
        using Cons.prems(2) init \<open>q = Inr u\<close> contracts by simp
      obtain n' where n': "k \<le> n'" "schemas_at run c0 files n' (su_schemas st')" "su_routes st' = su_routes st2"
        "r = Inr () \<longrightarrow> (\<forall>m\<in>set ms. length (migration_files (sx_files sx m)) \<le> n' m)"
        using Cons.IH [OF _ rest] k(2) kept by auto
      then have "length (migration_files (sx_files sx m)) \<le> n' m"
        using k(3) \<open>q = Inr u\<close> by (auto simp: le_fun_def intro: order_trans)
      then show ?thesis using n' k(1) kept routes by (intro exI [of _ n']) (auto intro: order_trans)
    qed
  qed
qed auto

lemma register_modules_keeps: "register_modules sx ms st = (r, st') \<Longrightarrow> su_schemas st' = su_schemas st"
proof (induction ms arbitrary: st)
  case (Cons m ms)
  then show ?case by (cases m) (fastforce split: if_splits)+
qed simp

text \<open>A start that fails moves the schemas as one that succeeds does; one that succeeds serves all routes,
  behind a key pair of which the two halves match.\<close>

lemma New_moves:
  assumes "\<forall>m. well_numbered (files m)" and "known_files files sx"
    and "schemas_at run c0 files n (su_schemas st)" and "New run sx database store config st = (r, st')"
    and "su_routes st = []"
  shows "\<exists>n'\<ge>n. schemas_at run c0 files n' (su_schemas st')
    \<and> (\<forall>service. r = Inr service \<longrightarrow> (\<forall>m. length (migration_files (sx_files sx m)) \<le> n' m)
       \<and> rs_routes service = server_routes (sx_binders sx)
       \<and> parseRSAPrivateKey (sx_keys sx) (cf_JWTPrivateKeyPEM config) = Inr (snd (rs_tls service))
       \<and> parseRSAPublicKey (sx_keys sx) (cf_JWTPublicKeyPEM config) = Inr (snd (rs_tls service)))"
proof (cases "database \<and> store \<and> (\<exists>t. newTLSConfig (sx_keys sx) (cf_JWTPrivateKeyPEM config) (cf_JWTPublicKeyPEM config) = Inr t)")
  case False
  then have "st' = st" "\<forall>service. r \<noteq> Inr service"
    using assms(4) by (auto simp: New_def split: if_splits sum.splits)
  then show ?thesis using assms(3) by blast
next
  case True
  then obtain tls where tls: "newTLSConfig (sx_keys sx) (cf_JWTPrivateKeyPEM config) (cf_JWTPublicKeyPEM config) = Inr tls"
    by blast
  obtain q st1 where start: "start_modules run sx config service_modules st = (q, st1)" by (rule prod.exhaust)
  obtain n' where n': "n \<le> n'" "schemas_at run c0 files n' (su_schemas st1)" "su_routes st1 = []"
    "q = Inr () \<longrightarrow> (\<forall>m\<in>set service_modules. length (migration_files (sx_files sx m)) \<le> n' m)"
    using start_modules_moves [OF assms(1-3) start] assms(5) by auto
  have all: "m \<in> set service_modules" for m by (cases m) (simp_all add: service_modules_def)
  show ?thesis
  proof (cases q)
    case (Inl f)
    then show ?thesis using assms(4) True tls start n' by (auto simp: New_def intro: exI [of _ n'])
  next
    case (Inr u)
    obtain p st2 where http: "register_modules sx service_modules st1 = (p, st2)" by (rule prod.exhaust)
    have routes: "p = Inr () \<Longrightarrow> su_routes st2 = server_routes (sx_binders sx)"
      using http n'(3) by (auto simp: service_modules_def server_routes_def split: if_splits)
    have new: "st' = st2" "r = (case p of Inl f \<Rightarrow> Inl f | Inr _ \<Rightarrow> Inr \<lparr>rs_routes = su_routes st2, rs_tls = tls\<rparr>)"
      using assms(4) True tls start Inr http by (auto simp: New_def split: sum.splits)
    have pair: "parseRSAPrivateKey (sx_keys sx) (cf_JWTPrivateKeyPEM config) = Inr (snd tls)"
      "parseRSAPublicKey (sx_keys sx) (cf_JWTPublicKeyPEM config) = Inr (snd tls)"
      using newTLSConfig_pair [of "sx_keys sx" _ _ "fst tls" "snd tls"] tls by simp_all
    show ?thesis
      using n' new routes pair Inr all register_modules_keeps [OF http]
      by (intro exI [of _ n']) (auto split: sum.splits)
  qed
qed

text \<open>Starts of the process after one another, each with its own configuration, directories and failures. Only
  the schemas outlive a process.\<close>

definition boot :: "(module_id \<Rightarrow> 'c module_schema) \<Rightarrow> 'c startup" where
  "boot ds = \<lparr>su_schemas = ds, su_auth_handler = False, su_contract = None, su_scheduler_handler = False, su_routes = []\<rparr>"

fun process_starts ::
  "'c migrator \<Rightarrow> (start_answers \<times> Config) list \<Rightarrow> (module_id \<Rightarrow> 'c module_schema)
     \<Rightarrow> (start_failure + running_service) list \<times> (module_id \<Rightarrow> 'c module_schema)" where
  "process_starts run [] ds = ([], ds)"
| "process_starts run ((sx, config) # ss) ds =
     (case New run sx True True config (boot ds) of
        (r, st) \<Rightarrow> (case process_starts run ss (su_schemas st) of (rs, ds') \<Rightarrow> (r # rs, ds')))"

text \<open>What a start that returned a service guarantees, when the schemas have come to \<open>n\<close>.\<close>

definition serves_all :: "(module_id \<Rightarrow> nat) \<Rightarrow> start_answers \<times> Config \<Rightarrow> start_failure + running_service \<Rightarrow> bool" where
  "serves_all n s r = (case (s, r) of ((sx, config), Inr service) \<Rightarrow>
       (\<forall>m. length (migration_files (sx_files sx m)) \<le> n m)
       \<and> rs_routes service = server_routes (sx_binders sx)
       \<and> parseRSAPrivateKey (sx_keys sx) (cf_JWTPrivateKeyPEM config) = Inr (snd (rs_tls service))
       \<and> parseRSAPublicKey (sx_keys sx) (cf_JWTPublicKeyPEM config) = Inr (snd (rs_tls service))
     | _ \<Rightarrow> True)"

lemma serves_all_mono: "serves_all n s r \<Longrightarrow> n \<le> n' \<Longrightarrow> serves_all n' s r"
  by (auto simp: serves_all_def le_fun_def split: sum.splits prod.splits intro: order_trans)

text \<open>C15. The server starts on complete schemas only: when the names of the migration files of both modules
  number them upwards, any sequence of starts of servers old and new, each failing anywhere or not at all,
  leaves the schema of each module as if a first part of its files had been run once each and in order, with
  the version of the last of them, never dirty and never going back; and a start that returns a service has
  applied all files of both its modules, serves every route of both, and does so under a TLS key of which
  the private and the public half are the configured ones.\<close>

theorem starts_migrate_once:
  assumes "\<forall>m. well_numbered (files m)" and "\<forall>s\<in>set ss. known_files files (fst s)"
    and "schemas_at run c0 files n ds" and "process_starts run ss ds = (rs, ds')"
  shows "\<exists>n'\<ge>n. schemas_at run c0 files n' ds' \<and> list_all2 (serves_all n') ss rs"
  using assms(2-4)
proof (induction ss arbitrary: n ds rs)
  case (Cons s ss)
  obtain sx config where s: "s = (sx, config)" by (rule prod.exhaust)
  obtain r st where first: "New run sx True True config (boot ds) = (r, st)" by (rule prod.exhaust)
  obtain rs' where rest: "process_starts run ss (su_schemas st) = (rs', ds')" and rs: "rs = r # rs'"
    using Cons.prems(3) s first by (auto split: prod.splits)
  have "known_files files sx" "schemas_at run c0 files n (su_schemas (boot ds))" "su_routes (boot ds) = []"
    using Cons.prems(1,2) s by (simp_all add: boot_def)
  from New_moves [OF assms(1) this(1,2) first this(3)]
  obtain k where k: "n \<le> k" "schemas_at run c0 files k (su_schemas st)" "serves_all k s r"
    by (auto simp: serves_all_def s split: sum.splits)
  obtain n' where n': "k \<le> n'" "schemas_at run c0 files n' ds'" "list_all2 (serves_all n') ss rs'"
    using Cons.IH [OF _ k(2) rest] Cons.prems(1) by auto
  then show ?case using k rs serves_all_mono [OF k(3) n'(1)] by (auto intro: order_trans)
qed auto

text \<open>The witness: two starts; in the first the commit of the first scheduler file takes effect but its answer
  is lost, the second completes.\<close>

definition both_files :: "module_id \<Rightarrow> migration_file list" where
  "both_files m = (case m of AuthModule \<Rightarrow> [(''0001_init.up.sql'', ''users'')] | SchedulerModule \<Rightarrow> scheduler_migrations)"

definition test_keys :: key_tools where
  "test_keys = \<lparr>kt_pem = Some, kt_pkcs1 = (\<lambda>b. Inl (ErrorString ''not PKCS1'')), kt_pkcs8 = (\<lambda>b. Inr (RSAKey 77 3)),
     kt_pkix = (\<lambda>b. Inr (RSAKey 77 3)), kt_certificate = (\<lambda>k. Inr ''der''), kt_jwt_private = (\<lambda>p. Inr ()),
     kt_jwt_public = (\<lambda>p. Inr ())\<rparr>"

definition test_start :: "binders \<Rightarrow> (module_id \<Rightarrow> migration_fault) \<Rightarrow> start_answers" where
  "test_start x f = \<lparr>sx_keys = test_keys, sx_binders = x, sx_faults = (\<lambda>m. migration_trouble (\<lambda>name. f m)),
     sx_files = both_files, sx_telemetry = Inr ()\<rparr>"

definition full_env :: process_env where
  "full_env name = (if name = ''SERVER_PORT'' then None else Some ''value'')"

definition two_boots :: "binders \<Rightarrow> (start_answers \<times> Config) list" where
  "two_boots x =
     [(test_start x (\<lambda>m. if m = SchedulerModule then CommitFails True DeadlineExceeded else AppliesCleanly), projr (Load full_env)),
      (test_start x (\<lambda>m. AppliesCleanly), projr (Load full_env))]"

definition append_migrator :: "string list migrator" where
  "append_migrator m sql c = Inr (c @ [sql])"

definition no_binders :: binders where
  "no_binders =
     \<lparr>bn_path_uuid = (\<lambda>s. None), bn_required_uuid = (\<lambda>n q. None), bn_required_time = (\<lambda>n q. None),
      bn_required_date = (\<lambda>n q. None), bn_required_email = (\<lambda>n q. None), bn_optional_text = (\<lambda>n q. Some None),
      bn_optional_texts = (\<lambda>n q. Some None), bn_optional_bool = (\<lambda>n q. Some None),
      bn_optional_int = (\<lambda>n q. Some None), bn_optional_time = (\<lambda>n q. Some None),
      bn_optional_email = (\<lambda>n q. Some None), bn_uuid = (\<lambda>s. None), bn_time = (\<lambda>s. None), bn_email = text_of,
      bn_parse_time = (\<lambda>s. Inl wrong_kind)\<rparr>"

lemma two_boots_outcome:
  "isl (fst (process_starts append_migrator (two_boots x) (\<lambda>m. fresh_schema)) ! 0)"
  "\<not> isl (fst (process_starts append_migrator (two_boots x) (\<lambda>m. fresh_schema)) ! 1)"
  by code_simp+

lemma starts_migrate_once_witness:
  "\<exists>n'. schemas_at append_migrator (\<lambda>m. []) (\<lambda>m. migration_files (both_files m)) n'
       (snd (process_starts append_migrator (two_boots no_binders) (\<lambda>m. fresh_schema)))
     \<and> isl (fst (process_starts append_migrator (two_boots no_binders) (\<lambda>m. fresh_schema)) ! 0)
     \<and> \<not> isl (fst (process_starts append_migrator (two_boots no_binders) (\<lambda>m. fresh_schema)) ! 1) \<and> 2 \<le> n' SchedulerModule"
proof -
  let ?history = "process_starts append_migrator (two_boots no_binders) (\<lambda>m. fresh_schema)"
  have files: "migration_files (both_files AuthModule) = [(''0001_init.up.sql'', ''users'')]"
    "migration_files (both_files SchedulerModule)
      = [(''0001_init_tables.up.sql'', ''init''), (''0002_drop_appointment_idempotency.up.sql'', ''drop'')]" by code_simp+
  have numbers: "map (migrationFileVersion \<circ> fst) (migration_files (both_files AuthModule)) = map Inr [1]"
    "map (migrationFileVersion \<circ> fst) (migration_files (both_files SchedulerModule)) = map Inr [1, 2]" by code_simp+
  have numbered: "\<forall>m. well_numbered (migration_files (both_files m))"
  proof
    fix m
    show "well_numbered (migration_files (both_files m))"
    proof (cases m)
      case AuthModule
      then show ?thesis unfolding well_numbered_def using numbers(1) by (intro exI [of _ "[1]"]) simp
    next
      case SchedulerModule
      then show ?thesis unfolding well_numbered_def using numbers(2) by (intro exI [of _ "[1, 2]"]) simp
    qed
  qed
  have known: "\<forall>s\<in>set (two_boots no_binders). known_files (\<lambda>m. migration_files (both_files m)) (fst s)"
    by (simp add: two_boots_def known_files_def test_start_def)
  have fresh: "schemas_at append_migrator (\<lambda>m. []) (\<lambda>m. migration_files (both_files m)) (\<lambda>m. 0) (\<lambda>m. fresh_schema)"
    by (simp add: schemas_at_def migrated_to_def fresh_schema_def)
  note runs = two_boots_outcome [of no_binders]
  have two: "length (two_boots no_binders) = 2" by (simp add: two_boots_def)
  obtain n' where n': "schemas_at append_migrator (\<lambda>m. []) (\<lambda>m. migration_files (both_files m)) n' (snd ?history)"
    "list_all2 (serves_all n') (two_boots no_binders) (fst ?history)"
    using starts_migrate_once [OF numbered known fresh, of "fst ?history" "snd ?history"] by auto
  have "serves_all n' (two_boots no_binders ! 1) (fst ?history ! 1)" using n'(2) two by (simp add: list_all2_nthD)
  then have "length (migration_files (both_files SchedulerModule)) \<le> n' SchedulerModule"
    using runs(2) by (auto simp: serves_all_def two_boots_def test_start_def split: sum.splits)
  then show ?thesis using n'(1) runs files(2) by (intro exI [of _ n']) simp
qed

section \<open>The order of the modules and the end of the process\<close>

text \<open>The scheduler must come after the module whose contract it needs.\<close>

lemma scheduler_first_fails:
  "fst (start_modules run sx config [SchedulerModule, AuthModule] (boot ds)) \<noteq> Inr ()"
  by (auto simp: boot_def migrate_module_def split: prod.splits sum.splits)

text \<open>A loaded configuration never makes a module panic.\<close>

lemma start_modules_no_panic:
  assumes "usable_config config" and "start_modules run sx config ms st = (Inl f, st')"
  shows "\<exists>err. f = Failed err"
  using assms(2)
proof (induction ms arbitrary: st)
  case (Cons m ms)
  have no: "fst (Init run sx config m st) \<noteq> Inl (PanickedWith e)" "fst (RegisterContracts sx m st1) \<noteq> Inl (PanickedWith e)"
    for e and st1 :: "'a startup"
    using assms(1) by (cases m; auto simp: auth_Init_def migrate_module_def usable_config_def split: prod.splits sum.splits)+
  show ?case
    using Cons no by (auto simp: in_module_def split: prod.splits sum.splits start_failure.splits) (metis fst_conv)+
qed simp

lemma register_modules_no_panic: "register_modules sx ms st = (Inl f, st') \<Longrightarrow> \<exists>err. f = Failed err"
proof (induction ms arbitrary: st)
  case (Cons m ms)
  then show ?case by (cases m) (auto simp: in_module_def split: if_splits)
qed simp

lemma New_no_panic:
  assumes "usable_config config" and "New run sx database store config st = (Inl f, st')"
  shows "\<exists>err. f = Failed err"
  using assms(2) start_modules_no_panic [OF assms(1)] register_modules_no_panic
  by (auto simp: New_def split: if_splits sum.splits prod.splits)

theorem process_never_crashes: "fst (main run sx mx env st) \<noteq> Crashed err"
  using New_no_panic [OF Load_usable]
  by (auto simp: main_def split: sum.splits prod.splits option.splits start_failure.splits) blast+

text \<open>An orderly end gives everything back; every other end, a failed listener and a refused shutdown
  included, leaves by \<open>log.Fatal\<close> and keeps what was opened: spans that were not exported yet are lost.\<close>

theorem fatal_exit_flushes_nothing:
  assumes "main run sx mx env st = (exit, open_ones, st')"
  shows "exit = Exited \<Longrightarrow> open_ones = []"
    and "exit = Fatal err \<Longrightarrow> Inr config = Load env \<Longrightarrow> mx_observability mx = Inr () \<Longrightarrow> Observability \<in> set open_ones"
  using assms by (auto simp: main_def split: sum.splits prod.splits option.splits start_failure.splits)

end
