(* ===== verification/Telemetry.thy ===== *)
theory Telemetry
  imports Api_Atomic
begin

text \<open>
  What the appointment use cases record about themselves (app/telemetry.go and
  common/observability/appointment\_scheduler.go): counters by outcome, durations, and one span per use case.
  The SDK behind them is reduced to what it is told; the texts Go has for the types of errors are a parameter.
\<close>

section \<open>Outcomes\<close>

definition AppointmentOutcome :: "go_error option \<Rightarrow> string" where
  "AppointmentOutcome err =
     (case err of
        None \<Rightarrow> ''success''
      | Some e \<Rightarrow>
          if errors_is e (AppAppointmentErr ErrAppointmentUnavailable) then ''conflict''
          else case as_common e of
            Some (code, message, slug) \<Rightarrow>
              if code = 400 then ''validation_error'' else if code = 409 then ''conflict'' else ''error''
          | None \<Rightarrow> ''error'')"

definition AppointmentStatusCode :: "go_error option \<Rightarrow> int \<Rightarrow> int" where
  "AppointmentStatusCode err successStatus =
     (case err of
        None \<Rightarrow> successStatus
      | Some e \<Rightarrow>
          (case as_common e of
             Some (code, message, slug) \<Rightarrow> if code \<noteq> 0 then code else 500
           | None \<Rightarrow> 500))"

section \<open>Spans and counters\<close>

datatype attribute = TextAttribute string string | IntAttribute string int

record span =
  sp_name :: string
  sp_attributes :: "attribute list"
  sp_failed :: "string option"
  sp_errors :: "go_error list"

text \<open>The instruments: each counter and histogram by its labels (outcome; or from, to and outcome), and the
  spans that ended.\<close>

record telemetry =
  tl_bookingTotal :: "string \<Rightarrow> nat"
  tl_bookingDuration :: "(string \<times> int) list"
  tl_transitionTotal :: "string \<times> string \<times> string \<Rightarrow> nat"
  tl_transitionDuration :: "((string \<times> string \<times> string) \<times> int) list"
  tl_spans :: "span list"

definition no_telemetry :: telemetry where
  "no_telemetry = \<lparr>tl_bookingTotal = (\<lambda>k. 0), tl_bookingDuration = [], tl_transitionTotal = (\<lambda>k. 0),
     tl_transitionDuration = [], tl_spans = []\<rparr>"

definition recordSpanError :: "(go_error \<Rightarrow> string) \<Rightarrow> go_error \<Rightarrow> string \<Rightarrow> span \<Rightarrow> span" where
  "recordSpanError type_name err statusDescription s =
     s\<lparr>sp_failed := Some statusDescription,
       sp_attributes := sp_attributes s @ [TextAttribute ''error.type'' (type_name err)],
       sp_errors := sp_errors s @ [err]\<rparr>"

definition schedule_span :: "uuid \<Rightarrow> ScheduleAppointmentInput \<Rightarrow> span" where
  "schedule_span actorID input =
     \<lparr>sp_name = ''scheduler.schedule_appointment'',
      sp_attributes =
        [TextAttribute ''actor.id'' (uuid_String actorID),
         TextAttribute ''customer.id'' (uuid_String (in_CustomerID input)),
         TextAttribute ''vehicle.id'' (uuid_String (in_VehicleID input)),
         TextAttribute ''service_type.id'' (uuid_String (in_ServiceTypeID input)),
         TextAttribute ''technician.id'' (uuid_String (in_TechnicianID input)),
         TextAttribute ''service_bay.id'' (uuid_String (in_ServiceBayID input))],
      sp_failed = None, sp_errors = []\<rparr>"

definition booking_completed ::
  "(go_error \<Rightarrow> string) \<Rightarrow> int \<Rightarrow> span \<Rightarrow> go_error + ScheduleAppointmentRecord \<Rightarrow> telemetry \<Rightarrow> telemetry" where
  "booking_completed type_name elapsed s r t =
     (let err = (case r of Inl e \<Rightarrow> Some e | Inr _ \<Rightarrow> None);
          outcome = AppointmentOutcome err;
          s1 = s\<lparr>sp_attributes := sp_attributes s @
                 [TextAttribute ''booking.outcome'' outcome, IntAttribute ''status_code'' (AppointmentStatusCode err 201)]\<rparr>;
          s2 = (case r of
                  Inl e \<Rightarrow> recordSpanError type_name e ''booking failed'' s1
                | Inr record \<Rightarrow> s1\<lparr>sp_attributes := sp_attributes s1 @
                    [IntAttribute ''record_count'' 1,
                     TextAttribute ''appointment.id'' (uuid_String (sar_AppointmentID record)),
                     TextAttribute ''dealership.id'' (uuid_String (sar_DealershipID record))]\<rparr>)
      in t\<lparr>tl_bookingTotal := (tl_bookingTotal t)(outcome := Suc (tl_bookingTotal t outcome)),
           tl_bookingDuration := tl_bookingDuration t @ [(outcome, elapsed)],
           tl_spans := tl_spans t @ [s2]\<rparr>)"

definition transition_span :: "uuid \<Rightarrow> uuid \<Rightarrow> span" where
  "transition_span actorID appointmentID =
     \<lparr>sp_name = ''scheduler.change_appointment_status'',
      sp_attributes = [TextAttribute ''actor.id'' (uuid_String actorID),
        TextAttribute ''appointment.id'' (uuid_String appointmentID)],
      sp_failed = None, sp_errors = []\<rparr>"

definition transition_completed ::
  "(go_error \<Rightarrow> string) \<Rightarrow> int \<Rightarrow> AppointmentStatus \<Rightarrow> AppointmentStatus \<Rightarrow> span \<Rightarrow> go_error + unit \<Rightarrow> telemetry \<Rightarrow> telemetry" where
  "transition_completed type_name elapsed from_status to_status s r t =
     (let err = (case r of Inl e \<Rightarrow> Some e | Inr _ \<Rightarrow> None);
          outcome = AppointmentOutcome err;
          labels = (status_string from_status, status_string to_status, outcome);
          s1 = s\<lparr>sp_attributes := sp_attributes s @
                 [TextAttribute ''appointment.status.from'' (status_string from_status),
                  TextAttribute ''appointment.status.to'' (status_string to_status),
                  TextAttribute ''appointment.outcome'' outcome,
                  IntAttribute ''status_code'' (AppointmentStatusCode err 204)]\<rparr>;
          s2 = (case r of
                  Inl e \<Rightarrow> recordSpanError type_name e ''appointment transition failed'' s1
                | Inr _ \<Rightarrow> s1\<lparr>sp_attributes := sp_attributes s1 @ [IntAttribute ''record_count'' 1]\<rparr>)
      in t\<lparr>tl_transitionTotal := (tl_transitionTotal t)(labels := Suc (tl_transitionTotal t labels)),
           tl_transitionDuration := tl_transitionDuration t @ [(labels, elapsed)],
           tl_spans := tl_spans t @ [s2]\<rparr>)"

section \<open>The use cases with their telemetry\<close>

text \<open>\<open>ScheduleAppointment\<close> and \<open>ChangeAppointmentStatus\<close> start the telemetry first and complete it in a
  deferred call, on every return.\<close>

definition observed_ScheduleAppointment ::
  "(go_error \<Rightarrow> string) \<Rightarrow> int \<Rightarrow> service_env \<Rightarrow> (ScheduleAppointmentRecord, db) world \<Rightarrow> zone_db
     \<Rightarrow> (nat \<Rightarrow> uuid \<times> uuid \<times> uuid) \<Rightarrow> uuid \<Rightarrow> ScheduleAppointmentInput \<Rightarrow> db \<times> telemetry
     \<Rightarrow> (go_error + ScheduleAppointmentRecord) \<times> db \<times> telemetry" where
  "observed_ScheduleAppointment type_name elapsed env w zone ids actorID input = (\<lambda>(d, t).
     let s = schedule_span actorID input in
     case ScheduleAppointment env w zone ids actorID input d of
       (r, d') \<Rightarrow> (r, d', booking_completed type_name elapsed s r t))"

definition observed_ChangeAppointmentStatus ::
  "(go_error \<Rightarrow> string) \<Rightarrow> int \<Rightarrow> service_env \<Rightarrow> (unit, db) world \<Rightarrow> (nat \<Rightarrow> uuid) \<Rightarrow> uuid \<Rightarrow> uuid
     \<Rightarrow> AppointmentStatus \<Rightarrow> AppointmentStatus \<Rightarrow> gotime option \<Rightarrow> string option \<Rightarrow> string option \<Rightarrow> db \<times> telemetry
     \<Rightarrow> (go_error + unit) \<times> db \<times> telemetry" where
  "observed_ChangeAppointmentStatus type_name elapsed env w auditEvents actorID appointmentID from_status to_status
       actualEndsAt cancellationReason note = (\<lambda>(d, t).
     let s = transition_span actorID appointmentID in
     case ChangeAppointmentStatus env w auditEvents actorID appointmentID from_status to_status
            actualEndsAt cancellationReason note d of
       (r, d') \<Rightarrow> (r, d', transition_completed type_name elapsed from_status to_status s r t))"

text \<open>A call of one of the two, and a sequence of calls with its results.\<close>

datatype observed_call =
    ObservedBooking int service_env "(ScheduleAppointmentRecord, db) world" zone_db
      "nat \<Rightarrow> uuid \<times> uuid \<times> uuid" uuid ScheduleAppointmentInput
  | ObservedTransition int service_env "(unit, db) world" "nat \<Rightarrow> uuid" uuid uuid AppointmentStatus
      AppointmentStatus "gotime option" "string option" "string option"

datatype observed_result =
    BookingResult "go_error + ScheduleAppointmentRecord"
  | TransitionResult AppointmentStatus AppointmentStatus "go_error + unit"

definition observed_step ::
  "(go_error \<Rightarrow> string) \<Rightarrow> observed_call \<Rightarrow> db \<times> telemetry \<Rightarrow> observed_result \<times> db \<times> telemetry" where
  "observed_step type_name c st =
     (case c of
        ObservedBooking elapsed env w zone ids actorID input \<Rightarrow>
          (case observed_ScheduleAppointment type_name elapsed env w zone ids actorID input st of
             (r, st') \<Rightarrow> (BookingResult r, st'))
      | ObservedTransition elapsed env w ev actorID i s s' actual reason note \<Rightarrow>
          (case observed_ChangeAppointmentStatus type_name elapsed env w ev actorID i s s' actual reason note st of
             (r, st') \<Rightarrow> (TransitionResult s s' r, st')))"

fun observed_run ::
  "(go_error \<Rightarrow> string) \<Rightarrow> observed_call list \<Rightarrow> db \<times> telemetry \<Rightarrow> observed_result list \<times> db \<times> telemetry" where
  "observed_run type_name [] st = ([], st)"
| "observed_run type_name (c # cs) st =
     (case observed_step type_name c st of
        (r, st') \<Rightarrow> (case observed_run type_name cs st' of (rs, st'') \<Rightarrow> (r # rs, st'')))"

text \<open>The outcome of a result.\<close>

definition error_in :: "go_error + 'a \<Rightarrow> go_error option" where
  "error_in r = (case r of Inl e \<Rightarrow> Some e | Inr _ \<Rightarrow> None)"

definition booking_outcomes :: "observed_result list \<Rightarrow> string list" where
  "booking_outcomes rs = concat (map (\<lambda>r. case r of BookingResult q \<Rightarrow> [AppointmentOutcome (error_in q)] | _ \<Rightarrow> []) rs)"

definition transition_outcomes :: "observed_result list \<Rightarrow> (string \<times> string \<times> string) list" where
  "transition_outcomes rs = concat (map (\<lambda>r. case r of
       TransitionResult s s' q \<Rightarrow> [(status_string s, status_string s', AppointmentOutcome (error_in q))] | _ \<Rightarrow> []) rs)"

lemma outcome_lists_Cons:
  "booking_outcomes (r # rs) = booking_outcomes [r] @ booking_outcomes rs"
  "transition_outcomes (r # rs) = transition_outcomes [r] @ transition_outcomes rs"
  by (simp_all add: booking_outcomes_def transition_outcomes_def)

lemma observed_step_counts:
  assumes "observed_step type_name c (d, t) = (r, d', t')"
  shows "tl_bookingTotal t' k = tl_bookingTotal t k + count_list (booking_outcomes [r]) k"
    and "tl_transitionTotal t' l = tl_transitionTotal t l + count_list (transition_outcomes [r]) l"
    and "length (tl_spans t') = Suc (length (tl_spans t))"
  using assms
  by (auto simp: observed_step_def observed_ScheduleAppointment_def observed_ChangeAppointmentStatus_def
      booking_completed_def transition_completed_def booking_outcomes_def transition_outcomes_def error_in_def Let_def
      split: observed_call.splits prod.splits)

text \<open>The counters count: after any calls every counter has grown by the number of results with its labels,
  and there is one span more per call.\<close>

theorem telemetry_counts_results:
  assumes "observed_run type_name cs (d, t) = (rs, d', t')"
  shows "tl_bookingTotal t' k = tl_bookingTotal t k + count_list (booking_outcomes rs) k"
    and "tl_transitionTotal t' l = tl_transitionTotal t l + count_list (transition_outcomes rs) l"
    and "length (tl_spans t') = length (tl_spans t) + length cs"
proof -
  have "tl_bookingTotal t' k = tl_bookingTotal t k + count_list (booking_outcomes rs) k
    \<and> tl_transitionTotal t' l = tl_transitionTotal t l + count_list (transition_outcomes rs) l
    \<and> length (tl_spans t') = length (tl_spans t) + length cs"
    using assms
  proof (induction cs arbitrary: d t rs)
    case Nil
    then show ?case by (simp add: booking_outcomes_def transition_outcomes_def)
  next
    case (Cons c cs)
    obtain r d1 t1 where step: "observed_step type_name c (d, t) = (r, d1, t1)" by (cases "observed_step type_name c (d, t)") auto
    obtain rs' where rest: "observed_run type_name cs (d1, t1) = (rs', d', t')" and rs: "rs = r # rs'"
      using Cons.prems step by (auto split: prod.splits)
    show ?case
      using Cons.IH [OF rest] observed_step_counts [OF step] by (simp add: rs outcome_lists_Cons [of r rs'])
  qed
  then show "tl_bookingTotal t' k = tl_bookingTotal t k + count_list (booking_outcomes rs) k"
    and "tl_transitionTotal t' l = tl_transitionTotal t l + count_list (transition_outcomes rs) l"
    and "length (tl_spans t') = length (tl_spans t) + length cs" by simp_all
qed

section \<open>The recorded status is the one of the answer\<close>

lemma respond_recorded:
  assumes "0 \<notin> set codes"
  shows "respond codes err =
    (let code = AppointmentStatusCode (Some err) success in if code \<in> set codes then code else 500)"
  using assms
  by (auto simp: respond_def operationTimeProblem_def AppointmentStatusCode_def Let_def split: option.splits)

theorem booking_status_recorded:
  assumes "ScheduleAppointment env w zone ids actorID input d = (r, d')"
  shows "answer_status (AppointmentAnswer (fst (ScheduleAppointment_handler env w zone ids actorID (Some input) d))) =
    (let code = AppointmentStatusCode (error_in r) 201
     in if code \<in> {201, 400, 401, 403, 404, 409, 422} \<and> (isl r \<longrightarrow> code \<noteq> 201) then code else 500)"
  using assms respond_recorded [of "[400, 401, 403, 404, 409, 422]" _ 201]
  by (auto simp: ScheduleAppointment_handler_def error_in_def AppointmentStatusCode_def Let_def split: sum.splits option.splits)

text \<open>A transition knows fewer codes; one that the use case refuses with another is recorded with that code and
  answered with 500.\<close>

theorem transition_status_recorded:
  "answer_status (AppointmentAnswer (status_answer r)) =
    (let code = AppointmentStatusCode (error_in r) 204
     in if code \<in> {204, 400, 403, 404, 409} \<and> (isl r \<longrightarrow> code \<noteq> 204) then code else 500)"
  using respond_recorded [of "[400, 403, 404, 409]" _ 204]
  by (auto simp: status_answer_def error_in_def AppointmentStatusCode_def Let_def split: sum.splits option.splits)

end
