(* ===== verification/Logs.thy ===== *)
theory Logs
  imports Request_Json
begin

text \<open>
  What the program writes about requests: the correlation id and its way through context, response and spans
  (common/http/middleware.go, common/log/correlation.go, common/observability/correlation\_span\_processor.go), the
  text of a log record (common/log/slog\_handler.go), and the shortening of bodies (common/http/truncate.go).

  Values of log attributes are resolved ones; the texts of times, floats and durations are given with them.
  \<open>ReplaceAttr\<close> is never set in this program and left out. encoding/json is a parameter, over the values of
  theory Request\_Json.
\<close>

section \<open>Attributes\<close>

datatype slog_value =
    StringValue string
  | Int64Value int
  | Uint64Value nat
  | BoolValue bool
  | TextualValue string
  | AnyValue string
  | GroupValue "(string \<times> slog_value) list"

text \<open>\<open>strconv.Quote\<close>, for ASCII; the bytes of printable characters beyond it stay as they are.\<close>

definition quoted_char :: "char \<Rightarrow> string" where
  "quoted_char c =
     (if c = CHR 0x22 then [CHR 0x5C, CHR 0x22] else if c = CHR 0x5C then [CHR 0x5C, CHR 0x5C]
      else if c = CHR 0x07 then [CHR 0x5C, CHR ''a''] else if c = CHR 0x08 then [CHR 0x5C, CHR ''b'']
      else if c = CHR 0x0C then [CHR 0x5C, CHR ''f''] else if c = CHR 0x0A then [CHR 0x5C, CHR ''n'']
      else if c = CHR 0x0D then [CHR 0x5C, CHR ''r''] else if c = CHR 0x09 then [CHR 0x5C, CHR ''t'']
      else if c = CHR 0x0B then [CHR 0x5C, CHR ''v'']
      else if (of_char c :: int) < 32 \<or> c = CHR 0x7F
      then [CHR 0x5C, CHR ''x'', hex_char (of_char c div 16), hex_char (of_char c mod 16)]
      else [c])"

definition Quote :: "string \<Rightarrow> string" where
  "Quote s = [CHR 0x22] @ concat (map quoted_char s) @ [CHR 0x22]"

definition formatValue :: "slog_value \<Rightarrow> string" where
  "formatValue v =
     (case v of
        StringValue text \<Rightarrow>
          if (\<exists>c\<in>set text. c \<in> {CHR '' '', CHR 0x09, CHR 0x0A, CHR ''='', CHR 0x22}) \<or> text = [] then Quote text else text
      | Int64Value n \<Rightarrow> int_text n
      | Uint64Value n \<Rightarrow> nat_text n
      | BoolValue b \<Rightarrow> if b then ''true'' else ''false''
      | TextualValue text \<Rightarrow> text
      | AnyValue text \<Rightarrow> text
      | GroupValue as \<Rightarrow> [])"

section \<open>The handler\<close>

record log_options =
  lo_Level :: int
  lo_SortKeys :: bool
  lo_NoColor :: bool

record humanHandler =
  hh_opts :: log_options
  hh_groups :: "string list"
  hh_attrs :: "(string \<times> slog_value) list"

record log_record =
  lr_Time :: string
  lr_Level :: int
  lr_Message :: string
  lr_Attrs :: "(string \<times> slog_value) list"

definition Enabled :: "humanHandler \<Rightarrow> int \<Rightarrow> bool" where
  "Enabled h level \<longleftrightarrow> lo_Level (hh_opts h) \<le> level"

definition WithAttrs :: "humanHandler \<Rightarrow> (string \<times> slog_value) list \<Rightarrow> humanHandler" where
  "WithAttrs h as = (if as = [] then h else h\<lparr>hh_attrs := hh_attrs h @ as\<rparr>)"

definition WithGroup :: "humanHandler \<Rightarrow> string \<Rightarrow> humanHandler" where
  "WithGroup h name = (if name = [] then h else h\<lparr>hh_groups := hh_groups h @ [name]\<rparr>)"

definition escape_code :: "string \<Rightarrow> string" where
  "escape_code digits = [CHR 0x1B, CHR 0x5B] @ digits @ ''m''"

definition colour :: "humanHandler \<Rightarrow> string \<Rightarrow> string \<Rightarrow> string" where
  "colour h p value = (if lo_NoColor (hh_opts h) then value else p @ value @ escape_code ''0'')"

definition dim :: "humanHandler \<Rightarrow> string \<Rightarrow> string" where
  "dim h value = colour h (escape_code ''2'') value"

text \<open>\<open>slog.Level.String\<close>, the levels being -4, 0, 4 and 8.\<close>

definition level_name :: "string \<Rightarrow> int \<Rightarrow> string" where
  "level_name base delta = (if delta = 0 then base else base @ (if 0 < delta then ''+'' else []) @ int_text delta)"

definition level_text :: "int \<Rightarrow> string" where
  "level_text l =
     (if l < 0 then level_name ''DEBUG'' (l + 4) else if l < 4 then level_name ''INFO'' l
      else if l < 8 then level_name ''WARN'' (l - 4) else level_name ''ERROR'' (l - 8))"

definition levelBadge :: "humanHandler \<Rightarrow> int \<Rightarrow> string \<Rightarrow> string" where
  "levelBadge h level text =
     (let bg = (if level < 0 then ''44'' else if level < 4 then ''42'' else if level < 8 then ''43'' else ''41'')
      in colour h (escape_code bg @ escape_code ''30'') ('' '' @ text @ '' ''))"

fun join_dots :: "string list \<Rightarrow> string" where
  "join_dots [] = []"
| "join_dots [s] = s"
| "join_dots (s # ss) = s @ ''.'' @ join_dots ss"

fun appendAttrs :: "humanHandler \<Rightarrow> string list \<Rightarrow> (string \<times> slog_value) list \<Rightarrow> string" where
  "appendAttrs h groups [] = []"
| "appendAttrs h groups ((key, value) # as) =
     (if key = [] then appendAttrs h groups as
      else (case value of
              GroupValue inner \<Rightarrow> appendAttrs h (groups @ [key]) inner
            | _ \<Rightarrow> '' '' @ dim h (join_dots (groups @ [key]) @ ''='') @ formatValue value)
           @ appendAttrs h groups as)"

definition Handle :: "humanHandler \<Rightarrow> log_record \<Rightarrow> string" where
  "Handle h r =
     (let as = hh_attrs h @ lr_Attrs r;
          as = (if lo_SortKeys (hh_opts h) then sort_key fst as else as)
      in dim h (lr_Time r) @ '' '' @ levelBadge h (lr_Level r) (level_text (lr_Level r)) @ '' '' @ lr_Message r
         @ appendAttrs h (hh_groups h) as @ [CHR 0x0A])"

section \<open>Correlation ids\<close>

record log_context =
  cx_logger :: "humanHandler option"
  cx_correlation :: "string option"

definition CorrelationID :: "log_context \<Rightarrow> string \<times> bool" where
  "CorrelationID cx = (case cx_correlation cx of None \<Rightarrow> ([], False) | Some c \<Rightarrow> (c, c \<noteq> []))"

definition CorrelationIDFromContext :: "string \<Rightarrow> log_context \<Rightarrow> string" where
  "CorrelationIDFromContext fresh cx = (case CorrelationID cx of (c, ok) \<Rightarrow> if ok then c else ''gen_'' @ fresh)"

definition FromContext :: "humanHandler \<Rightarrow> log_context \<Rightarrow> humanHandler" where
  "FromContext standard cx = (case cx_logger cx of None \<Rightarrow> standard | Some h \<Rightarrow> h)"

text \<open>The span of the request: its trace and span id, when it has one. The middleware gives the next handler the
  context and sets the header of the response; \<open>sent\<close> and \<open>test\<close> are the headers of the request.\<close>

definition correlationMiddleware ::
  "humanHandler \<Rightarrow> string \<Rightarrow> (string \<times> string) option \<Rightarrow> string \<Rightarrow> string \<Rightarrow> log_context \<Rightarrow> log_context \<times> string" where
  "correlationMiddleware standard fresh trace sent test cx =
     (let correlationID = (if sent = [] then fresh else sent);
          logger = WithAttrs standard [(''correlation_id'', StringValue correlationID)];
          logger = (case trace of None \<Rightarrow> logger
             | Some (t, s) \<Rightarrow> WithAttrs logger [(''trace_id'', StringValue t), (''span_id'', StringValue s)]);
          logger = (if test \<noteq> [] then WithAttrs logger [(''test_name'', StringValue test)] else logger)
      in (cx\<lparr>cx_logger := Some logger, cx_correlation := Some correlationID\<rparr>, correlationID))"

text \<open>\<open>OnStart\<close> of the span processor: the attribute a new span gets.\<close>

definition OnStart :: "log_context \<Rightarrow> (string \<times> string) list" where
  "OnStart cx = (case CorrelationID cx of (c, ok) \<Rightarrow> if ok then [(''correlation_id'', c)] else [])"

text \<open>The record of a finished request.\<close>

definition request_log ::
  "humanHandler \<Rightarrow> log_context \<Rightarrow> (string \<times> string) option \<Rightarrow> string \<Rightarrow> int \<Rightarrow> string \<Rightarrow> string \<Rightarrow> go_error option
     \<Rightarrow> string \<Rightarrow> string" where
  "request_log standard cx trace route status method duration err time =
     (let logger = WithAttrs (FromContext standard cx)
            [(''route'', StringValue route), (''status'', Int64Value status), (''method'', StringValue method),
             (''duration'', StringValue duration)];
          logger = (case trace of None \<Rightarrow> logger
             | Some (t, s) \<Rightarrow> WithAttrs logger [(''trace_id'', StringValue t), (''span_id'', StringValue s)]);
          logger = (case err of None \<Rightarrow> logger | Some e \<Rightarrow> WithAttrs logger [(''error'', AnyValue (error_text e))])
      in Handle logger \<lparr>lr_Time = time, lr_Level = 0, lr_Message = ''Request done'', lr_Attrs = []\<rparr>)"

text \<open>One id for all: what the caller sent, or else a fresh one, is what the context, the answer, the logger
  and every span of the request carry.\<close>

theorem correlation_id_everywhere:
  assumes "correlationMiddleware standard fresh trace sent test cx = (cx', header)" and "fresh \<noteq> []"
  shows "header = (if sent = [] then fresh else sent)" and "CorrelationID cx' = (header, True)"
    and "CorrelationIDFromContext other cx' = header" and "OnStart cx' = [(''correlation_id'', header)]"
    and "(''correlation_id'', StringValue header) \<in> set (hh_attrs (FromContext standard cx'))"
  using assms
  by (auto simp: correlationMiddleware_def CorrelationID_def CorrelationIDFromContext_def OnStart_def FromContext_def
      WithAttrs_def Let_def split: option.splits if_splits)

section \<open>One record, one line\<close>

text \<open>No newline in what is written for values that \<open>Quote\<close> does not see.\<close>

definition one_line :: "string \<Rightarrow> bool" where
  "one_line s \<longleftrightarrow> CHR 0x0A \<notin> set s"

fun plain_value :: "slog_value \<Rightarrow> bool" where
  "plain_value (TextualValue t) = one_line t"
| "plain_value (AnyValue t) = one_line t"
| "plain_value (GroupValue as) = (\<forall>(k, v)\<in>set as. one_line k \<and> plain_value v)"
| "plain_value v = True"

lemma one_line_simps [simp]:
  "one_line []" "one_line (c # s) \<longleftrightarrow> c \<noteq> CHR 0x0A \<and> one_line s" "one_line (s @ t) \<longleftrightarrow> one_line s \<and> one_line t"
  by (auto simp: one_line_def)

lemma hex_char_printable:
  assumes "0 \<le> n" and "n < 16"
  shows "hex_char n \<noteq> CHR 0x0A"
proof
  assume "hex_char n = CHR 0x0A"
  then have "(of_char (hex_char n) :: nat) = of_char (CHR 0x0A)" by simp
  then show False using of_hex_char [OF assms] by (simp split: if_splits)
qed

lemma one_line_quoted_char: "one_line (quoted_char c)"
proof -
  have "0 \<le> (of_char c :: int)" by (simp add: of_char_def)
  then show ?thesis by (auto simp: quoted_char_def hex_char_printable)
qed

lemma one_line_Quote: "one_line (Quote s)"
  using one_line_quoted_char by (induction s) (simp_all add: Quote_def)

lemma nat_text_digits: "c \<in> set (nat_text n) \<Longrightarrow> c \<noteq> CHR 0x0A"
proof (induction n rule: nat_text.induct)
  case (1 n)
  have digit: "(char_of (48 + k) :: char) \<noteq> CHR 0x0A" if "k < 10" for k :: nat
  proof
    assume "(char_of (48 + k) :: char) = CHR 0x0A"
    then have "(of_char (char_of (48 + k) :: char) :: nat) = of_char (CHR 0x0A)" by simp
    then show False using that by simp
  qed
  show ?case using 1 digit [of n] digit [of "n mod 10"] by (auto simp: nat_text.simps [of n] split: if_splits)
qed

lemma one_line_int_text: "one_line (nat_text n)" "one_line (int_text i)"
  using nat_text_digits by (auto simp: one_line_def int_text_def)

lemma one_line_formatValue: "plain_value v \<Longrightarrow> one_line (formatValue v)"
proof (cases v)
  case (StringValue t)
  have "one_line t" if "\<not> (\<exists>c\<in>set t. c \<in> {CHR '' '', CHR 0x09, CHR 0x0A, CHR ''='', CHR 0x22})"
    using that unfolding one_line_def by blast
  then show ?thesis using one_line_Quote [of t] by (simp add: formatValue_def StringValue)
qed (simp_all add: formatValue_def one_line_int_text)

lemma one_line_colour: "one_line p \<Longrightarrow> one_line s \<Longrightarrow> one_line (colour h p s)"
  by (simp add: colour_def escape_code_def)

lemma one_line_dim: "one_line s \<Longrightarrow> one_line (dim h s)"
  by (simp add: dim_def one_line_colour escape_code_def)

lemma one_line_join_dots: "\<forall>s\<in>set ss. one_line s \<Longrightarrow> one_line (join_dots ss)"
  by (induction ss rule: join_dots.induct) auto

lemma one_line_appendAttrs:
  "\<forall>s\<in>set groups. one_line s \<Longrightarrow> \<forall>(k, v)\<in>set as. one_line k \<and> plain_value v \<Longrightarrow> one_line (appendAttrs h groups as)"
proof (induction h groups "as" rule: appendAttrs.induct)
  case (2 h groups key val ats)
  then show ?case
    by (cases val) (auto simp: one_line_dim one_line_join_dots one_line_formatValue)
qed simp

lemma one_line_badge: "one_line (levelBadge h level (level_text level))"
  by (simp add: levelBadge_def level_text_def level_name_def one_line_colour escape_code_def one_line_int_text)

text \<open>A record is one line, whatever texts the attributes of kind string hold, as long as the message, the keys
  and the texts that are written as they are hold no newline.\<close>

theorem record_is_one_line:
  assumes "one_line (lr_Time r)" and "one_line (lr_Message r)" and "\<forall>s\<in>set (hh_groups h). one_line s"
    and "\<forall>(k, v)\<in>set (hh_attrs h @ lr_Attrs r). one_line k \<and> plain_value v"
  shows "\<exists>line. Handle h r = line @ [CHR 0x0A] \<and> one_line line"
  using assms
  by (auto simp: Handle_def Let_def one_line_dim one_line_badge intro!: one_line_appendAttrs)

text \<open>An error is written as it is: a joined one, as the transactions of theory Tx return after a failed
  rollback, splits the record of its request, and what follows reads as a line of its own.\<close>

lemma appendAttrs_last:
  "appendAttrs h gs (as @ [(''error'', AnyValue t)])
   = appendAttrs h gs as @ '' '' @ dim h (join_dots (gs @ [''error'']) @ ''='') @ t"
  by (induction h gs "as" rule: appendAttrs.induct) (auto simp: formatValue_def)

lemma Handle_last:
  assumes "hh_attrs h = ats @ [(''error'', AnyValue (p @ q))]" and "lr_Attrs r = []" and "\<not> lo_SortKeys (hh_opts h)"
  shows "suffix (q @ [CHR 0x0A]) (Handle h r)"
proof -
  have "Handle h r = (dim h (lr_Time r) @ '' '' @ levelBadge h (lr_Level r) (level_text (lr_Level r)) @ '' '' @ lr_Message r
      @ appendAttrs h (hh_groups h) ats @ '' '' @ dim h (join_dots (hh_groups h @ [''error'']) @ ''='') @ p) @ q @ [CHR 0x0A]"
    using assms by (simp add: Handle_def appendAttrs_last)
  then show ?thesis unfolding suffix_def by blast
qed

theorem joined_error_splits_record:
  assumes "\<not> lo_SortKeys (hh_opts (FromContext standard cx))"
  shows "suffix ([CHR 0x0A] @ error_text e2 @ [CHR 0x0A])
    (request_log standard cx trace route status method duration (Some (Joined e1 e2)) time)"
proof -
  define h where "h = WithAttrs (FromContext standard cx)
    [(''route'', StringValue route), (''status'', Int64Value status), (''method'', StringValue method),
     (''duration'', StringValue duration)]"
  define h' where "h' = (case trace of None \<Rightarrow> h
    | Some (t, s) \<Rightarrow> WithAttrs h [(''trace_id'', StringValue t), (''span_id'', StringValue s)])"
  have log: "request_log standard cx trace route status method duration (Some (Joined e1 e2)) time =
      Handle (WithAttrs h' [(''error'', AnyValue (error_text (Joined e1 e2)))])
        \<lparr>lr_Time = time, lr_Level = 0, lr_Message = ''Request done'', lr_Attrs = []\<rparr>"
    unfolding request_log_def h_def h'_def Let_def option.case by (rule refl)
  have "hh_opts h' = hh_opts (FromContext standard cx)"
    by (simp add: h'_def h_def WithAttrs_def split: option.split prod.split)
  then show ?thesis
    unfolding log
    using Handle_last [of _ "hh_attrs h'" "error_text e1" "[CHR 0x0A] @ error_text e2"] assms
    by (simp add: WithAttrs_def)
qed

section \<open>Shortened bodies\<close>

text \<open>Strings are their bytes. The body is at most 512 bytes long or is parsed; \<open>parse\<close> and \<open>render\<close> are
  \<open>json.Unmarshal\<close> and \<open>json.Marshal\<close>.\<close>

definition maxBodyLogBytes :: nat where "maxBodyLogBytes = 512"
definition maxArrayLogItems :: nat where "maxArrayLogItems = 6"

definition truncateArray :: "body_value list \<Rightarrow> body_value list" where
  "truncateArray xs =
     (let keep = maxArrayLogItems - 1 in
      take keep xs @ [BObject [(''...'', BText (nat_text (length xs - keep - 1) @ '' items truncated''))]] @ [last xs])"

text \<open>The code shortens a member of an object before it goes into it, the definition afterwards; lemma
  \<open>truncateJSONArrays_as_written\<close> is the recursion of the code.\<close>

definition shorten :: "body_value \<Rightarrow> body_value" where
  "shorten v = (case v of BArray xs \<Rightarrow> if maxArrayLogItems < length xs then BArray (truncateArray xs) else v | _ \<Rightarrow> v)"

fun truncateJSONArrays :: "body_value \<Rightarrow> body_value" where
  "truncateJSONArrays (BObject fs) = BObject (map (\<lambda>(k, v). (k, shorten (truncateJSONArrays v))) fs)"
| "truncateJSONArrays (BArray xs) = BArray (map truncateJSONArrays xs)"
| "truncateJSONArrays v = v"

definition headTailTruncate :: "string \<Rightarrow> string" where
  "headTailTruncate value =
     (let half = maxBodyLogBytes div 2 in
      take half value @ '' ... ('' @ nat_text (length value - 2 * half) @ '' bytes truncated) ... ''
      @ drop (length value - half) value)"

definition truncateBodyForLog ::
  "(string \<Rightarrow> body_value option) \<Rightarrow> (body_value \<Rightarrow> string option) \<Rightarrow> string \<Rightarrow> string" where
  "truncateBodyForLog parse render body =
     (if length body \<le> maxBodyLogBytes then body
      else case parse body of
        None \<Rightarrow> headTailTruncate body
      | Some tree \<Rightarrow>
          (case render (truncateJSONArrays (shorten tree)) of
             None \<Rightarrow> headTailTruncate body
           | Some result \<Rightarrow> result))"

lemma map_truncateArray:
  assumes "maxArrayLogItems < length xs"
  shows "truncateArray (map truncateJSONArrays xs) = map truncateJSONArrays (truncateArray xs)"
proof -
  have "xs \<noteq> []" using assms by auto
  then show ?thesis by (simp add: truncateArray_def Let_def take_map last_map shorten_def)
qed

lemma truncateJSONArrays_as_written:
  "truncateJSONArrays (BObject fs) =
     BObject (map (\<lambda>(k, child). (k, case child of
        BArray xs \<Rightarrow> if maxArrayLogItems < length xs then truncateJSONArrays (BArray (truncateArray xs))
                    else truncateJSONArrays child
      | _ \<Rightarrow> truncateJSONArrays child)) fs)"
  by (auto simp: shorten_def map_truncateArray split: body_value.split)

text \<open>A payload that is not JSON is cut to its two halves of 256 bytes around a note of its length.\<close>

theorem opaque_body_cut:
  assumes "parse body = None" and "maxBodyLogBytes < length body"
  shows "prefix (take 256 body) (truncateBodyForLog parse render body)"
    and "suffix (drop (length body - 256) body) (truncateBodyForLog parse render body)"
    and "length (truncateBodyForLog parse render body) = 512 + 28 + length (nat_text (length body - 512))"
  using assms
  by (simp_all add: truncateBodyForLog_def headTailTruncate_def Let_def maxBodyLogBytes_def suffix_def)

text \<open>Arrays that are members of objects, or the whole body, keep at most seven items, at every depth.\<close>

fun bounded_members :: "body_value \<Rightarrow> bool" where
  "bounded_members (BObject fs) \<longleftrightarrow> (\<forall>(k, v)\<in>set fs. bounded_members v \<and> (\<forall>xs. v = BArray xs \<longrightarrow> length xs \<le> 7))"
| "bounded_members (BArray xs) \<longleftrightarrow> (\<forall>x\<in>set xs. bounded_members x)"
| "bounded_members v \<longleftrightarrow> True"

lemma length_truncateArray: "maxArrayLogItems < length xs \<Longrightarrow> length (truncateArray xs) = 7"
  by (simp add: truncateArray_def maxArrayLogItems_def Let_def)

lemma bounded_truncateArray:
  assumes "\<forall>x\<in>set xs. bounded_members x" and "maxArrayLogItems < length xs"
  shows "\<forall>x\<in>set (truncateArray xs). bounded_members x"
proof -
  have "last xs \<in> set xs" using assms(2) by (intro last_in_set) auto
  then show ?thesis using assms(1) by (auto simp: truncateArray_def Let_def dest: in_set_takeD)
qed

lemma bounded_shorten:
  assumes "bounded_members v"
  shows "bounded_members (shorten v)" and "shorten v = BArray xs \<Longrightarrow> length xs \<le> 7"
proof -
  show "bounded_members (shorten v)"
    using assms bounded_truncateArray by (cases v) (simp_all add: shorten_def)
  show "shorten v = BArray xs \<Longrightarrow> length xs \<le> 7"
    by (cases v) (auto simp: shorten_def length_truncateArray maxArrayLogItems_def split: if_splits)
qed

theorem member_arrays_bounded: "bounded_members (truncateJSONArrays v)"
proof (induction v rule: truncateJSONArrays.induct)
  case (1 fs)
  then show ?case using bounded_shorten by (fastforce simp: split_beta)
qed auto

text \<open>The log volume is not bounded by that, as the comment on \<open>truncateBodyForLog\<close> has it: an array that is an
  item of an array is never shortened, nor is a long text or an object of many members, and a body that parses
  is then written in full.\<close>

theorem nested_arrays_not_shortened:
  assumes "parse body = Some (BArray [BArray (map BInt ns)])" and "render (BArray [BArray (map BInt ns)]) = Some body"
  shows "truncateBodyForLog parse render body = body"
  using assms
  by (simp add: truncateBodyForLog_def shorten_def maxArrayLogItems_def comp_def)

end
