(* ===== verification/Seed.thy ===== *)
theory Seed
  imports Booking
begin

text \<open>
  The development data of modules/seed/seed.go: who of a seeded dealership has which role, skills and shifts,
  which bays have which capabilities, and the thirty appointments with their audit events and reservations.
  Each row has an identifier that \<open>fixtureID\<close> makes of a list of texts (a name-based UUID); here it is
  that list. A statement of the seed inserts its row unless one with the identifier exists; where the row
  violates another constraint the statement, and with it the run, fails. Accounts, names, addresses,
  customers and vehicles are plain data and left out, as are the probes for the migrations.
\<close>

section \<open>The fixtures\<close>

type_synonym fixture_id = "string list"

definition fixture_skills :: "string list" where
  "fixture_skills = [''diagnostics'', ''engine-repair'', ''brake-service'', ''ev-high-voltage'', ''hvac'', ''alignment'',
     ''tire-service'', ''adas-calibration'', ''transmission'', ''suspension'', ''detailing'', ''oil-service'',
     ''electrical'', ''battery'', ''cooling'', ''exhaust'', ''hybrid'', ''inspection'', ''bodywork'', ''wheels'']"

definition fixture_capabilities :: "string list" where
  "fixture_capabilities = [''general-lift'', ''alignment-rack'', ''tire-machine'', ''diagnostic-station'', ''hvac-station'',
     ''engine-hoist'', ''ev-isolation'', ''adas-target'', ''transmission-lift'', ''wash-bay'', ''brake-lathe'']"

text \<open>Name, required skill, required capability and minutes of each service.\<close>

definition fixture_services :: "(string \<times> string \<times> string \<times> nat) list" where
  "fixture_services =
     [(''Oil service'', ''oil-service'', ''general-lift'', 45), (''Tire rotation'', ''tire-service'', ''tire-machine'', 45),
      (''Brake inspection'', ''brake-service'', ''brake-lathe'', 60), (''Wheel alignment'', ''alignment'', ''alignment-rack'', 75),
      (''Diagnostic assessment'', ''diagnostics'', ''diagnostic-station'', 60), (''AC repair'', ''hvac'', ''hvac-station'', 120),
      (''Major engine repair'', ''engine-repair'', ''engine-hoist'', 180),
      (''EV battery inspection'', ''ev-high-voltage'', ''ev-isolation'', 90),
      (''ADAS calibration'', ''adas-calibration'', ''adas-target'', 120),
      (''Transmission service'', ''transmission'', ''transmission-lift'', 120),
      (''Suspension repair'', ''suspension'', ''general-lift'', 120), (''Vehicle detailing'', ''detailing'', ''wash-bay'', 90),
      (''Electrical diagnosis'', ''electrical'', ''diagnostic-station'', 90),
      (''Cooling system repair'', ''cooling'', ''general-lift'', 105)]"

definition fixtureBaySupportsCapability :: "nat \<Rightarrow> nat \<Rightarrow> bool" where
  "fixtureBaySupportsCapability bayIndex capabilityIndex \<longleftrightarrow> (if bayIndex = 0 then True else (capabilityIndex + bayIndex) mod 6 < 4)"

section \<open>Rows of technician skills\<close>

record seed_skill_row =
  kr_id :: fixture_id
  kr_technician :: fixture_id
  kr_skill :: fixture_id

text \<open>\<open>ON CONFLICT (technician_skill_id) DO NOTHING\<close>, where the unique pair is an error, and
  \<open>ON CONFLICT DO NOTHING\<close>.\<close>

definition insert_by_id :: "seed_skill_row \<Rightarrow> seed_skill_row list \<Rightarrow> seed_skill_row list result" where
  "insert_by_id r t =
     (if kr_id r \<in> set (map kr_id t) then Inr t
      else if (kr_technician r, kr_skill r) \<in> set (map (\<lambda>q. (kr_technician q, kr_skill q)) t)
      then Inl (unique_violation ''technician_skills_technician_skill_unique'')
      else Inr (t @ [r]))"

definition insert_any :: "seed_skill_row \<Rightarrow> seed_skill_row list \<Rightarrow> seed_skill_row list result" where
  "insert_any r t =
     (if kr_id r \<in> set (map kr_id t) \<or> (kr_technician r, kr_skill r) \<in> set (map (\<lambda>q. (kr_technician q, kr_skill q)) t)
      then Inr t else Inr (t @ [r]))"

fun insert_all :: "(seed_skill_row \<Rightarrow> seed_skill_row list \<Rightarrow> seed_skill_row list result) \<Rightarrow> seed_skill_row list \<Rightarrow> seed_skill_row list \<Rightarrow> seed_skill_row list result" where
  "insert_all ins [] t = Inr t"
| "insert_all ins (r # rs) t = rbind (ins r t) (insert_all ins rs)"

definition technician_id :: "nat \<Rightarrow> nat \<Rightarrow> fixture_id" where
  "technician_id d e = [''technician'', nat_text d, nat_text (e - 5)]"

definition own_skills :: "nat \<Rightarrow> nat \<Rightarrow> seed_skill_row list" where
  "own_skills d e = map (\<lambda>j. let skill = fixture_skills ! ((e - 5 + j * 3) mod length fixture_skills) in
       \<lparr>kr_id = [''tech-skill'', nat_text d, nat_text e, skill], kr_technician = technician_id d e,
        kr_skill = [''skill'', skill]\<rparr>) [0..<5]"

definition all_skills :: "nat \<Rightarrow> nat \<Rightarrow> seed_skill_row list" where
  "all_skills d e = map (\<lambda>skill. \<lparr>kr_id = [''tech-skill-all'', nat_text d, skill], kr_technician = technician_id d e,
        kr_skill = [''skill'', skill]\<rparr>) fixture_skills"

text \<open>\<open>seedEmployee\<close>, as far as roles, skills and shifts go; employees before the sixth are not technicians.\<close>

definition employee_role :: "nat \<Rightarrow> string" where
  "employee_role e = (if e < 5 then [''admin'', ''staff'', ''staff'', ''dealer'', ''dealer''] ! e else ''technician'')"

definition employee_skills :: "nat \<Rightarrow> nat \<Rightarrow> seed_skill_row list \<Rightarrow> seed_skill_row list result" where
  "employee_skills d e t =
     (if e < 5 then Inr t
      else rbind (insert_all insert_by_id (own_skills d e) t) (\<lambda>t.
        if e < 10 then insert_all insert_any (all_skills d e) t else Inr t))"

definition employee_shift :: "nat \<Rightarrow> string \<times> string" where
  "employee_shift e = (if 10 \<le> e then (''14:00'', ''23:00'') else (''06:00'', ''15:00''))"

fun seed_employees :: "nat \<Rightarrow> nat list \<Rightarrow> seed_skill_row list \<Rightarrow> seed_skill_row list result" where
  "seed_employees d [] t = Inr t"
| "seed_employees d (e # es) t = rbind (employee_skills d e t) (seed_employees d es)"

definition skills_held :: "nat \<Rightarrow> nat \<Rightarrow> seed_skill_row list \<Rightarrow> string list" where
  "skills_held d e t = map (\<lambda>r. kr_skill r ! 1) (filter (\<lambda>r. kr_technician r = technician_id d e) t)"

section \<open>Appointments\<close>

text \<open>Day and hour are those of the dealership's zone; an appointment lasts an hour.\<close>

record seed_appointment =
  sa_service :: nat
  sa_technician :: nat
  sa_bay :: nat
  sa_customer :: nat
  sa_vehicle :: nat
  sa_day :: "nat \<times> nat"
  sa_hour :: nat
  sa_status :: string

definition seedAppointment :: "nat \<Rightarrow> nat \<Rightarrow> seed_appointment" where
  "seedAppointment d n =
     (let shared = n = 1 \<or> n = 2 \<or> n = 7 in
      \<lparr>sa_service = n mod length fixture_services,
       sa_technician = (if shared then 0 else n mod 5),
       sa_bay = (if shared then 0 else n mod 7),
       sa_customer = (d + n * 5) mod 100,
       sa_vehicle = (d + n * 5) mod 100,
       sa_day = (if 20 \<le> n then (9, 3) else if 10 \<le> n then (8, 28) else (8, 27)),
       sa_hour = 7 + n div 5,
       sa_status = [''completed'', ''cancelled'', ''requested'', ''checked_in'', ''in_progress''] ! (n mod 5)\<rparr>)"

text \<open>A nullable time of the row: the moment when the status is the wanted one, or in progress for the
  check-in.\<close>

definition nullableTime :: "string \<Rightarrow> string \<Rightarrow> 'a \<Rightarrow> 'a option" where
  "nullableTime status wanted value =
     (if status = wanted \<or> (wanted = ''checked_in'' \<and> status = ''in_progress'') then Some value else None)"

text \<open>The audit events of an appointment, as type and status, and its two reservations, as resource, status and
  whether it is released.\<close>

definition seed_audit :: "seed_appointment \<Rightarrow> (string \<times> string) list" where
  "seed_audit a = (''created'', ''requested'') # (if sa_status a \<noteq> ''requested'' then [(sa_status a, sa_status a)] else [])"

definition seed_reservations :: "nat \<Rightarrow> seed_appointment \<Rightarrow> (string \<times> fixture_id \<times> string \<times> bool) list" where
  "seed_reservations d a =
     (let released = sa_status a = ''completed'' \<or> sa_status a = ''cancelled'' in
      [(''technician'', [''technician'', nat_text d, nat_text (sa_technician a)], sa_status a, released),
       (''service_bay'', [''bay'', nat_text d, nat_text (sa_bay a)], sa_status a, released)])"

section \<open>What the fixtures are good for\<close>

text \<open>Five of the seven bays of a dealership have each capability, as the comment has it.\<close>

theorem five_compatible_bays:
  assumes "k < length fixture_capabilities"
  shows "length (filter (\<lambda>b. fixtureBaySupportsCapability b k) [0..<7]) = 5"
proof -
  have "list_all (\<lambda>k. length (filter (\<lambda>b. fixtureBaySupportsCapability b k) [0..<7]) = 5) [0..<length fixture_capabilities]"
    by code_simp
  then show ?thesis using assms by (simp add: list_all_iff)
qed

text \<open>Not so the technicians: five are meant to have all skills, but the identifiers of the rows that give
  them do not name the technician, so a second row with one is left out. The first has all twenty, the others
  at most ten.\<close>

theorem one_technician_has_all_skills:
  "case seed_employees 0 [0..<15] [] of
     Inl err \<Rightarrow> False
   | Inr t \<Rightarrow> length (skills_held 0 5 t) = 20 \<and> (\<forall>e\<in>set [6..<15]. length (skills_held 0 e t) \<le> 10)"
  by code_simp

text \<open>The seeded appointments break the rule the program has for bookings: the fourth waits for a wheel
  alignment with a technician who lacks the skill, in a bay that lacks the rack.\<close>

theorem seeded_appointment_incompatible:
  "let a = seedAppointment 0 3; (name, skill, capability, minutes) = fixture_services ! sa_service a in
     sa_status a = ''checked_in'' \<and> name = ''Wheel alignment''
     \<and> skill \<notin> set (skills_held 0 (sa_technician a + 5) (projr (seed_employees 0 [0..<15] [])))
     \<and> \<not> fixtureBaySupportsCapability (sa_bay a) 1 \<and> fixture_capabilities ! 1 = capability"
  by code_simp

text \<open>Nor do their audit events tell how they came about: an appointment in progress was never checked in.\<close>

theorem seeded_audit_skips_check_in:
  "sa_status (seedAppointment d 4) = ''in_progress''"
  "seed_audit (seedAppointment d 4) = [(''created'', ''requested''), (''in_progress'', ''in_progress'')]"
  "\<not> lifecycle_edge AppointmentRequested AppointmentInProgress"
  by (simp_all add: seedAppointment_def seed_audit_def lifecycle_edge_def)

text \<open>What holds is the rule against double booking: two seeded appointments of a dealership that are not over
  never share a technician or a bay in the same hour of a day.\<close>

definition seed_active :: "seed_appointment \<Rightarrow> bool" where
  "seed_active a \<longleftrightarrow> sa_status a \<in> {''requested'', ''checked_in'', ''in_progress''}"

definition seed_clash :: "seed_appointment \<Rightarrow> seed_appointment \<Rightarrow> bool" where
  "seed_clash a b \<longleftrightarrow> seed_active a \<and> seed_active b \<and> sa_day a = sa_day b \<and> sa_hour a = sa_hour b
     \<and> (sa_technician a = sa_technician b \<or> sa_bay a = sa_bay b)"

theorem seeded_appointments_disjoint:
  assumes "m < 30" and "n < 30" and "m \<noteq> n"
  shows "\<not> seed_clash (seedAppointment d m) (seedAppointment d n)"
proof -
  have "list_all (\<lambda>m. list_all (\<lambda>n. m = n \<or> \<not> seed_clash (seedAppointment 0 m) (seedAppointment 0 n)) [0..<30]) [0..<30]"
    by code_simp
  moreover have "seed_clash (seedAppointment d m) (seedAppointment d n) = seed_clash (seedAppointment 0 m) (seedAppointment 0 n)"
    by (simp add: seed_clash_def seed_active_def seedAppointment_def Let_def)
  ultimately show ?thesis using assms unfolding list_all_iff set_upt by (metis atLeastLessThan_iff zero_le)
qed

end
