(* ===== verification/Spec2Isabelle.thy ===== *)
theory Spec2Isabelle
  imports Catalog_Scenario Auth_Properties Idempotency Api_Properties Http_Properties Startup Telemetry Logs Seed
begin

text \<open>
  The dealership service (src/dealership): a Go program that books workshop appointments. This
  development models its modules appointment\_scheduler and auth from the database statements up to
  the HTTP routes, the transaction wrapper and the idempotency middleware they share, the error values
  of the whole program and the server that puts the modules together; it proves what makes the
  bookings, the workforce, the catalog, the accounts, the sessions and the HTTP surface correct.

  \<^bold>\<open>Parts and theories.\<close> Paths are relative to src/dealership/modules/.
  \<^item> Prelude: state-and-error actions (a Go method that touches the database and may return an
    error), byte strings, half-open intervals, rows without conflicts (locale \<open>exclusion\<close>).
    Runtime: uuid.UUID as a 128-bit word, time.Time in nanoseconds, timestamptz in microseconds,
    wrap-around of int64, int32 and int16.
  \<^item> Errors: the sentinel errors of the packages, \<open>common.Error\<close> and its status codes (common/errors.go),
    the driver's errors; \<open>errors.Is\<close> and \<open>errors.As\<close>.
  \<^item> Domain\_Appointment, Domain\_Catalog, Domain\_Schedule, Domain\_People: the package
    appointment\_scheduler/domain, a record and its constructor, rehydration and methods per aggregate.
    Aggregates: the contract they share, locales \<open>aggregate\<close> and \<open>updatable\<close>, interpreted for each.
  \<^item> Tx: common/db.go, \<open>UpdateInTx\<close> with its retry loop, under faults of the driver, lost commit
    answers and other sessions.
  \<^item> Schema, Store, Catalog\_Store: the tables and the write statements with the constraints, triggers
    and indexes of adapters/db/migrations/0001\_init\_tables.up.sql.
  \<^item> Appointment\_Repository, Schedule\_Repository, Workforce\_Repository, Catalog\_Repository,
    Resource\_Repository: adapters/db/*\_repository.go with the statements of adapters/db/dbmodels.
  \<^item> Service\_Env, Appointment\_Service, Workforce\_Service, Catalog\_Service, Customer\_Service: the use
    cases of app/service.go, app/appointment.go and app/authorization.go and the five appointment
    handlers of api/http/handler.go. Queries: the four read models of app/*\_query.go.
  \<^item> Booking: the booking tables as a transition system (\<open>booking_step\<close>, \<open>booking_reachable\<close>) and its
    invariant. Requests, Catalog\_Requests: sequences of requests to the endpoints and the locales that
    lift an invariant of the statements to them. Catalog\_Facts: what each catalog use case guarantees.
    Scenario, Catalog\_Scenario: a concrete dealership and day, on which the theorems are applied.
  \<^item> The module auth: Auth\_Domain (domain/user.go), Auth\_Repository (adapters/db, the token issuer and
    the password hasher), Auth\_Service (app/service.go, api/module, the nine handlers of
    api/http/handler.go), Auth\_Facts (its invariant and the locale \<open>account_relation\<close> that lifts a relation
    of databases to requests), Auth\_Scenario (concrete accounts), Auth\_Properties (its properties).
  \<^item> Migrations: common/migrations.go, the files a module applies to its schema at start-up. Startup: the
    configuration, the modules' module.go, \<open>New\<close> and \<open>Run\<close> of service.go, common/redis/client.go and cmd/main.go.
  \<^item> Telemetry: app/telemetry.go and common/observability/appointment\_scheduler.go around the appointment use
    cases. Logs: common/log, correlation ids and request logs of common/http/middleware.go, and
    common/http/truncate.go. Seed: the bookings and their people and bays of modules/seed.
  \<^item> Idempotency: common/http/idempotency.go over common/redis/idempotency.go, as a function for one
    request and as a step relation for many at once.
  \<^item> The HTTP surface: Answers (bodies, clock times, the error function of each endpoint), Handlers (all
    handlers of appointment\_scheduler/api/http/handler.go but the appointment ones), Request\_Json
    (optional\_nullable\_string.go and optional\_nullable\_int.go), Api (the operations, their dispatch and
    \<open>requireIdentity\<close>), Api\_Facts (a request is at most one request of Catalog\_Requests), Api\_Atomic (errors
    and effects), Api\_Authority (what a request may depend on), Api\_Times, Api\_Properties.
  \<^item> The generated bindings, api/http/openapi.gen.go of both modules: Http\_Bodies (how a struct is read
    from a JSON value, a path or query parameter from a request), Http\_Responses (the responses of each
    operation), Http\_Routes (the strict handlers and wrappers of the 66 operations of the scheduler, their
    registration and the operations \<open>Register\<close> guards), Auth\_Http (the same for the 9 operations of auth).
    Http\_Answers and Http\_Facts: every answer has a response; a request on a route is refused or is one
    typed request. Server: service.go, both modules behind the middleware, one request after the other,
    over the keys in Redis, the accounts and the scheduler's database. Http\_Properties: what holds of it.

  \<^bold>\<open>State and interaction.\<close> The state is the database \<open>db\<close>, a record of tables in insertion order. A
  repository method is a function of it or an action on it; a use case composes the methods, the
  domain functions and its parameters (clock, ids, token claims: record \<open>service_env\<close>) as the code
  does; a handler turns the outcome into a status code. A transaction body is run by
  \<open>updateInTxWithIsolation\<close> in a \<open>world\<close>: which statements or commits fail at which attempt and what
  other sessions commit before it.

  \<^bold>\<open>What is shown.\<close>
  \<^item> Bookings (C1--C7, C29): no technician and no bay is booked twice, the reservation ledger is exact,
    nobody works during time off, the audit trail replays to the current status, rows are well-formed
    aggregates, a transition of the repository is the domain's, a booking succeeds iff it is bookable,
    and a bookable request is answered with 201.
  \<^item> Requests (C8, C10--C12): any sequence of requests keeps the invariant whatever fails around it, a
    201 means booked, a status change stays in the actor's dealership and is audited once.
  \<^item> Transactions (C13) and migrations (C15): at most ten attempts, the outcome is that of one attempt,
    business errors are not retried; the files of a schema are applied once and in order, and a server
    serves on complete schemas only. Beside them (Startup, Telemetry, Logs, Seed): a loaded configuration
    never makes the start panic, counters count the results, the recorded status is the answered one, one
    correlation id everywhere, when a log record is one line, and where the development data breaks the
    rules.
  \<^item> The server (C9, C14, C19, C22, C25, C36--C38): after any requests on any routes of both modules all
    invariants hold, a client error and a GET change nothing, every answer is a documented response, only
    a live access token acts and it alone decides until it expires, a write that succeeded is not
    repeated for its key within a day, one request after the other or at once.
  \<^item> Workforce and durations (C16--C18): the guard of deactivation and the update that goes around it,
    shifts that can never be changed, skills that are not scoped to a dealership, the length of a booked
    interval and the bound beyond which it wraps.
  \<^item> Catalog (C20, C21, C23, C24, C26--C28): appointments never dangle, unique identities, tenant
    isolation, permanent claims of customers, guarded deletions, round trips and where they end.
  \<^item> Queries (C30, C31): the free bays are the bookable ones; the schedule shows exactly the active
    appointments.
  \<^item> Accounts (C32--C35): signing out ends sessions for ever, roles change only by the superadmin, a
    sign-up signs in with its password only, and the lost update of a profile written late.
  \<^item> HTTP texts (C39, C40): opening hours come back as sent, and which members of PATCH bodies are never
    read.

  \<^bold>\<open>Parameters and assumptions.\<close> Code outside the repository is a parameter: \<open>zone\<close> (AT TIME ZONE),
  \<open>tzdata\<close> and \<open>load_location\<close> (time.LoadLocation), \<open>parse_address\<close> (mail.ParseAddress), \<open>parse_uuid\<close>,
  \<open>collate\<close> (ORDER BY on text), the auth module's user lookup and the backoff loop. What is assumed of
  them is named: \<open>backoff_contract\<close> (at most the given number of attempts, stop at success or at a
  permanent error), \<open>sound_world\<close> and \<open>call_within\<close> (a lost commit answer does not read like a
  serialization failure, other sessions keep the invariant, fresh ids are not zero). Transactions of
  one database are serialisable, which is what the isolation level of the code asks for. Strings are
  byte strings; case mapping and trimming are those of ASCII. No fuel is used: every function is total,
  and the retry loop is bounded by its ten attempts.

  The parsers of parameters and texts that the bindings call are the record \<open>binders\<close>; which route a
  path belongs to is the router's business.

  \<^bold>\<open>Not modelled.\<close> The texts: JSON is read from the value a text stands for, and an answer is the value
  whose encoding is sent, which is taken to succeed. Timeouts, panic recovery and the construction of the
  telemetry providers have no state the program reads back; RS256, bcrypt, X.509 and Redis are libraries.
  The generated statements nobody calls are left out, and of modules/seed the plain data: accounts, names,
  customers, vehicles and opening hours.
\<close>

section \<open>Bookings\<close>

text \<open>C1. No double booking: in every database the program can reach, two different active
  appointments of the same technician, or of the same service bay, occupy disjoint times.\<close>

theorem no_double_booking:
  assumes "booking_reachable zone d"
    and "a \<in> set (appointments d)" and "b \<in> set (appointments d)" and "ap_id a \<noteq> ap_id b"
    and "ap_active a" and "ap_active b"
    and "ap_technician_id a = ap_technician_id b \<or> ap_service_bay_id a = ap_service_bay_id b"
  shows "ap_ends_at a \<le> ap_starts_at b \<or> ap_ends_at b \<le> ap_starts_at a"
proof -
  have ok: "booking_ok d" using booking_reachable_inv [OF assms(1)] by (simp add: booking_inv_def)
  have ne: "a \<noteq> b" using assms(4) by auto
  have "\<not> technician_clash a b" "\<not> service_bay_clash a b"
    using ok ap_technician.no_two_rows [OF _ assms(2,3) ne] ap_bay.no_two_rows [OF _ assms(2,3) ne]
    by (simp_all add: booking_ok_def)
  then show ?thesis
    using assms(5-7) by (auto simp: technician_clash_def service_bay_clash_def overlaps_def)
qed

lemma no_double_booking_witness:
  "ap_ends_at (appointments shop2 ! 0) \<le> ap_starts_at (appointments shop2 ! 1)
   \<or> ap_ends_at (appointments shop2 ! 1) \<le> ap_starts_at (appointments shop2 ! 0)"
  by (rule no_double_booking [OF shop2_reachable shop2_mem]) (use shop2_facts in simp_all)

text \<open>C2. The reservation ledger is exact: in every reachable database the open reservations of
  an appointment are its technician and its bay for its interval while it is active, and none
  once it is completed or cancelled.\<close>

theorem ledger_exact:
  assumes "booking_reachable zone d" and "a \<in> set (appointments d)"
  shows "held d (ap_id a) =
    (if ap_active a
     then [(ResTechnician, ap_technician_id a, ap_starts_at a, ap_ends_at a),
           (ResServiceBay, ap_service_bay_id a, ap_starts_at a, ap_ends_at a)]
     else [])"
  using booking_reachable_inv [OF assms(1)] assms(2)
  by (auto simp: booking_inv_def ledger_ok_def list_all_iff claims_def)

lemma ledger_exact_witness:
  "held shop6 (ap_id (appointments shop6 ! 0)) =
    (if ap_active (appointments shop6 ! 0)
     then [(ResTechnician, ap_technician_id (appointments shop6 ! 0), ap_starts_at (appointments shop6 ! 0),
            ap_ends_at (appointments shop6 ! 0)),
           (ResServiceBay, ap_service_bay_id (appointments shop6 ! 0), ap_starts_at (appointments shop6 ! 0),
            ap_ends_at (appointments shop6 ! 0))]
     else [])"
  by (rule ledger_exact [OF shop6_reachable shop6_mem(1)])



text \<open>C4. The audit trail is complete and truthful: in every reachable database the events recorded
  for an appointment are one \<open>created\<close> event followed by the status changes of its lifecycle, each
  an allowed edge that starts where the one before ended, and the last ends in the status the
  appointment has.\<close>

theorem audit_trail_replays:
  assumes "booking_reachable zone d" and "a \<in> set (appointments d)"
  shows "\<exists>c es. trail d (ap_id a) = c # es \<and> au_event_type c = ''created''
    \<and> replays AppointmentRequested es (ap_status a)"
proof -
  have "trail_ok (trail d (ap_id a)) (ap_status a)"
    using booking_reachable_inv [OF assms(1)] assms(2) by (simp add: booking_inv_def audit_ok_def list_all_iff)
  then show ?thesis by (auto simp: trail_ok_def split: list.splits)
qed

lemma audit_trail_replays_witness:
  "\<exists>c es. trail shop6 (ap_id (appointments shop6 ! 0)) = c # es \<and> au_event_type c = ''created''
    \<and> replays AppointmentRequested es (ap_status (appointments shop6 ! 0))"
  by (rule audit_trail_replays [OF shop6_reachable shop6_mem(1)])

text \<open>C5. Stored appointments are well-formed aggregates: in every reachable database the row of an
  appointment satisfies the invariant of the domain type (its interval is not empty, each
  status has the timestamps it needs and a completed one ends within its interval after its
  check-in).\<close>

theorem stored_appointments_wf:
  assumes "booking_reachable zone d" and "a \<in> set (appointments d)"
  shows "appointment_wf (abs_appointment a)"
  using booking_reachable_inv [OF assms(1)] assms(2) by (simp add: booking_inv_def rows_ok_def list_all_iff)

lemma stored_appointments_wf_witness: "appointment_wf (abs_appointment (appointments shop6 ! 0))"
  by (rule stored_appointments_wf [OF shop6_reachable shop6_mem(1)])

text \<open>C6. A successful transition of the repository is the operation of the aggregate: reading
  the locked row as an \<open>Appointment\<close>, applying the domain's method for the requested status and
  writing it back gives the row the statements leave, and no other row changes.\<close>

theorem transition_implements_domain:
  assumes "booking_inv d" and "issued_transition tr" and "transition_body e tr d = Inr d'"
  shows "\<exists>a actual b. a \<in> set (appointments d) \<and> ap_id a = tr_AppointmentID tr
    \<and> ap_dealership_id a = tr_DealershipID tr
    \<and> apply_event (event_of tr actual) (abs_appointment a) = Inr b
    \<and> map abs_appointment (appointments d')
        = map (\<lambda>x. if ap_id x = tr_AppointmentID tr then b else abs_appointment x) (appointments d)"
proof -
  obtain a actual n where eff: "transition_effect e tr d d' a actual n"
    using transition_body_effect [OF assms(3)] by blast
  have ok: "booking_ok d" using assms(1) by (simp add: booking_inv_def)
  note row = effect_row [OF eff] and tables = effect_tables(1) [OF eff]
  have "map abs_appointment (appointments d')
      = map (\<lambda>x. if ap_id x = tr_AppointmentID tr then abs_appointment (transitioned tr actual n a)
           else abs_appointment x) (appointments d)"
    using effect_unique [OF ok eff] row unfolding tables update_where_def
    by (auto simp: o_def)
  then show ?thesis using row transition_refines [OF ok assms(2) eff] by blast
qed

lemma transition_implements_domain_witness:
  "\<exists>a actual b. a \<in> set (appointments shop2) \<and> ap_id a = tr_AppointmentID check_in_1
    \<and> ap_dealership_id a = tr_DealershipID check_in_1
    \<and> apply_event (event_of check_in_1 actual) (abs_appointment a) = Inr b
    \<and> map abs_appointment (appointments shop3)
        = map (\<lambda>x. if ap_id x = tr_AppointmentID check_in_1 then b else abs_appointment x) (appointments shop2)"
  by (rule transition_implements_domain [OF booking_reachable_inv [OF shop2_reachable] issued_requests(1) shop3_run])

text \<open>C7. Scheduling books exactly the requests the business rules allow: on a database that
  satisfies the invariant, the transaction body succeeds if and only if the request is bookable
  (active dealership and service type, allowed duration, vehicle of a customer of the
  dealership, opening hours, compatible technician and bay, working and not away, slot free),
  and then the database has the appointment, its two reservations and its audit event and is
  otherwise unchanged.\<close>

theorem schedule_exactly_bookable:
  assumes "booking_reachable zone d"
  shows "ScheduleAppointment_tx zone ids (r, d) = (Inr (), (r', d')) \<longleftrightarrow>
    (\<exists>maxDuration. bookable zone ids r d maxDuration \<and> r' = resolved maxDuration r \<and> d' = booked r' ids d)"
  by (rule schedule_iff_bookable [OF booking_reachable_inv [OF assms]])

lemma schedule_exactly_bookable_witness:
  "\<exists>r'. \<exists>maxDuration. bookable utc_zone ids2 (booking_request 200 ''A-2'' 600 30) shop1 maxDuration
      \<and> r' = resolved maxDuration (booking_request 200 ''A-2'' 600 30) \<and> shop2 = booked r' ids2 shop1"
  using schedule_exactly_bookable [OF shop1_reachable, of ids2 "booking_request 200 ''A-2'' 600 30"]
    fst_Inr_run [OF shop2_run] unfolding shop2_def by blast

section \<open>Requests\<close>



text \<open>Workforce requests keep the booking invariant too, whatever their outcome: creating,
  changing and deactivating technicians, their shifts, skills and time off.\<close>

theorem workforce_keeps_invariant:
  assumes "booking_inv d"
  shows "booking_inv (snd (workforce_use_case pa zone tz faults env actor req d))"
  using preservesD [OF workforce_bookings.workforce_preserves, of _ _ _ _ _ _ _ d, OF _ assms] by (metis prod.collapse)

lemma workforce_keeps_invariant_witness:
  "booking_inv (snd (workforce_use_case Some utc_zone (\<lambda>u. ''UTC'') no_faults (desk_env 90 0) 30
     (WfDeactivateTechnician 10) shop))"
  by (rule workforce_keeps_invariant [OF shop_inv])

text \<open>A problem answer means nothing happened: when no failure and no other session interferes,
  an appointment request answered with an error leaves the database exactly as it was.\<close>

theorem problem_changes_nothing:
  assumes "calm_call c" and "handle zone c d = (Problem code e, d')"
  shows "d' = d"
  by (rule calm_handle_problem [OF assms])

lemma problem_changes_nothing_witness:
  "snd (handle utc_zone (desk_call 60 1 (ReqSchedule None)) shop) = shop"
proof -
  obtain code e where "fst (handle utc_zone (desk_call 60 1 (ReqSchedule None)) shop) = Problem code e"
    by (simp add: handle_def handler_defs desk_call_def)
  then show ?thesis
    using problem_changes_nothing [OF desk_call_calm, of utc_zone 60 1 "ReqSchedule None" shop]
    by (metis prod.collapse)
qed

text \<open>C10. A 201 answer means the appointment is booked: the transaction ran to its end once on
  the database, with the request the answer echoes. The answer's end time, however, is always
  Go's zero time: the end is computed inside the transaction, on the repository's copy of the
  record, and the caller's record never gets it.\<close>

theorem created_means_booked:
  assumes "calm_call c" and "handle zone c d = (Created201 r, d')"
  shows "(\<exists>ids r0 r'. same_request r r0 \<and> ScheduleAppointment_tx zone ids (r0, d) = (Inr (), (r', d')))
    \<and> sar_EndsAt r = time_zero"
  using calm_handle_created [OF assms] by blast

lemma created_means_booked_witness:
  "\<exists>r. (\<exists>ids r0 r'. same_request r r0 \<and> ScheduleAppointment_tx utc_zone ids (r0, shop) =
        (Inr (), (r', snd (handle utc_zone (hd desk_calls) shop)))) \<and> sar_EndsAt r = time_zero"
proof -
  have "case fst (handle utc_zone (hd desk_calls) shop) of Created201 r \<Rightarrow> True | _ \<Rightarrow> False"
    by code_simp
  then have "\<exists>r. fst (handle utc_zone (hd desk_calls) shop) = Created201 r"
    by (simp split: appointment_answer.splits)
  moreover have "calm_call (hd desk_calls)" by (simp add: desk_calls_def desk_call_calm)
  ultimately show ?thesis using created_means_booked by (metis prod.collapse)
qed

text \<open>C11. Tenant isolation of status changes: whatever appointment id an actor names, a status change
  never touches an appointment of a dealership the actor is not an employee of.\<close>

theorem status_change_isolated:
  assumes "backoff_contract retry" and "booking_inv d"
    and "ChangeAppointmentStatus env (calm retry) ev actorID i s t actual reason n d = (res, d')"
    and "x \<in> set (appointments d)" and "GetEmployeeDealership d actorID \<noteq> Inr (ap_dealership_id x)"
  shows "x \<in> set (appointments d')"
  by (rule change_frame [OF assms(1) _ assms(3-5)]) (use assms(2) in \<open>simp add: booking_inv_def\<close>)

lemma status_change_isolated_witness:
  "appointments shop2 ! 0 \<in> set (appointments (snd (ChangeAppointmentStatus (desk_env 90 0) (calm plain_retry)
     (\<lambda>k. 91) 31 100 NoStatus AppointmentCancelled None (Some ''x'') None shop2)))"
proof (rule status_change_isolated [OF plain_retry_contract _ prod.collapse [symmetric] shop2_mem(1)])
  show "booking_inv shop2" by (rule booking_reachable_inv [OF shop2_reachable])
  have "isl (GetEmployeeDealership shop2 31)" by code_simp
  then show "GetEmployeeDealership shop2 31 \<noteq> Inr (ap_dealership_id (appointments shop2 ! 0))" by auto
qed

text \<open>C12. Accountability: a successful status change appends exactly one audit event, of that
  appointment, with the scheduler user of the actor as its author.\<close>

theorem status_change_audited:
  assumes "backoff_contract retry" and "booking_inv d"
    and "ChangeAppointmentStatus env (calm retry) ev actorID i s t actual reason n d = (Inr u, d')"
  shows "\<exists>us e. GetSchedulerUserID d actorID = Inr us \<and> audits d' = audits d @ [e]
    \<and> au_appointment_id e = i \<and> au_actor_user_id e = Some us"
  by (rule change_audited [OF assms(1) _ assms(3)]) (use assms(2) in \<open>simp add: booking_inv_def\<close>)

lemma status_change_audited_witness:
  "\<exists>us e. GetSchedulerUserID shop2 30 = Inr us
    \<and> audits (snd (ChangeAppointmentStatus (desk_env 90 0) (calm plain_retry) (\<lambda>k. 91) 30 100
         NoStatus AppointmentCancelled None (Some ''x'') None shop2)) = audits shop2 @ [e]
    \<and> au_appointment_id e = 100 \<and> au_actor_user_id e = Some us"
proof -
  have "fst (ChangeAppointmentStatus (desk_env 90 0) (calm plain_retry) (\<lambda>k. 91) 30 100
      NoStatus AppointmentCancelled None (Some ''x'') None shop2) = Inr ()"
    by code_simp
  then show ?thesis
    using status_change_audited [OF plain_retry_contract booking_reachable_inv [OF shop2_reachable]]
    by (metis prod.collapse)
qed

section \<open>Transactions\<close>

text \<open>C13. The retry loop gives up after ten attempts and reports the last one: the state a
  transaction leaves is the one of a single attempt on a database nothing of the earlier,
  rolled back attempts is left in; it reports success exactly when that attempt did; and an error
  that is not a serialization failure reaches the caller unchanged.\<close>

theorem transaction_is_one_attempt:
  assumes "sound_world w" and "updateInTxWithIsolation w fn (c, s) = (r, (c', s'))"
  shows "\<exists>k<10. \<exists>ck sk rk. seen w s k sk
    \<and> updateInTx (w_faults w k) (fn k) (ck, sk) = (rk, (c', s'))
    \<and> (r = Inr () \<longleftrightarrow> rk = Inr ())
    \<and> (\<forall>e. rk = Inl e \<and> \<not> retryable_error e \<longrightarrow> r = Inl e)"
  by (rule updateInTxWithIsolation_attempt [OF assms]) blast

lemma transaction_is_one_attempt_witness:
  "\<exists>k<10. \<exists>ck sk rk. seen (calm plain_retry :: (unit, int) world) 7 k sk
    \<and> updateInTx (w_faults (calm plain_retry :: (unit, int) world) k) (\<lambda>(c, s). (Inr (), (c, s + 1))) (ck, sk)
        = (rk, ((), 8))
    \<and> rk = Inr ()"
proof -
  have "updateInTxWithIsolation (calm plain_retry) (\<lambda>i (c, s). (Inr (), (c, s + 1))) ((), 7 :: int) = (Inr (), ((), 8))"
    by (rule calm_run(1) [OF plain_retry_contract]) simp
  from transaction_is_one_attempt [OF calm_sound [OF plain_retry_contract] this] show ?thesis by simp
qed

text \<open>A business error is final: when the first attempt of a transaction fails with an error that
  is not a serialization failure, it is not retried, the caller gets that very error and the
  database is untouched.\<close>

theorem business_error_not_retried:
  assumes "backoff_contract retry" and "fn 0 (c, s) = (Inl e, (c1, s1))" and "\<not> retryable_error e"
  shows "updateInTxWithIsolation (calm retry) fn (c, s) = (Inl e, (c1, s))"
  using assms by (rule calm_run(2))

lemma business_error_not_retried_witness:
  "updateInTxWithIsolation (calm plain_retry) (\<lambda>i (c, s). (Inl (AppAppointmentErr ErrAppointmentUnavailable), (c + i, s + 1)))
     (5 :: nat, 7 :: int) = (Inl (AppAppointmentErr ErrAppointmentUnavailable), (5, 7))"
  by (rule business_error_not_retried [OF plain_retry_contract]) (simp, code_simp)

section \<open>The appointment lifecycle\<close>

text \<open>Lifecycles end: an appointment that starts as requested takes at most four domain operations
  (three when it is not cancelled on the way), and once it is completed or cancelled every further
  operation is refused.\<close>

theorem lifecycle_ends:
  assumes "run_events es a = Inr b" and "a_status a = AppointmentRequested"
  shows "length es \<le> 4 \<and> (\<not> active_status (a_status b) \<longrightarrow> (\<forall>e. \<exists>err. apply_event e b = Inl err))"
proof -
  have run: "lifecycle a es b" by (rule run_events_lifecycle [OF assms(1)])
  have known: "known_status (a_status b)"
    using run assms(2) by (cases rule: lifecycle.cases) (auto dest: apply_event_edge lifecycle_edge_known)
  then have "status_rank (a_status b) \<le> 4" by (cases "a_status b") simp_all
  then have "length es \<le> 4" using lifecycle_rank [OF run] by simp
  moreover have "\<exists>err. apply_event e b = Inl err" if "\<not> active_status (a_status b)" for e
    using that apply_event_edge [of e b] lifecycle_edge_active by (cases "apply_event e b") auto
  ultimately show ?thesis by blast
qed

lemma lifecycle_ends_witness:
  "\<exists>a b. run_events [EvCheckIn (monday 545), EvStart (monday 550), EvComplete (monday 590)] a = Inr b
    \<and> \<not> active_status (a_status b) \<and> (\<forall>e. \<exists>err. apply_event e b = Inl err)"
proof -
  define a where "a = (case NewAppointment 1 (monday 540) (monday 600) of Inr a \<Rightarrow> a)"
  define r where "r = run_events [EvCheckIn (monday 545), EvStart (monday 550), EvComplete (monday 590)] a"
  have "case r of Inl e \<Rightarrow> False | Inr b \<Rightarrow> \<not> active_status (a_status b)"
    unfolding r_def a_def by code_simp
  then obtain b where b: "r = Inr b" "\<not> active_status (a_status b)" by (auto split: sum.splits)
  have "a_status a = AppointmentRequested" unfolding a_def by code_simp
  then show ?thesis using b lifecycle_ends [of _ a b] unfolding r_def by blast
qed

section \<open>The workforce\<close>

text \<open>C16. Deactivating a technician is guarded: it succeeds only for a technician of the admin's own
  dealership, an active one only without unfinished appointments that end in the future; no
  appointment and no other technician changes.\<close>

theorem deactivation_guarded:
  assumes "DeactivateTechnician pa env actorID technicianID d = (Inr u, d')"
  shows "\<exists>dl t. GetGlobalAdminDealership d actorID = Inr dl \<and> GetTechnician pa d dl technicianID = Inr t
    \<and> (t_isActive t \<longrightarrow> (\<forall>a\<in>set (appointments d). ap_technician_id a = technicianID \<and> ap_active a
          \<and> ap_deleted_at a = None \<longrightarrow> ap_ends_at a \<le> to_pg (sv_now env 0)))
    \<and> appointments d' = appointments d
    \<and> filter (\<lambda>t. te_id t \<noteq> technicianID) (technicians d') = filter (\<lambda>t. te_id t \<noteq> technicianID) (technicians d)"
proof -
  obtain dl t where *: "GetGlobalAdminDealership d actorID = Inr dl" "GetTechnician pa d dl technicianID = Inr t"
      "if t_isActive t
       then \<not> HasFutureActiveTechnicianAppointments d technicianID (sv_now env 0)
          \<and> DeactivateTechnician_repo dl technicianID (sv_now env 1) d = (Inr (), d')
       else d' = d"
    using DeactivateTechnician_ok [OF assms] by blast
  show ?thesis
  proof (cases "t_isActive t")
    case True
    then have none: "\<not> HasFutureActiveTechnicianAppointments d technicianID (sv_now env 0)"
      and run: "DeactivateTechnician_repo dl technicianID (sv_now env 1) d = (Inr (), d')"
      using *(3) by simp_all
    have "appointments d' = appointments d"
      using arg_cong [OF DeactivateTechnician_repo_ok(2) [OF run], of appointments] by simp
    then show ?thesis
      using *(1,2) none DeactivateTechnician_repo_ok(3) [OF run]
      by (auto simp: HasFutureActiveTechnicianAppointments_def list_ex_iff ap_active_def not_less)
  next
    case False
    then show ?thesis using * by auto
  qed
qed

lemma deactivation_guarded_witness:
  "\<exists>dl t. GetGlobalAdminDealership shop 30 = Inr dl \<and> GetTechnician Some shop dl 10 = Inr t
    \<and> (t_isActive t \<longrightarrow> (\<forall>a\<in>set (appointments shop). ap_technician_id a = 10 \<and> ap_active a
          \<and> ap_deleted_at a = None \<longrightarrow> ap_ends_at a \<le> to_pg (sv_now (desk_env 90 0) 0)))
    \<and> appointments (snd (DeactivateTechnician Some (desk_env 90 0) 30 10 shop)) = appointments shop
    \<and> filter (\<lambda>t. te_id t \<noteq> 10) (technicians (snd (DeactivateTechnician Some (desk_env 90 0) 30 10 shop)))
        = filter (\<lambda>t. te_id t \<noteq> 10) (technicians shop)"
proof -
  have "fst (DeactivateTechnician Some (desk_env 90 0) 30 10 shop) = Inr ()" by code_simp
  then show ?thesis using deactivation_guarded by (metis prod.collapse)
qed

text \<open>The guard has a hole: updating a technician with \<open>is_active = false\<close> deactivates one who still
  has an unfinished appointment, which the deactivation endpoint refuses.\<close>

theorem update_bypasses_deactivation_guard:
  "HasFutureActiveTechnicianAppointments shop2 10 (monday 0)
   \<and> (\<exists>e. fst (DeactivateTechnician Some (desk_env 90 0) 30 10 shop2) = Inl e)
   \<and> map_sum id t_isActive (fst (UpdateTechnician Some (desk_env 90 0) 30 10
        \<lparr>ut_Name = None, ut_Phone = None, ut_Email = None, ut_EmailPresent = False, ut_IsActive = Some False\<rparr>
        shop2)) = Inr False"
proof -
  have "\<exists>e. r = Inl e" if "isl r" for r :: "go_error + unit" using that by (cases r) auto
  moreover have "isl (fst (DeactivateTechnician Some (desk_env 90 0) 30 10 shop2))" by code_simp
  moreover have "HasFutureActiveTechnicianAppointments shop2 10 (monday 0)" by code_simp
  moreover have "map_sum id t_isActive (fst (UpdateTechnician Some (desk_env 90 0) 30 10
        \<lparr>ut_Name = None, ut_Phone = None, ut_Email = None, ut_EmailPresent = False, ut_IsActive = Some False\<rparr>
        shop2)) = Inr False" by code_simp
  ultimately show ?thesis by blast
qed

text \<open>C17. Shifts can be created but never changed or deleted: the query that looks for future
  appointments outside the shift reads a column the schema does not have, so every update and
  every deletion of a shift ends in an error and leaves the database alone.\<close>

theorem shifts_immutable:
  "refuses (UpdateTechnicianShift pa zone tz env actorID technicianID shiftID input)
   \<and> refuses (DeleteTechnicianShift pa zone tz env actorID technicianID shiftID)"
  using UpdateTechnicianShift_refuses DeleteTechnicianShift_refuses by blast

section \<open>Bounds\<close>



text \<open>Beyond that bound the int64 product of minutes and nanoseconds wraps: with a service type that
  allows it, a booking of 307445735 minutes is accepted within one day's opening hours and
  occupies 26 seconds.\<close>

theorem duration_overflow:
  "fst (ScheduleAppointment_tx utc_zone ids1 (booking_request 100 ''A-1'' 540 307445735, shop_long)) = Inr ()
   \<and> map (\<lambda>a. (ap_planned_duration_minutes a, ap_ends_at a - ap_starts_at a))
       (appointments (snd (snd (ScheduleAppointment_tx utc_zone ids1
          (booking_request 100 ''A-1'' 540 307445735, shop_long))))) = [(Some 307445735, 26290448)]"
  by code_simp

section \<open>Tenancy\<close>

text \<open>Technician skills are not scoped to a dealership: an admin of one dealership can give a
  skill to a technician of another one.\<close>

lemma technician_skill_cross_tenant:
  "GetEmployeeDealership two_shops 41 = Inr 20
   \<and> technician_in_dealership two_shops 10 1 \<and> \<not> technician_in_dealership two_shops 10 20
   \<and> map_sum id ts_technicianID (fst (CreateTechnicianSkill (desk_env 90 0) 41 10 77 two_shops)) = Inr 10"
  by code_simp

section \<open>The catalog\<close>

text \<open>The whole program stays consistent: after any sequence of requests to the appointment,
  workforce and catalog endpoints, whatever fails around their transactions and whatever other
  sessions commit in between, the booking invariant holds, every unique index of the catalog holds
  and every appointment refers to a service type and a bay that exist.\<close>

theorem program_stays_consistent:
  assumes "list_all (surroundings_keep system_inv) rs" and "system_inv d"
  shows "system_inv (fold (request_step zone) rs d)"
  by (rule program.requests_keep [OF assms])

lemma program_stays_consistent_witness: "system_inv (fold (request_step utc_zone) day_requests shop)"
  by (rule program_stays_consistent [OF day_requests_ok shop_system_inv])



text \<open>C21. Identities are unique: after any sequence of requests no two customers share a phone
  number, no two undeleted service types of a dealership a name and no two undeleted bays a code
  (upper and lower case do not count), and a customer has at most one dealership.\<close>

theorem catalog_identities_unique:
  assumes "list_all (surroundings_keep system_inv) rs" and "system_inv d0" and "d = fold (request_step zone) rs d0"
  shows "distinct (map cu_phone (customers d))
    \<and> conflict_free service_type_name_clash (service_types d) \<and> conflict_free bay_code_clash (service_bays d)
    \<and> distinct (map cd_customer_id (customer_dealerships d))"
proof -
  have "catalog_indexes d" using program.requests_keep [OF assms(1,2)] assms(3) by (simp add: system_inv_def)
  then show ?thesis
    by (auto simp: catalog_indexes_def unique_rows_def table_defs conflict_free_same_key)
qed

lemma catalog_identities_unique_witness:
  "distinct (map cu_phone (customers (fold (request_step utc_zone) day_requests shop)))
    \<and> conflict_free service_type_name_clash (service_types (fold (request_step utc_zone) day_requests shop))
    \<and> conflict_free bay_code_clash (service_bays (fold (request_step utc_zone) day_requests shop))
    \<and> distinct (map cd_customer_id (customer_dealerships (fold (request_step utc_zone) day_requests shop)))"
  by (rule catalog_identities_unique [OF day_requests_ok shop_system_inv refl])

text \<open>Tenant isolation of the catalog: a catalog request of someone who is not an active admin of a
  dealership leaves the service types, bays and opening hours of that dealership as they are, whatever
  the request names.\<close>

theorem catalog_writes_isolated:
  assumes "backoff_contract retry" and "cat_world x = calm retry"
    and "\<not> IsActiveSchedulerAdminForDealership d actorID dealershipID"
    and "catalog_use_case x env actorID req d = (res, d')"
  shows "tenant_rows dealershipID d' = tenant_rows dealershipID d"
  by (rule tenant_isolated [OF assms])

lemma catalog_writes_isolated_witness:
  "tenant_rows 1 (snd (catalog_use_case catalog_desk (desk_env 300 10) 41 (CatDeleteServiceType 20 6) two_shops))
     = tenant_rows 1 two_shops"
proof (rule catalog_writes_isolated [OF plain_retry_contract _ _ prod.collapse [symmetric]])
  show "cat_world catalog_desk = calm plain_retry" by (simp add: catalog_desk_def)
  show "\<not> IsActiveSchedulerAdminForDealership two_shops 41 1" by code_simp
qed



text \<open>C24. A claimed customer stays with its dealership: once a customer belongs to a dealership, no
  sequence of requests moves it to another one or releases it.\<close>

theorem customer_claims_permanent:
  assumes "list_all (surroundings_keep (claimed customerID dealershipID)) rs"
    and "CustomerBelongsToDealership d customerID dealershipID"
  shows "CustomerBelongsToDealership (fold (request_step zone) rs d) customerID dealershipID"
  using program_claims.requests_keep [OF assms(1)] assms(2) by (simp add: claimed_def)

lemma customer_claims_permanent_witness:
  "CustomerBelongsToDealership (fold (request_step utc_zone) day_requests shop) 4 1"
  by (rule customer_claims_permanent [OF day_requests_ok]) code_simp

text \<open>A vehicle of another dealership's customer is refused: the manager gets a 403 problem and
  nothing is stored, neither the vehicle nor a claim.\<close>

theorem foreign_vehicle_forbidden:
  assumes "backoff_contract retry" and "actorID \<noteq> uuid_Nil"
    and "GetActiveVehicleManagerDealership d actorID = Inr dealershipID"
    and "NewVehicle (sv_newID env 0) customerID (cv_VIN input) (cv_RegistrationPlate input) (cv_Make input)
           (cv_Model input) (cv_ModelYear input) (sv_now env 0) = Inr v"
    and "\<exists>r. GetCustomerByID d customerID = Inr r"
    and "CustomerBelongsToDealership d customerID other" and "other \<noteq> dealershipID"
  shows "CreateVehicle (calm retry) clock env actorID customerID input d =
    (Inl (NewForbiddenError ''vehicle_access_forbidden'' ''you are not allowed to manage vehicles for this customer''), d)"
  by (rule foreign_vehicle_refused [OF assms(1-5)]) (use assms(6,7) in \<open>simp_all add: claimed_def\<close>)

lemma foreign_vehicle_forbidden_witness:
  "CreateVehicle (calm plain_retry) (\<lambda>i. 0) (desk_env 300 10) 41 4 golf_input two_shops =
    (Inl (NewForbiddenError ''vehicle_access_forbidden'' ''you are not allowed to manage vehicles for this customer''), two_shops)"
proof -
  have "case NewVehicle (sv_newID (desk_env 300 10) 0) 4 (cv_VIN golf_input) (cv_RegistrationPlate golf_input)
      (cv_Make golf_input) (cv_Model golf_input) (cv_ModelYear golf_input) (sv_now (desk_env 300 10) 0) of
      Inl e \<Rightarrow> False | Inr v \<Rightarrow> True" by code_simp
  then obtain v where v: "NewVehicle (sv_newID (desk_env 300 10) 0) 4 (cv_VIN golf_input) (cv_RegistrationPlate golf_input)
      (cv_Make golf_input) (cv_Model golf_input) (cv_ModelYear golf_input) (sv_now (desk_env 300 10) 0) = Inr v"
    by (auto split: sum.splits)
  have "\<not> isl (GetCustomerByID two_shops 4)" by code_simp
  then have customer: "\<exists>r. GetCustomerByID two_shops 4 = Inr r" by (cases "GetCustomerByID two_shops 4") auto
  show ?thesis
  proof (rule foreign_vehicle_forbidden [OF plain_retry_contract _ _ v customer])
    show "(41 :: uuid) \<noteq> uuid_Nil" by (simp add: uuid_Nil_def)
    show "GetActiveVehicleManagerDealership two_shops 41 = Inr 20" by code_simp
    show "CustomerBelongsToDealership two_shops 4 1" by code_simp
    show "(1 :: uuid) \<noteq> 20" by simp
  qed
qed



text \<open>Beyond 32 bits it does not: the durations are cut to int32 when they are stored. A service
  type of 4294967356 minutes is accepted and echoed, and stored with 60 minutes.\<close>

lemma service_type_duration_truncated:
  "map_sum id st_maxDurationMinutes (fst (CreateServiceType (desk_env 300 10) 30 1 (type_input ''Tyres'' 4294967356) shop))
     = Inr 4294967356
   \<and> map_sum id st_maxDurationMinutes (fst (GetServiceType 30 1 300
        (snd (CreateServiceType (desk_env 300 10) 30 1 (type_input ''Tyres'' 4294967356) shop)))) = Inr 60"
  by code_simp



text \<open>C28. Customers are found by phone: after a customer was created, a search with any spelling of
  the phone number that normalises to the same number returns exactly that customer.\<close>

theorem customer_found_by_phone:
  assumes "CreateCustomer pa env actorID input d = (Inr c, d')"
    and "normalizePhone_app phone = normalizePhone_app (cc_Phone input)"
  shows "SearchCustomers pa actorID (Some phone) None d' = (Inr [c], d')"
  by (rule create_then_search_customer [OF assms])

lemma customer_found_by_phone_witness:
  "\<exists>c. fst (SearchCustomers Some 30 (Some '' +1 (555) 777-88'') None
     (snd (CreateCustomer Some (desk_env 300 10) 30 \<lparr>cc_Name = ''Dan'', cc_Phone = ''+155577788'', cc_Email = None\<rparr> shop)))
     = Inr [c]"
proof -
  have "\<not> isl (fst (CreateCustomer Some (desk_env 300 10) 30 \<lparr>cc_Name = ''Dan'', cc_Phone = ''+155577788'', cc_Email = None\<rparr> shop))"
    by code_simp
  then obtain c where "fst (CreateCustomer Some (desk_env 300 10) 30 \<lparr>cc_Name = ''Dan'', cc_Phone = ''+155577788'', cc_Email = None\<rparr> shop) = Inr c"
    by (metis sum.collapse(2))
  moreover have "normalizePhone_app '' +1 (555) 777-88'' = normalizePhone_app ''+155577788''" by code_simp
  ultimately show ?thesis
    using customer_found_by_phone [of Some _ _ "\<lparr>cc_Name = ''Dan'', cc_Phone = ''+155577788'', cc_Email = None\<rparr>"]
    by (metis CreateCustomerInput.select_convs(2) fst_conv prod.collapse)
qed

text \<open>A capability required twice is not recognised: PostgreSQL reports the index name cut to 63
  characters, the repository compares it with the full name of 73, so the driver's error reaches
  the caller as it is instead of the conflict the code means to report.\<close>

theorem duplicate_required_capability_unrecognised:
  assumes "service_type_of_dealership dealershipID i d" and "BayCapabilityExists d k"
    and "\<forall>r\<in>set (required_capabilities d). rcap_id r \<noteq> j"
    and "\<exists>r\<in>set (required_capabilities d). rcap_service_type_id r = i \<and> rcap_bay_capability_id r = k"
    and "NewServiceTypeRequiredBayCapability j i k now = Inr x"
  shows "\<exists>e. CreateServiceTypeRequiredBayCapability_repo dealershipID x d = (Inl e, d)
    \<and> as_pg e = Some (''23505'', ''service_type_required_bay_capabilities_service_type_bay_capabil'')
    \<and> \<not> errors_is e (AppCatalogErr ErrServiceTypeRequiredBayCapabilityTaken)"
proof -
  have x: "x = \<lparr>rc_id = j, rc_serviceTypeID = i, rc_bayCapabilityID = k, rc_capabilityCode = [], rc_capabilityName = [],
      rc_createdAt = time_UTC now, rc_updatedAt = time_UTC now\<rparr>"
    using assms(5) by (auto simp: NewServiceTypeRequiredBayCapability_def split: if_splits)
  have "as_pg (unique_index ''service_type_required_bay_capabilities_service_type_bay_capability_unique'')
      = Some (''23505'', ''service_type_required_bay_capabilities_service_type_bay_capabil'')"
    and "\<not> errors_is (unique_index ''service_type_required_bay_capabilities_service_type_bay_capability_unique'')
      (AppCatalogErr ErrServiceTypeRequiredBayCapabilityTaken)" by code_simp+
  then show ?thesis using duplicate_capability_raw [OF assms(1,2) x assms(3,4)] by blast
qed

lemma duplicate_required_capability_unrecognised_witness:
  "\<exists>e. CreateServiceTypeRequiredBayCapability_repo 1
        \<lparr>rc_id = 62, rc_serviceTypeID = 6, rc_bayCapabilityID = 60, rc_capabilityCode = [], rc_capabilityName = [],
         rc_createdAt = monday 0, rc_updatedAt = monday 0\<rparr> shop_lift = (Inl e, shop_lift)
    \<and> as_pg e = Some (''23505'', ''service_type_required_bay_capabilities_service_type_bay_capabil'')
    \<and> \<not> errors_is e (AppCatalogErr ErrServiceTypeRequiredBayCapabilityTaken)"
proof (rule duplicate_required_capability_unrecognised)
  show "service_type_of_dealership 1 6 shop_lift" by code_simp
  show "BayCapabilityExists shop_lift 60" by code_simp
  show "NewServiceTypeRequiredBayCapability 62 6 60 (monday 0) = Inr
      \<lparr>rc_id = 62, rc_serviceTypeID = 6, rc_bayCapabilityID = 60, rc_capabilityCode = [], rc_capabilityName = [],
       rc_createdAt = monday 0, rc_updatedAt = monday 0\<rparr>"
    by (simp add: NewServiceTypeRequiredBayCapability_def uuid_Nil_def monday_def time_UTC_def)
qed (simp_all add: shop_lift_def)

text \<open>C29. A bookable request is booked: when nothing fails around it, a request of an employee that the
  rules allow is answered with 201, and the database then has the appointment.\<close>

theorem bookable_request_created:
  assumes "calm_call c" and "booking_inv d" and "c_request c = ReqSchedule (Some input)"
    and "validate_schedule_input input = Inr ()"
    and "GetEmployeeDealership d (c_actor c) = Inr dl" and "GetSchedulerUserID d (c_actor c) = Inr us"
    and "bookable zone (c_ids c 0) (schedule_record (c_env c) input dl us) d maxDuration"
  shows "handle zone c d = (Created201 (schedule_record (c_env c) input dl us),
    booked (resolved maxDuration (schedule_record (c_env c) input dl us)) (c_ids c 0) d)"
  by (rule calm_bookable_created [OF assms])

lemma bookable_request_created_witness:
  "handle utc_zone (hd desk_calls) shop = (Created201 (schedule_record (desk_env 50 0) (monday_input 540 None) 1 3),
    booked (resolved 60 (schedule_record (desk_env 50 0) (monday_input 540 None) 1 3)) (c_ids (hd desk_calls) 0) shop)"
proof -
  let ?r = "schedule_record (desk_env 50 0) (monday_input 540 None) 1 3"
  have c: "c_request (hd desk_calls) = ReqSchedule (Some (monday_input 540 None))" "c_env (hd desk_calls) = desk_env 50 0"
    by (simp_all add: desk_calls_def desk_call_def)
  have "fst (ScheduleAppointment_tx utc_zone (c_ids (hd desk_calls) 0) (?r, shop)) = Inr ()" by code_simp
  from schedule_iff_bookable [OF shop_inv, THEN iffD1, OF fst_Inr_run [OF this]]
  obtain mx where mx: "bookable utc_zone (c_ids (hd desk_calls) 0) ?r shop mx" by blast
  have "GetActiveServiceTypeDuration shop (sar_ServiceTypeID ?r) (sar_DealershipID ?r) = Inr (30, 60)" by code_simp
  then have "mx = 60" using mx by (auto simp: bookable_def)
  have calls: "calm_call (hd desk_calls)" by (simp add: desk_calls_def desk_call_calm)
  have "validate_schedule_input (monday_input 540 None) = Inr ()" by code_simp
  moreover have "GetEmployeeDealership shop (c_actor (hd desk_calls)) = Inr 1" by code_simp
  moreover have "GetSchedulerUserID shop (c_actor (hd desk_calls)) = Inr 3" by code_simp
  ultimately show ?thesis
    using bookable_request_created [OF calls shop_inv c(1), of 1 3 utc_zone 60] mx \<open>mx = 60\<close> unfolding c(2) by blast
qed

section \<open>Queries\<close>

text \<open>C30. The free bays are exactly the bookable ones: a bay is listed for a service type and a period
  iff it passes the compatibility check of a booking and no active appointment of it overlaps the
  period.\<close>

theorem available_bays_exact:
  assumes "system_inv d" and "AvailableServiceBays_List collate input d = (Inr bays, d')"
  shows "i \<in> sb_id ` set bays \<longleftrightarrow>
    IsCompatibleServiceBay d i (lab_DealershipID input) (lab_ServiceTypeID input)
    \<and> (\<forall>a\<in>set (appointments d). ap_active a \<and> ap_service_bay_id a = i \<longrightarrow>
        \<not> overlaps (to_pg (lab_StartsAt input)) (to_pg (lab_EndsAt input)) (ap_starts_at a) (ap_ends_at a))"
proof -
  have "ListAvailableServiceBays_repo collate d (lab_DealershipID input) (lab_ServiceTypeID input)
      (time_UTC (lab_StartsAt input)) (time_UTC (lab_EndsAt input)) = Inr bays"
    using assms(2) unfolding AvailableServiceBays_List_def ok_iff
    by (auto simp: ok_iff query_def query_res_def split: sum.splits)
  moreover have "\<forall>a\<in>set (appointments d). ap_deleted_at a = None"
    using assms(1) by (auto simp: system_inv_def reference_defs list_all_iff)
  ultimately show ?thesis using listed_bays bay_available_iff by (simp add: to_pg_def time_UTC_def)
qed

lemma available_bays_exact_witness:
  "\<exists>bays. fst (AvailableServiceBays_List id \<lparr>lab_ActorUserID = 30, lab_DealershipID = 1, lab_ServiceTypeID = 6,
      lab_StartsAt = monday 540, lab_EndsAt = monday 600\<rparr> shop) = Inr bays \<and> 9 \<in> sb_id ` set bays"
proof -
  let ?q = "\<lparr>lab_ActorUserID = 30, lab_DealershipID = 1, lab_ServiceTypeID = 6,
      lab_StartsAt = monday 540, lab_EndsAt = monday 600\<rparr>"
  have "\<not> isl (fst (AvailableServiceBays_List id ?q shop))" by code_simp
  then obtain bays d' where run: "AvailableServiceBays_List id ?q shop = (Inr bays, d')"
    by (metis prod.collapse sum.collapse(2))
  have "IsCompatibleServiceBay shop 9 1 6" by code_simp
  moreover have "appointments shop = []" by (simp add: shop_def empty_db_def)
  ultimately have "9 \<in> sb_id ` set bays" using available_bays_exact [OF shop_system_inv run, of 9] by simp
  then show ?thesis using run by auto
qed

text \<open>C31. The schedule of the technicians is complete and exact: when appointments are asked for, a
  technician's occupied slots show an appointment iff it is an active one of that technician in the
  dealership that overlaps the day. The joins with the service type and the bay lose none, because
  no appointment dangles.\<close>

theorem technician_schedule_exact:
  assumes "system_inv d" and "TechnicianSchedule_List tzdata input d = (Inr r, d')"
    and "lts_Include input = [] \<or> ''appointments'' \<in> set (lts_Include input)"
  shows "(\<exists>t\<in>set (tr_Technicians r). rt_TechnicianID t = i \<and> (\<exists>s\<in>set (rt_OccupiedSlots t). os_AppointmentID s = Some k))
    \<longleftrightarrow> i \<in> rt_TechnicianID ` set (tr_Technicians r)
      \<and> (\<exists>a\<in>set (appointments d). ap_id a = k \<and> ap_technician_id a = i \<and> ap_active a
          \<and> ap_dealership_id a = lts_DealershipID input
          \<and> overlaps (ap_starts_at a) (ap_ends_at a) (to_pg (tr_PeriodStartsAt r)) (to_pg (tr_PeriodEndsAt r)))"
proof -
  obtain included offs localStart where inc: "parseTechnicianScheduleIncludes (lts_Include input) = Inr included"
    and ts: "tr_Technicians r = filled_technicians d included (lts_DealershipID input) (lts_TechnicianID input) offs
       (tr_Timezone r) localStart (tr_PeriodStartsAt r) (tr_PeriodEndsAt r)
       (map result_technician (ListActiveTechniciansForSchedule d (lts_DealershipID input) (lts_TechnicianID input)))"
    using TechnicianSchedule_List_ok [OF assms(2)] by blast
  have inc: "inc_appointments included" using includes_appointments [OF inc] assms(3) by simp
  have refs: "references_ok d" using assms(1) by (simp add: system_inv_def)
  have ids: "rt_TechnicianID ` set (tr_Technicians r) =
      tst_TechnicianID ` set (ListActiveTechniciansForSchedule d (lts_DealershipID input) (lts_TechnicianID input))"
    unfolding ts filled_technicians_ids by (force simp: result_technician_def)
  have shown: "(\<exists>t\<in>set (tr_Technicians r). rt_TechnicianID t = i \<and> (\<exists>s\<in>set (rt_OccupiedSlots t). os_AppointmentID s = Some k))
      \<longleftrightarrow> (\<exists>s\<in>shown i (tr_Technicians r). os_AppointmentID s = Some k)"
    by (auto simp: shown_def)
  show ?thesis
    unfolding shown ids unfolding ts filled_technicians_appointments [OF inc] schedule_appointments_listed [OF refs]
      listed_technicians by blast
qed

lemma technician_schedule_exact_witness:
  "\<exists>r. fst (TechnicianSchedule_List (\<lambda>z. Some (\<lambda>t. 0)) monday_schedule shop_day) = Inr r
     \<and> (\<exists>t\<in>set (tr_Technicians r). rt_TechnicianID t = 10 \<and>
          (\<exists>s\<in>set (rt_OccupiedSlots t). os_AppointmentID s = Some 50))"
proof -
  let ?run = "TechnicianSchedule_List (\<lambda>z. Some (\<lambda>t. 0)) monday_schedule shop_day"
  have "\<not> isl (fst ?run)" by code_simp
  then obtain r d' where run: "?run = (Inr r, d')" by (metis prod.collapse sum.collapse(2))
  then have r: "r = projr (fst ?run)" by simp
  have "10 \<in> rt_TechnicianID ` set (tr_Technicians (projr (fst ?run)))
      \<and> (\<exists>a\<in>set (appointments shop_day). ap_id a = 50 \<and> ap_technician_id a = 10 \<and> ap_active a
          \<and> ap_dealership_id a = lts_DealershipID monday_schedule
          \<and> overlaps (ap_starts_at a) (ap_ends_at a) (to_pg (tr_PeriodStartsAt (projr (fst ?run))))
              (to_pg (tr_PeriodEndsAt (projr (fst ?run)))))"
    by code_simp
  then have "\<exists>t\<in>set (tr_Technicians r). rt_TechnicianID t = 10 \<and>
      (\<exists>s\<in>set (rt_OccupiedSlots t). os_AppointmentID s = Some 50)"
    using technician_schedule_exact [OF shop_day_inv run, of 10 50] by (simp add: r monday_schedule_def)
  then show ?thesis using run by auto
qed

section \<open>Retries\<close>

text \<open>C36. Retries are safe: concurrent requests with the same method, route and idempotency key succeed at
  most once a day. Of any two handlers that succeeded under one key, the later reserved it at least 24
  hours after the earlier, whatever the interleaving and whatever calls to the store fail, as long as a
  request ends within that time.\<close>

theorem one_success_per_key_and_day:
  assumes "(idem_step NewIdempotencyStore deadline req handlers)\<^sup>*\<^sup>* (idem_start now r s) st"
    and "0 < deadline" and "deadline \<le> 24 * Hour"
    and "i < j" and "j < length (id_succeeded st)" and "fst (id_succeeded st ! i) = fst (id_succeeded st ! j)"
  shows "snd (id_succeeded st ! i) + 24 * Hour \<le> snd (id_succeeded st ! j)"
proof -
  have "sorted_wrt (\<lambda>x y. fst x = fst y \<longrightarrow> snd x + idempotencyKeyTTL \<le> snd y) (id_succeeded st)"
    using redis_store.successes_apart redis_store.reachable_inv [OF assms(1,2)] assms(3)
    by (simp add: idempotencyKeyTTL_def)
  then show ?thesis using assms(4-6) by (simp add: sorted_wrt_iff_nth_less idempotencyKeyTTL_def)
qed

definition book_twice :: "nat \<Rightarrow> idem_request" where
  "book_twice i = \<lparr>rq_Method = ''POST'', rq_Path = ''/appointments'', rq_IdempotencyID = '' a-1 ''\<rparr>"

definition count_request :: "nat \<Rightarrow> int \<Rightarrow> (go_error option \<times> int) \<times> int" where
  "count_request i n = ((None, 201), n + 1)"

lemma book_twice_key: "request_key (book_twice i) = Inr (Some ''idempotency:POST:/appointments:a-1'')"
proof -
  have "TrimSpace '' a-1 '' = ''a-1''" by code_simp
  then show ?thesis by (simp add: request_key_def book_twice_def isIdempotentWriteMethod_def idempotencyStoreKey_def)
qed

lemma book_alone:
  assumes "\<not> key_held (id_store st) ''idempotency:POST:/appointments:a-1'' (id_now st)" and "id_progress st i = None"
  shows "\<exists>st'. (idem_step NewIdempotencyStore (10 * Minute) book_twice count_request)\<^sup>*\<^sup>* st st'
    \<and> id_now st' = id_now st \<and> id_progress st' = (id_progress st)(i \<mapsto> Ended (Passed None 201))
    \<and> id_store st' = (id_store st)(''idempotency:POST:/appointments:a-1'' \<mapsto> id_now st + idempotencyKeyTTL)
    \<and> id_succeeded st' = id_succeeded st @ [(''idempotency:POST:/appointments:a-1'', id_now st)]"
proof -
  have "IdempotencyMiddleware NewIdempotencyStore None None (id_now st) (count_request i) (book_twice i) (id_store st, id_state st)
      = (Passed None 201, (id_store st)(''idempotency:POST:/appointments:a-1'' \<mapsto> id_now st + idempotencyKeyTTL), id_state st + 1)"
    using assms(1) by (simp add: IdempotencyMiddleware_def book_twice_key NewIdempotencyStore_def redis_Reserve_def SetNX_def
        count_request_def must_release_def)
  from middleware_is_steps [where serve = count_request and req = book_twice and i = i, OF this assms(2), of "10 * Minute"] show ?thesis
    by (intro exI conjI) (assumption, simp_all add: success_of_def book_twice_key must_release_def)
qed

lemma one_success_per_key_and_day_witness:
  "\<exists>st. (idem_step NewIdempotencyStore (10 * Minute) book_twice count_request)\<^sup>*\<^sup>* (idem_start 0 (\<lambda>k. None) 0) st
     \<and> length (id_succeeded st) = 2 \<and> snd (id_succeeded st ! 0) + 24 * Hour \<le> snd (id_succeeded st ! 1)"
proof -
  let ?steps = "idem_step NewIdempotencyStore (10 * Minute) book_twice count_request"
  let ?key = "''idempotency:POST:/appointments:a-1''"
  obtain st1 where st1: "?steps\<^sup>*\<^sup>* (idem_start 0 (\<lambda>k. None) 0) st1" "id_now st1 = 0"
    "id_progress st1 = [0 \<mapsto> Ended (Passed None 201)]" "id_store st1 = [?key \<mapsto> idempotencyKeyTTL]"
    "id_succeeded st1 = [(?key, 0)]"
    using book_alone [of "idem_start 0 (\<lambda>k. None) 0" 0] by (auto simp: idem_start_def key_held_def)
  let ?st2 = "st1\<lparr>id_now := 25 * Hour\<rparr>"
  have tick: "?steps st1 ?st2"
    by (rule idem_step.tick) (use st1 in \<open>auto simp: Hour_def active_def split: if_splits\<close>)
  have free: "\<not> key_held (id_store ?st2) ?key (id_now ?st2)"
    by (simp add: key_held_def st1 idempotencyKeyTTL_def Hour_def)
  have "id_progress ?st2 1 = None" by (simp add: st1)
  from book_alone [OF free this] obtain st where st: "?steps\<^sup>*\<^sup>* ?st2 st"
    "id_succeeded st = [(?key, 0), (?key, 25 * Hour)]" by (auto simp: st1)
  have reach: "?steps\<^sup>*\<^sup>* (idem_start 0 (\<lambda>k. None) 0) st"
    using st1(1) tick st(1) by (meson rtranclp.rtrancl_into_rtrancl rtranclp_trans)
  have "snd (id_succeeded st ! 0) + 24 * Hour \<le> snd (id_succeeded st ! 1)"
    by (rule one_success_per_key_and_day [OF reach]) (simp_all add: st(2) Minute_def Hour_def)
  then show ?thesis using reach st(2) by auto
qed

end
